(* ===== verification/Prelude.thy ===== *)
theory Prelude
  imports Complex_Main
begin

text \<open>
  What every component shares: the theorem collections of the development, decimal text of
  integers, the null-handling operators of the source language, and its stable
  \<open>Array.prototype.sort\<close>.

  Conventions. A string of the program is a \<open>string\<close> (a list of 8-bit characters, one
  per code unit; a character of a message literal outside that range, the dash or the arrow, is
  written as its UTF-8 bytes). \<open>T | null | undefined\<close> is \<open>'a option\<close> wherever the code
  does not tell \<open>null\<close> from \<open>undefined\<close>. Timestamps, identifiers and counts are
  \<open>int\<close>. A \<open>number\<close> that may be \<open>NaN\<close>, infinite or fractional is a
  \<open>jsnum\<close> of theory JsValue.
\<close>

named_theorems js_defs \<open>definitions of the language operators, unfolded together\<close>
named_theorems map_laws \<open>laws of the insertion-ordered map\<close>
named_theorems frame_laws \<open>what an operation leaves unchanged\<close>
named_theorems wf_intros \<open>well-formedness is kept by the operations\<close>

section \<open>Null handling\<close>

text \<open>\<open>a ?? b\<close>, and \<open>a || b\<close> on a string, on a nullable string and on a number.\<close>

definition nullish :: "'a option \<Rightarrow> 'a \<Rightarrow> 'a" where
  "nullish x d = (case x of None \<Rightarrow> d | Some v \<Rightarrow> v)"

definition str_or :: "string \<Rightarrow> string \<Rightarrow> string" where
  "str_or s d = (if s = [] then d else s)"

definition ostr_or :: "string option \<Rightarrow> string \<Rightarrow> string" where
  "ostr_or x d = (case x of None \<Rightarrow> d | Some s \<Rightarrow> if s = [] then d else s)"

text \<open>\<open>a || null\<close> on a nullable string and on a nullable number: falsy values become null.\<close>

definition ostr_truthy :: "string option \<Rightarrow> string option" where
  "ostr_truthy x = (case x of None \<Rightarrow> None | Some s \<Rightarrow> if s = [] then None else Some s)"

definition oint_truthy :: "int option \<Rightarrow> int option" where
  "oint_truthy x = (case x of None \<Rightarrow> None | Some n \<Rightarrow> if n = 0 then None else Some n)"

definition oint_or :: "int option \<Rightarrow> int \<Rightarrow> int" where
  "oint_or x d = (case x of None \<Rightarrow> d | Some n \<Rightarrow> if n = 0 then d else n)"

lemmas [js_defs] = nullish_def str_or_def ostr_or_def ostr_truthy_def oint_truthy_def oint_or_def

lemma nullish_simps [simp]: "nullish None d = d" "nullish (Some v) d = v"
  by (simp_all add: nullish_def)

lemma str_or_nonempty: "d \<noteq> [] \<Longrightarrow> str_or s d \<noteq> []"
  by (simp add: str_or_def)

lemma ostr_or_nonempty: "d \<noteq> [] \<Longrightarrow> ostr_or s d \<noteq> []"
  by (simp add: ostr_or_def split: option.split)

text \<open>\<open>s.split(d)\<close> for a one-character separator.\<close>

fun split_on :: "char \<Rightarrow> string \<Rightarrow> string list" where
  "split_on d [] = [[]]"
| "split_on d (c # cs) =
     (if c = d then [] # split_on d cs
      else case split_on d cs of l # ls \<Rightarrow> (c # l) # ls | [] \<Rightarrow> [[c]])"

text \<open>\<open>[a, b, c].filter(Boolean).join(sep)\<close>.\<close>

fun join_with :: "string \<Rightarrow> string list \<Rightarrow> string" where
  "join_with sep [] = []"
| "join_with sep [s] = s"
| "join_with sep (s # t # ss) = s @ sep @ join_with sep (t # ss)"

definition join_truthy :: "string \<Rightarrow> string option list \<Rightarrow> string" where
  "join_truthy sep xs = join_with sep [s. Some s \<leftarrow> xs, s \<noteq> []]"

section \<open>Decimal text\<close>

definition digit_char :: "nat \<Rightarrow> char" where
  "digit_char d = char_of (48 + d)"

definition digit_of :: "char \<Rightarrow> nat option" where
  "digit_of c = (let n = of_char c :: nat in if 48 \<le> n \<and> n \<le> 57 then Some (n - 48) else None)"

definition is_digit :: "char \<Rightarrow> bool" where
  "is_digit c = (digit_of c \<noteq> None)"

fun show_nat :: "nat \<Rightarrow> string" where
  "show_nat n = (if n < 10 then [digit_char n] else show_nat (n div 10) @ [digit_char (n mod 10)])"

declare show_nat.simps [simp del]

definition show_int :: "int \<Rightarrow> string" where
  "show_int i = (if i < 0 then CHR ''-'' # show_nat (nat (- i)) else show_nat (nat i))"

text \<open>The value of a digit string, left to right.\<close>

fun dec_value :: "nat \<Rightarrow> string \<Rightarrow> nat option" where
  "dec_value acc [] = Some acc"
| "dec_value acc (c # cs) =
     (case digit_of c of None \<Rightarrow> None | Some d \<Rightarrow> dec_value (acc * 10 + d) cs)"

lemma digit_char_numerals [simp]:
  "digit_char 0 = CHR ''0''" "digit_char (Suc 0) = CHR ''1''" "digit_char 1 = CHR ''1''"
  "digit_char 2 = CHR ''2''" "digit_char 3 = CHR ''3''" "digit_char 4 = CHR ''4''"
  "digit_char 5 = CHR ''5''" "digit_char 6 = CHR ''6''" "digit_char 7 = CHR ''7''"
  "digit_char 8 = CHR ''8''" "digit_char 9 = CHR ''9''"
  by (simp_all add: digit_char_def char_of_def bit_0)

lemma digit_of_digit_char [simp]: "d < 10 \<Longrightarrow> digit_of (digit_char d) = Some d"
  by (simp add: digit_of_def digit_char_def)

lemma is_digit_digit_char [simp]: "d < 10 \<Longrightarrow> is_digit (digit_char d)"
  by (simp add: is_digit_def)

lemma dec_value_append:
  "dec_value acc (xs @ ys) = (case dec_value acc xs of None \<Rightarrow> None | Some v \<Rightarrow> dec_value v ys)"
  by (induction xs arbitrary: acc) (auto split: option.split)

lemma show_nat_nonempty [simp]: "show_nat n \<noteq> []"
  by (subst show_nat.simps) simp

lemma show_nat_digits: "c \<in> set (show_nat n) \<Longrightarrow> is_digit c"
proof (induction n rule: show_nat.induct)
  case (1 n)
  show ?case
  proof (cases "n < 10")
    case True
    with "1.prems" show ?thesis by (simp add: show_nat.simps [of n])
  next
    case False
    with "1.prems" have "c \<in> set (show_nat (n div 10)) \<or> c = digit_char (n mod 10)"
      by (auto simp: show_nat.simps [of n])
    with "1.IH" False show ?thesis by auto
  qed
qed

lemma list_all_show_nat [simp]: "list_all is_digit (show_nat n)"
  by (auto simp: list_all_iff dest: show_nat_digits)

lemma dec_value_show_nat [simp]: "dec_value 0 (show_nat n) = Some n"
proof (induction n rule: show_nat.induct)
  case (1 n)
  show ?case
  proof (cases "n < 10")
    case True
    then show ?thesis by (simp add: show_nat.simps [of n])
  next
    case False
    with "1.IH" show ?thesis by (simp add: show_nat.simps [of n] dec_value_append)
  qed
qed

lemma dec_value_total: "list_all is_digit xs \<Longrightarrow> \<exists>v. dec_value acc xs = Some v"
  by (induction xs arbitrary: acc) (auto simp: is_digit_def split: option.split)

lemma show_nat_inj: "show_nat m = show_nat n \<Longrightarrow> m = n"
  by (metis dec_value_show_nat option.inject)

lemma not_digit_literals [simp]:
  "\<not> is_digit (CHR '':'')" "\<not> is_digit (CHR ''-'')" "\<not> is_digit (CHR ''+'')"
  "\<not> is_digit (CHR ''.'')" "\<not> is_digit (CHR ''x'')" "\<not> is_digit (CHR '','')"
  "\<not> is_digit (CHR ''e'')" "\<not> is_digit (CHR ''E'')"
  by (simp_all add: is_digit_def digit_of_def)

lemma show_int_nonempty [simp]: "show_int i \<noteq> []"
  by (simp add: show_int_def)

lemma show_int_chars: "c \<in> set (show_int i) \<Longrightarrow> is_digit c \<or> c = CHR ''-''"
  by (auto simp: show_int_def split: if_splits dest: show_nat_digits)

lemma show_int_inj: "show_int i = show_int j \<Longrightarrow> i = j"
proof -
  assume eq: "show_int i = show_int j"
  have hd_nat: "hd (show_nat n) \<noteq> CHR ''-''" for n
    by (metis show_nat_digits hd_in_set not_digit_literals(2) show_nat_nonempty)
  show "i = j"
  proof (cases "i < 0 \<longleftrightarrow> j < 0")
    case True
    with eq have "nat \<bar>i\<bar> = nat \<bar>j\<bar>"
      by (auto simp: show_int_def dest!: show_nat_inj split: if_splits)
    with True show ?thesis by (auto simp: abs_if split: if_splits)
  next
    case False
    with eq hd_nat show ?thesis
      by (metis list.sel(1) show_int_def)
  qed
qed

section \<open>Stable sorting\<close>

text \<open>
  \<open>Array.prototype.sort\<close> with a comparator is stable: here insertion from the right, with
  \<open>le a b\<close> standing for \<open>cmp(a, b) <= 0\<close>. Any stable sort computes the same list when the
  comparator is a total preorder (locale \<open>comparator\<close>).
\<close>

fun insert_by :: "('a \<Rightarrow> 'a \<Rightarrow> bool) \<Rightarrow> 'a \<Rightarrow> 'a list \<Rightarrow> 'a list" where
  "insert_by le x [] = [x]"
| "insert_by le x (y # ys) = (if le x y then x # y # ys else y # insert_by le x ys)"

fun sort_by :: "('a \<Rightarrow> 'a \<Rightarrow> bool) \<Rightarrow> 'a list \<Rightarrow> 'a list" where
  "sort_by le [] = []"
| "sort_by le (x # xs) = insert_by le x (sort_by le xs)"

lemma set_insert_by [simp]: "set (insert_by le x ys) = insert x (set ys)"
  by (induction ys) auto

lemma set_sort_by [simp]: "set (sort_by le xs) = set xs"
  by (induction xs) auto

lemma length_insert_by [simp]: "length (insert_by le x ys) = Suc (length ys)"
  by (induction ys) auto

lemma length_sort_by [simp]: "length (sort_by le xs) = length xs"
  by (induction xs) auto

lemma distinct_insert_by [simp]:
  "distinct (insert_by le x ys) = (x \<notin> set ys \<and> distinct ys)"
  by (induction ys) auto

lemma distinct_sort_by [simp]: "distinct (sort_by le xs) = distinct xs"
  by (induction xs) auto

lemma sort_by_eq_Nil [simp]: "sort_by le xs = [] \<longleftrightarrow> xs = []"
  by (metis length_0_conv length_sort_by)

lemma distinct_map_insert_by:
  "distinct (map f (insert_by le x ys)) = (f x \<notin> f ` set ys \<and> distinct (map f ys))"
  by (induction ys) auto

lemma distinct_map_sort_by [simp]: "distinct (map f (sort_by le xs)) = distinct (map f xs)"
  by (induction xs) (auto simp: distinct_map_insert_by)

lemma filter_insert_by: "\<not> P x \<Longrightarrow> filter P (insert_by le x ys) = filter P ys"
  by (induction ys) auto

locale comparator =
  fixes le :: "'a \<Rightarrow> 'a \<Rightarrow> bool"
  assumes total: "le x y \<or> le y x"
    and trans: "le x y \<Longrightarrow> le y z \<Longrightarrow> le x z"
begin

lemma sorted_insert_by: "sorted_wrt le ys \<Longrightarrow> sorted_wrt le (insert_by le x ys)"
proof (induction ys)
  case (Cons y ys)
  then show ?case using total trans by (auto intro: trans)
qed simp

lemma sorted_sort_by: "sorted_wrt le (sort_by le xs)"
  by (induction xs) (auto intro: sorted_insert_by)

text \<open>Stability: the elements of one equivalence class keep their order.\<close>

lemma stable_insert_by:
  assumes "\<And>u v. P u \<Longrightarrow> P v \<Longrightarrow> le u v" and "P x"
  shows "filter P (insert_by le x ys) = x # filter P ys"
  using assms by (induction ys) auto

lemma stable_sort_by:
  assumes "\<And>u v. P u \<Longrightarrow> P v \<Longrightarrow> le u v"
  shows "filter P (sort_by le xs) = filter P xs"
proof (induction xs)
  case (Cons x xs)
  then show ?case
    using assms stable_insert_by [of P x] by (cases "P x") (auto simp: filter_insert_by)
qed simp

text \<open>The elements after the first \<open>n\<close> are no better than the first \<open>n\<close>.\<close>

lemma take_drop_sorted:
  assumes "x \<in> set (take n (sort_by le xs))" and "y \<in> set (drop n (sort_by le xs))"
  shows "le x y"
proof -
  have "sorted_wrt le (take n (sort_by le xs) @ drop n (sort_by le xs))"
    using sorted_sort_by by simp
  with assms show ?thesis by (simp only: sorted_wrt_append)
qed

text \<open>Filtering and sorting commute, and sorting a sorted list changes nothing.\<close>

lemma filter_insert_sorted:
  assumes "sorted_wrt le ys" and "P x"
  shows "filter P (insert_by le x ys) = insert_by le x (filter P ys)"
  using assms
proof (induction ys)
  case (Cons y ys)
  show ?case
  proof (cases "le x y")
    case True
    then have "\<forall>z\<in>set ys. le x z" using Cons.prems by (auto intro: trans)
    then have "\<forall>z\<in>set (filter P ys). le x z" by simp
    then have "insert_by le x (filter P ys) = x # filter P ys"
      by (cases "filter P ys") simp_all
    with True Cons.prems show ?thesis by simp
  next
    case False
    with Cons show ?thesis by auto
  qed
qed simp

lemma filter_sort_by: "filter P (sort_by le xs) = sort_by le (filter P xs)"
proof (induction xs)
  case (Cons x xs)
  then show ?case
    using filter_insert_sorted [OF sorted_sort_by, of P x xs]
    by (cases "P x") (auto simp: filter_insert_by)
qed simp

lemma sort_by_sorted: "sorted_wrt le xs \<Longrightarrow> sort_by le xs = xs"
proof (induction xs)
  case (Cons x xs)
  then show ?case by (cases xs) auto
qed simp

end

section \<open>Lists\<close>

lemma length_filter_split:
  "length (filter P xs) + length (filter (\<lambda>x. \<not> P x) xs) = length xs"
  by (induction xs) auto

lemma find_Some_iff:
  "List.find P xs = Some x \<Longrightarrow> P x \<and> x \<in> set xs"
  by (induction xs) (auto split: if_splits)

lemma find_None_iff: "List.find P xs = None \<longleftrightarrow> (\<forall>x\<in>set xs. \<not> P x)"
  by (induction xs) auto

end
