(* ===== verification/JsMap.thy ===== *)
theory JsMap
  imports Prelude
begin

text \<open>
  The \<open>Map\<close> of the source language. It iterates in insertion order: \<open>set\<close> on a present key
  replaces the value in place, on an absent key appends. A map is therefore an association list,
  and its well-formedness is that the keys are distinct.
\<close>

type_synonym ('k, 'v) jsmap = "('k \<times> 'v) list"

fun jm_get :: "('k, 'v) jsmap \<Rightarrow> 'k \<Rightarrow> 'v option" where
  "jm_get [] k = None"
| "jm_get ((k', v) # m) k = (if k' = k then Some v else jm_get m k)"

definition jm_has :: "('k, 'v) jsmap \<Rightarrow> 'k \<Rightarrow> bool" where
  "jm_has m k = (jm_get m k \<noteq> None)"

fun jm_set :: "('k, 'v) jsmap \<Rightarrow> 'k \<Rightarrow> 'v \<Rightarrow> ('k, 'v) jsmap" where
  "jm_set [] k v = [(k, v)]"
| "jm_set ((k', v') # m) k v = (if k' = k then (k, v) # m else (k', v') # jm_set m k v)"

definition jm_delete :: "('k, 'v) jsmap \<Rightarrow> 'k \<Rightarrow> ('k, 'v) jsmap" where
  "jm_delete m k = filter (\<lambda>(k', v). k' \<noteq> k) m"

abbreviation jm_keys :: "('k, 'v) jsmap \<Rightarrow> 'k list" where
  "jm_keys m \<equiv> map fst m"

abbreviation jm_values :: "('k, 'v) jsmap \<Rightarrow> 'v list" where
  "jm_values m \<equiv> map snd m"

definition jm_wf :: "('k, 'v) jsmap \<Rightarrow> bool" where
  "jm_wf m = distinct (jm_keys m)"

text \<open>Updating the object a key refers to (\<open>const x = m.get(k); x.f = v\<close>).\<close>

definition jm_update :: "('k, 'v) jsmap \<Rightarrow> 'k \<Rightarrow> ('v \<Rightarrow> 'v) \<Rightarrow> ('k, 'v) jsmap" where
  "jm_update m k f = map (\<lambda>(k', v). (k', if k' = k then f v else v)) m"

section \<open>Laws\<close>

lemma jm_get_set [simp]: "jm_get (jm_set m k v) k' = (if k' = k then Some v else jm_get m k')"
  by (induction m) auto

lemma jm_get_delete [simp]: "jm_get (jm_delete m k) k' = (if k' = k then None else jm_get m k')"
  by (induction m) (auto simp: jm_delete_def)

lemma jm_get_update [simp]:
  "jm_get (jm_update m k f) k' = (if k' = k then map_option f (jm_get m k) else jm_get m k')"
  by (induction m) (auto simp: jm_update_def)

lemma jm_has_simps [simp]:
  "jm_has [] k = False"
  "jm_has ((k', v) # m) k = (k' = k \<or> jm_has m k)"
  "jm_has (jm_set m k v) k' = (k' = k \<or> jm_has m k')"
  "jm_has (jm_delete m k) k' = (k' \<noteq> k \<and> jm_has m k')"
  "jm_has (jm_update m k f) k' = jm_has m k'"
  by (auto simp: jm_has_def)

lemma jm_delete_Nil [simp]: "jm_delete [] k = []"
  by (simp add: jm_delete_def)

lemma jm_delete_Cons [simp]:
  "jm_delete ((k', v) # m) k = (if k' = k then jm_delete m k else (k', v) # jm_delete m k)"
  by (simp add: jm_delete_def)

lemma jm_update_Nil [simp]: "jm_update [] k f = []"
  by (simp add: jm_update_def)

lemma jm_update_Cons [simp]:
  "jm_update ((k', v) # m) k f = (k', if k' = k then f v else v) # jm_update m k f"
  by (simp add: jm_update_def)

lemma jm_get_None_iff: "jm_get m k = None \<longleftrightarrow> k \<notin> set (jm_keys m)"
  by (induction m k rule: jm_get.induct) auto

lemma jm_has_iff: "jm_has m k \<longleftrightarrow> k \<in> set (jm_keys m)"
  by (simp add: jm_has_def jm_get_None_iff)

lemma jm_get_Some_in: "jm_get m k = Some v \<Longrightarrow> (k, v) \<in> set m"
  by (induction m) (auto split: if_splits)

lemma jm_get_iff_in: "jm_wf m \<Longrightarrow> jm_get m k = Some v \<longleftrightarrow> (k, v) \<in> set m"
  by (induction m) (auto simp: jm_wf_def image_iff dest: jm_get_Some_in)

lemma jm_keys_set: "jm_keys (jm_set m k v) = (if jm_has m k then jm_keys m else jm_keys m @ [k])"
  by (induction m) auto

lemma jm_keys_delete: "jm_keys (jm_delete m k) = filter (\<lambda>k'. k' \<noteq> k) (jm_keys m)"
  by (induction m) auto

lemma jm_keys_update [simp]: "jm_keys (jm_update m k f) = jm_keys m"
  by (induction m) auto

lemma jm_wf_Nil [simp, wf_intros]: "jm_wf []"
  by (simp add: jm_wf_def)

lemma jm_wf_set [simp, wf_intros]: "jm_wf m \<Longrightarrow> jm_wf (jm_set m k v)"
  by (simp add: jm_wf_def jm_keys_set jm_has_iff)

lemma jm_wf_delete [simp, wf_intros]: "jm_wf m \<Longrightarrow> jm_wf (jm_delete m k)"
  by (simp add: jm_wf_def jm_keys_delete)

lemma jm_wf_update [simp, wf_intros]: "jm_wf (jm_update m k f) = jm_wf m"
  by (simp add: jm_wf_def)

lemma jm_set_absent: "\<not> jm_has m k \<Longrightarrow> jm_set m k v = m @ [(k, v)]"
  by (induction m) auto

lemma jm_set_snd: "v' \<in> set (jm_values (jm_set m k v)) \<Longrightarrow> v' = v \<or> v' \<in> set (jm_values m)"
  by (induction m k v rule: jm_set.induct) (auto split: if_splits)

lemma jm_delete_subset: "set (jm_delete m k) \<subseteq> set m"
  by (auto simp: jm_delete_def)

lemma jm_delete_absent: "\<not> jm_has m k \<Longrightarrow> jm_delete m k = m"
  by (induction m) auto

lemma length_jm_set: "length (jm_set m k v) = (if jm_has m k then length m else Suc (length m))"
  by (induction m) auto

lemma jm_update_absent: "\<not> jm_has m k \<Longrightarrow> jm_update m k f = m"
  by (induction m) auto

lemma jm_update_id: "(\<And>v. jm_get m k = Some v \<Longrightarrow> f v = v) \<Longrightarrow> jm_wf m \<Longrightarrow> jm_update m k f = m"
  by (induction m) (auto simp: jm_wf_def jm_update_absent jm_has_iff)

text \<open>Two well-formed maps with the same keys in the same order and the same lookups are equal.\<close>

lemma jm_eqI:
  assumes "jm_keys m = jm_keys m'" and "jm_wf m" and "\<And>k. jm_get m k = jm_get m' k"
  shows "m = m'"
  using assms
proof (induction m arbitrary: m')
  case (Cons p m)
  obtain k v where p: "p = (k, v)" by force
  from Cons.prems(1) p obtain v' n where m': "m' = (k, v') # n" and keys: "jm_keys m = jm_keys n"
    by (cases m') auto
  have "v = v'" using Cons.prems(3) [of k] p m' by simp
  moreover have "m = n"
  proof (rule Cons.IH)
    show "jm_keys m = jm_keys n" by (rule keys)
    show "jm_wf m" using Cons.prems(2) p by (simp add: jm_wf_def)
    have fresh: "jm_get m k = None" "jm_get n k = None"
      using Cons.prems(2) p keys by (auto simp: jm_get_None_iff jm_wf_def)
    show "jm_get m j = jm_get n j" for j
      using Cons.prems(3) [of j] p m' fresh by (cases "j = k") auto
  qed
  ultimately show ?case using p m' by simp
qed simp

section \<open>The interface the components use\<close>

text \<open>
  What the controller's components rely on in a keyed store: lookups after an insertion or a
  removal, and that the operations keep the store well-formed. Retention (dropping every entry a
  predicate condemns) is derived once here and used for the pending transfers and for the commit
  markers.
\<close>

locale keyed_store =
  fixes lookup :: "'m \<Rightarrow> 'k \<Rightarrow> 'v option"
    and store :: "'m \<Rightarrow> 'k \<Rightarrow> 'v \<Rightarrow> 'm"
    and remove :: "'m \<Rightarrow> 'k \<Rightarrow> 'm"
    and entries :: "'m \<Rightarrow> ('k \<times> 'v) list"
    and wf :: "'m \<Rightarrow> bool"
  assumes lookup_store: "lookup (store m k v) k' = (if k' = k then Some v else lookup m k')"
    and lookup_remove: "lookup (remove m k) k' = (if k' = k then None else lookup m k')"
    and wf_store: "wf m \<Longrightarrow> wf (store m k v)"
    and wf_remove: "wf m \<Longrightarrow> wf (remove m k)"
    and lookup_entries: "wf m \<Longrightarrow> lookup m k = Some v \<longleftrightarrow> (k, v) \<in> set (entries m)"
begin

lemma store_overwrites: "lookup (store (store m k v) k w) k' = lookup (store m k w) k'"
  by (simp add: lookup_store)

lemma remove_store: "lookup (remove (store m k v) k) k' = lookup (remove m k) k'"
  by (simp add: lookup_store lookup_remove)

text \<open>Removing, one after the other, the keys of a list.\<close>

lemma lookup_foldl_remove:
  "lookup (foldl remove m ks) k = (if k \<in> set ks then None else lookup m k)"
  by (induction ks arbitrary: m) (auto simp: lookup_remove)

lemma wf_foldl_remove: "wf m \<Longrightarrow> wf (foldl remove m ks)"
  by (induction ks arbitrary: m) (auto simp: wf_remove)

text \<open>Retention: remove the keys of the entries a predicate condemns.\<close>

lemma lookup_retention:
  assumes "wf m"
  shows "lookup (foldl remove m (map fst (filter (\<lambda>(k, v). P v) (entries m)))) k =
    (case lookup m k of None \<Rightarrow> None | Some v \<Rightarrow> if P v then None else Some v)"
proof -
  have "k \<in> set (map fst (filter (\<lambda>(k, v). P v) (entries m)))
      \<longleftrightarrow> (\<exists>v. lookup m k = Some v \<and> P v)"
    by (force simp: lookup_entries [OF assms])
  then show ?thesis
    by (auto simp: lookup_foldl_remove split: option.split)
qed

end

interpretation jm: keyed_store jm_get jm_set jm_delete "\<lambda>m. m" jm_wf
  by unfold_locales (auto simp: jm_get_iff_in)

end
