(* ===== verification/JsValue.thy ===== *)
theory JsValue
  imports Prelude
begin

text \<open>
  Values of the source language that the code inspects at run time: \<open>number\<close> with its
  non-finite values, \<open>unknown\<close>, and the conversions \<open>Number(x)\<close>, \<open>Number.isFinite\<close>,
  \<open>Number.isInteger\<close> and truthiness.

  A finite number is an exact rational: the rounding of 64-bit floating point is not modelled, nor
  the overflow of a numeral beyond its range, nor the sign of zero.
\<close>

datatype jsnum = NaN | PosInf | NegInf | Fin rat

datatype jsval =
    JUndef | JNull | JBool bool | JNum jsnum | JStr string
  | JArr "jsval list" | JObj "(string \<times> jsval) list"

abbreviation num_of_int :: "int \<Rightarrow> jsnum" where
  "num_of_int i \<equiv> Fin (of_int i)"

definition is_finite :: "jsnum \<Rightarrow> bool" where
  "is_finite n = (case n of Fin q \<Rightarrow> True | _ \<Rightarrow> False)"

definition is_integer :: "jsnum \<Rightarrow> bool" where
  "is_integer n = (case n of Fin q \<Rightarrow> q = of_int \<lfloor>q\<rfloor> | _ \<Rightarrow> False)"

text \<open>The integer a number known to be one stands for.\<close>

definition int_of_num :: "jsnum \<Rightarrow> int" where
  "int_of_num n = (case n of Fin q \<Rightarrow> \<lfloor>q\<rfloor> | _ \<Rightarrow> 0)"

text \<open>\<open>a < b\<close>, \<open>a <= b\<close> on numbers: every comparison with \<open>NaN\<close> is false.\<close>

fun num_less :: "jsnum \<Rightarrow> jsnum \<Rightarrow> bool" where
  "num_less (Fin p) (Fin q) = (p < q)"
| "num_less NegInf (Fin q) = True"
| "num_less NegInf PosInf = True"
| "num_less (Fin p) PosInf = True"
| "num_less _ _ = False"

fun num_eq :: "jsnum \<Rightarrow> jsnum \<Rightarrow> bool" where
  "num_eq NaN _ = False"
| "num_eq x y = (x = y)"

definition num_le :: "jsnum \<Rightarrow> jsnum \<Rightarrow> bool" where
  "num_le x y = (num_less x y \<or> num_eq x y)"

fun truthy :: "jsval \<Rightarrow> bool" where
  "truthy JUndef = False"
| "truthy JNull = False"
| "truthy (JBool b) = b"
| "truthy (JNum n) = (n \<noteq> NaN \<and> n \<noteq> Fin 0)"
| "truthy (JStr s) = (s \<noteq> [])"
| "truthy (JArr xs) = True"
| "truthy (JObj fs) = True"

fun obj_get :: "(string \<times> jsval) list \<Rightarrow> string \<Rightarrow> jsval" where
  "obj_get [] k = JUndef"
| "obj_get ((k', v) # fs) k = (if k' = k then v else obj_get fs k)"

text \<open>A property read \<open>v.k\<close> on a value known to be an object (an array has no such property).\<close>

definition prop_get :: "jsval \<Rightarrow> string \<Rightarrow> jsval" where
  "prop_get v k = (case v of JObj fs \<Rightarrow> obj_get fs k | _ \<Rightarrow> JUndef)"

definition is_nullish :: "jsval \<Rightarrow> bool" where
  "is_nullish v = (v = JUndef \<or> v = JNull)"

text \<open>\<open>typeof v === "object"\<close> and not null: arrays included.\<close>

definition is_object :: "jsval \<Rightarrow> bool" where
  "is_object v = (case v of JObj _ \<Rightarrow> True | JArr _ \<Rightarrow> True | _ \<Rightarrow> False)"

text \<open>\<open>Object.entries(v)\<close>; an array has its positions as names.\<close>

definition entries_of :: "jsval \<Rightarrow> (string \<times> jsval) list" where
  "entries_of v =
     (case v of JObj fs \<Rightarrow> fs | JArr xs \<Rightarrow> zip (map show_nat [0..<length xs]) xs | _ \<Rightarrow> [])"

section \<open>White space\<close>

text \<open>
  Text is UTF-8, so a white space of JavaScript is one of these sequences of bytes: the ASCII ones,
  U+00A0, U+1680, U+2000 to U+200A, U+2028, U+2029, U+202F, U+205F, U+3000 and U+FEFF.
\<close>

definition js_spaces :: "string list" where
  "js_spaces = map (map char_of)
     ([[9], [10], [11], [12], [13], [32], [0xC2, 0xA0], [0xE1, 0x9A, 0x80 :: nat],
       [0xE2, 0x80, 0xA8], [0xE2, 0x80, 0xA9], [0xE2, 0x80, 0xAF], [0xE2, 0x81, 0x9F],
       [0xE3, 0x80, 0x80], [0xEF, 0xBB, 0xBF]] @ map (\<lambda>b. [0xE2, 0x80, b]) [0x80..<0x8B])"

function strip_front :: "string list \<Rightarrow> string \<Rightarrow> string" where
  "strip_front ps s =
     (case List.find (\<lambda>p. p \<noteq> [] \<and> take (length p) s = p) ps of
        None \<Rightarrow> s
      | Some p \<Rightarrow> strip_front ps (drop (length p) s))"
  by pat_completeness auto
termination
proof (relation "measure (\<lambda>(ps, s). length s)")
  fix ps :: "string list" and s p :: string
  assume "List.find (\<lambda>p. p \<noteq> [] \<and> take (length p) s = p) ps = Some p"
  then have "p \<noteq> [] \<and> take (length p) s = p" by (induction ps) (auto simp only: find.simps split: if_splits)
  then have "p \<noteq> []" "s \<noteq> []" by auto
  then show "((ps, drop (length p) s), ps, s) \<in> measure (\<lambda>(ps, s). length s)" by simp
qed simp

declare strip_front.simps [simp del]

definition js_trim :: "string \<Rightarrow> string" where
  "js_trim s = rev (strip_front (map rev js_spaces) (rev (strip_front js_spaces s)))"

text \<open>An ASCII character that is no white space; a text that begins and ends with one is kept.\<close>

definition solid :: "char \<Rightarrow> bool" where
  "solid c = (let n = of_char c :: nat in n < 128 \<and> n \<notin> {9, 10, 11, 12, 13, 32})"

lemma space_ends: "p \<in> set js_spaces \<Longrightarrow> p \<noteq> [] \<and> \<not> solid (hd p) \<and> \<not> solid (last p)"
  by (auto simp: js_spaces_def solid_def upt_rec)

lemma strip_front_solid:
  assumes "\<And>p. p \<in> set ps \<Longrightarrow> p \<noteq> [] \<Longrightarrow> \<not> solid (hd p)" and "solid (hd s)" and "s \<noteq> []"
  shows "strip_front ps s = s"
proof -
  have "\<not> (p \<noteq> [] \<and> take (length p) s = p)" if "p \<in> set ps" for p
    using assms(1) [OF that] assms(2,3) by (metis hd_take length_greater_0_conv)
  then have "List.find (\<lambda>p. p \<noteq> [] \<and> take (length p) s = p) ps = None"
    by (simp add: find_None_iff)
  then show ?thesis by (subst strip_front.simps) simp
qed

lemma js_trim_solid:
  assumes "s \<noteq> []" and "solid (hd s)" and "solid (last s)"
  shows "js_trim s = s"
proof -
  have "strip_front js_spaces s = s"
    using assms by (intro strip_front_solid) (auto dest: space_ends)
  moreover have "strip_front (map rev js_spaces) (rev s) = rev s"
    using assms by (intro strip_front_solid) (auto dest: space_ends simp: hd_rev)
  ultimately show ?thesis by (simp add: js_trim_def)
qed

section \<open>The length of a string\<close>

text \<open>
  \<open>length\<close> and \<open>slice(0, n)\<close> count 16-bit code units: a leading byte stands for one of them, or two
  if its character is outside the basic plane, a continuation byte for none. A cut between the two
  units of such a character leaves the first one, a lone surrogate, in its three-byte form.
\<close>

definition unit_width :: "char \<Rightarrow> nat" where
  "unit_width c = (let n = of_char c :: nat in
     if n < 0x80 then 1 else if n < 0xC0 then 0 else if n < 0xF0 then 1 else 2)"

definition js_length :: "string \<Rightarrow> nat" where
  "js_length s = sum_list (map unit_width s)"

definition high_surrogate :: "string \<Rightarrow> string" where
  "high_surrogate bytes =
     (case map of_char bytes of
        a # b # c # d # _ \<Rightarrow>
          (let point = (a - 0xF0) * 0x40000 + (b - 0x80) * 0x1000 + (c - 0x80) * 0x40 + (d - 0x80 :: nat);
               u = (point - 0x10000) div 0x400
           in map char_of [0xED, 0xA0 + u div 0x40 mod 0x10, 0x80 + u mod 0x40])
      | _ \<Rightarrow> [])"

fun js_take :: "nat \<Rightarrow> string \<Rightarrow> string" where
  "js_take n [] = []"
| "js_take n (c # cs) =
     (if unit_width c \<le> n then c # js_take (n - unit_width c) cs
      else if n = 0 then [] else high_surrogate (c # cs))"

lemma js_length_simps [simp]:
  "js_length [] = 0" "js_length (c # cs) = unit_width c + js_length cs"
  "js_length (s @ t) = js_length s + js_length t"
  by (simp_all add: js_length_def)

lemma high_surrogate_length: "js_length (high_surrogate s) \<le> 1"
  by (auto simp: high_surrogate_def unit_width_def Let_def split: list.split)

lemma js_take_length: "js_length (js_take n s) \<le> n"
proof (induction s arbitrary: n)
  case (Cons c cs)
  show ?case
  proof (cases "unit_width c \<le> n")
    case True
    then show ?thesis using Cons.IH [of "n - unit_width c"] by simp
  next
    case False
    then show ?thesis using high_surrogate_length [of "c # cs"] by (cases "n = 0") auto
  qed
qed simp

lemma js_take_all: "js_length s \<le> n \<Longrightarrow> js_take n s = s"
  by (induction s arbitrary: n) auto

section \<open>Number of a string\<close>

text \<open>The exponent part of a decimal literal: absent, or \<open>e\<close>, an optional sign, digits.\<close>

definition signed_digits :: "string \<Rightarrow> int option" where
  "signed_digits s =
     (let (neg, ds) = (case s of
            c # cs \<Rightarrow> if c = CHR ''-'' then (True, cs) else if c = CHR ''+'' then (False, cs) else (False, s)
          | [] \<Rightarrow> (False, s))
      in if ds = [] then None
         else map_option (\<lambda>n. if neg then - int n else int n) (dec_value 0 ds))"

fun exponent_part :: "string \<Rightarrow> int option" where
  "exponent_part [] = Some 0"
| "exponent_part (c # cs) = (if c = CHR ''e'' \<or> c = CHR ''E'' then signed_digits cs else None)"

text \<open>Digits, optionally a point and digits (at least one digit in all), optionally an exponent.\<close>

definition decimal_literal :: "string \<Rightarrow> rat option" where
  "decimal_literal s =
     (let ip = takeWhile is_digit s; r1 = dropWhile is_digit s;
          (fp, r2) = (case r1 of
              c # cs \<Rightarrow> if c = CHR ''.'' then (takeWhile is_digit cs, dropWhile is_digit cs) else ([], r1)
            | [] \<Rightarrow> ([], r1))
      in if ip = [] \<and> fp = [] then None
         else case (dec_value 0 (ip @ fp), exponent_part r2) of
                (Some n, Some e) \<Rightarrow> Some (of_nat n * 10 powi (e - int (length fp)))
              | _ \<Rightarrow> None)"

text \<open>Digits of a prefixed (hexadecimal, octal, binary) literal.\<close>

definition hex_digit :: "char \<Rightarrow> nat option" where
  "hex_digit c = (let n = of_char c :: nat in
     if 48 \<le> n \<and> n \<le> 57 then Some (n - 48)
     else if 97 \<le> n \<and> n \<le> 102 then Some (n - 87)
     else if 65 \<le> n \<and> n \<le> 70 then Some (n - 55) else None)"

fun radix_value :: "nat \<Rightarrow> nat \<Rightarrow> string \<Rightarrow> nat option" where
  "radix_value b acc [] = Some acc"
| "radix_value b acc (c # cs) =
     (case hex_digit c of None \<Rightarrow> None
      | Some d \<Rightarrow> if d < b then radix_value b (acc * b + d) cs else None)"

definition radix_of :: "char \<Rightarrow> nat option" where
  "radix_of c = (if c = CHR ''x'' \<or> c = CHR ''X'' then Some 16
     else if c = CHR ''o'' \<or> c = CHR ''O'' then Some 8
     else if c = CHR ''b'' \<or> c = CHR ''B'' then Some 2 else None)"

definition unsigned_decimal :: "string \<Rightarrow> jsnum" where
  "unsigned_decimal s =
     (if s = ''Infinity'' then PosInf
      else case decimal_literal s of None \<Rightarrow> NaN | Some q \<Rightarrow> Fin q)"

fun num_neg :: "jsnum \<Rightarrow> jsnum" where
  "num_neg NaN = NaN"
| "num_neg PosInf = NegInf"
| "num_neg NegInf = PosInf"
| "num_neg (Fin q) = Fin (- q)"

definition signed_decimal :: "string \<Rightarrow> jsnum" where
  "signed_decimal s =
     (case s of [] \<Rightarrow> NaN
      | c # cs \<Rightarrow> if c = CHR ''-'' then num_neg (unsigned_decimal cs)
          else if c = CHR ''+'' then unsigned_decimal cs else unsigned_decimal s)"

definition str_to_num :: "string \<Rightarrow> jsnum" where
  "str_to_num s0 =
     (let s = js_trim s0 in
      if s = [] then Fin 0
      else case s of
          z # x # ds \<Rightarrow>
            (case (if z = CHR ''0'' then radix_of x else None) of
               Some b \<Rightarrow> (if ds = [] then NaN
                          else case radix_value b 0 ds of None \<Rightarrow> NaN | Some n \<Rightarrow> Fin (of_nat n))
             | None \<Rightarrow> signed_decimal s)
        | _ \<Rightarrow> signed_decimal s)"

text \<open>
  \<open>Number(v)\<close>. An object converts through its text, which is never numeric here; an array
  through the text of its elements joined by commas, so an empty one is 0, a singleton is its
  element and a longer one is \<open>NaN\<close>. The element of a singleton is converted to a string
  first, so a boolean there is \<open>NaN\<close> and a nullish one is the empty string.
\<close>

fun to_number :: "jsval \<Rightarrow> jsnum" where
  "to_number JUndef = NaN"
| "to_number JNull = Fin 0"
| "to_number (JBool b) = Fin (if b then 1 else 0)"
| "to_number (JNum n) = n"
| "to_number (JStr s) = str_to_num s"
| "to_number (JArr []) = Fin 0"
| "to_number (JArr [v]) =
     (case v of JUndef \<Rightarrow> Fin 0 | JNull \<Rightarrow> Fin 0 | JBool b \<Rightarrow> NaN | _ \<Rightarrow> to_number v)"
| "to_number (JArr (u # v # vs)) = NaN"
| "to_number (JObj fs) = NaN"

text \<open>
  \<open>String(n)\<close>: decimal, with the fractional digits a number has (at most 17). The exponent
  notation of very large and very small numbers is not modelled.
\<close>

fun frac_digits :: "nat \<Rightarrow> rat \<Rightarrow> string" where
  "frac_digits 0 q = []"
| "frac_digits (Suc k) q =
     (if q = 0 then []
      else digit_char (nat \<lfloor>q * 10\<rfloor>) # frac_digits k (q * 10 - of_int \<lfloor>q * 10\<rfloor>))"

definition rat_text :: "rat \<Rightarrow> string" where
  "rat_text q =
     (let a = \<bar>q\<bar>; f = frac_digits 17 (a - of_int \<lfloor>a\<rfloor>)
      in (if q < 0 then ''-'' else []) @ show_nat (nat \<lfloor>a\<rfloor>) @ (if f = [] then [] else CHR ''.'' # f))"

fun num_text :: "jsnum \<Rightarrow> string" where
  "num_text NaN = ''NaN''"
| "num_text PosInf = ''Infinity''"
| "num_text NegInf = ''-Infinity''"
| "num_text (Fin q) = rat_text q"

text \<open>\<open>Math.round\<close>: to the nearest integer, halves upwards.\<close>

definition math_round :: "rat \<Rightarrow> int" where
  "math_round q = \<lfloor>q + 1 / 2\<rfloor>"

text \<open>\<open>n.toFixed(1)\<close>: the nearest tenth, halves upwards.\<close>

definition to_fixed1 :: "rat \<Rightarrow> string" where
  "to_fixed1 q =
     (let n = \<lfloor>\<bar>q\<bar> * 10 + 1 / 2\<rfloor>
      in (if q < 0 \<and> n \<noteq> 0 then ''-'' else []) @ show_int (n div 10) @ CHR ''.'' # show_int (n mod 10))"

text \<open>\<open>String(v)\<close> and the interpolation of a value in a template literal.\<close>

fun js_text :: "jsval \<Rightarrow> string" and js_elem_text :: "jsval \<Rightarrow> string" where
  "js_text JUndef = ''undefined''"
| "js_text JNull = ''null''"
| "js_text (JBool b) = (if b then ''true'' else ''false'')"
| "js_text (JNum n) = num_text n"
| "js_text (JStr s) = s"
| "js_text (JArr xs) = join_with '','' (map js_elem_text xs)"
| "js_text (JObj fs) = ''[object Object]''"
| "js_elem_text JUndef = []"
| "js_elem_text JNull = []"
| "js_elem_text (JBool b) = (if b then ''true'' else ''false'')"
| "js_elem_text (JNum n) = num_text n"
| "js_elem_text (JStr s) = s"
| "js_elem_text (JArr xs) = join_with '','' (map js_elem_text xs)"
| "js_elem_text (JObj fs) = ''[object Object]''"

text \<open>Arithmetic on numbers that may not be finite.\<close>

fun num_add :: "jsnum \<Rightarrow> jsnum \<Rightarrow> jsnum" where
  "num_add (Fin p) (Fin q) = Fin (p + q)"
| "num_add NaN _ = NaN"
| "num_add _ NaN = NaN"
| "num_add PosInf NegInf = NaN"
| "num_add NegInf PosInf = NaN"
| "num_add PosInf _ = PosInf"
| "num_add _ PosInf = PosInf"
| "num_add NegInf _ = NegInf"
| "num_add _ NegInf = NegInf"

definition num_sub :: "jsnum \<Rightarrow> jsnum \<Rightarrow> jsnum" where
  "num_sub a b = num_add a (num_neg b)"

text \<open>Multiplication and division by a positive constant, \<open>Math.round\<close>, \<open>Math.floor\<close>.\<close>

definition num_scale :: "rat \<Rightarrow> jsnum \<Rightarrow> jsnum" where
  "num_scale c n = (case n of Fin q \<Rightarrow> Fin (c * q) | _ \<Rightarrow> n)"

definition num_round :: "jsnum \<Rightarrow> jsnum" where
  "num_round n = (case n of Fin q \<Rightarrow> Fin (of_int (math_round q)) | _ \<Rightarrow> n)"

definition num_floor :: "jsnum \<Rightarrow> jsnum" where
  "num_floor n = (case n of Fin q \<Rightarrow> Fin (of_int \<lfloor>q\<rfloor>) | _ \<Rightarrow> n)"

text \<open>
  \<open>Object.keys\<close> and \<open>Object.values\<close> of a plain object. The field list of a \<open>JObj\<close> is in
  the enumeration order of the program's object.
\<close>

definition obj_fields :: "jsval \<Rightarrow> (string \<times> jsval) list" where
  "obj_fields v = (case v of JObj fs \<Rightarrow> fs | _ \<Rightarrow> [])"

text \<open>\<open>obj[k] = v\<close>.\<close>

fun obj_set :: "(string \<times> jsval) list \<Rightarrow> string \<Rightarrow> jsval \<Rightarrow> (string \<times> jsval) list" where
  "obj_set [] k v = [(k, v)]"
| "obj_set ((k', v') # fs) k v = (if k' = k then (k, v) # fs else (k', v') # obj_set fs k v)"

text \<open>Spread \<open>{...a, ...b}\<close>: the fields of \<open>b\<close> override.\<close>

definition obj_spread :: "(string \<times> jsval) list \<Rightarrow> (string \<times> jsval) list \<Rightarrow> (string \<times> jsval) list" where
  "obj_spread a b = foldl (\<lambda>fs (k, v). obj_set fs k v) a b"

text \<open>A field with a string type in the code's interfaces; \<open>a || b\<close> and \<open>a ?? b\<close> on values.\<close>

definition str_field :: "jsval \<Rightarrow> string \<Rightarrow> string option" where
  "str_field v k = (case prop_get v k of JStr s \<Rightarrow> Some s | _ \<Rightarrow> None)"

definition val_or :: "jsval \<Rightarrow> jsval \<Rightarrow> jsval" where
  "val_or a b = (if truthy a then a else b)"

definition val_nullish :: "jsval \<Rightarrow> jsval \<Rightarrow> jsval" where
  "val_nullish a b = (if is_nullish a then b else a)"

definition val_of_str :: "string option \<Rightarrow> jsval" where
  "val_of_str x = (case x of None \<Rightarrow> JNull | Some s \<Rightarrow> JStr s)"

definition val_of_int :: "int option \<Rightarrow> jsval" where
  "val_of_int x = (case x of None \<Rightarrow> JNull | Some i \<Rightarrow> JNum (num_of_int i))"

definition js_int :: "int \<Rightarrow> jsval" where "js_int i = JNum (num_of_int i)"

text \<open>Characters outside ASCII.\<close>

definition utf8 :: "nat list \<Rightarrow> string" where
  "utf8 = map char_of"

definition em_dash :: string where "em_dash = utf8 [0xE2, 0x80, 0x94]"
definition right_arrow :: string where "right_arrow = utf8 [0xE2, 0x86, 0x92]"

section \<open>Facts\<close>

lemma obj_get_set [simp]: "obj_get (obj_set fs k v) k' = (if k' = k then v else obj_get fs k')"
  by (induction fs) auto

lemma prop_get_JObj [simp]: "prop_get (JObj fs) k = obj_get fs k"
  by (simp add: prop_get_def)

lemma prop_get_JUndef [simp]: "prop_get JUndef k = JUndef" "prop_get JNull k = JUndef"
  by (simp_all add: prop_get_def)

lemma rat_text_of_int [simp]: "rat_text (of_int i) = show_int i"
  by (simp add: rat_text_def show_int_def Let_def numeral_eq_Suc)

lemma is_finite_simps [simp]:
  "is_finite (Fin q)" "\<not> is_finite NaN" "\<not> is_finite PosInf" "\<not> is_finite NegInf"
  by (simp_all add: is_finite_def)

lemma is_integer_simps [simp]:
  "is_integer (num_of_int i)" "\<not> is_integer NaN" "\<not> is_integer PosInf" "\<not> is_integer NegInf"
  by (simp_all add: is_integer_def)

lemma int_of_num_simps [simp]: "int_of_num (num_of_int i) = i" "int_of_num (Fin 0) = 0"
  by (simp_all add: int_of_num_def)

lemma is_integer_Fin_of_nat [simp]: "is_integer (Fin (of_nat n))"
  using is_integer_simps(1) [of "int n"] by simp

lemma int_of_num_Fin_of_nat [simp]: "int_of_num (Fin (of_nat n)) = int n"
  using int_of_num_simps(1) [of "int n"] by simp

lemma is_integer_is_finite: "is_integer n \<Longrightarrow> is_finite n"
  by (cases n) (simp_all add: is_finite_def)

lemma is_integer_iff: "is_integer n \<longleftrightarrow> (\<exists>i. n = num_of_int i)"
  by (cases n) (auto simp: is_integer_def)

lemma digit_solid: "is_digit c \<Longrightarrow> solid c"
  by (auto simp: is_digit_def digit_of_def solid_def Let_def split: if_splits)

lemma trim_solid: "s \<noteq> [] \<Longrightarrow> list_all solid s \<Longrightarrow> js_trim s = s"
  by (rule js_trim_solid) (auto simp: list_all_iff)

lemma radix_chars_not_digit:
  "\<not> is_digit (CHR ''X'')" "\<not> is_digit (CHR ''o'')" "\<not> is_digit (CHR ''O'')"
  "\<not> is_digit (CHR ''b'')" "\<not> is_digit (CHR ''B'')"
  by (simp_all add: is_digit_def digit_of_def)

lemma digit_not_radix: "is_digit c \<Longrightarrow> radix_of c = None"
  using radix_chars_not_digit not_digit_literals(5) unfolding radix_of_def by presburger

lemma decimal_literal_digits:
  assumes "s \<noteq> []" "list_all is_digit s" "dec_value 0 s = Some n"
  shows "decimal_literal s = Some (of_nat n)"
proof -
  have tw: "takeWhile is_digit s = s" and dw: "dropWhile is_digit s = []"
    using assms(2) by (simp_all add: list_all_iff)
  show ?thesis
    using assms(1,3) by (simp add: decimal_literal_def Let_def tw dw)
qed

lemma signed_decimal_show_nat [simp]: "signed_decimal (show_nat n) = Fin (of_nat n)"
proof -
  obtain c cs where cs: "show_nat n = c # cs"
    by (cases "show_nat n") auto
  have dig: "is_digit c"
    using show_nat_digits [of c n] cs by simp
  have "show_nat n \<noteq> ''Infinity''"
  proof
    assume "show_nat n = ''Infinity''"
    then have "is_digit (CHR ''I'')"
      using show_nat_digits [of "CHR ''I''" n] by simp
    then show False by (simp add: is_digit_def digit_of_def)
  qed
  then have "unsigned_decimal (show_nat n) = Fin (of_nat n)"
    by (simp add: unsigned_decimal_def decimal_literal_digits)
  moreover have "c \<noteq> CHR ''-''" "c \<noteq> CHR ''+''"
    using dig by auto
  ultimately show ?thesis
    by (simp add: signed_decimal_def cs)
qed

lemma str_to_num_show_nat [simp]: "str_to_num (show_nat n) = Fin (of_nat n)"
proof -
  have trim: "js_trim (show_nat n) = show_nat n"
    by (rule trim_solid) (auto simp: list_all_iff dest: show_nat_digits digit_solid)
  have radix: "radix_of x = None" if "show_nat n = z # x # ds" for z x ds
    using show_nat_digits [of x n] that by (simp add: digit_not_radix)
  have "str_to_num (show_nat n) = signed_decimal (show_nat n)"
    by (auto simp: str_to_num_def Let_def trim radix simp del: signed_decimal_show_nat
        split: list.split)
  then show ?thesis by simp
qed

lemma str_to_num_show_int [simp]: "str_to_num (show_int i) = num_of_int i"
proof (cases "i < 0")
  case False
  then show ?thesis by (simp add: show_int_def)
next
  case True
  define n where "n = nat (- i)"
  have dash: "solid (CHR ''-'')" by (simp add: solid_def)
  have trim: "js_trim (CHR ''-'' # show_nat n) = CHR ''-'' # show_nat n"
    by (rule trim_solid) (auto simp: list_all_iff dash dest: show_nat_digits digit_solid)
  have "unsigned_decimal (show_nat n) = Fin (of_nat n)"
  proof -
    have "show_nat n \<noteq> CHR ''-'' # cs" "show_nat n \<noteq> CHR ''+'' # cs" for cs
      using show_nat_digits [of "CHR ''-''" n] show_nat_digits [of "CHR ''+''" n] by auto
    then have "signed_decimal (show_nat n) = unsigned_decimal (show_nat n)"
      by (auto simp: signed_decimal_def split: list.split)
    then show ?thesis using signed_decimal_show_nat [of n] by simp
  qed
  with True trim show ?thesis
    by (auto simp: str_to_num_def Let_def show_int_def n_def [symmetric] signed_decimal_def
        split: list.split) (simp_all add: n_def)
qed

end
