(* ===== verification/Async.thy ===== *)
theory Async
  imports Prelude
begin

text \<open>
  The \<open>async\<close> functions of the source language. An asynchronous function runs synchronously up to
  its first \<open>await\<close>; there it stops, issues a request to its environment (a message to an
  instance, a file operation, a timer) and is resumed with the answer, in whatever state the
  other handlers have left by then. So a function is a state transformer \<open>act\<close> that returns the
  rest of the computation: a value, a thrown error, or a request with its continuation.
\<close>

datatype ('q, 'a, 'w, 'e, 'r) async =
    Return 'r
  | Throw 'e
  | Await 'q "'a \<Rightarrow> 'w \<Rightarrow> 'w \<times> ('q, 'a, 'w, 'e, 'r) async"

type_synonym ('q, 'a, 'w, 'e, 'r) act = "'w \<Rightarrow> 'w \<times> ('q, 'a, 'w, 'e, 'r) async"

section \<open>Sequencing\<close>

definition act_return :: "'r \<Rightarrow> ('q, 'a, 'w, 'e, 'r) act" where
  "act_return r s = (s, Return r)"

definition act_throw :: "'e \<Rightarrow> ('q, 'a, 'w, 'e, 'r) act" where
  "act_throw e s = (s, Throw e)"

primrec async_bind ::
    "('q, 'a, 'w, 'e, 'r) async \<Rightarrow> ('r \<Rightarrow> ('q, 'a, 'w, 'e, 's) act) \<Rightarrow> ('q, 'a, 'w, 'e, 's) act" where
  "async_bind (Return r) f = f r"
| "async_bind (Throw e) f = (\<lambda>s. (s, Throw e))"
| "async_bind (Await q k) f = (\<lambda>s. (s, Await q (\<lambda>a s1.
     case map_prod id (\<lambda>p. async_bind p f) (k a s1) of (s2, g) \<Rightarrow> g s2)))"

definition act_bind ::
    "('q, 'a, 'w, 'e, 'r) act \<Rightarrow> ('r \<Rightarrow> ('q, 'a, 'w, 'e, 's) act) \<Rightarrow> ('q, 'a, 'w, 'e, 's) act" where
  "act_bind m f s = async_bind (snd (m s)) f (fst (m s))"

definition act_then ::
    "('q, 'a, 'w, 'e, 'r) act \<Rightarrow> ('q, 'a, 'w, 'e, 's) act \<Rightarrow> ('q, 'a, 'w, 'e, 's) act" where
  "act_then m n = act_bind m (\<lambda>_. n)"

text \<open>\<open>try m catch (e) { h(e) }\<close>.\<close>

primrec async_catch ::
    "('q, 'a, 'w, 'e, 'r) async \<Rightarrow> ('e \<Rightarrow> ('q, 'a, 'w, 'e, 'r) act) \<Rightarrow> ('q, 'a, 'w, 'e, 'r) act" where
  "async_catch (Return r) h = (\<lambda>s. (s, Return r))"
| "async_catch (Throw e) h = h e"
| "async_catch (Await q k) h = (\<lambda>s. (s, Await q (\<lambda>a s1.
     case map_prod id (\<lambda>p. async_catch p h) (k a s1) of (s2, g) \<Rightarrow> g s2)))"

definition act_try ::
    "('q, 'a, 'w, 'e, 'r) act \<Rightarrow> ('e \<Rightarrow> ('q, 'a, 'w, 'e, 'r) act) \<Rightarrow> ('q, 'a, 'w, 'e, 'r) act" where
  "act_try m h s = async_catch (snd (m s)) h (fst (m s))"

text \<open>Reading the state, a synchronous update, and a request.\<close>

definition act_get :: "('w \<Rightarrow> ('q, 'a, 'w, 'e, 'r) act) \<Rightarrow> ('q, 'a, 'w, 'e, 'r) act" where
  "act_get f s = f s s"

definition act_do :: "('w \<Rightarrow> 'w) \<Rightarrow> ('q, 'a, 'w, 'e, unit) act" where
  "act_do f s = (f s, Return ())"

definition act_sync :: "('w \<Rightarrow> 'r \<times> 'w) \<Rightarrow> ('q, 'a, 'w, 'e, 'r) act" where
  "act_sync f s = (snd (f s), Return (fst (f s)))"

definition act_await :: "'q \<Rightarrow> ('q, 'a, 'w, 'e, 'a) act" where
  "act_await q s = (s, Await q (\<lambda>a s1. (s1, Return a)))"

fun act_seq :: "('q, 'a, 'w, 'e, unit) act list \<Rightarrow> ('q, 'a, 'w, 'e, unit) act" where
  "act_seq [] = act_return ()"
| "act_seq (m # ms) = act_then m (act_seq ms)"

lemma async_bind_Await [simp]:
  "async_bind (Await q k) f s =
    (s, Await q (\<lambda>a s1. async_bind (snd (k a s1)) f (fst (k a s1))))"
  by (simp add: case_prod_beta map_prod_def)

lemma async_catch_Await [simp]:
  "async_catch (Await q k) h s =
    (s, Await q (\<lambda>a s1. async_catch (snd (k a s1)) h (fst (k a s1))))"
  by (simp add: case_prod_beta map_prod_def)

lemma async_induct [case_names Return Throw Await]:
  assumes "\<And>r. P (Return r)" and "\<And>e. P (Throw e)"
    and "\<And>q k. (\<And>a s. P (snd (k a s))) \<Longrightarrow> P (Await q k)"
  shows "P p"
proof (induction p)
  case (Await q k)
  have "P (snd (k a s))" for a s
    by (rule Await [of "k a" "k a s"]) (simp_all add: snds.simps prod_eq_iff)
  then show ?case by (rule assms(3))
qed (simp_all add: assms)

declare async_bind.simps(3) [simp del] async_catch.simps(3) [simp del]

named_theorems act_run \<open>one step of the execution of an asynchronous function\<close>

lemma act_run_simps [act_run]:
  "act_return r s = (s, Return r)"
  "act_throw e s = (s, Throw e)"
  "act_get g s = g s s"
  "act_do u s = (u s, Return ())"
  "act_sync v s = (snd (v s), Return (fst (v s)))"
  "act_await q s = (s, Await q (\<lambda>a s1. (s1, Return a)))"
  "act_bind m f s = async_bind (snd (m s)) f (fst (m s))"
  "act_then m n s = async_bind (snd (m s)) (\<lambda>_. n) (fst (m s))"
  "act_try m h s = async_catch (snd (m s)) h (fst (m s))"
  by (simp_all add: act_return_def act_throw_def act_get_def act_do_def act_sync_def act_await_def act_bind_def
      act_then_def act_try_def)

section \<open>Sequential execution\<close>

text \<open>
  Running a function to its end against an environment that answers each request at once, with a
  state of its own (a file system, a list of scripted answers).
\<close>

primrec run_async ::
    "('q, 'a, 'w, 'e, 'r) async \<Rightarrow> ('q \<Rightarrow> 'f \<Rightarrow> 'a \<times> 'f) \<Rightarrow> 'w \<Rightarrow> 'f \<Rightarrow> ('e + 'r) \<times> 'w \<times> 'f" where
  "run_async (Return r) env = (\<lambda>s f. (Inr r, s, f))"
| "run_async (Throw e) env = (\<lambda>s f. (Inl e, s, f))"
| "run_async (Await q k) env = (\<lambda>s f. case env q f of (a, f1) \<Rightarrow>
     (case map_prod id (\<lambda>p. run_async p env) (k a s) of (s1, g) \<Rightarrow> g s1 f1))"

lemma run_async_Await [simp]:
  "run_async (Await q k) env s f =
    run_async (snd (k (fst (env q f)) s)) env (fst (k (fst (env q f)) s)) (snd (env q f))"
  by (simp add: case_prod_beta map_prod_def)

declare run_async.simps(3) [simp del]

definition run_act ::
    "('q \<Rightarrow> 'f \<Rightarrow> 'a \<times> 'f) \<Rightarrow> ('q, 'a, 'w, 'e, 'r) act \<Rightarrow> 'w \<Rightarrow> 'f \<Rightarrow> ('e + 'r) \<times> 'w \<times> 'f" where
  "run_act env m s f = run_async (snd (m s)) env (fst (m s)) f"

lemma run_async_bind:
  "run_async (snd (async_bind p g s)) env (fst (async_bind p g s)) f =
    (case run_async p env s f of
       (Inl e, s1, f1) \<Rightarrow> (Inl e, s1, f1)
     | (Inr r, s1, f1) \<Rightarrow> run_act env (g r) s1 f1)"
proof (induction p arbitrary: s f rule: async_induct)
  case (Await q k)
  then show ?case by simp
qed (simp_all add: run_act_def)

lemma run_async_catch:
  "run_async (snd (async_catch p h s)) env (fst (async_catch p h s)) f =
    (case run_async p env s f of
       (Inl e, s1, f1) \<Rightarrow> run_act env (h e) s1 f1
     | (Inr r, s1, f1) \<Rightarrow> (Inr r, s1, f1))"
proof (induction p arbitrary: s f rule: async_induct)
  case (Await q k)
  then show ?case by simp
qed (simp_all add: run_act_def)

named_theorems run_laws \<open>sequential execution of the combinators\<close>

lemma run_act_simps [run_laws]:
  "run_act env (act_return r) s f = (Inr r, s, f)"
  "run_act env (act_throw e) s f = (Inl e, s, f)"
  "run_act env (act_do u) s f = (Inr (), u s, f)"
  "run_act env (act_sync v) s f = (Inr (fst (v s)), snd (v s), f)"
  "run_act env (act_get k) s f = run_act env (k s) s f"
  "run_act env (act_await q) s f = (Inr (fst (env q f)), s, snd (env q f))"
  "run_act env (act_bind m g) s f = (case run_act env m s f of
       (Inl e, s1, f1) \<Rightarrow> (Inl e, s1, f1) | (Inr r, s1, f1) \<Rightarrow> run_act env (g r) s1 f1)"
  "run_act env (act_then m n) s f = (case run_act env m s f of
       (Inl e, s1, f1) \<Rightarrow> (Inl e, s1, f1) | (Inr r, s1, f1) \<Rightarrow> run_act env n s1 f1)"
  "run_act env (act_try m h) s f = (case run_act env m s f of
       (Inl e, s1, f1) \<Rightarrow> run_act env (h e) s1 f1 | (Inr r, s1, f1) \<Rightarrow> (Inr r, s1, f1))"
  by (simp_all add: run_act_def act_run run_async_bind run_async_catch)

section \<open>What a function guarantees at every interleaving\<close>

text \<open>
  \<open>guar G p\<close>: each synchronous segment of \<open>p\<close>, whatever the answers and whatever the state
  it is resumed in, changes the state by \<open>G\<close>.
\<close>

inductive guar :: "('w \<Rightarrow> 'w \<Rightarrow> bool) \<Rightarrow> ('q, 'a, 'w, 'e, 'r) async \<Rightarrow> bool" for G where
  guar_Return: "guar G (Return r)"
| guar_Throw: "guar G (Throw e)"
| guar_Await: "(\<And>a s. G s (fst (k a s)) \<and> guar G (snd (k a s))) \<Longrightarrow> guar G (Await q k)"

inductive_simps guar_simps [simp]: "guar G (Return r)" "guar G (Throw e)" "guar G (Await q k)"

definition guar_act :: "('w \<Rightarrow> 'w \<Rightarrow> bool) \<Rightarrow> ('q, 'a, 'w, 'e, 'r) act \<Rightarrow> bool" where
  "guar_act G m = (\<forall>s. G s (fst (m s)) \<and> guar G (snd (m s)))"

lemma guar_mono: "guar G p \<Longrightarrow> (\<And>s t. G s t \<Longrightarrow> H s t) \<Longrightarrow> guar H p"
  by (induction rule: guar.induct) auto

lemma guar_act_mono: "guar_act G m \<Longrightarrow> (\<And>s t. G s t \<Longrightarrow> H s t) \<Longrightarrow> guar_act H m"
  by (auto simp: guar_act_def intro: guar_mono)

named_theorems guar_intros \<open>what a function guarantees, by its structure\<close>

locale guarantee =
  fixes G :: "'w \<Rightarrow> 'w \<Rightarrow> bool"
  assumes refl: "G s s"
    and trans: "G s t \<Longrightarrow> G t u \<Longrightarrow> G s u"
begin

lemma guar_async_bind:
  assumes "guar G p" and "\<And>r. guar_act G (f r)"
  shows "G s (fst (async_bind p f s)) \<and> guar G (snd (async_bind p f s))"
  using assms(1)
proof (induction arbitrary: s rule: guar.induct)
  case (guar_Return r)
  then show ?case using assms(2) by (simp add: guar_act_def)
next
  case (guar_Throw e)
  then show ?case by (simp add: refl)
next
  case (guar_Await k q)
  then show ?case by (auto simp: refl intro: trans)
qed

lemma guar_async_catch:
  assumes "guar G p" and "\<And>e. guar_act G (h e)"
  shows "G s (fst (async_catch p h s)) \<and> guar G (snd (async_catch p h s))"
  using assms(1)
proof (induction arbitrary: s rule: guar.induct)
  case (guar_Return r)
  then show ?case by (simp add: refl)
next
  case (guar_Throw e)
  then show ?case using assms(2) by (simp add: guar_act_def)
next
  case (guar_Await k q)
  then show ?case by (auto simp: refl intro: trans)
qed

lemma guar_return: "guar_act G (act_return r)"
  by (simp add: guar_act_def act_run refl)

lemma guar_throw: "guar_act G (act_throw e)"
  by (simp add: guar_act_def act_run refl)

lemma guar_await: "guar_act G (act_await q)"
  by (simp add: guar_act_def act_run refl)

lemma guar_do: "(\<And>s. G s (u s)) \<Longrightarrow> guar_act G (act_do u)"
  by (simp add: guar_act_def act_run)

lemma guar_sync: "(\<And>s. G s (snd (v s))) \<Longrightarrow> guar_act G (act_sync v)"
  by (simp add: guar_act_def act_run)

lemma guar_get: "(\<And>s. guar_act G (g s)) \<Longrightarrow> guar_act G (act_get g)"
  by (simp add: guar_act_def act_run)

lemma guar_bind:
  assumes "guar_act G m" and "\<And>r. guar_act G (f r)"
  shows "guar_act G (act_bind m f)"
  using assms guar_async_bind [of "snd (m s)" f "fst (m s)" for s]
  by (auto simp: guar_act_def act_run intro: trans)

lemma guar_then: "guar_act G m \<Longrightarrow> guar_act G n \<Longrightarrow> guar_act G (act_then m n)"
  by (simp add: act_then_def guar_bind)

lemma guar_try:
  assumes "guar_act G m" and "\<And>e. guar_act G (h e)"
  shows "guar_act G (act_try m h)"
  using assms guar_async_catch [of "snd (m s)" h "fst (m s)" for s]
  by (auto simp: guar_act_def act_run intro: trans)

lemma guar_seq: "(\<And>m. m \<in> set ms \<Longrightarrow> guar_act G m) \<Longrightarrow> guar_act G (act_seq ms)"
  by (induction ms) (auto intro: guar_return guar_then)

lemma guar_if: "(b \<Longrightarrow> guar_act G m) \<Longrightarrow> (\<not> b \<Longrightarrow> guar_act G n) \<Longrightarrow> guar_act G (if b then m else n)"
  by simp

lemma guar_option:
  "(x = None \<Longrightarrow> guar_act G m) \<Longrightarrow> (\<And>v. x = Some v \<Longrightarrow> guar_act G (n v)) \<Longrightarrow>
    guar_act G (case x of None \<Rightarrow> m | Some v \<Rightarrow> n v)"
  by (cases x) auto

lemma guar_let: "(\<And>x. x = v \<Longrightarrow> guar_act G (m x)) \<Longrightarrow> guar_act G (let x = v in m x)"
  by simp

text \<open>In particular a sequential execution changes the state by \<open>G\<close>.\<close>

lemma run_async_guar: "guar G p \<Longrightarrow> G s (fst (snd (run_async p env s f)))"
proof (induction arbitrary: s f rule: guar.induct)
  case (guar_Await k q)
  let ?a = "fst (env q f)"
  have "G s (fst (k ?a s))"
    and "G (fst (k ?a s)) (fst (snd (run_async (snd (k ?a s)) env (fst (k ?a s)) (snd (env q f)))))"
    using guar_Await by blast+
  then show ?case by (simp add: trans)
qed (simp_all add: refl)

lemma run_guar: "guar_act G m \<Longrightarrow> G s (fst (snd (run_act env m s f)))"
  unfolding run_act_def guar_act_def by (blast intro: trans run_async_guar)

lemmas structural =
  guar_return guar_throw guar_await guar_get guar_bind guar_then guar_try guar_if guar_option guar_let

end

end
