(* ===== verification/Plugin.thy ===== *)
theory Plugin
  imports JsMap JsValue Async
begin

text \<open>
  The controller plugin: its data (messages.ts, shared/dto.ts), the state its parts share
  (\<open>IControllerPlugin\<close>), the requests it awaits and the trace of what it does.

  The program keeps an \<open>ActiveTransfer\<close> as one mutable object that the table, a running handler
  and a timer refer to at the same time, and a retry or the pruning of old records replaces or
  removes the table's entry while a handler still holds the object. So transfers live in a
  \<open>heap\<close>, never deallocated, and \<open>activeTransfers\<close> maps an id to a reference.
\<close>

section \<open>Data\<close>

datatype status =
    Transporting | InProgress | AwaitingValidation | AwaitingCompletion
  | Completed | Failed | CleanupFailed | Errored | UnknownStatus

fun status_text :: "status \<Rightarrow> string" where
  "status_text Transporting = ''transporting''"
| "status_text InProgress = ''in_progress''"
| "status_text AwaitingValidation = ''awaiting_validation''"
| "status_text AwaitingCompletion = ''awaiting_completion''"
| "status_text Completed = ''completed''"
| "status_text Failed = ''failed''"
| "status_text CleanupFailed = ''cleanup_failed''"
| "status_text Errored = ''error''"
| "status_text UnknownStatus = ''unknown''"

datatype operation_type = OpTransfer | OpExport | OpImport

fun operation_text :: "operation_type \<Rightarrow> string" where
  "operation_text OpTransfer = ''transfer''"
| "operation_text OpExport = ''export''"
| "operation_text OpImport = ''import''"

record phase_record =
  ph_startMs :: rat
  ph_endMs :: "rat option"
  ph_durationMs :: "rat option"

record active_transfer =
  t_transferId :: string
  t_operationType :: operation_type
  t_exportId :: "string option"
  t_sourceExportId :: "string option"
  t_artifactSizeBytes :: "int option"
  t_platformName :: string
  t_platformIndex :: int
  t_forceName :: string
  t_sourceInstanceId :: int
  t_sourceInstanceName :: "string option"
  t_targetInstanceId :: int
  t_targetInstanceName :: "string option"
  t_startedAt :: int
  t_status :: status
  t_completedAt :: "int option"
  t_failedAt :: "int option"
  t_error :: "string option"
  t_payloadMetrics :: jsval
  t_exportMetrics :: jsval
  t_importMetrics :: jsval
  t_validationResult :: jsval
  t_failedStage :: "string option"
  t_sourceVerification :: jsval
  t_validationTimeout :: "nat option"
  t_armedValidationTimeoutMs :: "int option"
  t_phases :: "(string, phase_record) jsmap"
  t_metricsRecorded :: bool

text \<open>
  A stored export. The instance id of an entry read from disk may be missing or not a number, and
  its platform index is tested at run time, so both keep their run-time value.
\<close>

record stored_export =
  x_exportId :: string
  x_sourceExportId :: "string option"
  x_platformName :: string
  x_platformIndex :: jsval
  x_instanceId :: jsnum
  x_exportData :: jsval
  x_exportMetrics :: jsval
  x_timestamp :: int
  x_size :: "int option"

text \<open>The ISO text of the timestamp is left out; \<open>e_data\<close> holds the event's further fields.\<close>

record log_event =
  e_timestampMs :: int
  e_elapsedMs :: int
  e_deltaMs :: int
  e_eventType :: string
  e_message :: string
  e_data :: "(string \<times> jsval) list"

text \<open>A field of a record read from disk may be absent, so every field is optional.\<close>

record transfer_info =
  i_transferId :: "string option"
  i_operationType :: "string option"
  i_exportId :: "string option"
  i_artifactSizeBytes :: "int option"
  i_platformName :: "string option"
  i_platformIndex :: "int option"
  i_forceName :: "string option"
  i_sourceInstanceId :: "int option"
  i_sourceInstanceName :: "string option"
  i_targetInstanceId :: "int option"
  i_targetInstanceName :: "string option"
  i_status :: "string option"
  i_startedAt :: "int option"
  i_completedAt :: "int option"
  i_failedAt :: "int option"
  i_error :: "string option"

record transfer_summary =
  s_transferId :: string
  s_operationType :: string
  s_exportId :: "string option"
  s_artifactSizeBytes :: "int option"
  s_downloadable :: bool
  s_platformName :: string
  s_sourceInstanceId :: int
  s_sourceInstanceName :: "string option"
  s_targetInstanceId :: int
  s_targetInstanceName :: "string option"
  s_status :: string
  s_startedAt :: int
  s_completedAt :: "int option"
  s_failedAt :: "int option"
  s_error :: "string option"
  s_lastEventAt :: "int option"
  s_registrySource :: string
  s_revisions :: int

record detailed_summary =
  d_transferId :: string
  d_operationType :: string
  d_result :: string
  d_status :: string
  d_totalDurationMs :: "int option"
  d_totalDurationStr :: "string option"
  d_phases :: "(string \<times> rat) list"
  d_platformName :: string
  d_platformIndex :: int
  d_source :: "int \<times> string option"
  d_destination :: "int \<times> string option"
  d_export :: jsval
  d_payload :: jsval
  d_import :: jsval
  d_validation :: jsval
  d_sourceVerification :: jsval
  d_startedAt :: "int option"
  d_completedAt :: "int option"
  d_failedAt :: "int option"
  d_lastEventAt :: "int option"
  d_error :: "string option"

text \<open>An absent \<open>savedAt\<close> is 0: the code treats the two alike.\<close>

record persisted_log =
  l_transferId :: string
  l_transferInfo :: "transfer_info option"
  l_summary :: "detailed_summary option"
  l_events :: "log_event list"
  l_savedAt :: int

datatype row_kind = RowStart | RowTerminal

record audit_row =
  a_v :: int
  a_transferId :: string
  a_rowKind :: row_kind
  a_savedAt :: int
  a_operationType :: string
  a_platformName :: string
  a_platformIndex :: "int option"
  a_sourceInstanceId :: int
  a_sourceInstanceName :: "string option"
  a_targetInstanceId :: int
  a_targetInstanceName :: "string option"
  a_exportId :: "string option"
  a_artifactSizeBytes :: "int option"
  a_status :: string
  a_startedAt :: "int option"
  a_completedAt :: "int option"
  a_failedAt :: "int option"
  a_lastEventAt :: "int option"
  a_eventCount :: int
  a_error :: "string option"
  a_errorTruncated :: bool

record subscription =
  sub_tree :: bool
  sub_transfers :: bool
  sub_logs :: bool
  sub_transferId :: "string option"

record gateway_link =
  g_targetInstanceId :: int
  g_targetGateway :: string

record resolved_target =
  rt_instanceId :: int
  rt_instanceName :: string
  rt_targetGateway :: string
  rt_online :: bool

record resolved_gateway =
  rg_gatewayName :: string
  rg_targets :: "resolved_target list"

text \<open>Intents and markers are read back from disk, so their timestamp may be anything.\<close>

record pending_intent =
  p_transferId :: string
  p_sourceInstanceId :: int
  p_sourcePlatformIndex :: int
  p_sourcePlatformName :: string
  p_forceName :: string
  p_targetInstanceId :: int
  p_startedAt :: jsval
  p_exportId :: "string option"

record commit_marker =
  c_transferId :: string
  c_sourceInstanceId :: "int option"
  c_sourcePlatformIndex :: "int option"
  c_sourcePlatformName :: "string option"
  c_forceName :: "string option"
  c_committedAt :: jsval

text \<open>
  What Clusterio holds of instances and hosts. \<open>n_name\<close> and \<open>n_assignedHost\<close> are the values of
  the instance's configuration fields.
\<close>

record instance_rec =
  n_id :: int
  n_isDeleted :: bool
  n_status :: string
  n_name :: jsval
  n_assignedHost :: jsval
  n_gamePort :: "int option"

record host_rec =
  h_id :: int
  h_name :: string
  h_connected :: bool
  h_isDeleted :: bool
  h_publicAddress :: "string option"

text \<open>
  \<open>pm_reported\<close> is the object the instance reported; the tree spreads it and sets the fields below.
\<close>

record platform_model =
  pm_reported :: jsval
  pm_platformIndex :: int
  pm_platformName :: string
  pm_forceName :: string
  pm_departureTick :: "int option"
  pm_departureDateMs :: "int option"
  pm_transferId :: "string option"
  pm_transferStatus :: string

record instance_node =
  in_instanceId :: int
  in_instanceName :: string
  in_hostId :: "int option"
  in_gamePort :: "int option"
  in_address :: string
  in_status :: string
  in_connected :: bool
  in_platforms :: "platform_model list"
  in_platformError :: "string option"

record host_node =
  hn_hostId :: int
  hn_hostName :: string
  hn_connected :: bool
  hn_instances :: "instance_node list"

record platform_tree =
  pt_hosts :: "host_node list"
  pt_unassignedInstances :: "instance_node list"

section \<open>Requests, answers, effects\<close>

text \<open>A thrown value: an \<open>Error\<close> with its message and its \<open>code\<close>, or any other value.\<close>

datatype thrown = ErrorObject string "string option" | ThrownValue jsval

datatype message =
    TransferStatusUpdate string string string "string option"
      \<comment> \<open>transfer id, platform name, text, colour\<close>
  | ImportPlatformRequest string jsval string "string option"
      \<comment> \<open>export id, data, force, target planet\<close>
  | DeleteSourcePlatformRequest int string string "string option"
      \<comment> \<open>platform index, platform name, force, export id\<close>
  | UnlockSourcePlatformRequest int "string option" string
      \<comment> \<open>platform index, platform name, force\<close>
  | ExportPlatformRequest int string "int option"
      \<comment> \<open>platform index, force, target instance\<close>
  | InstanceListPlatformsRequest string
  | PushGatewayConfigRequest "resolved_gateway list" "string list"

text \<open>The document a file is written with (the argument of \<open>JSON.stringify\<close>).\<close>

datatype document =
    StorageDoc "stored_export list"
  | TransactionLogDoc "persisted_log list"
  | PendingDoc "pending_intent list"
  | MarkerDoc "commit_marker list"
  | GatewayDoc "(string \<times> gateway_link list) list"
  | AuditLedgerDoc "audit_row list"

datatype request =
    SendTo int message
  | WriteDocument document
  | AppendAuditRow audit_row
  | Delay int

datatype answer = Resolved jsval | Rejected thrown

datatype push_event =
    TransferUpdateEvent int int transfer_summary
      \<comment> \<open>revision, generation time, transfer\<close>
  | LogUpdateEvent int int string log_event "transfer_info option" "detailed_summary option"
  | TreeUpdateEvent int int string platform_tree

datatype effect =
    Requested request
  | EventLogged string string string
      \<comment> \<open>the controller's log line of a transaction event: transfer id, type, message\<close>
  | Pushed nat push_event
  | TreeBroadcastQueued string
  | BackgroundWrite document
  | CounterInc string "string list" rat
  | HistogramObserve string "string list" rat

section \<open>The state\<close>

record plugin =
  clock :: int
  platformStorage :: "(string, stored_export) jsmap"
  heap :: "active_transfer list"
  activeTransfers :: "(string, nat) jsmap"
  platformDepartureTimes :: "(string, int) jsmap"
  transactionLogs :: "(string, log_event list) jsmap"
  persistedTransactionLogs :: "persisted_log list"
  surfaceExportSubscriptions :: "(nat, subscription) jsmap"
  treeRevision :: int
  transferRevision :: int
  logRevision :: int
  lastTreeForceName :: string
  storageLoadError :: "string option"
  consecutiveStorageWriteFailures :: int
  auditIndex :: "(string, audit_row) jsmap"
  auditRevisions :: "(string, int) jsmap"
  transactionLogLoadError :: "string option"
  gatewayLinks :: "(string, gateway_link list) jsmap"
  pendingTransfers :: "(string, pending_intent) jsmap"
  sourceCommitMarkers :: "(string, commit_marker) jsmap"
  instances :: "(int, instance_rec) jsmap"
  hosts :: "(int, host_rec) jsmap"
  config :: "string \<Rightarrow> jsval option"
    \<comment> \<open>\<open>controller.config.get\<close>; \<open>None\<close> where it throws\<close>
  deadLinks :: "nat list"
    \<comment> \<open>control connections whose \<open>send\<close> throws\<close>
  timers :: "(nat \<times> int \<times> string) list"
    \<comment> \<open>armed validation timeouts: handle, delay, transfer id\<close>
  nextTimer :: nat
  trace :: "effect list"

type_synonym 'r handler = "(request, answer, plugin, thrown, 'r) act"

section \<open>Access to the state\<close>

definition transfer_at :: "plugin \<Rightarrow> nat \<Rightarrow> active_transfer" where
  "transfer_at w r = heap w ! r"

text \<open>\<open>this.plugin.activeTransfers.get(id)\<close>, as an object and as its reference.\<close>

definition find_transfer :: "plugin \<Rightarrow> string \<Rightarrow> active_transfer option" where
  "find_transfer w tid = map_option (transfer_at w) (jm_get (activeTransfers w) tid)"

definition upd_transfer :: "nat \<Rightarrow> (active_transfer \<Rightarrow> active_transfer) \<Rightarrow> plugin \<Rightarrow> plugin" where
  "upd_transfer r f w = w\<lparr>heap := (heap w)[r := f (heap w ! r)]\<rparr>"

text \<open>A new object and the table entry that refers to it.\<close>

definition add_transfer :: "string \<Rightarrow> active_transfer \<Rightarrow> plugin \<Rightarrow> plugin" where
  "add_transfer tid t w =
     w\<lparr>heap := heap w @ [t], activeTransfers := jm_set (activeTransfers w) tid (length (heap w))\<rparr>"

definition emit_effect :: "effect \<Rightarrow> plugin \<Rightarrow> plugin" where
  "emit_effect e w = w\<lparr>trace := trace w @ [e]\<rparr>"

text \<open>The references of the table denote objects.\<close>

definition refs_ok :: "plugin \<Rightarrow> bool" where
  "refs_ok w = (\<forall>r\<in>set (jm_values (activeTransfers w)). r < length (heap w))"

text \<open>An awaited request is recorded in the trace when it is issued.\<close>

definition request_act :: "request \<Rightarrow> answer handler" where
  "request_act q = act_then (act_do (emit_effect (Requested q))) (act_await q)"

definition await_value :: "request \<Rightarrow> jsval handler" where
  "await_value q = act_bind (request_act q)
     (\<lambda>a. case a of Resolved v \<Rightarrow> act_return v | Rejected e \<Rightarrow> act_throw e)"

definition send_to :: "int \<Rightarrow> message \<Rightarrow> jsval handler" where
  "send_to i m = await_value (SendTo i m)"

text \<open>\<open>v.k\<close> outside optional chaining throws when \<open>v\<close> is null or undefined.\<close>

definition read_prop :: "jsval \<Rightarrow> string \<Rightarrow> jsval handler" where
  "read_prop v k =
     (if is_nullish v
      then act_throw (ErrorObject (''Cannot read properties of '' @ js_text v @ '' (reading '' @
             [CHR 0x27] @ k @ [CHR 0x27] @ '')'') None)
      else act_return (prop_get v k))"

section \<open>Facts\<close>

lemma transfer_at_upd [simp]:
  "r < length (heap w) \<Longrightarrow>
    transfer_at (upd_transfer r f w) r' = (if r' = r then f (transfer_at w r) else transfer_at w r')"
  by (simp add: transfer_at_def upd_transfer_def)

lemma upd_transfer_frame [simp]:
  "activeTransfers (upd_transfer r f w) = activeTransfers w"
  "length (heap (upd_transfer r f w)) = length (heap w)"
  "trace (upd_transfer r f w) = trace w" "clock (upd_transfer r f w) = clock w"
  "pendingTransfers (upd_transfer r f w) = pendingTransfers w"
  "transactionLogs (upd_transfer r f w) = transactionLogs w"
  "platformStorage (upd_transfer r f w) = platformStorage w"
  "config (upd_transfer r f w) = config w" "timers (upd_transfer r f w) = timers w"
  "nextTimer (upd_transfer r f w) = nextTimer w"
  "auditIndex (upd_transfer r f w) = auditIndex w"
  "persistedTransactionLogs (upd_transfer r f w) = persistedTransactionLogs w"
  by (simp_all add: upd_transfer_def)

lemma emit_effect_frame [simp]:
  "activeTransfers (emit_effect e w) = activeTransfers w" "heap (emit_effect e w) = heap w"
  "trace (emit_effect e w) = trace w @ [e]" "clock (emit_effect e w) = clock w"
  "pendingTransfers (emit_effect e w) = pendingTransfers w"
  "transactionLogs (emit_effect e w) = transactionLogs w"
  "platformStorage (emit_effect e w) = platformStorage w"
  "config (emit_effect e w) = config w" "timers (emit_effect e w) = timers w"
  "nextTimer (emit_effect e w) = nextTimer w"
  "auditIndex (emit_effect e w) = auditIndex w"
  "persistedTransactionLogs (emit_effect e w) = persistedTransactionLogs w"
  by (simp_all add: emit_effect_def)

lemma find_transfer_add [simp]:
  "find_transfer (add_transfer tid t w) tid' =
    (if tid' = tid then Some t
     else map_option (\<lambda>r. (heap w @ [t]) ! r) (jm_get (activeTransfers w) tid'))"
  by (cases "jm_get (activeTransfers w) tid'")
    (simp_all add: find_transfer_def add_transfer_def transfer_at_def)

end
