(* ===== verification/Helpers.thy ===== *)
theory Helpers
  imports Plugin
begin

text \<open>
  The pure helpers of helpers.ts and shared/utils.ts that the controller's components share: error
  texts, number coercions and the three metric builders.
\<close>

section \<open>Errors\<close>

definition getErrorMessage_or :: "string \<Rightarrow> thrown \<Rightarrow> string" where
  "getErrorMessage_or fallback err =
     (case err of
        ErrorObject m c \<Rightarrow> str_or m fallback
      | ThrownValue (JStr s) \<Rightarrow> str_or s fallback
      | ThrownValue v \<Rightarrow> (case prop_get v ''message'' of JStr s \<Rightarrow> str_or s fallback | _ \<Rightarrow> fallback))"

definition getErrorMessage :: "thrown \<Rightarrow> string" where
  "getErrorMessage = getErrorMessage_or ''Unknown error''"

definition isSessionLostError :: "thrown \<Rightarrow> bool" where
  "isSessionLostError err =
     (case err of
        ErrorObject m c \<Rightarrow> c = Some ''SessionLost''
      | ThrownValue v \<Rightarrow> prop_get v ''code'' = JStr ''SessionLost'')"

text \<open>A case-insensitive search of the two phrases.\<close>

definition ascii_lower :: "char \<Rightarrow> char" where
  "ascii_lower c = (let n = of_char c :: nat in if 65 \<le> n \<and> n \<le> 90 then char_of (n + 32) else c)"

fun starts_with :: "'a list \<Rightarrow> 'a list \<Rightarrow> bool" where
  "starts_with [] s = True"
| "starts_with (c # cs) [] = False"
| "starts_with (c # cs) (d # ds) = (c = d \<and> starts_with cs ds)"

fun includes_str :: "'a list \<Rightarrow> 'a list \<Rightarrow> bool" where
  "includes_str p [] = (p = [])"
| "includes_str p (c # cs) = (starts_with p (c # cs) \<or> includes_str p cs)"

definition isBenignUnlockError :: "string \<Rightarrow> bool" where
  "isBenignUnlockError text =
     (let t = map ascii_lower text
      in includes_str ''platform not locked'' t \<or> includes_str ''no locked platforms'' t)"

lemma starts_with_iff: "starts_with p s \<longleftrightarrow> (\<exists>t. s = p @ t)"
  by (induction p s rule: starts_with.induct) auto

lemma includes_str_iff: "includes_str p s \<longleftrightarrow> (\<exists>u v. s = u @ p @ v)"
proof (induction p s rule: includes_str.induct)
  case (2 p c cs)
  have "(\<exists>u v. c # cs = u @ p @ v) \<longleftrightarrow> (\<exists>v. c # cs = p @ v) \<or> (\<exists>u v. cs = u @ p @ v)"
    (is "?l \<longleftrightarrow> ?r")
  proof
    assume ?l
    then obtain u v where uv: "c # cs = u @ p @ v" by blast
    then show ?r by (cases u) auto
  next
    assume ?r
    then show ?l by (metis append_Cons append_Nil)
  qed
  with 2 show ?case by (simp add: starts_with_iff)
qed simp

section \<open>Numbers\<close>

definition TICKS_TO_MS :: rat where
  "TICKS_TO_MS = 1667 / 100"

definition DEFAULT_VALIDATION_TIMEOUT_SECONDS :: int where
  "DEFAULT_VALIDATION_TIMEOUT_SECONDS = 30"

definition MIN_VALIDATION_TIMEOUT_SECONDS :: int where
  "MIN_VALIDATION_TIMEOUT_SECONDS = 5"

definition MAX_VALIDATION_TIMEOUT_SECONDS :: int where
  "MAX_VALIDATION_TIMEOUT_SECONDS = 120"

definition toFiniteNumber :: "jsval \<Rightarrow> jsnum option" where
  "toFiniteNumber v = (let n = to_number v in if is_finite n then Some n else None)"

definition coercePlatformIndex :: "jsval \<Rightarrow> int option" where
  "coercePlatformIndex v = (let n = to_number v in if is_integer n then Some (int_of_num n) else None)"

text \<open>A number read from a field whose declared type is \<open>number\<close>.\<close>

definition num_of_val :: "jsval \<Rightarrow> jsnum" where
  "num_of_val v = (case v of JNum n \<Rightarrow> n | _ \<Rightarrow> NaN)"

definition formatMs :: "jsnum option \<Rightarrow> string" where
  "formatMs ms =
     (case ms of
        Some (Fin q) \<Rightarrow> (if 1000 \<le> q then to_fixed1 (q / 1000) @ ''s''
                        else show_int (math_round q) @ ''ms'')
      | _ \<Rightarrow> [])"

section \<open>Export metrics\<close>

definition export_metric_mappings :: "(string \<times> string) list" where
  "export_metric_mappings =
    [(''requestExportAndLockMs'', ''requestExportAndLockMs''),
     (''waitForControllerStoreMs'', ''waitForControllerStoreMs''),
     (''controllerExportPrepTotalMs'', ''controllerExportPrepTotalMs''),
     (''exportRequestMs'', ''requestExportAndLockMs''),
     (''waitForStoredMs'', ''waitForControllerStoreMs''),
     (''exportPrepTotalMs'', ''controllerExportPrepTotalMs''),
     (''async_export_ticks'', ''instanceAsyncExportTicks''),
     (''async_export_ms'', ''instanceAsyncExportMs''),
     (''async_export_seconds'', ''instanceAsyncExportSeconds''),
     (''entity_count'', ''exportedEntityCount''),
     (''tile_count'', ''exportedTileCount''),
     (''atomic_belt_entities'', ''atomicBeltEntitiesScanned''),
     (''atomic_belt_item_stacks'', ''atomicBeltItemStacksCaptured''),
     (''uncompressed_bytes'', ''uncompressedPayloadBytes''),
     (''compressed_bytes'', ''compressedPayloadBytes''),
     (''compression_reduction_pct'', ''compressionReductionPct''),
     (''schedule_record_count'', ''scheduleRecordCount''),
     (''schedule_interrupt_count'', ''scheduleInterruptCount'')]"

definition export_metric_keys :: "string list" where
  "export_metric_keys =
    [''requestExportAndLockMs'', ''waitForControllerStoreMs'', ''controllerExportPrepTotalMs'',
     ''instanceAsyncExportTicks'', ''instanceAsyncExportMs'', ''instanceAsyncExportSeconds'',
     ''exportedEntityCount'', ''exportedTileCount'', ''atomicBeltEntitiesScanned'',
     ''atomicBeltItemStacksCaptured'', ''uncompressedPayloadBytes'', ''compressedPayloadBytes'',
     ''compressionReductionPct'', ''scheduleRecordCount'', ''scheduleInterruptCount'']"

type_synonym fields = "(string \<times> jsval) list"

definition copy_metric :: "jsval \<Rightarrow> fields \<Rightarrow> string \<times> string \<Rightarrow> fields" where
  "copy_metric raw out m =
     (let v = prop_get raw (fst m) in if is_nullish v then out else obj_set out (snd m) v)"

definition coerce_metric :: "fields \<Rightarrow> string \<Rightarrow> fields" where
  "coerce_metric out key =
     (let v = obj_get out key
      in if is_nullish v then out
         else case toFiniteNumber v of None \<Rightarrow> out | Some n \<Rightarrow> obj_set out key (JNum n))"

definition normalizeExportMetrics :: "jsval \<Rightarrow> fields" where
  "normalizeExportMetrics raw =
     (if \<not> truthy raw \<or> \<not> is_object raw then []
      else
        let copied = foldl (copy_metric raw) [] export_metric_mappings;
            timed = (case toFiniteNumber (obj_get copied ''instanceAsyncExportTicks'') of
                None \<Rightarrow> copied
              | Some ticks \<Rightarrow>
                  if obj_get copied ''instanceAsyncExportMs'' = JUndef
                  then obj_set copied ''instanceAsyncExportMs'' (JNum (num_round (num_scale TICKS_TO_MS ticks)))
                  else copied)
        in foldl coerce_metric timed export_metric_keys)"

section \<open>Payload metrics\<close>

definition sum_values :: "jsval \<Rightarrow> jsnum" where
  "sum_values v = foldl (\<lambda>sum (k, c). num_add sum (num_of_val c)) (Fin 0) (obj_fields v)"

text \<open>The payload metrics with the item and fluid counts they were computed from.\<close>

definition buildPayloadMetrics :: "jsval \<Rightarrow> jsval \<times> jsval \<times> jsval" where
  "buildPayloadMetrics exportData =
     (let verification = val_or (prop_get exportData ''verification'') (JObj []);
          itemCounts = val_or (prop_get verification ''item_counts'') (JObj []);
          fluidCounts = val_or (prop_get verification ''fluid_counts'') (JObj []);
          payload = str_field exportData ''payload'';
          stats0 = prop_get exportData ''stats'';
          stats = (if is_object stats0 then stats0 else JObj [])
      in (JObj
          [(''isCompressed'', JBool (truthy (prop_get exportData ''compressed''))),
           (''compressionType'', JStr (nullish (str_field exportData ''compression'') ''none'')),
           (''payloadSizeKB'',
              case ostr_truthy payload of None \<Rightarrow> JNull
              | Some p \<Rightarrow> JNum (Fin (of_int (math_round (of_nat (length p) / 1024 * 10)) / 10))),
           (''entityCount'', JNum (to_number (val_or (prop_get stats ''entity_count'') (JNum (Fin 0))))),
           (''tileCount'', JNum (to_number (val_or (prop_get stats ''tile_count'') (JNum (Fin 0))))),
           (''uniqueItemTypes'', JNum (Fin (of_nat (length (obj_fields itemCounts))))),
           (''totalItemCount'', JNum (sum_values itemCounts)),
           (''uniqueFluidTypes'', JNum (Fin (of_nat (length (obj_fields fluidCounts))))),
           (''totalFluidVolume'', JNum (num_scale (1 / 10) (num_round (num_scale 10 (sum_values fluidCounts)))))],
          itemCounts, fluidCounts))"

section \<open>Import metrics\<close>

definition tick_fields :: "string list" where
  "tick_fields = [''tiles'', ''entities'', ''fluids'', ''belts'', ''state'', ''validation'', ''total'']"

definition count_fields :: "string list" where
  "count_fields =
    [''tiles_placed'', ''entities_created'', ''entities_failed'', ''entities_skipped'',
     ''entities_mapped'', ''fluids_restored'',
     ''belt_items_restored'', ''belt_state_applied'', ''belt_state_unmatched'', ''belt_state_failed'',
     ''belt_state_merge_discarded'', ''belt_state_declined'',
     ''inventory_state_applied'', ''inventory_state_declined'', ''inventory_state_failed'',
     ''circuits_connected'', ''copper_pruned'', ''proxies_linked'', ''total_items'', ''total_fluids'']"

definition zero :: jsval where
  "zero = JNum (Fin 0)"

definition tick_entries :: "jsval \<Rightarrow> int option \<Rightarrow> string \<Rightarrow> fields" where
  "tick_entries input durationTicks f =
     (let ticks = to_number (val_or (prop_get input (f @ ''_ticks''))
                    (if f = ''total'' then val_or (val_of_int durationTicks) zero else zero))
      in [(f @ ''_ticks'', JNum ticks), (f @ ''_ms'', JNum (num_round (num_scale TICKS_TO_MS ticks)))])"

definition phase_span :: "jsval \<Rightarrow> jsval option" where
  "phase_span entry =
     (if \<not> truthy entry \<or> \<not> is_object entry then None
      else
        let startOffsetMs = to_number (prop_get entry ''start_offset_ms'');
            durationMs = to_number (prop_get entry ''duration_ms'')
        in case prop_get entry ''name'' of
             JStr name \<Rightarrow>
               if \<not> is_finite startOffsetMs \<or> \<not> is_finite durationMs then None
               else Some (JObj ([(''name'', JStr name), (''startOffsetMs'', JNum startOffsetMs),
                                 (''durationMs'', JNum durationMs)]
                      @ (case prop_get entry ''parent'' of JStr p \<Rightarrow> [(''parent'', JStr p)] | _ \<Rightarrow> [])))
           | _ \<Rightarrow> None)"

definition buildImportMetrics :: "jsval \<Rightarrow> int option \<Rightarrow> jsval" where
  "buildImportMetrics raw durationTicks =
     (if \<not> truthy raw \<and> durationTicks = None then JNull
      else
        let input = (if is_object raw then raw else JObj []);
            head = [(''total_ticks'', JNum (to_number
                      (val_or (prop_get input ''total_ticks'') (val_or (val_of_int durationTicks) zero))))];
            ticks = foldl obj_spread head (map (tick_entries input durationTicks) tick_fields);
            counts = foldl (\<lambda>fs f. obj_set fs f (JNum (to_number (val_or (prop_get input f) zero))))
                       ticks count_fields;
            spans = (case prop_get input ''phase_spans'' of
                       JArr entries \<Rightarrow> List.map_filter phase_span entries | _ \<Rightarrow> [])
        in JObj (if spans = [] then counts else obj_set counts ''phaseSpans'' (JArr spans)))"

section \<open>Facts\<close>

lemma getErrorMessage_nonempty: "getErrorMessage e \<noteq> []"
  by (auto simp: getErrorMessage_def getErrorMessage_or_def str_or_def
      split: thrown.split jsval.split)

lemma coercePlatformIndex_int [simp]: "coercePlatformIndex (JNum (num_of_int i)) = Some i"
  by (simp add: coercePlatformIndex_def Let_def)

lemma obj_get_spread:
  "obj_get (obj_spread a b) k = (if k \<in> fst ` set b then obj_get (rev b) k else obj_get a k)"
proof (induction b rule: rev_induct)
  case (snoc x b)
  then show ?case by (cases x) (auto simp: obj_spread_def)
qed (simp add: obj_spread_def)

end
