(* ===== verification/Instances.thy ===== *)
theory Instances
  imports Helpers
begin

text \<open>
  Instances, hosts and the platform tree (lib/platform-tree.ts, \<open>isInstanceOnline\<close> of
  controller.ts): name and target resolution, the transfer state shown on a platform, and the tree
  sent to the browser. \<open>localeCompare\<close> is a parameter: \<open>lc a b\<close> stands for
  \<open>a.localeCompare(b) <= 0\<close>.
\<close>

section \<open>Lookup\<close>

definition find_instance :: "plugin \<Rightarrow> jsnum \<Rightarrow> instance_rec option" where
  "find_instance w n = (if is_integer n then jm_get (instances w) (int_of_num n) else None)"

definition find_host :: "plugin \<Rightarrow> jsval \<Rightarrow> host_rec option" where
  "find_host w v = (let n = to_number v in if is_integer n then jm_get (hosts w) (int_of_num n) else None)"

definition resolveInstanceName :: "plugin \<Rightarrow> jsnum \<Rightarrow> string option" where
  "resolveInstanceName w n =
     (case find_instance w n of
        None \<Rightarrow> None
      | Some inst \<Rightarrow> (case n_name inst of JStr name \<Rightarrow> ostr_truthy (Some name) | _ \<Rightarrow> None))"

text \<open>\<open>===\<close> on the values a target or a configuration field can hold.\<close>

fun strict_eq :: "jsval \<Rightarrow> jsval \<Rightarrow> bool" where
  "strict_eq JUndef JUndef = True"
| "strict_eq JNull JNull = True"
| "strict_eq (JBool a) (JBool b) = (a = b)"
| "strict_eq (JNum a) (JNum b) = num_eq a b"
| "strict_eq (JStr a) (JStr b) = (a = b)"
| "strict_eq _ _ = False"

definition matches_target :: "jsval \<Rightarrow> instance_rec \<Rightarrow> bool" where
  "matches_target target inst =
     (strict_eq (n_name inst) (JStr (js_text target)) \<or> strict_eq (n_assignedHost inst) target)"

definition resolveTargetInstance :: "plugin \<Rightarrow> jsval \<Rightarrow> (int \<times> instance_rec) option" where
  "resolveTargetInstance w target =
     (let n = to_number target
      in case find_instance w n of
           Some inst \<Rightarrow> Some (int_of_num n, inst)
         | None \<Rightarrow> map_option (\<lambda>inst. (n_id inst, inst))
                     (List.find (matches_target target) (jm_values (instances w))))"

definition isInstanceOnline :: "plugin \<Rightarrow> int \<Rightarrow> bool" where
  "isInstanceOnline w i =
     (case jm_get (instances w) i of
        None \<Rightarrow> False
      | Some inst \<Rightarrow>
          if n_isDeleted inst then False
          else (case find_host w (n_assignedHost inst) of
                  None \<Rightarrow> False
                | Some host \<Rightarrow> h_connected host \<and> n_status inst = ''running''))"

definition instanceAddress :: "string option \<Rightarrow> int option \<Rightarrow> string" where
  "instanceAddress publicAddress gamePort =
     (case oint_truthy gamePort of
        None \<Rightarrow> []
      | Some p \<Rightarrow> ostr_or publicAddress ''localhost'' @ CHR '':'' # show_int p)"

section \<open>The transfer state of a platform\<close>

definition terminalStatuses :: "status list" where
  "terminalStatuses = [Completed, Failed, CleanupFailed, Errored]"

definition mark_platform :: "active_transfer \<Rightarrow> platform_model \<Rightarrow> platform_model" where
  "mark_platform t p =
     (if (t_platformIndex t \<noteq> 0 \<and> pm_platformIndex p = t_platformIndex t)
         \<or> pm_platformName p = t_platformName t
      then p\<lparr>pm_transferId := Some (t_transferId t), pm_transferStatus := status_text (t_status t)\<rparr>
      else p)"

definition applyActiveTransferState :: "plugin \<Rightarrow> platform_model list \<Rightarrow> int \<Rightarrow> platform_model list" where
  "applyActiveTransferState w platforms instanceId =
     foldl (\<lambda>ps r. let t = transfer_at w r in
              if t_sourceInstanceId t \<noteq> instanceId then ps
              else if t_status t \<in> set terminalStatuses then ps
              else map (mark_platform t) ps)
       (map (\<lambda>p. p\<lparr>pm_transferId := None, pm_transferStatus := ''idle''\<rparr>) platforms)
       (jm_values (activeTransfers w))"

section \<open>The tree\<close>

text \<open>A platform as an instance reports it.\<close>

definition platform_of_val :: "jsval \<Rightarrow> platform_model" where
  "platform_of_val v =
     \<lparr>pm_reported = v, pm_platformIndex = int_of_num (num_of_val (prop_get v ''platformIndex'')),
      pm_platformName = nullish (str_field v ''platformName'') [],
      pm_forceName = nullish (str_field v ''forceName'') [],
      pm_departureTick = (case prop_get v ''departureTick'' of JNum n \<Rightarrow> Some (int_of_num n) | _ \<Rightarrow> None),
      pm_departureDateMs = None, pm_transferId = None, pm_transferStatus = []\<rparr>"

definition requestInstancePlatforms ::
    "int \<Rightarrow> string \<Rightarrow> (platform_model list \<times> string option) handler" where
  "requestInstancePlatforms instanceId forceName =
     act_try
       (act_bind (act_await (SendTo instanceId (InstanceListPlatformsRequest forceName)))
          (\<lambda>a. case a of
             Resolved response \<Rightarrow>
               act_return (case prop_get response ''platforms'' of JArr ps \<Rightarrow> map platform_of_val ps | _ \<Rightarrow> [],
                           None)
           | Rejected e \<Rightarrow> act_throw e))
       (\<lambda>e. act_return ([], Some (getErrorMessage e)))"

definition instance_node_of :: "plugin \<Rightarrow> instance_rec \<Rightarrow> instance_node" where
  "instance_node_of w inst =
     (let rawHostId = n_assignedHost inst; n = to_number rawHostId;
          host = find_host w rawHostId
      in \<lparr>in_instanceId = n_id inst,
          in_instanceName = (let v = n_name inst in if truthy v then js_text v else []),
          in_hostId = (if is_integer n then Some (int_of_num n) else None),
          in_gamePort = n_gamePort inst,
          in_address = instanceAddress (case host of None \<Rightarrow> None | Some h \<Rightarrow> h_publicAddress h) (n_gamePort inst),
          in_status = n_status inst,
          in_connected = (case host of None \<Rightarrow> False | Some h \<Rightarrow> h_connected h),
          in_platforms = [],
          in_platformError = None\<rparr>)"

definition wants_load :: "instance_node \<Rightarrow> bool" where
  "wants_load node = (in_connected node \<and> in_status node = ''running'')"

definition with_departure :: "plugin \<Rightarrow> platform_model \<Rightarrow> platform_model" where
  "with_departure w p =
     (if pm_departureTick p = None then p
      else p\<lparr>pm_departureDateMs := jm_get (platformDepartureTimes w) (pm_platformName p)\<rparr>)"

definition loaded_node ::
    "(string \<Rightarrow> string \<Rightarrow> bool) \<Rightarrow> plugin \<Rightarrow> instance_node \<Rightarrow> platform_model list \<times> string option \<Rightarrow> instance_node" where
  "loaded_node lc w node r =
     node\<lparr>in_platforms := map (with_departure w)
             (sort_by (\<lambda>a b. lc (pm_platformName a) (pm_platformName b))
               (applyActiveTransferState w (fst r) (in_instanceId node))),
          in_platformError := snd r\<rparr>"

text \<open>
  \<open>Promise.all\<close>: every request is issued before the first answer is awaited; each answer only
  fills its own node, so they are awaited here in the order of the instances.
\<close>

fun load_nodes ::
    "(string \<Rightarrow> string \<Rightarrow> bool) \<Rightarrow> string \<Rightarrow> instance_node list \<Rightarrow> instance_node list handler" where
  "load_nodes lc forceName [] = act_return []"
| "load_nodes lc forceName (node # nodes) =
     (if wants_load node
      then act_bind (requestInstancePlatforms (in_instanceId node) forceName)
             (\<lambda>r. act_get (\<lambda>w. act_bind (load_nodes lc forceName nodes)
                (\<lambda>rest. act_return (loaded_node lc w node r # rest))))
      else act_bind (load_nodes lc forceName nodes) (\<lambda>rest. act_return (node # rest)))"

definition issue_loads :: "string \<Rightarrow> instance_node list \<Rightarrow> plugin \<Rightarrow> plugin" where
  "issue_loads forceName nodes w =
     foldl (\<lambda>w node. if wants_load node
              then emit_effect (Requested (SendTo (in_instanceId node) (InstanceListPlatformsRequest forceName))) w
              else w) w nodes"

definition by_name :: "(string \<Rightarrow> string \<Rightarrow> bool) \<Rightarrow> instance_node list \<Rightarrow> instance_node list" where
  "by_name lc = sort_by (\<lambda>a b. lc (in_instanceName a) (in_instanceName b))"

definition assemble_tree ::
    "(string \<Rightarrow> string \<Rightarrow> bool) \<Rightarrow> host_rec list \<Rightarrow> instance_node list \<Rightarrow> platform_tree" where
  "assemble_tree lc live nodes =
     (let known = map h_id live;
          placed = (\<lambda>node. case in_hostId node of None \<Rightarrow> False | Some h \<Rightarrow> h \<in> set known);
          host_nodes = map (\<lambda>h. \<lparr>hn_hostId = h_id h, hn_hostName = h_name h, hn_connected = h_connected h,
              hn_instances = by_name lc (filter (\<lambda>node. in_hostId node = Some (h_id h)) nodes)\<rparr>) live
      in \<lparr>pt_hosts = sort_by (\<lambda>a b. lc (hn_hostName a) (hn_hostName b)) host_nodes,
          pt_unassignedInstances = by_name lc (filter (\<lambda>node. \<not> placed node) nodes)\<rparr>)"

definition buildPlatformTree :: "(string \<Rightarrow> string \<Rightarrow> bool) \<Rightarrow> string \<Rightarrow> platform_tree handler" where
  "buildPlatformTree lc forceName =
     act_get (\<lambda>w.
       let live = filter (\<lambda>h. \<not> h_isDeleted h) (jm_values (hosts w));
           nodes = map (instance_node_of w) (filter (\<lambda>i. \<not> n_isDeleted i) (jm_values (instances w)))
       in act_then (act_do (issue_loads forceName nodes))
            (act_bind (load_nodes lc forceName nodes)
              (\<lambda>loaded. act_return (assemble_tree lc live loaded))))"

section \<open>Facts\<close>

text \<open>A resolved target is an instance of the cluster, under its own id.\<close>

definition instances_ok :: "plugin \<Rightarrow> bool" where
  "instances_ok w = (jm_wf (instances w) \<and> (\<forall>(k, inst)\<in>set (instances w). n_id inst = k))"

lemma resolveTargetInstance_known:
  assumes "instances_ok w" and "resolveTargetInstance w target = Some (i, inst)"
  shows "jm_get (instances w) i = Some inst"
proof (cases "find_instance w (to_number target)")
  case (Some inst')
  with assms(2) show ?thesis
    by (auto simp: resolveTargetInstance_def find_instance_def Let_def split: if_splits)
next
  case None
  with assms(2) have "List.find (matches_target target) (jm_values (instances w)) = Some inst"
    and i: "i = n_id inst"
    by (auto simp: resolveTargetInstance_def Let_def)
  then have "inst \<in> set (jm_values (instances w))"
    by (auto dest: find_Some_iff)
  then obtain k where "(k, inst) \<in> set (instances w)" by auto
  with assms(1) i show ?thesis
    by (auto simp: instances_ok_def jm_get_iff_in)
qed

lemma isInstanceOnline_known: "isInstanceOnline w i \<Longrightarrow> jm_get (instances w) i \<noteq> None"
  by (auto simp: isInstanceOnline_def split: option.splits)

lemma mark_platform_keeps [simp]:
  "pm_platformIndex (mark_platform t p) = pm_platformIndex p"
  "pm_platformName (mark_platform t p) = pm_platformName p"
  by (simp_all add: mark_platform_def)

lemma length_applyActiveTransferState [simp]:
  "length (applyActiveTransferState w ps i) = length ps"
proof -
  have "length (foldl (\<lambda>ps r. let t = transfer_at w r in
              if t_sourceInstanceId t \<noteq> i then ps
              else if t_status t \<in> set terminalStatuses then ps
              else map (mark_platform t) ps) qs rs) = length qs" for qs rs
    by (induction rs arbitrary: qs) (auto simp: Let_def)
  then show ?thesis by (simp add: applyActiveTransferState_def)
qed

end
