(* ===== verification/TransferInfo.thy ===== *)
theory TransferInfo
  imports Instances
begin

text \<open>
  The views of a transfer that the transaction logger computes (lib/transaction-logger.ts): the
  transfer info kept with a log, the summary of the list and the detailed summary.
\<close>

definition buildTransferInfo :: "plugin \<Rightarrow> active_transfer \<Rightarrow> transfer_info" where
  "buildTransferInfo w t =
     \<lparr>i_transferId = Some (t_transferId t),
      i_operationType = Some (operation_text (t_operationType t)),
      i_exportId = t_exportId t,
      i_artifactSizeBytes = t_artifactSizeBytes t,
      i_platformName = Some (t_platformName t),
      i_platformIndex = Some (t_platformIndex t),
      i_forceName = Some (t_forceName t),
      i_sourceInstanceId = Some (t_sourceInstanceId t),
      i_sourceInstanceName = (case ostr_truthy (t_sourceInstanceName t) of
          Some s \<Rightarrow> Some s | None \<Rightarrow> resolveInstanceName w (num_of_int (t_sourceInstanceId t))),
      i_targetInstanceId = Some (t_targetInstanceId t),
      i_targetInstanceName = (case ostr_truthy (t_targetInstanceName t) of
          Some s \<Rightarrow> Some s | None \<Rightarrow> resolveInstanceName w (num_of_int (t_targetInstanceId t))),
      i_status = Some (status_text (t_status t)),
      i_startedAt = oint_truthy (Some (t_startedAt t)),
      i_completedAt = oint_truthy (t_completedAt t),
      i_failedAt = oint_truthy (t_failedAt t),
      i_error = ostr_truthy (t_error t)\<rparr>"

definition getLastEventTimestamp :: "plugin \<Rightarrow> string \<Rightarrow> int option" where
  "getLastEventTimestamp w tid =
     (case jm_get (transactionLogs w) tid of
        None \<Rightarrow> None
      | Some events \<Rightarrow> if events = [] then None else oint_truthy (Some (e_timestampMs (last events))))"

definition export_of :: "plugin \<Rightarrow> string option \<Rightarrow> stored_export option" where
  "export_of w eid = (case ostr_truthy eid of None \<Rightarrow> None | Some e \<Rightarrow> jm_get (platformStorage w) e)"

text \<open>\<open>Boolean(storedExport?.exportData)\<close>, \<open>storedExport?.size\<close>.\<close>

definition is_downloadable :: "stored_export option \<Rightarrow> bool" where
  "is_downloadable x = (case x of None \<Rightarrow> False | Some e \<Rightarrow> truthy (x_exportData e))"

definition size_of_export :: "stored_export option \<Rightarrow> int option" where
  "size_of_export x = (case x of None \<Rightarrow> None | Some e \<Rightarrow> x_size e)"

definition first_some :: "'a option \<Rightarrow> 'a option \<Rightarrow> 'a option" where
  "first_some a b = (case a of None \<Rightarrow> b | Some v \<Rightarrow> Some v)"

definition payload_size_estimate :: "active_transfer \<Rightarrow> int option" where
  "payload_size_estimate t =
     (case prop_get (t_payloadMetrics t) ''payloadSizeKB'' of
        JNum (Fin kb) \<Rightarrow> Some (math_round (kb * 1024)) | _ \<Rightarrow> None)"

definition buildTransferSummary :: "plugin \<Rightarrow> string \<Rightarrow> active_transfer \<Rightarrow> int option \<Rightarrow> transfer_summary" where
  "buildTransferSummary w tid t lastEventAt =
     (let info = buildTransferInfo w t;
          stored = export_of w (i_exportId info)
      in \<lparr>s_transferId = tid,
          s_operationType = operation_text (t_operationType t),
          s_exportId = ostr_truthy (i_exportId info),
          s_artifactSizeBytes = first_some (i_artifactSizeBytes info)
             (first_some (size_of_export stored) (payload_size_estimate t)),
          s_downloadable = is_downloadable stored,
          s_platformName = t_platformName t,
          s_sourceInstanceId = t_sourceInstanceId t,
          s_sourceInstanceName = i_sourceInstanceName info,
          s_targetInstanceId = t_targetInstanceId t,
          s_targetInstanceName = i_targetInstanceName info,
          s_status = status_text (t_status t),
          s_startedAt = oint_or (i_startedAt info) (clock w),
          s_completedAt = i_completedAt info,
          s_failedAt = i_failedAt info,
          s_error = i_error info,
          s_lastEventAt = lastEventAt,
          s_registrySource = [],
          s_revisions = 0\<rparr>)"

definition formatDuration :: "int option \<Rightarrow> string option" where
  "formatDuration d =
     (case d of None \<Rightarrow> None
      | Some ms \<Rightarrow> Some (if 1000 \<le> ms then to_fixed1 (of_int ms / 1000) @ ''s'' else show_int ms @ ''ms''))"

definition resolveTransferResult :: "status \<Rightarrow> string" where
  "resolveTransferResult st =
     (if st = Completed then ''SUCCESS''
      else if st \<in> set [Failed, Errored, CleanupFailed] then ''FAILED''
      else ''IN_PROGRESS'')"

definition buildPhaseSummary :: "active_transfer \<Rightarrow> (string \<times> rat) list" where
  "buildPhaseSummary t =
     List.map_filter (\<lambda>(name, ph). map_option (\<lambda>d. (name @ ''Ms'', d)) (ph_durationMs ph)) (t_phases t)"

definition buildDetailedTransferSummary ::
    "plugin \<Rightarrow> string \<Rightarrow> active_transfer \<Rightarrow> int option \<Rightarrow> detailed_summary" where
  "buildDetailedTransferSummary w tid t lastEventAt =
     (let info = buildTransferInfo w t;
          endAt = oint_or (i_completedAt info) (oint_or (i_failedAt info) (oint_or lastEventAt (clock w)));
          durationMs = map_option (\<lambda>s. max 0 (endAt - s)) (i_startedAt info);
          validation = val_or (t_validationResult t) JNull;
          sv0 = val_or (t_sourceVerification t) JNull;
          sv = (if \<not> truthy sv0 \<and> truthy validation
                then JObj [(''itemCounts'', val_or (prop_get validation ''expectedItemCounts'') (JObj [])),
                           (''fluidCounts'', val_or (prop_get validation ''expectedFluidCounts'') (JObj []))]
                else sv0)
      in \<lparr>d_transferId = tid,
          d_operationType = operation_text (t_operationType t),
          d_result = resolveTransferResult (t_status t),
          d_status = status_text (t_status t),
          d_totalDurationMs = durationMs,
          d_totalDurationStr = formatDuration durationMs,
          d_phases = buildPhaseSummary t,
          d_platformName = t_platformName t,
          d_platformIndex = t_platformIndex t,
          d_source = (t_sourceInstanceId t, i_sourceInstanceName info),
          d_destination = (t_targetInstanceId t, i_targetInstanceName info),
          d_export = val_or (t_exportMetrics t) JNull,
          d_payload = val_or (t_payloadMetrics t) JNull,
          d_import = val_or (t_importMetrics t) JNull,
          d_validation = validation,
          d_sourceVerification = sv,
          d_startedAt = i_startedAt info,
          d_completedAt = i_completedAt info,
          d_failedAt = i_failedAt info,
          d_lastEventAt = lastEventAt,
          d_error = i_error info\<rparr>)"

section \<open>The list of transfers\<close>

text \<open>
  \<open>getTransferSummaries\<close>: one entry per transfer id, from the live table, else from the audit
  index, else from the detail store; newest first.
\<close>

definition set_active_summary ::
    "plugin \<Rightarrow> (string, transfer_summary) jsmap \<Rightarrow> string \<times> nat \<Rightarrow> (string, transfer_summary) jsmap" where
  "set_active_summary w byId e =
     jm_set byId (fst e)
       ((buildTransferSummary w (fst e) (transfer_at w (snd e)) (getLastEventTimestamp w (fst e)))
          \<lparr>s_registrySource := ''active''\<rparr>)"

definition summary_of_row :: "plugin \<Rightarrow> audit_row \<Rightarrow> transfer_summary" where
  "summary_of_row w row =
     \<lparr>s_transferId = a_transferId row,
      s_operationType = a_operationType row,
      s_exportId = ostr_truthy (a_exportId row),
      s_artifactSizeBytes = a_artifactSizeBytes row,
      s_downloadable = False,
      s_platformName = str_or (a_platformName row) ''Unknown'',
      s_sourceInstanceId = a_sourceInstanceId row,
      s_sourceInstanceName = a_sourceInstanceName row,
      s_targetInstanceId = a_targetInstanceId row,
      s_targetInstanceName = a_targetInstanceName row,
      s_status = str_or (a_status row) ''unknown'',
      s_startedAt = oint_or (a_startedAt row) (oint_or (Some (a_savedAt row)) (clock w)),
      s_completedAt = oint_truthy (a_completedAt row),
      s_failedAt = oint_truthy (a_failedAt row),
      s_error = ostr_truthy (a_error row),
      s_lastEventAt = a_lastEventAt row,
      s_registrySource = ''persisted'',
      s_revisions = nullish (jm_get (auditRevisions w) (a_transferId row)) 0\<rparr>"

definition empty_info :: transfer_info where
  "empty_info =
     \<lparr>i_transferId = None, i_operationType = None, i_exportId = None, i_artifactSizeBytes = None,
      i_platformName = None, i_platformIndex = None, i_forceName = None, i_sourceInstanceId = None,
      i_sourceInstanceName = None, i_targetInstanceId = None, i_targetInstanceName = None,
      i_status = None, i_startedAt = None, i_completedAt = None, i_failedAt = None, i_error = None\<rparr>"

definition summary_of_log :: "plugin \<Rightarrow> persisted_log \<Rightarrow> transfer_summary" where
  "summary_of_log w pl =
     (let info = nullish (l_transferInfo pl) empty_info
      in \<lparr>s_transferId = l_transferId pl,
          s_operationType = nullish (i_operationType info) ''transfer'',
          s_exportId = ostr_truthy (i_exportId info),
          s_artifactSizeBytes = i_artifactSizeBytes info,
          s_downloadable = False,
          s_platformName = ostr_or (i_platformName info) ''Unknown'',
          s_sourceInstanceId = nullish (i_sourceInstanceId info) (- 1),
          s_sourceInstanceName = i_sourceInstanceName info,
          s_targetInstanceId = nullish (i_targetInstanceId info) (- 1),
          s_targetInstanceName = i_targetInstanceName info,
          s_status = ostr_or (i_status info) ''unknown'',
          s_startedAt = oint_or (i_startedAt info) (oint_or (Some (l_savedAt pl)) (clock w)),
          s_completedAt = oint_truthy (i_completedAt info),
          s_failedAt = oint_truthy (i_failedAt info),
          s_error = ostr_truthy (i_error info),
          s_lastEventAt = (if l_events pl = [] then None
                           else oint_truthy (Some (e_timestampMs (last (l_events pl))))),
          s_registrySource = ''persisted'',
          s_revisions = nullish (jm_get (auditRevisions w) (l_transferId pl)) 0\<rparr>)"

text \<open>\<open>if (!byId.has(id)) byId.set(id, s)\<close>.\<close>

definition add_missing ::
    "(string, transfer_summary) jsmap \<Rightarrow> transfer_summary \<Rightarrow> (string, transfer_summary) jsmap" where
  "add_missing byId s = (if jm_has byId (s_transferId s) then byId else jm_set byId (s_transferId s) s)"

definition with_artifact :: "plugin \<Rightarrow> transfer_summary \<Rightarrow> transfer_summary" where
  "with_artifact w s =
     (let stored = export_of w (s_exportId s)
      in s\<lparr>s_artifactSizeBytes := first_some (s_artifactSizeBytes s) (size_of_export stored),
           s_downloadable := is_downloadable stored\<rparr>)"

definition collect_summaries :: "plugin \<Rightarrow> (string, transfer_summary) jsmap" where
  "collect_summaries w =
     foldl add_missing
       (foldl add_missing
          (foldl (set_active_summary w) [] (activeTransfers w))
          (map (summary_of_row w) (jm_values (auditIndex w))))
       (map (summary_of_log w) (persistedTransactionLogs w))"

definition newest_first :: "transfer_summary \<Rightarrow> transfer_summary \<Rightarrow> bool" where
  "newest_first a b = (s_startedAt b - s_startedAt a \<le> 0)"

definition getTransferSummaries :: "plugin \<Rightarrow> nat \<Rightarrow> transfer_summary list" where
  "getTransferSummaries w limit =
     take limit (sort_by newest_first (map (with_artifact w) (jm_values (collect_summaries w))))"

section \<open>Facts\<close>

interpretation summary_order: comparator newest_first
  by unfold_locales (auto simp: newest_first_def)

lemma with_artifact_keeps [simp]:
  "s_transferId (with_artifact w s) = s_transferId s"
  "s_startedAt (with_artifact w s) = s_startedAt s"
  "s_registrySource (with_artifact w s) = s_registrySource s"
  "s_status (with_artifact w s) = s_status s"
  by (simp_all add: with_artifact_def Let_def)

lemma summary_ids [simp]:
  "s_transferId (summary_of_row w row) = a_transferId row"
  "s_transferId (summary_of_log w pl) = l_transferId pl"
  "s_transferId (buildTransferSummary w tid t n) = tid"
  by (simp_all add: summary_of_row_def summary_of_log_def buildTransferSummary_def Let_def)

text \<open>A map of summaries is filed under the summaries' own ids.\<close>

definition by_own_id :: "(string, transfer_summary) jsmap \<Rightarrow> bool" where
  "by_own_id m = (jm_wf m \<and> (\<forall>(k, s)\<in>set m. s_transferId s = k))"

lemma set_jm_set_subset: "set (jm_set m k v) \<subseteq> insert (k, v) (set m)"
  by (induction m) (auto split: if_splits)

lemma by_own_id_set: "by_own_id m \<Longrightarrow> s_transferId s = k \<Longrightarrow> by_own_id (jm_set m k s)"
  using set_jm_set_subset [of m k s] by (auto simp: by_own_id_def intro: wf_intros)

lemma by_own_id_add: "by_own_id m \<Longrightarrow> by_own_id (add_missing m s)"
  by (simp add: add_missing_def by_own_id_set)

lemma by_own_id_fold: "by_own_id m \<Longrightarrow> by_own_id (foldl add_missing m xs)"
  by (induction xs arbitrary: m) (auto intro: by_own_id_add)

lemma jm_has_fold_missing:
  "jm_has (foldl add_missing m xs) k \<longleftrightarrow> jm_has m k \<or> k \<in> s_transferId ` set xs"
  by (induction xs arbitrary: m) (auto simp: add_missing_def)

lemma get_fold_missing:
  "jm_get (foldl add_missing m xs) k =
    (case jm_get m k of Some s \<Rightarrow> Some s
     | None \<Rightarrow> List.find (\<lambda>s. s_transferId s = k) xs)"
proof (induction xs arbitrary: m)
  case (Cons x xs)
  show ?case
    using Cons [of "add_missing m x"]
    by (cases "jm_get m k") (auto simp: add_missing_def jm_has_def split: option.splits)
qed (simp split: option.split)

lemma collect_active:
  assumes "jm_wf m"
  shows "by_own_id m0 \<Longrightarrow> by_own_id (foldl (set_active_summary w) m0 m)
    \<and> (\<forall>k. jm_has (foldl (set_active_summary w) m0 m) k \<longleftrightarrow> jm_has m0 k \<or> jm_has m k)"
  using assms
proof (induction m arbitrary: m0)
  case (Cons e m)
  have "by_own_id (set_active_summary w m0 e)"
    using Cons.prems(1) by (auto simp: set_active_summary_def intro: by_own_id_set)
  moreover have "jm_wf m" using Cons.prems(2) by (simp add: jm_wf_def)
  ultimately show ?case
    using Cons.IH by (cases e) (auto simp: set_active_summary_def)
qed simp

lemma by_own_id_Nil [simp]: "by_own_id []"
  by (simp add: by_own_id_def jm_wf_def)

lemma collect_summaries_own:
  assumes "jm_wf (activeTransfers w)"
  shows "by_own_id (collect_summaries w)"
  unfolding collect_summaries_def
  using collect_active [OF assms] by (intro by_own_id_fold) simp

lemma collect_summaries_has:
  assumes "jm_wf (activeTransfers w)"
  shows "jm_has (collect_summaries w) k \<longleftrightarrow>
    jm_has (activeTransfers w) k \<or> k \<in> a_transferId ` set (jm_values (auditIndex w))
      \<or> k \<in> l_transferId ` set (persistedTransactionLogs w)"
  unfolding collect_summaries_def
  using collect_active [OF assms, of "[]" w]
  by (auto simp: jm_has_fold_missing image_iff)

end
