(* ===== verification/Subscriptions.thy ===== *)
theory Subscriptions
  imports TransferInfo
begin

text \<open>
  Live updates (lib/subscription-manager.ts) and the outcome metrics they record
  (lib/metrics.ts). Every update carries the next revision of its stream; a subscriber whose
  connection fails is dropped after the round. A send to a subscriber is a \<open>Pushed\<close> effect.
\<close>

section \<open>Outcome metrics\<close>

definition terminal_result :: "status \<Rightarrow> string option" where
  "terminal_result st =
     (case st of Completed \<Rightarrow> Some ''success'' | Failed \<Rightarrow> Some ''failure''
      | Errored \<Rightarrow> Some ''failure'' | CleanupFailed \<Rightarrow> Some ''cleanup_failed'' | _ \<Rightarrow> None)"

definition nonneg_finite :: "jsnum \<Rightarrow> rat option" where
  "nonneg_finite n = (case n of Fin q \<Rightarrow> if 0 \<le> q then Some q else None | _ \<Rightarrow> None)"

definition exportStallSecondsValue :: "jsval \<Rightarrow> rat option" where
  "exportStallSecondsValue m =
     (if \<not> truthy m \<or> \<not> is_object m then None
      else case nonneg_finite (to_number (prop_get m ''instanceAsyncExportMs'')) of
             Some ms \<Rightarrow> Some (ms / 1000)
           | None \<Rightarrow> nonneg_finite (to_number (prop_get m ''instanceAsyncExportSeconds'')))"

definition failure_stage_label :: "active_transfer \<Rightarrow> string" where
  "failure_stage_label t =
     (case t_failedStage t of
        Some s \<Rightarrow> if s \<in> set [''items'', ''fluids'', ''belts''] then s else ''none''
      | None \<Rightarrow> ''none'')"

definition outcome_effects :: "int \<Rightarrow> active_transfer \<Rightarrow> string \<Rightarrow> effect list" where
  "outcome_effects now t result =
     (let op = operation_text (t_operationType t); labels = [op, result, failure_stage_label t];
          endMs = oint_or (t_completedAt t) (oint_or (t_failedAt t) now);
          durationSec = of_int (endMs - t_startedAt t) / 1000;
          entities = nonneg_finite (to_number (prop_get (t_importMetrics t) ''entities_created''))
      in [CounterInc ''surface_export_operations_total'' labels 1]
       @ (if 0 \<le> durationSec
          then [HistogramObserve ''surface_export_operation_duration_seconds'' labels durationSec] else [])
       @ (case entities of
            Some n \<Rightarrow> if result = ''success'' \<and> 0 < n
                      then [CounterInc ''surface_export_entities_transferred_total'' [op] n] else []
          | None \<Rightarrow> [])
       @ (case exportStallSecondsValue (t_exportMetrics t) of
            Some s \<Rightarrow> [HistogramObserve ''surface_export_export_stall_seconds'' [op] s]
          | None \<Rightarrow> []))"

definition recordOperationOutcome :: "nat \<Rightarrow> plugin \<Rightarrow> plugin" where
  "recordOperationOutcome r w =
     (let t = transfer_at w r
      in if t_metricsRecorded t then w
         else case terminal_result (t_status t) of
                None \<Rightarrow> w
              | Some result \<Rightarrow>
                  foldl (\<lambda>w e. emit_effect e w) (upd_transfer r (\<lambda>t. t\<lparr>t_metricsRecorded := True\<rparr>) w)
                    (outcome_effects (clock w) t result))"

section \<open>Broadcasts\<close>

definition queueTreeBroadcast :: "string \<Rightarrow> plugin \<Rightarrow> plugin" where
  "queueTreeBroadcast forceName w =
     (let force = str_or forceName (str_or (lastTreeForceName w) ''player'')
      in emit_effect (TreeBroadcastQueued force) (w\<lparr>lastTreeForceName := force\<rparr>))"

definition broadcastToSubscribers :: "(subscription \<Rightarrow> bool) \<Rightarrow> push_event \<Rightarrow> plugin \<Rightarrow> plugin" where
  "broadcastToSubscribers P event w =
     (let chosen = map fst (filter (\<lambda>(link, s). P s) (surfaceExportSubscriptions w));
          live = filter (\<lambda>link. link \<notin> set (deadLinks w)) chosen;
          stale = filter (\<lambda>link. link \<in> set (deadLinks w)) chosen
      in w\<lparr>trace := trace w @ map (\<lambda>link. Pushed link event) live,
           surfaceExportSubscriptions := foldl jm_delete (surfaceExportSubscriptions w) stale\<rparr>)"

definition emitTransferUpdate :: "nat \<Rightarrow> plugin \<Rightarrow> plugin" where
  "emitTransferUpdate r w0 =
     (let w1 = recordOperationOutcome r w0;
          w = w1\<lparr>transferRevision := transferRevision w1 + 1\<rparr>;
          t = transfer_at w r
      in broadcastToSubscribers sub_transfers
           (TransferUpdateEvent (transferRevision w) (clock w)
              (buildTransferSummary w (t_transferId t) t (getLastEventTimestamp w (t_transferId t)))) w)"

definition no_event :: "int \<Rightarrow> log_event" where
  "no_event now = \<lparr>e_timestampMs = now, e_elapsedMs = 0, e_deltaMs = 0, e_eventType = ''info'',
      e_message = ''No event details'', e_data = []\<rparr>"

definition emitLogUpdate :: "string \<Rightarrow> log_event option \<Rightarrow> plugin \<Rightarrow> plugin" where
  "emitLogUpdate tid logEvent w0 =
     (let w = w0\<lparr>logRevision := logRevision w0 + 1\<rparr>;
          lastAt = (case logEvent of
                  Some e \<Rightarrow> first_some (oint_truthy (Some (e_timestampMs e))) (getLastEventTimestamp w tid)
                | None \<Rightarrow> getLastEventTimestamp w tid);
          (info, summary) = (case find_transfer w tid of
             Some t \<Rightarrow> (Some (buildTransferInfo w t), Some (buildDetailedTransferSummary w tid t lastAt))
           | None \<Rightarrow>
               (case List.find (\<lambda>l. l_transferId l = tid) (persistedTransactionLogs w) of
                  Some l \<Rightarrow> (l_transferInfo l, l_summary l)
                | None \<Rightarrow> (None, None)))
      in broadcastToSubscribers
           (\<lambda>s. sub_logs s \<and> (case ostr_truthy (sub_transferId s) of None \<Rightarrow> True | Some x \<Rightarrow> x = tid))
           (LogUpdateEvent (logRevision w) (clock w) tid (nullish logEvent (no_event (clock w))) info summary) w)"

definition emitTreeUpdate :: "(string \<Rightarrow> string \<Rightarrow> bool) \<Rightarrow> string \<Rightarrow> unit handler" where
  "emitTreeUpdate lc forceName =
     act_get (\<lambda>w.
       if \<not> (\<exists>s\<in>set (jm_values (surfaceExportSubscriptions w)). sub_tree s) then act_return ()
       else
         let force = str_or forceName (str_or (lastTreeForceName w) ''player'')
         in act_then (act_do (\<lambda>w. w\<lparr>lastTreeForceName := force\<rparr>))
              (act_bind (buildPlatformTree lc force) (\<lambda>tree.
                 act_do (\<lambda>w. let w = w\<lparr>treeRevision := treeRevision w + 1\<rparr>
                   in broadcastToSubscribers sub_tree
                        (TreeUpdateEvent (treeRevision w) (clock w) (lastTreeForceName w) tree) w))))"

section \<open>Subscribing\<close>

text \<open>\<open>link.send(event)\<close>; on failure the subscription is removed and the handler returns.\<close>

definition send_or_drop :: "nat \<Rightarrow> push_event \<Rightarrow> unit handler \<Rightarrow> unit handler" where
  "send_or_drop link event rest =
     act_get (\<lambda>w.
       if link \<in> set (deadLinks w)
       then act_do (\<lambda>w. w\<lparr>surfaceExportSubscriptions := jm_delete (surfaceExportSubscriptions w) link\<rparr>)
       else act_then (act_do (emit_effect (Pushed link event))) rest)"

fun send_snapshots :: "nat \<Rightarrow> nat list \<Rightarrow> unit handler" where
  "send_snapshots link [] = act_return ()"
| "send_snapshots link (r # rs) =
     act_then (act_do (\<lambda>w. w\<lparr>transferRevision := transferRevision w + 1\<rparr>))
       (act_get (\<lambda>w.
          let t = transfer_at w r
          in send_or_drop link
               (TransferUpdateEvent (transferRevision w) (clock w)
                  (buildTransferSummary w (t_transferId t) t (getLastEventTimestamp w (t_transferId t))))
               (send_snapshots link rs)))"

text \<open>
  The connection the request came from (none for an unknown source), and whether its user has the
  permission to view logs, are the caller's.
\<close>

definition handleSetSurfaceExportSubscriptionRequest ::
    "(string \<Rightarrow> string \<Rightarrow> bool) \<Rightarrow> nat option \<Rightarrow> bool \<Rightarrow> subscription \<Rightarrow> unit handler" where
  "handleSetSurfaceExportSubscriptionRequest lc src mayViewLogs request =
     (case src of
        None \<Rightarrow> act_return ()
      | Some link \<Rightarrow>
          let s = request\<lparr>sub_transferId := ostr_truthy (sub_transferId request)\<rparr>
          in if sub_logs s \<and> \<not> mayViewLogs then act_throw (ErrorObject ''Permission denied'' None)
             else if \<not> (sub_tree s \<or> sub_transfers s \<or> sub_logs s)
             then act_do (\<lambda>w. w\<lparr>surfaceExportSubscriptions := jm_delete (surfaceExportSubscriptions w) link\<rparr>)
             else
               let snapshots = (if sub_transfers s
                     then act_get (\<lambda>w. send_snapshots link (jm_values (activeTransfers w))) else act_return ())
               in act_then
                    (act_do (\<lambda>w. w\<lparr>surfaceExportSubscriptions := jm_set (surfaceExportSubscriptions w) link s\<rparr>))
                    (if sub_tree s
                     then act_get (\<lambda>w. act_bind (buildPlatformTree lc (str_or (lastTreeForceName w) ''player''))
                       (\<lambda>tree. act_then (act_do (\<lambda>w. w\<lparr>treeRevision := treeRevision w + 1\<rparr>))
                         (act_get (\<lambda>w. send_or_drop link
                            (TreeUpdateEvent (treeRevision w) (clock w)
                               (str_or (lastTreeForceName w) ''player'') tree) snapshots))))
                     else snapshots))"

section \<open>What the updates leave unchanged\<close>

text \<open>
  The part of the state the update functions never touch, as one projection: what a frame lemma of
  theirs has to say.
\<close>

definition core :: "plugin \<Rightarrow> plugin" where
  "core w = w\<lparr>trace := [], surfaceExportSubscriptions := [], transferRevision := 0, logRevision := 0,
     lastTreeForceName := [], heap := map (\<lambda>t. t\<lparr>t_metricsRecorded := False\<rparr>) (heap w)\<rparr>"

text \<open>Effects that are not requests.\<close>

fun is_request :: "effect \<Rightarrow> bool" where
  "is_request (Requested q) = True"
| "is_request _ = False"

definition requests :: "plugin \<Rightarrow> request list" where
  "requests w = List.map_filter (\<lambda>e. case e of Requested q \<Rightarrow> Some q | _ \<Rightarrow> None) (trace w)"

lemma map_filter_simps [simp]:
  "List.map_filter f [] = []"
  "List.map_filter f (x # xs) = (case f x of None \<Rightarrow> List.map_filter f xs | Some y \<Rightarrow> y # List.map_filter f xs)"
  by (simp_all add: List.map_filter_def split: option.split)

lemma map_filter_append [simp]: "List.map_filter f (xs @ ys) = List.map_filter f xs @ List.map_filter f ys"
  by (induction xs) (auto split: option.split)

lemma requests_emit [simp]:
  "requests (emit_effect e w) = requests w @ (case e of Requested q \<Rightarrow> [q] | _ \<Rightarrow> [])"
  by (cases e) (simp_all add: requests_def)

lemma requests_upd_transfer [simp]: "requests (upd_transfer r f w) = requests w"
  by (simp add: requests_def)

text \<open>
  \<open>quiet f\<close>: an update that keeps the core of the state and issues no request.
\<close>

definition quiet :: "(plugin \<Rightarrow> plugin) \<Rightarrow> bool" where
  "quiet f = (\<forall>w. core (f w) = core w \<and> requests (f w) = requests w \<and> length (heap (f w)) = length (heap w))"

lemma quiet_emit: "\<not> is_request e \<Longrightarrow> quiet (emit_effect e)"
  by (cases e) (auto simp: quiet_def core_def emit_effect_def requests_def)

lemma quiet_comp: "quiet f \<Longrightarrow> quiet g \<Longrightarrow> quiet (\<lambda>w. f (g w))"
  by (simp add: quiet_def)

lemma quiet_id: "quiet (\<lambda>w. w)"
  by (simp add: quiet_def)

lemma quiet_fold_emit:
  "(\<And>e. e \<in> set es \<Longrightarrow> \<not> is_request e) \<Longrightarrow> quiet (\<lambda>w. foldl (\<lambda>w e. emit_effect e w) w es)"
proof (induction es)
  case (Cons e es)
  then show ?case using quiet_comp [OF Cons.IH quiet_emit [of e]] by simp
qed (simp add: quiet_id)

lemma quiet_metricsRecorded: "quiet (upd_transfer r (\<lambda>t. t\<lparr>t_metricsRecorded := True\<rparr>))"
proof -
  have "map (\<lambda>t. t\<lparr>t_metricsRecorded := False\<rparr>) (h[r := (h ! r)\<lparr>t_metricsRecorded := True\<rparr>])
      = map (\<lambda>t. t\<lparr>t_metricsRecorded := False\<rparr>) h" for h :: "active_transfer list"
    by (cases "r < length h") (auto simp: map_update list_update_same_conv list_update_beyond)
  then show ?thesis by (simp add: quiet_def core_def upd_transfer_def requests_def)
qed

lemma quiet_if: "quiet f \<Longrightarrow> quiet g \<Longrightarrow> quiet (\<lambda>w. if P w then f w else g w)"
  by (simp add: quiet_def)

lemma outcome_effects_not_requests:
  "e \<in> set (outcome_effects now t result) \<Longrightarrow> \<not> is_request e"
  by (auto simp: outcome_effects_def Let_def split: option.splits if_splits)

lemma quiet_recordOperationOutcome: "quiet (recordOperationOutcome r)"
proof -
  have q: "quiet (\<lambda>w. foldl (\<lambda>w e. emit_effect e w) w (outcome_effects now t result))" for now t result
    by (intro quiet_fold_emit outcome_effects_not_requests)
  have "core (recordOperationOutcome r w) = core w \<and> requests (recordOperationOutcome r w) = requests w
      \<and> length (heap (recordOperationOutcome r w)) = length (heap w)" for w
    using q quiet_metricsRecorded [of r]
    by (auto simp: recordOperationOutcome_def Let_def quiet_def split: option.split)
  then show ?thesis by (simp add: quiet_def)
qed

lemma quiet_queueTreeBroadcast: "quiet (queueTreeBroadcast f)"
  by (simp add: quiet_def core_def queueTreeBroadcast_def Let_def emit_effect_def requests_def)

lemma requests_pushed [simp]:
  "List.map_filter (\<lambda>e. case e of Requested q \<Rightarrow> Some q | _ \<Rightarrow> None) (map (\<lambda>l. Pushed l ev) ls) = []"
  by (induction ls) auto

lemma quiet_broadcastToSubscribers: "quiet (broadcastToSubscribers P ev)"
  by (simp add: quiet_def core_def broadcastToSubscribers_def Let_def requests_def)

lemma quiet_emitTransferUpdate: "quiet (emitTransferUpdate r)"
proof -
  have "quiet (\<lambda>w. w\<lparr>transferRevision := n\<rparr>)" for n
    by (simp add: quiet_def core_def requests_def)
  then show ?thesis
    using quiet_recordOperationOutcome [of r] quiet_broadcastToSubscribers
    by (simp add: quiet_def emitTransferUpdate_def Let_def)
qed

lemma quiet_emitLogUpdate: "quiet (emitLogUpdate tid ev)"
proof -
  have "quiet (\<lambda>w. w\<lparr>logRevision := n\<rparr>)" for n
    by (simp add: quiet_def core_def requests_def)
  then show ?thesis
    using quiet_broadcastToSubscribers
    by (simp add: quiet_def emitLogUpdate_def Let_def case_prod_beta)
qed

text \<open>What a quiet update keeps, field by field.\<close>

lemma core_fields:
  assumes "core w' = core w"
  shows "activeTransfers w' = activeTransfers w" "clock w' = clock w"
    "platformStorage w' = platformStorage w" "transactionLogs w' = transactionLogs w"
    "persistedTransactionLogs w' = persistedTransactionLogs w" "auditIndex w' = auditIndex w"
    "auditRevisions w' = auditRevisions w" "pendingTransfers w' = pendingTransfers w"
    "config w' = config w" "timers w' = timers w" "nextTimer w' = nextTimer w"
    "instances w' = instances w" "hosts w' = hosts w"
    "transactionLogLoadError w' = transactionLogLoadError w"
    "storageLoadError w' = storageLoadError w" "gatewayLinks w' = gatewayLinks w"
    "map (\<lambda>t. t\<lparr>t_metricsRecorded := False\<rparr>) (heap w') = map (\<lambda>t. t\<lparr>t_metricsRecorded := False\<rparr>) (heap w)"
proof -
  note f = assms [unfolded core_def]
  show "activeTransfers w' = activeTransfers w" using arg_cong [OF f, of activeTransfers] by simp
  show "clock w' = clock w" using arg_cong [OF f, of clock] by simp
  show "platformStorage w' = platformStorage w" using arg_cong [OF f, of platformStorage] by simp
  show "transactionLogs w' = transactionLogs w" using arg_cong [OF f, of transactionLogs] by simp
  show "persistedTransactionLogs w' = persistedTransactionLogs w"
    using arg_cong [OF f, of persistedTransactionLogs] by simp
  show "auditIndex w' = auditIndex w" using arg_cong [OF f, of auditIndex] by simp
  show "auditRevisions w' = auditRevisions w" using arg_cong [OF f, of auditRevisions] by simp
  show "pendingTransfers w' = pendingTransfers w" using arg_cong [OF f, of pendingTransfers] by simp
  show "config w' = config w" using arg_cong [OF f, of config] by simp
  show "timers w' = timers w" using arg_cong [OF f, of timers] by simp
  show "nextTimer w' = nextTimer w" using arg_cong [OF f, of nextTimer] by simp
  show "instances w' = instances w" using arg_cong [OF f, of instances] by simp
  show "hosts w' = hosts w" using arg_cong [OF f, of hosts] by simp
  show "transactionLogLoadError w' = transactionLogLoadError w"
    using arg_cong [OF f, of transactionLogLoadError] by simp
  show "storageLoadError w' = storageLoadError w" using arg_cong [OF f, of storageLoadError] by simp
  show "gatewayLinks w' = gatewayLinks w" using arg_cong [OF f, of gatewayLinks] by simp
  show "map (\<lambda>t. t\<lparr>t_metricsRecorded := False\<rparr>) (heap w') = map (\<lambda>t. t\<lparr>t_metricsRecorded := False\<rparr>) (heap w)"
    using arg_cong [OF f, of heap] by simp
qed

end
