(* ===== verification/AuditRows.thy ===== *)
theory AuditRows
  imports Plugin
begin

text \<open>
  Audit rows (lib/audit-ledger.ts): how a row is built, and the two views of a ledger, the row
  shown for each transfer (\<open>foldAuditRows\<close>) and the number of its terminal rows
  (\<open>countRevisions\<close>), with what they come to for a whole ledger.
\<close>

section \<open>Building a row\<close>

definition AUDIT_ROW_VERSION :: int where
  "AUDIT_ROW_VERSION = 1"

definition AUDIT_ERROR_MAX_CHARS :: nat where
  "AUDIT_ERROR_MAX_CHARS = 512"

definition ellipsis :: string where
  "ellipsis = map char_of [0xE2, 0x80, 0xA6 :: nat]"

definition buildAuditRow ::
    "string \<Rightarrow> row_kind \<Rightarrow> int \<Rightarrow> int \<Rightarrow> int option \<Rightarrow> transfer_info \<Rightarrow> audit_row" where
  "buildAuditRow tid kind saved eventCount lastEventAt info =
     (let rawError = i_error info;
          truncated = (case rawError of None \<Rightarrow> False | Some e \<Rightarrow> js_length e > AUDIT_ERROR_MAX_CHARS)
      in \<lparr>a_v = AUDIT_ROW_VERSION,
          a_transferId = tid,
          a_rowKind = kind,
          a_savedAt = saved,
          a_operationType = ostr_or (i_operationType info) ''transfer'',
          a_platformName = ostr_or (i_platformName info) ''Unknown'',
          a_platformIndex = i_platformIndex info,
          a_sourceInstanceId = nullish (i_sourceInstanceId info) (- 1),
          a_sourceInstanceName = i_sourceInstanceName info,
          a_targetInstanceId = nullish (i_targetInstanceId info) (- 1),
          a_targetInstanceName = i_targetInstanceName info,
          a_exportId = i_exportId info,
          a_artifactSizeBytes = i_artifactSizeBytes info,
          a_status = ostr_or (i_status info) ''unknown'',
          a_startedAt = i_startedAt info,
          a_completedAt = i_completedAt info,
          a_failedAt = i_failedAt info,
          a_lastEventAt = lastEventAt,
          a_eventCount = eventCount,
          a_error = (if truncated
                     then map_option (\<lambda>e. js_take AUDIT_ERROR_MAX_CHARS e @ ellipsis) rawError else rawError),
          a_errorTruncated = truncated\<rparr>)"

section \<open>The two views of a ledger\<close>

text \<open>One step of \<open>foldAuditRows\<close>, and of the update of the live index in \<open>recordAuditRow\<close>.\<close>

definition fold_row :: "(string, audit_row) jsmap \<Rightarrow> audit_row \<Rightarrow> (string, audit_row) jsmap" where
  "fold_row m row =
     (case jm_get m (a_transferId row) of
        None \<Rightarrow> jm_set m (a_transferId row) row
      | Some old \<Rightarrow>
          if a_rowKind old = RowTerminal \<and> a_rowKind row = RowStart then m
          else jm_set m (a_transferId row) row)"

definition foldAuditRows :: "audit_row list \<Rightarrow> (string, audit_row) jsmap" where
  "foldAuditRows rows = foldl fold_row [] rows"

definition count_row :: "(string, int) jsmap \<Rightarrow> audit_row \<Rightarrow> (string, int) jsmap" where
  "count_row m row =
     (if a_rowKind row \<noteq> RowTerminal then m
      else jm_set m (a_transferId row) (nullish (jm_get m (a_transferId row)) 0 + 1))"

definition countRevisions :: "audit_row list \<Rightarrow> (string, int) jsmap" where
  "countRevisions rows = foldl count_row [] rows"

section \<open>What the views show\<close>

text \<open>The row of a transfer: its last terminal row, or its last row while it has none.\<close>

definition shown_row :: "audit_row list \<Rightarrow> string \<Rightarrow> audit_row option" where
  "shown_row rows tid =
     (let mine = filter (\<lambda>r. a_transferId r = tid) rows;
          done = filter (\<lambda>r. a_rowKind r = RowTerminal) mine
      in if done \<noteq> [] then Some (last done) else if mine \<noteq> [] then Some (last mine) else None)"

lemma foldAuditRows_snoc [simp]: "foldAuditRows (rows @ [row]) = fold_row (foldAuditRows rows) row"
  by (simp add: foldAuditRows_def)

lemma countRevisions_snoc [simp]: "countRevisions (rows @ [row]) = count_row (countRevisions rows) row"
  by (simp add: countRevisions_def)

lemma fold_row_wf [simp, wf_intros]: "jm_wf m \<Longrightarrow> jm_wf (fold_row m row)"
  by (simp add: fold_row_def split: option.split)

lemma foldAuditRows_wf [simp]: "jm_wf (foldAuditRows rows)"
  by (induction rows rule: rev_induct) (simp_all add: foldAuditRows_def)

lemma row_kind_not_terminal [simp]: "a_rowKind r \<noteq> RowTerminal \<longleftrightarrow> a_rowKind r = RowStart"
  by (cases "a_rowKind r") simp_all

lemma shown_row_kind:
  "shown_row rows tid = Some old \<Longrightarrow>
    a_rowKind old = RowTerminal \<longleftrightarrow> (\<exists>r\<in>set rows. a_transferId r = tid \<and> a_rowKind r = RowTerminal)"
proof -
  assume s: "shown_row rows tid = Some old"
  let ?mine = "filter (\<lambda>r. a_transferId r = tid) rows"
  let ?done = "filter (\<lambda>r. a_rowKind r = RowTerminal) ?mine"
  show ?thesis
  proof (cases "?done = []")
    case True
    then have "old = last ?mine" "?mine \<noteq> []"
      using s by (auto simp: shown_row_def Let_def split: if_splits)
    then have "old \<in> set ?mine" by (metis last_in_set)
    with True show ?thesis by (auto simp: filter_empty_conv)
  next
    case False
    then have "old = last ?done" using s by (simp add: shown_row_def Let_def)
    with False have "old \<in> set ?done" by (metis last_in_set)
    with False show ?thesis by (auto simp: filter_empty_conv)
  qed
qed

lemma shown_row_snoc:
  "shown_row (rows @ [row]) tid =
    (if a_transferId row \<noteq> tid then shown_row rows tid
     else case shown_row rows tid of
            None \<Rightarrow> Some row
          | Some old \<Rightarrow> if a_rowKind old = RowTerminal \<and> a_rowKind row = RowStart then Some old else Some row)"
proof (cases "a_transferId row = tid")
  case False
  then show ?thesis by (simp add: shown_row_def)
next
  case True
  show ?thesis
  proof (cases "a_rowKind row = RowTerminal")
    case t: True
    with True show ?thesis by (simp add: shown_row_def Let_def split: option.split)
  next
    case start: False
    let ?mine = "filter (\<lambda>r. a_transferId r = tid) rows"
    let ?done = "filter (\<lambda>r. a_rowKind r = RowTerminal) ?mine"
    have new: "shown_row (rows @ [row]) tid = (if ?done \<noteq> [] then Some (last ?done) else Some row)"
      using start True by (simp add: shown_row_def Let_def)
    show ?thesis
    proof (cases "?done = []")
      case False
      then have "shown_row rows tid = Some (last ?done)" by (simp add: shown_row_def Let_def)
      moreover have "a_rowKind (last ?done) = RowTerminal"
        using last_in_set [OF False] by simp
      ultimately show ?thesis using new False True start by simp
    next
      case True
      then have "a_rowKind old \<noteq> RowTerminal" if "shown_row rows tid = Some old" for old
        using shown_row_kind [OF that] by (auto simp: filter_empty_conv)
      then show ?thesis using new True \<open>a_transferId row = tid\<close> by (auto split: option.split)
    qed
  qed
qed

lemma foldAuditRows_get: "jm_get (foldAuditRows rows) tid = shown_row rows tid"
proof (induction rows rule: rev_induct)
  case Nil
  show ?case by (simp add: foldAuditRows_def shown_row_def)
next
  case (snoc row rows)
  then show ?case
    by (auto simp: fold_row_def shown_row_snoc split: option.splits)
qed

lemma countRevisions_get:
  "nullish (jm_get (countRevisions rows) tid) 0 =
    int (length (filter (\<lambda>r. a_transferId r = tid \<and> a_rowKind r = RowTerminal) rows))"
proof (induction rows rule: rev_induct)
  case Nil
  show ?case by (simp add: countRevisions_def)
next
  case (snoc row rows)
  then show ?case by (auto simp: count_row_def)
qed

section \<open>Properties\<close>

text \<open>
  The audit views of any ledger. The row shown for a transfer is its last terminal row, or
  its last row while the transfer has none, so an outcome is never hidden by a later start row; a
  transfer is shown exactly if it has a row; and its revision count is the number of its terminal
  rows.
\<close>

theorem audit_views:
  "jm_get (foldAuditRows rows) tid = shown_row rows tid
    \<and> (jm_has (foldAuditRows rows) tid \<longleftrightarrow> tid \<in> a_transferId ` set rows)
    \<and> nullish (jm_get (countRevisions rows) tid) 0
        = int (length (filter (\<lambda>r. a_transferId r = tid \<and> a_rowKind r = RowTerminal) rows))"
  by (auto simp: jm_has_def foldAuditRows_get countRevisions_get shown_row_def Let_def filter_empty_conv
      split: if_splits)

text \<open>
  The error of a row has at most 512 code units of the error and an ellipsis, with the flag set
  exactly when something was cut; a shorter error is stored unchanged.
\<close>

theorem audit_error_bounded:
  "let row = buildAuditRow tid kind saved n lastAt info in
    (case i_error info of
       None \<Rightarrow> a_error row = None \<and> \<not> a_errorTruncated row
     | Some e \<Rightarrow>
         (a_errorTruncated row \<longleftrightarrow> 512 < js_length e)
         \<and> a_error row = Some (if 512 < js_length e then js_take 512 e @ ellipsis else e)
         \<and> js_length (the (a_error row)) \<le> 513)"
proof -
  have "js_length ellipsis = 1" by code_simp
  then show ?thesis
    using js_take_length [of 512]
    by (simp add: buildAuditRow_def AUDIT_ERROR_MAX_CHARS_def Let_def split: option.split)
qed

end
