(* ===== verification/DetailRetention.thy ===== *)
theory DetailRetention
  imports Plugin
begin

text \<open>
  Which transfers keep their detail (lib/detail-retention.ts). The program identifies entries by
  object, so the model works on entries paired with their position. The lemmas give the selection
  in closed form; the properties say that it has exactly the configured size, that neither failures
  nor successes crowd the other out, and that within a class a better entry is never dropped for a
  worse one.
\<close>

section \<open>The selection\<close>

definition RESERVED_SUCCESS_SLOTS :: int where
  "RESERVED_SUCCESS_SLOTS = 25"

definition MIN_DETAIL_ENTRIES :: int where
  "MIN_DETAIL_ENTRIES = 10"

definition MAX_DETAIL_ENTRIES :: int where
  "MAX_DETAIL_ENTRIES = 5000"

definition successFloorFor :: "int \<Rightarrow> int \<Rightarrow> int \<Rightarrow> int" where
  "successFloorFor budget availableSuccesses reserved =
     max 0 (min reserved (min availableSuccesses (budget div 2)))"

definition savedAtOf :: "persisted_log \<Rightarrow> int" where
  "savedAtOf entry =
     oint_or (Some (l_savedAt entry))
       (oint_or (case l_transferInfo entry of None \<Rightarrow> None | Some i \<Rightarrow> i_startedAt i) 0)"

definition isFailure :: "persisted_log \<Rightarrow> bool" where
  "isFailure entry =
     (let st = ostr_or (case l_transferInfo entry of None \<Rightarrow> None | Some i \<Rightarrow> i_status i) []
      in st \<in> set [''failed'', ''cleanup_failed'', ''error''])"

text \<open>\<open>preferPinnedThenNewest(a, b) <= 0\<close>.\<close>

definition prefers :: "(persisted_log \<Rightarrow> bool) \<Rightarrow> nat \<times> persisted_log \<Rightarrow> nat \<times> persisted_log \<Rightarrow> bool" where
  "prefers isPinned a b =
     (let d = of_bool (isPinned (snd b)) - of_bool (isPinned (snd a)) :: int
      in if d \<noteq> 0 then d \<le> 0 else savedAtOf (snd b) - savedAtOf (snd a) \<le> 0)"

text \<open>The loop of \<open>claim\<close>: \<open>keep\<close> in insertion order.\<close>

fun claim :: "int \<Rightarrow> (nat \<times> 'a) list \<Rightarrow> int \<Rightarrow> (nat \<times> 'a) list \<Rightarrow> (nat \<times> 'a) list" where
  "claim cap [] slots keep = keep"
| "claim cap (entry # entries) slots keep =
     (if int (length keep) \<ge> cap \<or> slots \<le> 0 then keep
      else if fst entry \<in> fst ` set keep then claim cap entries slots keep
      else claim cap entries (slots - 1) (keep @ [entry]))"

text \<open>The set \<open>keep\<close> at the end of the three rounds, for a positive cap.\<close>

definition keepEntries :: "persisted_log list \<Rightarrow> int \<Rightarrow> (persisted_log \<Rightarrow> bool) \<Rightarrow> int \<Rightarrow> (nat \<times> persisted_log) list" where
  "keepEntries entries cap isPinned reserved =
     (let es = enumerate 0 entries;
          failures = sort_by (prefers isPinned) (filter (\<lambda>e. isFailure (snd e)) es);
          successes = sort_by (prefers isPinned) (filter (\<lambda>e. \<not> isFailure (snd e)) es);
          successFloor = successFloorFor cap (int (length successes)) reserved;
          keep1 = claim cap failures (cap - successFloor) [];
          keep2 = claim cap successes (max 0 (cap - int (length keep1))) keep1
      in claim cap (sort_by (prefers isPinned) (failures @ successes))
           (max 0 (cap - int (length keep2))) keep2)"

definition selectRetainedDetail ::
    "persisted_log list \<Rightarrow> jsnum \<Rightarrow> (persisted_log \<Rightarrow> bool) \<Rightarrow> int option \<Rightarrow> persisted_log list" where
  "selectRetainedDetail entries capOption isPinned reservedSuccessSlots =
     (let cap = (if is_finite capOption \<and> num_less (Fin 0) capOption
                 then int_of_num (num_floor capOption) else 0)
      in if cap = 0 then entries
         else if int (length entries) \<le> cap then entries
         else
           let keep = keepEntries entries cap isPinned (nullish reservedSuccessSlots RESERVED_SUCCESS_SLOTS)
           in map snd (filter (\<lambda>e. fst e \<in> fst ` set keep) (enumerate 0 entries)))"

section \<open>Closed form\<close>

interpretation preference: comparator "prefers isPinned" for isPinned
  by unfold_locales (auto simp: prefers_def Let_def split: if_splits)

lemma claim_closed:
  assumes "distinct (map fst entries)"
  shows "claim cap entries slots keep =
    keep @ take (nat (min slots (cap - int (length keep))))
             (filter (\<lambda>e. fst e \<notin> fst ` set keep) entries)"
  using assms
proof (induction cap entries slots keep rule: claim.induct)
  case (2 cap entry entries slots keep)
  show ?case
  proof (cases "int (length keep) \<ge> cap \<or> slots \<le> 0")
    case True
    then have "nat (min slots (cap - int (length keep))) = 0" by auto
    with True show ?thesis by auto
  next
    case free: False
    show ?thesis
    proof (cases "fst entry \<in> fst ` set keep")
      case True
      with free 2 show ?thesis by simp
    next
      case False
      have "fst entry \<notin> fst ` set entries" and d: "distinct (map fst entries)"
        using "2.prems" by auto
      then have "filter (\<lambda>e. fst e \<notin> fst ` set (keep @ [entry])) entries =
          filter (\<lambda>e. fst e \<notin> fst ` set keep) entries"
        by (intro filter_cong refl) (simp, metis image_eqI)
      moreover obtain n where n: "nat (min slots (cap - int (length keep))) = Suc n"
        using free by (cases "nat (min slots (cap - int (length keep)))") auto
      moreover have "nat (min (slots - 1) (cap - int (length (keep @ [entry])))) = n"
        using n by auto
      ultimately show ?thesis
        using free False "2.IH"(2) [OF free False d] by simp
    qed
  qed
qed simp

lemma distinct_claim: "distinct (map fst keep) \<Longrightarrow> distinct (map fst (claim cap entries slots keep))"
  by (induction cap entries slots keep rule: claim.induct) auto

text \<open>The kept failures and the kept successes are prefixes of the sorted lists.\<close>

definition kept_counts :: "int \<Rightarrow> int \<Rightarrow> nat \<Rightarrow> nat \<Rightarrow> nat \<times> nat" where
  "kept_counts cap fl nf ns =
     (let f1 = min nf (nat (cap - fl)); s = min ns (nat cap - f1)
      in (f1 + min (nf - f1) (nat cap - f1 - s), s))"

locale selection =
  fixes failures successes :: "(nat \<times> persisted_log) list" and isPinned :: "persisted_log \<Rightarrow> bool"
    and cap fl :: int
  assumes disj: "distinct (map fst (failures @ successes))"
    and failing: "\<And>e. e \<in> set failures \<Longrightarrow> isFailure (snd e)"
    and passing: "\<And>e. e \<in> set successes \<Longrightarrow> \<not> isFailure (snd e)"
    and sorted_f: "sorted_wrt (prefers isPinned) failures"
    and sorted_s: "sorted_wrt (prefers isPinned) successes"
    and cap_pos: "0 < cap"
    and fl_le: "0 \<le> fl" "fl \<le> cap"
begin

definition "keep1 = claim cap failures (cap - fl) []"
definition "keep2 = claim cap successes (max 0 (cap - int (length keep1))) keep1"
definition "keep3 = claim cap (sort_by (prefers isPinned) (failures @ successes))
   (max 0 (cap - int (length keep2))) keep2"

lemma keep1_eq: "keep1 = take (nat (cap - fl)) failures"
  using claim_closed [of failures cap "cap - fl" "[]"] disj fl_le
  by (simp add: keep1_def min_def)

lemma keep2_eq: "keep2 = keep1 @ take (nat cap - length keep1) successes"
proof -
  have "filter (\<lambda>e. fst e \<notin> fst ` set keep1) successes = successes"
    using disj set_take_subset [of "nat (cap - fl)" failures]
    by (intro filter_True) (force simp: keep1_eq)
  moreover have "nat (min (max 0 (cap - int (length keep1))) (cap - int (length keep1))) = nat cap - length keep1"
    by linarith
  ultimately show ?thesis
    using claim_closed [of successes cap "max 0 (cap - int (length keep1))" keep1] disj
    by (simp add: keep2_def)
qed

lemma failures_of_merge:
  "filter (\<lambda>e. isFailure (snd e)) (sort_by (prefers isPinned) (failures @ successes)) = failures"
proof -
  have f: "filter (\<lambda>e. isFailure (snd e)) failures = failures"
    by (rule filter_True) (simp add: failing)
  have s: "filter (\<lambda>e. isFailure (snd e)) successes = []"
    by (rule filter_False) (simp add: passing)
  show ?thesis
    by (simp add: preference.filter_sort_by f s preference.sort_by_sorted [OF sorted_f])
qed

lemma keep3_eq:
  "keep3 = keep2 @ take (nat cap - length keep2) (drop (length keep1) failures)"
proof -
  let ?all = "sort_by (prefers isPinned) (failures @ successes)"
  have len2: "length keep2 \<le> nat cap"
    using fl_le cap_pos by (simp add: keep2_eq keep1_eq)
  have closed: "keep3 = keep2 @ take (nat cap - length keep2) (filter (\<lambda>e. fst e \<notin> fst ` set keep2) ?all)"
  proof -
    have "nat (min (max 0 (cap - int (length keep2))) (cap - int (length keep2))) = nat cap - length keep2"
      by linarith
    moreover have "distinct (map fst ?all)" using disj by (simp only: distinct_map_sort_by)
    ultimately show ?thesis
      using claim_closed [of ?all cap "max 0 (cap - int (length keep2))" keep2] by (simp add: keep3_def)
  qed
  show ?thesis
  proof (cases "length keep2 = nat cap")
    case True
    with closed show ?thesis by simp
  next
    case False
    then have all_s: "take (nat cap - length keep1) successes = successes"
      using len2 by (auto simp: keep2_eq min_def split: if_splits)
    have k2: "keep2 = keep1 @ successes" by (simp add: keep2_eq all_s)
    have "filter (\<lambda>e. fst e \<notin> fst ` set keep2) ?all
        = filter (\<lambda>e. fst e \<notin> fst ` set keep2) (filter (\<lambda>e. isFailure (snd e)) ?all)"
    proof -
      have "isFailure (snd e)" if "e \<in> set ?all" "fst e \<notin> fst ` set keep2" for e
        using that failing [of e] by (simp add: k2 image_Un) blast
      then show ?thesis unfolding filter_filter by (intro filter_cong refl) blast
    qed
    also have "\<dots> = filter (\<lambda>e. fst e \<notin> fst ` set keep2) failures"
      by (simp only: failures_of_merge)
    also have "\<dots> = filter (\<lambda>e. fst e \<notin> fst ` set keep1) failures"
      using disj by (intro filter_cong) (force simp: k2)+
    also have "\<dots> = drop (length keep1) failures"
    proof -
      define n where "n = nat (cap - fl)"
      have split: "failures = take n failures @ drop n failures" by simp
      have "distinct (map fst (take n failures @ drop n failures))" using disj by simp
      then have "filter (\<lambda>e. fst e \<notin> fst ` set (take n failures)) (take n failures @ drop n failures)
          = drop n failures"
        unfolding filter_append
        by (subst filter_False, force, subst filter_True) (auto simp del: append_take_drop_id)
      then have "filter (\<lambda>e. fst e \<notin> fst ` set keep1) failures = drop n failures"
        by (simp add: keep1_eq n_def)
      moreover have "drop n failures = drop (length keep1) failures"
        by (simp add: keep1_eq n_def min_def)
      ultimately show ?thesis by simp
    qed
    finally show ?thesis using closed by simp
  qed
qed

lemma kept:
  fixes nf ns
  defines "c \<equiv> kept_counts cap fl (length failures) (length successes)"
  shows "set keep3 = set (take (fst c) failures) \<union> set (take (snd c) successes)"
    and "length keep3 = fst c + snd c"
proof -
  define f1 where "f1 = min (length failures) (nat (cap - fl))"
  define s where "s = min (length successes) (nat cap - f1)"
  have len1: "length keep1 = f1" by (simp add: keep1_eq f1_def)
  have k1: "keep1 = take f1 failures" by (simp add: keep1_eq f1_def min_def)
  have k2: "keep2 = take f1 failures @ take s successes"
    by (simp add: keep2_eq k1 len1 s_def min_def f1_def)
  have len2: "length keep2 = f1 + s" by (simp add: k2 f1_def s_def)
  define e where "e = min (length failures - f1) (nat cap - f1 - s)"
  have k3: "keep3 = take f1 failures @ take s successes @ take e (drop f1 failures)"
  proof -
    have "take (nat cap - (f1 + s)) (drop f1 failures) = take e (drop f1 failures)"
      by (simp add: e_def min_def diff_diff_left)
    with keep3_eq [unfolded len1 len2] show ?thesis by (simp add: k2)
  qed
  have c: "c = (f1 + e, s)" by (simp add: c_def kept_counts_def f1_def s_def e_def Let_def)
  show "set keep3 = set (take (fst c) failures) \<union> set (take (snd c) successes)"
    by (auto simp: k3 c take_add)
  have "f1 \<le> length failures" "s \<le> length successes" "e \<le> length failures - f1"
    by (simp_all add: f1_def s_def e_def)
  then show "length keep3 = fst c + snd c"
    by (simp add: k3 c min_absorb2)
qed

end

section \<open>What is selected\<close>

lemma enumerate_nth: "(i, e) \<in> set (enumerate 0 xs) \<longleftrightarrow> i < length xs \<and> e = xs ! i"
  by (auto simp: in_set_enumerate_eq)

lemma length_filter_enumerate:
  "length (filter (\<lambda>e. P (snd e)) (enumerate n xs)) = length (filter P xs)"
  by (induction xs arbitrary: n) auto

lemma distinct_enumerate_parts:
  "distinct (map fst (filter P (enumerate 0 xs) @ filter (\<lambda>e. \<not> P e) (enumerate 0 xs)))"
proof -
  have d: "distinct (map fst (filter Q (enumerate 0 xs)))" for Q
    by (simp add: distinct_map_filter)
  moreover have "fst ` set (filter P (enumerate 0 xs)) \<inter> fst ` set (filter (\<lambda>e. \<not> P e) (enumerate 0 xs)) = {}"
    by (force simp: enumerate_nth)
  ultimately show ?thesis by simp
qed

lemma successFloor_bounds: "0 < cap \<Longrightarrow> 0 \<le> successFloorFor cap n r \<and> successFloorFor cap n r \<le> cap"
  by (simp add: successFloorFor_def)

text \<open>The two sorted classes of a list of entries satisfy the contract of the selection.\<close>

definition failures_of :: "persisted_log list \<Rightarrow> (persisted_log \<Rightarrow> bool) \<Rightarrow> (nat \<times> persisted_log) list" where
  "failures_of entries isPinned =
     sort_by (prefers isPinned) (filter (\<lambda>e. isFailure (snd e)) (enumerate 0 entries))"

definition successes_of :: "persisted_log list \<Rightarrow> (persisted_log \<Rightarrow> bool) \<Rightarrow> (nat \<times> persisted_log) list" where
  "successes_of entries isPinned =
     sort_by (prefers isPinned) (filter (\<lambda>e. \<not> isFailure (snd e)) (enumerate 0 entries))"

interpretation kept: selection "failures_of entries isPinned" "successes_of entries isPinned" isPinned
    "max 1 cap" "successFloorFor (max 1 cap) (int (length (successes_of entries isPinned))) reserved"
  for entries isPinned cap reserved
proof
  show "distinct (map fst (failures_of entries isPinned @ successes_of entries isPinned))"
    using distinct_enumerate_parts [of "\<lambda>e. isFailure (snd e)" entries]
    by (simp add: failures_of_def successes_of_def)
  show "sorted_wrt (prefers isPinned) (failures_of entries isPinned)"
    "sorted_wrt (prefers isPinned) (successes_of entries isPinned)"
    by (simp_all add: failures_of_def successes_of_def preference.sorted_sort_by)
qed (use successFloor_bounds [of "max 1 cap"] in
  \<open>simp_all add: failures_of_def successes_of_def\<close>)

lemma keepEntries_eq:
  assumes "0 < cap"
  shows "keepEntries entries cap isPinned reserved = kept.keep3 entries isPinned cap reserved"
proof -
  have "max 1 cap = cap" using assms by simp
  then show ?thesis
    unfolding keepEntries_def kept.keep3_def kept.keep2_def kept.keep1_def Let_def
    by (simp only: failures_of_def [symmetric] successes_of_def [symmetric])
qed

lemma length_classes:
  "length (failures_of entries isPinned) + length (successes_of entries isPinned) = length entries"
  using length_filter_split [of "\<lambda>e. isFailure (snd e)" "enumerate 0 entries"]
  by (simp add: failures_of_def successes_of_def)

lemma mem_classes:
  "(i, e) \<in> set (failures_of entries isPinned) \<longleftrightarrow> i < length entries \<and> e = entries ! i \<and> isFailure e"
  "(i, e) \<in> set (successes_of entries isPinned) \<longleftrightarrow> i < length entries \<and> e = entries ! i \<and> \<not> isFailure e"
  by (auto simp: failures_of_def successes_of_def enumerate_nth)

text \<open>In a sorted list of distinct elements, what is taken is preferred to what is dropped.\<close>

lemma taken_preferred:
  assumes "sorted_wrt le xs" "x \<in> set (take n xs)" "y \<in> set xs" "y \<notin> set (take n xs)"
  shows "le x y"
proof -
  have "y \<in> set (drop n xs)"
    using assms(3,4) append_take_drop_id [of n xs] by (metis Un_iff set_append)
  moreover have "sorted_wrt le (take n xs @ drop n xs)" using assms(1) by simp
  ultimately show ?thesis using assms(2) by (simp only: sorted_wrt_append)
qed

lemma kept_positions:
  fixes cap reserved :: int
  assumes "0 < cap"
    and "c = kept_counts cap (successFloorFor cap (int (length (successes_of entries isPinned))) reserved)
      (length (failures_of entries isPinned)) (length (successes_of entries isPinned))"
  shows "set (keepEntries entries cap isPinned reserved) =
      set (take (fst c) (failures_of entries isPinned)) \<union> set (take (snd c) (successes_of entries isPinned))"
proof -
  have "max 1 cap = cap" using assms(1) by simp
  then show ?thesis
    using kept.kept(1) [of entries isPinned cap reserved] keepEntries_eq [OF assms(1)] by (simp add: assms(2))
qed

lemma keep_best:
  assumes "0 < cap"
    and "(i, x) \<in> set (keepEntries entries cap isPinned reserved)"
    and "(j, y) \<notin> set (keepEntries entries cap isPinned reserved)"
    and "j < length entries" "y = entries ! j" "isFailure x = isFailure y"
  shows "prefers isPinned (i, x) (j, y)"
proof -
  define c where "c = kept_counts cap (successFloorFor cap (int (length (successes_of entries isPinned))) reserved)
      (length (failures_of entries isPinned)) (length (successes_of entries isPinned))"
  note K = kept_positions [OF assms(1) c_def]
  let ?F = "failures_of entries isPinned" and ?S = "successes_of entries isPinned"
  have x: "(i, x) \<in> set (take (fst c) ?F) \<or> (i, x) \<in> set (take (snd c) ?S)"
    and y: "(j, y) \<notin> set (take (fst c) ?F)" "(j, y) \<notin> set (take (snd c) ?S)"
    using assms(2,3) by (auto simp: K)
  show ?thesis
  proof (cases "isFailure y")
    case True
    then have "(i, x) \<in> set (take (fst c) ?F)"
      using x assms(6) mem_classes(2) [of i x] set_take_subset [of "snd c" ?S] by blast
    moreover have "(j, y) \<in> set ?F" using True assms(4,5) by (simp add: mem_classes)
    ultimately show ?thesis using y(1) kept.sorted_f by (rule taken_preferred [rotated])
  next
    case False
    then have "(i, x) \<in> set (take (snd c) ?S)"
      using x assms(6) mem_classes(1) [of i x] set_take_subset [of "fst c" ?F] by blast
    moreover have "(j, y) \<in> set ?S" using False assms(4,5) by (simp add: mem_classes)
    ultimately show ?thesis using y(2) kept.sorted_s by (rule taken_preferred [rotated])
  qed
qed

lemma kept_counts_sum:
  assumes "0 \<le> fl" "fl \<le> cap" "fl \<le> int ns" "cap < int (nf + ns)"
  shows "fst (kept_counts cap fl nf ns) + snd (kept_counts cap fl nf ns) = nat cap"
proof -
  have "f1 + min (nf - f1) (c - f1 - min ns (c - f1)) + min ns (c - f1) = c"
    if "f1 = min nf d" "d \<le> c" "c \<le> d + ns" "c < nf + ns" for f1 c d :: nat
    using that by linarith
  from this [OF refl, of "nat (cap - fl)" "nat cap"] show ?thesis
    using assms by (simp add: kept_counts_def Let_def)
qed

lemma kept_lengths:
  assumes "0 < cap" "cap < int (length entries)"
  shows "length (filter (\<lambda>e. fst e \<in> fst ` set (keepEntries entries cap isPinned reserved)) (enumerate 0 entries))
    = nat cap"
proof -
  let ?K = "keepEntries entries cap isPinned reserved"
  let ?F = "failures_of entries isPinned" and ?S = "successes_of entries isPinned"
  define fl where "fl = successFloorFor cap (int (length ?S)) reserved"
  have fl: "0 \<le> fl" "fl \<le> cap" "fl \<le> int (length ?S)"
    using successFloor_bounds [OF assms(1)] assms(1)
    by (auto simp: fl_def successFloorFor_def)
  have max: "max 1 cap = cap" using assms(1) by simp
  have len: "length ?K = nat cap"
    using kept.kept(2) [of entries isPinned cap reserved] keepEntries_eq [OF assms(1)]
      kept_counts_sum [OF fl, of "length ?F"] assms(2) length_classes [of entries isPinned]
    by (simp add: max fl_def [symmetric])
  have mem: "e \<in> set ?K \<Longrightarrow> e \<in> set (enumerate 0 entries)" for e
    using kept_positions [OF assms(1) refl, of entries isPinned reserved]
    by (cases e) (auto simp: enumerate_nth mem_classes dest!: in_set_takeD)
  have dist: "distinct ?K"
  proof -
    have "distinct (map fst ?K)"
      by (simp add: keepEntries_def Let_def distinct_claim)
    then show ?thesis by (simp add: distinct_map)
  qed
  have inj: "inj_on fst (set (enumerate 0 entries))"
    by (auto simp: inj_on_def enumerate_nth)
  have "filter (\<lambda>e. fst e \<in> fst ` set ?K) (enumerate 0 entries) = filter (\<lambda>e. e \<in> set ?K) (enumerate 0 entries)"
    using inj_on_image_mem_iff [OF inj, of _ "set ?K"] mem by (intro filter_cong refl) blast
  moreover have "length (filter (\<lambda>e. e \<in> set ?K) (enumerate 0 entries)) = card (set ?K)"
    using mem by (subst distinct_card [symmetric]) (auto intro!: arg_cong [where f = card])
  ultimately show ?thesis using len distinct_card [OF dist] by simp
qed

text \<open>The counts of each class.\<close>

lemma kept_class_counts:
  assumes "0 < cap" "cap < int (length entries)"
    and "fl = successFloorFor cap (int (length (successes_of entries isPinned))) reserved"
  shows "min (int (length (failures_of entries isPinned))) (cap - fl)
      \<le> int (length (take (fst (kept_counts cap fl (length (failures_of entries isPinned))
            (length (successes_of entries isPinned)))) (failures_of entries isPinned)))"
    and "fl \<le> int (length (take (snd (kept_counts cap fl (length (failures_of entries isPinned))
            (length (successes_of entries isPinned)))) (successes_of entries isPinned)))"
proof -
  have fl: "0 \<le> fl" "fl \<le> cap" "fl \<le> int (length (successes_of entries isPinned))"
    using successFloor_bounds [OF assms(1)] assms(1,3) by (auto simp: successFloorFor_def)
  then show "min (int (length (failures_of entries isPinned))) (cap - fl)
      \<le> int (length (take (fst (kept_counts cap fl (length (failures_of entries isPinned))
            (length (successes_of entries isPinned)))) (failures_of entries isPinned)))"
  proof -
    have "min (int nf) (cap - fl) \<le> int (min nf (min nf (nat (cap - fl)) + x))" for nf x :: nat
      by linarith
    then show ?thesis by (simp add: kept_counts_def Let_def)
  qed
  show "fl \<le> int (length (take (snd (kept_counts cap fl (length (failures_of entries isPinned))
            (length (successes_of entries isPinned)))) (successes_of entries isPinned)))"
    using fl by (simp add: kept_counts_def Let_def)
qed

lemma length_filter_kept:
  assumes "set K = set (take n F) \<union> set (take m S)" "distinct (map fst F)"
    and F: "\<And>i e. (i, e) \<in> set F \<longleftrightarrow> i < length xs \<and> e = xs ! i \<and> P e"
    and S: "\<And>i e. (i, e) \<in> set S \<Longrightarrow> \<not> P e \<and> i < length xs \<and> e = xs ! i"
  shows "length (filter P (map snd (filter (\<lambda>e. fst e \<in> fst ` set K) (enumerate 0 xs)))) = length (take n F)"
proof -
  let ?M = "filter (\<lambda>e. P (snd e) \<and> fst e \<in> fst ` set K) (enumerate 0 xs)"
  have "set ?M = set (take n F)"
  proof
    show "set ?M \<subseteq> set (take n F)"
    proof
      fix e assume mem: "e \<in> set ?M"
      obtain i x where "e = (i, x)" by fastforce
      with mem have e: "e = (i, xs ! i)" "i < length xs" "P (xs ! i)" "i \<in> fst ` set K"
        by (auto simp: enumerate_nth)
      then obtain e' where e': "(i, e') \<in> set K" by force
      then consider "(i, e') \<in> set (take n F)" | "(i, e') \<in> set (take m S)" using assms(1) by auto
      then show "e \<in> set (take n F)"
      proof cases
        case 1
        then have "e' = xs ! i" using F [of i e'] by (auto dest: in_set_takeD)
        with 1 e show ?thesis by simp
      next
        case 2
        then show ?thesis using S [of i e'] e by (auto dest: in_set_takeD)
      qed
    qed
  next
    show "set (take n F) \<subseteq> set ?M"
    proof
      fix e assume e: "e \<in> set (take n F)"
      then have "e \<in> set K" "e \<in> set F" using assms(1) by (auto dest: in_set_takeD)
      then show "e \<in> set ?M"
        using F [of "fst e" "snd e"] enumerate_nth [of "fst e" "snd e" xs]
        unfolding prod.collapse by auto
    qed
  qed
  moreover have "distinct ?M" "distinct (take n F)"
    using assms(2) by (auto simp: distinct_map)
  ultimately have "length ?M = length (take n F)"
    by (metis distinct_card)
  then show ?thesis by (simp add: filter_map o_def conj_commute)
qed

section \<open>Properties\<close>

text \<open>
  C17: the detail retention keeps exactly the configured number of entries, as a subsequence of the
  given ones; it keeps at least the success floor of successes and, of the failures, all of them or
  all the slots the floor leaves; and within a class an entry that is dropped is never preferred
  (pinned before unpinned, then newer first) to one that is kept.
\<close>

theorem retention_fair_and_exact:
  assumes "0 < cap" and "cap < int (length entries)"
    and "fl = successFloorFor cap (int (length (filter (\<lambda>e. \<not> isFailure e) entries))) RESERVED_SUCCESS_SLOTS"
    and "K = fst ` set (keepEntries entries cap isPinned RESERVED_SUCCESS_SLOTS)"
  shows "let kept = selectRetainedDetail entries (num_of_int cap) isPinned None in
    int (length kept) = cap
    \<and> kept = map snd (filter (\<lambda>e. fst e \<in> K) (enumerate 0 entries))
    \<and> fl \<le> int (length (filter (\<lambda>e. \<not> isFailure e) kept))
    \<and> min (int (length (filter isFailure entries))) (cap - fl) \<le> int (length (filter isFailure kept))
    \<and> (\<forall>i j. i \<in> K \<and> j \<notin> K \<and> i < length entries \<and> j < length entries
         \<and> isFailure (entries ! i) = isFailure (entries ! j)
         \<longrightarrow> prefers isPinned (i, entries ! i) (j, entries ! j))"
proof -
  let ?R = RESERVED_SUCCESS_SLOTS
  let ?F = "failures_of entries isPinned" and ?S = "successes_of entries isPinned"
  let ?K = "keepEntries entries cap isPinned ?R"
  define kept where "kept = map snd (filter (\<lambda>e. fst e \<in> fst ` set ?K) (enumerate 0 entries))"
  have sel: "selectRetainedDetail entries (num_of_int cap) isPinned None = kept"
    using assms(1,2) by (simp add: selectRetainedDetail_def num_floor_def int_of_num_def kept_def Let_def)
  have lens: "length ?F = length (filter isFailure entries)"
    "length ?S = length (filter (\<lambda>e. \<not> isFailure e) entries)"
    by (simp_all add: failures_of_def successes_of_def length_filter_enumerate
        length_filter_enumerate [of "\<lambda>x. \<not> isFailure x"])
  then have fl: "fl = successFloorFor cap (int (length ?S)) ?R" using assms(3) by simp
  define c where "c = kept_counts cap fl (length ?F) (length ?S)"
  have K: "set ?K = set (take (fst c) ?F) \<union> set (take (snd c) ?S)"
    using kept_positions [OF assms(1) refl, of entries isPinned ?R] by (simp add: c_def fl)
  have d: "distinct (map fst ?F)" "distinct (map fst ?S)"
    using kept.disj [of entries isPinned] by simp_all
  have nf: "length (filter isFailure kept) = length (take (fst c) ?F)"
    unfolding kept_def by (rule length_filter_kept [OF K d(1)]) (auto simp: mem_classes)
  have ns: "length (filter (\<lambda>e. \<not> isFailure e) kept) = length (take (snd c) ?S)"
    unfolding kept_def
    by (rule length_filter_kept [OF K [unfolded Un_commute [of "set (take (fst c) ?F)"]] d(2)])
      (auto simp: mem_classes)
  have size: "int (length kept) = cap"
    using kept_lengths [OF assms(1,2), of isPinned ?R] assms(1) by (simp add: kept_def)
  have best: "prefers isPinned (i, entries ! i) (j, entries ! j)"
    if "i \<in> K" "j \<notin> K" "i < length entries" "j < length entries"
      "isFailure (entries ! i) = isFailure (entries ! j)" for i j
  proof -
    from that(1) obtain x where x: "(i, x) \<in> set ?K" by (auto simp: assms(4))
    then have "x = entries ! i"
      using K mem_classes [of i x] by (auto dest: in_set_takeD)
    moreover have "(j, entries ! j) \<notin> set ?K" using that(2) by (force simp: assms(4))
    ultimately show ?thesis
      using keep_best [OF assms(1) x _ that(4) refl] that(5) by simp
  qed
  note counts = kept_class_counts [OF assms(1,2) fl, folded c_def]
  show ?thesis
    unfolding sel Let_def
  proof (intro conjI allI impI)
    show "kept = map snd (filter (\<lambda>e. fst e \<in> K) (enumerate 0 entries))"
      by (simp add: kept_def assms(4))
    show "fl \<le> int (length (filter (\<lambda>e. \<not> isFailure e) kept))" using counts(2) ns by simp
    show "min (int (length (filter isFailure entries))) (cap - fl) \<le> int (length (filter isFailure kept))"
      using counts(1) unfolding nf lens .
  qed (use size best in auto)
qed

definition sample_log :: "string \<Rightarrow> string \<Rightarrow> int \<Rightarrow> persisted_log" where
  "sample_log tid st saved = \<lparr>l_transferId = tid,
     l_transferInfo = Some \<lparr>i_transferId = Some tid, i_operationType = None, i_exportId = None,
        i_artifactSizeBytes = None, i_platformName = None, i_platformIndex = None, i_forceName = None,
        i_sourceInstanceId = None, i_sourceInstanceName = None, i_targetInstanceId = None,
        i_targetInstanceName = None, i_status = Some st, i_startedAt = None, i_completedAt = None,
        i_failedAt = None, i_error = None\<rparr>,
     l_summary = None, l_events = [], l_savedAt = saved\<rparr>"

theorem retention_fair_and_exact_witness:
  "int (length (selectRetainedDetail
     [sample_log ''a'' ''failed'' 5, sample_log ''b'' ''error'' 7, sample_log ''c'' ''completed'' 1]
     (num_of_int 2) (\<lambda>_. False) None)) = 2"
  by (rule retention_fair_and_exact [OF _ _ refl refl, unfolded Let_def, THEN conjunct1]) simp_all

end
