(* ===== verification/TransactionLogger.thy ===== *)
theory TransactionLogger
  imports Subscriptions AuditRows DetailRetention
begin

text \<open>
  The transaction logger (lib/transaction-logger.ts) and the audit index the controller keeps for
  it (\<open>recordAuditRow\<close>, \<open>recordTransferStarted\<close> of controller.ts): events, phases, the archiving
  of a recycled id, and the persistence of a finished transfer.
\<close>

section \<open>Events and phases\<close>

definition logTransactionEvent ::
    "string \<Rightarrow> string \<Rightarrow> string \<Rightarrow> (string \<times> jsval) list \<Rightarrow> plugin \<Rightarrow> plugin" where
  "logTransactionEvent tid eventType msg data w =
     (let now = clock w;
          events = nullish (jm_get (transactionLogs w) tid) [];
          elapsedMs = (case find_transfer w tid of
              Some t \<Rightarrow> if t_startedAt t \<noteq> 0 then now - t_startedAt t else 0 | None \<Rightarrow> 0);
          deltaMs = (if events \<noteq> [] \<and> e_timestampMs (last events) \<noteq> 0
                     then now - e_timestampMs (last events) else 0);
          event = \<lparr>e_timestampMs = now, e_elapsedMs = elapsedMs, e_deltaMs = deltaMs,
                   e_eventType = eventType, e_message = msg, e_data = data\<rparr>;
          w1 = w\<lparr>transactionLogs := jm_set (transactionLogs w) tid (events @ [event])\<rparr>
      in emitLogUpdate tid (Some event) (emit_effect (EventLogged tid eventType msg) w1))"

definition startPhase :: "string \<Rightarrow> string \<Rightarrow> plugin \<Rightarrow> plugin" where
  "startPhase tid phase w =
     (case jm_get (activeTransfers w) tid of
        None \<Rightarrow> w
      | Some r \<Rightarrow> upd_transfer r (\<lambda>t. t\<lparr>t_phases := jm_set (t_phases t) phase
          \<lparr>ph_startMs = of_int (clock w), ph_endMs = None, ph_durationMs = None\<rparr>\<rparr>) w)"

text \<open>Returns the duration, 0 when the phase was never started.\<close>

definition endPhase :: "string \<Rightarrow> string \<Rightarrow> plugin \<Rightarrow> rat \<times> plugin" where
  "endPhase tid phase w =
     (case jm_get (activeTransfers w) tid of
        None \<Rightarrow> (0, w)
      | Some r \<Rightarrow>
          (case jm_get (t_phases (transfer_at w r)) phase of
             None \<Rightarrow> (0, w)
           | Some ph \<Rightarrow>
               let d = of_int (clock w) - ph_startMs ph
               in (d, upd_transfer r (\<lambda>t. t\<lparr>t_phases := jm_set (t_phases t) phase
                    (ph\<lparr>ph_endMs := Some (of_int (clock w)), ph_durationMs := Some d\<rparr>)\<rparr>) w)))"

section \<open>The audit index\<close>

definition note_audit_row :: "audit_row \<Rightarrow> plugin \<Rightarrow> plugin" where
  "note_audit_row row w =
     w\<lparr>auditIndex := fold_row (auditIndex w) row, auditRevisions := count_row (auditRevisions w) row\<rparr>"

definition recordAuditRow :: "audit_row \<Rightarrow> unit handler" where
  "recordAuditRow row =
     act_try
       (act_bind (await_value (AppendAuditRow row)) (\<lambda>_. act_do (note_audit_row row)))
       (\<lambda>err. act_return ())"

definition recordTransferStarted :: "nat \<Rightarrow> unit handler" where
  "recordTransferStarted r =
     act_get (\<lambda>w. let t = transfer_at w r; tid = t_transferId t
       in recordAuditRow (buildAuditRow tid RowStart (clock w)
            (int (length (nullish (jm_get (transactionLogs w) tid) [])))
            (getLastEventTimestamp w tid) (buildTransferInfo w t)))"

section \<open>Archiving a recycled id\<close>

fun index_of :: "('a \<Rightarrow> bool) \<Rightarrow> 'a list \<Rightarrow> nat option" where
  "index_of P [] = None"
| "index_of P (x # xs) = (if P x then Some 0 else map_option Suc (index_of P xs))"

definition archive_entry :: "string \<Rightarrow> persisted_log \<Rightarrow> persisted_log" where
  "archive_entry archivalId e =
     e\<lparr>l_transferId := archivalId,
       l_transferInfo := map_option (\<lambda>i. i\<lparr>i_transferId := Some archivalId\<rparr>) (l_transferInfo e),
       l_summary := map_option (\<lambda>d. d\<lparr>d_transferId := archivalId\<rparr>) (l_summary e)\<rparr>"

definition forget_events :: "string \<Rightarrow> plugin \<Rightarrow> plugin" where
  "forget_events tid w = w\<lparr>transactionLogs := jm_delete (transactionLogs w) tid\<rparr>"

definition archiveRecycledTransferId :: "string \<Rightarrow> int option \<Rightarrow> unit handler" where
  "archiveRecycledTransferId tid startedAt =
     act_get (\<lambda>w.
       case index_of (\<lambda>l. l_transferId l = tid) (persistedTransactionLogs w) of
         None \<Rightarrow> act_do (forget_events tid)
       | Some n \<Rightarrow>
           let existing = persistedTransactionLogs w ! n
           in if oint_truthy startedAt = None
                 \<or> (case l_transferInfo existing of None \<Rightarrow> False | Some i \<Rightarrow> i_startedAt i = startedAt)
              then act_return ()
              else
                let saved = oint_or (Some (l_savedAt existing)) (clock w);
                    archivalId = tid @ CHR ''@'' # show_int saved;
                    archived = archive_entry archivalId existing
                in act_then (act_do (\<lambda>w. w\<lparr>persistedTransactionLogs := (persistedTransactionLogs w)[n := archived]\<rparr>))
                     (act_then (recordAuditRow (buildAuditRow archivalId RowTerminal saved
                          (int (length (l_events existing))) None
                          (nullish (l_transferInfo archived) empty_info)))
                        (act_do (forget_events tid))))"

section \<open>Persisting a transfer's detail\<close>

definition is_pinned :: "plugin \<Rightarrow> persisted_log \<Rightarrow> bool" where
  "is_pinned w entry =
     (if \<not> jm_has (auditIndex w) (l_transferId entry) then True
      else is_downloadable (export_of w
             (case l_transferInfo entry of None \<Rightarrow> None | Some i \<Rightarrow> i_exportId i)))"

text \<open>\<open>None\<close>: reading the configuration throws.\<close>

definition applyDetailRetention :: "plugin \<Rightarrow> persisted_log list \<Rightarrow> persisted_log list option" where
  "applyDetailRetention w entries =
     (case config w ''surface_export.transaction_log_detail_entries'' of
        None \<Rightarrow> None
      | Some raw \<Rightarrow>
          let configured = to_number raw
          in Some (if is_nullish raw \<or> \<not> is_finite configured
                   then selectRetainedDetail entries (Fin 0) (\<lambda>_. False) None
                   else selectRetainedDetail entries
                     (num_of_int (min MAX_DETAIL_ENTRIES (max MIN_DETAIL_ENTRIES (int_of_num (num_floor configured)))))
                     (is_pinned w) None))"

definition pruneTransactionLogsMap :: "persisted_log list \<Rightarrow> plugin \<Rightarrow> plugin" where
  "pruneTransactionLogsMap retained w =
     (let unresolved = map a_transferId (filter (\<lambda>row. a_rowKind row = RowStart) (jm_values (auditIndex w)));
          reachable = jm_keys (activeTransfers w) @ map l_transferId retained @ unresolved
      in w\<lparr>transactionLogs := foldl jm_delete (transactionLogs w)
            (filter (\<lambda>tid. tid \<notin> set reachable) (jm_keys (transactionLogs w)))\<rparr>)"

definition replace_or_append :: "persisted_log \<Rightarrow> persisted_log list \<Rightarrow> persisted_log list" where
  "replace_or_append entry logs =
     (case index_of (\<lambda>l. l_transferId l = l_transferId entry) logs of
        Some n \<Rightarrow> logs[n := entry] | None \<Rightarrow> logs @ [entry])"

definition persist_entry :: "plugin \<Rightarrow> string \<Rightarrow> active_transfer \<Rightarrow> log_event list \<Rightarrow> persisted_log" where
  "persist_entry w tid t events =
     \<lparr>l_transferId = tid,
      l_transferInfo = Some (buildTransferInfo w t),
      l_summary = Some (buildDetailedTransferSummary w tid t (getLastEventTimestamp w tid)),
      l_events = events,
      l_savedAt = clock w\<rparr>"

text \<open>
  The document written is the retained list as it is when the write is requested. An error of the
  handler's own (reading the configuration, the write) is caught and logged.
\<close>

definition persistTransactionLog :: "string \<Rightarrow> unit handler" where
  "persistTransactionLog tid =
     act_try
       (act_get (\<lambda>w.
          case (jm_get (transactionLogs w) tid, find_transfer w tid) of
            (Some events, Some t) \<Rightarrow>
              if transactionLogLoadError w \<noteq> None then act_return ()
              else
                let entry = persist_entry w tid t events;
                    allLogs = replace_or_append entry (persistedTransactionLogs w)
                in (case applyDetailRetention w allLogs of
                      None \<Rightarrow> act_throw (ErrorObject ''unknown config field'' None)
                    | Some retained \<Rightarrow>
                        act_then
                          (act_do (\<lambda>w. pruneTransactionLogsMap retained (w\<lparr>persistedTransactionLogs := retained\<rparr>)))
                          (act_get (\<lambda>w2. act_then
                             (recordAuditRow (buildAuditRow tid RowTerminal (l_savedAt entry)
                                (int (length events)) (getLastEventTimestamp w2 tid) (buildTransferInfo w t)))
                             (act_bind (await_value (WriteDocument (TransactionLogDoc retained)))
                                (\<lambda>_. act_return ())))))
          | _ \<Rightarrow> act_return ()))
       (\<lambda>err. act_return ())"

text \<open>What reading and parsing a file came to.\<close>

datatype 'a load_result = FileMissing | LoadFailed string | ParsedArray 'a | ParsedOther string

definition loadTransactionLogs :: "persisted_log list load_result \<Rightarrow> plugin \<Rightarrow> plugin" where
  "loadTransactionLogs res w =
     (case res of
        ParsedArray logs \<Rightarrow> w\<lparr>persistedTransactionLogs := logs, transactionLogLoadError := None\<rparr>
      | ParsedOther ty \<Rightarrow> w\<lparr>persistedTransactionLogs := [],
          transactionLogLoadError := Some (''expected a JSON array, found '' @ ty)\<rparr>
      | FileMissing \<Rightarrow> w\<lparr>persistedTransactionLogs := [], transactionLogLoadError := None\<rparr>
      | LoadFailed e \<Rightarrow> w\<lparr>transactionLogLoadError := Some e\<rparr>)"

section \<open>Reading the log of a transfer\<close>

datatype transaction_log_reply =
    LogFound string "log_event list" "transfer_info option" "detailed_summary option" bool
      \<comment> \<open>id, events, info, summary, whether the detail is retained\<close>
  | LogMissing string

definition info_of_row :: "audit_row \<Rightarrow> transfer_info" where
  "info_of_row row =
     \<lparr>i_transferId = Some (a_transferId row), i_operationType = Some (a_operationType row),
      i_exportId = a_exportId row, i_artifactSizeBytes = a_artifactSizeBytes row,
      i_platformName = Some (a_platformName row), i_platformIndex = a_platformIndex row, i_forceName = None,
      i_sourceInstanceId = Some (a_sourceInstanceId row), i_sourceInstanceName = a_sourceInstanceName row,
      i_targetInstanceId = Some (a_targetInstanceId row), i_targetInstanceName = a_targetInstanceName row,
      i_status = Some (a_status row), i_startedAt = a_startedAt row, i_completedAt = a_completedAt row,
      i_failedAt = a_failedAt row, i_error = a_error row\<rparr>"

definition handleGetTransactionLog :: "plugin \<Rightarrow> string option \<Rightarrow> transaction_log_reply" where
  "handleGetTransactionLog w request =
     (let tid = ostr_or request [] in
      if tid = [] \<or> tid = ''latest'' then
        (if persistedTransactionLogs w = [] then LogMissing ''No transaction logs available''
         else let l = last (persistedTransactionLogs w)
              in LogFound (l_transferId l) (l_events l) (l_transferInfo l) (l_summary l) True)
      else
        case jm_get (transactionLogs w) tid of
          Some events \<Rightarrow>
            (case find_transfer w tid of
               Some t \<Rightarrow> LogFound tid events (Some (buildTransferInfo w t))
                 (Some (buildDetailedTransferSummary w tid t (getLastEventTimestamp w tid))) True
             | None \<Rightarrow> LogFound tid events None None True)
        | None \<Rightarrow>
            (case List.find (\<lambda>l. l_transferId l = tid) (persistedTransactionLogs w) of
               Some l \<Rightarrow> LogFound (l_transferId l) (l_events l) (l_transferInfo l) (l_summary l) True
             | None \<Rightarrow>
                 (case jm_get (auditIndex w) tid of
                    Some row \<Rightarrow> LogFound tid [] (Some (info_of_row row)) None False
                  | None \<Rightarrow> LogMissing (''Transaction log not found for transfer: '' @ tid))))"

end
