(* ===== verification/Json.thy ===== *)
theory Json
  imports JsValue
begin

text \<open>
  \<open>JSON.stringify\<close> without indentation, on the values of the model. Text is UTF-8 bytes, so the
  length of a text is its \<open>Buffer.byteLength\<close>. Theory JsonParse holds \<open>JSON.parse\<close>.
\<close>

section \<open>Writing\<close>

definition hex_char :: "nat \<Rightarrow> char" where
  "hex_char d = (if d < 10 then char_of (48 + d) else char_of (87 + d))"

definition quote :: char where "quote = char_of (34 :: nat)"
definition backslash :: char where "backslash = char_of (92 :: nat)"

definition escape_char :: "char \<Rightarrow> string" where
  "escape_char c =
     (let n = of_char c :: nat in
      if n = 34 then [backslash, quote]
      else if n = 92 then [backslash, backslash]
      else if n = 8 then [backslash, CHR ''b'']
      else if n = 9 then [backslash, CHR ''t'']
      else if n = 10 then [backslash, CHR ''n'']
      else if n = 12 then [backslash, CHR ''f'']
      else if n = 13 then [backslash, CHR ''r'']
      else if n < 32 then [backslash, CHR ''u'', CHR ''0'', CHR ''0'', hex_char (n div 16), hex_char (n mod 16)]
      else [c])"

definition json_string :: "string \<Rightarrow> string" where
  "json_string s = quote # concat (map escape_char s) @ [quote]"

definition json_num :: "jsnum \<Rightarrow> string" where
  "json_num n = (case n of Fin q \<Rightarrow> num_text n | _ \<Rightarrow> ''null'')"

text \<open>An undefined element of an array is written as null; an undefined field is left out.\<close>

fun json_text :: "jsval \<Rightarrow> string" and json_elems :: "jsval list \<Rightarrow> string list"
  and json_fields :: "(string \<times> jsval) list \<Rightarrow> string list" where
  "json_text JUndef = ''null''"
| "json_text JNull = ''null''"
| "json_text (JBool b) = (if b then ''true'' else ''false'')"
| "json_text (JNum n) = json_num n"
| "json_text (JStr s) = json_string s"
| "json_text (JArr xs) = CHR ''['' # join_with '','' (json_elems xs) @ '']''"
| "json_text (JObj fs) = CHR ''{'' # join_with '','' (json_fields fs) @ ''}''"
| "json_elems [] = []"
| "json_elems (x # xs) = json_text x # json_elems xs"
| "json_fields [] = []"
| "json_fields ((k, v) # fs) =
     (if v = JUndef then json_fields fs
      else (json_string k @ CHR '':'' # json_text v) # json_fields fs)"

definition json_size :: "jsval \<Rightarrow> int" where
  "json_size v = int (length (json_text v))"

end
