(* ===== verification/Ids.thy ===== *)
theory Ids
  imports JsValue
begin

text \<open>
  Identifiers (shared/utils.ts, controller.ts, web/gateway/gateway-graph.ts): the canonical
  transfer id \<open>instance:job\<close>, the gateway key \<open>instance:gateway\<close> of the controller and
  the edit key of the web canvas. The three encodings share one contract, locale \<open>id_codec\<close>.
\<close>

section \<open>Splitting at the first colon\<close>

text \<open>\<open>indexOf(":")\<close>, then the two slices; no split when the index is not positive.\<close>

definition split_colon :: "string \<Rightarrow> (string \<times> string) option" where
  "split_colon s =
     (let p = takeWhile (\<lambda>c. c \<noteq> CHR '':'') s
      in if p = [] \<or> length p = length s then None else Some (p, drop (Suc (length p)) s))"

lemma split_colon_join:
  assumes "p \<noteq> []" and "CHR '':'' \<notin> set p"
  shows "split_colon (p @ CHR '':'' # n) = Some (p, n)"
proof -
  have "takeWhile (\<lambda>c. c \<noteq> CHR '':'') (p @ CHR '':'' # n) = p"
    using assms(2) by (subst takeWhile_append2) auto
  with assms(1) show ?thesis by (simp add: split_colon_def Let_def)
qed

lemma split_colon_Some:
  assumes "split_colon s = Some (p, n)"
  shows "s = p @ CHR '':'' # n" and "p \<noteq> []" and "CHR '':'' \<notin> set p"
proof -
  let ?p = "takeWhile (\<lambda>c. c \<noteq> CHR '':'') s"
  from assms have ne: "?p \<noteq> []" and len: "length ?p \<noteq> length s"
    unfolding split_colon_def Let_def by (metis option.distinct(1))+
  with assms have pn: "(?p, drop (Suc (length ?p)) s) = (p, n)"
    unfolding split_colon_def Let_def by (metis option.inject)
  then have p: "p = ?p" and n: "n = drop (Suc (length ?p)) s"
    by (metis prod.inject)+
  from len have "dropWhile (\<lambda>c. c \<noteq> CHR '':'') s \<noteq> []"
    by (metis append_Nil2 takeWhile_dropWhile_id)
  then obtain c cs where d: "dropWhile (\<lambda>c. c \<noteq> CHR '':'') s = c # cs"
    by (meson list.exhaust)
  then have c: "c = CHR '':''"
    using hd_dropWhile [of "\<lambda>c. c \<noteq> CHR '':''" s] by simp
  have "drop (Suc (length ?p)) s = tl (dropWhile (\<lambda>c. c \<noteq> CHR '':'') s)"
    unfolding dropWhile_eq_drop by (metis drop_Suc tl_drop)
  then have "n = cs" unfolding d n by simp
  moreover have "?p @ c # cs = s"
    unfolding d [symmetric] by (rule takeWhile_dropWhile_id)
  ultimately show "s = p @ CHR '':'' # n" unfolding p [symmetric] c by blast
  from ne p show "p \<noteq> []" by simp
  show "CHR '':'' \<notin> set p" unfolding p using set_takeWhileD by fastforce
qed

lemma colon_notin_show_int [simp]: "CHR '':'' \<notin> set (show_int i)"
  using show_int_chars [of "CHR '':''" i] by auto

section \<open>Canonical transfer ids\<close>

datatype id_error = InvalidSourceInstance jsnum | MissingSourceJob

fun id_error_text :: "id_error \<Rightarrow> string" where
  "id_error_text (InvalidSourceInstance n) = ''Invalid source instance id: '' @ num_text n"
| "id_error_text MissingSourceJob = ''sourceJobId is required''"

definition make_canonical_transfer_id :: "jsnum \<Rightarrow> string \<Rightarrow> id_error + string" where
  "make_canonical_transfer_id src job =
     (if \<not> is_integer src \<or> num_le src (Fin 0) then Inl (InvalidSourceInstance src)
      else if job = [] then Inl MissingSourceJob
      else Inr (num_text src @ CHR '':'' # job))"

definition parse_canonical_transfer_id :: "string option \<Rightarrow> (int \<times> string) option" where
  "parse_canonical_transfer_id tid =
     (case tid of None \<Rightarrow> None
      | Some s \<Rightarrow>
         (case split_colon s of None \<Rightarrow> None
          | Some (p, job) \<Rightarrow>
             (let n = str_to_num p
              in if \<not> is_integer n \<or> num_le n (Fin 0) \<or> job = [] then None
                 else Some (int_of_num n, job))))"

section \<open>Gateway keys of the controller, edit keys of the canvas\<close>

definition gateway_key :: "int \<Rightarrow> string \<Rightarrow> string" where
  "gateway_key src name = show_int src @ CHR '':'' # name"

definition parse_gateway_key :: "string \<Rightarrow> (int \<times> string) option" where
  "parse_gateway_key key =
     (case split_colon key of None \<Rightarrow> None
      | Some (p, name) \<Rightarrow>
          (let n = str_to_num p
           in if \<not> is_integer n \<or> name = [] then None else Some (int_of_num n, name)))"

definition edit_key :: "int \<Rightarrow> string \<Rightarrow> string" where
  "edit_key src name = show_int src @ CHR '':'' # name"

text \<open>The canvas accepts any finite number as the instance, not only an integer.\<close>

definition parse_edit_key :: "string \<Rightarrow> (rat \<times> string) option" where
  "parse_edit_key key =
     (case split_colon key of None \<Rightarrow> None
      | Some (p, name) \<Rightarrow>
          (case str_to_num p of
             Fin q \<Rightarrow> if name = [] then None else Some (q, name)
           | _ \<Rightarrow> None))"

section \<open>The contract of an identifier encoding\<close>

text \<open>
  What the components that build keys rely on: an accepted pair is read back as it was written.
  Then two accepted pairs with one key are the same pair, so records never collide.
\<close>

locale id_codec =
  fixes encode :: "int \<Rightarrow> string \<Rightarrow> string"
    and decode :: "string \<Rightarrow> ('i \<times> string) option"
    and emb :: "int \<Rightarrow> 'i"
    and ok :: "int \<Rightarrow> bool"
  assumes decode_encode: "ok i \<Longrightarrow> n \<noteq> [] \<Longrightarrow> decode (encode i n) = Some (emb i, n)"
    and emb_inj: "emb i = emb j \<Longrightarrow> i = j"
begin

lemma encode_inj:
  assumes "ok i" "ok j" "m \<noteq> []" "n \<noteq> []" "encode i m = encode j n"
  shows "i = j \<and> m = n"
  using assms decode_encode [of i m] decode_encode [of j n] emb_inj by fastforce

lemma decode_defined: "ok i \<Longrightarrow> n \<noteq> [] \<Longrightarrow> decode (encode i n) \<noteq> None"
  by (simp add: decode_encode)

end

lemma num_le_num_of_int [simp]: "num_le (num_of_int i) (Fin 0) \<longleftrightarrow> i \<le> 0"
  by (auto simp: num_le_def)

lemma make_canonical_ok [simp]:
  "0 < i \<Longrightarrow> job \<noteq> [] \<Longrightarrow>
    make_canonical_transfer_id (num_of_int i) job = Inr (show_int i @ CHR '':'' # job)"
  by (simp add: make_canonical_transfer_id_def)

lemma make_canonical_Inr:
  assumes "make_canonical_transfer_id src job = Inr tid"
  obtains i where "src = num_of_int i" "0 < i" "job \<noteq> []" "tid = show_int i @ CHR '':'' # job"
proof -
  from assms have "is_integer src" "\<not> num_le src (Fin 0)" "job \<noteq> []"
    and tid: "tid = num_text src @ CHR '':'' # job"
    by (auto simp: make_canonical_transfer_id_def split: if_splits)
  then obtain i where i: "src = num_of_int i" by (auto simp: is_integer_iff)
  with \<open>\<not> num_le src (Fin 0)\<close> have "0 < i" by simp
  with i tid \<open>job \<noteq> []\<close> that show ?thesis by simp
qed

interpretation transfer_id: id_codec
  "\<lambda>i job. show_int i @ CHR '':'' # job" "\<lambda>s. parse_canonical_transfer_id (Some s)"
  "\<lambda>i. i" "\<lambda>i. 0 < i"
  by unfold_locales (auto simp: parse_canonical_transfer_id_def split_colon_join Let_def)

interpretation gateway_id: id_codec gateway_key parse_gateway_key "\<lambda>i. i" "\<lambda>i. True"
  by unfold_locales (auto simp: gateway_key_def parse_gateway_key_def split_colon_join Let_def)

interpretation edit_id: id_codec edit_key parse_edit_key "of_int" "\<lambda>i. True"
  by unfold_locales (auto simp: edit_key_def parse_edit_key_def split_colon_join)

lemma parse_canonical_positive:
  "parse_canonical_transfer_id tid = Some (i, job) \<Longrightarrow> 0 < i \<and> job \<noteq> []"
  by (auto simp: parse_canonical_transfer_id_def Let_def is_integer_iff split: option.splits if_splits)

section \<open>Properties\<close>

text \<open>
  Canonical transfer ids never collide. Whenever two calls of
  \<open>makeCanonicalTransferId\<close> return the same id, they were given the same source instance and
  the same job, and \<open>parseCanonicalTransferId\<close> reads exactly that pair back.
\<close>

theorem canonical_id_codec:
  assumes "make_canonical_transfer_id src job = Inr tid"
  shows "parse_canonical_transfer_id (Some tid) = Some (int_of_num src, job) \<and>
    (\<forall>src' job'. make_canonical_transfer_id src' job' = Inr tid \<longrightarrow> src' = src \<and> job' = job)"
proof -
  obtain i where i: "src = num_of_int i" "0 < i" "job \<noteq> []" "tid = show_int i @ CHR '':'' # job"
    by (rule make_canonical_Inr [OF assms])
  have "src' = src \<and> job' = job" if "make_canonical_transfer_id src' job' = Inr tid" for src' job'
  proof -
    from that obtain j
      where j: "src' = num_of_int j" "0 < j" "job' \<noteq> []" "tid = show_int j @ CHR '':'' # job'"
      by (rule make_canonical_Inr)
    then have "j = i \<and> job' = job"
      using i by (intro transfer_id.encode_inj) auto
    then show ?thesis using i j by simp
  qed
  then show ?thesis
    using i by (simp add: transfer_id.decode_encode)
qed

lemma rat_text_12: "rat_text 12 = ''12''"
  using rat_text_of_int [of 12] by (simp add: show_int_def show_nat.simps)

theorem canonical_id_codec_witness:
  "parse_canonical_transfer_id (Some ''12:alpha:7'') = Some (12, ''alpha:7'')"
  using canonical_id_codec [of "num_of_int 12" "''alpha:7''" "''12:alpha:7''"]
  by (simp add: make_canonical_transfer_id_def rat_text_12 is_integer_def num_le_def int_of_num_def)

end
