(* ===== verification/Storage.thy ===== *)
theory Storage
  imports TransactionLogger Json Ids
begin

text \<open>
  What the controller keeps on disk (controller.ts): stored exports and their eviction, the intents
  of transfers awaiting validation, and the markers of committed sources. A \<open>void\<close> write is a
  \<open>BackgroundWrite\<close> effect with the document it was given.
\<close>

section \<open>Stored exports\<close>

definition persistStorage :: "unit handler" where
  "persistStorage =
     act_get (\<lambda>w.
       if storageLoadError w \<noteq> None then act_return ()
       else act_try
         (act_bind (await_value (WriteDocument (StorageDoc (jm_values (platformStorage w)))))
            (\<lambda>_. act_do (\<lambda>w. w\<lparr>consecutiveStorageWriteFailures := 0\<rparr>)))
         (\<lambda>err. act_do (\<lambda>w. w\<lparr>consecutiveStorageWriteFailures := consecutiveStorageWriteFailures w + 1\<rparr>)))"

definition older_first :: "string \<times> stored_export \<Rightarrow> string \<times> stored_export \<Rightarrow> bool" where
  "older_first a b = (x_timestamp (snd a) - x_timestamp (snd b) \<le> 0)"

text \<open>
  \<open>entries[i][0]\<close> throws past the end of the list, which only a negative limit reaches.
\<close>

definition evict_oldest :: "nat \<Rightarrow> plugin \<Rightarrow> plugin" where
  "evict_oldest n w =
     w\<lparr>platformStorage := foldl jm_delete (platformStorage w)
          (map fst (take n (sort_by older_first (platformStorage w))))\<rparr>"

definition cleanupOldExports :: "int \<Rightarrow> unit handler" where
  "cleanupOldExports maxStorage =
     act_get (\<lambda>w.
       let toRemove = int (length (platformStorage w)) - maxStorage
       in if toRemove \<le> 0 then act_return ()
          else act_then (act_do (evict_oldest (nat toRemove)))
            (if toRemove > int (length (platformStorage w))
             then act_throw (ErrorObject ''Cannot read properties of undefined (reading 0)'' None)
             else act_do (queueTreeBroadcast ''player'')))"

record export_event =
  v_exportId :: string
  v_platformName :: string
  v_platformIndex :: "int option"
  v_instanceId :: int
  v_exportData :: jsval
  v_exportMetrics :: jsval
  v_timestamp :: int

definition stored_of_event :: "string \<Rightarrow> export_event \<Rightarrow> stored_export" where
  "stored_of_event cid ev =
     \<lparr>x_exportId = cid,
      x_sourceExportId = Some (v_exportId ev),
      x_platformName = v_platformName ev,
      x_platformIndex = val_of_int (v_platformIndex ev),
      x_instanceId = num_of_int (v_instanceId ev),
      x_exportData = v_exportData ev,
      x_exportMetrics = val_or (v_exportMetrics ev) JNull,
      x_timestamp = v_timestamp ev,
      x_size = Some (json_size (v_exportData ev))\<rparr>"

text \<open>
  An invalid instance or job id is thrown to Clusterio before anything is stored. The size limit is
  a number; a fractional one removes as many entries as its rounding up asks for.
\<close>

definition max_storage :: "plugin \<Rightarrow> jsnum option" where
  "max_storage w = map_option to_number (config w ''surface_export.max_storage_size'')"

definition handlePlatformExport :: "export_event \<Rightarrow> unit handler" where
  "handlePlatformExport ev =
     (case make_canonical_transfer_id (num_of_int (v_instanceId ev)) (v_exportId ev) of
        Inl e \<Rightarrow> act_throw (ErrorObject (id_error_text e) None)
      | Inr cid \<Rightarrow>
          act_try
            (act_then (act_do (\<lambda>w. w\<lparr>platformStorage := jm_set (platformStorage w) cid (stored_of_event cid ev)\<rparr>))
              (act_get (\<lambda>w.
                 case max_storage w of
                   None \<Rightarrow> act_throw (ErrorObject ''unknown config field'' None)
                 | Some bound \<Rightarrow>
                     act_then
                       (case bound of
                          Fin q \<Rightarrow> if of_nat (length (platformStorage w)) > q
                                   then cleanupOldExports \<lfloor>q\<rfloor> else act_return ()
                        | _ \<Rightarrow> act_return ())
                       (act_then persistStorage (act_do (queueTreeBroadcast ''player''))))))
            (\<lambda>err. act_return ()))"

record export_listing =
  el_exportId :: string
  el_sourceExportId :: "string option"
  el_platformName :: string
  el_instanceId :: jsnum
  el_timestamp :: int
  el_size :: int

definition export_size :: "stored_export \<Rightarrow> int" where
  "export_size x = nullish (x_size x) (json_size (val_or (x_exportData x) (JObj [])))"

definition listStoredExports :: "plugin \<Rightarrow> export_listing list" where
  "listStoredExports w =
     map (\<lambda>x. \<lparr>el_exportId = x_exportId x, el_sourceExportId = x_sourceExportId x,
               el_platformName = x_platformName x, el_instanceId = x_instanceId x,
               el_timestamp = x_timestamp x, el_size = export_size x\<rparr>)
       (jm_values (platformStorage w))"

definition handleGetStoredExportRequest :: "plugin \<Rightarrow> string \<Rightarrow> string + export_listing \<times> jsval" where
  "handleGetStoredExportRequest w eid =
     (case jm_get (platformStorage w) eid of
        None \<Rightarrow> Inl (''Export not found: '' @ eid)
      | Some x \<Rightarrow> Inr (\<lparr>el_exportId = x_exportId x, el_sourceExportId = x_sourceExportId x,
               el_platformName = x_platformName x, el_instanceId = x_instanceId x,
               el_timestamp = x_timestamp x, el_size = export_size x\<rparr>, x_exportData x))"

text \<open>
  Re-keying an entry read from disk; an entry without a usable instance keeps its old key.
\<close>

definition canonicalizeStoredExport :: "stored_export \<Rightarrow> stored_export" where
  "canonicalizeStoredExport entry =
     (case parse_canonical_transfer_id (Some (x_exportId entry)) of
        Some (i, job) \<Rightarrow> entry\<lparr>x_sourceExportId := Some (ostr_or (x_sourceExportId entry) job)\<rparr>
      | None \<Rightarrow>
          let source = ostr_or (x_sourceExportId entry) (x_exportId entry)
          in case make_canonical_transfer_id (x_instanceId entry) source of
               Inr cid \<Rightarrow> entry\<lparr>x_exportId := cid, x_sourceExportId := Some source\<rparr>
             | Inl _ \<Rightarrow> entry\<lparr>x_sourceExportId := Some source\<rparr>)"

definition load_entry :: "(string, stored_export) jsmap \<Rightarrow> stored_export \<Rightarrow> (string, stored_export) jsmap" where
  "load_entry m entry =
     (if x_exportId entry = [] then m
      else
        let sized = (if oint_truthy (x_size entry) = None \<and> truthy (x_exportData entry)
                     then entry\<lparr>x_size := Some (json_size (x_exportData entry))\<rparr> else entry);
            stored = canonicalizeStoredExport sized
        in jm_set m (x_exportId stored) stored)"

definition loadStorage :: "stored_export list load_result \<Rightarrow> plugin \<Rightarrow> plugin" where
  "loadStorage res w =
     (case res of
        ParsedArray entries \<Rightarrow>
          w\<lparr>platformStorage := foldl load_entry (platformStorage w) entries, storageLoadError := None\<rparr>
      | ParsedOther ty \<Rightarrow> w\<lparr>storageLoadError := None\<rparr>
      | FileMissing \<Rightarrow> w\<lparr>storageLoadError := None\<rparr>
      | LoadFailed e \<Rightarrow> w\<lparr>storageLoadError := Some e\<rparr>)"

section \<open>Intents of transfers awaiting validation\<close>

definition PENDING_TRANSFER_INTENT_RETENTION_MS :: int where
  "PENDING_TRANSFER_INTENT_RETENTION_MS = 15 * 60 * 1000"

definition SOURCE_COMMIT_MARKER_RETENTION_MS :: int where
  "SOURCE_COMMIT_MARKER_RETENTION_MS = PENDING_TRANSFER_INTENT_RETENTION_MS * 2"

text \<open>\<open>!Number.isFinite(t) || now - t > retention\<close>.\<close>

definition is_stale :: "int \<Rightarrow> int \<Rightarrow> jsval \<Rightarrow> bool" where
  "is_stale retention now v =
     (case to_number v of Fin t \<Rightarrow> of_int retention < of_int now - t | _ \<Rightarrow> True)"

definition prunePendingTransfersInMemory :: "plugin \<Rightarrow> nat \<times> plugin" where
  "prunePendingTransfersInMemory w =
     (let stale = map fst (filter (\<lambda>(tid, intent). is_stale PENDING_TRANSFER_INTENT_RETENTION_MS (clock w) (p_startedAt intent))
                (pendingTransfers w))
      in (length stale, w\<lparr>pendingTransfers := foldl jm_delete (pendingTransfers w) stale\<rparr>))"

definition persistPendingTransfer :: "pending_intent \<Rightarrow> plugin \<Rightarrow> plugin" where
  "persistPendingTransfer intent w =
     (let w1 = snd (prunePendingTransfersInMemory w);
          w2 = w1\<lparr>pendingTransfers := jm_set (pendingTransfers w1) (p_transferId intent) intent\<rparr>
      in emit_effect (BackgroundWrite (PendingDoc (jm_values (pendingTransfers w2)))) w2)"

definition removePendingTransfer :: "string \<Rightarrow> plugin \<Rightarrow> plugin" where
  "removePendingTransfer tid w =
     (if jm_has (pendingTransfers w) tid
      then let w1 = w\<lparr>pendingTransfers := jm_delete (pendingTransfers w) tid\<rparr>
           in emit_effect (BackgroundWrite (PendingDoc (jm_values (pendingTransfers w1)))) w1
      else w)"

definition persistPendingTransfers :: "unit handler" where
  "persistPendingTransfers =
     act_get (\<lambda>w. act_try
       (act_bind (await_value (WriteDocument (PendingDoc (jm_values (pendingTransfers w))))) (\<lambda>_. act_return ()))
       (\<lambda>err. act_return ()))"

definition prunePendingTransfers :: "nat handler" where
  "prunePendingTransfers =
     act_bind (act_sync prunePendingTransfersInMemory) (\<lambda>pruned.
       if 0 < pruned then act_then persistPendingTransfers (act_return pruned) else act_return pruned)"

definition loadPendingTransfers :: "pending_intent list load_result \<Rightarrow> unit handler" where
  "loadPendingTransfers res =
     (case res of
        ParsedArray es \<Rightarrow>
          act_then (act_do (\<lambda>w. w\<lparr>pendingTransfers :=
              foldl (\<lambda>m e. jm_set m (p_transferId e) e) (pendingTransfers w) es\<rparr>))
            (act_bind prunePendingTransfers (\<lambda>_. act_return ()))
      | ParsedOther ty \<Rightarrow> act_bind prunePendingTransfers (\<lambda>_. act_return ())
      | _ \<Rightarrow> act_return ())"

section \<open>Commit markers\<close>

definition pruneSourceCommitMarkersInMemory :: "plugin \<Rightarrow> nat \<times> plugin" where
  "pruneSourceCommitMarkersInMemory w =
     (let stale = map fst (filter (\<lambda>(tid, m). is_stale SOURCE_COMMIT_MARKER_RETENTION_MS (clock w) (c_committedAt m))
                (sourceCommitMarkers w))
      in (length stale, w\<lparr>sourceCommitMarkers := foldl jm_delete (sourceCommitMarkers w) stale\<rparr>))"

definition recordCommitTransmitted :: "commit_marker \<Rightarrow> plugin \<Rightarrow> plugin" where
  "recordCommitTransmitted m w =
     (let w1 = snd (pruneSourceCommitMarkersInMemory w);
          w2 = w1\<lparr>sourceCommitMarkers := jm_set (sourceCommitMarkers w1) (c_transferId m) m\<rparr>
      in emit_effect (BackgroundWrite (MarkerDoc (jm_values (sourceCommitMarkers w2)))) w2)"

definition persistSourceCommitMarkers :: "unit handler" where
  "persistSourceCommitMarkers =
     act_get (\<lambda>w. act_try
       (act_bind (await_value (WriteDocument (MarkerDoc (jm_values (sourceCommitMarkers w))))) (\<lambda>_. act_return ()))
       (\<lambda>err. act_return ()))"

definition pruneSourceCommitMarkers :: "nat handler" where
  "pruneSourceCommitMarkers =
     act_bind (act_sync pruneSourceCommitMarkersInMemory) (\<lambda>pruned.
       if 0 < pruned then act_then persistSourceCommitMarkers (act_return pruned) else act_return pruned)"

definition loadSourceCommitMarkers :: "commit_marker list load_result \<Rightarrow> unit handler" where
  "loadSourceCommitMarkers res =
     (case res of
        ParsedArray es \<Rightarrow>
          act_then (act_do (\<lambda>w. w\<lparr>sourceCommitMarkers :=
              foldl (\<lambda>m e. jm_set m (c_transferId e) e) (sourceCommitMarkers w) es\<rparr>))
            (act_bind pruneSourceCommitMarkers (\<lambda>_. act_return ()))
      | ParsedOther ty \<Rightarrow> act_bind pruneSourceCommitMarkers (\<lambda>_. act_return ())
      | _ \<Rightarrow> act_return ())"

section \<open>Facts\<close>

lemma pending_after_prune:
  assumes "jm_wf (pendingTransfers w)"
  shows "jm_get (pendingTransfers (snd (prunePendingTransfersInMemory w))) tid =
    (case jm_get (pendingTransfers w) tid of None \<Rightarrow> None
     | Some intent \<Rightarrow> if is_stale PENDING_TRANSFER_INTENT_RETENTION_MS (clock w) (p_startedAt intent)
                     then None else Some intent)"
  using jm.lookup_retention [OF assms, of "\<lambda>i. is_stale PENDING_TRANSFER_INTENT_RETENTION_MS (clock w) (p_startedAt i)" tid]
  by (simp add: prunePendingTransfersInMemory_def Let_def)

lemma persistPendingTransfer_get:
  assumes "jm_wf (pendingTransfers w)"
  shows "jm_get (pendingTransfers (persistPendingTransfer intent w)) tid =
    (if tid = p_transferId intent then Some intent
     else case jm_get (pendingTransfers w) tid of None \<Rightarrow> None
       | Some i \<Rightarrow> if is_stale PENDING_TRANSFER_INTENT_RETENTION_MS (clock w) (p_startedAt i)
                  then None else Some i)"
  using pending_after_prune [OF assms, of tid]
  by (simp add: persistPendingTransfer_def Let_def)

interpretation age_order: comparator older_first
  by unfold_locales (auto simp: older_first_def)

text \<open>Eviction: exactly the newest exports stay.\<close>

lemma foldl_delete_filter: "foldl jm_delete m ks = filter (\<lambda>(k, v). k \<notin> set ks) m"
  by (induction ks arbitrary: m) (auto simp: jm_delete_def intro!: filter_cong)

lemma length_filter_notin:
  assumes "distinct (map fst m)" "ks \<subseteq> fst ` set m"
  shows "length (filter (\<lambda>(k, v). k \<notin> ks) m) = length m - card ks"
proof -
  have "length (filter (\<lambda>(k, v). k \<in> ks) m) = card ks"
  proof -
    have "ks = fst ` set (filter (\<lambda>(k, v). k \<in> ks) m)" using assms(2) by force
    moreover have "distinct (map fst (filter (\<lambda>(k, v). k \<in> ks) m))"
      using assms(1) by (simp add: distinct_map_filter)
    ultimately show ?thesis by (metis distinct_card length_map set_map)
  qed
  then show ?thesis
    using length_filter_split [of "\<lambda>(k, v). k \<in> ks" m] by (simp add: case_prod_unfold)
qed

lemma queueTreeBroadcast_storage [simp]:
  "platformStorage (queueTreeBroadcast f w) = platformStorage w"
  by (simp add: queueTreeBroadcast_def Let_def)

end
