(* ===== verification/OperationRecord.thy ===== *)
theory OperationRecord
  imports Helpers
begin

text \<open>
  The record of an operation (lib/operation-record.ts), built from partial options. The generated
  id and the current time are arguments; a field read through \<open>Number\<close> keeps its run-time value.
\<close>

record operation_options =
  o_operationId :: "string option"
  o_exportId :: "string option"
  o_sourceExportId :: "string option"
  o_artifactSizeBytes :: "int option"
  o_platformName :: "string option"
  o_platformIndex :: jsval
  o_forceName :: "string option"
  o_sourceInstanceId :: jsval
  o_sourceInstanceName :: "string option"
  o_targetInstanceId :: jsval
  o_targetInstanceName :: "string option"
  o_status :: "status option"
  o_startedAt :: "int option"
  o_completedAt :: "int option"
  o_failedAt :: "int option"
  o_error :: "string option"

definition no_options :: operation_options where
  "no_options =
     \<lparr>o_operationId = None, o_exportId = None, o_sourceExportId = None, o_artifactSizeBytes = None,
      o_platformName = None, o_platformIndex = JUndef, o_forceName = None, o_sourceInstanceId = JUndef,
      o_sourceInstanceName = None, o_targetInstanceId = JUndef, o_targetInstanceName = None,
      o_status = None, o_startedAt = None, o_completedAt = None, o_failedAt = None,
      o_error = None\<rparr>"

definition int_or_minus_one :: "jsval \<Rightarrow> int" where
  "int_or_minus_one v = (let n = to_number v in if is_integer n then int_of_num n else - 1)"

definition createOperationRecord ::
    "(int \<Rightarrow> string option) \<Rightarrow> int \<Rightarrow> string \<Rightarrow> operation_type \<Rightarrow> operation_options \<Rightarrow> thrown + active_transfer" where
  "createOperationRecord resolveName now generatedId ty opts =
     (let source = int_or_minus_one (o_sourceInstanceId opts);
          target = int_or_minus_one (o_targetInstanceId opts);
          candidate = to_number (o_platformIndex opts);
          index = (if is_integer candidate \<and> num_less (Fin 0) candidate then Some (int_of_num candidate) else None)
      in if ty = OpTransfer \<and> index = None
         then Inl (ErrorObject ''platformIndex is required for transfer operations'' None)
         else Inr
           \<lparr>t_transferId = ostr_or (o_operationId opts) generatedId,
            t_operationType = ty,
            t_exportId = ostr_truthy (o_exportId opts),
            t_sourceExportId = ostr_truthy (o_sourceExportId opts),
            t_artifactSizeBytes = o_artifactSizeBytes opts,
            t_platformName = ostr_or (o_platformName opts) ''Unknown'',
            t_platformIndex = nullish index 1,
            t_forceName = ostr_or (o_forceName opts) ''player'',
            t_sourceInstanceId = source,
            t_sourceInstanceName = (case o_sourceInstanceName opts of Some s \<Rightarrow> Some s
               | None \<Rightarrow> if source > 0 then resolveName source else None),
            t_targetInstanceId = target,
            t_targetInstanceName = (case o_targetInstanceName opts of Some s \<Rightarrow> Some s
               | None \<Rightarrow> if target > 0 then resolveName target else None),
            t_startedAt = oint_or (o_startedAt opts) now,
            t_status = nullish (o_status opts) InProgress,
            t_completedAt = oint_truthy (o_completedAt opts),
            t_failedAt = oint_truthy (o_failedAt opts),
            t_error = ostr_truthy (o_error opts),
            t_payloadMetrics = JUndef, t_exportMetrics = JUndef, t_importMetrics = JUndef,
            t_validationResult = JUndef, t_failedStage = None, t_sourceVerification = JUndef,
            t_validationTimeout = None, t_armedValidationTimeoutMs = None, t_phases = [],
            t_metricsRecorded = False\<rparr>)"

lemma createOperationRecord_fields:
  assumes "createOperationRecord rn now gid ty opts = Inr t"
  shows "t_transferId t = ostr_or (o_operationId opts) gid" "t_operationType t = ty"
    "t_status t = nullish (o_status opts) InProgress" "t_error t = ostr_truthy (o_error opts)"
    "t_platformName t \<noteq> []" "t_forceName t \<noteq> []" "t_validationResult t = JUndef"
    "t_metricsRecorded t = False" "t_platformIndex t \<ge> 1"
proof -
  from assms show "t_transferId t = ostr_or (o_operationId opts) gid" "t_operationType t = ty"
    "t_status t = nullish (o_status opts) InProgress" "t_error t = ostr_truthy (o_error opts)"
    "t_platformName t \<noteq> []" "t_forceName t \<noteq> []" "t_validationResult t = JUndef"
    "t_metricsRecorded t = False"
    by (auto simp: createOperationRecord_def Let_def ostr_or_nonempty split: if_splits)
  show "t_platformIndex t \<ge> 1"
  proof (cases "is_integer (to_number (o_platformIndex opts)) \<and> num_less (Fin 0) (to_number (o_platformIndex opts))")
    case True
    then obtain i where "to_number (o_platformIndex opts) = num_of_int i" "0 < i"
      by (auto simp: is_integer_iff)
    with assms show ?thesis by (auto simp: createOperationRecord_def Let_def split: if_splits)
  next
    case False
    with assms show ?thesis by (auto simp: createOperationRecord_def Let_def split: if_splits)
  qed
qed

end
