(* ===== verification/Orchestrator.thy ===== *)
theory Orchestrator
  imports Storage OperationRecord
begin

text \<open>
  The transfer orchestrator (lib/transfer-orchestrator.ts): starting a transfer, the validation
  verdict and its timeout, deletion or release of the source, the retry guard. Each asynchronous
  method is a handler, cut at the code's \<open>await\<close>s; a local variable that holds the transfer is a
  reference into the heap, so it keeps denoting the object when the table changes.
\<close>

section \<open>Texts\<close>

definition check_mark :: string where "check_mark = utf8 [0xE2, 0x9C, 0x93]"
definition ballot_x :: string where "ballot_x = utf8 [0xE2, 0x9C, 0x97]"
definition warning_sign :: string where "warning_sign = utf8 [0xE2, 0x9A, 0xA0]"

definition js_str :: "string \<Rightarrow> jsval" where "js_str s = JStr s"

record transfer_result =
  r_success :: bool
  r_error :: "string option"
  r_transferId :: "string option"
  r_message :: "string option"
  r_safeToUnlockSource :: bool

definition refused :: "string \<Rightarrow> transfer_result" where
  "refused e = \<lparr>r_success = False, r_error = Some e, r_transferId = None, r_message = None,
     r_safeToUnlockSource = True\<rparr>"

definition failure :: "string \<Rightarrow> transfer_result" where
  "failure e = \<lparr>r_success = False, r_error = Some e, r_transferId = None, r_message = None,
     r_safeToUnlockSource = False\<rparr>"

definition started :: "string \<Rightarrow> string \<Rightarrow> transfer_result" where
  "started tid m = \<lparr>r_success = True, r_error = None, r_transferId = Some tid, r_message = Some m,
     r_safeToUnlockSource = False\<rparr>"

section \<open>Status, updates, unlocking\<close>

definition updateTransfer :: "nat \<Rightarrow> plugin \<Rightarrow> plugin" where
  "updateTransfer r w =
     (let w1 = emitTransferUpdate r w
      in queueTreeBroadcast (str_or (t_forceName (transfer_at w1 r)) ''player'') w1)"

definition set_status :: "nat \<Rightarrow> status \<Rightarrow> plugin \<Rightarrow> plugin" where
  "set_status r st = upd_transfer r (\<lambda>t. t\<lparr>t_status := st\<rparr>)"

definition set_error :: "nat \<Rightarrow> string option \<Rightarrow> plugin \<Rightarrow> plugin" where
  "set_error r e = upd_transfer r (\<lambda>t. t\<lparr>t_error := e\<rparr>)"

definition broadcast_one :: "int \<Rightarrow> message \<Rightarrow> unit handler" where
  "broadcast_one i m =
     act_try (act_bind (send_to i m) (\<lambda>_. act_return ())) (\<lambda>err. act_return ())"

definition broadcastTransferStatus :: "nat \<Rightarrow> string \<Rightarrow> string option \<Rightarrow> unit handler" where
  "broadcastTransferStatus r status color =
     act_get (\<lambda>w. let t = transfer_at w r;
         m = TransferStatusUpdate (t_transferId t) (t_platformName t)
               (''[Transfer: '' @ t_platformName t @ ''] '' @ status) color
       in act_then (broadcast_one (t_sourceInstanceId t) m) (broadcast_one (t_targetInstanceId t) m))"

text \<open>\<open>None\<close>: unlocked, or an error that means there was nothing to unlock.\<close>

definition sendUnlockRequest :: "int \<Rightarrow> int \<Rightarrow> string \<Rightarrow> string option \<Rightarrow> string option handler" where
  "sendUnlockRequest sourceInstanceId platformIndex forceName platformName =
     (if coercePlatformIndex (js_int platformIndex) = None
      then act_return (Some (''invalid platformIndex: '' @ js_text (js_int platformIndex)))
      else act_try
        (act_bind (send_to sourceInstanceId (UnlockSourcePlatformRequest platformIndex platformName forceName))
          (\<lambda>resp.
             if truthy (prop_get resp ''success'') then act_return None
             else
               let err = ostr_or (str_field resp ''error'') ''Unknown unlock error''
               in act_return (if isBenignUnlockError err then None else Some err)))
        (\<lambda>e. act_return (Some (getErrorMessage e))))"

definition tryUnlockSource :: "string \<Rightarrow> nat \<Rightarrow> string option handler" where
  "tryUnlockSource tid r =
     act_then (act_do (logTransactionEvent tid ''rollback_attempt'' ''Unlocking source platform'' []))
       (act_get (\<lambda>w. let t = transfer_at w r in
          act_bind (sendUnlockRequest (t_sourceInstanceId t) (t_platformIndex t)
                      (str_or (t_forceName t) ''player'') (Some (t_platformName t)))
            (\<lambda>err. case err of
               None \<Rightarrow> act_then (act_do (logTransactionEvent tid ''rollback_success'' ''Source platform unlocked'' []))
                         (act_return None)
             | Some e \<Rightarrow> act_then (act_do (logTransactionEvent tid ''rollback_failed'' (''Unlock failed: '' @ e)
                           [(''error'', JStr e)])) (act_return (Some e)))))"

section \<open>The validation timeout\<close>

definition getValidationTimeoutMs :: "jsval option \<Rightarrow> int" where
  "getValidationTimeoutMs setting =
     (case setting of
        None \<Rightarrow> DEFAULT_VALIDATION_TIMEOUT_SECONDS * 1000
      | Some raw \<Rightarrow>
          (case to_number raw of
             Fin seconds \<Rightarrow>
               if seconds \<le> 0 then DEFAULT_VALIDATION_TIMEOUT_SECONDS * 1000
               else min MAX_VALIDATION_TIMEOUT_SECONDS (max MIN_VALIDATION_TIMEOUT_SECONDS \<lfloor>seconds\<rfloor>) * 1000
           | _ \<Rightarrow> DEFAULT_VALIDATION_TIMEOUT_SECONDS * 1000))"

definition validation_setting :: "plugin \<Rightarrow> jsval option" where
  "validation_setting w = config w ''surface_export.transfer_validation_timeout_seconds''"

definition seconds_text :: "int \<Rightarrow> string" where
  "seconds_text ms = rat_text (of_int ms / 1000)"

text \<open>Arms a timer; its callback is \<open>validationTimeoutFired\<close> below.\<close>

definition scheduleValidationTimeout :: "string \<Rightarrow> plugin \<Rightarrow> plugin" where
  "scheduleValidationTimeout tid w =
     (case jm_get (activeTransfers w) tid of
        None \<Rightarrow> w
      | Some r \<Rightarrow>
          let timeoutMs = getValidationTimeoutMs (validation_setting w); h = nextTimer w;
              w1 = upd_transfer r (\<lambda>t. t\<lparr>t_armedValidationTimeoutMs := Some timeoutMs,
                                          t_validationTimeout := Some h\<rparr>) w
          in w1\<lparr>timers := timers w1 @ [(h, timeoutMs, tid)], nextTimer := h + 1\<rparr>)"

definition intent_of :: "string \<Rightarrow> active_transfer \<Rightarrow> pending_intent" where
  "intent_of tid t =
     \<lparr>p_transferId = tid, p_sourceInstanceId = t_sourceInstanceId t,
      p_sourcePlatformIndex = t_platformIndex t, p_sourcePlatformName = t_platformName t,
      p_forceName = str_or (t_forceName t) ''player'', p_targetInstanceId = t_targetInstanceId t,
      p_startedAt = js_int (t_startedAt t), p_exportId = t_exportId t\<rparr>"

definition enterAwaitingValidation :: "nat \<Rightarrow> string \<Rightarrow> plugin \<Rightarrow> plugin" where
  "enterAwaitingValidation r tid w =
     (let w1 = startPhase tid ''validation'' w;
          w2 = set_status r AwaitingValidation w1;
          w3 = scheduleValidationTimeout tid w2;
          w4 = updateTransfer r w3
      in persistPendingTransfer (intent_of tid (transfer_at w4 r)) w4)"

section \<open>Starting a transfer\<close>

definition mergeExportMetrics :: "jsval \<Rightarrow> jsval \<Rightarrow> jsval" where
  "mergeExportMetrics stored runtime =
     (let merged = obj_spread (normalizeExportMetrics stored) (normalizeExportMetrics runtime)
      in if merged = [] then JNull else JObj merged)"

definition export_phase :: "jsval \<Rightarrow> int \<Rightarrow> (string, phase_record) jsmap" where
  "export_phase metrics now =
     (let finiteMs = (\<lambda>v. case v of JNum (Fin q) \<Rightarrow> if 0 \<le> q then Some q else None | _ \<Rightarrow> None);
          span = (\<lambda>name ms. [(name, \<lparr>ph_startMs = of_int now - ms, ph_endMs = Some (of_int now),
                                     ph_durationMs = Some ms\<rparr>)])
      in case finiteMs (prop_get metrics ''controllerExportPrepTotalMs'') of
           Some ms \<Rightarrow> span ''export'' ms
         | None \<Rightarrow>
             (case finiteMs (prop_get metrics ''instanceAsyncExportMs'') of
                Some ms \<Rightarrow> span ''exportTickEstimate'' ms | None \<Rightarrow> []))"

definition offline_text :: "plugin \<Rightarrow> int \<Rightarrow> string \<Rightarrow> string" where
  "offline_text w target rest =
     ''Destination instance '' @
     (case ostr_truthy (resolveInstanceName w (num_of_int target)) of
        None \<Rightarrow> [] | Some n \<Rightarrow> CHR 0x22 # n @ [CHR 0x22, CHR '' '']) @
     ''('' @ show_int target @ '') is offline '' @ em_dash @ '' transfer refused before starting. '' @ rest"

text \<open>
  The retry guard: what an existing record of the same id makes of a new attempt. \<open>None\<close> lets it
  proceed.
\<close>

definition is_live :: "status \<Rightarrow> bool" where
  "is_live st = (st \<in> set [Transporting, AwaitingValidation, AwaitingCompletion, InProgress])"

definition retry_guard :: "string \<Rightarrow> active_transfer option \<Rightarrow> transfer_result option" where
  "retry_guard tid existing =
     (case existing of
        None \<Rightarrow> None
      | Some t \<Rightarrow>
          if is_live (t_status t) then Some (started tid (''Transfer already active: '' @ tid))
          else if t_status t \<noteq> Failed then Some (refused
            (''Refusing retry of settled transfer '' @ tid @ '' (status='' @ status_text (t_status t) @ ''): ''
             @ ''the destination may hold a committed copy; create a NEW export to transfer again''))
          else if prop_get (t_validationResult t) ''destinationPreserved'' = JBool True then Some (refused
            (''Refusing retry of failed transfer '' @ tid @ '': its destination was deliberately ''
             @ ''PRESERVED by the debug preserve_failed_destination flag, so a re-run would ''
             @ ''duplicate beside it. Remove the preserved platform (or restart the controller ''
             @ ''to clear the record), then create a NEW export.''))
          else None)"

definition transfer_options ::
    "plugin \<Rightarrow> string \<Rightarrow> string \<Rightarrow> string \<Rightarrow> stored_export \<Rightarrow> int \<Rightarrow> int \<Rightarrow> int option \<Rightarrow> operation_options" where
  "transfer_options w tid exportId sourceExportId x index target startedAt =
     (let platform = prop_get (x_exportData x) ''platform'';
          info = (if truthy platform \<and> is_object platform then platform else JObj [])
      in no_options\<lparr>o_operationId := Some tid, o_exportId := Some exportId,
           o_sourceExportId := Some sourceExportId, o_artifactSizeBytes := x_size x,
           o_platformName := Some (str_or (x_platformName x) ''Unknown''),
           o_platformIndex := js_int index,
           o_forceName := Some (js_text (val_or (prop_get info ''force'') (JStr ''player''))),
           o_sourceInstanceId := JNum (x_instanceId x),
           o_sourceInstanceName := resolveInstanceName w (x_instanceId x),
           o_targetInstanceId := js_int target,
           o_targetInstanceName := resolveInstanceName w (num_of_int target),
           o_startedAt := Some (nullish startedAt (clock w)),
           o_status := Some Transporting\<rparr>)"

definition transfer_record ::
    "plugin \<Rightarrow> string \<Rightarrow> string \<Rightarrow> string \<Rightarrow> stored_export \<Rightarrow> int \<Rightarrow> int \<Rightarrow> int option \<Rightarrow> jsval \<Rightarrow>
      thrown + active_transfer" where
  "transfer_record w tid exportId sourceExportId x index target startedAt exportMetrics =
     (case createOperationRecord (\<lambda>_. None) (clock w) [] OpTransfer
             (transfer_options w tid exportId sourceExportId x index target startedAt) of
        Inl e \<Rightarrow> Inl e
      | Inr t \<Rightarrow>
          let (payloadMetrics, itemCounts, fluidCounts) = buildPayloadMetrics (x_exportData x);
              metrics = mergeExportMetrics (x_exportMetrics x) exportMetrics
          in Inr (t\<lparr>t_payloadMetrics := payloadMetrics, t_exportMetrics := metrics,
                    t_phases := export_phase metrics (clock w),
                    t_sourceVerification := JObj [(''itemCounts'', itemCounts), (''fluidCounts'', fluidCounts)]\<rparr>))"

definition import_failed_text :: "string \<Rightarrow> string" where
  "import_failed_text err = ''Import failed: '' @ err"

definition handleImportFailure :: "string \<Rightarrow> string \<Rightarrow> rat \<Rightarrow> transfer_result handler" where
  "handleImportFailure tid err transmissionMs =
     act_get (\<lambda>w.
       case jm_get (activeTransfers w) tid of
         None \<Rightarrow> act_return (failure err)
       | Some r \<Rightarrow>
           act_then (act_do (\<lambda>w.
               logTransactionEvent tid ''import_failed'' (import_failed_text err)
                 [(''error'', JStr err), (''transmissionMs'', JNum (Fin transmissionMs))]
                 (upd_transfer r (\<lambda>t. t\<lparr>t_status := Failed, t_error := Some (str_or err ''Import failed''),
                    t_failedAt := Some (clock w)\<rparr>) w)))
             (act_bind (tryUnlockSource tid r) (\<lambda>rollbackError.
                act_then (act_do (\<lambda>w.
                    updateTransfer r (case rollbackError of
                      None \<Rightarrow> w
                    | Some e \<Rightarrow> upd_transfer r (\<lambda>t. t\<lparr>t_error :=
                        Some (nullish (t_error t) ''undefined'' @ ''; rollback failed: '' @ e)\<rparr>) w)))
                  (act_then (persistTransactionLog tid) (act_return (failure err))))))"

definition import_accepted :: "string \<Rightarrow> nat \<Rightarrow> rat \<Rightarrow> transfer_result handler" where
  "import_accepted tid r transmissionMs =
     act_then (act_do (enterAwaitingValidation r tid))
       (act_get (\<lambda>w.
          act_then (act_do (logTransactionEvent tid ''import_started''
              (''Awaiting validation (timeout: '' @ seconds_text (nullish (t_armedValidationTimeoutMs (transfer_at w r))
                 (DEFAULT_VALIDATION_TIMEOUT_SECONDS * 1000)) @ ''s)'')
              [(''transmissionMs'', JNum (Fin transmissionMs))]))
            (act_return (started tid (''Transfer initiated: '' @ tid)))))"

text \<open>The error of the send: a lost session leaves the delivery open, anything else rolls back.\<close>

definition import_send_failed :: "string \<Rightarrow> nat \<Rightarrow> thrown \<Rightarrow> transfer_result handler" where
  "import_send_failed tid r err =
     (let errMsg = getErrorMessage err in
      if isSessionLostError err then
        act_bind (act_sync (endPhase tid ''transmission'')) (\<lambda>transmissionMs.
          act_then (act_do (enterAwaitingValidation r tid))
            (act_then (act_do (logTransactionEvent tid ''import_delivery_uncertain''
                (''Import send interrupted by session loss ('' @ errMsg @ ''); NOT unlocking source '' @ em_dash
                 @ '' awaiting validation'')
                [(''error'', JStr errMsg), (''transmissionMs'', JNum (Fin transmissionMs))]))
              (act_return (started tid
                (''Transfer initiated (delivery unconfirmed after a session interruption; awaiting validation): '' @ tid)))))
      else
        act_bind (tryUnlockSource tid r) (\<lambda>rollbackError.
          act_return (failure (case rollbackError of
              None \<Rightarrow> errMsg | Some e \<Rightarrow> errMsg @ ''; rollback failed: '' @ e))))"

text \<open>
  The send and what follows the answer. Once the import is accepted an error may no longer release
  the source: the flag \<open>importAccepted\<close> of the code is the inner \<open>act_try\<close>.
\<close>

definition send_import :: "string \<Rightarrow> nat \<Rightarrow> int \<Rightarrow> message \<Rightarrow> transfer_result handler" where
  "send_import tid r target m =
     act_try
       (act_then (act_do (startPhase tid ''transmission''))
         (act_bind (send_to target m) (\<lambda>response.
            act_bind (act_sync (endPhase tid ''transmission'')) (\<lambda>transmissionMs.
              act_bind (read_prop response ''success'') (\<lambda>success.
                if \<not> truthy success
                then handleImportFailure tid (ostr_or (str_field response ''error'') ''Import failed'') transmissionMs
                else act_try (import_accepted tid r transmissionMs)
                       (\<lambda>e. act_return (failure (getErrorMessage e))))))))
       (import_send_failed tid r)"

definition name_or_id :: "string option \<Rightarrow> int \<Rightarrow> string" where
  "name_or_id name i = ostr_or name (show_int i)"

definition import_message :: "string \<Rightarrow> string \<Rightarrow> stored_export \<Rightarrow> string option \<Rightarrow> message" where
  "import_message tid exportId x targetPlanet =
     ImportPlatformRequest exportId
       (JObj (obj_spread (obj_fields (x_exportData x))
          [(''_transferId'', JStr tid), (''_sourceInstanceId'', JNum (x_instanceId x))]))
       ''player'' targetPlanet"

definition launch_transfer ::
    "string \<Rightarrow> string \<Rightarrow> stored_export \<Rightarrow> int \<Rightarrow> string option \<Rightarrow> active_transfer \<Rightarrow> transfer_result handler" where
  "launch_transfer tid exportId x target targetPlanet operation =
     act_then (archiveRecycledTransferId tid (Some (t_startedAt operation)))
       (act_bind (act_sync (\<lambda>w. (length (heap w), add_transfer tid operation w))) (\<lambda>r.
          act_then (act_do (logTransactionEvent tid ''transfer_created''
              (t_platformName operation @ '': ''
               @ name_or_id (t_sourceInstanceName operation) (t_sourceInstanceId operation) @ '' '' @ right_arrow @ '' ''
               @ name_or_id (t_targetInstanceName operation) target)
              [(''exportMetrics'', t_exportMetrics operation), (''payloadMetrics'', t_payloadMetrics operation)]))
            (act_then (recordTransferStarted r)
              (act_then (act_do (updateTransfer r))
                (send_import tid r target (import_message tid exportId x targetPlanet))))))"

definition stored_transfer_id :: "string \<Rightarrow> stored_export \<Rightarrow> string" where
  "stored_transfer_id exportId x = str_or (x_exportId x) exportId"

definition stored_source_export :: "string \<Rightarrow> stored_export \<Rightarrow> string" where
  "stored_source_export tid x =
     ostr_or (x_sourceExportId x)
       (ostr_or (map_option snd (parse_canonical_transfer_id (Some tid))) tid)"

definition transferPlatform ::
    "string \<Rightarrow> int \<Rightarrow> jsval \<Rightarrow> int option \<Rightarrow> string option \<Rightarrow> transfer_result handler" where
  "transferPlatform exportId target exportMetrics transferStartedAt targetPlanet =
     act_get (\<lambda>w.
       case jm_get (platformStorage w) exportId of
         None \<Rightarrow> act_return (refused (''Export not found: '' @ exportId))
       | Some x \<Rightarrow>
           if \<not> isInstanceOnline w target
           then act_return (refused (offline_text w target
                  (''The source platform is unchanged; retry when the '' @ ''destination is running.'')))
           else
             let tid = stored_transfer_id exportId x in
             (case retry_guard tid (find_transfer w tid) of
                Some result \<Rightarrow> act_return result
              | None \<Rightarrow>
                  (case x_platformIndex x of
                     JNum n \<Rightarrow>
                       if is_integer n \<and> 1 \<le> int_of_num n then
                         (case transfer_record w tid exportId (stored_source_export tid x) x (int_of_num n)
                                 target transferStartedAt exportMetrics of
                            Inl e \<Rightarrow> act_throw e
                          | Inr operation \<Rightarrow> launch_transfer tid exportId x target targetPlanet operation)
                       else act_return (refused (''Transfer aborted: source platform index unavailable (top-level=''
                              @ num_text n @ '')''))
                   | v \<Rightarrow> act_return (refused (''Transfer aborted: source platform index unavailable (top-level=''
                              @ js_text v @ '')'')))))"

section \<open>The verdict\<close>

record verdict =
  ve_transferId :: string
  ve_platformName :: string
  ve_sourceInstanceId :: int
  ve_success :: bool
  ve_validation :: jsval
  ve_metrics :: jsval

text \<open>A verdict for a transfer that is not awaiting one: only a failed record may change.\<close>

definition late_verdict_text :: "verdict \<Rightarrow> string" where
  "late_verdict_text ev = (if ve_success ev then ''SUCCESS'' else ''FAILURE'')"

definition late_verdict_update :: "nat \<Rightarrow> verdict \<Rightarrow> plugin \<Rightarrow> string \<times> plugin" where
  "late_verdict_update r ev w =
     (let t = transfer_at w r; v = ve_validation ev in
      if ve_success ev \<and> t_status t = Failed then
        (''The destination holds a LIVE copy of a platform whose source was already ''
          @ ''returned to the player; the transfer is re-marked cleanup_failed so retries are ''
          @ ''refused '' @ em_dash @ '' resolve manually (delete one copy).'',
         updateTransfer r (upd_transfer r (\<lambda>t. t\<lparr>t_status := CleanupFailed,
           t_error := Some (join_truthy ''; '' [t_error t,
             Some (''late import SUCCESS after rollback: the destination holds a live copy '' @ em_dash
                   @ '' delete one copy before retrying'')])\<rparr>) w))
      else if \<not> ve_success ev \<and> t_status t = Failed \<and> truthy (prop_get v ''cleanup_failed'') then
        (''The destination's own discard FAILED '' @ em_dash @ '' an orphan copy remains on the ''
          @ ''target; the transfer is re-marked cleanup_failed so retries are refused until it ''
          @ ''is removed.'',
         updateTransfer r (upd_transfer r (\<lambda>t. t\<lparr>t_status := CleanupFailed, t_validationResult := v,
           t_error := Some (join_truthy ''; '' [t_error t,
             Some (''late FAILURE reported the destination discard itself failed (''
                   @ js_text (val_or (prop_get v ''cleanup_error'') (JStr ''no reason given'')) @ '') '' @ em_dash
                   @ '' an orphan copy remains on the target; remove it before retrying'')])\<rparr>) w))
      else if \<not> ve_success ev \<and> t_status t = Failed
              \<and> prop_get v ''destinationPreserved'' = JBool True then
        (''Adopted the genuine verdict onto the record (it carries ''
          @ ''destinationPreserved, which the retry guard reads); status unchanged.'',
         updateTransfer r (upd_transfer r (\<lambda>t. t\<lparr>t_validationResult := v\<rparr>) w))
      else (''Record unchanged.'', w))"

definition late_text :: "verdict \<Rightarrow> status \<Rightarrow> string \<Rightarrow> string" where
  "late_text ev prior disposition =
     ''Late validation '' @ late_verdict_text ev @ '' arrived after this transfer settled as '' @ [CHR 0x27]
     @ status_text prior @ [CHR 0x27] @ '' '' @ em_dash @ '' no source delete, no rollback. '' @ disposition"

definition late_data :: "verdict \<Rightarrow> status \<Rightarrow> status \<Rightarrow> (string \<times> jsval) list" where
  "late_data ev prior new =
     [(''lateVerdictSuccess'', JBool (ve_success ev)), (''settledStatus'', JStr (status_text prior)),
      (''newStatus'', JStr (status_text new)), (''validation'', val_nullish (ve_validation ev) JNull)]"

definition late_verdict :: "nat \<Rightarrow> verdict \<Rightarrow> unit handler" where
  "late_verdict r ev =
     act_get (\<lambda>w0.
       let prior = t_status (transfer_at w0 r) in
       act_bind (act_sync (late_verdict_update r ev)) (\<lambda>disposition.
         act_then
           (act_do (\<lambda>w. logTransactionEvent (ve_transferId ev) ''validation_after_settle''
               (late_text ev prior disposition) (late_data ev prior (t_status (transfer_at w r))) w))
           (persistTransactionLog (ve_transferId ev))))"

definition delete_message :: "active_transfer \<Rightarrow> message" where
  "delete_message t =
     DeleteSourcePlatformRequest (t_platformIndex t) (t_platformName t) (t_forceName t)
       (first_some (t_sourceExportId t) (t_exportId t))"

definition transfer_completed :: "string \<Rightarrow> nat \<Rightarrow> rat \<Rightarrow> plugin \<Rightarrow> plugin" where
  "transfer_completed tid r cleanupMs w =
     (let w1 = upd_transfer r (\<lambda>t. t\<lparr>t_status := Completed, t_completedAt := Some (clock w)\<rparr>) w;
          t = transfer_at w1 r; durationMs = clock w - t_startedAt t
      in updateTransfer r (logTransactionEvent tid ''transfer_completed''
           (''Completed in '' @ show_int (math_round (of_int durationMs / 1000)) @ ''s'')
           [(''durationMs'', js_int durationMs), (''cleanupMs'', JNum (Fin cleanupMs)),
            (''phases'', JObj (map (\<lambda>(k, d). (k, JNum (Fin d))) (buildPhaseSummary t)))] w1))"

definition drop_stored_export :: "nat \<Rightarrow> plugin \<Rightarrow> plugin" where
  "drop_stored_export r w =
     (case ostr_truthy (t_exportId (transfer_at w r)) of
        None \<Rightarrow> w | Some e \<Rightarrow> w\<lparr>platformStorage := jm_delete (platformStorage w) e\<rparr>)"

definition deleting_text :: string where
  "deleting_text = ''Validation passed '' @ check_mark @ '' '' @ em_dash @ '' deleting source...''"

definition complete_text :: string where
  "complete_text = ''Transfer complete! '' @ check_mark"

definition cleanup_text :: "jsval \<Rightarrow> string" where
  "cleanup_text err = warning_sign @ '' Cleanup failed: '' @ js_text err"

text \<open>Returns whether the source is resolved.\<close>

definition delete_answered :: "string \<Rightarrow> nat \<Rightarrow> jsval \<Rightarrow> bool handler" where
  "delete_answered tid r response =
     act_bind (act_sync (endPhase tid ''cleanup'')) (\<lambda>cleanupMs.
     act_bind (read_prop response ''success'') (\<lambda>success.
       if truthy success then
         act_then (act_do (transfer_completed tid r cleanupMs))
         (act_then (broadcastTransferStatus r complete_text (Some ''green''))
         (act_then (persistTransactionLog tid)
         (act_then (act_do (drop_stored_export r))
         (act_then persistStorage
         (act_then (act_do (\<lambda>w. queueTreeBroadcast (str_or (t_forceName (transfer_at w r)) ''player'') w))
           (act_return True))))))
       else
         act_then (act_do (\<lambda>w. updateTransfer r (upd_transfer r
             (\<lambda>t. t\<lparr>t_status := CleanupFailed, t_error := str_field response ''error''\<rparr>) w)))
         (act_then (broadcastTransferStatus r (cleanup_text (prop_get response ''error'')) (Some ''yellow''))
           (act_return False))))"

definition handleValidationSuccess :: "string \<Rightarrow> nat \<Rightarrow> bool handler" where
  "handleValidationSuccess tid r =
     act_then (act_do (startPhase tid ''cleanup''))
     (act_then (broadcastTransferStatus r deleting_text (Some ''green''))
     (act_get (\<lambda>w. let t = transfer_at w r in
        act_bind (send_to (t_sourceInstanceId t) (delete_message t)) (delete_answered tid r))))"

definition cleanup_error_of :: "jsval \<Rightarrow> string option" where
  "cleanup_error_of v =
     (if truthy (prop_get v ''cleanup_failed'')
      then Some (js_text (val_or (prop_get v ''cleanup_error'') (JStr ''destination discard failed'')))
      else None)"

definition mismatch_text :: "jsval \<Rightarrow> string" where
  "mismatch_text v = ostr_or (str_field v ''mismatchDetails'') ''Unknown error''"

definition transfer_failed :: "string \<Rightarrow> nat \<Rightarrow> jsval \<Rightarrow> string option \<Rightarrow> plugin \<Rightarrow> plugin" where
  "transfer_failed tid r v rollbackError w =
     (let cleanupError = cleanup_error_of v;
          w1 = upd_transfer r (\<lambda>t. t\<lparr>
             t_status := (if ostr_truthy cleanupError \<noteq> None then CleanupFailed else Failed),
             t_error := Some (join_truthy ''; '' [Some (mismatch_text v), rollbackError, cleanupError]),
             t_completedAt := Some (clock w)\<rparr>) w;
          t = transfer_at w1 r; durationMs = clock w - t_startedAt t
      in updateTransfer r (logTransactionEvent tid ''transfer_failed''
           (''Failed after '' @ show_int (math_round (of_int durationMs / 1000)) @ ''s'')
           [(''durationMs'', js_int durationMs), (''error'', val_of_str (t_error t)),
            (''destinationCleanupError'', val_of_str cleanupError)] w1))"

definition failed_text :: "jsval \<Rightarrow> string" where
  "failed_text v = ''Validation failed: '' @ mismatch_text v"

definition rolling_back_text :: string where
  "rolling_back_text = ''Validation failed '' @ ballot_x @ '' '' @ em_dash @ '' rolling back...''"

definition rolled_back_text :: "jsval \<Rightarrow> string option \<Rightarrow> string" where
  "rolled_back_text v rollbackError =
     (case rollbackError of
        Some e \<Rightarrow> warning_sign @ '' Rollback failed: '' @ e
      | None \<Rightarrow> ''Rolled back. Error: '' @ mismatch_text v)"

definition handleValidationFailure :: "string \<Rightarrow> nat \<Rightarrow> jsval \<Rightarrow> bool handler" where
  "handleValidationFailure tid r v =
     act_then (act_do (logTransactionEvent tid ''validation_failed'' (failed_text v)
                 [(''validation'', v)]))
     (act_then (broadcastTransferStatus r rolling_back_text (Some ''red''))
     (act_bind (tryUnlockSource tid r) (\<lambda>rollbackError.
        act_then (broadcastTransferStatus r (rolled_back_text v rollbackError) (Some ''red''))
        (act_then (act_do (transfer_failed tid r v rollbackError))
        (act_then (persistTransactionLog tid)
          (act_return (rollbackError = None)))))))"

definition newest_transfer :: "string \<times> active_transfer \<Rightarrow> string \<times> active_transfer \<Rightarrow> bool" where
  "newest_transfer a b = (t_startedAt (snd b) - t_startedAt (snd a) \<le> 0)"

definition table_entries :: "plugin \<Rightarrow> (string \<times> active_transfer) list" where
  "table_entries w = map (\<lambda>(k, r). (k, transfer_at w r)) (activeTransfers w)"

definition pruneOldTransfers :: "plugin \<Rightarrow> plugin" where
  "pruneOldTransfers w =
     (if length (activeTransfers w) \<le> 100 then w
      else w\<lparr>activeTransfers := foldl jm_delete (activeTransfers w)
               (map fst (drop 100 (sort_by newest_transfer (table_entries w))))\<rparr>)"

definition clear_timeout :: "nat \<Rightarrow> plugin \<Rightarrow> plugin" where
  "clear_timeout r w =
     (case t_validationTimeout (transfer_at w r) of
        None \<Rightarrow> w
      | Some h \<Rightarrow> upd_transfer r (\<lambda>t. t\<lparr>t_validationTimeout := None\<rparr>)
          (w\<lparr>timers := filter (\<lambda>e. fst e \<noteq> h) (timers w)\<rparr>))"

definition adopt_verdict :: "nat \<Rightarrow> verdict \<Rightarrow> plugin \<Rightarrow> plugin" where
  "adopt_verdict r ev w =
     (let importMetrics = buildImportMetrics (ve_metrics ev) None in
      clear_timeout r (upd_transfer r (\<lambda>t. t\<lparr>
        t_importMetrics := (if truthy importMetrics then importMetrics else t_importMetrics t),
        t_validationResult := val_or (ve_validation ev) JNull,
        t_failedStage := str_field (ve_validation ev) ''failedStage''\<rparr>) w))"

definition log_verdict :: "verdict \<Rightarrow> plugin \<Rightarrow> plugin" where
  "log_verdict ev w =
     (let (validationMs, w1) = endPhase (ve_transferId ev) ''validation'' w
      in logTransactionEvent (ve_transferId ev) ''validation_received''
           (''Validation: '' @ (if ve_success ev then ''SUCCESS'' else ''FAILED''))
           [(''success'', JBool (ve_success ev)), (''validation'', ve_validation ev),
            (''validationMs'', JNum (Fin validationMs)),
            (''importMetrics'', buildImportMetrics (ve_metrics ev) None)] w1)"

definition settle :: "nat \<Rightarrow> verdict \<Rightarrow> unit handler" where
  "settle r ev =
     act_try
       (act_bind
          (if ve_success ev then handleValidationSuccess (ve_transferId ev) r
           else handleValidationFailure (ve_transferId ev) r (ve_validation ev))
          (\<lambda>sourceResolved. act_do (\<lambda>w.
             pruneOldTransfers (if sourceResolved then removePendingTransfer (ve_transferId ev) w else w))))
       (\<lambda>err. act_then
          (act_do (\<lambda>w. updateTransfer r (upd_transfer r
             (\<lambda>t. t\<lparr>t_status := Errored, t_error := Some (getErrorMessage err)\<rparr>) w)))
          (broadcastTransferStatus r (''Error: '' @ getErrorMessage err) (Some ''red'')))"

definition handleTransferValidation :: "verdict \<Rightarrow> unit handler" where
  "handleTransferValidation ev =
     act_get (\<lambda>w.
       case jm_get (activeTransfers w) (ve_transferId ev) of
         Some r \<Rightarrow>
           if t_status (transfer_at w r) \<noteq> AwaitingValidation then late_verdict r ev
           else act_then (act_do (\<lambda>w. adopt_verdict r ev (log_verdict ev w))) (settle r ev)
       | None \<Rightarrow> act_do (log_verdict ev))"

definition timeout_verdict :: "string \<Rightarrow> int \<Rightarrow> active_transfer \<Rightarrow> verdict" where
  "timeout_verdict tid timeoutMs t =
     \<lparr>ve_transferId = tid, ve_platformName = t_platformName t, ve_sourceInstanceId = t_sourceInstanceId t,
      ve_success = False,
      ve_validation = JObj [(''itemCountMatch'', JBool False), (''fluidCountMatch'', JBool False),
        (''mismatchDetails'', JStr (''Validation timeout - no response received within ''
            @ seconds_text timeoutMs @ ''s''))],
      ve_metrics = JUndef\<rparr>"

text \<open>The callback of the timer; the timer itself is gone once it fires.\<close>

definition validationTimeoutFired :: "nat \<Rightarrow> int \<Rightarrow> string \<Rightarrow> unit handler" where
  "validationTimeoutFired h timeoutMs tid =
     act_then (act_do (\<lambda>w. w\<lparr>timers := filter (\<lambda>e. fst e \<noteq> h) (timers w)\<rparr>))
       (act_get (\<lambda>w.
          case find_transfer w tid of
            None \<Rightarrow> act_return ()
          | Some t \<Rightarrow>
              if t_status t \<noteq> AwaitingValidation then act_return ()
              else act_then (act_do (logTransactionEvent tid ''validation_timeout''
                    (''No validation response within '' @ seconds_text timeoutMs @ ''s ''
                     @ ''(setting: surface_export.transfer_validation_timeout_seconds)'')
                    [(''timeoutMs'', js_int timeoutMs)]))
                (handleTransferValidation (timeout_verdict tid timeoutMs t))))"

section \<open>Requests\<close>

text \<open>
  \<open>waitForStoredExport\<close>: one poll per unit of fuel. A wait of 100 ms advances the clock, so as
  many polls as the timeout has milliseconds never run out.
\<close>

fun poll_stored :: "nat \<Rightarrow> int \<Rightarrow> string \<Rightarrow> stored_export handler" where
  "poll_stored 0 deadline exportId =
     act_throw (ErrorObject (''Timed out waiting for export '' @ exportId @ '' to be stored on controller'') None)"
| "poll_stored (Suc n) deadline exportId =
     act_get (\<lambda>w.
       if clock w < deadline then
         (case jm_get (platformStorage w) exportId of
            Some x \<Rightarrow> act_return x
          | None \<Rightarrow> act_bind (await_value (Delay 100)) (\<lambda>_. poll_stored n deadline exportId))
       else act_throw (ErrorObject (''Timed out waiting for export '' @ exportId
              @ '' to be stored on controller'') None))"

definition waitForStoredExport :: "string \<Rightarrow> int \<Rightarrow> stored_export handler" where
  "waitForStoredExport exportId timeoutMs =
     act_get (\<lambda>w. poll_stored (nat timeoutMs + 1) (clock w + timeoutMs) exportId)"

record start_request =
  q_sourceInstanceId :: jsval
  q_sourcePlatformIndex :: jsval
  q_targetInstanceId :: jsval
  q_forceName :: "string option"
  q_targetPlanet :: "string option"

record start_result =
  sr_result :: transfer_result
  sr_exportId :: "string option"
  sr_sourceExportId :: "string option"

definition plain :: "transfer_result \<Rightarrow> start_result" where
  "plain r = \<lparr>sr_result = r, sr_exportId = None, sr_sourceExportId = None\<rparr>"

definition prep_metrics :: "int \<Rightarrow> int \<Rightarrow> jsval" where
  "prep_metrics exportRequestMs waitForStoredMs =
     JObj [(''requestExportAndLockMs'', js_int exportRequestMs),
           (''waitForControllerStoreMs'', js_int waitForStoredMs),
           (''controllerExportPrepTotalMs'', js_int (exportRequestMs + waitForStoredMs))]"

text \<open>After the export: a transfer refused before it started releases the source.\<close>

definition after_transfer ::
    "int \<Rightarrow> int \<Rightarrow> string \<Rightarrow> string \<Rightarrow> string \<Rightarrow> transfer_result \<Rightarrow> start_result handler" where
  "after_transfer source index forceName cid job result =
     (if \<not> r_success result \<and> r_safeToUnlockSource result then
        act_bind (sendUnlockRequest source index forceName None) (\<lambda>rollbackError.
          act_return (case rollbackError of
              None \<Rightarrow> \<lparr>sr_result = result, sr_exportId = Some cid, sr_sourceExportId = Some job\<rparr>
            | Some e \<Rightarrow> \<lparr>sr_result = result\<lparr>r_error := Some (nullish (r_error result) ''undefined''
                                          @ ''; rollback failed: '' @ e)\<rparr>,
                         sr_exportId = Some cid, sr_sourceExportId = Some job\<rparr>))
      else act_return \<lparr>sr_result = result, sr_exportId = Some cid, sr_sourceExportId = Some job\<rparr>)"

definition export_then_transfer ::
    "int \<Rightarrow> int \<Rightarrow> string \<Rightarrow> int \<Rightarrow> string option \<Rightarrow> start_result handler" where
  "export_then_transfer source index forceName target targetPlanet =
     act_get (\<lambda>w0. let t0 = clock w0 in
       act_bind (send_to source (ExportPlatformRequest index forceName (Some target))) (\<lambda>response.
       act_get (\<lambda>w1. let exportRequestMs = clock w1 - t0; job = ostr_or (str_field response ''exportId'') [] in
         if \<not> truthy (prop_get response ''success'') \<or> job = []
         then act_return (plain (failure (ostr_or (str_field response ''error'') ''Export failed'')))
         else
           case make_canonical_transfer_id (num_of_int source) job of
             Inl e \<Rightarrow> act_throw (ErrorObject (id_error_text e) None)
           | Inr cid \<Rightarrow>
               act_bind (waitForStoredExport cid 10000) (\<lambda>_.
               act_get (\<lambda>w2.
                 act_bind (transferPlatform cid target
                     (prep_metrics exportRequestMs (clock w2 - clock w1)) (Some t0) targetPlanet)
                   (after_transfer source index forceName cid job))))))"

definition handleStartPlatformTransferRequest :: "start_request \<Rightarrow> start_result handler" where
  "handleStartPlatformTransferRequest q =
     act_get (\<lambda>w.
       let sn = to_number (q_sourceInstanceId q); forceName = ostr_or (q_forceName q) ''player'' in
       if \<not> is_integer sn
       then act_return (plain (failure (''Invalid source instance: '' @ js_text (q_sourceInstanceId q))))
       else
         let source = int_of_num sn in
         if (case jm_get (instances w) source of None \<Rightarrow> True | Some i \<Rightarrow> n_isDeleted i)
         then act_return (plain (failure (''Unknown source instance '' @ show_int source)))
         else
           case resolveTargetInstance w (q_targetInstanceId q) of
             None \<Rightarrow> act_return (plain (failure (''Unknown target instance '' @ js_text (q_targetInstanceId q))))
           | Some (target, inst) \<Rightarrow>
               if target = source
               then act_return (plain (failure ''Source and destination instances must be different''))
               else
                 let pn = to_number (q_sourcePlatformIndex q) in
                 if \<not> is_integer pn \<or> int_of_num pn < 1
                 then act_return (plain (failure (''Invalid platform index '' @ js_text (q_sourcePlatformIndex q))))
                 else if \<not> isInstanceOnline w target
                 then act_return (plain (failure (offline_text w target
                        (''Nothing was locked or exported; retry when the '' @ ''destination is running.''))))
                 else act_try
                   (export_then_transfer source (int_of_num pn) forceName target (q_targetPlanet q))
                   (\<lambda>err. act_bind (sendUnlockRequest source (int_of_num pn) forceName None) (\<lambda>rollbackError.
                      act_return (plain (failure (getErrorMessage err @
                        (case rollbackError of None \<Rightarrow> [] | Some e \<Rightarrow> ''; rollback failed: '' @ e)))))))"

record transfer_request =
  tq_exportId :: string
  tq_targetInstanceId :: jsval
  tq_sourceInstanceId :: "int option"
  tq_sourceExportId :: "string option"

text \<open>The stored id the request means; building the canonical one may throw.\<close>

definition fallback_export_id :: "transfer_request \<Rightarrow> thrown + string" where
  "fallback_export_id q =
     (case (oint_truthy (tq_sourceInstanceId q), ostr_truthy (tq_sourceExportId q)) of
        (Some i, Some job) \<Rightarrow>
          (case make_canonical_transfer_id (num_of_int i) job of
             Inl e \<Rightarrow> Inl (ErrorObject (id_error_text e) None) | Inr cid \<Rightarrow> Inr cid)
      | _ \<Rightarrow> Inr (tq_exportId q))"

definition release_stored :: "stored_export option \<Rightarrow> unit handler" where
  "release_stored stored =
     (case stored of
        None \<Rightarrow> act_return ()
      | Some x \<Rightarrow>
          (case x_platformIndex x of
             JNum n \<Rightarrow>
               if is_integer n then
                 act_bind (sendUnlockRequest (int_of_num (x_instanceId x)) (int_of_num n)
                     (js_text (val_or (prop_get (prop_get (x_exportData x) ''platform'') ''force'') (JStr ''player''))) None)
                   (\<lambda>_. act_return ())
               else act_return ()
           | _ \<Rightarrow> act_return ()))"

definition handleTransferPlatformRequest :: "transfer_request \<Rightarrow> transfer_result handler" where
  "handleTransferPlatformRequest q =
     act_get (\<lambda>w.
       case resolveTargetInstance w (tq_targetInstanceId q) of
         None \<Rightarrow> act_return (refused (''Unknown instance '' @ js_text (tq_targetInstanceId q)))
       | Some (target, inst) \<Rightarrow>
           act_try
             (act_get (\<lambda>w.
                case (if jm_has (platformStorage w) (tq_exportId q) then Inr (tq_exportId q)
                      else fallback_export_id q) of
                  Inl e \<Rightarrow> act_throw e
                | Inr eid \<Rightarrow> transferPlatform eid target JNull None None))
             (\<lambda>err.
                case fallback_export_id q of
                  Inl e \<Rightarrow> act_throw e
                | Inr fallback \<Rightarrow> act_get (\<lambda>w. act_then
                    (release_stored (first_some (jm_get (platformStorage w) (tq_exportId q))
                       (jm_get (platformStorage w) fallback)))
                    (act_return (failure (getErrorMessage err))))))"

end
