(* ===== verification/Guarantees.thy ===== *)
theory Guarantees
  imports Orchestrator
begin

text \<open>
  What each operation of the orchestrator guarantees at every interleaving, by a single relation
  \<open>evolves F P\<close>: transfers are only added, a function \<open>F\<close> of a transfer never changes, the
  references of the table stay valid, and every effect added to the trace satisfies \<open>P\<close>. It instantiates the contract \<open>guarantee\<close>, so the
  structural rules of that locale carry it through a whole handler.
\<close>

section \<open>The relation\<close>

definition refs_valid :: "plugin \<Rightarrow> bool" where
  "refs_valid w = (\<forall>(k, r)\<in>set (activeTransfers w). r < length (heap w))"

definition evolves :: "(active_transfer \<Rightarrow> 'x) \<Rightarrow> (effect \<Rightarrow> bool) \<Rightarrow> plugin \<Rightarrow> plugin \<Rightarrow> bool" where
  "evolves F P w w' \<longleftrightarrow>
     length (heap w) \<le> length (heap w')
     \<and> (\<forall>r<length (heap w). F (heap w' ! r) = F (heap w ! r))
     \<and> (refs_valid w \<longrightarrow> refs_valid w')
     \<and> (\<exists>ext. trace w' = trace w @ ext \<and> (\<forall>e\<in>set ext. P e))"

lemma evolves_refl [simp, intro]: "evolves F P w w"
  by (simp add: evolves_def)

lemma evolves_trans:
  assumes "evolves F P w1 w2" "evolves F P w2 w3"
  shows "evolves F P w1 w3"
proof -
  from assms obtain e1 e2 where "trace w2 = trace w1 @ e1" "\<forall>e\<in>set e1. P e"
    "trace w3 = trace w2 @ e2" "\<forall>e\<in>set e2. P e"
    by (auto simp: evolves_def)
  then have "\<exists>ext. trace w3 = trace w1 @ ext \<and> (\<forall>e\<in>set ext. P e)"
    by (intro exI [of _ "e1 @ e2"]) auto
  with assms show ?thesis by (auto simp: evolves_def)
qed

interpretation evolving: guarantee "evolves F P" for F :: "active_transfer \<Rightarrow> 'x" and P
  by unfold_locales (auto intro: evolves_trans)

lemma evolves_mono: "evolves F P w w' \<Longrightarrow> (\<And>e. P e \<Longrightarrow> Q e) \<Longrightarrow> evolves F Q w w'"
  unfolding evolves_def by blast

section \<open>Synchronous operations\<close>

text \<open>
  The effects and the fields of a transfer that the predicates of interest do not look at: log
  lines, pushed updates, metrics, tree broadcasts and background writes are allowed, and \<open>F\<close>
  ignores the bookkeeping of metrics and phases.
\<close>

definition allows_silent :: "(effect \<Rightarrow> bool) \<Rightarrow> bool" where
  "allows_silent P = (\<forall>e. \<not> is_request e \<longrightarrow> P e)"

definition ignores_bookkeeping :: "(active_transfer \<Rightarrow> 'x) \<Rightarrow> bool" where
  "ignores_bookkeeping F =
     (\<forall>t b ps h ms. F (t\<lparr>t_metricsRecorded := b\<rparr>) = F t \<and> F (t\<lparr>t_phases := ps\<rparr>) = F t
        \<and> F (t\<lparr>t_validationTimeout := h\<rparr>) = F t \<and> F (t\<lparr>t_armedValidationTimeoutMs := ms\<rparr>) = F t)"

lemma evolves_same:
  "evolves F P w w0 \<Longrightarrow> heap w' = heap w0 \<Longrightarrow> trace w' = trace w0 \<Longrightarrow>
    activeTransfers w' = activeTransfers w0 \<Longrightarrow> evolves F P w w'"
  by (simp add: evolves_def refs_valid_def)

lemma evolves_plain:
  "heap w' = heap w \<Longrightarrow> trace w' = trace w \<Longrightarrow> activeTransfers w' = activeTransfers w \<Longrightarrow> evolves F P w w'"
  by (simp add: evolves_def refs_valid_def)

lemma evolves_emit: "evolves F P w w0 \<Longrightarrow> P e \<Longrightarrow> evolves F P w (emit_effect e w0)"
proof (erule evolves_trans)
  assume "P e"
  then show "evolves F P w0 (emit_effect e w0)"
    by (auto simp: evolves_def refs_valid_def)
qed

lemma evolves_upd:
  assumes "evolves F P w w0" and "\<And>t. F (f t) = F t"
  shows "evolves F P w (upd_transfer r f w0)"
proof (rule evolves_trans [OF assms(1)])
  show "evolves F P w0 (upd_transfer r f w0)"
    using assms(2) by (cases "r < length (heap w0)") (auto simp: evolves_def refs_valid_def upd_transfer_def nth_list_update)
qed

locale observed =
  fixes F :: "active_transfer \<Rightarrow> 'x" and P :: "effect \<Rightarrow> bool"
  assumes silent: "allows_silent P" and bookkeeping: "ignores_bookkeeping F"
begin

lemma silent_effects [simp]:
  "P (EventLogged a b c)" "P (Pushed l ev)" "P (TreeBroadcastQueued f)" "P (BackgroundWrite d)"
  "P (CounterInc n ls q)" "P (HistogramObserve n ls q)"
  using silent by (simp_all add: allows_silent_def)

lemma F_bookkeeping [simp]:
  "F (t\<lparr>t_metricsRecorded := b\<rparr>) = F t" "F (t\<lparr>t_phases := ps\<rparr>) = F t"
  "F (t\<lparr>t_validationTimeout := h\<rparr>) = F t" "F (t\<lparr>t_armedValidationTimeoutMs := ms\<rparr>) = F t"
  using bookkeeping by (simp_all add: ignores_bookkeeping_def)

lemma fold_emit:
  "evolves F P w w0 \<Longrightarrow> (\<And>e. e \<in> set es \<Longrightarrow> P e) \<Longrightarrow> evolves F P w (foldl (\<lambda>w e. emit_effect e w) w0 es)"
  by (induction es arbitrary: w0) (auto intro: evolves_emit)

lemma recordOperationOutcome:
  assumes "evolves F P w w0"
  shows "evolves F P w (recordOperationOutcome r w0)"
proof -
  have "P e" if "e \<in> set (outcome_effects now t res)" for e now t res
    using outcome_effects_not_requests [OF that] silent by (simp add: allows_silent_def)
  then show ?thesis
    using assms
    by (auto simp: recordOperationOutcome_def Let_def intro!: fold_emit evolves_upd split: option.split)
qed

lemma broadcastToSubscribers:
  assumes "evolves F P w w0"
  shows "evolves F P w (broadcastToSubscribers Q ev w0)"
proof (rule evolves_trans [OF assms])
  show "evolves F P w0 (broadcastToSubscribers Q ev w0)"
    by (auto simp: evolves_def refs_valid_def broadcastToSubscribers_def Let_def)
qed

lemma queueTreeBroadcast: "evolves F P w w0 \<Longrightarrow> evolves F P w (queueTreeBroadcast f w0)"
  unfolding queueTreeBroadcast_def Let_def
  by (rule evolves_emit) (auto elim: evolves_same)

lemma emitTransferUpdate: "evolves F P w w0 \<Longrightarrow> evolves F P w (emitTransferUpdate r w0)"
  unfolding emitTransferUpdate_def Let_def
  by (rule broadcastToSubscribers, rule evolves_same, rule recordOperationOutcome) simp_all

lemma emitLogUpdate: "evolves F P w w0 \<Longrightarrow> evolves F P w (emitLogUpdate tid ev w0)"
  unfolding emitLogUpdate_def Let_def case_prod_beta
  by (rule broadcastToSubscribers, erule evolves_same) simp_all

lemma logTransactionEvent: "evolves F P w w0 \<Longrightarrow> evolves F P w (logTransactionEvent tid a b c w0)"
  unfolding logTransactionEvent_def Let_def
  by (rule emitLogUpdate, rule evolves_emit, erule evolves_same) simp_all

lemma updateTransfer: "evolves F P w w0 \<Longrightarrow> evolves F P w (updateTransfer r w0)"
  unfolding updateTransfer_def Let_def by (intro queueTreeBroadcast emitTransferUpdate)

lemma startPhase: "evolves F P w w0 \<Longrightarrow> evolves F P w (startPhase tid ph w0)"
  by (auto simp: startPhase_def intro!: evolves_upd split: option.split)

lemma endPhase: "evolves F P w w0 \<Longrightarrow> evolves F P w (snd (endPhase tid ph w0))"
  by (auto simp: endPhase_def Let_def intro!: evolves_upd split: option.split)

lemma scheduleValidationTimeout:
  assumes "evolves F P w w0"
  shows "evolves F P w (scheduleValidationTimeout tid w0)"
proof (cases "jm_get (activeTransfers w0) tid")
  case (Some r)
  have "evolves F P w (upd_transfer r (\<lambda>t. t\<lparr>t_armedValidationTimeoutMs := a, t_validationTimeout := b\<rparr>) w0)" for a b
    using assms by (rule evolves_upd) simp
  then show ?thesis
    unfolding scheduleValidationTimeout_def Some option.case Let_def by (rule evolves_same) simp_all
qed (use assms in \<open>simp add: scheduleValidationTimeout_def\<close>)

lemma prunePending: "evolves F P w w0 \<Longrightarrow> evolves F P w (snd (prunePendingTransfersInMemory w0))"
  by (auto simp: prunePendingTransfersInMemory_def Let_def elim: evolves_same)

lemma persistPendingTransfer: "evolves F P w w0 \<Longrightarrow> evolves F P w (persistPendingTransfer i w0)"
  unfolding persistPendingTransfer_def Let_def
  by (rule evolves_emit, rule evolves_same, erule prunePending) simp_all

lemma removePendingTransfer: "evolves F P w w0 \<Longrightarrow> evolves F P w (removePendingTransfer tid w0)"
  by (auto simp: removePendingTransfer_def Let_def intro!: evolves_emit elim: evolves_same)

lemma note_audit_row: "evolves F P w w0 \<Longrightarrow> evolves F P w (note_audit_row row w0)"
  by (auto simp: note_audit_row_def elim: evolves_same)

lemma pruneTransactionLogsMap: "evolves F P w w0 \<Longrightarrow> evolves F P w (pruneTransactionLogsMap rs w0)"
  by (auto simp: pruneTransactionLogsMap_def Let_def elim: evolves_same)

lemma pruneOldTransfers:
  assumes "evolves F P w w0"
  shows "evolves F P w (pruneOldTransfers w0)"
proof (rule evolves_trans [OF assms])
  have "set (foldl jm_delete m ks) \<subseteq> set m" for m :: "(string, nat) jsmap" and ks
    by (auto simp: foldl_delete_filter)
  then show "evolves F P w0 (pruneOldTransfers w0)"
    by (auto simp: evolves_def refs_valid_def pruneOldTransfers_def, fastforce)
qed

lemma forget_events: "evolves F P w w0 \<Longrightarrow> evolves F P w (forget_events tid w0)"
  by (auto simp: forget_events_def elim: evolves_same)

lemma drop_stored_export: "evolves F P w w0 \<Longrightarrow> evolves F P w (drop_stored_export r w0)"
  by (auto simp: drop_stored_export_def elim: evolves_same split: option.split)

lemma evict_oldest: "evolves F P w w0 \<Longrightarrow> evolves F P w (evict_oldest n w0)"
  by (auto simp: evict_oldest_def elim: evolves_same)

lemma clear_timeout:
  assumes "evolves F P w w0"
  shows "evolves F P w (clear_timeout r w0)"
proof (cases "t_validationTimeout (transfer_at w0 r)")
  case (Some h)
  have "evolves F P w (w0\<lparr>timers := filter (\<lambda>e. fst e \<noteq> h) (timers w0)\<rparr>)"
    using assms by (rule evolves_same) simp_all
  with Some show ?thesis by (auto simp: clear_timeout_def intro!: evolves_upd)
qed (use assms in \<open>simp add: clear_timeout_def\<close>)

lemma log_verdict: "evolves F P w w0 \<Longrightarrow> evolves F P w (log_verdict ev w0)"
  unfolding log_verdict_def Let_def case_prod_beta by (intro logTransactionEvent endPhase)

lemma add_transfer:
  assumes "evolves F P w w0"
  shows "evolves F P w (add_transfer tid t w0)"
proof (rule evolves_trans [OF assms])
  show "evolves F P w0 (add_transfer tid t w0)"
    using set_jm_set_subset [of "activeTransfers w0" tid "length (heap w0)"]
    by (auto simp: evolves_def refs_valid_def add_transfer_def nth_append) fastforce
qed

lemmas sync = recordOperationOutcome broadcastToSubscribers queueTreeBroadcast emitTransferUpdate
  emitLogUpdate logTransactionEvent updateTransfer startPhase endPhase scheduleValidationTimeout
  persistPendingTransfer removePendingTransfer note_audit_row pruneTransactionLogsMap pruneOldTransfers
  forget_events drop_stored_export evict_oldest clear_timeout log_verdict add_transfer

section \<open>Asynchronous operations\<close>

lemma act_do: "(\<And>w. evolves F P w (u w)) \<Longrightarrow> guar_act (evolves F P) (act_do u)"
  by (rule evolving.guar_do)

lemma request_act: "P (Requested q) \<Longrightarrow> guar_act (evolves F P) (request_act q)"
  unfolding request_act_def
  by (intro evolving.guar_then evolving.guar_await act_do evolves_emit) auto

lemma await_value: "P (Requested q) \<Longrightarrow> guar_act (evolves F P) (await_value q)"
  unfolding await_value_def
  by (intro evolving.guar_bind request_act) (auto split: answer.split
      intro: evolving.guar_return evolving.guar_throw)

lemma send_to: "P (Requested (SendTo i m)) \<Longrightarrow> guar_act (evolves F P) (send_to i m)"
  unfolding send_to_def by (rule await_value)

lemma read_prop: "guar_act (evolves F P) (read_prop v k)"
  by (simp add: read_prop_def evolving.guar_throw evolving.guar_return)

lemma recordAuditRow:
  assumes "P (Requested (AppendAuditRow row))"
  shows "guar_act (evolves F P) (recordAuditRow row)"
  unfolding recordAuditRow_def
  by (intro evolving.guar_try evolving.guar_bind await_value act_do note_audit_row evolving.guar_return
      evolves_refl) (rule assms)

lemma recordTransferStarted:
  assumes "\<And>row. P (Requested (AppendAuditRow row))"
  shows "guar_act (evolves F P) (recordTransferStarted r)"
  unfolding recordTransferStarted_def Let_def by (intro evolving.guar_get recordAuditRow assms)

lemma archiveRecycledTransferId:
  assumes "\<And>row. P (Requested (AppendAuditRow row))"
  shows "guar_act (evolves F P) (archiveRecycledTransferId tid st)"
  unfolding archiveRecycledTransferId_def Let_def
  by (intro evolving.structural act_do forget_events recordAuditRow assms evolves_refl)
    (rule evolves_plain, simp_all)

lemma persistTransactionLog:
  assumes "\<And>row. P (Requested (AppendAuditRow row))" "\<And>d. P (Requested (WriteDocument d))"
  shows "guar_act (evolves F P) (persistTransactionLog tid)"
proof -
  have set: "evolves F P w (w\<lparr>persistedTransactionLogs := rs\<rparr>)" for w rs
    by (rule evolves_same [OF evolves_refl]) simp_all
  show ?thesis
    unfolding persistTransactionLog_def Let_def
    by (intro evolving.structural)
      (auto split: option.split prod.split
        intro!: evolving.structural act_do pruneTransactionLogsMap set recordAuditRow await_value assms)
qed

lemma persistStorage:
  assumes "\<And>d. P (Requested (WriteDocument d))"
  shows "guar_act (evolves F P) (persistStorage)"
  unfolding persistStorage_def
  by (intro evolving.structural act_do await_value assms) (rule evolves_plain, simp_all)+

lemma broadcast_one:
  assumes "\<And>i a b c d. P (Requested (SendTo i (TransferStatusUpdate a b c d)))"
  shows "guar_act (evolves F P) (broadcast_one i (TransferStatusUpdate a b c d))"
  unfolding broadcast_one_def by (intro evolving.structural send_to assms)

lemma broadcastTransferStatus:
  assumes "\<And>i a b c d. P (Requested (SendTo i (TransferStatusUpdate a b c d)))"
  shows "guar_act (evolves F P) (broadcastTransferStatus r s c)"
  unfolding broadcastTransferStatus_def Let_def by (intro evolving.structural broadcast_one assms)

lemma sendUnlockRequest:
  assumes "\<And>i a b c. P (Requested (SendTo i (UnlockSourcePlatformRequest a b c)))"
  shows "guar_act (evolves F P) (sendUnlockRequest i idx f n)"
  unfolding sendUnlockRequest_def Let_def by (intro evolving.structural send_to assms)

lemma tryUnlockSource:
  assumes "\<And>i a b c. P (Requested (SendTo i (UnlockSourcePlatformRequest a b c)))"
  shows "guar_act (evolves F P) (tryUnlockSource tid r)"
  unfolding tryUnlockSource_def Let_def
  by (intro evolving.structural sendUnlockRequest act_do logTransactionEvent evolves_refl assms)

end

end
