(* ===== verification/Gateways.thy ===== *)
theory Gateways
  imports Instances Ids Orchestrator
begin

text \<open>
  Gateway links (shared/dto.ts, controller.ts): the two layouts of the cluster, the links an
  instance's gateways carry, saving a change and pushing it to the instance, and what the browser
  and the instances are told. A gateway is keyed by \<open>instance:name\<close>.
\<close>

section \<open>Modes and names\<close>

datatype gateway_mode = OneGate | Multi

fun gateway_mode_text :: "gateway_mode \<Rightarrow> string" where
  "gateway_mode_text OneGate = ''one_gate''"
| "gateway_mode_text Multi = ''multi''"

definition GATEWAY_PREFIX :: string where "GATEWAY_PREFIX = ''surfexp_gateway_''"

definition DEFAULT_GATEWAY_MODE :: gateway_mode where "DEFAULT_GATEWAY_MODE = OneGate"

definition MULTI_GATEWAY_NAMES :: "string list" where
  "MULTI_GATEWAY_NAMES = map (\<lambda>i. GATEWAY_PREFIX @ show_nat (i + 1)) [0..<4]"

definition ONE_GATE_NAME :: string where "ONE_GATE_NAME = GATEWAY_PREFIX @ ''hub''"

definition ONE_GATE_NAMES :: "string list" where "ONE_GATE_NAMES = [ONE_GATE_NAME]"

definition ALL_GATEWAY_NAMES :: "string list" where
  "ALL_GATEWAY_NAMES = MULTI_GATEWAY_NAMES @ ONE_GATE_NAMES"

definition gatewayNamesFor :: "gateway_mode \<Rightarrow> string list" where
  "gatewayNamesFor m = (if m = Multi then MULTI_GATEWAY_NAMES else ONE_GATE_NAMES)"

definition parseGatewayMode :: "jsval \<Rightarrow> gateway_mode \<times> string option" where
  "parseGatewayMode v =
     (if v = JStr ''one_gate'' then (OneGate, None)
      else if v = JStr ''multi'' then (Multi, None)
      else (DEFAULT_GATEWAY_MODE,
            Some (''Unknown gateway_mode '' @ (if v = JUndef then ''undefined'' else json_text v) @ '' '' @ em_dash
                  @ '' falling back to '' @ gateway_mode_text DEFAULT_GATEWAY_MODE)))"

text \<open>\<open>this.cfg(key)\<close>; an unregistered field throws.\<close>

definition with_config :: "string \<Rightarrow> (jsval \<Rightarrow> 'r handler) \<Rightarrow> 'r handler" where
  "with_config key k =
     act_get (\<lambda>w. case config w key of
        None \<Rightarrow> act_throw (ErrorObject (''No field named '' @ key) None) | Some v \<Rightarrow> k v)"

text \<open>The warning of an unknown mode only reaches the log.\<close>

definition gatewayMode :: "(gateway_mode \<Rightarrow> 'r handler) \<Rightarrow> 'r handler" where
  "gatewayMode k = with_config ''surface_export.gateway_mode'' (\<lambda>v. k (fst (parseGatewayMode v)))"

section \<open>The rule of the multi layout\<close>

definition links_to :: "int \<Rightarrow> gateway_link list \<Rightarrow> bool" where
  "links_to i links = list_ex (\<lambda>l. g_targetInstanceId l = i) links"

definition checkMultiModeLink ::
    "string \<Rightarrow> gateway_link list \<Rightarrow> (string, gateway_link list) jsmap \<Rightarrow> string option" where
  "checkMultiModeLink gatewayName targets others =
     (if 1 < length targets
      then Some (''In Multi Cluster mode each gateway carries one destination ('' @ gatewayName
                 @ '' was given '' @ show_nat (length targets) @ '').'')
      else case targets of
        [] \<Rightarrow> None
      | target # _ \<Rightarrow>
          (case List.find (\<lambda>(name, links). name \<noteq> gatewayName \<and> links_to (g_targetInstanceId target) links) others of
             None \<Rightarrow> None
           | Some (name, _) \<Rightarrow> Some (''In Multi Cluster mode each destination gets one gateway ('' @ name
                 @ '' already links to instance '' @ show_int (g_targetInstanceId target) @ '').'')))"

section \<open>Saving a change\<close>

record gateway_entry =
  ge_gatewayName :: "string option"
  ge_targets :: "(jsval \<times> string option) list"

record gateway_reply =
  gr_success :: bool
  gr_error :: "string option"

definition reply_error :: "string \<Rightarrow> gateway_reply" where
  "reply_error e = \<lparr>gr_success = False, gr_error = Some e\<rparr>"

definition normalize_targets :: "int \<Rightarrow> string \<Rightarrow> (jsval \<times> string option) list \<Rightarrow> gateway_link list" where
  "normalize_targets source gatewayName ts =
     map (\<lambda>(t, gate). \<lparr>g_targetInstanceId = int_of_num (to_number t), g_targetGateway = ostr_or gate gatewayName\<rparr>)
       (filter (\<lambda>(t, gate). is_integer (to_number t) \<and> int_of_num (to_number t) \<noteq> source) ts)"

fun normalize_entries ::
    "gateway_mode \<Rightarrow> int \<Rightarrow> (string, gateway_link list) jsmap \<Rightarrow> gateway_entry list
       \<Rightarrow> string + (string, gateway_link list) jsmap" where
  "normalize_entries mode source seen [] = Inr seen"
| "normalize_entries mode source seen (entry # rest) =
     (case ge_gatewayName entry of
        None \<Rightarrow> Inl (''Unknown gateway for '' @ gateway_mode_text mode @ '' mode: undefined'')
      | Some name \<Rightarrow>
          if name = [] \<or> name \<notin> set (gatewayNamesFor mode)
          then Inl (''Unknown gateway for '' @ gateway_mode_text mode @ '' mode: '' @ name)
          else if jm_has seen name
          then Inl (''Gateway '' @ [CHR 0x27] @ name @ [CHR 0x27] @ '' appears twice in one request'')
          else normalize_entries mode source
                 (jm_set seen name (normalize_targets source name (ge_targets entry))) rest)"

text \<open>The layout the instance would have: the submitted gateways over the stored ones.\<close>

definition next_links ::
    "plugin \<Rightarrow> int \<Rightarrow> (string, gateway_link list) jsmap \<Rightarrow> string \<Rightarrow> gateway_link list" where
  "next_links w source normalized name =
     nullish (if jm_has normalized name then jm_get normalized name
              else jm_get (gatewayLinks w) (gateway_key source name)) []"

definition proposed_links ::
    "plugin \<Rightarrow> int \<Rightarrow> (string, gateway_link list) jsmap \<Rightarrow> (string, gateway_link list) jsmap" where
  "proposed_links w source normalized =
     foldl (\<lambda>m name. if next_links w source normalized name = [] then m
                     else jm_set m name (next_links w source normalized name)) [] MULTI_GATEWAY_NAMES"

text \<open>The first violation among the submitted gateways.\<close>

fun first_violation ::
    "(string, gateway_link list) jsmap \<Rightarrow> (string, gateway_link list) jsmap \<Rightarrow> string option" where
  "first_violation proposed [] = None"
| "first_violation proposed ((name, targets) # rest) =
     (case checkMultiModeLink name targets (jm_delete proposed name) of
        Some e \<Rightarrow> Some e
      | None \<Rightarrow> first_violation proposed rest)"

definition store_link :: "int \<Rightarrow> (string, gateway_link list) jsmap \<Rightarrow> string \<times> gateway_link list
    \<Rightarrow> (string, gateway_link list) jsmap" where
  "store_link source m e =
     (if snd e \<noteq> [] then jm_set m (gateway_key source (fst e)) (snd e)
      else jm_delete m (gateway_key source (fst e)))"

definition persistGatewayConfig :: "string option handler" where
  "persistGatewayConfig =
     act_get (\<lambda>w. act_try
       (act_bind (await_value (WriteDocument (GatewayDoc (gatewayLinks w)))) (\<lambda>_. act_return None))
       (\<lambda>err. act_return (Some (getErrorMessage err))))"

definition resolve_target :: "plugin \<Rightarrow> gateway_link \<Rightarrow> resolved_target" where
  "resolve_target w link =
     \<lparr>rt_instanceId = g_targetInstanceId link,
      rt_instanceName = nullish (resolveInstanceName w (num_of_int (g_targetInstanceId link))) ''(unknown)'',
      rt_targetGateway = g_targetGateway link,
      rt_online = isInstanceOnline w (g_targetInstanceId link)\<rparr>"

definition resolveGateways :: "plugin \<Rightarrow> jsnum \<Rightarrow> resolved_gateway list" where
  "resolveGateways w source =
     concat (map (\<lambda>(key, links).
        case parse_gateway_key key of
          None \<Rightarrow> []
        | Some (i, name) \<Rightarrow>
            if num_eq (num_of_int i) source
            then [\<lparr>rg_gatewayName = name, rg_targets = map (resolve_target w) links\<rparr>] else [])
       (gatewayLinks w))"

definition pushGatewayConfigToInstance :: "int \<Rightarrow> string option handler" where
  "pushGatewayConfigToInstance source =
     act_get (\<lambda>w.
       if \<not> isInstanceOnline w source then act_return None
       else act_try
         (gatewayMode (\<lambda>mode. act_bind
            (send_to source (PushGatewayConfigRequest (resolveGateways w (num_of_int source)) (gatewayNamesFor mode)))
            (\<lambda>response.
               if truthy (prop_get response ''success'') then act_return None
               else act_return (Some (ostr_or (str_field response ''error'')
                      ''the instance rejected the gateway config'')))))
         (\<lambda>err. act_return (Some (getErrorMessage err))))"

definition save_links :: "int \<Rightarrow> (string, gateway_link list) jsmap \<Rightarrow> gateway_reply handler" where
  "save_links source normalized =
     act_then (act_do (\<lambda>w. w\<lparr>gatewayLinks := foldl (store_link source) (gatewayLinks w) normalized\<rparr>))
     (act_bind persistGatewayConfig (\<lambda>persistError.
        case persistError of
          Some e \<Rightarrow> act_return (reply_error (''Gateway config could not be written to disk: '' @ e))
        | None \<Rightarrow> act_bind (pushGatewayConfigToInstance source) (\<lambda>pushError.
            act_return \<lparr>gr_success = True,
              gr_error = map_option (\<lambda>e. ''Saved, but instance '' @ show_int source
                 @ '' is still running the previous gateway config: '' @ e) pushError\<rparr>)))"

definition handleSetGatewayLinkRequest :: "jsval \<Rightarrow> gateway_entry list \<Rightarrow> gateway_reply handler" where
  "handleSetGatewayLinkRequest sourceInstanceId submitted =
     gatewayMode (\<lambda>mode. act_get (\<lambda>w.
       if submitted = [] then act_return (reply_error ''No gateways in the request'')
       else
         case find_instance w (to_number sourceInstanceId) of
           None \<Rightarrow> act_return (reply_error (''Unknown source instance: '' @ js_text sourceInstanceId))
         | Some inst \<Rightarrow>
             let source = int_of_num (to_number sourceInstanceId) in
             if n_isDeleted inst
             then act_return (reply_error (''Unknown source instance: '' @ js_text sourceInstanceId))
             else case normalize_entries mode source [] submitted of
                 Inl e \<Rightarrow> act_return (reply_error e)
               | Inr normalized \<Rightarrow>
                   (case (if mode = Multi then first_violation (proposed_links w source normalized) normalized
                          else None) of
                      Some e \<Rightarrow> act_return (reply_error e)
                    | None \<Rightarrow> save_links source normalized)))"

section \<open>Reading the configuration\<close>

record gateway_listing =
  gl_gatewayMode :: gateway_mode
  gl_gatewayNames :: "string list"
  gl_links :: "(int \<times> string \<times> gateway_link list) list"

definition handleGetGatewaysRequest :: "gateway_listing handler" where
  "handleGetGatewaysRequest =
     gatewayMode (\<lambda>mode. act_get (\<lambda>w. act_return
       \<lparr>gl_gatewayMode = mode, gl_gatewayNames = gatewayNamesFor mode,
        gl_links = concat (map (\<lambda>(key, targets).
          case parse_gateway_key key of
            None \<Rightarrow> []
          | Some (i, name) \<Rightarrow> if name \<in> set (gatewayNamesFor mode) then [(i, name, targets)] else [])
          (gatewayLinks w))\<rparr>))"

definition handleGetGatewayConfigRequest :: "jsval \<Rightarrow> (resolved_gateway list \<times> string list) handler" where
  "handleGetGatewayConfigRequest instanceId =
     act_get (\<lambda>w. let gateways = resolveGateways w (to_number instanceId)
       in gatewayMode (\<lambda>mode. act_return (gateways, gatewayNamesFor mode)))"

record roster_instance =
  ro_instanceId :: int
  ro_name :: string
  ro_address :: string
  ro_online :: bool
  ro_self :: bool

definition roster_entry :: "plugin \<Rightarrow> jsnum \<Rightarrow> instance_rec \<Rightarrow> roster_instance" where
  "roster_entry w requester inst =
     \<lparr>ro_instanceId = n_id inst,
      ro_name = js_text (val_nullish (n_name inst) (js_int (n_id inst))),
      ro_address = instanceAddress
        (case find_host w (n_assignedHost inst) of None \<Rightarrow> None | Some h \<Rightarrow> h_publicAddress h) (n_gamePort inst),
      ro_online = isInstanceOnline w (n_id inst),
      ro_self = num_eq (num_of_int (n_id inst)) requester\<rparr>"

definition handleGetInstanceRosterRequest :: "plugin \<Rightarrow> jsval \<Rightarrow> roster_instance list" where
  "handleGetInstanceRosterRequest w instanceId =
     map (roster_entry w (to_number instanceId))
       (filter (\<lambda>inst. \<not> n_isDeleted inst) (jm_values (instances w)))"

section \<open>Loading\<close>

text \<open>
  An entry of the file is a key with its links, or \<open>None\<close> when it is not such a pair and skipped.
  A legacy key is a bare gateway name: its links go to every live instance, less the ones that
  lead back to it, or wait for a later start when no instance is known.
\<close>

definition live_instances :: "plugin \<Rightarrow> instance_rec list" where
  "live_instances w = filter (\<lambda>inst. \<not> n_isDeleted inst) (jm_values (instances w))"

definition migrate_to :: "string \<Rightarrow> gateway_link list \<Rightarrow> (string, gateway_link list) jsmap \<Rightarrow> instance_rec
    \<Rightarrow> (string, gateway_link list) jsmap" where
  "migrate_to name links m inst =
     (let own = filter (\<lambda>l. g_targetInstanceId l \<noteq> n_id inst) links
      in if own = [] then m else jm_set m (gateway_key (n_id inst) name) own)"

definition load_gateway_entry :: "instance_rec list \<Rightarrow> (string, gateway_link list) jsmap \<times> nat
    \<Rightarrow> (string \<times> gateway_link list) option \<Rightarrow> (string, gateway_link list) jsmap \<times> nat" where
  "load_gateway_entry live s entry =
     (case entry of
        None \<Rightarrow> s
      | Some (key, links) \<Rightarrow>
          (case parse_gateway_key key of
             Some (i, name) \<Rightarrow>
               if name \<notin> set ALL_GATEWAY_NAMES then s else (jm_set (fst s) key links, snd s)
           | None \<Rightarrow>
               if key \<notin> set ALL_GATEWAY_NAMES then s
               else if live = [] then (jm_set (fst s) key links, snd s)
               else (foldl (migrate_to key links) (fst s) live, snd s + 1)))"

definition loadGatewayConfig :: "(string \<times> gateway_link list) option list load_result \<Rightarrow> unit handler" where
  "loadGatewayConfig res =
     (case res of
        ParsedArray entries \<Rightarrow>
          act_get (\<lambda>w.
            let (links, migratedLegacy) = foldl (load_gateway_entry (live_instances w)) (gatewayLinks w, 0) entries
            in act_then (act_do (\<lambda>w. w\<lparr>gatewayLinks := links\<rparr>))
                 (if 0 < migratedLegacy then act_bind persistGatewayConfig (\<lambda>_. act_return ())
                  else act_return ()))
      | _ \<Rightarrow> act_return ())"

end
