(* ===== verification/Operations.thy ===== *)
theory Operations
  imports Orchestrator Gateways
begin

text \<open>
  The controller's own operations (controller.ts): the import of an uploaded export, the export for
  download, the completion an instance reports, the tree and log requests, the events of the
  cluster, the audit index at start-up, and the start of the plugin. Random ids are arguments.
\<close>

section \<open>Records of operations\<close>

text \<open>The record is created, an older log of its id archived, and its start noted.\<close>

definition begin_operation :: "string \<Rightarrow> operation_type \<Rightarrow> operation_options \<Rightarrow> nat handler" where
  "begin_operation generatedId ty options =
     act_get (\<lambda>w.
       case createOperationRecord (\<lambda>i. resolveInstanceName w (num_of_int i)) (clock w) generatedId ty options of
         Inl e \<Rightarrow> act_throw e
       | Inr operation \<Rightarrow>
           act_then (archiveRecycledTransferId (t_transferId operation) (Some (t_startedAt operation)))
             (act_bind (act_sync (\<lambda>w. (length (heap w), add_transfer (t_transferId operation) operation w))) (\<lambda>r.
                act_then (recordTransferStarted r) (act_return r))))"

definition mark_failed :: "nat \<Rightarrow> plugin \<Rightarrow> plugin" where
  "mark_failed r w = upd_transfer r (\<lambda>t. t\<lparr>t_status := Failed, t_error := Some (ostr_or (t_error t) []),
      t_failedAt := Some (clock w)\<rparr>) w"

definition failOperation :: "nat \<Rightarrow> string \<Rightarrow> string \<Rightarrow> (string \<times> jsval) list \<Rightarrow> unit handler" where
  "failOperation r eventType msg extra =
     act_get (\<lambda>w. let tid = t_transferId (transfer_at w r) in
       act_then (act_do (\<lambda>w. emitTransferUpdate r (logTransactionEvent tid eventType msg extra (mark_failed r w))))
       (act_then (persistTransactionLog tid)
         (act_do pruneOldTransfers)))"

section \<open>Importing an uploaded export\<close>

record upload_request =
  u_targetInstanceId :: jsval
  u_exportData :: jsval
  u_forceName :: "string option"
  u_platformName :: "string option"
  u_targetPlanet :: "string option"

record upload_reply =
  up_success :: bool
  up_error :: "string option"
  up_operationId :: "string option"
  up_platformName :: "string option"
  up_targetInstanceId :: "int option"

definition upload_refused :: "string \<Rightarrow> int option \<Rightarrow> upload_reply" where
  "upload_refused e target =
     \<lparr>up_success = False, up_error = Some e, up_operationId = None, up_platformName = None,
      up_targetInstanceId = target\<rparr>"

definition upload_data :: "upload_request \<Rightarrow> fields" where
  "upload_data q =
     (let data = obj_fields (u_exportData q) in
      case ostr_truthy (u_platformName q) of
        None \<Rightarrow> data
      | Some name \<Rightarrow> if js_trim name = [] then data else obj_set data ''platform_name'' (JStr (js_trim name)))"

definition upload_force :: "upload_request \<Rightarrow> fields \<Rightarrow> string" where
  "upload_force q data =
     (case ostr_truthy (u_forceName q) of
        Some f \<Rightarrow> f
      | None \<Rightarrow> js_text (val_or (prop_get (obj_get data ''platform'') ''force'') (JStr ''player'')))"

definition upload_options :: "string \<Rightarrow> fields \<Rightarrow> int \<Rightarrow> operation_options" where
  "upload_options force data target =
     no_options\<lparr>o_platformName := Some (js_text (val_or (obj_get data ''platform_name'') (JStr ''Uploaded platform''))),
       o_forceName := Some force, o_sourceInstanceId := js_int (- 1),
       o_sourceInstanceName := Some ''Uploaded JSON'', o_targetInstanceId := js_int target\<rparr>"

definition import_error :: "nat \<Rightarrow> string \<Rightarrow> unit handler" where
  "import_error r err =
     act_then (act_do (set_error r (Some err)))
       (failOperation r ''import_failed'' (''Import request failed: '' @ err) [(''error'', JStr err)])"

text \<open>What the answer of the target instance makes of the operation.\<close>

definition upload_accepted :: "nat \<Rightarrow> int \<Rightarrow> string \<Rightarrow> fields \<Rightarrow> jsval \<Rightarrow> upload_reply handler" where
  "upload_accepted r target uploadExportId data response =
     act_then (act_do (\<lambda>w.
         let t = transfer_at w r; tid = t_transferId t;
             name = js_text (val_or (prop_get response ''platformName'')
                      (val_or (obj_get data ''platform_name'') (JStr (t_platformName t))))
         in emitTransferUpdate r (logTransactionEvent tid ''import_queued''
              (''Import accepted by instance '' @ show_int target @ ''; awaiting completion callback'')
              [(''targetInstanceId'', js_int target), (''uploadExportId'', JStr uploadExportId)]
              (upd_transfer r (\<lambda>t. t\<lparr>t_status := AwaitingCompletion, t_platformName := name\<rparr>) w))))
     (act_get (\<lambda>w. let tid = t_transferId (transfer_at w r) in
       act_then (persistTransactionLog tid)
         (act_return \<lparr>up_success = True, up_error = None, up_operationId = Some tid,
            up_platformName = Some (js_text (val_or (prop_get response ''platformName'')
               (val_or (obj_get data ''platform_name'') (JStr ''Unknown'')))),
            up_targetInstanceId = Some target\<rparr>)))"

definition upload_answered :: "nat \<Rightarrow> int \<Rightarrow> string \<Rightarrow> fields \<Rightarrow> jsval \<Rightarrow> upload_reply handler" where
  "upload_answered r target uploadExportId data response =
     (if \<not> truthy (prop_get response ''success'')
      then let err = ostr_or (str_field response ''error'') ''Import failed on target instance'' in
           act_then (import_error r err) (act_return (upload_refused err (Some target)))
      else upload_accepted r target uploadExportId data response)"

definition upload_requested :: "nat \<Rightarrow> int \<Rightarrow> int \<Rightarrow> plugin \<Rightarrow> plugin" where
  "upload_requested r target bytes w =
     (let w1 = upd_transfer r (\<lambda>t. t\<lparr>t_artifactSizeBytes := Some bytes\<rparr>) w; t = transfer_at w1 r
      in emitTransferUpdate r (logTransactionEvent (t_transferId t) ''import_requested''
           (''Upload import requested for '' @ t_platformName t)
           [(''targetInstanceId'', js_int target), (''payloadSizeBytes'', js_int bytes)] w1))"

definition send_upload ::
    "nat \<Rightarrow> int \<Rightarrow> string \<Rightarrow> string \<Rightarrow> upload_request \<Rightarrow> fields \<Rightarrow> upload_reply handler" where
  "send_upload r target uploadExportId force q data =
     act_try
       (act_bind (send_to target (ImportPlatformRequest uploadExportId (JObj data) force (u_targetPlanet q)))
         (upload_answered r target uploadExportId data))
       (\<lambda>err. let errMsg = getErrorMessage err in
          act_then (import_error r errMsg) (act_return (upload_refused errMsg None)))"

definition handleImportUploadedExportRequest ::
    "string \<Rightarrow> string \<Rightarrow> upload_request \<Rightarrow> upload_reply handler" where
  "handleImportUploadedExportRequest operationId uploadExportId q =
     (case u_exportData q of
        JObj _ \<Rightarrow> act_get (\<lambda>w.
          case resolveTargetInstance w (u_targetInstanceId q) of
            None \<Rightarrow> act_return (upload_refused (''Target instance not found: '' @ js_text (u_targetInstanceId q)) None)
          | Some (target, inst) \<Rightarrow>
              if n_isDeleted inst
              then act_return (upload_refused (''Target instance not found: '' @ js_text (u_targetInstanceId q)) None)
              else
                let data = upload_data q; force = upload_force q data in
                act_bind (begin_operation operationId OpImport (upload_options force data target)) (\<lambda>r.
                act_get (\<lambda>w.
                  let sent = obj_set data ''_operationId'' (JStr (t_transferId (transfer_at w r))) in
                  act_then (act_do (upload_requested r target (json_size (JObj sent))))
                    (send_upload r target uploadExportId force q sent))))
      | _ \<Rightarrow> act_return (upload_refused ''exportData must be a non-null object'' None))"

section \<open>Exporting for download\<close>

record download_request =
  dq_sourceInstanceId :: jsval
  dq_sourcePlatformIndex :: jsval
  dq_forceName :: "string option"

record download_reply =
  dr_success :: bool
  dr_error :: "string option"
  dr_operationId :: "string option"
  dr_stored :: "stored_export option"
  dr_size :: int

definition download_refused :: "string \<Rightarrow> download_reply" where
  "download_refused e = \<lparr>dr_success = False, dr_error = Some e, dr_operationId = None, dr_stored = None, dr_size = 0\<rparr>"

definition download_options :: "int \<Rightarrow> int \<Rightarrow> string \<Rightarrow> operation_options" where
  "download_options source index force =
     no_options\<lparr>o_platformName := Some (''platform #'' @ show_int index), o_platformIndex := js_int index,
       o_forceName := Some force, o_sourceInstanceId := js_int source, o_targetInstanceId := js_int (- 1),
       o_targetInstanceName := Some ''Browser download''\<rparr>"

definition download_requested :: "nat \<Rightarrow> int \<Rightarrow> int \<Rightarrow> plugin \<Rightarrow> plugin" where
  "download_requested r source index w =
     emitTransferUpdate r (logTransactionEvent (t_transferId (transfer_at w r)) ''export_requested''
       (''Export requested from instance '' @ show_int source @ '', platform index '' @ show_int index)
       [(''sourceInstanceId'', js_int source), (''sourcePlatformIndex'', js_int index)] w)"

definition download_metrics :: "stored_export \<Rightarrow> int \<Rightarrow> int \<Rightarrow> jsval" where
  "download_metrics x exportRequestMs waitForStoredMs =
     JObj (normalizeExportMetrics (JObj (obj_spread (obj_fields (val_or (x_exportMetrics x) (JObj [])))
       [(''requestExportAndLockMs'', js_int exportRequestMs),
        (''waitForControllerStoreMs'', js_int waitForStoredMs),
        (''controllerExportPrepTotalMs'', js_int (exportRequestMs + waitForStoredMs))])))"

definition download_record :: "nat \<Rightarrow> stored_export \<Rightarrow> int \<Rightarrow> int \<Rightarrow> plugin \<Rightarrow> plugin" where
  "download_record r x exportRequestMs waitForStoredMs w =
     upd_transfer r (\<lambda>t. t\<lparr>
       t_platformName := str_or (x_platformName x) (t_platformName t),
       t_sourceInstanceId := int_of_num (x_instanceId x),
       t_sourceInstanceName := resolveInstanceName w (x_instanceId x),
       t_exportMetrics := download_metrics x exportRequestMs waitForStoredMs,
       t_payloadMetrics := fst (buildPayloadMetrics (val_or (x_exportData x) (JObj []))),
       t_artifactSizeBytes := first_some (x_size x) (t_artifactSizeBytes t),
       t_status := Completed, t_completedAt := Some (clock w)\<rparr>) w"

definition download_completed :: "nat \<Rightarrow> stored_export \<Rightarrow> int \<Rightarrow> int \<Rightarrow> plugin \<Rightarrow> plugin" where
  "download_completed r x exportRequestMs waitForStoredMs w =
     (let w1 = download_record r x exportRequestMs waitForStoredMs w;
          t = transfer_at w1 r; durationMs = clock w - t_startedAt t
      in emitTransferUpdate r (logTransactionEvent (t_transferId t) ''export_completed''
           (''Export ready for download: '' @ x_exportId x)
           [(''exportId'', JStr (x_exportId x)), (''durationMs'', js_int durationMs),
            (''exportMetrics'', t_exportMetrics t), (''payloadMetrics'', t_payloadMetrics t)] w1))"

definition download_error :: "nat \<Rightarrow> string \<Rightarrow> string \<Rightarrow> (string \<times> jsval) list \<Rightarrow> unit handler" where
  "download_error r prefix err extra =
     act_then (act_do (set_error r (Some err)))
       (failOperation r ''export_failed'' (prefix @ err) ((''error'', JStr err) # extra))"

definition download_stored :: "nat \<Rightarrow> stored_export \<Rightarrow> int \<Rightarrow> int \<Rightarrow> download_reply handler" where
  "download_stored r x exportRequestMs waitForStoredMs =
     act_then (act_do (download_completed r x exportRequestMs waitForStoredMs))
     (act_get (\<lambda>w. let tid = t_transferId (transfer_at w r) in
       act_then (persistTransactionLog tid)
       (act_then (act_do pruneOldTransfers)
         (act_return \<lparr>dr_success = True, dr_error = None, dr_operationId = Some tid, dr_stored = Some x,
            dr_size = export_size x\<rparr>))))"

definition export_for_download :: "nat \<Rightarrow> int \<Rightarrow> int \<Rightarrow> string \<Rightarrow> download_reply handler" where
  "export_for_download r source index force =
     act_get (\<lambda>w0. let t0 = clock w0 in
       act_bind (send_to source (ExportPlatformRequest index force None)) (\<lambda>response.
       act_get (\<lambda>w1. let exportRequestMs = clock w1 - t0; job = ostr_or (str_field response ''exportId'') [] in
         if \<not> truthy (prop_get response ''success'') \<or> job = []
         then let err = ostr_or (str_field response ''error'') ''Export failed'' in
              act_then (download_error r ''Export request failed: '' err [(''exportRequestMs'', js_int exportRequestMs)])
                (act_return (download_refused err))
         else
           case make_canonical_transfer_id (num_of_int source) job of
             Inl e \<Rightarrow> act_throw (ErrorObject (id_error_text e) None)
           | Inr cid \<Rightarrow>
               act_bind (waitForStoredExport cid 60000) (\<lambda>x.
               act_get (\<lambda>w2. download_stored r x exportRequestMs (clock w2 - clock w1))))))"

definition try_download :: "nat \<Rightarrow> int \<Rightarrow> int \<Rightarrow> string \<Rightarrow> download_reply handler" where
  "try_download r source index force =
     act_try (export_for_download r source index force)
       (\<lambda>err. let errMsg = getErrorMessage err in
          act_then (download_error r ''Export failed: '' errMsg []) (act_return (download_refused errMsg)))"

definition handleExportPlatformForDownloadRequest :: "string \<Rightarrow> download_request \<Rightarrow> download_reply handler" where
  "handleExportPlatformForDownloadRequest operationId q =
     (let sn = to_number (dq_sourceInstanceId q); pn = to_number (dq_sourcePlatformIndex q);
          force = ostr_or (dq_forceName q) ''player'' in
      if \<not> is_integer sn
      then act_return (download_refused (''Invalid source instance: '' @ js_text (dq_sourceInstanceId q)))
      else if \<not> is_integer pn \<or> int_of_num pn < 1
      then act_return (download_refused (''Invalid platform index: '' @ js_text (dq_sourcePlatformIndex q)))
      else
        let source = int_of_num sn; index = int_of_num pn in
        act_get (\<lambda>w.
          if (case jm_get (instances w) source of None \<Rightarrow> True | Some i \<Rightarrow> n_isDeleted i)
          then act_return (download_refused (''Unknown source instance '' @ show_int source))
          else act_bind (begin_operation operationId OpExport (download_options source index force)) (\<lambda>r.
            act_then (act_do (download_requested r source index))
              (try_download r source index force))))"

section \<open>The completion of an import\<close>

record import_complete =
  ic_operationId :: string
  ic_platformName :: string
  ic_instanceId :: jsval
  ic_success :: bool
  ic_error :: "string option"
  ic_failedStage :: "string option"
  ic_cleanupFailed :: bool
  ic_durationTicks :: "int option"
  ic_entityCount :: jsval
  ic_metrics :: jsval
  ic_validation :: jsval

definition recovery_options :: "import_complete \<Rightarrow> string \<Rightarrow> operation_options" where
  "recovery_options ev operationId =
     no_options\<lparr>o_operationId := Some operationId,
       o_platformName := Some (str_or (ic_platformName ev) ''Imported platform''),
       o_sourceInstanceId := js_int (- 1), o_sourceInstanceName := Some ''Uploaded JSON'',
       o_targetInstanceId := (let n = to_number (ic_instanceId ev) in if is_integer n then JNum n else js_int (- 1))\<rparr>"

definition find_or_recover :: "string \<Rightarrow> import_complete \<Rightarrow> string \<Rightarrow> nat handler" where
  "find_or_recover generatedId ev operationId =
     act_get (\<lambda>w.
       case jm_get (activeTransfers w) operationId of
         Some r \<Rightarrow> act_return r
       | None \<Rightarrow>
           act_bind (begin_operation generatedId OpImport (recovery_options ev operationId)) (\<lambda>r.
             act_then (act_do (\<lambda>w. logTransactionEvent (t_transferId (transfer_at w r)) ''import_recovered''
                 ''Recovered import operation record from completion callback'' [] w))
               (act_return r)))"

text \<open>\<open>Number(null)\<close> is 0, so an absent count passes the test and is written as 0.\<close>

definition completion_metrics :: "import_complete \<Rightarrow> jsval" where
  "completion_metrics ev =
     (let m = buildImportMetrics (ic_metrics ev) (ic_durationTicks ev); n = to_number (ic_entityCount ev)
      in if truthy m \<and> is_integer n \<and> num_le (Fin 0) n
         then JObj (obj_set (obj_fields m) ''entities_created'' (JNum n)) else m)"

definition known_stages :: "string list" where
  "known_stages = [''items'', ''fluids'', ''belts'', ''test_hook'']"

definition adopt_completion :: "nat \<Rightarrow> import_complete \<Rightarrow> plugin \<Rightarrow> plugin" where
  "adopt_completion r ev w =
     (let n = to_number (ic_instanceId ev); known = is_integer n \<and> num_less (Fin 0) n in
      upd_transfer r (\<lambda>t. t\<lparr>
        t_platformName := str_or (ic_platformName ev) (t_platformName t),
        t_targetInstanceId := (if known then int_of_num n else t_targetInstanceId t),
        t_targetInstanceName := (if known then resolveInstanceName w n else t_targetInstanceName t),
        t_importMetrics := val_or (completion_metrics ev) JNull,
        t_validationResult := (if truthy (ic_validation ev) then ic_validation ev else t_validationResult t)\<rparr>) w)"

definition import_succeeded :: "nat \<Rightarrow> plugin \<Rightarrow> plugin" where
  "import_succeeded r w =
     (let w1 = upd_transfer r (\<lambda>t. t\<lparr>t_status := Completed, t_completedAt := Some (clock w)\<rparr>) w; t = transfer_at w1 r
      in logTransactionEvent (t_transferId t) ''import_completed''
           (''Import completed on instance '' @ show_int (t_targetInstanceId t))
           [(''durationMs'', js_int (clock w - t_startedAt t)), (''importMetrics'', t_importMetrics t)] w1)"

definition import_failed :: "nat \<Rightarrow> import_complete \<Rightarrow> plugin \<Rightarrow> plugin" where
  "import_failed r ev w =
     (let err = ostr_or (ic_error ev) ''Import failed'';
          w1 = upd_transfer r (\<lambda>t. t\<lparr>
            t_status := (if ic_cleanupFailed ev then CleanupFailed else Failed),
            t_error := Some err, t_failedAt := Some (clock w),
            t_failedStage := (case ic_failedStage ev of
               Some s \<Rightarrow> if s \<in> set known_stages then Some s else t_failedStage t | None \<Rightarrow> t_failedStage t)\<rparr>) w;
          t = transfer_at w1 r
      in logTransactionEvent (t_transferId t) ''import_failed'' (''Import failed: '' @ err)
           [(''error'', JStr err), (''importMetrics'', t_importMetrics t)] w1)"

definition complete_operation :: "nat \<Rightarrow> import_complete \<Rightarrow> plugin \<Rightarrow> plugin" where
  "complete_operation r ev w =
     (let w1 = adopt_completion r ev w;
          w2 = (if ic_success ev then import_succeeded r w1 else import_failed r ev w1);
          w3 = emitTransferUpdate r w2
      in queueTreeBroadcast (str_or (t_forceName (transfer_at w3 r)) ''player'') w3)"

definition handleImportOperationCompleteEvent :: "string \<Rightarrow> import_complete \<Rightarrow> unit handler" where
  "handleImportOperationCompleteEvent generatedId ev =
     (let operationId = js_trim (ic_operationId ev) in
      if operationId = [] then act_return ()
      else act_bind (find_or_recover generatedId ev operationId) (\<lambda>r.
        act_then (act_do (complete_operation r ev))
        (act_get (\<lambda>w. act_then (persistTransactionLog (t_transferId (transfer_at w r)))
          (act_do pruneOldTransfers)))))"

section \<open>Requests for the tree and the logs, events of the cluster\<close>

record tree_reply =
  tr_revision :: int
  tr_generatedAt :: int
  tr_forceName :: string
  tr_tree :: platform_tree

definition handleGetPlatformTreeRequest ::
    "(string \<Rightarrow> string \<Rightarrow> bool) \<Rightarrow> string option \<Rightarrow> tree_reply handler" where
  "handleGetPlatformTreeRequest lc requested =
     (let forceName = ostr_or requested ''player'' in
      act_then (act_do (\<lambda>w. w\<lparr>lastTreeForceName := forceName\<rparr>))
      (act_bind (buildPlatformTree lc forceName) (\<lambda>tree.
       act_then (act_do (\<lambda>w. w\<lparr>treeRevision := treeRevision w + 1\<rparr>))
       (act_get (\<lambda>w. act_return \<lparr>tr_revision = treeRevision w, tr_generatedAt = clock w,
          tr_forceName = forceName, tr_tree = tree\<rparr>)))))"

definition handlePlatformStateChanged :: "string option \<Rightarrow> string option \<Rightarrow> plugin \<Rightarrow> plugin" where
  "handlePlatformStateChanged platformName forceName w =
     queueTreeBroadcast (ostr_or forceName ''player'')
       (case ostr_truthy platformName of
          None \<Rightarrow> w
        | Some name \<Rightarrow> w\<lparr>platformDepartureTimes := jm_set (platformDepartureTimes w) name (clock w)\<rparr>)"

definition onControlConnectionEvent :: "nat \<Rightarrow> string \<Rightarrow> plugin \<Rightarrow> plugin" where
  "onControlConnectionEvent link event w =
     (if event = ''close''
      then w\<lparr>surfaceExportSubscriptions := jm_delete (surfaceExportSubscriptions w) link\<rparr> else w)"

definition onHostConnectionEvent :: "plugin \<Rightarrow> plugin" where
  "onHostConnectionEvent w = queueTreeBroadcast (str_or (lastTreeForceName w) ''player'') w"

definition onInstanceStatusChanged :: "plugin \<Rightarrow> plugin" where
  "onInstanceStatusChanged w = queueTreeBroadcast (str_or (lastTreeForceName w) ''player'') w"

section \<open>The audit index at start-up\<close>

definition older_log :: "persisted_log \<Rightarrow> persisted_log \<Rightarrow> bool" where
  "older_log a b = (l_savedAt a - l_savedAt b \<le> 0)"

definition migrated_row :: "persisted_log \<Rightarrow> audit_row" where
  "migrated_row entry =
     buildAuditRow (l_transferId entry) RowTerminal (l_savedAt entry) (int (length (l_events entry)))
       (if l_events entry = [] then None else Some (e_timestampMs (last (l_events entry))))
       (nullish (l_transferInfo entry) empty_info)"

definition migrateAuditLedger :: "audit_row list handler" where
  "migrateAuditLedger =
     act_get (\<lambda>w. let rows = map migrated_row (sort_by older_log (persistedTransactionLogs w)) in
       act_bind (await_value (WriteDocument (AuditLedgerDoc rows))) (\<lambda>_. act_return rows))"

definition index_rows :: "audit_row list \<Rightarrow> plugin \<Rightarrow> plugin" where
  "index_rows rows w = w\<lparr>auditIndex := foldAuditRows rows, auditRevisions := countRevisions rows\<rparr>"

text \<open>\<open>rows\<close>: what the ledger file yields; unreadable lines are skipped with a log line.\<close>

definition loadAuditIndex :: "thrown + audit_row list \<Rightarrow> unit handler" where
  "loadAuditIndex ledger =
     act_try
       (case ledger of
          Inl e \<Rightarrow> act_throw e
        | Inr rows \<Rightarrow> act_get (\<lambda>w.
            act_bind (if rows = [] \<and> persistedTransactionLogs w \<noteq> [] then migrateAuditLedger else act_return rows)
              (\<lambda>rows. act_do (index_rows rows))))
       (\<lambda>err. act_do (\<lambda>w. w\<lparr>auditIndex := [], auditRevisions := []\<rparr>))"

section \<open>Starting\<close>

record stored_files =
  f_storage :: "stored_export list load_result"
  f_logs :: "persisted_log list load_result"
  f_ledger :: "thrown + audit_row list"
  f_gateways :: "(string \<times> gateway_link list) option list load_result"
  f_pending :: "pending_intent list load_result"
  f_markers :: "commit_marker list load_result"

definition reset_plugin :: "plugin \<Rightarrow> plugin" where
  "reset_plugin w =
     w\<lparr>platformStorage := [], activeTransfers := [], platformDepartureTimes := [], transactionLogs := [],
       persistedTransactionLogs := [], surfaceExportSubscriptions := [], treeRevision := 0,
       transferRevision := 0, logRevision := 0, lastTreeForceName := ''player'', storageLoadError := None,
       consecutiveStorageWriteFailures := 0, auditIndex := [], auditRevisions := [],
       transactionLogLoadError := None, gatewayLinks := [], pendingTransfers := [], sourceCommitMarkers := []\<rparr>"

text \<open>The registration of the handlers is the pool of calls of the interleaved system.\<close>

definition init_plugin :: "stored_files \<Rightarrow> unit handler" where
  "init_plugin files =
     act_then (act_do reset_plugin)
     (act_then (act_do (loadStorage (f_storage files)))
     (act_then (act_do (loadTransactionLogs (f_logs files)))
     (act_then (loadAuditIndex (f_ledger files))
     (act_then (loadGatewayConfig (f_gateways files))
     (act_then (loadPendingTransfers (f_pending files))
       (loadSourceCommitMarkers (f_markers files)))))))"

definition onStart :: "unit handler" where
  "onStart = act_bind prunePendingTransfers (\<lambda>_. act_bind pruneSourceCommitMarkers (\<lambda>_. act_return ()))"

end
