(* ===== verification/Calm.thy ===== *)
theory Calm
  imports Guarantees Operations
begin

text \<open>
  The handlers of the controller that delete no source platform, at every interleaving: each of their
  segments keeps the identity of every transfer and adds no deletion to the trace.
\<close>

section \<open>Deletions\<close>

definition is_delete :: "effect \<Rightarrow> bool" where
  "is_delete e =
     (case e of Requested (SendTo i (DeleteSourcePlatformRequest a b c d)) \<Rightarrow> True | _ \<Rightarrow> False)"

definition no_delete :: "effect \<Rightarrow> bool" where
  "no_delete e = (\<not> is_delete e)"

lemma is_delete_simps [simp]:
  "is_delete (Requested (SendTo i (DeleteSourcePlatformRequest a b c d)))"
  "\<not> is_delete (Requested (SendTo i (TransferStatusUpdate x1 x2 x3 x4)))"
  "\<not> is_delete (Requested (SendTo i (ImportPlatformRequest y1 y2 y3 y4)))"
  "\<not> is_delete (Requested (SendTo i (UnlockSourcePlatformRequest z1 z2 z3)))"
  "\<not> is_delete (Requested (SendTo i (ExportPlatformRequest u1 u2 u3)))"
  "\<not> is_delete (Requested (SendTo i (InstanceListPlatformsRequest f)))"
  "\<not> is_delete (Requested (SendTo i (PushGatewayConfigRequest gs ns)))"
  "\<not> is_delete (Requested (WriteDocument d'))" "\<not> is_delete (Requested (AppendAuditRow row))"
  "\<not> is_delete (Requested (Delay n))"
  by (simp_all add: is_delete_def)

text \<open>The fields of a transfer that no handler changes once the record exists.\<close>

definition identity_of ::
    "active_transfer \<Rightarrow> operation_type \<times> int \<times> string \<times> string option \<times> int option" where
  "identity_of t =
     (t_operationType t, t_platformIndex t, t_forceName t, first_some (t_sourceExportId t) (t_exportId t),
      if t_operationType t = OpTransfer then Some (t_sourceInstanceId t) else None)"

text \<open>A deletion that names the source of the transfer.\<close>

definition deletes_source ::
    "operation_type \<times> int \<times> string \<times> string option \<times> int option \<Rightarrow> effect \<Rightarrow> bool" where
  "deletes_source ident e =
     (case ident of (ty, index, force, eid, source) \<Rightarrow>
        (\<exists>i name. e = Requested (SendTo i (DeleteSourcePlatformRequest index name force eid))
           \<and> (ty = OpTransfer \<longrightarrow> source = Some i)))"

interpretation calm: observed identity_of no_delete
  by unfold_locales
    (auto simp: allows_silent_def ignores_bookkeeping_def identity_of_def no_delete_def is_delete_def
      split: effect.splits)

abbreviation calm_act :: "'r handler \<Rightarrow> bool" where
  "calm_act \<equiv> guar_act (evolves identity_of no_delete)"

lemma identity_updates [simp]:
  "identity_of (t\<lparr>t_status := st\<rparr>) = identity_of t" "identity_of (t\<lparr>t_error := e\<rparr>) = identity_of t"
  "identity_of (t\<lparr>t_failedAt := n\<rparr>) = identity_of t" "identity_of (t\<lparr>t_completedAt := n\<rparr>) = identity_of t"
  "identity_of (t\<lparr>t_validationResult := v\<rparr>) = identity_of t"
  "identity_of (t\<lparr>t_importMetrics := v\<rparr>) = identity_of t"
  "identity_of (t\<lparr>t_failedStage := s\<rparr>) = identity_of t"
  "identity_of (t\<lparr>t_platformName := nm\<rparr>) = identity_of t"
  "identity_of (t\<lparr>t_targetInstanceId := i\<rparr>) = identity_of t"
  "identity_of (t\<lparr>t_targetInstanceName := o'\<rparr>) = identity_of t"
  by (simp_all add: identity_of_def)

lemma no_delete_simps [simp]:
  "no_delete (Requested (SendTo i (TransferStatusUpdate x1 x2 x3 x4)))"
  "no_delete (Requested (SendTo i (ImportPlatformRequest y1 y2 y3 y4)))"
  "no_delete (Requested (SendTo i (UnlockSourcePlatformRequest z1 z2 z3)))"
  "no_delete (Requested (SendTo i (ExportPlatformRequest u1 u2 u3)))"
  "no_delete (Requested (SendTo i (InstanceListPlatformsRequest f)))"
  "no_delete (Requested (SendTo i (PushGatewayConfigRequest gs ns)))"
  "no_delete (Requested (WriteDocument d'))" "no_delete (Requested (AppendAuditRow row))"
  "no_delete (Requested (Delay n))"
  by (simp_all add: no_delete_def)

section \<open>Handlers that delete nothing\<close>

lemma calm_set_status: "evolves identity_of no_delete w w0 \<Longrightarrow> evolves identity_of no_delete w (set_status r st w0)"
  unfolding set_status_def by (rule evolves_upd) simp_all

lemma calm_enterAwaitingValidation:
  "evolves identity_of no_delete w (enterAwaitingValidation r tid w)"
  unfolding enterAwaitingValidation_def Let_def
  by (intro calm.sync calm_set_status evolves_refl)

lemma calm_handleImportFailure: "calm_act (handleImportFailure tid err ms)"
  unfolding handleImportFailure_def
  by (intro evolving.structural calm.act_do calm.sync calm.tryUnlockSource calm.persistTransactionLog)
    (auto intro!: calm.sync evolves_upd split: option.split)

lemma calm_import_accepted: "calm_act (import_accepted tid r ms)"
  unfolding import_accepted_def
  by (intro evolving.structural calm.act_do calm_enterAwaitingValidation calm.sync evolves_refl)

lemma calm_import_send_failed: "calm_act (import_send_failed tid r e)"
  unfolding import_send_failed_def Let_def
  by (intro evolving.structural evolving.guar_sync calm.act_do calm_enterAwaitingValidation calm.sync
      calm.tryUnlockSource evolves_refl) simp_all

lemma calm_send_import:
  assumes "no_delete (Requested (SendTo target m))"
  shows "calm_act (send_import tid r target m)"
  unfolding send_import_def
  by (intro evolving.structural evolving.guar_sync calm.act_do calm.sync calm.send_to calm.read_prop
      calm_handleImportFailure calm_import_accepted calm_import_send_failed evolves_refl assms)

lemma calm_launch_transfer: "calm_act (launch_transfer tid eid x target planet op)"
  unfolding launch_transfer_def
  by (intro evolving.structural evolving.guar_sync calm.act_do calm.sync calm.archiveRecycledTransferId
      calm.recordTransferStarted calm_send_import evolves_refl) (simp_all add: import_message_def calm.add_transfer)

lemma calm_transferPlatform: "calm_act (transferPlatform eid target m st planet)"
  unfolding transferPlatform_def Let_def
  by (intro evolving.structural)
    (auto split: jsval.split sum.split intro!: evolving.structural calm_launch_transfer)

lemma calm_poll_stored: "calm_act (poll_stored n d eid)"
proof (induction n)
  case 0
  show ?case by (simp add: evolving.guar_throw)
next
  case (Suc n)
  then show ?case by (auto intro!: evolving.structural calm.await_value)
qed

lemma calm_after_transfer: "calm_act (after_transfer s i f cid job res)"
  unfolding after_transfer_def by (intro evolving.structural calm.sendUnlockRequest) simp

lemma calm_export_then_transfer: "calm_act (export_then_transfer s i f tgt planet)"
  unfolding export_then_transfer_def Let_def waitForStoredExport_def
  by (intro evolving.structural calm.send_to)
    (auto split: sum.split intro!: evolving.structural calm_poll_stored calm_transferPlatform calm_after_transfer)

lemma calm_handleStart: "calm_act (handleStartPlatformTransferRequest q)"
  unfolding handleStartPlatformTransferRequest_def Let_def
  by (intro evolving.structural)
    (auto split: prod.split intro!: evolving.structural calm_export_then_transfer calm.sendUnlockRequest)

lemma calm_release_stored: "calm_act (release_stored x)"
  unfolding release_stored_def
  by (auto split: option.split jsval.split intro!: evolving.structural calm.sendUnlockRequest)

lemma calm_handleTransferPlatformRequest: "calm_act (handleTransferPlatformRequest q)"
  unfolding handleTransferPlatformRequest_def
  by (intro evolving.structural)
    (auto split: prod.split sum.split intro!: evolving.structural calm_transferPlatform calm_release_stored)

lemma calm_late_verdict: "calm_act (late_verdict r ev)"
  unfolding late_verdict_def Let_def
  by (intro evolving.structural evolving.guar_sync calm.act_do calm.sync calm.persistTransactionLog evolves_refl)
    (auto simp: late_verdict_update_def Let_def intro!: calm.sync evolves_upd)

lemma calm_transfer_failed:
  "evolves identity_of no_delete w (transfer_failed tid r v e w)"
  unfolding transfer_failed_def Let_def by (intro calm.sync evolves_upd evolves_refl) simp

lemma calm_handleValidationFailure: "calm_act (handleValidationFailure tid r v)"
  unfolding handleValidationFailure_def
  by (intro evolving.structural calm.act_do calm.sync calm.broadcastTransferStatus calm.tryUnlockSource
      calm_transfer_failed calm.persistTransactionLog evolves_refl) simp_all

lemma calm_cleanupOldExports: "calm_act (cleanupOldExports n)"
  unfolding cleanupOldExports_def Let_def
  by (intro evolving.structural calm.act_do calm.sync evolves_refl)

lemma calm_handlePlatformExport: "calm_act (handlePlatformExport ev)"
proof -
  have set: "evolves identity_of no_delete w (w\<lparr>platformStorage := s\<rparr>)" for w s
    by (rule evolves_plain) simp_all
  show ?thesis
    unfolding handlePlatformExport_def
    by (auto split: sum.split option.split jsnum.split
        intro!: evolving.structural calm.act_do set calm_cleanupOldExports calm.persistStorage calm.sync)
qed

section \<open>The controller's own operations\<close>

lemma identity_operation_updates [simp]:
  "identity_of (t\<lparr>t_artifactSizeBytes := n\<rparr>) = identity_of t"
  "identity_of (t\<lparr>t_status := st, t_error := e, t_failedAt := f\<rparr>) = identity_of t"
  "identity_of (t\<lparr>t_platformName := nm, t_status := st\<rparr>) = identity_of t"
  "identity_of (t\<lparr>t_status := st, t_completedAt := c\<rparr>) = identity_of t"
  "identity_of (t\<lparr>t_status := st, t_error := e, t_failedAt := f, t_failedStage := s\<rparr>) = identity_of t"
  "identity_of (t\<lparr>t_platformName := nm, t_targetInstanceId := i, t_targetInstanceName := tn,
     t_importMetrics := m, t_validationResult := v\<rparr>) = identity_of t"
  by (simp_all add: identity_of_def)

lemma calm_begin_operation: "calm_act (begin_operation gid ty opts)"
  unfolding begin_operation_def
  by (intro evolving.structural) (auto split: sum.split
      intro!: evolving.structural evolving.guar_sync calm.sync calm.archiveRecycledTransferId calm.recordTransferStarted)

lemma calm_failOperation: "calm_act (failOperation r ty msg extra)"
  unfolding failOperation_def Let_def mark_failed_def
  by (intro evolving.structural calm.act_do calm.sync calm.persistTransactionLog evolves_upd evolves_refl) simp_all

lemma calm_import_error: "calm_act (import_error r err)"
  unfolding import_error_def set_error_def
  by (intro evolving.structural calm.act_do calm_failOperation evolves_upd evolves_refl) simp

lemma calm_upload_answered: "calm_act (upload_answered r target uid data response)"
  unfolding upload_answered_def upload_accepted_def Let_def
  by (intro evolving.structural calm.act_do calm_import_error calm.sync calm.persistTransactionLog evolves_upd
      evolves_refl) simp_all

lemma calm_send_upload: "calm_act (send_upload r target uid force q data)"
  unfolding send_upload_def Let_def
  by (intro evolving.structural calm.send_to calm_upload_answered calm_import_error) simp

lemma calm_handleImportUploaded: "calm_act (handleImportUploadedExportRequest gid uid q)"
proof -
  have "evolves identity_of no_delete w (upload_requested r target bytes w)" for r target bytes w
    unfolding upload_requested_def Let_def by (intro calm.sync evolves_upd evolves_refl) simp
  then show ?thesis
    unfolding handleImportUploadedExportRequest_def Let_def
    by (auto split: jsval.split option.split prod.split
        intro!: evolving.structural calm_begin_operation calm.act_do calm_send_upload)
qed

lemma calm_complete_operation: "evolves identity_of no_delete w (complete_operation r ev w)"
proof -
  have "evolves identity_of no_delete w w0 \<Longrightarrow> evolves identity_of no_delete w (adopt_completion r ev w0)" for w0
    unfolding adopt_completion_def Let_def by (rule evolves_upd) simp_all
  moreover have "evolves identity_of no_delete w w0 \<Longrightarrow> evolves identity_of no_delete w (import_succeeded r w0)" for w0
    unfolding import_succeeded_def Let_def by (intro calm.sync evolves_upd) simp_all
  moreover have "evolves identity_of no_delete w w0 \<Longrightarrow> evolves identity_of no_delete w (import_failed r ev w0)" for w0
    unfolding import_failed_def Let_def by (intro calm.sync evolves_upd) simp_all
  ultimately show ?thesis
    unfolding complete_operation_def Let_def by (auto intro!: calm.sync)
qed

lemma calm_handleImportComplete: "calm_act (handleImportOperationCompleteEvent gid ev)"
  unfolding handleImportOperationCompleteEvent_def find_or_recover_def Let_def
  by (intro evolving.structural calm_begin_operation calm.act_do calm.sync calm_complete_operation
      calm.persistTransactionLog evolves_refl) simp_all

lemma calm_gateways: "calm_act (handleSetGatewayLinkRequest src es)"
proof -
  have set: "evolves identity_of no_delete w (w\<lparr>gatewayLinks := g\<rparr>)" for w g
    by (rule evolves_plain) simp_all
  have persist: "calm_act persistGatewayConfig"
    unfolding persistGatewayConfig_def by (intro evolving.structural calm.await_value) simp
  have push: "calm_act (pushGatewayConfigToInstance i)" for i
    unfolding pushGatewayConfigToInstance_def gatewayMode_def with_config_def
    by (intro evolving.structural calm.send_to) simp
  have save: "calm_act (save_links i N)" for i N
    unfolding save_links_def by (intro evolving.structural calm.act_do set persist push)
  show ?thesis
    unfolding handleSetGatewayLinkRequest_def gatewayMode_def with_config_def Let_def
    by (intro evolving.structural) (auto split: sum.split option.split intro!: evolving.structural save)
qed

lemma calm_issue_loads: "evolves identity_of no_delete w (issue_loads f nodes w)"
proof -
  have "evolves identity_of no_delete w w0 \<Longrightarrow> evolves identity_of no_delete w (issue_loads f nodes w0)" for w0
  proof (induction nodes arbitrary: w0)
    case (Cons node nodes)
    have "evolves identity_of no_delete w (if wants_load node
        then emit_effect (Requested (SendTo (in_instanceId node) (InstanceListPlatformsRequest f))) w0 else w0)"
      using Cons.prems by (auto intro: evolves_emit)
    from Cons.IH [OF this] show ?case by (simp add: issue_loads_def)
  qed (simp add: issue_loads_def)
  then show ?thesis by blast
qed

lemma calm_load_nodes: "calm_act (load_nodes lc f nodes)"
proof (induction nodes)
  case (Cons node nodes)
  have "calm_act (requestInstancePlatforms i f)" for i
    unfolding requestInstancePlatforms_def
    by (intro evolving.structural) (auto split: answer.split intro!: evolving.structural)
  with Cons show ?case by (auto intro!: evolving.structural)
qed (simp add: evolving.guar_return)

lemma calm_buildPlatformTree: "calm_act (buildPlatformTree lc f)"
  unfolding buildPlatformTree_def Let_def
  by (intro evolving.structural calm.act_do calm_issue_loads calm_load_nodes)

lemma calm_handleGetPlatformTree: "calm_act (handleGetPlatformTreeRequest lc f)"
  unfolding handleGetPlatformTreeRequest_def Let_def
  by (intro evolving.structural calm.act_do calm_buildPlatformTree) (rule evolves_plain, simp_all)+

lemma calm_emitTreeUpdate: "calm_act (emitTreeUpdate lc f)"
proof -
  have "evolves identity_of no_delete w (w\<lparr>lastTreeForceName := x\<rparr>)"
    "evolves identity_of no_delete w (w\<lparr>treeRevision := n\<rparr>)" for w x n
    by (rule evolves_plain, simp_all)+
  then show ?thesis
    unfolding emitTreeUpdate_def Let_def
    by (intro evolving.structural calm.act_do calm_buildPlatformTree calm.broadcastToSubscribers)
qed

lemma calm_subscribe: "calm_act (handleSetSurfaceExportSubscriptionRequest lc src may s)"
proof -
  have plain: "evolves identity_of no_delete w (w\<lparr>surfaceExportSubscriptions := x\<rparr>)"
    "evolves identity_of no_delete w (w\<lparr>treeRevision := n\<rparr>)"
    "evolves identity_of no_delete w (w\<lparr>transferRevision := n\<rparr>)" for w x n
    by (rule evolves_plain, simp_all)+
  have send: "calm_act (send_or_drop link ev m)" if "calm_act m" for link ev m
    unfolding send_or_drop_def
    by (intro evolving.structural calm.act_do plain evolves_emit evolves_refl that) simp
  have snaps: "calm_act (send_snapshots link rs)" for link rs
    by (induction rs) (auto simp: Let_def intro!: evolving.structural calm.act_do plain send)
  show ?thesis
    unfolding handleSetSurfaceExportSubscriptionRequest_def Let_def
    by (intro evolving.structural calm.act_do plain calm_buildPlatformTree send snaps)
qed

lemma calm_events:
  "evolves identity_of no_delete w (handlePlatformStateChanged n f w)"
  "evolves identity_of no_delete w (onControlConnectionEvent link ev w)"
  "evolves identity_of no_delete w (onHostConnectionEvent w)"
  "evolves identity_of no_delete w (onInstanceStatusChanged w)"
proof -
  have "evolves identity_of no_delete w (w\<lparr>surfaceExportSubscriptions := x\<rparr>)"
    "evolves identity_of no_delete w (w\<lparr>platformDepartureTimes := y\<rparr>)" for x y
    by (rule evolves_plain, simp_all)+
  then show "evolves identity_of no_delete w (handlePlatformStateChanged n f w)"
    "evolves identity_of no_delete w (onControlConnectionEvent link ev w)"
    "evolves identity_of no_delete w (onHostConnectionEvent w)"
    "evolves identity_of no_delete w (onInstanceStatusChanged w)"
    by (auto simp: handlePlatformStateChanged_def onControlConnectionEvent_def onHostConnectionEvent_def
        onInstanceStatusChanged_def intro!: calm.sync split: option.split)
qed

end
