(* ===== verification/Protocol.thy ===== *)
theory Protocol
  imports Calm
begin

text \<open>
  The controller's handlers running interleaved. A system state is the plugin with the pool of
  suspended handlers; a step delivers a message or fires a timer (running that handler to its first
  \<open>await\<close>), resumes one suspended handler with any answer, or lets the environment change the
  clock, the cluster or the configuration. The main result is the safety half of the two-phase
  transfer: no source platform is deleted without a SUCCESS verdict accepted before.
\<close>

section \<open>The handler that deletes\<close>

text \<open>
  \<open>holds r ident w\<close>: the reference denotes a transfer of that identity. From such a state the
  success handler only deletes that transfer's source.
\<close>

definition holds ::
    "nat \<Rightarrow> operation_type \<times> int \<times> string \<times> string option \<times> int option \<Rightarrow> plugin \<Rightarrow> bool" where
  "holds r ident w = (r < length (heap w) \<and> identity_of (heap w ! r) = ident)"

definition own_delete ::
    "operation_type \<times> int \<times> string \<times> string option \<times> int option \<Rightarrow> effect \<Rightarrow> bool" where
  "own_delete ident e = (is_delete e \<longrightarrow> deletes_source ident e)"

definition settles ::
    "nat \<Rightarrow> operation_type \<times> int \<times> string \<times> string option \<times> int option \<Rightarrow> plugin \<Rightarrow> plugin \<Rightarrow> bool" where
  "settles r ident w w' = (holds r ident w \<longrightarrow> evolves identity_of (own_delete ident) w w')"

lemma holds_evolves: "evolves identity_of P w w' \<Longrightarrow> holds r ident w \<Longrightarrow> holds r ident w'"
  by (auto simp: holds_def evolves_def)

interpretation settling: guarantee "settles r ident" for r ident
  by unfold_locales (auto simp: settles_def intro: evolves_trans holds_evolves)

lemma calm_settles: "evolves identity_of no_delete w w' \<Longrightarrow> settles r ident w w'"
  by (auto simp: settles_def own_delete_def no_delete_def intro: evolves_mono)

lemma calm_act_settles: "calm_act m \<Longrightarrow> guar_act (settles r ident) m"
  by (erule guar_act_mono) (rule calm_settles)

lemma settles_send:
  assumes "\<And>a. guar_act (settles r ident) (K a)"
    and "holds r ident s \<Longrightarrow> own_delete ident (Requested (SendTo i m))"
  shows "settles r ident s (fst (act_bind (send_to i m) K s))
    \<and> guar (settles r ident) (snd (act_bind (send_to i m) K s))"
proof -
  let ?k = "\<lambda>a. (case a of Resolved v \<Rightarrow> act_return v | Rejected e \<Rightarrow> act_throw e) :: jsval handler"
  have k: "guar_act (settles r ident) (?k a)" for a
    by (cases a) (simp_all add: settling.guar_return settling.guar_throw)
  have first: "settles r ident s (emit_effect (Requested (SendTo i m)) s)"
    using assms(2) by (auto simp: settles_def intro: evolves_emit)
  have rest: "settles r ident t (fst (async_bind (snd (?k a t)) K (fst (?k a t))))
      \<and> guar (settles r ident) (snd (async_bind (snd (?k a t)) K (fst (?k a t))))" for a t
  proof -
    have "guar_act (settles r ident) (act_bind (?k a) K)"
      by (intro settling.guar_bind k assms(1))
    then show ?thesis unfolding guar_act_def act_run by blast
  qed
  show ?thesis
    using first rest by (simp add: send_to_def await_value_def request_act_def act_run)
qed

lemma settles_handleValidationSuccess:
  "guar_act (settles r ident) (handleValidationSuccess tid r)"
proof -
  have own: "own_delete ident (Requested (SendTo (t_sourceInstanceId (transfer_at s r))
      (delete_message (transfer_at s r))))" if "holds r ident s" for s
    using that by (auto simp: own_delete_def deletes_source_def delete_message_def holds_def
        identity_of_def transfer_at_def)
  have completed: "evolves identity_of no_delete w (transfer_completed tid r ms w)" for w ms
    unfolding transfer_completed_def Let_def by (intro calm.sync evolves_upd evolves_refl) simp
  have failed: "evolves identity_of no_delete w (updateTransfer r (upd_transfer r
      (\<lambda>t. t\<lparr>t_status := CleanupFailed, t_error := e\<rparr>) w))" for w e
    by (intro calm.sync evolves_upd evolves_refl) simp
  have after: "guar_act (settles r ident) (delete_answered tid r response)" for response
    unfolding delete_answered_def
    by (intro calm_act_settles evolving.structural evolving.guar_sync calm.act_do calm.sync
        calm.broadcastTransferStatus calm.persistTransactionLog calm.persistStorage calm.read_prop
        completed failed evolves_refl) simp_all
  have delete: "guar_act (settles r ident) (act_get (\<lambda>w. let t = transfer_at w r in
        act_bind (send_to (t_sourceInstanceId t) (delete_message t)) (delete_answered tid r)))"
    unfolding guar_act_def act_get_def Let_def
    by (intro allI settles_send after own)
  show ?thesis
    unfolding handleValidationSuccess_def
    by (intro settling.guar_then delete calm_act_settles calm.act_do calm.sync calm.broadcastTransferStatus
        evolves_refl) simp_all
qed

lemma settles_settle: "guar_act (settles r ident) (settle r ev)"
proof -
  have e1: "evolves identity_of no_delete w (pruneOldTransfers (if b then removePendingTransfer tid w else w))" for w b tid
    by (auto intro!: calm.sync)
  have e2: "evolves identity_of no_delete w (updateTransfer r (upd_transfer r
      (\<lambda>t. t\<lparr>t_status := Errored, t_error := e\<rparr>) w))" for w e
    by (intro calm.sync evolves_upd evolves_refl) simp
  show ?thesis
    unfolding settle_def
    by (intro settling.guar_try settling.guar_bind settling.guar_then settling.guar_if
        settles_handleValidationSuccess calm_act_settles [OF calm_handleValidationFailure]
        calm_act_settles [OF calm.act_do] e1 e2 calm_act_settles [OF calm.broadcastTransferStatus]) simp_all
qed

section \<open>The system\<close>

datatype reply =
    ReplyNone | ReplyTransfer transfer_result | ReplyStart start_result | ReplyUpload upload_reply
  | ReplyGateways gateway_reply | ReplyTree tree_reply

type_synonym task = "(request, answer, plugin, thrown, reply) async"

definition replying :: "('r \<Rightarrow> reply) \<Rightarrow> 'r handler \<Rightarrow> reply handler" where
  "replying f m = act_bind m (\<lambda>r. act_return (f r))"

datatype call =
    CallTransferPlatform transfer_request
  | CallStartTransfer start_request
  | CallVerdict verdict
  | CallPlatformExport export_event
  | CallUpload string string upload_request
  | CallImportComplete string import_complete
  | CallSetGateways jsval "gateway_entry list"
  | CallGetTree "string \<Rightarrow> string \<Rightarrow> bool" "string option"
  | CallTreeBroadcast "string \<Rightarrow> string \<Rightarrow> bool" string
  | CallSubscribe "string \<Rightarrow> string \<Rightarrow> bool" "nat option" bool subscription
  | CallStateChanged "string option" "string option"
  | ControlConnection nat string
  | HostConnection
  | InstanceStatus
  | TimerFired nat int string

fun handler_of :: "call \<Rightarrow> reply handler" where
  "handler_of (CallTransferPlatform q) = replying ReplyTransfer (handleTransferPlatformRequest q)"
| "handler_of (CallStartTransfer q) = replying ReplyStart (handleStartPlatformTransferRequest q)"
| "handler_of (CallVerdict ev) = replying (\<lambda>_. ReplyNone) (handleTransferValidation ev)"
| "handler_of (CallPlatformExport ev) = replying (\<lambda>_. ReplyNone) (handlePlatformExport ev)"
| "handler_of (CallUpload gid uid q) = replying ReplyUpload (handleImportUploadedExportRequest gid uid q)"
| "handler_of (CallImportComplete gid ev) = replying (\<lambda>_. ReplyNone) (handleImportOperationCompleteEvent gid ev)"
| "handler_of (CallSetGateways src es) = replying ReplyGateways (handleSetGatewayLinkRequest src es)"
| "handler_of (CallGetTree lc f) = replying ReplyTree (handleGetPlatformTreeRequest lc f)"
| "handler_of (CallTreeBroadcast lc f) = replying (\<lambda>_. ReplyNone) (emitTreeUpdate lc f)"
| "handler_of (CallSubscribe lc src may s) =
     replying (\<lambda>_. ReplyNone) (handleSetSurfaceExportSubscriptionRequest lc src may s)"
| "handler_of (CallStateChanged n f) = replying (\<lambda>_. ReplyNone) (act_do (handlePlatformStateChanged n f))"
| "handler_of (ControlConnection link ev) = replying (\<lambda>_. ReplyNone) (act_do (onControlConnectionEvent link ev))"
| "handler_of HostConnection = replying (\<lambda>_. ReplyNone) (act_do onHostConnectionEvent)"
| "handler_of InstanceStatus = replying (\<lambda>_. ReplyNone) (act_do onInstanceStatusChanged)"
| "handler_of (TimerFired h ms tid) = replying (\<lambda>_. ReplyNone) (validationTimeoutFired h ms tid)"

text \<open>A timer can only fire while it is armed.\<close>

fun enabled :: "call \<Rightarrow> plugin \<Rightarrow> bool" where
  "enabled (TimerFired h ms tid) w = ((h, ms, tid) \<in> set (timers w))"
| "enabled _ w = True"

text \<open>What the environment may change: time passes, the cluster and the configuration vary.\<close>

definition environment_step :: "plugin \<Rightarrow> plugin \<Rightarrow> bool" where
  "environment_step w w' =
     (clock w \<le> clock w' \<and>
      w' = w\<lparr>clock := clock w', instances := instances w', hosts := hosts w', config := config w',
             deadLinks := deadLinks w'\<rparr>)"

inductive step :: "plugin \<times> task list \<Rightarrow> plugin \<times> task list \<Rightarrow> bool" where
  Deliver: "enabled c w \<Longrightarrow> step (w, ps) (fst (handler_of c w), ps @ [snd (handler_of c w)])"
| Resume: "i < length ps \<Longrightarrow> ps ! i = Await q k \<Longrightarrow> step (w, ps) (fst (k a w), ps[i := snd (k a w)])"
| Environment: "environment_step w w' \<Longrightarrow> step (w, ps) (w', ps)"

inductive_cases step_cases: "step s s'"

text \<open>
  A run starts in any state of the plugin, also one restored from disk or left by earlier runs; its
  trace starts empty and no handler is suspended.
\<close>

definition initial :: "plugin \<times> task list \<Rightarrow> bool" where
  "initial s = (trace (fst s) = [] \<and> refs_valid (fst s) \<and> snd s = [])"

definition reachable :: "plugin \<times> task list \<Rightarrow> bool" where
  "reachable s = (\<exists>s0. initial s0 \<and> step\<^sup>*\<^sup>* s0 s)"

section \<open>Delete only after a verdict\<close>

definition accepted :: "string \<Rightarrow> effect" where
  "accepted tid = EventLogged tid ''validation_received'' ''Validation: SUCCESS''"

text \<open>
  The effects before a deletion contain the acceptance of a SUCCESS verdict, and the deletion names
  the source of a transfer.
\<close>

definition justified :: "plugin \<Rightarrow> bool" where
  "justified w =
     (\<forall>pre e post. trace w = pre @ e # post \<longrightarrow> is_delete e \<longrightarrow>
        (\<exists>tid r. accepted tid \<in> set pre \<and> r < length (heap w) \<and> deletes_source (identity_of (heap w ! r)) e))"

definition good_task :: "plugin \<Rightarrow> task \<Rightarrow> bool" where
  "good_task w p =
     (guar (evolves identity_of no_delete) p
      \<or> (\<exists>tid r ident. guar (settles r ident) p \<and> holds r ident w \<and> accepted tid \<in> set (trace w)))"

lemma justified_calm:
  assumes "justified w" "evolves identity_of no_delete w w'"
  shows "justified w'"
  unfolding justified_def
proof (intro allI impI)
  fix pre e post
  assume tr: "trace w' = pre @ e # post" and del: "is_delete e"
  from assms(2) obtain ext where ext: "trace w' = trace w @ ext" "\<forall>x\<in>set ext. no_delete x"
    by (auto simp: evolves_def)
  then have "e \<notin> set ext" using del by (auto simp: no_delete_def)
  with tr ext(1) obtain post' where "trace w = pre @ e # post'"
    by (auto simp: append_eq_append_conv2 Cons_eq_append_conv append_eq_Cons_conv)
  with assms(1) del obtain tid r where "accepted tid \<in> set pre" "r < length (heap w)"
      "deletes_source (identity_of (heap w ! r)) e"
    unfolding justified_def by blast
  moreover have "length (heap w) \<le> length (heap w')" "identity_of (heap w' ! r) = identity_of (heap w ! r)"
    using assms(2) \<open>r < length (heap w)\<close> by (auto simp: evolves_def)
  ultimately show "\<exists>tid r. accepted tid \<in> set pre \<and> r < length (heap w')
      \<and> deletes_source (identity_of (heap w' ! r)) e"
    by (intro exI [of _ tid] exI [of _ r]) auto
qed

lemma justified_settles:
  assumes "justified w" "evolves identity_of (own_delete ident) w w'"
    and "holds r ident w" "accepted tid \<in> set (trace w)"
  shows "justified w'"
  unfolding justified_def
proof (intro allI impI)
  fix pre e post
  assume tr: "trace w' = pre @ e # post" and del: "is_delete e"
  from assms(2) obtain ext where ext: "trace w' = trace w @ ext" "\<forall>x\<in>set ext. own_delete ident x"
    by (auto simp: evolves_def)
  have grow: "length (heap w) \<le> length (heap w')"
    and same: "\<And>r. r < length (heap w) \<Longrightarrow> identity_of (heap w' ! r) = identity_of (heap w ! r)"
    using assms(2) by (auto simp: evolves_def)
  from tr ext(1) consider post' where "trace w = pre @ e # post'"
    | us where "pre = trace w @ us" "e \<in> set ext"
    by (auto simp: append_eq_append_conv2 Cons_eq_append_conv append_eq_Cons_conv)
  then show "\<exists>tid r. accepted tid \<in> set pre \<and> r < length (heap w')
      \<and> deletes_source (identity_of (heap w' ! r)) e"
  proof cases
    case 1
    with assms(1) del obtain tid' r' where "accepted tid' \<in> set pre" "r' < length (heap w)"
        "deletes_source (identity_of (heap w ! r')) e"
      unfolding justified_def by blast
    then show ?thesis using grow same by (intro exI [of _ tid'] exI [of _ r']) auto
  next
    case 2
    then have "deletes_source ident e" using ext(2) del by (auto simp: own_delete_def)
    moreover have "accepted tid \<in> set pre" using 2 assms(4) by simp
    ultimately show ?thesis
      using assms(3) grow same by (intro exI [of _ tid] exI [of _ r]) (auto simp: holds_def)
  qed
qed

lemma good_task_mono:
  assumes "good_task w p" "evolves identity_of P w w'"
  shows "good_task w' p"
proof -
  have "set (trace w) \<subseteq> set (trace w')"
    using assms(2) by (auto simp: evolves_def)
  with assms(1) holds_evolves [OF assms(2)] show ?thesis
    unfolding good_task_def by blast
qed

lemma calm_replying: "calm_act m \<Longrightarrow> calm_act (replying f m)"
  unfolding replying_def by (intro evolving.structural)

lemma guar_act_segment:
  "guar_act G m \<Longrightarrow> G w (fst (m w)) \<and> guar G (snd (m w))"
  by (simp add: guar_act_def)

text \<open>Delivering a verdict: the first segment deletes nothing, and logs before it settles.\<close>

lemma accepted_logged: "ve_success ev \<Longrightarrow> accepted (ve_transferId ev) \<in> set (trace (log_verdict ev w))"
proof -
  assume "ve_success ev"
  then have "accepted (ve_transferId ev) \<in> set (trace (logTransactionEvent (ve_transferId ev) ''validation_received''
        (''Validation: '' @ (if ve_success ev then ''SUCCESS'' else ''FAILED'')) d w1))" for d w1
  proof -
    have grow: "set (trace w2) \<subseteq> set (trace (emitLogUpdate t e w2))" for t e w2
      using calm.emitLogUpdate [OF evolves_refl, of w2 t e] by (auto simp: evolves_def)
    show ?thesis
      unfolding logTransactionEvent_def Let_def
      by (rule subsetD [OF grow]) (use \<open>ve_success ev\<close> in \<open>simp add: accepted_def emit_effect_def\<close>)
  qed
  then show ?thesis by (simp add: log_verdict_def Let_def case_prod_beta)
qed

lemma calm_adopt_log: "evolves identity_of no_delete w (adopt_verdict r ev (log_verdict ev w))"
  unfolding adopt_verdict_def Let_def
  by (intro calm.clear_timeout evolves_upd calm.log_verdict evolves_refl) simp

lemma trace_adopt: "set (trace w) \<subseteq> set (trace (adopt_verdict r ev w))"
proof -
  have "evolves identity_of no_delete w (adopt_verdict r ev w)"
    unfolding adopt_verdict_def Let_def
    by (intro calm.clear_timeout evolves_upd evolves_refl) simp
  then show ?thesis by (auto simp: evolves_def)
qed

lemma first_segment_success:
  "evolves identity_of no_delete w (fst (handleValidationSuccess tid r w))
    \<and> (\<exists>q k. snd (handleValidationSuccess tid r w) = Await q k)"
proof -
  have "evolves identity_of no_delete w (startPhase tid ''cleanup'' w)"
    by (intro calm.sync evolves_refl)
  then show ?thesis
    by (auto simp: handleValidationSuccess_def broadcastTransferStatus_def broadcast_one_def send_to_def
        await_value_def request_act_def act_run Let_def intro!: evolves_emit)
qed

lemma fst_bind_Await: "snd (m s) = Await q k \<Longrightarrow> fst (act_bind m f s) = fst (m s)"
  by (simp add: act_run)

lemma fst_settle_success:
  assumes "ve_success ev"
  shows "fst (settle r ev w) = fst (handleValidationSuccess (ve_transferId ev) r w)
    \<and> (\<exists>q k. snd (settle r ev w) = Await q k)"
proof -
  obtain q k where "snd (handleValidationSuccess (ve_transferId ev) r w) = Await q k"
    using first_segment_success by blast
  with assms show ?thesis by (simp add: settle_def act_run)
qed

lemma calm_settle_failure: "\<not> ve_success ev \<Longrightarrow> calm_act (settle r ev)"
proof -
  assume "\<not> ve_success ev"
  have e1: "evolves identity_of no_delete w (pruneOldTransfers (if b then removePendingTransfer tid w else w))" for w b tid
    by (auto intro!: calm.sync)
  have e2: "evolves identity_of no_delete w (updateTransfer r (upd_transfer r
      (\<lambda>t. t\<lparr>t_status := Errored, t_error := e\<rparr>) w))" for w e
    by (intro calm.sync evolves_upd evolves_refl) simp
  show ?thesis
    using \<open>\<not> ve_success ev\<close> unfolding settle_def
    by (simp del: if_split add: if_False)
      (intro evolving.structural calm_handleValidationFailure calm.act_do e1 e2 calm.broadcastTransferStatus, simp_all)
qed

lemma good_calm:
  assumes "calm_act m"
  shows "evolves identity_of no_delete w (fst (m w)) \<and> good_task (fst (m w)) (snd (m w))"
  using guar_act_segment [OF assms, of w] by (simp add: good_task_def)

lemma refs_valid_get: "refs_valid w \<Longrightarrow> jm_get (activeTransfers w) k = Some r \<Longrightarrow> r < length (heap w)"
  by (auto simp: refs_valid_def dest!: jm_get_Some_in)

lemma good_verdict:
  assumes "refs_valid w"
  shows "evolves identity_of no_delete w (fst (replying f (handleTransferValidation ev) w))
    \<and> good_task (fst (replying f (handleTransferValidation ev) w)) (snd (replying f (handleTransferValidation ev) w))"
proof (cases "jm_get (activeTransfers w) (ve_transferId ev)")
  case None
  have "replying f (handleTransferValidation ev) w = replying f (act_do (log_verdict ev)) w"
    by (simp add: replying_def handleTransferValidation_def act_run None)
  moreover have "calm_act (replying f (act_do (log_verdict ev)))"
    by (intro calm_replying calm.act_do calm.sync evolves_refl)
  ultimately show ?thesis using good_calm [of _ w] by metis
next
  case (Some r)
  show ?thesis
  proof (cases "t_status (transfer_at w r) = AwaitingValidation")
    case False
    then have "replying f (handleTransferValidation ev) w = replying f (late_verdict r ev) w"
      by (simp add: replying_def handleTransferValidation_def act_run Some)
    moreover have "calm_act (replying f (late_verdict r ev))"
      by (intro calm_replying calm_late_verdict)
    ultimately show ?thesis using good_calm [of _ w] by metis
  next
    case True
    define U where "U = (\<lambda>w. adopt_verdict r ev (log_verdict ev w))"
    have U: "evolves identity_of no_delete w (U w)" for w unfolding U_def by (rule calm_adopt_log)
    have eq: "replying f (handleTransferValidation ev) w = replying f (act_then (act_do U) (settle r ev)) w"
      using True by (simp add: replying_def handleTransferValidation_def act_run Some U_def)
    show ?thesis
    proof (cases "ve_success ev")
      case False
      then have "calm_act (replying f (act_then (act_do U) (settle r ev)))"
        by (intro calm_replying evolving.guar_then calm.act_do U calm_settle_failure)
      then show ?thesis using good_calm [of _ w] eq by metis
    next
      case success: True
      let ?m = "replying f (act_then (act_do U) (settle r ev))"
      have run: "?m w = act_bind (settle r ev) (\<lambda>x. act_return (f x)) (U w)"
        by (simp add: replying_def act_run)
      have fst: "fst (?m w) = fst (handleValidationSuccess (ve_transferId ev) r (U w))"
        using fst_settle_success [OF success, of r "U w"] fst_bind_Await [of "settle r ev" "U w"]
        unfolding run by metis
      have ev: "evolves identity_of no_delete w (fst (?m w))"
        using U first_segment_success [of "U w"] by (auto simp: fst intro: evolves_trans)
      have "r < length (heap w)" using refs_valid_get [OF assms Some] .
      then have h: "holds r (identity_of (heap w ! r)) w" by (simp add: holds_def)
      have acc: "accepted (ve_transferId ev) \<in> set (trace (fst (?m w)))"
      proof -
        have "accepted (ve_transferId ev) \<in> set (trace (U w))"
          using accepted_logged [OF success] trace_adopt unfolding U_def by blast
        moreover have "evolves identity_of no_delete (U w) (fst (?m w))"
          using first_segment_success [of "U w"] by (simp add: fst)
        ultimately show ?thesis by (auto simp: evolves_def)
      qed
      have "guar_act (settles r (identity_of (heap w ! r))) (act_do U :: unit handler)"
        by (rule calm_act_settles [OF calm.act_do [OF U]])
      then have "guar_act (settles r (identity_of (heap w ! r))) (act_then (act_do U) (settle r ev))"
        by (rule settling.guar_then [OF _ settles_settle])
      then have "guar_act (settles r (identity_of (heap w ! r))) ?m"
        unfolding replying_def by (rule settling.guar_bind) (rule settling.guar_return)
      then have "guar (settles r (identity_of (heap w ! r))) (snd (?m w))"
        by (rule guar_act_segment [THEN conjunct2])
      then have "good_task (fst (?m w)) (snd (?m w))"
        using holds_evolves [OF ev h] acc unfolding good_task_def by blast
      with ev show ?thesis by (simp only: eq)
    qed
  qed
qed

section \<open>Safety of the whole system\<close>

definition invariant :: "plugin \<times> task list \<Rightarrow> bool" where
  "invariant s = (refs_valid (fst s) \<and> justified (fst s) \<and> (\<forall>p\<in>set (snd s). good_task (fst s) p))"

lemma invariant_initial: "initial s \<Longrightarrow> invariant s"
  by (simp add: invariant_def initial_def justified_def)

lemma calm_validationTimeoutFired_first:
  assumes "refs_valid w"
  shows "evolves identity_of no_delete w (fst (replying f (validationTimeoutFired h ms tid) w))
    \<and> good_task (fst (replying f (validationTimeoutFired h ms tid) w))
        (snd (replying f (validationTimeoutFired h ms tid) w))"
proof -
  have t: "evolves identity_of no_delete w (w\<lparr>timers := x\<rparr>)" for w x
    by (rule evolves_plain) simp_all
  have failure: "\<not> ve_success (timeout_verdict tid ms a)" for a by (simp add: timeout_verdict_def)
  have verdict: "calm_act (handleTransferValidation ev)" if "\<not> ve_success ev" for ev
    unfolding handleTransferValidation_def
    by (intro evolving.structural calm.act_do calm_adopt_log calm_settle_failure that)
      (auto intro!: evolving.structural calm.act_do calm_adopt_log calm_settle_failure calm_late_verdict
        calm.log_verdict that)
  have "calm_act (validationTimeoutFired h ms tid)"
    unfolding validationTimeoutFired_def
    by (intro evolving.structural calm.act_do t calm.logTransactionEvent evolves_refl verdict failure)
  then show ?thesis by (intro good_calm calm_replying)
qed

lemma deliver_good:
  assumes "refs_valid w"
  shows "evolves identity_of no_delete w (fst (handler_of c w)) \<and> good_task (fst (handler_of c w)) (snd (handler_of c w))"
proof (cases c)
  case (CallVerdict ev)
  then show ?thesis using good_verdict [OF assms] by simp
next
  case (TimerFired h ms tid)
  then show ?thesis using calm_validationTimeoutFired_first [OF assms] by simp
qed (simp_all add: good_calm calm_replying calm_handleTransferPlatformRequest calm_handleStart
    calm_handlePlatformExport calm_handleImportUploaded calm_handleImportComplete calm_gateways
    calm_handleGetPlatformTree calm_emitTreeUpdate calm_subscribe calm.act_do calm_events)

lemma environment_evolves:
  assumes "environment_step w w'"
  shows "evolves identity_of no_delete w w'"
proof (rule evolves_plain)
  have eq: "w' = w\<lparr>clock := clock w', instances := instances w', hosts := hosts w', config := config w',
      deadLinks := deadLinks w'\<rparr>"
    using assms by (simp add: environment_step_def)
  show "heap w' = heap w" by (subst eq) simp
  show "trace w' = trace w" by (subst eq) simp
  show "activeTransfers w' = activeTransfers w" by (subst eq) simp
qed

lemma resume_good:
  assumes "good_task w (Await q k)"
  shows "(evolves identity_of no_delete w (fst (k a w))
      \<or> (\<exists>tid r ident. evolves identity_of (own_delete ident) w (fst (k a w))
            \<and> holds r ident w \<and> accepted tid \<in> set (trace w)))
    \<and> good_task (fst (k a w)) (snd (k a w))"
proof -
  from assms consider "guar (evolves identity_of no_delete) (Await q k)"
    | tid r ident where "guar (settles r ident) (Await q k)" "holds r ident w" "accepted tid \<in> set (trace w)"
    unfolding good_task_def by blast
  then show ?thesis
  proof cases
    case 1
    then show ?thesis by (simp add: good_task_def)
  next
    case 2
    then have e: "evolves identity_of (own_delete ident) w (fst (k a w))"
      by (auto simp: settles_def)
    have "holds r ident (fst (k a w))" using holds_evolves [OF e 2(2)] .
    moreover have "accepted tid \<in> set (trace (fst (k a w)))" using e 2(3) by (auto simp: evolves_def)
    moreover have "guar (settles r ident) (snd (k a w))" using 2(1) by simp
    ultimately have "good_task (fst (k a w)) (snd (k a w))"
      unfolding good_task_def by blast
    with e 2 show ?thesis by blast
  qed
qed

lemma invariant_step:
  assumes "step s s'" "invariant s"
  shows "invariant s'"
  using assms
proof (cases rule: step.cases)
  case (Deliver c w ps)
  then have inv: "refs_valid w" "justified w" "\<forall>p\<in>set ps. good_task w p"
    using assms(2) by (auto simp: invariant_def)
  from deliver_good [OF inv(1), of c]
  have e: "evolves identity_of no_delete w (fst (handler_of c w))"
    and g: "good_task (fst (handler_of c w)) (snd (handler_of c w))" by blast+
  have "refs_valid (fst (handler_of c w))" using e inv(1) by (auto simp: evolves_def)
  moreover have "\<forall>p\<in>set ps. good_task (fst (handler_of c w)) p"
    using inv(3) good_task_mono [OF _ e] by blast
  ultimately show ?thesis
    using Deliver g justified_calm [OF inv(2) e] by (simp add: invariant_def)
next
  case (Resume i ps q k w a)
  then have inv: "refs_valid w" "justified w" "\<forall>p\<in>set ps. good_task w p"
    using assms(2) by (auto simp: invariant_def)
  then have "good_task w (Await q k)" using Resume by (metis nth_mem)
  note r = resume_good [OF this, of a]
  then obtain P where P: "evolves identity_of P w (fst (k a w))" by blast
  have "justified (fst (k a w))"
    using r justified_calm [OF inv(2)] justified_settles [OF inv(2)] by blast
  moreover have "refs_valid (fst (k a w))" using P inv(1) by (auto simp: evolves_def)
  moreover have "\<forall>p\<in>set ps. good_task (fst (k a w)) p" using inv(3) good_task_mono [OF _ P] by blast
  moreover have "set (ps[i := snd (k a w)]) \<subseteq> insert (snd (k a w)) (set ps)"
    by (rule set_update_subset_insert)
  moreover have "good_task (fst (k a w)) (snd (k a w))" using r by blast
  ultimately have "invariant (fst (k a w), ps[i := snd (k a w)])"
    unfolding invariant_def by auto
  then show ?thesis using Resume by simp
next
  case (Environment w w' ps)
  then have inv: "refs_valid w" "justified w" "\<forall>p\<in>set ps. good_task w p"
    using assms(2) by (auto simp: invariant_def)
  note e = environment_evolves [OF Environment(3)]
  have "refs_valid w'" using e inv(1) by (auto simp: evolves_def)
  moreover have "\<forall>p\<in>set ps. good_task w' p" using inv(3) good_task_mono [OF _ e] by blast
  ultimately show ?thesis
    using Environment justified_calm [OF inv(2) e] by (simp add: invariant_def)
qed

lemma invariant_reachable: "reachable s \<Longrightarrow> invariant s"
proof -
  assume "reachable s"
  then obtain s0 where "initial s0" "step\<^sup>*\<^sup>* s0 s" by (auto simp: reachable_def)
  from this(2) show "invariant s"
    using invariant_initial [OF \<open>initial s0\<close>]
    by (induction rule: rtranclp_induct) (auto intro: invariant_step)
qed

end
