(* ===== verification/Samples.thy ===== *)
theory Samples
  imports Orchestrator
begin

text \<open>
  Concrete states and messages at which the properties of the transfer are instantiated.
\<close>

section \<open>Concrete states\<close>

text \<open>A transfer awaiting validation, and a controller that has just that one, its timer armed.\<close>

definition sample_transfer :: active_transfer where
  "sample_transfer =
     \<lparr>t_transferId = ''1:7'', t_operationType = OpTransfer, t_exportId = Some ''1:7'', t_sourceExportId = Some ''7'',
      t_artifactSizeBytes = Some 10, t_platformName = ''Alpha'', t_platformIndex = 3, t_forceName = ''player'',
      t_sourceInstanceId = 1, t_sourceInstanceName = Some ''src'', t_targetInstanceId = 2,
      t_targetInstanceName = Some ''dst'', t_startedAt = 1000, t_status = AwaitingValidation,
      t_completedAt = None, t_failedAt = None, t_error = None, t_payloadMetrics = JNull,
      t_exportMetrics = JNull, t_importMetrics = JUndef, t_validationResult = JUndef, t_failedStage = None,
      t_sourceVerification = JUndef, t_validationTimeout = Some 0, t_armedValidationTimeoutMs = Some 30000,
      t_phases = [], t_metricsRecorded = False\<rparr>"

definition sample_plugin :: "active_transfer \<Rightarrow> plugin" where
  "sample_plugin t =
     \<lparr>clock = 2000, platformStorage = [], heap = [t], activeTransfers = [(''1:7'', 0)],
      platformDepartureTimes = [], transactionLogs = [], persistedTransactionLogs = [],
      surfaceExportSubscriptions = [], treeRevision = 0, transferRevision = 0, logRevision = 0,
      lastTreeForceName = ''player'', storageLoadError = None, consecutiveStorageWriteFailures = 0,
      auditIndex = [], auditRevisions = [], transactionLogLoadError = None, gatewayLinks = [],
      pendingTransfers = [], sourceCommitMarkers = [], instances = [], hosts = [], config = (\<lambda>_. Some JUndef),
      deadLinks = [], timers = [(0, 30000, ''1:7'')], nextTimer = 1, trace = []\<rparr>"

definition sample_verdict :: "bool \<Rightarrow> verdict" where
  "sample_verdict b =
     \<lparr>ve_transferId = ''1:7'', ve_platformName = ''Alpha'', ve_sourceInstanceId = 1, ve_success = b,
      ve_validation = JUndef, ve_metrics = JUndef\<rparr>"

text \<open>Every request is answered with success.\<close>

definition all_well :: "request \<Rightarrow> answer" where
  "all_well q = Resolved (JObj [(''success'', JBool True)])"

lemma sample_lookup [simp]:
  "jm_get (activeTransfers (sample_plugin t)) ''1:7'' = Some 0"
  "heap (sample_plugin t) = [t]" "transfer_at (sample_plugin t) 0 = t"
  "timers (sample_plugin t) = [(0, 30000, ''1:7'')]"
  "pendingTransfers (sample_plugin t) = []" "platformStorage (sample_plugin t) = []"
  by (simp_all add: sample_plugin_def transfer_at_def)

lemma sample_fields [simp]:
  "t_status sample_transfer = AwaitingValidation" "t_exportId sample_transfer = Some ''1:7''"
  "t_sourceInstanceId sample_transfer = 1" "t_platformIndex sample_transfer = 3"
  "ve_transferId (sample_verdict b) = ''1:7''" "ve_success (sample_verdict b) = b"
  "ve_validation (sample_verdict b) = JUndef"
  by (simp_all add: sample_transfer_def sample_verdict_def)

end
