(* ===== verification/Verdicts.thy ===== *)
theory Verdicts
  imports Protocol Samples
begin

text \<open>
  The status of a transfer stays \<open>awaiting_validation\<close> from the moment a verdict is accepted to the
  end of its handling, and the status is the only guard of \<open>handleTransferValidation\<close>. So a second
  verdict that arrives while the first is being settled is accepted too. The theory exhibits, from
  any state with a transfer awaiting validation, the run in which the timeout releases the source
  and the SUCCESS verdict deletes it.
\<close>

section \<open>A verdict that arrives while another is being settled\<close>

text \<open>
  One task resumed on its own is a run of the whole system.
\<close>

lemma resume_step:
  assumes "i < length ps" "ps ! i = Await q k" "k a w = (w', p)"
  shows "step (w, ps) (w', ps[i := p])"
  using Resume [OF assms(1,2), of w a] assms(3) by simp

text \<open>
  The two handlers up to the message that decides: two awaited status messages, then the request.
\<close>

definition resumes_silently :: "task \<Rightarrow> (plugin \<Rightarrow> plugin \<Rightarrow> bool) \<Rightarrow> bool" where
  "resumes_silently p R =
     (\<exists>q1 k1. p = Await q1 k1 \<and>
        (\<forall>w1. \<exists>m2 q2 k2. k1 (Resolved JUndef) w1 = (emit_effect (Requested m2) w1, Await q2 k2) \<and>
           (\<forall>w2. \<exists>w3 p3. k2 (Resolved JUndef) w2 = (w3, p3) \<and> R w2 w3)))"

lemma success_handler_deletes:
  assumes "ve_success ev"
  shows "resumes_silently (snd (replying f (settle r ev) w))
    (\<lambda>w2 w3. Requested (SendTo (t_sourceInstanceId (transfer_at w2 r)) (delete_message (transfer_at w2 r)))
       \<in> set (trace w3) \<and> set (trace w2) \<subseteq> set (trace w3) \<and> heap w3 = heap w2)"
  using assms
  by (simp add: resumes_silently_def replying_def settle_def handleValidationSuccess_def
      broadcastTransferStatus_def broadcast_one_def send_to_def await_value_def request_act_def
      act_run Let_def) blast

lemma trace_logTransactionEvent: "set (trace w) \<subseteq> set (trace (logTransactionEvent a b c d w))"
  using calm.logTransactionEvent [OF evolves_refl, of w a b c d] by (auto simp: evolves_def)

lemma transfer_at_log:
  assumes "r < length (heap w)"
  shows "t_sourceInstanceId (transfer_at (logTransactionEvent a b c d w) r) = t_sourceInstanceId (transfer_at w r)"
    "t_platformIndex (transfer_at (logTransactionEvent a b c d w) r) = t_platformIndex (transfer_at w r)"
proof -
  have "observed (\<lambda>t. (t_sourceInstanceId t, t_platformIndex t)) no_delete"
    using calm.silent by unfold_locales (simp_all add: ignores_bookkeeping_def)
  from observed.logTransactionEvent [OF this evolves_refl, of w a b c d] assms
  show "t_sourceInstanceId (transfer_at (logTransactionEvent a b c d w) r) = t_sourceInstanceId (transfer_at w r)"
    "t_platformIndex (transfer_at (logTransactionEvent a b c d w) r) = t_platformIndex (transfer_at w r)"
    by (simp_all add: evolves_def transfer_at_def)
qed

definition unlocks :: "int \<Rightarrow> int \<Rightarrow> effect \<Rightarrow> bool" where
  "unlocks source index e =
     (\<exists>name force. e = Requested (SendTo source (UnlockSourcePlatformRequest index name force)))"

definition deletes :: "int \<Rightarrow> int \<Rightarrow> effect \<Rightarrow> bool" where
  "deletes source index e =
     (\<exists>name force eid. e = Requested (SendTo source (DeleteSourcePlatformRequest index name force eid)))"

lemma failure_handler_unlocks:
  assumes "\<not> ve_success ev"
  shows "resumes_silently (snd (replying f (settle r ev) w))
    (\<lambda>w2 w3. r < length (heap w2) \<longrightarrow>
       (\<exists>e\<in>set (trace w3). unlocks (t_sourceInstanceId (transfer_at w2 r)) (t_platformIndex (transfer_at w2 r)) e)
       \<and> set (trace w2) \<subseteq> set (trace w3))"
proof -
  have u: "r < length (heap w2) \<Longrightarrow>
      unlocks (t_sourceInstanceId (transfer_at w2 r)) (t_platformIndex (transfer_at w2 r))
        (Requested (SendTo (t_sourceInstanceId (transfer_at (logTransactionEvent a b c d w2) r))
           (UnlockSourcePlatformRequest (t_platformIndex (transfer_at (logTransactionEvent a b c d w2) r)) n g)))"
    for w2 a b c d n g
    by (simp add: unlocks_def transfer_at_log)
  show ?thesis
    using assms u trace_logTransactionEvent
    by (simp add: resumes_silently_def replying_def settle_def handleValidationFailure_def
        broadcastTransferStatus_def broadcast_one_def send_to_def await_value_def request_act_def
        tryUnlockSource_def sendUnlockRequest_def js_int_def act_run Let_def) blast
qed

lemma run_Cons: "step s1 s2 \<Longrightarrow> step\<^sup>*\<^sup>* s2 s3 \<Longrightarrow> step\<^sup>*\<^sup>* s1 s3"
  by (rule converse_rtranclp_into_rtranclp)

lemma two_runs:
  assumes "resumes_silently p1 R1" "resumes_silently p2 R2"
  shows "\<exists>wa wb wc ps. step\<^sup>*\<^sup>* (w, [p1, p2]) (wc, ps) \<and> heap wa = heap w \<and> R2 wa wb \<and> R1 wb wc"
proof -
  obtain q1 k1 where p1: "p1 = Await q1 k1"
    and k1: "\<And>v. \<exists>m2 q2 k2. k1 (Resolved JUndef) v = (emit_effect (Requested m2) v, Await q2 k2) \<and>
           (\<forall>w2. \<exists>w3 p3. k2 (Resolved JUndef) w2 = (w3, p3) \<and> R1 w2 w3)"
    using assms(1) unfolding resumes_silently_def by blast
  obtain q2 k2 where p2: "p2 = Await q2 k2"
    and k2: "\<And>v. \<exists>m3 q3 k3. k2 (Resolved JUndef) v = (emit_effect (Requested m3) v, Await q3 k3) \<and>
           (\<forall>w2. \<exists>w3 p3. k3 (Resolved JUndef) w2 = (w3, p3) \<and> R2 w2 w3)"
    using assms(2) unfolding resumes_silently_def by blast
  obtain m2 q1' k1' where s1: "k1 (Resolved JUndef) w = (emit_effect (Requested m2) w, Await q1' k1')"
    and k1': "\<And>v. \<exists>w3 p3. k1' (Resolved JUndef) v = (w3, p3) \<and> R1 v w3"
    using k1 by blast
  define w1 where "w1 = emit_effect (Requested m2) w"
  obtain m3 q2' k2' where s2: "k2 (Resolved JUndef) w1 = (emit_effect (Requested m3) w1, Await q2' k2')"
    and k2': "\<And>v. \<exists>w3 p3. k2' (Resolved JUndef) v = (w3, p3) \<and> R2 v w3"
    using k2 by blast
  define wa where "wa = emit_effect (Requested m3) w1"
  obtain wb p2' where s3: "k2' (Resolved JUndef) wa = (wb, p2')" "R2 wa wb" using k2' by blast
  obtain wc p1' where s4: "k1' (Resolved JUndef) wb = (wc, p1')" "R1 wb wc" using k1' by blast
  have 1: "step (w, [p1, p2]) (w1, [Await q1' k1', p2])"
    using resume_step [of 0 "[p1, p2]" q1 k1 "Resolved JUndef" w] s1 p1 by (simp add: w1_def)
  have 2: "step (w1, [Await q1' k1', p2]) (wa, [Await q1' k1', Await q2' k2'])"
    using resume_step [of 1 "[Await q1' k1', p2]" q2 k2 "Resolved JUndef" w1] s2 p2 by (simp add: wa_def)
  have 3: "step (wa, [Await q1' k1', Await q2' k2']) (wb, [Await q1' k1', p2'])"
    using resume_step [of 1 "[Await q1' k1', Await q2' k2']" q2' k2' "Resolved JUndef" wa] s3 by simp
  have 4: "step (wb, [Await q1' k1', p2']) (wc, [p1', p2'])"
    using resume_step [of 0 "[Await q1' k1', p2']" q1' k1' "Resolved JUndef" wb] s4 by simp
  have "step\<^sup>*\<^sup>* (w, [p1, p2]) (wc, [p1', p2'])"
    by (rule run_Cons [OF 1], rule run_Cons [OF 2],
        rule run_Cons [OF 3], rule run_Cons [OF 4], rule rtranclp.rtrancl_refl)
  moreover have "heap wa = heap w" by (simp add: wa_def w1_def)
  ultimately show ?thesis using s3(2) s4(2) by blast
qed

lemma verdict_settles:
  assumes "jm_get (activeTransfers w) (ve_transferId ev) = Some r"
    and "t_status (transfer_at w r) = AwaitingValidation"
  shows "replying f (handleTransferValidation ev) w = replying f (settle r ev) (adopt_verdict r ev (log_verdict ev w))"
  using assms by (simp add: replying_def handleTransferValidation_def act_run)

text \<open>What the first segment of the failure handler leaves as it was.\<close>

definition same_awaiting :: "nat \<Rightarrow> plugin \<Rightarrow> plugin \<Rightarrow> bool" where
  "same_awaiting r w w' \<longleftrightarrow>
     activeTransfers w' = activeTransfers w \<and> r < length (heap w') \<and>
     t_status (transfer_at w' r) = t_status (transfer_at w r) \<and>
     t_sourceInstanceId (transfer_at w' r) = t_sourceInstanceId (transfer_at w r) \<and>
     t_platformIndex (transfer_at w' r) = t_platformIndex (transfer_at w r)"

interpretation status_seen: observed "\<lambda>t. (t_status t, t_sourceInstanceId t, t_platformIndex t)" no_delete
  using calm.silent by unfold_locales (simp_all add: ignores_bookkeeping_def)

lemma table_logTransactionEvent [simp]:
  "activeTransfers (logTransactionEvent a b c d w) = activeTransfers w"
proof -
  have "activeTransfers (emitLogUpdate t e v) = activeTransfers v" for t e v
    using quiet_emitLogUpdate [of t e] by (intro core_fields(1)) (simp add: quiet_def)
  then show ?thesis by (simp add: logTransactionEvent_def Let_def)
qed

lemma table_endPhase [simp]: "activeTransfers (snd (endPhase t p w)) = activeTransfers w"
  by (simp add: endPhase_def Let_def split: option.split)

lemma table_startPhase [simp]: "activeTransfers (startPhase t p w) = activeTransfers w"
  by (simp add: startPhase_def split: option.split)

lemma table_log_verdict [simp]: "activeTransfers (log_verdict ev w) = activeTransfers w"
  by (simp add: log_verdict_def Let_def case_prod_beta)

lemma table_adopt_verdict [simp]: "activeTransfers (adopt_verdict r ev w) = activeTransfers w"
  by (simp add: adopt_verdict_def clear_timeout_def Let_def split: option.split)

lemma same_awaiting_adopt:
  assumes "r < length (heap w)"
  shows "same_awaiting r w (adopt_verdict r ev (log_verdict ev w))"
proof -
  have "evolves (\<lambda>t. (t_status t, t_sourceInstanceId t, t_platformIndex t)) no_delete w
      (adopt_verdict r ev (log_verdict ev w))"
    unfolding adopt_verdict_def Let_def
    by (intro status_seen.clear_timeout evolves_upd status_seen.log_verdict evolves_refl) simp
  with assms show ?thesis by (auto simp: same_awaiting_def evolves_def transfer_at_def)
qed

lemma same_awaiting_log:
  assumes "r < length (heap w)"
  shows "same_awaiting r w (logTransactionEvent a b c d w)"
proof -
  have "evolves (\<lambda>t. (t_status t, t_sourceInstanceId t, t_platformIndex t)) no_delete w
      (logTransactionEvent a b c d w)"
    by (rule status_seen.logTransactionEvent [OF evolves_refl])
  with assms show ?thesis by (auto simp: same_awaiting_def evolves_def transfer_at_def)
qed

lemma same_awaiting_trans: "same_awaiting r u v \<Longrightarrow> same_awaiting r v w \<Longrightarrow> same_awaiting r u w"
  by (simp add: same_awaiting_def)

lemma failure_first_segment:
  assumes "\<not> ve_success ev" "r < length (heap w)"
  shows "same_awaiting r w (fst (replying f (settle r ev) w))"
proof -
  obtain m a b c d where "fst (replying f (settle r ev) w) = emit_effect (Requested m) (logTransactionEvent a b c d w)"
    using assms(1)
    by (simp add: replying_def settle_def handleValidationFailure_def broadcastTransferStatus_def
        broadcast_one_def send_to_def await_value_def request_act_def act_run Let_def)
  with same_awaiting_log [OF assms(2)] show ?thesis
    by (simp add: same_awaiting_def transfer_at_def)
qed

lemma success_first_segment:
  assumes "ve_success ev" "r < length (heap w)"
  shows "same_awaiting r w (fst (replying f (settle r ev) w))"
proof -
  obtain m where "fst (replying f (settle r ev) w) =
      emit_effect (Requested m) (startPhase (ve_transferId ev) ''cleanup'' w)"
    using assms(1)
    by (simp add: replying_def settle_def handleValidationSuccess_def broadcastTransferStatus_def
        broadcast_one_def send_to_def await_value_def request_act_def act_run Let_def)
  moreover have "evolves (\<lambda>t. (t_status t, t_sourceInstanceId t, t_platformIndex t)) no_delete w
      (startPhase (ve_transferId ev) ''cleanup'' w)"
    by (rule status_seen.startPhase [OF evolves_refl])
  ultimately show ?thesis using assms(2)
    by (auto simp: same_awaiting_def evolves_def transfer_at_def)
qed

lemma race_run:
  assumes "jm_get (activeTransfers w) tid = Some r" and "r < length (heap w)"
    and "t_status (transfer_at w r) = AwaitingValidation" and "(h, ms, tid) \<in> set (timers w)"
  shows "\<exists>w' ps e1 e2. step\<^sup>*\<^sup>* (w, []) (w', ps) \<and> e1 \<in> set (trace w') \<and> e2 \<in> set (trace w')
    \<and> unlocks (t_sourceInstanceId (transfer_at w r)) (t_platformIndex (transfer_at w r)) e1
    \<and> deletes (t_sourceInstanceId (transfer_at w r)) (t_platformIndex (transfer_at w r)) e2"
proof -
  let ?f = "\<lambda>_ :: unit. ReplyNone"
  define w0 where "w0 = logTransactionEvent tid ''validation_timeout''
     (''No validation response within '' @ seconds_text ms @ ''s ''
        @ ''(setting: surface_export.transfer_validation_timeout_seconds)'')
     [(''timeoutMs'', js_int ms)] (w\<lparr>timers := filter (\<lambda>e. fst e \<noteq> h) (timers w)\<rparr>)"
  define ev1 where "ev1 = timeout_verdict tid ms (transfer_at w r)"
  define ev2 where "ev2 = ev1\<lparr>ve_success := True\<rparr>"
  have ev: "ve_transferId ev1 = tid" "ve_transferId ev2 = tid" "\<not> ve_success ev1" "ve_success ev2"
    by (simp_all add: ev1_def ev2_def timeout_verdict_def)
  have a0: "same_awaiting r w w0"
    using same_awaiting_log [of r "w\<lparr>timers := filter (\<lambda>e. fst e \<noteq> h) (timers w)\<rparr>"] assms(2)
    by (simp add: w0_def same_awaiting_def transfer_at_def)
  define wA where "wA = adopt_verdict r ev1 (log_verdict ev1 w0)"
  have aA: "same_awaiting r w wA"
    using same_awaiting_trans [OF a0 same_awaiting_adopt] a0 by (simp add: wA_def same_awaiting_def)
  have d1: "handler_of (TimerFired h ms tid) w = replying ?f (settle r ev1) wA"
  proof -
    have "replying ?f (handleTransferValidation ev1) w0 = replying ?f (settle r ev1) wA"
      using verdict_settles [of w0 ev1 r] a0 assms by (simp add: ev wA_def same_awaiting_def)
    then show ?thesis
      using assms by (simp add: replying_def validationTimeoutFired_def act_run find_transfer_def
          transfer_at_def w0_def ev1_def)
  qed
  define w1 where "w1 = fst (replying ?f (settle r ev1) wA)"
  define p1 where "p1 = snd (replying ?f (settle r ev1) wA)"
  have a1: "same_awaiting r w w1"
    using same_awaiting_trans [OF aA failure_first_segment [OF ev(3)]] aA
    by (simp add: w1_def same_awaiting_def)
  have s1: "step (w, []) (w1, [p1])"
    using Deliver [of "TimerFired h ms tid" w "[]"] assms(4) d1 by (simp add: w1_def p1_def)
  define wB where "wB = adopt_verdict r ev2 (log_verdict ev2 w1)"
  have aB: "same_awaiting r w wB"
    using same_awaiting_trans [OF a1 same_awaiting_adopt] a1 by (simp add: wB_def same_awaiting_def)
  have d2: "handler_of (CallVerdict ev2) w1 = replying ?f (settle r ev2) wB"
    using verdict_settles [of w1 ev2 r] a1 assms by (simp add: ev wB_def same_awaiting_def)
  define w2 where "w2 = fst (replying ?f (settle r ev2) wB)"
  define p2 where "p2 = snd (replying ?f (settle r ev2) wB)"
  have a2: "same_awaiting r w w2"
    using same_awaiting_trans [OF aB success_first_segment [OF ev(4)]] aB
    by (simp add: w2_def same_awaiting_def)
  have s2: "step (w1, [p1]) (w2, [p1, p2])"
    using Deliver [of "CallVerdict ev2" w1 "[p1]"] d2 by (simp add: w2_def p2_def)
  from two_runs [OF failure_handler_unlocks [OF ev(3), where f = ?f and r = r and w = wA]
      success_handler_deletes [OF ev(4), where f = ?f and r = r and w = wB], of w2]
  obtain wa wb wc ps where run: "step\<^sup>*\<^sup>* (w2, [p1, p2]) (wc, ps)" and heap: "heap wa = heap w2"
    and del: "Requested (SendTo (t_sourceInstanceId (transfer_at wa r)) (delete_message (transfer_at wa r))) \<in> set (trace wb)"
      "heap wb = heap wa"
    and unl: "r < length (heap wb) \<longrightarrow> (\<exists>e\<in>set (trace wc). unlocks (t_sourceInstanceId (transfer_at wb r))
          (t_platformIndex (transfer_at wb r)) e) \<and> set (trace wb) \<subseteq> set (trace wc)"
    unfolding p1_def [symmetric] p2_def [symmetric] by blast
  have r: "r < length (heap wb)" and at: "transfer_at wa r = transfer_at w2 r" "transfer_at wb r = transfer_at w2 r"
    using heap del(2) a2 by (simp_all add: transfer_at_def same_awaiting_def)
  from unl r obtain e1 where e1: "e1 \<in> set (trace wc)"
    "unlocks (t_sourceInstanceId (transfer_at w r)) (t_platformIndex (transfer_at w r)) e1"
    and sub: "set (trace wb) \<subseteq> set (trace wc)"
    using at a2 by (auto simp: same_awaiting_def)
  define e2 where "e2 = Requested (SendTo (t_sourceInstanceId (transfer_at wa r)) (delete_message (transfer_at wa r)))"
  have "deletes (t_sourceInstanceId (transfer_at w r)) (t_platformIndex (transfer_at w r)) e2"
    using at a2 by (auto simp: e2_def deletes_def delete_message_def same_awaiting_def)
  moreover have "e2 \<in> set (trace wc)" using del(1) sub by (auto simp: e2_def)
  moreover have "step\<^sup>*\<^sup>* (w, []) (wc, ps)"
    by (rule run_Cons [OF s1], rule run_Cons [OF s2], rule run)
  ultimately show ?thesis using e1 by blast
qed


section \<open>Properties\<close>


lemma sample_initial: "initial (sample_plugin t, [])"
  by (simp add: initial_def sample_plugin_def refs_valid_def)

lemma sample_race:
  "\<exists>w' ps e1 e2. step\<^sup>*\<^sup>* (sample_plugin sample_transfer, []) (w', ps) \<and> e1 \<in> set (trace w') \<and> e2 \<in> set (trace w')
    \<and> unlocks 1 3 e1 \<and> deletes 1 3 e2"
  using race_run [of "sample_plugin sample_transfer" "''1:7''" 0 0 30000]
  by (simp add: sample_plugin_def sample_transfer_def transfer_at_def)




end
