(* ===== verification/Outcomes.thy ===== *)
theory Outcomes
  imports Protocol Samples
begin

text \<open>
  What a verdict makes of a transfer when its handler runs without another one in between, for
  every way the instances and the disk may answer: the record's final status, the requests that
  decide over the source platform, the stored export and the persisted intent.
\<close>

section \<open>What the bookkeeping leaves unchanged\<close>

text \<open>The requests that decide over the source platform.\<close>

definition decides :: "request \<Rightarrow> bool" where
  "decides q =
     (case q of SendTo i m \<Rightarrow>
        (case m of DeleteSourcePlatformRequest a b c d \<Rightarrow> True | UnlockSourcePlatformRequest a b c \<Rightarrow> True
         | _ \<Rightarrow> False)
      | _ \<Rightarrow> False)"

lemma decides_simps [simp]:
  "decides (SendTo i (DeleteSourcePlatformRequest a b c d))"
  "decides (SendTo i (UnlockSourcePlatformRequest a nm f))"
  "\<not> decides (SendTo i (TransferStatusUpdate x1 x2 x3 x4))"
  "\<not> decides (WriteDocument doc)" "\<not> decides (AppendAuditRow row)"
  by (simp_all add: decides_def)

definition decisions :: "plugin \<Rightarrow> request list" where
  "decisions w = filter decides (requests w)"

text \<open>A transfer without the bookkeeping of metrics and phases.\<close>

definition bare :: "active_transfer \<Rightarrow> active_transfer" where
  "bare t = t\<lparr>t_metricsRecorded := False, t_phases := []\<rparr>"

lemma bare_idem [simp]: "bare (bare t) = bare t" "bare (t\<lparr>t_metricsRecorded := b\<rparr>) = bare t"
  "bare (t\<lparr>t_phases := ps\<rparr>) = bare t"
  by (simp_all add: bare_def)

definition view ::
    "plugin \<Rightarrow> (string, nat) jsmap \<times> active_transfer list \<times> (string, pending_intent) jsmap
      \<times> (string, stored_export) jsmap \<times> string option \<times> int \<times> request list" where
  "view w = (activeTransfers w, map bare (heap w), pendingTransfers w, platformStorage w,
     storageLoadError w, clock w, decisions w)"

definition keeps :: "plugin \<Rightarrow> plugin \<Rightarrow> bool" where
  "keeps w w' = (view w' = view w)"

interpretation keeping: guarantee keeps
  by unfold_locales (simp_all add: keeps_def)

lemma keeps_trans: "keeps u v \<Longrightarrow> keeps v w \<Longrightarrow> keeps u w"
  by (rule keeping.trans)

lemma keeps_refl [simp, intro]: "keeps w w"
  by (rule keeping.refl)

lemma keepsD:
  assumes "keeps w w'"
  shows "activeTransfers w' = activeTransfers w" "pendingTransfers w' = pendingTransfers w"
    "platformStorage w' = platformStorage w" "clock w' = clock w" "decisions w' = decisions w"
    "length (heap w') = length (heap w)" "storageLoadError w' = storageLoadError w"
    "r < length (heap w) \<Longrightarrow> bare (transfer_at w' r) = bare (transfer_at w r)"
proof -
  have m: "map bare (heap w') = map bare (heap w)" using assms by (simp add: keeps_def view_def)
  then show "length (heap w') = length (heap w)" by (rule map_eq_imp_length_eq)
  then show "r < length (heap w) \<Longrightarrow> bare (transfer_at w' r) = bare (transfer_at w r)"
    using arg_cong [OF m, of "\<lambda>xs. xs ! r"] by (simp add: transfer_at_def)
qed (use assms in \<open>simp_all add: keeps_def view_def\<close>)

lemma bare_fields:
  assumes "bare t' = bare t"
  shows "t_status t' = t_status t" "t_error t' = t_error t" "t_exportId t' = t_exportId t"
    "t_sourceInstanceId t' = t_sourceInstanceId t" "t_platformIndex t' = t_platformIndex t"
    "t_platformName t' = t_platformName t" "t_forceName t' = t_forceName t"
    "t_sourceExportId t' = t_sourceExportId t" "t_transferId t' = t_transferId t"
proof -
  note f = assms [unfolded bare_def]
  show "t_status t' = t_status t" using arg_cong [OF f, of t_status] by simp
  show "t_error t' = t_error t" using arg_cong [OF f, of t_error] by simp
  show "t_exportId t' = t_exportId t" using arg_cong [OF f, of t_exportId] by simp
  show "t_sourceInstanceId t' = t_sourceInstanceId t" using arg_cong [OF f, of t_sourceInstanceId] by simp
  show "t_platformIndex t' = t_platformIndex t" using arg_cong [OF f, of t_platformIndex] by simp
  show "t_platformName t' = t_platformName t" using arg_cong [OF f, of t_platformName] by simp
  show "t_forceName t' = t_forceName t" using arg_cong [OF f, of t_forceName] by simp
  show "t_sourceExportId t' = t_sourceExportId t" using arg_cong [OF f, of t_sourceExportId] by simp
  show "t_transferId t' = t_transferId t" using arg_cong [OF f, of t_transferId] by simp
qed

lemma keeps_same:
  "keeps w w0 \<Longrightarrow> activeTransfers w' = activeTransfers w0 \<Longrightarrow> heap w' = heap w0 \<Longrightarrow>
    pendingTransfers w' = pendingTransfers w0 \<Longrightarrow> platformStorage w' = platformStorage w0 \<Longrightarrow>
    storageLoadError w' = storageLoadError w0 \<Longrightarrow> clock w' = clock w0 \<Longrightarrow> trace w' = trace w0 \<Longrightarrow>
    keeps w w'"
  by (simp add: keeps_def view_def decisions_def requests_def)

lemma keeps_upd: "keeps w w0 \<Longrightarrow> (\<And>t. bare (f t) = bare t) \<Longrightarrow> keeps w (upd_transfer r f w0)"
proof -
  assume f: "\<And>t. bare (f t) = bare t" and k: "keeps w w0"
  have "map bare ((heap w0)[r := f (heap w0 ! r)]) = map bare (heap w0)"
    by (cases "r < length (heap w0)") (simp_all add: map_update f list_update_same_conv list_update_beyond)
  with k show ?thesis
    by (simp add: keeps_def view_def decisions_def upd_transfer_def requests_def)
qed

lemma keeps_emit:
  "keeps w w0 \<Longrightarrow> (\<And>q. e = Requested q \<Longrightarrow> \<not> decides q) \<Longrightarrow> keeps w (emit_effect e w0)"
  by (auto simp: keeps_def view_def decisions_def emit_effect_def requests_def split: effect.splits)

lemma keeps_quiet:
  assumes "quiet u" "keeps w w0"
  shows "keeps w (u w0)"
proof -
  have c: "core (u w0) = core w0" and q: "requests (u w0) = requests w0"
    using assms(1) by (simp_all add: quiet_def)
  have "map bare (heap (u w0)) = map bare (heap w0)"
    using arg_cong [OF core_fields(17) [OF c], of "map bare"] by (simp add: comp_def)
  with c q assms(2) show ?thesis
    by (simp add: keeps_def view_def decisions_def core_fields [OF c])
qed

lemma keeps_log: "keeps w w0 \<Longrightarrow> keeps w (logTransactionEvent tid a b c w0)"
  unfolding logTransactionEvent_def Let_def
  by (rule keeps_quiet [OF quiet_emitLogUpdate], rule keeps_emit, erule keeps_same) simp_all

lemma keeps_updateTransfer: "keeps w w0 \<Longrightarrow> keeps w (updateTransfer r w0)"
  unfolding updateTransfer_def Let_def
  by (intro keeps_quiet [OF quiet_queueTreeBroadcast] keeps_quiet [OF quiet_emitTransferUpdate])

lemma keeps_startPhase: "keeps w w0 \<Longrightarrow> keeps w (startPhase tid ph w0)"
  by (auto simp: startPhase_def intro!: keeps_upd split: option.split)

lemma keeps_endPhase: "keeps w w0 \<Longrightarrow> keeps w (snd (endPhase tid ph w0))"
  by (auto simp: endPhase_def Let_def intro!: keeps_upd split: option.split)

lemma keeps_log_verdict: "keeps w w0 \<Longrightarrow> keeps w (log_verdict ev w0)"
  unfolding log_verdict_def Let_def case_prod_beta by (intro keeps_log keeps_endPhase)

lemma keeps_broadcastTree: "keeps w w0 \<Longrightarrow> keeps w (queueTreeBroadcast f w0)"
  by (rule keeps_quiet [OF quiet_queueTreeBroadcast])

lemmas keeps_sync = keeps_log keeps_updateTransfer keeps_startPhase keeps_endPhase keeps_log_verdict
  keeps_broadcastTree

lemma keeping_request: "\<not> decides q \<Longrightarrow> guar_act keeps (await_value q)"
  unfolding await_value_def request_act_def
  by (intro keeping.guar_bind keeping.guar_then keeping.guar_do keeping.guar_await keeps_emit)
    (auto split: answer.split intro: keeping.guar_return keeping.guar_throw)

lemma keeping_recordAuditRow: "guar_act keeps (recordAuditRow row)"
proof -
  have "keeps w (note_audit_row row w)" for w
    unfolding note_audit_row_def by (rule keeps_same) simp_all
  then show ?thesis
    unfolding recordAuditRow_def
    by (intro keeping.guar_try keeping.guar_bind keeping_request keeping.guar_do keeping.guar_return) simp_all
qed

lemma keeping_persistTransactionLog: "guar_act keeps (persistTransactionLog tid)"
proof -
  have set: "keeps w (pruneTransactionLogsMap rs (w\<lparr>persistedTransactionLogs := rs'\<rparr>))" for w rs rs'
    unfolding pruneTransactionLogsMap_def Let_def by (rule keeps_same) simp_all
  show ?thesis
    unfolding persistTransactionLog_def Let_def
    by (intro keeping.structural)
      (auto split: option.split prod.split
        intro!: keeping.structural keeping.guar_do set keeping_recordAuditRow keeping_request)
qed

lemma keeping_persistStorage: "guar_act keeps persistStorage"
  unfolding persistStorage_def
  by (intro keeping.structural keeping.guar_do keeping_request) (simp_all, (rule keeps_same, simp_all)+)

lemma keeping_broadcast: "guar_act keeps (broadcastTransferStatus r s c)"
  unfolding broadcastTransferStatus_def broadcast_one_def send_to_def Let_def
  by (intro keeping.structural keeping_request) simp_all

section \<open>Congruence\<close>

lemma keeps_sym: "keeps v w \<Longrightarrow> keeps w v"
  by (simp add: keeps_def)

lemma keeps_emit_cong: "keeps v w \<Longrightarrow> keeps (emit_effect e v) (emit_effect e w)"
  by (simp add: keeps_def view_def decisions_def emit_effect_def requests_def)

lemma keeps_upd_cong:
  assumes "keeps v w" and f: "\<And>t t'. bare t = bare t' \<Longrightarrow> bare (f t) = bare (f t')"
  shows "keeps (upd_transfer r f v) (upd_transfer r f w)"
proof -
  have m: "map bare (heap w) = map bare (heap v)" and l: "length (heap w) = length (heap v)"
    using assms(1) keepsD(6) [OF assms(1)] by (simp_all add: keeps_def view_def)
  have "map bare ((heap w)[r := f (heap w ! r)]) = map bare ((heap v)[r := f (heap v ! r)])"
  proof (cases "r < length (heap v)")
    case True
    have "bare (heap w ! r) = bare (heap v ! r)"
      using arg_cong [OF m, of "\<lambda>xs. xs ! r"] True l by simp
    then have "bare (f (heap w ! r)) = bare (f (heap v ! r))" by (rule f)
    then show ?thesis by (simp only: map_update m)
  qed (use m l in \<open>simp add: list_update_beyond\<close>)
  with assms(1) show ?thesis
    by (simp add: keeps_def view_def decisions_def upd_transfer_def requests_def)
qed

lemma keeps_storage_cong:
  "keeps v w \<Longrightarrow> keeps (v\<lparr>platformStorage := f (platformStorage v)\<rparr>) (w\<lparr>platformStorage := f (platformStorage w)\<rparr>)"
  by (simp add: keeps_def view_def decisions_def requests_def)

lemma keeps_drop_cong:
  assumes "keeps v w" "r < length (heap v)"
  shows "keeps (drop_stored_export r v) (drop_stored_export r w)"
proof -
  have e: "t_exportId (transfer_at w r) = t_exportId (transfer_at v r)"
    using bare_fields(3) keepsD(8) [OF assms] by blast
  show ?thesis
    using keeps_storage_cong [OF assms(1)] assms(1)
    by (auto simp: drop_stored_export_def e split: option.split)
qed

section \<open>Sequential runs\<close>

text \<open>Requests answered by a function of the request.\<close>

definition answering :: "(request \<Rightarrow> answer) \<Rightarrow> request \<Rightarrow> unit \<Rightarrow> answer \<times> unit" where
  "answering ans q u = (ans q, u)"

definition run_with :: "(request \<Rightarrow> answer) \<Rightarrow> 'r handler \<Rightarrow> plugin \<Rightarrow> (thrown + 'r) \<times> plugin" where
  "run_with ans m w = (let (res, w', u) = run_act (answering ans) m w () in (res, w'))"

lemma run_with_simps [run_laws]:
  "run_with ans (act_return r) s = (Inr r, s)"
  "run_with ans (act_throw e) s = (Inl e, s)"
  "run_with ans (act_do u) s = (Inr (), u s)"
  "run_with ans (act_sync v) s = (Inr (fst (v s)), snd (v s))"
  "run_with ans (act_get k) s = run_with ans (k s) s"
  "run_with ans (act_await q) s = (Inr (ans q), s)"
  "run_with ans (act_bind m g) s = (case run_with ans m s of
       (Inl e, s1) \<Rightarrow> (Inl e, s1) | (Inr r, s1) \<Rightarrow> run_with ans (g r) s1)"
  "run_with ans (act_then m n) s = (case run_with ans m s of
       (Inl e, s1) \<Rightarrow> (Inl e, s1) | (Inr r, s1) \<Rightarrow> run_with ans n s1)"
  "run_with ans (act_try m h) s = (case run_with ans m s of
       (Inl e, s1) \<Rightarrow> run_with ans (h e) s1 | (Inr r, s1) \<Rightarrow> (Inr r, s1))"
  by (simp_all add: run_with_def run_laws answering_def split: prod.split sum.split)

lemma run_with_keeps: "guar_act keeps m \<Longrightarrow> keeps w (snd (run_with ans m w))"
  using keeping.run_guar [of m w "answering ans" "()"]
  by (simp add: run_with_def case_prod_beta)

lemma run_send [run_laws]:
  "run_with ans (send_to i m) w =
    (case ans (SendTo i m) of Resolved v \<Rightarrow> Inr v | Rejected e \<Rightarrow> Inl e,
     emit_effect (Requested (SendTo i m)) w)"
  by (simp add: send_to_def await_value_def request_act_def run_laws split: answer.split)

lemma run_read_prop [run_laws]:
  "run_with ans (read_prop v k) w =
    (if is_nullish v then Inl (ErrorObject (''Cannot read properties of '' @ js_text v @ '' (reading '' @
             [CHR 0x27] @ k @ [CHR 0x27] @ '')'') None) else Inr (prop_get v k), w)"
  by (simp add: read_prop_def run_laws)

lemma run_persist:
  obtains w1 where "run_with ans (persistTransactionLog tid) w = (Inr (), w1)" "keeps w w1"
proof -
  have "fst (run_with ans (persistTransactionLog tid) w) = Inr ()"
    by (simp add: persistTransactionLog_def run_laws split: prod.split sum.split)
  then show ?thesis
    using that run_with_keeps [OF keeping_persistTransactionLog] by (metis prod.collapse)
qed

lemma run_persistStorage:
  obtains w1 where "run_with ans persistStorage w = (Inr (), w1)" "keeps w w1"
proof -
  have "fst (run_with ans persistStorage w) = Inr ()"
    by (simp add: persistStorage_def run_laws split: prod.split sum.split)
  then show ?thesis
    using that run_with_keeps [OF keeping_persistStorage] by (metis prod.collapse)
qed

lemma run_broadcast:
  obtains w1 where "run_with ans (broadcastTransferStatus r s c) w = (Inr (), w1)" "keeps w w1"
proof -
  have "fst (run_with ans (broadcastTransferStatus r s c) w) = Inr ()"
    by (simp add: broadcastTransferStatus_def broadcast_one_def run_laws Let_def split: answer.split)
  then show ?thesis
    using that run_with_keeps [OF keeping_broadcast] by (metis prod.collapse)
qed

text \<open>What an answer to the unlock request means.\<close>

definition unlock_error :: "answer \<Rightarrow> string option" where
  "unlock_error a =
     (case a of
        Resolved v \<Rightarrow>
          if truthy (prop_get v ''success'') then None
          else let err = ostr_or (str_field v ''error'') ''Unknown unlock error''
               in if isBenignUnlockError err then None else Some err
      | Rejected e \<Rightarrow> Some (getErrorMessage e))"

lemma index_is_number [simp]: "coercePlatformIndex (js_int i) \<noteq> None"
  by (simp add: coercePlatformIndex_def js_int_def is_integer_def)

lemma run_unlock:
  "run_with ans (sendUnlockRequest i idx f n) w =
    (Inr (unlock_error (ans (SendTo i (UnlockSourcePlatformRequest idx n f)))),
     emit_effect (Requested (SendTo i (UnlockSourcePlatformRequest idx n f))) w)"
  by (simp add: sendUnlockRequest_def run_laws unlock_error_def Let_def split: answer.split)

definition unlock_request :: "active_transfer \<Rightarrow> request" where
  "unlock_request t = SendTo (t_sourceInstanceId t)
     (UnlockSourcePlatformRequest (t_platformIndex t) (Some (t_platformName t)) (str_or (t_forceName t) ''player''))"

lemma run_tryUnlock:
  assumes "r < length (heap w)"
  obtains w1 where
    "run_with ans (tryUnlockSource tid r) w = (Inr (unlock_error (ans (unlock_request (transfer_at w r)))), w1)"
    "keeps (emit_effect (Requested (unlock_request (transfer_at w r))) w) w1"
proof -
  define w0 where "w0 = logTransactionEvent tid ''rollback_attempt'' ''Unlocking source platform'' [] w"
  have k: "keeps w w0" unfolding w0_def by (rule keeps_log) simp
  have u: "unlock_request (transfer_at w0 r) = unlock_request (transfer_at w r)"
    using bare_fields [OF keepsD(8) [OF k assms]] by (simp add: unlock_request_def)
  note send = run_unlock [of ans "t_sourceInstanceId (transfer_at w0 r)" "t_platformIndex (transfer_at w0 r)"
      "str_or (t_forceName (transfer_at w0 r)) ''player''" "Some (t_platformName (transfer_at w0 r))" w0,
      folded unlock_request_def, unfolded u]
  have e: "keeps (emit_effect (Requested (unlock_request (transfer_at w r))) w)
      (emit_effect (Requested (unlock_request (transfer_at w r))) w0)"
    by (rule keeps_emit_cong [OF k])
  show ?thesis
  proof (cases "unlock_error (ans (unlock_request (transfer_at w r)))")
    case None
    then show ?thesis
      using that keeps_log [OF e] send
      by (simp add: tryUnlockSource_def run_laws Let_def w0_def [symmetric])
  next
    case (Some err)
    then show ?thesis
      using that keeps_log [OF e] send
      by (simp add: tryUnlockSource_def run_laws Let_def w0_def [symmetric])
  qed
qed

section \<open>The SUCCESS handler\<close>

definition delete_request :: "active_transfer \<Rightarrow> request" where
  "delete_request t = SendTo (t_sourceInstanceId t) (delete_message t)"

lemma delete_request_bare: "bare t' = bare t \<Longrightarrow> delete_request t' = delete_request t"
  using bare_fields [of t' t] by (simp add: delete_request_def delete_message_def)

lemma unlock_request_bare: "bare t' = bare t \<Longrightarrow> unlock_request t' = unlock_request t"
  using bare_fields [of t' t] by (simp add: unlock_request_def)

lemma decides_requests [simp]: "decides (delete_request t)" "decides (unlock_request t)"
  by (simp_all add: delete_request_def delete_message_def unlock_request_def)

text \<open>How the record ends, by the answer to the deletion.\<close>

definition success_end :: "answer \<Rightarrow> int \<Rightarrow> active_transfer \<Rightarrow> active_transfer" where
  "success_end a now t =
     (case a of
        Resolved v \<Rightarrow>
          if truthy (prop_get v ''success'') then t\<lparr>t_status := Completed, t_completedAt := Some now\<rparr>
          else t\<lparr>t_status := CleanupFailed, t_error := str_field v ''error''\<rparr>
      | Rejected e \<Rightarrow> t)"

lemma success_end_bare: "bare t = bare t' \<Longrightarrow> bare (success_end a now t) = bare (success_end a now t')"
  by (cases t; cases t') (auto simp: success_end_def bare_def split: answer.split)

text \<open>An answer that is no object: reading its \<open>success\<close> throws.\<close>

definition unreadable :: "answer \<Rightarrow> bool" where
  "unreadable a = (case a of Resolved v \<Rightarrow> is_nullish v | Rejected e \<Rightarrow> True)"

definition deleted :: "answer \<Rightarrow> bool" where
  "deleted a = (case a of Resolved v \<Rightarrow> \<not> is_nullish v \<and> truthy (prop_get v ''success'') | Rejected e \<Rightarrow> False)"

lemma run_success_sent:
  assumes r: "r < length (heap w)"
  obtains w1 where
    "run_with ans (handleValidationSuccess tid r) w =
       (case ans (delete_request (transfer_at w r)) of
          Rejected e \<Rightarrow> (Inl e, emit_effect (Requested (delete_request (transfer_at w r))) w1)
        | Resolved v \<Rightarrow> run_with ans (delete_answered tid r v)
              (emit_effect (Requested (delete_request (transfer_at w r))) w1))"
    "keeps w w1"
proof -
  obtain w1 where b: "run_with ans (broadcastTransferStatus r deleting_text (Some ''green''))
        (startPhase tid ''cleanup'' w) = (Inr (), w1)"
    and k0: "keeps (startPhase tid ''cleanup'' w) w1"
    by (rule run_broadcast)
  have k: "keeps w w1" by (rule keeps_trans [OF _ k0]) (rule keeps_startPhase, simp)
  have d: "SendTo (t_sourceInstanceId (transfer_at w1 r)) (delete_message (transfer_at w1 r))
      = delete_request (transfer_at w r)"
    using delete_request_bare [OF keepsD(8) [OF k r]] by (simp add: delete_request_def)
  show ?thesis
    by (rule that [OF _ k])
      (simp add: handleValidationSuccess_def run_laws b d Let_def split: answer.split)
qed

lemma keeps_completed:
  "keeps (upd_transfer r (success_end (Resolved v) (clock w)) w) (transfer_completed tid r ms w)"
  if "truthy (prop_get v ''success'')"
proof -
  have e: "success_end (Resolved v) (clock w) = (\<lambda>t. t\<lparr>t_status := Completed, t_completedAt := Some (clock w)\<rparr>)"
    using that by (simp add: success_end_def fun_eq_iff)
  show ?thesis
    unfolding e transfer_completed_def Let_def by (intro keeps_updateTransfer keeps_log keeps_refl)
qed

lemma keeps_upd_end:
  "keeps v w \<Longrightarrow> keeps (upd_transfer r (success_end a now) v) (upd_transfer r (success_end a now) w)"
  by (erule keeps_upd_cong) (rule success_end_bare)

lemma run_delete_answered:
  assumes r: "r < length (heap w)"
  obtains w' where "snd (run_with ans (delete_answered tid r v) w) = w'"
    "is_nullish v \<Longrightarrow> (\<exists>e. fst (run_with ans (delete_answered tid r v) w) = Inl e) \<and> keeps w w'"
    "\<not> is_nullish v \<Longrightarrow> truthy (prop_get v ''success'') \<Longrightarrow>
        fst (run_with ans (delete_answered tid r v) w) = Inr True
        \<and> keeps (drop_stored_export r (upd_transfer r (success_end (Resolved v) (clock w)) w)) w'"
    "\<not> is_nullish v \<Longrightarrow> \<not> truthy (prop_get v ''success'') \<Longrightarrow>
        fst (run_with ans (delete_answered tid r v) w) = Inr False
        \<and> keeps (upd_transfer r (success_end (Resolved v) (clock w)) w) w'"
proof -
  define w2 where "w2 = snd (endPhase tid ''cleanup'' w)"
  have k2: "keeps w w2" unfolding w2_def by (rule keeps_endPhase) simp
  have c2: "clock w2 = clock w" using keepsD(4) [OF k2] by simp
  consider "is_nullish v" | "\<not> is_nullish v" "truthy (prop_get v ''success'')"
    | "\<not> is_nullish v" "\<not> truthy (prop_get v ''success'')" by blast
  then show ?thesis
  proof cases
    case 1
    then show ?thesis using k2
      by (intro that [OF refl]) (simp_all add: delete_answered_def run_laws w2_def)
  next
    case 2
    define w3 where "w3 = transfer_completed tid r (fst (endPhase tid ''cleanup'' w)) w2"
    have k3: "keeps (upd_transfer r (success_end (Resolved v) (clock w)) w) w3"
      using keeps_trans [OF keeps_upd_end [OF k2] keeps_completed [OF 2(2)]] c2 unfolding w3_def by simp
    obtain w4 where b: "run_with ans (broadcastTransferStatus r complete_text (Some ''green'')) w3 = (Inr (), w4)"
      and k4: "keeps w3 w4" by (rule run_broadcast)
    obtain w5 where p: "run_with ans (persistTransactionLog tid) w4 = (Inr (), w5)" and k5: "keeps w4 w5"
      by (rule run_persist)
    obtain w6 where s: "run_with ans persistStorage (drop_stored_export r w5) = (Inr (), w6)"
      and k6: "keeps (drop_stored_export r w5) w6" by (rule run_persistStorage)
    let ?w' = "queueTreeBroadcast (str_or (t_forceName (transfer_at w6 r)) ''player'') w6"
    have "keeps (drop_stored_export r (upd_transfer r (success_end (Resolved v) (clock w)) w))
        (drop_stored_export r w5)"
      by (rule keeps_drop_cong [OF keeps_trans [OF keeps_trans [OF k3 k4] k5]]) (simp add: r)
    then have "keeps (drop_stored_export r (upd_transfer r (success_end (Resolved v) (clock w)) w)) ?w'"
      by (intro keeps_broadcastTree) (rule keeps_trans [OF _ k6])
    moreover have "run_with ans (delete_answered tid r v) w = (Inr True, ?w')"
      using 2 b p s unfolding w3_def w2_def by (simp add: delete_answered_def run_laws)
    ultimately show ?thesis using 2 by (intro that [OF refl]) simp_all
  next
    case 3
    define w3 where "w3 = updateTransfer r (upd_transfer r
        (\<lambda>t. t\<lparr>t_status := CleanupFailed, t_error := str_field v ''error''\<rparr>) w2)"
    have e: "success_end (Resolved v) (clock w) = (\<lambda>t. t\<lparr>t_status := CleanupFailed, t_error := str_field v ''error''\<rparr>)"
      using 3 by (simp add: success_end_def fun_eq_iff)
    have k3: "keeps (upd_transfer r (success_end (Resolved v) (clock w)) w) w3"
      unfolding w3_def e [symmetric] by (rule keeps_updateTransfer, rule keeps_upd_end, rule k2)
    obtain w4 where b: "run_with ans (broadcastTransferStatus r (cleanup_text (prop_get v ''error''))
        (Some ''yellow'')) w3 = (Inr (), w4)" and k4: "keeps w3 w4" by (rule run_broadcast)
    have "run_with ans (delete_answered tid r v) w = (Inr False, w4)"
      using 3 b unfolding w3_def w2_def by (simp add: delete_answered_def run_laws)
    with keeps_trans [OF k3 k4] show ?thesis using 3 by (intro that [OF refl]) simp_all
  qed
qed

lemma run_success:
  assumes r: "r < length (heap w)"
  defines "q \<equiv> delete_request (transfer_at w r)"
  obtains w' where "snd (run_with ans (handleValidationSuccess tid r) w) = w'"
    "unreadable (ans q) \<Longrightarrow> (\<exists>e. fst (run_with ans (handleValidationSuccess tid r) w) = Inl e)
        \<and> keeps (emit_effect (Requested q) w) w'"
    "deleted (ans q) \<Longrightarrow> fst (run_with ans (handleValidationSuccess tid r) w) = Inr True
        \<and> keeps (drop_stored_export r (upd_transfer r (success_end (ans q) (clock w)) (emit_effect (Requested q) w))) w'"
    "\<not> unreadable (ans q) \<Longrightarrow> \<not> deleted (ans q) \<Longrightarrow>
        fst (run_with ans (handleValidationSuccess tid r) w) = Inr False
        \<and> keeps (upd_transfer r (success_end (ans q) (clock w)) (emit_effect (Requested q) w)) w'"
proof -
  from run_success_sent [OF r, where ans = ans and tid = tid, folded q_def]
  obtain w1 where run: "run_with ans (handleValidationSuccess tid r) w =
       (case ans q of
          Rejected e \<Rightarrow> (Inl e, emit_effect (Requested q) w1)
        | Resolved v \<Rightarrow> run_with ans (delete_answered tid r v) (emit_effect (Requested q) w1))"
    and k: "keeps w w1" by blast
  let ?v = "emit_effect (Requested q) w" and ?v1 = "emit_effect (Requested q) w1"
  have k1: "keeps ?v ?v1" by (rule keeps_emit_cong [OF k])
  have c1: "clock ?v1 = clock w" and r1: "r < length (heap ?v1)"
    using keepsD(4,6) [OF k] r by simp_all
  show ?thesis
  proof (cases "ans q")
    case (Rejected e)
    then show ?thesis using k1 run by (intro that [OF refl]) (simp_all add: unreadable_def deleted_def)
  next
    case (Resolved v)
    have u: "keeps (upd_transfer r (success_end (Resolved v) (clock w)) ?v)
        (upd_transfer r (success_end (Resolved v) (clock ?v1)) ?v1)"
      unfolding c1 by (rule keeps_upd_end [OF k1])
    have d: "keeps (drop_stored_export r (upd_transfer r (success_end (Resolved v) (clock w)) ?v))
        (drop_stored_export r (upd_transfer r (success_end (Resolved v) (clock ?v1)) ?v1))"
      by (rule keeps_drop_cong [OF u]) (simp add: r)
    obtain w' where w': "snd (run_with ans (delete_answered tid r v) ?v1) = w'"
      "is_nullish v \<Longrightarrow> (\<exists>e. fst (run_with ans (delete_answered tid r v) ?v1) = Inl e) \<and> keeps ?v1 w'"
      "\<not> is_nullish v \<Longrightarrow> truthy (prop_get v ''success'') \<Longrightarrow>
          fst (run_with ans (delete_answered tid r v) ?v1) = Inr True
          \<and> keeps (drop_stored_export r (upd_transfer r (success_end (Resolved v) (clock ?v1)) ?v1)) w'"
      "\<not> is_nullish v \<Longrightarrow> \<not> truthy (prop_get v ''success'') \<Longrightarrow>
          fst (run_with ans (delete_answered tid r v) ?v1) = Inr False
          \<and> keeps (upd_transfer r (success_end (Resolved v) (clock ?v1)) ?v1) w'"
      by (rule run_delete_answered [OF r1, where ans = ans and tid = tid and v = v]) blast
    show ?thesis
    proof (rule that [of w'])
      show "snd (run_with ans (handleValidationSuccess tid r) w) = w'"
        using w'(1) run Resolved by simp
    qed (use w'(2-4) run Resolved keeps_trans [OF k1] keeps_trans [OF u] keeps_trans [OF d] in
        \<open>auto simp: unreadable_def deleted_def\<close>)
  qed
qed

section \<open>The FAILURE handler\<close>

definition failure_end :: "jsval \<Rightarrow> string option \<Rightarrow> int \<Rightarrow> active_transfer \<Rightarrow> active_transfer" where
  "failure_end v rollbackError now t =
     t\<lparr>t_status := (if ostr_truthy (cleanup_error_of v) \<noteq> None then CleanupFailed else Failed),
       t_error := Some (join_truthy ''; '' [Some (mismatch_text v), rollbackError, cleanup_error_of v]),
       t_completedAt := Some now\<rparr>"

lemma failure_end_bare: "bare t = bare t' \<Longrightarrow> bare (failure_end v e now t) = bare (failure_end v e now t')"
  by (cases t; cases t') (auto simp: failure_end_def bare_def)

lemma keeps_failed: "keeps (upd_transfer r (failure_end v e (clock w)) w) (transfer_failed tid r v e w)"
  unfolding transfer_failed_def Let_def failure_end_def
  by (intro keeps_updateTransfer keeps_log keeps_refl)

lemma run_failure:
  assumes r: "r < length (heap w)"
  defines "q \<equiv> unlock_request (transfer_at w r)"
  obtains w' where
    "run_with ans (handleValidationFailure tid r v) w = (Inr (unlock_error (ans q) = None), w')"
    "keeps (upd_transfer r (failure_end v (unlock_error (ans q)) (clock w)) (emit_effect (Requested q) w)) w'"
proof -
  define w0 where "w0 = logTransactionEvent tid ''validation_failed'' (failed_text v)
                 [(''validation'', v)] w"
  have k0: "keeps w w0" unfolding w0_def by (rule keeps_log) simp
  obtain w1 where b1: "run_with ans (broadcastTransferStatus r rolling_back_text (Some ''red'')) w0 = (Inr (), w1)"
    and k1: "keeps w0 w1" by (rule run_broadcast)
  have k01: "keeps w w1" by (rule keeps_trans [OF k0 k1])
  have r1: "r < length (heap w1)" using keepsD(6) [OF k01] r by simp
  have q: "unlock_request (transfer_at w1 r) = q"
    using bare_fields [OF keepsD(8) [OF k01 r]] by (simp add: q_def unlock_request_def)
  obtain w2 where u: "run_with ans (tryUnlockSource tid r) w1 = (Inr (unlock_error (ans q)), w2)"
    and k2: "keeps (emit_effect (Requested q) w1) w2"
    using run_tryUnlock [OF r1, where ans = ans and tid = tid] unfolding q by blast
  obtain w3 where b2: "run_with ans (broadcastTransferStatus r (rolled_back_text v (unlock_error (ans q))) (Some ''red'')) w2
      = (Inr (), w3)" and k3: "keeps w2 w3" by (rule run_broadcast)
  obtain w5 where p: "run_with ans (persistTransactionLog tid) (transfer_failed tid r v (unlock_error (ans q)) w3)
      = (Inr (), w5)" and k5: "keeps (transfer_failed tid r v (unlock_error (ans q)) w3) w5" by (rule run_persist)
  have k: "keeps (emit_effect (Requested q) w) w3"
    by (rule keeps_trans [OF keeps_trans [OF keeps_emit_cong [OF k01] k2] k3])
  have "clock w3 = clock w" using keepsD(4) [OF k] by simp
  moreover have "keeps (upd_transfer r (failure_end v (unlock_error (ans q)) (clock w)) (emit_effect (Requested q) w))
      (upd_transfer r (failure_end v (unlock_error (ans q)) (clock w)) w3)"
    by (rule keeps_upd_cong [OF k]) (rule failure_end_bare)
  ultimately have "keeps (upd_transfer r (failure_end v (unlock_error (ans q)) (clock w)) (emit_effect (Requested q) w)) w5"
    using keeps_trans [OF keeps_trans [OF _ keeps_failed] k5] by metis
  moreover have "run_with ans (handleValidationFailure tid r v) w = (Inr (unlock_error (ans q) = None), w5)"
    by (simp add: handleValidationFailure_def run_laws w0_def [symmetric] b1 u b2 p)
  ultimately show ?thesis by (rule that [rotated])
qed

section \<open>Adopting and settling a verdict\<close>

lemma adopt_frame [simp]:
  "pendingTransfers (adopt_verdict r ev w) = pendingTransfers w"
  "platformStorage (adopt_verdict r ev w) = platformStorage w"
  "clock (adopt_verdict r ev w) = clock w"
  "requests (adopt_verdict r ev w) = requests w"
  "length (heap (adopt_verdict r ev w)) = length (heap w)"
  by (simp_all add: adopt_verdict_def clear_timeout_def requests_def Let_def split: option.split)

lemma adopt_transfer [simp]:
  assumes "r < length (heap w)"
  shows "t_exportId (transfer_at (adopt_verdict r ev w) r) = t_exportId (transfer_at w r)"
    "delete_request (transfer_at (adopt_verdict r ev w) r) = delete_request (transfer_at w r)"
    "unlock_request (transfer_at (adopt_verdict r ev w) r) = unlock_request (transfer_at w r)"
  using assms
  by (auto simp: adopt_verdict_def clear_timeout_def Let_def transfer_at_def upd_transfer_def delete_request_def
      delete_message_def unlock_request_def split: option.split)

lemma prune_frame [simp]:
  "pendingTransfers (pruneOldTransfers w) = pendingTransfers w"
  "platformStorage (pruneOldTransfers w) = platformStorage w"
  "requests (pruneOldTransfers w) = requests w" "heap (pruneOldTransfers w) = heap w"
  by (simp_all add: pruneOldTransfers_def requests_def)

lemma remove_pending_frame [simp]:
  "pendingTransfers (removePendingTransfer tid w) = jm_delete (pendingTransfers w) tid"
  "platformStorage (removePendingTransfer tid w) = platformStorage w"
  "requests (removePendingTransfer tid w) = requests w" "heap (removePendingTransfer tid w) = heap w"
  by (auto simp: removePendingTransfer_def Let_def jm_delete_absent, simp add: requests_def)

lemma decisions_emit [simp]: "decisions (emit_effect (Requested q) w) = decisions w @ (if decides q then [q] else [])"
  by (simp add: decisions_def)

lemma decisions_frame [simp]:
  "decisions (upd_transfer r f w) = decisions w" "decisions (pruneOldTransfers w) = decisions w"
  "decisions (removePendingTransfer tid w) = decisions w"
  by (simp_all add: decisions_def)

section \<open>Properties\<close>

text \<open>
  The outcome of a run: it ends normally, decides over the source by exactly the request \<open>q\<close>, and
  leaves the record, the persisted intents and the stored exports as given.
\<close>

definition settled_as ::
    "(thrown + unit) \<times> plugin \<Rightarrow> nat \<Rightarrow> plugin \<Rightarrow> request \<Rightarrow> status
      \<Rightarrow> (string, pending_intent) jsmap \<Rightarrow> (string, stored_export) jsmap \<Rightarrow> bool" where
  "settled_as out r w q st pend stored \<longleftrightarrow>
     fst out = Inr () \<and> decisions (snd out) = decisions w @ [q]
     \<and> t_status (transfer_at (snd out) r) = st
     \<and> pendingTransfers (snd out) = pend \<and> platformStorage (snd out) = stored"

lemma settle_throws:
  assumes r: "r < length (heap w)" and ev: "ve_success ev" and q: "decides q"
    and out: "run_with ans (handleValidationSuccess (ve_transferId ev) r) w = (Inl e, w1)"
    and k: "keeps (emit_effect (Requested q) w) w1"
  shows "settled_as (run_with ans (settle r ev) w) r w q Errored (pendingTransfers w) (platformStorage w)"
proof -
  define w2 where "w2 = updateTransfer r (upd_transfer r
       (\<lambda>t. t\<lparr>t_status := Errored, t_error := Some (getErrorMessage e)\<rparr>) w1)"
  obtain w3 where b: "run_with ans (broadcastTransferStatus r (''Error: '' @ getErrorMessage e) (Some ''red'')) w2
      = (Inr (), w3)" and k3: "keeps w2 w3" by (rule run_broadcast)
  have k2: "keeps (upd_transfer r (\<lambda>t. t\<lparr>t_status := Errored, t_error := Some (getErrorMessage e)\<rparr>) w1) w3"
    by (rule keeps_trans [OF _ k3]) (unfold w2_def, rule keeps_updateTransfer, simp)
  have "run_with ans (settle r ev) w = (Inr (), w3)"
    using b by (simp add: settle_def ev run_laws out w2_def)
  moreover have "t_status (transfer_at w3 r) = Errored"
    using bare_fields(1) [OF keepsD(8) [OF k2]] keepsD(6) [OF k] r by simp
  ultimately show ?thesis
    using keepsD(2,3,5) [OF k] keepsD(2,3,5) [OF k2] q by (simp add: settled_as_def)
qed

lemma settle_returns:
  assumes r: "r < length (heap w)" and ev: "ve_success ev" and q: "decides q"
    and out: "run_with ans (handleValidationSuccess (ve_transferId ev) r) w = (Inr resolved, w1)"
    and k: "keeps u w1" and u: "decisions u = decisions (emit_effect (Requested q) w)" "r < length (heap u)"
  shows "settled_as (run_with ans (settle r ev) w) r w q (t_status (transfer_at u r))
    (if resolved then jm_delete (pendingTransfers u) (ve_transferId ev) else pendingTransfers u) (platformStorage u)"
proof -
  define w2 where "w2 = pruneOldTransfers (if resolved then removePendingTransfer (ve_transferId ev) w1 else w1)"
  have "run_with ans (settle r ev) w = (Inr (), w2)"
    by (simp add: settle_def ev run_laws out w2_def)
  moreover have "transfer_at w2 r = transfer_at w1 r" by (simp add: w2_def transfer_at_def)
  moreover have "t_status (transfer_at w1 r) = t_status (transfer_at u r)"
    by (rule bare_fields(1) [OF keepsD(8) [OF k u(2)]])
  ultimately show ?thesis
    using keepsD(2,3,5) [OF k] u q by (simp add: settled_as_def w2_def)
qed

lemma drop_frame [simp]:
  "transfer_at (drop_stored_export r u) = transfer_at u"
  "length (heap (drop_stored_export r u)) = length (heap u)" "decisions (drop_stored_export r u) = decisions u"
  "pendingTransfers (drop_stored_export r u) = pendingTransfers u"
  by (auto simp: drop_stored_export_def transfer_at_def decisions_def requests_def split: option.split)

definition without_export :: "active_transfer \<Rightarrow> (string, stored_export) jsmap \<Rightarrow> (string, stored_export) jsmap" where
  "without_export t m = (case ostr_truthy (t_exportId t) of None \<Rightarrow> m | Some e \<Rightarrow> jm_delete m e)"

lemma run_settle_success:
  assumes r: "r < length (heap w)" and ev: "ve_success ev"
  defines "t \<equiv> transfer_at w r"
  shows "settled_as (run_with ans (settle r ev) w) r w (delete_request t)
     (if unreadable (ans (delete_request t)) then Errored
      else if deleted (ans (delete_request t)) then Completed else CleanupFailed)
     (if deleted (ans (delete_request t)) then jm_delete (pendingTransfers w) (ve_transferId ev) else pendingTransfers w)
     (if deleted (ans (delete_request t)) then without_export t (platformStorage w) else platformStorage w)"
proof -
  let ?q = "delete_request t" and ?h = "run_with ans (handleValidationSuccess (ve_transferId ev) r) w"
  let ?v = "emit_effect (Requested ?q) w"
  obtain w1 where w1: "snd ?h = w1"
    and err: "unreadable (ans ?q) \<Longrightarrow> (\<exists>e. fst ?h = Inl e) \<and> keeps ?v w1"
    and gone: "deleted (ans ?q) \<Longrightarrow> fst ?h = Inr True
        \<and> keeps (drop_stored_export r (upd_transfer r (success_end (ans ?q) (clock w)) ?v)) w1"
    and kept: "\<not> unreadable (ans ?q) \<Longrightarrow> \<not> deleted (ans ?q) \<Longrightarrow>
        fst ?h = Inr False \<and> keeps (upd_transfer r (success_end (ans ?q) (clock w)) ?v) w1"
    by (rule run_success [OF r, where ans = ans and tid = "ve_transferId ev", folded t_def]) blast
  have run: "?h = (fst ?h, w1)" by (simp add: w1 [symmetric])
  have r': "r < length (heap ?v)" and at: "transfer_at ?v r = t" using r by (simp_all add: t_def transfer_at_def)
  consider "unreadable (ans ?q)" | "deleted (ans ?q)" | "\<not> unreadable (ans ?q)" "\<not> deleted (ans ?q)" by blast
  then show ?thesis
  proof cases
    case 1
    then obtain e where "?h = (Inl e, w1)" and k: "keeps ?v w1" using err run by fastforce
    moreover have "\<not> deleted (ans ?q)" using 1 by (auto simp: unreadable_def deleted_def split: answer.splits)
    ultimately show ?thesis using settle_throws [OF r ev _ _ k] 1 by simp
  next
    case 2
    have h: "?h = (Inr True, w1)" using 2 gone run by metis
    have e: "t_status (success_end (ans ?q) (clock w) t') = Completed"
      "t_exportId (success_end (ans ?q) (clock w) t') = t_exportId t'" for t'
      using 2 by (auto simp: success_end_def deleted_def split: answer.splits)
    have "\<not> unreadable (ans ?q)" using 2 by (auto simp: unreadable_def deleted_def split: answer.splits)
    moreover have "platformStorage (drop_stored_export r (upd_transfer r (success_end (ans ?q) (clock w)) ?v))
        = without_export t (platformStorage w)"
      using r' at by (simp add: drop_stored_export_def without_export_def e split: option.split)
    ultimately show ?thesis
      using settle_returns [OF r ev _ h conjunct2 [OF gone [OF 2]], of ?q] 2 r
      by (simp add: e)
  next
    case 3
    have h: "?h = (Inr False, w1)" using 3 kept run by metis
    have "t_status (success_end (ans ?q) (clock w) t') = CleanupFailed" for t'
      using 3 by (auto simp: success_end_def deleted_def unreadable_def split: answer.splits)
    then show ?thesis
      using settle_returns [OF r ev _ h conjunct2 [OF kept [OF 3]], of ?q] 3 r by simp
  qed
qed

lemma run_settle_failure:
  assumes r: "r < length (heap w)" and ev: "\<not> ve_success ev"
  defines "t \<equiv> transfer_at w r"
  shows "settled_as (run_with ans (settle r ev) w) r w (unlock_request t)
     (if ostr_truthy (cleanup_error_of (ve_validation ev)) \<noteq> None then CleanupFailed else Failed)
     (if unlock_error (ans (unlock_request t)) = None then jm_delete (pendingTransfers w) (ve_transferId ev)
      else pendingTransfers w) (platformStorage w)"
proof -
  let ?q = "unlock_request t"
  obtain w1 where h: "run_with ans (handleValidationFailure (ve_transferId ev) r (ve_validation ev)) w =
      (Inr (unlock_error (ans ?q) = None), w1)"
    and k: "keeps (upd_transfer r (failure_end (ve_validation ev) (unlock_error (ans ?q)) (clock w))
      (emit_effect (Requested ?q) w)) w1"
    by (rule run_failure [OF r, where ans = ans, folded t_def])
  define w2 where "w2 = pruneOldTransfers (if unlock_error (ans ?q) = None
      then removePendingTransfer (ve_transferId ev) w1 else w1)"
  have "run_with ans (settle r ev) w = (Inr (), w2)"
    by (simp add: settle_def ev run_laws h w2_def)
  moreover have "transfer_at w2 r = transfer_at w1 r" by (simp add: w2_def transfer_at_def)
  moreover have "t_status (transfer_at w1 r) = (if ostr_truthy (cleanup_error_of (ve_validation ev)) \<noteq> None
      then CleanupFailed else Failed)"
    using bare_fields(1) [OF keepsD(8) [OF k]] r by (simp add: failure_end_def)
  ultimately show ?thesis
    using keepsD(2,3,5) [OF k] by (simp add: settled_as_def w2_def)
qed

lemma decisions_adopt [simp]: "decisions (adopt_verdict r ev w) = decisions w"
  by (simp add: decisions_def)

lemma run_verdict:
  assumes "jm_get (activeTransfers w) (ve_transferId ev) = Some r" "r < length (heap w)"
    and "t_status (transfer_at w r) = AwaitingValidation"
  defines "v \<equiv> adopt_verdict r ev (log_verdict ev w)"
  shows "run_with ans (handleTransferValidation ev) w = run_with ans (settle r ev) v"
    "r < length (heap v)" "decisions v = decisions w" "pendingTransfers v = pendingTransfers w"
    "platformStorage v = platformStorage w"
    "delete_request (transfer_at v r) = delete_request (transfer_at w r)"
    "unlock_request (transfer_at v r) = unlock_request (transfer_at w r)"
    "without_export (transfer_at v r) = without_export (transfer_at w r)"
proof -
  have k: "keeps w (log_verdict ev w)" by (rule keeps_log_verdict) simp
  note b = keepsD(8) [OF k assms(2)] and g = keepsD [OF k]
  note f = bare_fields [OF b]
  have r: "r < length (heap (log_verdict ev w))" using assms(2) g(6) by simp
  show "run_with ans (handleTransferValidation ev) w = run_with ans (settle r ev) v"
    using assms(1,3) by (simp add: handleTransferValidation_def run_laws v_def)
  show "r < length (heap v)" "decisions v = decisions w" "pendingTransfers v = pendingTransfers w"
    "platformStorage v = platformStorage w"
    using r g by (simp_all add: v_def)
  show "delete_request (transfer_at v r) = delete_request (transfer_at w r)"
    "unlock_request (transfer_at v r) = unlock_request (transfer_at w r)"
    "without_export (transfer_at v r) = without_export (transfer_at w r)"
    using adopt_transfer [OF r] f(3) delete_request_bare [OF b] unlock_request_bare [OF b]
    by (simp_all add: v_def without_export_def fun_eq_iff)
qed

text \<open>
  C2: a SUCCESS verdict accepted for a waiting transfer, handled without an interruption. Whatever
  the instances and the disk answer, the handler ends normally and sends one decision, the deletion
  of that transfer's source; no unlock. If the source confirms, the transfer is completed, its
  intent and its stored export are gone. If the source refuses, it is \<open>cleanup_failed\<close>; if the
  send fails or the answer cannot be read, it is \<open>error\<close>; in both cases the intent and the export
  are kept.
\<close>

theorem success_verdict_outcome:
  fixes ans :: "request \<Rightarrow> answer"
  assumes "jm_get (activeTransfers w) (ve_transferId ev) = Some r" "r < length (heap w)"
    and "t_status (transfer_at w r) = AwaitingValidation" and "ve_success ev"
  defines "t \<equiv> transfer_at w r"
  shows "settled_as (run_with ans (handleTransferValidation ev) w) r w (delete_request t)
     (if unreadable (ans (delete_request t)) then Errored
      else if deleted (ans (delete_request t)) then Completed else CleanupFailed)
     (if deleted (ans (delete_request t)) then jm_delete (pendingTransfers w) (ve_transferId ev) else pendingTransfers w)
     (if deleted (ans (delete_request t)) then without_export t (platformStorage w) else platformStorage w)"
  using run_settle_success [OF run_verdict(2) [OF assms(1-3)] assms(4), of ans]
  unfolding run_verdict [OF assms(1-3)] settled_as_def t_def by simp

text \<open>
  C3: a FAILURE verdict, likewise. The handler ends normally and sends one decision, the unlock of
  the source; nothing is deleted, and the stored export stays for a retry. The transfer ends
  \<open>failed\<close>, or \<open>cleanup_failed\<close> when the destination could not discard its copy; the intent is
  dropped exactly if the source was released.
\<close>

theorem failure_verdict_outcome:
  fixes ans :: "request \<Rightarrow> answer"
  assumes "jm_get (activeTransfers w) (ve_transferId ev) = Some r" "r < length (heap w)"
    and "t_status (transfer_at w r) = AwaitingValidation" and "\<not> ve_success ev"
  defines "t \<equiv> transfer_at w r"
  shows "settled_as (run_with ans (handleTransferValidation ev) w) r w (unlock_request t)
     (if ostr_truthy (cleanup_error_of (ve_validation ev)) \<noteq> None then CleanupFailed else Failed)
     (if unlock_error (ans (unlock_request t)) = None then jm_delete (pendingTransfers w) (ve_transferId ev)
      else pendingTransfers w) (platformStorage w)"
  using run_settle_failure [OF run_verdict(2) [OF assms(1-3)] assms(4), of ans]
  unfolding run_verdict [OF assms(1-3)] settled_as_def t_def by simp

theorem success_verdict_outcome_witness:
  "settled_as (run_with all_well (handleTransferValidation (sample_verdict True)) (sample_plugin sample_transfer))
     0 (sample_plugin sample_transfer) (delete_request sample_transfer) Completed [] []"
  using success_verdict_outcome [of "sample_plugin sample_transfer" "sample_verdict True" 0 all_well]
  by (simp add: deleted_def unreadable_def all_well_def is_nullish_def prop_get_def without_export_def
      split: option.splits)

theorem failure_verdict_outcome_witness:
  "settled_as (run_with all_well (handleTransferValidation (sample_verdict False)) (sample_plugin sample_transfer))
     0 (sample_plugin sample_transfer) (unlock_request sample_transfer) Failed [] []"
  using failure_verdict_outcome [of "sample_plugin sample_transfer" "sample_verdict False" 0 all_well]
  by (simp add: all_well_def unlock_error_def cleanup_error_of_def prop_get_def ostr_truthy_def)

lemma updateTransfer_frame:
  assumes "r < length (heap w)"
  shows "decisions (updateTransfer r w) = decisions w" "pendingTransfers (updateTransfer r w) = pendingTransfers w"
    "platformStorage (updateTransfer r w) = platformStorage w"
    "length (heap (updateTransfer r w)) = length (heap w)"
    "t_status (transfer_at (updateTransfer r w) r) = t_status (transfer_at w r)"
  using keepsD [OF keeps_updateTransfer [OF keeps_refl], of r w]
    bare_fields(1) [OF keepsD(8) [OF keeps_updateTransfer [OF keeps_refl] assms]] by simp_all

lemma late_update:
  fixes ev :: verdict
  assumes "r < length (heap w)"
  defines "w' \<equiv> snd (late_verdict_update r ev w)"
  shows "decisions w' = decisions w" "pendingTransfers w' = pendingTransfers w"
    "platformStorage w' = platformStorage w" "length (heap w') = length (heap w)"
    "t_status (transfer_at w' r) =
        (if t_status (transfer_at w r) = Failed
            \<and> (ve_success ev \<or> truthy (prop_get (ve_validation ev) ''cleanup_failed''))
         then CleanupFailed else t_status (transfer_at w r))"
  using assms(1) unfolding w'_def
  by (simp_all add: late_verdict_update_def Let_def updateTransfer_frame)

text \<open>
  C5: a verdict for a transfer that no longer waits for one decides nothing: no deletion and no
  unlock is sent, the intents and the stored exports stay. Only a failed record changes, to
  \<open>cleanup_failed\<close>, when the late verdict shows a copy at the destination: a late SUCCESS, or a
  failed discard.
\<close>

theorem late_verdict_decides_nothing:
  fixes ans :: "request \<Rightarrow> answer"
  assumes "jm_get (activeTransfers w) (ve_transferId ev) = Some r" "r < length (heap w)"
    and "t_status (transfer_at w r) \<noteq> AwaitingValidation"
  defines "out \<equiv> run_with ans (handleTransferValidation ev) w"
  shows "fst out = Inr () \<and> decisions (snd out) = decisions w
    \<and> pendingTransfers (snd out) = pendingTransfers w \<and> platformStorage (snd out) = platformStorage w
    \<and> t_status (transfer_at (snd out) r) =
        (if t_status (transfer_at w r) = Failed
            \<and> (ve_success ev \<or> truthy (prop_get (ve_validation ev) ''cleanup_failed''))
         then CleanupFailed else t_status (transfer_at w r))"
proof -
  define w1 where "w1 = snd (late_verdict_update r ev w)"
  obtain w2 w3 where k2: "keeps w1 w2" and p: "run_with ans (persistTransactionLog (ve_transferId ev)) w2 = (Inr (), w3)"
    and k3: "keeps w2 w3" and out: "out = (Inr (), w3)"
  proof -
    define w2 where "w2 = logTransactionEvent (ve_transferId ev) ''validation_after_settle''
        (late_text ev (t_status (transfer_at w r)) (fst (late_verdict_update r ev w)))
        (late_data ev (t_status (transfer_at w r)) (t_status (transfer_at w1 r))) w1"
    obtain w3 where p: "run_with ans (persistTransactionLog (ve_transferId ev)) w2 = (Inr (), w3)" "keeps w2 w3"
      by (rule run_persist)
    moreover have "keeps w1 w2" unfolding w2_def by (rule keeps_log) simp
    moreover have "out = (Inr (), w3)"
      using assms(1,3) p(1)
      by (simp add: out_def handleTransferValidation_def late_verdict_def run_laws Let_def w1_def w2_def)
    ultimately show ?thesis using that by blast
  qed
  have k: "keeps w1 w3" by (rule keeps_trans [OF k2 k3])
  note u = late_update [OF assms(2), of ev, folded w1_def]
  show ?thesis
    using keepsD(2,3,5) [OF k] bare_fields(1) [OF keepsD(8) [OF k], of r] u assms(2) by (simp add: out)
qed

definition failed_sample :: active_transfer where
  "failed_sample = sample_transfer\<lparr>t_status := Failed\<rparr>"

theorem late_verdict_decides_nothing_witness:
  "t_status (transfer_at (snd (run_with all_well (handleTransferValidation (sample_verdict True))
      (sample_plugin failed_sample))) 0) = CleanupFailed"
  using late_verdict_decides_nothing [of "sample_plugin failed_sample" "sample_verdict True" 0 all_well]
  by (simp add: failed_sample_def)

end
