(* ===== verification/Sending.thy ===== *)
theory Sending
  imports Outcomes
begin

text \<open>
  The import request of a transfer and what follows its answer: acceptance and a lost session leave
  the source locked and wait for the verdict; a refusal and any other error release the source. The
  last section shows what the release after an error leaves behind.
\<close>

section \<open>Entering the wait for the verdict\<close>

lemma intent_of_bare: "bare t' = bare t \<Longrightarrow> intent_of tid t' = intent_of tid t"
proof -
  have "intent_of tid (bare t) = intent_of tid t" for t by (simp add: intent_of_def bare_def)
  then show "bare t' = bare t \<Longrightarrow> intent_of tid t' = intent_of tid t" by metis
qed

lemma intent_of_updates [simp]:
  "intent_of tid (t\<lparr>t_status := st\<rparr>) = intent_of tid t"
  "intent_of tid (t\<lparr>t_armedValidationTimeoutMs := a, t_validationTimeout := b\<rparr>) = intent_of tid t"
  by (simp_all add: intent_of_def)

lemma schedule_frame:
  assumes "jm_get (activeTransfers w) tid = Some r" "r < length (heap w)"
  defines "w' \<equiv> scheduleValidationTimeout tid w"
  shows "decisions w' = decisions w" "length (heap w') = length (heap w)"
    "activeTransfers w' = activeTransfers w"
    "t_status (transfer_at w' r) = t_status (transfer_at w r)"
    "intent_of tid (transfer_at w' r) = intent_of tid (transfer_at w r)"
    "\<exists>h ms. (h, ms, tid) \<in> set (timers w') \<and> t_validationTimeout (transfer_at w' r) = Some h"
  using assms(1,2) unfolding w'_def
  by (auto simp: scheduleValidationTimeout_def Let_def decisions_def requests_def transfer_at_def upd_transfer_def)

lemma persist_frame:
  "decisions (persistPendingTransfer i w) = decisions w"
  "heap (persistPendingTransfer i w) = heap w" "transfer_at (persistPendingTransfer i w) = transfer_at w"
  "activeTransfers (persistPendingTransfer i w) = activeTransfers w"
  "jm_get (pendingTransfers (persistPendingTransfer i w)) (p_transferId i) = Some i"
  by (simp_all add: persistPendingTransfer_def prunePendingTransfersInMemory_def Let_def decisions_def requests_def
      emit_effect_def transfer_at_def fun_eq_iff)

text \<open>The state after \<open>enterAwaitingValidation\<close>: waiting, with the intent persisted.\<close>

definition awaiting :: "plugin \<Rightarrow> string \<Rightarrow> nat \<Rightarrow> plugin \<Rightarrow> bool" where
  "awaiting w tid r w' \<longleftrightarrow>
     decisions w' = decisions w \<and> length (heap w') = length (heap w)
     \<and> activeTransfers w' = activeTransfers w
     \<and> t_status (transfer_at w' r) = AwaitingValidation
     \<and> jm_get (pendingTransfers w') tid = Some (intent_of tid (transfer_at w r))"

lemma awaiting_enter:
  assumes "jm_get (activeTransfers w) tid = Some r" "r < length (heap w)"
  shows "awaiting w tid r (enterAwaitingValidation r tid w)"
proof -
  define w1 where "w1 = startPhase tid ''validation'' w"
  define w2 where "w2 = set_status r AwaitingValidation w1"
  define w3 where "w3 = scheduleValidationTimeout tid w2"
  define w4 where "w4 = updateTransfer r w3"
  have k1: "keeps w w1" unfolding w1_def by (rule keeps_startPhase) simp
  have r1: "r < length (heap w1)" using keepsD(6) [OF k1] assms(2) by simp
  have e: "enterAwaitingValidation r tid w = persistPendingTransfer (intent_of tid (transfer_at w4 r)) w4"
    by (simp add: enterAwaitingValidation_def w1_def w2_def w3_def w4_def Let_def)
  have t1: "jm_get (activeTransfers w2) tid = Some r" "r < length (heap w2)"
    using keepsD(1) [OF k1] assms(1) r1 by (simp_all add: w2_def set_status_def)
  note s = schedule_frame [OF t1, folded w3_def]
  have k4: "keeps w3 w4" unfolding w4_def by (rule keeps_updateTransfer) simp
  have r3: "r < length (heap w3)" using s(2) t1(2) by simp
  have b4: "bare (transfer_at w4 r) = bare (transfer_at w3 r)" by (rule keepsD(8) [OF k4 r3])
  have i: "intent_of tid (transfer_at w4 r) = intent_of tid (transfer_at w r)"
    using intent_of_bare [OF b4] s(5) r1 intent_of_bare [OF keepsD(8) [OF k1 assms(2)]]
    by (simp add: w2_def set_status_def)
  have "t_status (transfer_at w4 r) = AwaitingValidation"
    using bare_fields(1) [OF b4] s(4) r1 by (simp add: w2_def set_status_def)
  moreover have "decisions w4 = decisions w"
    using keepsD(5) [OF k4] s(1) keepsD(5) [OF k1] by (simp add: w2_def set_status_def)
  moreover have "length (heap w4) = length (heap w)" "activeTransfers w4 = activeTransfers w"
    using keepsD(1,6) [OF k4] s(2,3) keepsD(1,6) [OF k1] by (simp_all add: w2_def set_status_def)
  moreover have "p_transferId (intent_of tid t) = tid" for t by (simp add: intent_of_def)
  ultimately show ?thesis
    using persist_frame [of "intent_of tid (transfer_at w4 r)" w4]
    by (simp add: awaiting_def e i)
qed

lemma awaiting_keeps:
  assumes "awaiting w tid r w'" "keeps w' w''" "r < length (heap w)"
  shows "awaiting w tid r w''"
  using assms(1,3) keepsD [OF assms(2)] bare_fields(1) [OF keepsD(8) [OF assms(2)], of r]
  by (simp add: awaiting_def)

lemma keeps_awaiting:
  assumes "keeps w0 w" "awaiting w tid r w'" "r < length (heap w0)"
  shows "awaiting w0 tid r w'"
  using assms(2,3) keepsD [OF assms(1)] intent_of_bare [OF keepsD(8) [OF assms(1)]]
  by (simp add: awaiting_def)

section \<open>The send\<close>

text \<open>Whether the delivery may have happened: the source must stay locked.\<close>

definition delivered :: "answer \<Rightarrow> bool" where
  "delivered a =
     (case a of Resolved v \<Rightarrow> \<not> is_nullish v \<and> truthy (prop_get v ''success'')
      | Rejected e \<Rightarrow> isSessionLostError e)"

lemma run_accepted:
  assumes "jm_get (activeTransfers w) tid = Some r" "r < length (heap w)"
  obtains w' where "run_with ans (import_accepted tid r ms) w =
      (Inr (started tid (''Transfer initiated: '' @ tid)), w')" "awaiting w tid r w'"
proof -
  let ?w1 = "enterAwaitingValidation r tid w"
  have "run_with ans (import_accepted tid r ms) w = (Inr (started tid (''Transfer initiated: '' @ tid)),
      logTransactionEvent tid ''import_started''
        (''Awaiting validation (timeout: '' @ seconds_text (nullish (t_armedValidationTimeoutMs (transfer_at ?w1 r))
           (DEFAULT_VALIDATION_TIMEOUT_SECONDS * 1000)) @ ''s)'') [(''transmissionMs'', JNum (Fin ms))] ?w1)"
    by (simp add: import_accepted_def run_laws)
  moreover have "awaiting w tid r (logTransactionEvent tid a b c ?w1)" for a b c
    by (rule awaiting_keeps [OF awaiting_enter [OF assms] _ assms(2)]) (rule keeps_log, simp)
  ultimately show ?thesis using that by blast
qed

lemma run_session_lost:
  assumes "jm_get (activeTransfers w) tid = Some r" "r < length (heap w)" "isSessionLostError e"
  shows "\<exists>res w'. run_with ans (import_send_failed tid r e) w = (Inr res, w') \<and> r_success res
    \<and> awaiting w tid r w'"
proof -
  define w1 where "w1 = snd (endPhase tid ''transmission'' w)"
  have k: "keeps w w1" unfolding w1_def by (rule keeps_endPhase) simp
  have t1: "jm_get (activeTransfers w1) tid = Some r" "r < length (heap w1)"
    using keepsD(1,6) [OF k] assms by simp_all
  have "awaiting w tid r (logTransactionEvent tid a b c (enterAwaitingValidation r tid w1))" for a b c
    by (rule awaiting_keeps [OF keeps_awaiting [OF k awaiting_enter [OF t1] assms(2)] _ assms(2)])
      (rule keeps_log, simp)
  then show ?thesis
    using assms(3) by (simp add: import_send_failed_def run_laws Let_def w1_def [symmetric] started_def)
qed

text \<open>The source is released by one unlock; the intents are as they were.\<close>

definition released :: "plugin \<Rightarrow> nat \<Rightarrow> status \<Rightarrow> plugin \<Rightarrow> bool" where
  "released w r st w' \<longleftrightarrow>
     decisions w' = decisions w @ [unlock_request (transfer_at w r)]
     \<and> activeTransfers w' = activeTransfers w
     \<and> t_status (transfer_at w' r) = st \<and> pendingTransfers w' = pendingTransfers w"

lemma released_keeps:
  assumes "keeps (emit_effect (Requested (unlock_request (transfer_at w r))) w) w'" "r < length (heap w)"
  shows "released w r (t_status (transfer_at w r)) w'"
  using keepsD [OF assms(1)] bare_fields(1) [OF keepsD(8) [OF assms(1)], of r] assms(2)
  by (simp add: released_def transfer_at_def)

lemma run_rolled_back:
  assumes "r < length (heap w)" "\<not> isSessionLostError e"
  shows "\<exists>res w'. run_with ans (import_send_failed tid r e) w = (Inr res, w') \<and> \<not> r_success res
    \<and> released w r (t_status (transfer_at w r)) w'"
proof -
  obtain w1 where u: "run_with ans (tryUnlockSource tid r) w =
      (Inr (unlock_error (ans (unlock_request (transfer_at w r)))), w1)"
    and k: "keeps (emit_effect (Requested (unlock_request (transfer_at w r))) w) w1"
    by (rule run_tryUnlock [OF assms(1), where ans = ans and tid = tid])
  show ?thesis
    using u assms(2) released_keeps [OF k assms(1)]
    by (simp add: import_send_failed_def run_laws failure_def Let_def)
qed

lemma run_import_failure:
  assumes "jm_get (activeTransfers w) tid = Some r" "r < length (heap w)"
  shows "\<exists>res w'. run_with ans (handleImportFailure tid err ms) w = (Inr res, w') \<and> \<not> r_success res
    \<and> released w r Failed w'"
proof -
  define w0 where "w0 = upd_transfer r (\<lambda>t. t\<lparr>t_status := Failed, t_error := Some (str_or err ''Import failed''),
                    t_failedAt := Some (clock w)\<rparr>) w"
  define w1 where "w1 = logTransactionEvent tid ''import_failed'' (import_failed_text err)
                 [(''error'', JStr err), (''transmissionMs'', JNum (Fin ms))] w0"
  have r0: "r < length (heap w0)" using assms(2) by (simp add: w0_def)
  have k1: "keeps w0 w1" unfolding w1_def by (rule keeps_log) simp
  have r1: "r < length (heap w1)" using keepsD(6) [OF k1] r0 by simp
  define q where "q = unlock_request (transfer_at w r)"
  have q: "unlock_request (transfer_at w1 r) = q"
    using unlock_request_bare [OF keepsD(8) [OF k1 r0]] assms(2)
    by (simp add: w0_def q_def unlock_request_def)
  obtain w2 where u: "run_with ans (tryUnlockSource tid r) w1 = (Inr (unlock_error (ans q)), w2)"
    and k2: "keeps (emit_effect (Requested q) w1) w2"
    by (rule run_tryUnlock [OF r1, where ans = ans and tid = tid, unfolded q])
  define w3 where "w3 = updateTransfer r (case unlock_error (ans q) of
                      None \<Rightarrow> w2
                    | Some e \<Rightarrow> upd_transfer r (\<lambda>t. t\<lparr>t_error :=
                        Some (nullish (t_error t) ''undefined'' @ ''; rollback failed: '' @ e)\<rparr>) w2)"
  have r2: "r < length (heap w2)" using keepsD(6) [OF k2] r1 by simp
  have e3: "decisions w3 = decisions w2" "activeTransfers w3 = activeTransfers w2" "pendingTransfers w3 = pendingTransfers w2"
      "t_status (transfer_at w3 r) = t_status (transfer_at w2 r)" "length (heap w3) = length (heap w2)"
    unfolding w3_def using r2 keepsD(1) [OF keeps_updateTransfer [OF keeps_refl]]
    by (simp_all add: updateTransfer_frame split: option.split)
  obtain w4 where p: "run_with ans (persistTransactionLog tid) w3 = (Inr (), w4)" and k4: "keeps w3 w4"
    by (rule run_persist)
  have "run_with ans (handleImportFailure tid err ms) w = (Inr (failure err), w4)"
    using assms(1) p unfolding handleImportFailure_def
    by (simp add: run_laws w0_def [symmetric] w1_def [symmetric] u w3_def [symmetric])
  moreover have "released w r Failed w4"
  proof -
    have "t_status (transfer_at w4 r) = Failed"
      using bare_fields(1) [OF keepsD(8) [OF k4]] bare_fields(1) [OF keepsD(8) [OF k2]]
        bare_fields(1) [OF keepsD(8) [OF k1 r0]] r0 r1 r2 e3 assms(2)
      by (simp add: transfer_at_def w0_def upd_transfer_def)
    then show ?thesis
      using keepsD(1,2,5) [OF k4] keepsD(1,2,5) [OF k2] keepsD(1,2,5) [OF k1] e3
      by (simp add: released_def q_def [symmetric] w0_def) (simp add: q_def)
  qed
  ultimately show ?thesis by (simp add: failure_def)
qed

lemma run_send_import:
  assumes tab: "jm_get (activeTransfers w) tid = Some r" and r: "r < length (heap w)" and m: "\<not> decides (SendTo target m)"
  shows "\<exists>res w'. run_with ans (send_import tid r target m) w = (Inr res, w')
    \<and> (if delivered (ans (SendTo target m)) then r_success res \<and> awaiting w tid r w'
       else \<not> r_success res
         \<and> released w r (if unreadable (ans (SendTo target m)) then t_status (transfer_at w r) else Failed) w')"
proof -
  define w1 where "w1 = emit_effect (Requested (SendTo target m)) (startPhase tid ''transmission'' w)"
  have k1: "keeps w w1" unfolding w1_def by (intro keeps_emit keeps_startPhase) (use m in auto)
  define w2 where "w2 = snd (endPhase tid ''transmission'' w1)"
  have k2: "keeps w w2" unfolding w2_def by (rule keeps_endPhase [OF k1])
  have t1: "jm_get (activeTransfers w1) tid = Some r" "r < length (heap w1)"
    and t2: "jm_get (activeTransfers w2) tid = Some r" "r < length (heap w2)"
    using keepsD(1,6) [OF k1] keepsD(1,6) [OF k2] tab r by simp_all
  have rel: "released w0 r st w' \<Longrightarrow> released w r st w'" if "keeps w w0" for w0 st w'
    using keepsD(1,2,5) [OF that] unlock_request_bare [OF keepsD(8) [OF that r]] by (simp add: released_def)
  have st: "t_status (transfer_at w0 r) = t_status (transfer_at w r)" if "keeps w w0" for w0
    by (rule bare_fields(1) [OF keepsD(8) [OF that r]])
  show ?thesis
  proof (cases "ans (SendTo target m)")
    case (Rejected e)
    then have run: "run_with ans (send_import tid r target m) w = run_with ans (import_send_failed tid r e) w1"
      by (simp add: send_import_def run_laws w1_def)
    show ?thesis
    proof (cases "isSessionLostError e")
      case True
      then show ?thesis
        using run_session_lost [OF t1 True, of ans] keeps_awaiting [OF k1 _ r] run Rejected
        by (auto simp: delivered_def)
    next
      case False
      then show ?thesis
        using run_rolled_back [OF t1(2) False, of ans tid] rel [OF k1] st [OF k1] run Rejected
        by (auto simp: delivered_def unreadable_def)
    qed
  next
    case (Resolved v)
    show ?thesis
    proof (cases "is_nullish v")
      case True
      define e where "e = ErrorObject (''Cannot read properties of '' @ js_text v @ '' (reading '' @
             [CHR 0x27] @ ''success'' @ [CHR 0x27] @ '')'') None"
      have "run_with ans (send_import tid r target m) w = run_with ans (import_send_failed tid r e) w2"
        using True Resolved by (simp add: send_import_def run_laws w1_def [symmetric] w2_def [symmetric] e_def)
      moreover have "\<not> isSessionLostError e" by (simp add: e_def isSessionLostError_def)
      ultimately show ?thesis
        using run_rolled_back [OF t2(2), of e ans tid] rel [OF k2] st [OF k2] True Resolved
        by (auto simp: delivered_def unreadable_def)
    next
      case obj: False
      let ?ms = "fst (endPhase tid ''transmission'' w1)"
      show ?thesis
      proof (cases "truthy (prop_get v ''success'')")
        case True
        obtain w' where a: "run_with ans (import_accepted tid r ?ms) w2 =
            (Inr (started tid (''Transfer initiated: '' @ tid)), w')" "awaiting w2 tid r w'"
          by (rule run_accepted [OF t2, where ans = ans and ms = ?ms])
        have "run_with ans (send_import tid r target m) w = (Inr (started tid (''Transfer initiated: '' @ tid)), w')"
          using True obj Resolved a(1)
          by (simp add: send_import_def run_laws w1_def [symmetric] w2_def [symmetric])
        then show ?thesis
          using keeps_awaiting [OF k2 a(2) r] True obj Resolved by (simp add: delivered_def started_def)
      next
        case False
        let ?err = "ostr_or (str_field v ''error'') ''Import failed''"
        obtain res w' where f: "run_with ans (handleImportFailure tid ?err ?ms) w2 = (Inr res, w')"
            "\<not> r_success res" "released w2 r Failed w'"
          using run_import_failure [OF t2, of ans ?err ?ms] by blast
        have "run_with ans (send_import tid r target m) w = (Inr res, w')"
          using False obj Resolved f(1)
          by (simp add: send_import_def run_laws w1_def [symmetric] w2_def [symmetric])
        then show ?thesis
          using f(2) rel [OF k2 f(3)] False obj Resolved by (simp add: delivered_def unreadable_def)
      qed
    qed
  qed
qed

text \<open>
  C4: the source stays locked once the import may have arrived. If the destination accepts the
  import, or the send is cut by a lost session, no unlock and no deletion is sent, the transfer
  waits for its verdict and its intent is persisted. In every other case exactly one unlock of the
  source is sent and the attempt is reported as failed; a refusal is recorded as \<open>failed\<close>.
\<close>

theorem import_send_outcome:
  fixes ans :: "request \<Rightarrow> answer"
  assumes "jm_get (activeTransfers w) tid = Some r" and "r < length (heap w)" and "\<not> decides (SendTo target m)"
  shows "\<exists>res w'. run_with ans (send_import tid r target m) w = (Inr res, w')
    \<and> (if delivered (ans (SendTo target m)) then r_success res \<and> awaiting w tid r w'
       else \<not> r_success res
         \<and> released w r (if unreadable (ans (SendTo target m)) then t_status (transfer_at w r) else Failed) w')"
  by (rule run_send_import [OF assms])


definition sending_sample :: active_transfer where
  "sending_sample = sample_transfer\<lparr>t_status := Transporting\<rparr>"

text \<open>An instance that cannot be reached.\<close>

definition unreachable :: "request \<Rightarrow> answer" where
  "unreachable q = Rejected (ErrorObject ''connect refused'' None)"

theorem import_send_outcome_witness:
  "\<exists>res w'. run_with all_well (send_import ''1:7'' 0 2 (ImportPlatformRequest ''1:7'' JNull ''player'' None))
      (sample_plugin sending_sample) = (Inr res, w')
    \<and> r_success res \<and> awaiting (sample_plugin sending_sample) ''1:7'' 0 w'"
  using import_send_outcome [of "sample_plugin sending_sample" "''1:7''" 0 2
      "ImportPlatformRequest ''1:7'' JNull ''player'' None" all_well]
  by (simp add: all_well_def delivered_def is_nullish_def prop_get_def decides_def)


end
