(* ===== verification/Schema.thy ===== *)
theory Schema
  imports Json
begin

text \<open>
  The declarations the message classes of messages.ts are made of: their JSON schemas, what it
  means for a value to conform to one, the form a value has after \<open>JSON.stringify\<close> and
  \<open>JSON.parse\<close> (\<open>wire\<close>), the addressing of a message, and the contract every class keeps
  (locale \<open>message_class\<close>).
\<close>

section \<open>Schemas\<close>

datatype json_type = TString | TInteger | TNumber | TBoolean | TNull | TObject | TArray

text \<open>
  \<open>ObjectOf ps req sealed\<close>: the properties with their schemas and declared defaults, the
  required names, and whether other properties are refused (\<open>additionalProperties: false\<close>).
\<close>

datatype schema =
    OfType "json_type list"
  | IntRange int int
  | OneOf "string list"
  | ArrayOf schema
  | ObjectOf "(string \<times> schema \<times> jsval option) list" "string list" bool

fun has_type :: "jsval \<Rightarrow> json_type \<Rightarrow> bool" where
  "has_type (JStr s) TString = True"
| "has_type (JNum n) TInteger = is_integer n"
| "has_type (JNum n) TNumber = is_finite n"
| "has_type (JBool b) TBoolean = True"
| "has_type JNull TNull = True"
| "has_type (JObj fs) TObject = True"
| "has_type (JArr xs) TArray = True"
| "has_type _ _ = False"

text \<open>A property whose value is undefined counts as absent, except for the closedness check.\<close>

fun conforms :: "schema \<Rightarrow> jsval \<Rightarrow> bool"
  and props_conform :: "(string \<times> schema \<times> jsval option) list \<Rightarrow> (string \<times> jsval) list \<Rightarrow> bool" where
  "conforms (OfType ts) v = list_ex (has_type v) ts"
| "conforms (IntRange lo hi) v =
     (case v of JNum n \<Rightarrow> is_integer n \<and> lo \<le> int_of_num n \<and> int_of_num n \<le> hi | _ \<Rightarrow> False)"
| "conforms (OneOf ss) v = (case v of JStr s \<Rightarrow> s \<in> set ss | _ \<Rightarrow> False)"
| "conforms (ArrayOf sc) v = (case v of JArr xs \<Rightarrow> \<forall>x\<in>set xs. conforms sc x | _ \<Rightarrow> False)"
| "conforms (ObjectOf ps req sealed) v =
     (case v of
        JObj fs \<Rightarrow> props_conform ps fs \<and> list_all (\<lambda>k. obj_get fs k \<noteq> JUndef) req
                     \<and> (sealed \<longrightarrow> list_all (\<lambda>f. fst f \<in> set (map fst ps)) fs)
      | _ \<Rightarrow> False)"
| "props_conform [] fs = True"
| "props_conform ((k, sc, d) # ps) fs =
     ((obj_get fs k = JUndef \<or> conforms sc (obj_get fs k)) \<and> props_conform ps fs)"

section \<open>The wire form\<close>

text \<open>
  Undefined fields are dropped, undefined elements and non-finite numbers become null. Of a
  repeated field name the first counts, as in \<open>obj_get\<close>.
\<close>

fun wire :: "jsval \<Rightarrow> jsval"
  and wire_elems :: "jsval list \<Rightarrow> jsval list"
  and wire_fields :: "(string \<times> jsval) list \<Rightarrow> (string \<times> jsval) list" where
  "wire JUndef = JUndef"
| "wire JNull = JNull"
| "wire (JBool b) = JBool b"
| "wire (JNum n) = (if is_finite n then JNum n else JNull)"
| "wire (JStr s) = JStr s"
| "wire (JArr xs) = JArr (wire_elems xs)"
| "wire (JObj fs) = JObj (wire_fields fs)"
| "wire_elems [] = []"
| "wire_elems (x # xs) = (if x = JUndef then JNull else wire x) # wire_elems xs"
| "wire_fields [] = []"
| "wire_fields ((k, v) # fs) =
     (if v = JUndef then [] else [(k, wire v)]) @ filter (\<lambda>f. fst f \<noteq> k) (wire_fields fs)"

definition is_wire :: "jsval \<Rightarrow> bool" where
  "is_wire v = (wire v = v)"

lemma wire_eq_JUndef [simp]: "wire v = JUndef \<longleftrightarrow> v = JUndef"
  by (cases v) auto

lemma obj_get_filter: "obj_get (filter (\<lambda>f. fst f \<noteq> k) fs) k' = (if k' = k then JUndef else obj_get fs k')"
  by (induction fs) auto

lemma obj_get_wire [simp]: "obj_get (wire_fields fs) k = wire (obj_get fs k)"
  by (induction fs) (auto simp: obj_get_filter)

lemma prop_get_wire [simp]: "prop_get (wire v) k = wire (prop_get v k)"
  by (cases v) (simp_all add: prop_get_def)

lemma wire_fields_filter:
  "wire_fields (filter (\<lambda>f. fst f \<noteq> k) fs) = filter (\<lambda>f. fst f \<noteq> k) (wire_fields fs)"
  by (induction fs) (auto simp: conj_commute)

lemma wire_idem: "wire (wire v) = wire v"
  "wire_elems (wire_elems xs) = wire_elems xs"
  "wire_fields (wire_fields fs) = wire_fields fs"
  by (induction v and xs and fs rule: wire_wire_elems_wire_fields.induct)
     (simp_all add: wire_fields_filter)

lemma is_wire_wire [simp]: "is_wire (wire v)"
  by (simp add: is_wire_def wire_idem)

lemma is_wire_get [simp]: "is_wire v \<Longrightarrow> is_wire (prop_get v k)"
  by (metis is_wire_def prop_get_wire)

lemma wire_id [simp]: "is_wire v \<Longrightarrow> wire v = v"
  by (simp add: is_wire_def)

lemma is_wire_simps [simp]:
  "is_wire JUndef" "is_wire JNull" "is_wire (JBool b)" "is_wire (JStr s)" "is_wire (JNum (Fin q))"
  by (simp_all add: is_wire_def)

section \<open>Conformance survives the wire\<close>

lemma wire_elems_conv: "wire_elems xs = map (\<lambda>x. if x = JUndef then JNull else wire x) xs"
  by (induction xs) auto

lemma set_wire_fields: "f \<in> set (wire_fields fs) \<Longrightarrow> fst f \<in> set (map fst fs)"
  by (induction fs) (auto split: if_splits)

lemma has_type_wire: "has_type v t \<Longrightarrow> has_type (wire v) t"
  by (induction v t rule: has_type.induct) (auto dest: is_integer_is_finite)

lemma not_conforms_JUndef [simp]: "\<not> conforms sc JUndef"
proof -
  have "\<not> has_type JUndef t" for t by (cases t) simp_all
  then show ?thesis by (cases sc) (auto simp: list_ex_iff)
qed

lemma conforms_wire:
  "conforms sc v \<Longrightarrow> conforms sc (wire v)"
  "props_conform ps fs \<Longrightarrow> props_conform ps (wire_fields fs)"
proof (induction sc v and ps fs rule: conforms_props_conform.induct)
  case (1 ts v)
  then show ?case by (auto simp: list_ex_iff intro: has_type_wire)
next
  case (2 lo hi v)
  then show ?case by (auto split: jsval.splits dest: is_integer_is_finite)
next
  case (4 sc v)
  then show ?case by (auto simp: wire_elems_conv split: jsval.splits)
next
  case (5 ps req sealed v)
  then show ?case by (fastforce simp: list_all_iff split: jsval.splits dest: set_wire_fields)
qed (auto split: jsval.splits)

section \<open>How a constructor fills a field\<close>

text \<open>
  \<open>x || d\<close> and \<open>x ?? d\<close> are \<open>val_or\<close> and \<open>val_nullish\<close>;
  \<open>Number.isInteger(x) ? x : null\<close>; \<open>x === true\<close>.
\<close>

definition int_or_null :: "jsval \<Rightarrow> jsval" where
  "int_or_null v = (case v of JNum n \<Rightarrow> if is_integer n then v else JNull | _ \<Rightarrow> JNull)"

definition strictly_true :: "jsval \<Rightarrow> jsval" where
  "strictly_true v = JBool (v = JBool True)"

lemma val_or_same [simp]: "val_or (val_or a b) b = val_or a b"
  by (simp add: val_or_def)

lemma val_nullish_same [simp]: "val_nullish (val_nullish a b) b = val_nullish a b"
  by (simp add: val_nullish_def)

lemma int_or_null_same [simp]: "int_or_null (int_or_null a) = int_or_null a"
  by (simp add: int_or_null_def split: jsval.splits)

lemma strictly_true_same [simp]: "strictly_true (strictly_true a) = strictly_true a"
  by (simp add: strictly_true_def)

lemma is_wire_fill [simp]:
  "is_wire a \<Longrightarrow> is_wire b \<Longrightarrow> is_wire (val_or a b)"
  "is_wire a \<Longrightarrow> is_wire b \<Longrightarrow> is_wire (val_nullish a b)"
  "is_wire a \<Longrightarrow> is_wire (int_or_null a)"
  "is_wire (strictly_true a)"
  by (auto simp: val_or_def val_nullish_def int_or_null_def strictly_true_def split: jsval.splits)

lemma numeral_num [simp]: "is_integer (Fin (numeral n))" "int_of_num (Fin (numeral n)) = numeral n"
  by (simp_all add: is_integer_def int_of_num_def)

lemma fill_absent [simp]:
  "val_or JUndef d = d" "val_nullish JUndef d = d" "int_or_null JUndef = JNull"
  "strictly_true JUndef = JBool False"
  by (simp_all add: val_or_def val_nullish_def is_nullish_def int_or_null_def strictly_true_def)

text \<open>What the filled field conforms to, given the schema of the field it was read from.\<close>

definition fits :: "schema \<Rightarrow> jsval \<Rightarrow> bool" where
  "fits sc v = (v = JUndef \<or> conforms sc v)"

lemma fits_fill [simp]:
  "fits sc v \<Longrightarrow> conforms sc d \<Longrightarrow> fits sc (val_or v d)"
  "fits sc v \<Longrightarrow> conforms sc d \<Longrightarrow> fits sc (val_nullish v d)"
  "fits (OfType [TInteger, TNull]) (int_or_null v)"
  "fits (OfType [TBoolean]) (strictly_true v)"
  by (auto simp: fits_def val_or_def val_nullish_def int_or_null_def strictly_true_def is_nullish_def
      split: jsval.splits)

lemma filled_not_JUndef [simp]:
  "d \<noteq> JUndef \<Longrightarrow> val_or v d \<noteq> JUndef" "d \<noteq> JUndef \<Longrightarrow> val_nullish v d \<noteq> JUndef"
  "int_or_null v \<noteq> JUndef" "strictly_true v \<noteq> JUndef"
  by (auto simp: val_or_def val_nullish_def int_or_null_def strictly_true_def is_nullish_def
      split: jsval.splits)

lemma props_conform_fits [simp]:
  "props_conform ((k, sc, d) # ps) fs = (fits sc (obj_get fs k) \<and> props_conform ps fs)"
  by (simp add: fits_def)

text \<open>
  What a valid object gives to the constructor that reads it, and what makes an object a
  constructor writes a valid one: a statement per field.
\<close>

lemma valid_object:
  "conforms (ObjectOf ps req sealed) j \<longleftrightarrow>
     (\<exists>fs. j = JObj fs \<and> props_conform ps fs \<and> list_all (\<lambda>k. obj_get fs k \<noteq> JUndef) req
        \<and> (sealed \<longrightarrow> list_all (\<lambda>f. fst f \<in> set (map fst ps)) fs))"
  by (auto split: jsval.splits)

declare conforms.simps(5) [simp del] props_conform.simps(2) [simp del]

section \<open>Addressing\<close>

datatype message_type = Request | Event
datatype role = Controller | Instance | Control

record message_link =
  ml_name :: string
  ml_type :: message_type
  ml_src :: "role list"
  ml_dst :: role
  ml_permission :: "string option"

section \<open>The contract of a message class\<close>

text \<open>
  \<open>make\<close> is the constructor (\<open>fromJSON\<close>), \<open>json\<close> is \<open>toJSON\<close>. A class promises that an object
  is read back as it was sent, and that what it writes for a valid document is valid.
\<close>

locale message_class =
  fixes make :: "jsval \<Rightarrow> 'm" and json :: "'m \<Rightarrow> jsval" and sc :: schema
  assumes reads_back: "is_wire j \<Longrightarrow> make (wire (json (make j))) = make j"
    and writes_valid: "conforms sc j \<Longrightarrow> conforms sc (json (make j))"
begin

text \<open>A relayed message stays valid and is the message that was sent, however often it is relayed.\<close>

lemma relay_idem: "is_wire j \<Longrightarrow> wire (json (make (wire (json (make j))))) = wire (json (make j))"
  by (simp add: reads_back)

lemma relay_stable:
  "is_wire j \<Longrightarrow> ((\<lambda>d. wire (json (make d))) ^^ Suc n) j = wire (json (make j))"
  by (induction n) (simp_all add: relay_idem)

lemma relay_valid:
  assumes "conforms sc j"
  shows "conforms sc (((\<lambda>d. wire (json (make d))) ^^ n) j)"
  using assms by (induction n) (simp_all add: writes_valid conforms_wire)

end

end
