(* ===== verification/Permissions.thy ===== *)
theory Permissions
  imports Schema
begin

text \<open>The permissions a control connection needs (\<open>PERMISSIONS\<close> in messages.ts).\<close>

definition PERM_LIST_EXPORTS :: string where "PERM_LIST_EXPORTS = ''surface_export.exports.list''"
definition PERM_TRANSFER_EXPORTS :: string where "PERM_TRANSFER_EXPORTS = ''surface_export.exports.transfer''"
definition PERM_UI_VIEW :: string where "PERM_UI_VIEW = ''surface_export.ui.view''"
definition PERM_VIEW_LOGS :: string where "PERM_VIEW_LOGS = ''surface_export.logs.view''"

end
