(* ===== verification/ControlMessages.thy ===== *)
theory ControlMessages
  imports Permissions
begin

text \<open>
  Messages (messages.ts): the requests of a control connection (the browser, the command line) to the controller.
  Per class its addressing, its schema, its fields, the constructor (which \<open>fromJSON\<close> calls
  with the received object), \<open>toJSON\<close> and the schema of the response, and that it keeps the
  contract of a message class.
\<close>

definition GATEWAY_LINK_SCHEMA :: schema where
  "GATEWAY_LINK_SCHEMA = ObjectOf
       [(''targetInstanceId'', OfType [TInteger], None),
        (''targetGateway'', OfType [TString], None)]
       [''targetInstanceId'', ''targetGateway''] True"

subsection \<open>GetStoredExportRequest\<close>

definition GetStoredExportRequest_link :: message_link where
  "GetStoredExportRequest_link =
     \<lparr>ml_name = ''GetStoredExportRequest'', ml_type = Request, ml_src = [Control],
      ml_dst = Controller, ml_permission = Some PERM_LIST_EXPORTS\<rparr>"

definition GetStoredExportRequest_schema :: schema where
  "GetStoredExportRequest_schema = ObjectOf
       [(''exportId'', OfType [TString], None)]
       [''exportId''] True"

record get_stored_export_request =
  gse_exportId :: jsval

definition new_GetStoredExportRequest :: "jsval \<Rightarrow> get_stored_export_request" where
  "new_GetStoredExportRequest json =
     \<lparr>gse_exportId = prop_get json ''exportId''\<rparr>"

definition GetStoredExportRequest_toJSON :: "get_stored_export_request \<Rightarrow> jsval" where
  "GetStoredExportRequest_toJSON m =
     JObj [(''exportId'', gse_exportId m)]"

definition GetStoredExportRequest_response :: schema where
  "GetStoredExportRequest_response = ObjectOf
       [(''success'', OfType [TBoolean], None),
        (''error'', OfType [TString], None),
        (''exportId'', OfType [TString], None),
        (''platformName'', OfType [TString], None),
        (''instanceId'', OfType [TInteger], None),
        (''timestamp'', OfType [TNumber], None),
        (''size'', OfType [TInteger], None),
        (''exportData'', OfType [TObject], None)]
       [''success''] False"

interpretation gse: message_class new_GetStoredExportRequest GetStoredExportRequest_toJSON GetStoredExportRequest_schema
  by unfold_locales
    (auto simp: GetStoredExportRequest_schema_def new_GetStoredExportRequest_def
      GetStoredExportRequest_toJSON_def valid_object)

subsection \<open>ImportUploadedExportRequest\<close>

definition ImportUploadedExportRequest_link :: message_link where
  "ImportUploadedExportRequest_link =
     \<lparr>ml_name = ''ImportUploadedExportRequest'', ml_type = Request, ml_src = [Control],
      ml_dst = Controller, ml_permission = Some PERM_TRANSFER_EXPORTS\<rparr>"

definition ImportUploadedExportRequest_schema :: schema where
  "ImportUploadedExportRequest_schema = ObjectOf
       [(''targetInstanceId'', OfType [TInteger], None),
        (''exportData'', OfType [TObject], None),
        (''forceName'', OfType [TString], Some (JStr ''player'')),
        (''platformName'', OfType [TString, TNull], Some JNull),
        (''targetPlanet'', OfType [TString, TNull], Some JNull)]
       [''targetInstanceId'', ''exportData''] True"

record import_uploaded_export_request =
  iue_targetInstanceId :: jsval
  iue_exportData :: jsval
  iue_forceName :: jsval
  iue_platformName :: jsval
  iue_targetPlanet :: jsval

definition new_ImportUploadedExportRequest :: "jsval \<Rightarrow> import_uploaded_export_request" where
  "new_ImportUploadedExportRequest json =
     \<lparr>iue_targetInstanceId = prop_get json ''targetInstanceId'',
      iue_exportData = prop_get json ''exportData'',
      iue_forceName = val_or (prop_get json ''forceName'') (JStr ''player''),
      iue_platformName = val_nullish (prop_get json ''platformName'') JNull,
      iue_targetPlanet = val_nullish (prop_get json ''targetPlanet'') JNull\<rparr>"

definition ImportUploadedExportRequest_toJSON :: "import_uploaded_export_request \<Rightarrow> jsval" where
  "ImportUploadedExportRequest_toJSON m =
     JObj [(''targetInstanceId'', iue_targetInstanceId m),
           (''exportData'', iue_exportData m),
           (''forceName'', iue_forceName m),
           (''platformName'', iue_platformName m),
           (''targetPlanet'', iue_targetPlanet m)]"

definition ImportUploadedExportRequest_response :: schema where
  "ImportUploadedExportRequest_response = ObjectOf
       [(''success'', OfType [TBoolean], None),
        (''error'', OfType [TString], None),
        (''platformName'', OfType [TString], None),
        (''targetInstanceId'', OfType [TInteger], None)]
       [''success''] False"

interpretation iue: message_class new_ImportUploadedExportRequest ImportUploadedExportRequest_toJSON ImportUploadedExportRequest_schema
  by unfold_locales
    (auto simp: ImportUploadedExportRequest_schema_def new_ImportUploadedExportRequest_def
      ImportUploadedExportRequest_toJSON_def valid_object)

subsection \<open>ExportPlatformForDownloadRequest\<close>

definition ExportPlatformForDownloadRequest_link :: message_link where
  "ExportPlatformForDownloadRequest_link =
     \<lparr>ml_name = ''ExportPlatformForDownloadRequest'', ml_type = Request, ml_src = [Control],
      ml_dst = Controller, ml_permission = Some PERM_TRANSFER_EXPORTS\<rparr>"

definition ExportPlatformForDownloadRequest_schema :: schema where
  "ExportPlatformForDownloadRequest_schema = ObjectOf
       [(''sourceInstanceId'', OfType [TInteger], None),
        (''sourcePlatformIndex'', OfType [TInteger], None),
        (''forceName'', OfType [TString], Some (JStr ''player''))]
       [''sourceInstanceId'', ''sourcePlatformIndex''] True"

record export_platform_for_download_request =
  epd_sourceInstanceId :: jsval
  epd_sourcePlatformIndex :: jsval
  epd_forceName :: jsval

definition new_ExportPlatformForDownloadRequest :: "jsval \<Rightarrow> export_platform_for_download_request" where
  "new_ExportPlatformForDownloadRequest json =
     \<lparr>epd_sourceInstanceId = prop_get json ''sourceInstanceId'',
      epd_sourcePlatformIndex = prop_get json ''sourcePlatformIndex'',
      epd_forceName = val_or (prop_get json ''forceName'') (JStr ''player'')\<rparr>"

definition ExportPlatformForDownloadRequest_toJSON :: "export_platform_for_download_request \<Rightarrow> jsval" where
  "ExportPlatformForDownloadRequest_toJSON m =
     JObj [(''sourceInstanceId'', epd_sourceInstanceId m),
           (''sourcePlatformIndex'', epd_sourcePlatformIndex m),
           (''forceName'', epd_forceName m)]"

definition ExportPlatformForDownloadRequest_response :: schema where
  "ExportPlatformForDownloadRequest_response = ObjectOf
       [(''success'', OfType [TBoolean], None),
        (''error'', OfType [TString], None),
        (''exportId'', OfType [TString], None),
        (''platformName'', OfType [TString], None),
        (''instanceId'', OfType [TInteger], None),
        (''timestamp'', OfType [TNumber], None),
        (''size'', OfType [TInteger], None),
        (''exportData'', OfType [TObject], None)]
       [''success''] False"

interpretation epd: message_class new_ExportPlatformForDownloadRequest ExportPlatformForDownloadRequest_toJSON ExportPlatformForDownloadRequest_schema
  by unfold_locales
    (auto simp: ExportPlatformForDownloadRequest_schema_def new_ExportPlatformForDownloadRequest_def
      ExportPlatformForDownloadRequest_toJSON_def valid_object)

subsection \<open>GetPlatformTreeRequest\<close>

definition GetPlatformTreeRequest_link :: message_link where
  "GetPlatformTreeRequest_link =
     \<lparr>ml_name = ''GetPlatformTreeRequest'', ml_type = Request, ml_src = [Control],
      ml_dst = Controller, ml_permission = Some PERM_UI_VIEW\<rparr>"

definition GetPlatformTreeRequest_schema :: schema where
  "GetPlatformTreeRequest_schema = ObjectOf
       [(''forceName'', OfType [TString], Some (JStr ''player''))]
       [] True"

record get_platform_tree_request =
  gpt_forceName :: jsval

definition new_GetPlatformTreeRequest :: "jsval \<Rightarrow> get_platform_tree_request" where
  "new_GetPlatformTreeRequest json =
     \<lparr>gpt_forceName = val_or (prop_get json ''forceName'') (JStr ''player'')\<rparr>"

definition GetPlatformTreeRequest_toJSON :: "get_platform_tree_request \<Rightarrow> jsval" where
  "GetPlatformTreeRequest_toJSON m =
     JObj [(''forceName'', gpt_forceName m)]"

definition GetPlatformTreeRequest_response :: schema where
  "GetPlatformTreeRequest_response = ObjectOf
       [(''revision'', OfType [TInteger], None),
        (''generatedAt'', OfType [TNumber], None),
        (''forceName'', OfType [TString], None),
        (''hosts'', ArrayOf (OfType [TObject]), None),
        (''unassignedInstances'', ArrayOf (OfType [TObject]), None)]
       [''revision'', ''generatedAt'', ''forceName'', ''hosts'', ''unassignedInstances''] False"

interpretation gpt: message_class new_GetPlatformTreeRequest GetPlatformTreeRequest_toJSON GetPlatformTreeRequest_schema
  by unfold_locales
    (auto simp: GetPlatformTreeRequest_schema_def new_GetPlatformTreeRequest_def
      GetPlatformTreeRequest_toJSON_def valid_object)

subsection \<open>ListTransactionLogsRequest\<close>

definition ListTransactionLogsRequest_link :: message_link where
  "ListTransactionLogsRequest_link =
     \<lparr>ml_name = ''ListTransactionLogsRequest'', ml_type = Request, ml_src = [Control],
      ml_dst = Controller, ml_permission = Some PERM_VIEW_LOGS\<rparr>"

definition ListTransactionLogsRequest_schema :: schema where
  "ListTransactionLogsRequest_schema = ObjectOf
       [(''limit'', IntRange 1 500, Some (JNum (Fin 50)))]
       [] True"

record list_transaction_logs_request =
  ltl_limit :: jsval

definition new_ListTransactionLogsRequest :: "jsval \<Rightarrow> list_transaction_logs_request" where
  "new_ListTransactionLogsRequest json =
     \<lparr>ltl_limit = val_or (prop_get json ''limit'') (JNum (Fin 50))\<rparr>"

definition ListTransactionLogsRequest_toJSON :: "list_transaction_logs_request \<Rightarrow> jsval" where
  "ListTransactionLogsRequest_toJSON m =
     JObj [(''limit'', ltl_limit m)]"

definition ListTransactionLogsRequest_response :: schema where
  "ListTransactionLogsRequest_response = ArrayOf (OfType [TObject])"

interpretation ltl: message_class new_ListTransactionLogsRequest ListTransactionLogsRequest_toJSON ListTransactionLogsRequest_schema
  by unfold_locales
    (auto simp: ListTransactionLogsRequest_schema_def new_ListTransactionLogsRequest_def
      ListTransactionLogsRequest_toJSON_def valid_object)

subsection \<open>SetSurfaceExportSubscriptionRequest\<close>

definition SetSurfaceExportSubscriptionRequest_link :: message_link where
  "SetSurfaceExportSubscriptionRequest_link =
     \<lparr>ml_name = ''SetSurfaceExportSubscriptionRequest'', ml_type = Request, ml_src = [Control],
      ml_dst = Controller, ml_permission = Some PERM_UI_VIEW\<rparr>"

definition SetSurfaceExportSubscriptionRequest_schema :: schema where
  "SetSurfaceExportSubscriptionRequest_schema = ObjectOf
       [(''tree'', OfType [TBoolean], Some (JBool False)),
        (''transfers'', OfType [TBoolean], Some (JBool False)),
        (''logs'', OfType [TBoolean], Some (JBool False)),
        (''transferId'', OfType [TString, TNull], Some JNull)]
       [] True"

record set_surface_export_subscription_request =
  sse_tree :: jsval
  sse_transfers :: jsval
  sse_logs :: jsval
  sse_transferId :: jsval

definition new_SetSurfaceExportSubscriptionRequest :: "jsval \<Rightarrow> set_surface_export_subscription_request" where
  "new_SetSurfaceExportSubscriptionRequest json =
     \<lparr>sse_tree = val_or (prop_get json ''tree'') (JBool False),
      sse_transfers = val_or (prop_get json ''transfers'') (JBool False),
      sse_logs = val_or (prop_get json ''logs'') (JBool False),
      sse_transferId = val_or (prop_get json ''transferId'') JNull\<rparr>"

definition SetSurfaceExportSubscriptionRequest_toJSON :: "set_surface_export_subscription_request \<Rightarrow> jsval" where
  "SetSurfaceExportSubscriptionRequest_toJSON m =
     JObj [(''tree'', sse_tree m),
           (''transfers'', sse_transfers m),
           (''logs'', sse_logs m),
           (''transferId'', sse_transferId m)]"

interpretation sse: message_class new_SetSurfaceExportSubscriptionRequest SetSurfaceExportSubscriptionRequest_toJSON SetSurfaceExportSubscriptionRequest_schema
  by unfold_locales
    (auto simp: SetSurfaceExportSubscriptionRequest_schema_def new_SetSurfaceExportSubscriptionRequest_def
      SetSurfaceExportSubscriptionRequest_toJSON_def valid_object)

subsection \<open>ListExportsRequest\<close>

definition ListExportsRequest_link :: message_link where
  "ListExportsRequest_link =
     \<lparr>ml_name = ''ListExportsRequest'', ml_type = Request, ml_src = [Control],
      ml_dst = Controller, ml_permission = Some PERM_LIST_EXPORTS\<rparr>"

definition ListExportsRequest_schema :: schema where
  "ListExportsRequest_schema = ObjectOf
       []
       [] True"

definition new_ListExportsRequest :: "jsval \<Rightarrow> unit" where
  "new_ListExportsRequest json = ()"

definition ListExportsRequest_toJSON :: "unit \<Rightarrow> jsval" where
  "ListExportsRequest_toJSON m = JObj []"

definition ListExportsRequest_response :: schema where
  "ListExportsRequest_response = ArrayOf (OfType [TObject])"

interpretation ler: message_class new_ListExportsRequest ListExportsRequest_toJSON ListExportsRequest_schema
  by unfold_locales
    (auto simp: ListExportsRequest_schema_def new_ListExportsRequest_def
      ListExportsRequest_toJSON_def valid_object)

subsection \<open>TransferPlatformRequest\<close>

definition TransferPlatformRequest_link :: message_link where
  "TransferPlatformRequest_link =
     \<lparr>ml_name = ''TransferPlatformRequest'', ml_type = Request, ml_src = [Control, Instance],
      ml_dst = Controller, ml_permission = Some PERM_TRANSFER_EXPORTS\<rparr>"

definition TransferPlatformRequest_schema :: schema where
  "TransferPlatformRequest_schema = ObjectOf
       [(''exportId'', OfType [TString], None),
        (''targetInstanceId'', OfType [TInteger], None),
        (''sourceInstanceId'', OfType [TInteger, TNull], Some JNull),
        (''sourceExportId'', OfType [TString, TNull], Some JNull)]
       [''exportId'', ''targetInstanceId''] True"

record transfer_platform_request =
  tpr_exportId :: jsval
  tpr_targetInstanceId :: jsval
  tpr_sourceInstanceId :: jsval
  tpr_sourceExportId :: jsval

definition new_TransferPlatformRequest :: "jsval \<Rightarrow> transfer_platform_request" where
  "new_TransferPlatformRequest json =
     \<lparr>tpr_exportId = prop_get json ''exportId'',
      tpr_targetInstanceId = prop_get json ''targetInstanceId'',
      tpr_sourceInstanceId = int_or_null (prop_get json ''sourceInstanceId''),
      tpr_sourceExportId = val_nullish (prop_get json ''sourceExportId'') JNull\<rparr>"

definition TransferPlatformRequest_toJSON :: "transfer_platform_request \<Rightarrow> jsval" where
  "TransferPlatformRequest_toJSON m =
     JObj [(''exportId'', tpr_exportId m),
           (''targetInstanceId'', tpr_targetInstanceId m),
           (''sourceInstanceId'', tpr_sourceInstanceId m),
           (''sourceExportId'', tpr_sourceExportId m)]"

definition TransferPlatformRequest_response :: schema where
  "TransferPlatformRequest_response = ObjectOf
       [(''success'', OfType [TBoolean], None),
        (''error'', OfType [TString], None),
        (''transferId'', OfType [TString], None),
        (''message'', OfType [TString], None),
        (''safeToUnlockSource'', OfType [TBoolean], None)]
       [''success''] False"

interpretation tpr: message_class new_TransferPlatformRequest TransferPlatformRequest_toJSON TransferPlatformRequest_schema
  by unfold_locales
    (auto simp: TransferPlatformRequest_schema_def new_TransferPlatformRequest_def
      TransferPlatformRequest_toJSON_def valid_object)

subsection \<open>StartPlatformTransferRequest\<close>

definition StartPlatformTransferRequest_link :: message_link where
  "StartPlatformTransferRequest_link =
     \<lparr>ml_name = ''StartPlatformTransferRequest'', ml_type = Request, ml_src = [Control],
      ml_dst = Controller, ml_permission = Some PERM_TRANSFER_EXPORTS\<rparr>"

definition StartPlatformTransferRequest_schema :: schema where
  "StartPlatformTransferRequest_schema = ObjectOf
       [(''sourceInstanceId'', OfType [TInteger], None),
        (''sourcePlatformIndex'', OfType [TInteger], None),
        (''targetInstanceId'', OfType [TInteger], None),
        (''forceName'', OfType [TString], Some (JStr ''player'')),
        (''targetPlanet'', OfType [TString, TNull], Some JNull)]
       [''sourceInstanceId'', ''sourcePlatformIndex'', ''targetInstanceId''] True"

record start_platform_transfer_request =
  spt_sourceInstanceId :: jsval
  spt_sourcePlatformIndex :: jsval
  spt_targetInstanceId :: jsval
  spt_forceName :: jsval
  spt_targetPlanet :: jsval

definition new_StartPlatformTransferRequest :: "jsval \<Rightarrow> start_platform_transfer_request" where
  "new_StartPlatformTransferRequest json =
     \<lparr>spt_sourceInstanceId = prop_get json ''sourceInstanceId'',
      spt_sourcePlatformIndex = prop_get json ''sourcePlatformIndex'',
      spt_targetInstanceId = prop_get json ''targetInstanceId'',
      spt_forceName = val_or (prop_get json ''forceName'') (JStr ''player''),
      spt_targetPlanet = val_nullish (prop_get json ''targetPlanet'') JNull\<rparr>"

definition StartPlatformTransferRequest_toJSON :: "start_platform_transfer_request \<Rightarrow> jsval" where
  "StartPlatformTransferRequest_toJSON m =
     JObj [(''sourceInstanceId'', spt_sourceInstanceId m),
           (''sourcePlatformIndex'', spt_sourcePlatformIndex m),
           (''targetInstanceId'', spt_targetInstanceId m),
           (''forceName'', spt_forceName m),
           (''targetPlanet'', spt_targetPlanet m)]"

definition StartPlatformTransferRequest_response :: schema where
  "StartPlatformTransferRequest_response = ObjectOf
       [(''success'', OfType [TBoolean], None),
        (''error'', OfType [TString], None),
        (''transferId'', OfType [TString], None),
        (''exportId'', OfType [TString], None),
        (''message'', OfType [TString], None),
        (''safeToUnlockSource'', OfType [TBoolean], None)]
       [''success''] False"

interpretation spt: message_class new_StartPlatformTransferRequest StartPlatformTransferRequest_toJSON StartPlatformTransferRequest_schema
  by unfold_locales
    (auto simp: StartPlatformTransferRequest_schema_def new_StartPlatformTransferRequest_def
      StartPlatformTransferRequest_toJSON_def valid_object)

subsection \<open>GetGatewaysRequest\<close>

definition GetGatewaysRequest_link :: message_link where
  "GetGatewaysRequest_link =
     \<lparr>ml_name = ''GetGatewaysRequest'', ml_type = Request, ml_src = [Control],
      ml_dst = Controller, ml_permission = Some PERM_UI_VIEW\<rparr>"

definition GetGatewaysRequest_schema :: schema where
  "GetGatewaysRequest_schema = ObjectOf
       []
       [] True"

definition new_GetGatewaysRequest :: "jsval \<Rightarrow> unit" where
  "new_GetGatewaysRequest json = ()"

definition GetGatewaysRequest_toJSON :: "unit \<Rightarrow> jsval" where
  "GetGatewaysRequest_toJSON m = JObj []"

definition GetGatewaysRequest_response :: schema where
  "GetGatewaysRequest_response = ObjectOf
       [(''gatewayNames'', ArrayOf (OfType [TString]), None),
        (''links'', ArrayOf (ObjectOf
                            [(''sourceInstanceId'', OfType [TInteger], None),
                             (''gatewayName'', OfType [TString], None),
                             (''targets'', ArrayOf (GATEWAY_LINK_SCHEMA), None)]
                            [''sourceInstanceId'', ''gatewayName'', ''targets''] True), None)]
       [''gatewayNames'', ''links''] False"

interpretation ggr: message_class new_GetGatewaysRequest GetGatewaysRequest_toJSON GetGatewaysRequest_schema
  by unfold_locales
    (auto simp: GetGatewaysRequest_schema_def new_GetGatewaysRequest_def
      GetGatewaysRequest_toJSON_def valid_object)

subsection \<open>SetGatewayLinkRequest\<close>

definition SetGatewayLinkRequest_link :: message_link where
  "SetGatewayLinkRequest_link =
     \<lparr>ml_name = ''SetGatewayLinkRequest'', ml_type = Request, ml_src = [Control],
      ml_dst = Controller, ml_permission = Some PERM_TRANSFER_EXPORTS\<rparr>"

definition SetGatewayLinkRequest_schema :: schema where
  "SetGatewayLinkRequest_schema = ObjectOf
       [(''sourceInstanceId'', OfType [TInteger], None),
        (''gateways'', ArrayOf (ObjectOf
                            [(''gatewayName'', OfType [TString], None),
                             (''targets'', ArrayOf (GATEWAY_LINK_SCHEMA), None)]
                            [''gatewayName'', ''targets''] True), None)]
       [''sourceInstanceId'', ''gateways''] True"

record set_gateway_link_request =
  sgl_sourceInstanceId :: jsval
  sgl_gateways :: jsval

definition new_SetGatewayLinkRequest :: "jsval \<Rightarrow> set_gateway_link_request" where
  "new_SetGatewayLinkRequest json =
     \<lparr>sgl_sourceInstanceId = prop_get json ''sourceInstanceId'',
      sgl_gateways = prop_get json ''gateways''\<rparr>"

definition SetGatewayLinkRequest_toJSON :: "set_gateway_link_request \<Rightarrow> jsval" where
  "SetGatewayLinkRequest_toJSON m =
     JObj [(''sourceInstanceId'', sgl_sourceInstanceId m),
           (''gateways'', sgl_gateways m)]"

definition SetGatewayLinkRequest_response :: schema where
  "SetGatewayLinkRequest_response = ObjectOf
       [(''success'', OfType [TBoolean], None),
        (''error'', OfType [TString], None)]
       [''success''] False"

interpretation sgl: message_class new_SetGatewayLinkRequest SetGatewayLinkRequest_toJSON SetGatewayLinkRequest_schema
  by unfold_locales
    (auto simp: SetGatewayLinkRequest_schema_def new_SetGatewayLinkRequest_def
      SetGatewayLinkRequest_toJSON_def valid_object)

subsection \<open>GetTransactionLogRequest\<close>

definition GetTransactionLogRequest_link :: message_link where
  "GetTransactionLogRequest_link =
     \<lparr>ml_name = ''GetTransactionLogRequest'', ml_type = Request, ml_src = [Controller, Instance, Control],
      ml_dst = Controller, ml_permission = Some PERM_VIEW_LOGS\<rparr>"

definition GetTransactionLogRequest_schema :: schema where
  "GetTransactionLogRequest_schema = ObjectOf
       [(''transferId'', OfType [TString], None)]
       [''transferId''] True"

record get_transaction_log_request =
  gtl_transferId :: jsval

definition new_GetTransactionLogRequest :: "jsval \<Rightarrow> get_transaction_log_request" where
  "new_GetTransactionLogRequest json =
     \<lparr>gtl_transferId = prop_get json ''transferId''\<rparr>"

definition GetTransactionLogRequest_toJSON :: "get_transaction_log_request \<Rightarrow> jsval" where
  "GetTransactionLogRequest_toJSON m =
     JObj [(''transferId'', gtl_transferId m)]"

definition GetTransactionLogRequest_response :: schema where
  "GetTransactionLogRequest_response = ObjectOf
       [(''success'', OfType [TBoolean], None),
        (''transferId'', OfType [TString], None),
        (''events'', OfType [TArray], None),
        (''detailRetained'', OfType [TBoolean], None),
        (''transferInfo'', OfType [TObject, TNull], None),
        (''summary'', OfType [TObject, TNull], None),
        (''error'', OfType [TString], None)]
       [''success''] False"

interpretation gtl: message_class new_GetTransactionLogRequest GetTransactionLogRequest_toJSON GetTransactionLogRequest_schema
  by unfold_locales
    (auto simp: GetTransactionLogRequest_schema_def new_GetTransactionLogRequest_def
      GetTransactionLogRequest_toJSON_def valid_object)

end
