(* ===== verification/EventMessages.thy ===== *)
theory EventMessages
  imports Permissions
begin

text \<open>
  Messages (messages.ts): the events, and the requests of an instance to the controller.
  Per class its addressing, its schema, its fields, the constructor (which \<open>fromJSON\<close> calls
  with the received object), \<open>toJSON\<close> and the schema of the response, and that it keeps the
  contract of a message class.
\<close>

definition RESOLVED_TARGET_SCHEMA :: schema where
  "RESOLVED_TARGET_SCHEMA = ObjectOf
       [(''instanceId'', OfType [TInteger], None),
        (''instanceName'', OfType [TString], None),
        (''targetGateway'', OfType [TString], None),
        (''online'', OfType [TBoolean], None)]
       [''instanceId'', ''instanceName'', ''targetGateway'', ''online''] True"

definition RESOLVED_GATEWAYS_SCHEMA :: schema where
  "RESOLVED_GATEWAYS_SCHEMA = ArrayOf (ObjectOf
                [(''gatewayName'', OfType [TString], None),
                 (''targets'', ArrayOf (RESOLVED_TARGET_SCHEMA), None)]
                [''gatewayName'', ''targets''] True)"

definition ROSTER_INSTANCES_SCHEMA :: schema where
  "ROSTER_INSTANCES_SCHEMA = ArrayOf (ObjectOf
                [(''instanceId'', OfType [TInteger], None),
                 (''name'', OfType [TString], None),
                 (''address'', OfType [TString], None),
                 (''online'', OfType [TBoolean], None),
                 (''self'', OfType [TBoolean], None)]
                [''instanceId'', ''name'', ''address'', ''online'', ''self''] True)"

subsection \<open>SurfaceExportTreeUpdateEvent\<close>

definition SurfaceExportTreeUpdateEvent_link :: message_link where
  "SurfaceExportTreeUpdateEvent_link =
     \<lparr>ml_name = ''SurfaceExportTreeUpdateEvent'', ml_type = Event, ml_src = [Controller],
      ml_dst = Control, ml_permission = None\<rparr>"

definition SurfaceExportTreeUpdateEvent_schema :: schema where
  "SurfaceExportTreeUpdateEvent_schema = ObjectOf
       [(''revision'', OfType [TInteger], None),
        (''generatedAt'', OfType [TNumber], None),
        (''forceName'', OfType [TString], None),
        (''tree'', OfType [TObject], None)]
       [''revision'', ''generatedAt'', ''forceName'', ''tree''] True"

record surface_export_tree_update_event =
  tre_revision :: jsval
  tre_generatedAt :: jsval
  tre_forceName :: jsval
  tre_tree :: jsval

definition new_SurfaceExportTreeUpdateEvent :: "jsval \<Rightarrow> surface_export_tree_update_event" where
  "new_SurfaceExportTreeUpdateEvent json =
     \<lparr>tre_revision = prop_get json ''revision'',
      tre_generatedAt = prop_get json ''generatedAt'',
      tre_forceName = prop_get json ''forceName'',
      tre_tree = prop_get json ''tree''\<rparr>"

definition SurfaceExportTreeUpdateEvent_toJSON :: "surface_export_tree_update_event \<Rightarrow> jsval" where
  "SurfaceExportTreeUpdateEvent_toJSON m =
     JObj [(''revision'', tre_revision m),
           (''generatedAt'', tre_generatedAt m),
           (''forceName'', tre_forceName m),
           (''tree'', tre_tree m)]"

interpretation tre: message_class new_SurfaceExportTreeUpdateEvent SurfaceExportTreeUpdateEvent_toJSON SurfaceExportTreeUpdateEvent_schema
  by unfold_locales
    (auto simp: SurfaceExportTreeUpdateEvent_schema_def new_SurfaceExportTreeUpdateEvent_def
      SurfaceExportTreeUpdateEvent_toJSON_def valid_object)

subsection \<open>SurfaceExportTransferUpdateEvent\<close>

definition SurfaceExportTransferUpdateEvent_link :: message_link where
  "SurfaceExportTransferUpdateEvent_link =
     \<lparr>ml_name = ''SurfaceExportTransferUpdateEvent'', ml_type = Event, ml_src = [Controller],
      ml_dst = Control, ml_permission = None\<rparr>"

definition SurfaceExportTransferUpdateEvent_schema :: schema where
  "SurfaceExportTransferUpdateEvent_schema = ObjectOf
       [(''revision'', OfType [TInteger], None),
        (''generatedAt'', OfType [TNumber], None),
        (''transfer'', OfType [TObject], None)]
       [''revision'', ''generatedAt'', ''transfer''] True"

record surface_export_transfer_update_event =
  tue_revision :: jsval
  tue_generatedAt :: jsval
  tue_transfer :: jsval

definition new_SurfaceExportTransferUpdateEvent :: "jsval \<Rightarrow> surface_export_transfer_update_event" where
  "new_SurfaceExportTransferUpdateEvent json =
     \<lparr>tue_revision = prop_get json ''revision'',
      tue_generatedAt = prop_get json ''generatedAt'',
      tue_transfer = prop_get json ''transfer''\<rparr>"

definition SurfaceExportTransferUpdateEvent_toJSON :: "surface_export_transfer_update_event \<Rightarrow> jsval" where
  "SurfaceExportTransferUpdateEvent_toJSON m =
     JObj [(''revision'', tue_revision m),
           (''generatedAt'', tue_generatedAt m),
           (''transfer'', tue_transfer m)]"

interpretation tue: message_class new_SurfaceExportTransferUpdateEvent SurfaceExportTransferUpdateEvent_toJSON SurfaceExportTransferUpdateEvent_schema
  by unfold_locales
    (auto simp: SurfaceExportTransferUpdateEvent_schema_def new_SurfaceExportTransferUpdateEvent_def
      SurfaceExportTransferUpdateEvent_toJSON_def valid_object)

subsection \<open>SurfaceExportLogUpdateEvent\<close>

definition SurfaceExportLogUpdateEvent_link :: message_link where
  "SurfaceExportLogUpdateEvent_link =
     \<lparr>ml_name = ''SurfaceExportLogUpdateEvent'', ml_type = Event, ml_src = [Controller],
      ml_dst = Control, ml_permission = None\<rparr>"

definition SurfaceExportLogUpdateEvent_schema :: schema where
  "SurfaceExportLogUpdateEvent_schema = ObjectOf
       [(''revision'', OfType [TInteger], None),
        (''generatedAt'', OfType [TNumber], None),
        (''transferId'', OfType [TString], None),
        (''event'', OfType [TObject], None),
        (''transferInfo'', OfType [TObject, TNull], None),
        (''summary'', OfType [TObject, TNull], None)]
       [''revision'', ''generatedAt'', ''transferId'', ''event'', ''transferInfo'', ''summary''] True"

record surface_export_log_update_event =
  lue_revision :: jsval
  lue_generatedAt :: jsval
  lue_transferId :: jsval
  lue_event :: jsval
  lue_transferInfo :: jsval
  lue_summary :: jsval

definition new_SurfaceExportLogUpdateEvent :: "jsval \<Rightarrow> surface_export_log_update_event" where
  "new_SurfaceExportLogUpdateEvent json =
     \<lparr>lue_revision = prop_get json ''revision'',
      lue_generatedAt = prop_get json ''generatedAt'',
      lue_transferId = prop_get json ''transferId'',
      lue_event = prop_get json ''event'',
      lue_transferInfo = prop_get json ''transferInfo'',
      lue_summary = prop_get json ''summary''\<rparr>"

definition SurfaceExportLogUpdateEvent_toJSON :: "surface_export_log_update_event \<Rightarrow> jsval" where
  "SurfaceExportLogUpdateEvent_toJSON m =
     JObj [(''revision'', lue_revision m),
           (''generatedAt'', lue_generatedAt m),
           (''transferId'', lue_transferId m),
           (''event'', lue_event m),
           (''transferInfo'', lue_transferInfo m),
           (''summary'', lue_summary m)]"

interpretation lue: message_class new_SurfaceExportLogUpdateEvent SurfaceExportLogUpdateEvent_toJSON SurfaceExportLogUpdateEvent_schema
  by unfold_locales
    (auto simp: SurfaceExportLogUpdateEvent_schema_def new_SurfaceExportLogUpdateEvent_def
      SurfaceExportLogUpdateEvent_toJSON_def valid_object)

subsection \<open>PlatformExportEvent\<close>

definition PlatformExportEvent_link :: message_link where
  "PlatformExportEvent_link =
     \<lparr>ml_name = ''PlatformExportEvent'', ml_type = Event, ml_src = [Instance],
      ml_dst = Controller, ml_permission = None\<rparr>"

definition PlatformExportEvent_schema :: schema where
  "PlatformExportEvent_schema = ObjectOf
       [(''exportId'', OfType [TString], None),
        (''platformName'', OfType [TString], None),
        (''platformIndex'', OfType [TInteger, TNull], Some JNull),
        (''instanceId'', OfType [TInteger], None),
        (''exportData'', OfType [TObject], None),
        (''timestamp'', OfType [TNumber], None),
        (''exportMetrics'', OfType [TObject, TNull], None)]
       [''exportId'', ''platformName'', ''instanceId'', ''exportData'', ''timestamp''] True"

record platform_export_event =
  pee_exportId :: jsval
  pee_platformName :: jsval
  pee_platformIndex :: jsval
  pee_instanceId :: jsval
  pee_exportData :: jsval
  pee_timestamp :: jsval
  pee_exportMetrics :: jsval

definition new_PlatformExportEvent :: "jsval \<Rightarrow> platform_export_event" where
  "new_PlatformExportEvent json =
     \<lparr>pee_exportId = prop_get json ''exportId'',
      pee_platformName = prop_get json ''platformName'',
      pee_platformIndex = int_or_null (prop_get json ''platformIndex''),
      pee_instanceId = prop_get json ''instanceId'',
      pee_exportData = prop_get json ''exportData'',
      pee_timestamp = prop_get json ''timestamp'',
      pee_exportMetrics = val_or (prop_get json ''exportMetrics'') JNull\<rparr>"

definition PlatformExportEvent_toJSON :: "platform_export_event \<Rightarrow> jsval" where
  "PlatformExportEvent_toJSON m =
     JObj [(''exportId'', pee_exportId m),
           (''platformName'', pee_platformName m),
           (''platformIndex'', pee_platformIndex m),
           (''instanceId'', pee_instanceId m),
           (''exportData'', pee_exportData m),
           (''timestamp'', pee_timestamp m),
           (''exportMetrics'', pee_exportMetrics m)]"

interpretation pee: message_class new_PlatformExportEvent PlatformExportEvent_toJSON PlatformExportEvent_schema
  by unfold_locales
    (auto simp: PlatformExportEvent_schema_def new_PlatformExportEvent_def
      PlatformExportEvent_toJSON_def valid_object)

subsection \<open>TransferValidationEvent\<close>

definition TransferValidationEvent_link :: message_link where
  "TransferValidationEvent_link =
     \<lparr>ml_name = ''TransferValidationEvent'', ml_type = Event, ml_src = [Instance],
      ml_dst = Controller, ml_permission = None\<rparr>"

definition TransferValidationEvent_schema :: schema where
  "TransferValidationEvent_schema = ObjectOf
       [(''transferId'', OfType [TString], None),
        (''platformName'', OfType [TString], None),
        (''sourceInstanceId'', OfType [TInteger], None),
        (''success'', OfType [TBoolean], None),
        (''validation'', OfType [TObject], None),
        (''metrics'', OfType [TObject], None)]
       [''transferId'', ''platformName'', ''sourceInstanceId'', ''success''] True"

record transfer_validation_event =
  tve_transferId :: jsval
  tve_platformName :: jsval
  tve_sourceInstanceId :: jsval
  tve_success :: jsval
  tve_validation :: jsval
  tve_metrics :: jsval

definition new_TransferValidationEvent :: "jsval \<Rightarrow> transfer_validation_event" where
  "new_TransferValidationEvent json =
     \<lparr>tve_transferId = prop_get json ''transferId'',
      tve_platformName = prop_get json ''platformName'',
      tve_sourceInstanceId = prop_get json ''sourceInstanceId'',
      tve_success = prop_get json ''success'',
      tve_validation = prop_get json ''validation'',
      tve_metrics = prop_get json ''metrics''\<rparr>"

definition TransferValidationEvent_toJSON :: "transfer_validation_event \<Rightarrow> jsval" where
  "TransferValidationEvent_toJSON m =
     JObj [(''transferId'', tve_transferId m),
           (''platformName'', tve_platformName m),
           (''sourceInstanceId'', tve_sourceInstanceId m),
           (''success'', tve_success m),
           (''validation'', tve_validation m),
           (''metrics'', tve_metrics m)]"

interpretation tve: message_class new_TransferValidationEvent TransferValidationEvent_toJSON TransferValidationEvent_schema
  by unfold_locales
    (auto simp: TransferValidationEvent_schema_def new_TransferValidationEvent_def
      TransferValidationEvent_toJSON_def valid_object)

subsection \<open>ImportOperationCompleteEvent\<close>

definition ImportOperationCompleteEvent_link :: message_link where
  "ImportOperationCompleteEvent_link =
     \<lparr>ml_name = ''ImportOperationCompleteEvent'', ml_type = Event, ml_src = [Instance],
      ml_dst = Controller, ml_permission = None\<rparr>"

definition ImportOperationCompleteEvent_schema :: schema where
  "ImportOperationCompleteEvent_schema = ObjectOf
       [(''operationId'', OfType [TString], None),
        (''platformName'', OfType [TString], None),
        (''instanceId'', OfType [TInteger], None),
        (''success'', OfType [TBoolean], None),
        (''error'', OfType [TString, TNull], None),
        (''failedStage'', OfType [TString, TNull], None),
        (''cleanupFailed'', OfType [TBoolean], None),
        (''destinationPreserved'', OfType [TBoolean], None),
        (''durationTicks'', OfType [TInteger, TNull], None),
        (''entityCount'', OfType [TInteger, TNull], None),
        (''metrics'', OfType [TObject, TNull], None),
        (''validation'', OfType [TObject, TNull], None)]
       [''operationId'', ''platformName'', ''instanceId'', ''success''] True"

record import_operation_complete_event =
  ioc_operationId :: jsval
  ioc_platformName :: jsval
  ioc_instanceId :: jsval
  ioc_success :: jsval
  ioc_error :: jsval
  ioc_failedStage :: jsval
  ioc_cleanupFailed :: jsval
  ioc_destinationPreserved :: jsval
  ioc_durationTicks :: jsval
  ioc_entityCount :: jsval
  ioc_metrics :: jsval
  ioc_validation :: jsval

definition new_ImportOperationCompleteEvent :: "jsval \<Rightarrow> import_operation_complete_event" where
  "new_ImportOperationCompleteEvent json =
     \<lparr>ioc_operationId = prop_get json ''operationId'',
      ioc_platformName = prop_get json ''platformName'',
      ioc_instanceId = prop_get json ''instanceId'',
      ioc_success = prop_get json ''success'',
      ioc_error = val_nullish (prop_get json ''error'') JNull,
      ioc_failedStage = val_nullish (prop_get json ''failedStage'') JNull,
      ioc_cleanupFailed = strictly_true (prop_get json ''cleanupFailed''),
      ioc_destinationPreserved = strictly_true (prop_get json ''destinationPreserved''),
      ioc_durationTicks = val_nullish (prop_get json ''durationTicks'') JNull,
      ioc_entityCount = val_nullish (prop_get json ''entityCount'') JNull,
      ioc_metrics = val_nullish (prop_get json ''metrics'') JNull,
      ioc_validation = val_nullish (prop_get json ''validation'') JNull\<rparr>"

definition ImportOperationCompleteEvent_toJSON :: "import_operation_complete_event \<Rightarrow> jsval" where
  "ImportOperationCompleteEvent_toJSON m =
     JObj [(''operationId'', ioc_operationId m),
           (''platformName'', ioc_platformName m),
           (''instanceId'', ioc_instanceId m),
           (''success'', ioc_success m),
           (''error'', ioc_error m),
           (''failedStage'', ioc_failedStage m),
           (''cleanupFailed'', ioc_cleanupFailed m),
           (''destinationPreserved'', ioc_destinationPreserved m),
           (''durationTicks'', ioc_durationTicks m),
           (''entityCount'', ioc_entityCount m),
           (''metrics'', ioc_metrics m),
           (''validation'', ioc_validation m)]"

interpretation ioc: message_class new_ImportOperationCompleteEvent ImportOperationCompleteEvent_toJSON ImportOperationCompleteEvent_schema
  by unfold_locales
    (auto simp: ImportOperationCompleteEvent_schema_def new_ImportOperationCompleteEvent_def
      ImportOperationCompleteEvent_toJSON_def valid_object)

subsection \<open>PlatformStateChangedEvent\<close>

definition PlatformStateChangedEvent_link :: message_link where
  "PlatformStateChangedEvent_link =
     \<lparr>ml_name = ''PlatformStateChangedEvent'', ml_type = Event, ml_src = [Instance],
      ml_dst = Controller, ml_permission = None\<rparr>"

definition PlatformStateChangedEvent_schema :: schema where
  "PlatformStateChangedEvent_schema = ObjectOf
       [(''instanceId'', OfType [TInteger], None),
        (''platformName'', OfType [TString], None),
        (''forceName'', OfType [TString], None)]
       [''instanceId'', ''platformName'', ''forceName''] True"

record platform_state_changed_event =
  psc_instanceId :: jsval
  psc_platformName :: jsval
  psc_forceName :: jsval

definition new_PlatformStateChangedEvent :: "jsval \<Rightarrow> platform_state_changed_event" where
  "new_PlatformStateChangedEvent json =
     \<lparr>psc_instanceId = prop_get json ''instanceId'',
      psc_platformName = prop_get json ''platformName'',
      psc_forceName = prop_get json ''forceName''\<rparr>"

definition PlatformStateChangedEvent_toJSON :: "platform_state_changed_event \<Rightarrow> jsval" where
  "PlatformStateChangedEvent_toJSON m =
     JObj [(''instanceId'', psc_instanceId m),
           (''platformName'', psc_platformName m),
           (''forceName'', psc_forceName m)]"

interpretation psc: message_class new_PlatformStateChangedEvent PlatformStateChangedEvent_toJSON PlatformStateChangedEvent_schema
  by unfold_locales
    (auto simp: PlatformStateChangedEvent_schema_def new_PlatformStateChangedEvent_def
      PlatformStateChangedEvent_toJSON_def valid_object)

subsection \<open>GetGatewayConfigRequest\<close>

definition GetGatewayConfigRequest_link :: message_link where
  "GetGatewayConfigRequest_link =
     \<lparr>ml_name = ''GetGatewayConfigRequest'', ml_type = Request, ml_src = [Instance],
      ml_dst = Controller, ml_permission = None\<rparr>"

definition GetGatewayConfigRequest_schema :: schema where
  "GetGatewayConfigRequest_schema = ObjectOf
       [(''instanceId'', OfType [TInteger], None)]
       [''instanceId''] True"

record get_gateway_config_request =
  ggc_instanceId :: jsval

definition new_GetGatewayConfigRequest :: "jsval \<Rightarrow> get_gateway_config_request" where
  "new_GetGatewayConfigRequest json =
     \<lparr>ggc_instanceId = prop_get json ''instanceId''\<rparr>"

definition GetGatewayConfigRequest_toJSON :: "get_gateway_config_request \<Rightarrow> jsval" where
  "GetGatewayConfigRequest_toJSON m =
     JObj [(''instanceId'', ggc_instanceId m)]"

definition GetGatewayConfigRequest_response :: schema where
  "GetGatewayConfigRequest_response = ObjectOf
       [(''gateways'', RESOLVED_GATEWAYS_SCHEMA, None),
        (''activeGatewayNames'', ArrayOf (OfType [TString]), None)]
       [''gateways''] False"

interpretation ggc: message_class new_GetGatewayConfigRequest GetGatewayConfigRequest_toJSON GetGatewayConfigRequest_schema
  by unfold_locales
    (auto simp: GetGatewayConfigRequest_schema_def new_GetGatewayConfigRequest_def
      GetGatewayConfigRequest_toJSON_def valid_object)

subsection \<open>GetInstanceRosterRequest\<close>

definition GetInstanceRosterRequest_link :: message_link where
  "GetInstanceRosterRequest_link =
     \<lparr>ml_name = ''GetInstanceRosterRequest'', ml_type = Request, ml_src = [Instance],
      ml_dst = Controller, ml_permission = None\<rparr>"

definition GetInstanceRosterRequest_schema :: schema where
  "GetInstanceRosterRequest_schema = ObjectOf
       [(''instanceId'', OfType [TInteger], None)]
       [''instanceId''] True"

record get_instance_roster_request =
  gir_instanceId :: jsval

definition new_GetInstanceRosterRequest :: "jsval \<Rightarrow> get_instance_roster_request" where
  "new_GetInstanceRosterRequest json =
     \<lparr>gir_instanceId = prop_get json ''instanceId''\<rparr>"

definition GetInstanceRosterRequest_toJSON :: "get_instance_roster_request \<Rightarrow> jsval" where
  "GetInstanceRosterRequest_toJSON m =
     JObj [(''instanceId'', gir_instanceId m)]"

definition GetInstanceRosterRequest_response :: schema where
  "GetInstanceRosterRequest_response = ObjectOf
       [(''instances'', ROSTER_INSTANCES_SCHEMA, None)]
       [''instances''] False"

interpretation gir: message_class new_GetInstanceRosterRequest GetInstanceRosterRequest_toJSON GetInstanceRosterRequest_schema
  by unfold_locales
    (auto simp: GetInstanceRosterRequest_schema_def new_GetInstanceRosterRequest_def
      GetInstanceRosterRequest_toJSON_def valid_object)

end
