(* ===== verification/InstanceMessages.thy ===== *)
theory InstanceMessages
  imports EventMessages
begin

text \<open>
  Messages (messages.ts): the requests an instance serves.
  Per class its addressing, its schema, its fields, the constructor (which \<open>fromJSON\<close> calls
  with the received object), \<open>toJSON\<close> and the schema of the response, and that it keeps the
  contract of a message class.
\<close>

definition SOURCE_TRANSFER_LOCK_STATES :: "string list" where
  "SOURCE_TRANSFER_LOCK_STATES =
     [''pre_commit'', ''committed'', ''source_gone_matching_transfer'', ''unknown/offline'', ''identity_mismatch'']"

subsection \<open>ExportPlatformRequest\<close>

definition ExportPlatformRequest_link :: message_link where
  "ExportPlatformRequest_link =
     \<lparr>ml_name = ''ExportPlatformRequest'', ml_type = Request, ml_src = [Controller, Instance],
      ml_dst = Instance, ml_permission = None\<rparr>"

definition ExportPlatformRequest_schema :: schema where
  "ExportPlatformRequest_schema = ObjectOf
       [(''platformIndex'', OfType [TInteger], None),
        (''forceName'', OfType [TString], Some (JStr ''player'')),
        (''targetInstanceId'', OfType [TInteger, TNull], Some JNull)]
       [''platformIndex''] True"

record export_platform_request =
  epr_platformIndex :: jsval
  epr_forceName :: jsval
  epr_targetInstanceId :: jsval

definition new_ExportPlatformRequest :: "jsval \<Rightarrow> export_platform_request" where
  "new_ExportPlatformRequest json =
     \<lparr>epr_platformIndex = prop_get json ''platformIndex'',
      epr_forceName = val_or (prop_get json ''forceName'') (JStr ''player''),
      epr_targetInstanceId = val_nullish (prop_get json ''targetInstanceId'') JNull\<rparr>"

definition ExportPlatformRequest_toJSON :: "export_platform_request \<Rightarrow> jsval" where
  "ExportPlatformRequest_toJSON m =
     JObj [(''platformIndex'', epr_platformIndex m),
           (''forceName'', epr_forceName m),
           (''targetInstanceId'', epr_targetInstanceId m)]"

definition ExportPlatformRequest_response :: schema where
  "ExportPlatformRequest_response = ObjectOf
       [(''success'', OfType [TBoolean], None),
        (''exportId'', OfType [TString], None),
        (''error'', OfType [TString], None)]
       [''success''] False"

interpretation epr: message_class new_ExportPlatformRequest ExportPlatformRequest_toJSON ExportPlatformRequest_schema
  by unfold_locales
    (auto simp: ExportPlatformRequest_schema_def new_ExportPlatformRequest_def
      ExportPlatformRequest_toJSON_def valid_object)

subsection \<open>ImportPlatformRequest\<close>

definition ImportPlatformRequest_link :: message_link where
  "ImportPlatformRequest_link =
     \<lparr>ml_name = ''ImportPlatformRequest'', ml_type = Request, ml_src = [Controller, Instance],
      ml_dst = Instance, ml_permission = None\<rparr>"

definition ImportPlatformRequest_schema :: schema where
  "ImportPlatformRequest_schema = ObjectOf
       [(''exportId'', OfType [TString], None),
        (''exportData'', OfType [TObject], None),
        (''forceName'', OfType [TString], Some (JStr ''player'')),
        (''targetPlanet'', OfType [TString, TNull], Some JNull)]
       [''exportId'', ''exportData''] True"

record import_platform_request =
  ipr_exportId :: jsval
  ipr_exportData :: jsval
  ipr_forceName :: jsval
  ipr_targetPlanet :: jsval

definition new_ImportPlatformRequest :: "jsval \<Rightarrow> import_platform_request" where
  "new_ImportPlatformRequest json =
     \<lparr>ipr_exportId = prop_get json ''exportId'',
      ipr_exportData = prop_get json ''exportData'',
      ipr_forceName = val_or (prop_get json ''forceName'') (JStr ''player''),
      ipr_targetPlanet = val_nullish (prop_get json ''targetPlanet'') JNull\<rparr>"

definition ImportPlatformRequest_toJSON :: "import_platform_request \<Rightarrow> jsval" where
  "ImportPlatformRequest_toJSON m =
     JObj [(''exportId'', ipr_exportId m),
           (''exportData'', ipr_exportData m),
           (''forceName'', ipr_forceName m),
           (''targetPlanet'', ipr_targetPlanet m)]"

definition ImportPlatformRequest_response :: schema where
  "ImportPlatformRequest_response = ObjectOf
       [(''success'', OfType [TBoolean], None),
        (''error'', OfType [TString], None)]
       [''success''] False"

interpretation ipr: message_class new_ImportPlatformRequest ImportPlatformRequest_toJSON ImportPlatformRequest_schema
  by unfold_locales
    (auto simp: ImportPlatformRequest_schema_def new_ImportPlatformRequest_def
      ImportPlatformRequest_toJSON_def valid_object)

subsection \<open>InstanceListPlatformsRequest\<close>

definition InstanceListPlatformsRequest_link :: message_link where
  "InstanceListPlatformsRequest_link =
     \<lparr>ml_name = ''InstanceListPlatformsRequest'', ml_type = Request, ml_src = [Controller],
      ml_dst = Instance, ml_permission = None\<rparr>"

definition InstanceListPlatformsRequest_schema :: schema where
  "InstanceListPlatformsRequest_schema = ObjectOf
       [(''forceName'', OfType [TString], Some (JStr ''player''))]
       [] True"

record instance_list_platforms_request =
  ilp_forceName :: jsval

definition new_InstanceListPlatformsRequest :: "jsval \<Rightarrow> instance_list_platforms_request" where
  "new_InstanceListPlatformsRequest json =
     \<lparr>ilp_forceName = val_or (prop_get json ''forceName'') (JStr ''player'')\<rparr>"

definition InstanceListPlatformsRequest_toJSON :: "instance_list_platforms_request \<Rightarrow> jsval" where
  "InstanceListPlatformsRequest_toJSON m =
     JObj [(''forceName'', ilp_forceName m)]"

definition InstanceListPlatformsRequest_response :: schema where
  "InstanceListPlatformsRequest_response = ObjectOf
       [(''instanceId'', OfType [TInteger], None),
        (''instanceName'', OfType [TString], None),
        (''forceName'', OfType [TString], None),
        (''platforms'', OfType [TArray], None)]
       [''instanceId'', ''instanceName'', ''forceName'', ''platforms''] False"

interpretation ilp: message_class new_InstanceListPlatformsRequest InstanceListPlatformsRequest_toJSON InstanceListPlatformsRequest_schema
  by unfold_locales
    (auto simp: InstanceListPlatformsRequest_schema_def new_InstanceListPlatformsRequest_def
      InstanceListPlatformsRequest_toJSON_def valid_object)

subsection \<open>PushGatewayConfigRequest\<close>

definition PushGatewayConfigRequest_link :: message_link where
  "PushGatewayConfigRequest_link =
     \<lparr>ml_name = ''PushGatewayConfigRequest'', ml_type = Request, ml_src = [Controller],
      ml_dst = Instance, ml_permission = None\<rparr>"

definition PushGatewayConfigRequest_schema :: schema where
  "PushGatewayConfigRequest_schema = ObjectOf
       [(''gateways'', RESOLVED_GATEWAYS_SCHEMA, None),
        (''activeGatewayNames'', ArrayOf (OfType [TString]), None)]
       [''gateways''] True"

record push_gateway_config_request =
  pgc_gateways :: jsval
  pgc_activeGatewayNames :: jsval

definition new_PushGatewayConfigRequest :: "jsval \<Rightarrow> push_gateway_config_request" where
  "new_PushGatewayConfigRequest json =
     \<lparr>pgc_gateways = prop_get json ''gateways'',
      pgc_activeGatewayNames = prop_get json ''activeGatewayNames''\<rparr>"

definition PushGatewayConfigRequest_toJSON :: "push_gateway_config_request \<Rightarrow> jsval" where
  "PushGatewayConfigRequest_toJSON m =
     JObj [(''gateways'', pgc_gateways m),
           (''activeGatewayNames'', pgc_activeGatewayNames m)]"

definition PushGatewayConfigRequest_response :: schema where
  "PushGatewayConfigRequest_response = ObjectOf
       [(''success'', OfType [TBoolean], None),
        (''error'', OfType [TString], None)]
       [''success''] False"

interpretation pgc: message_class new_PushGatewayConfigRequest PushGatewayConfigRequest_toJSON PushGatewayConfigRequest_schema
  by unfold_locales
    (auto simp: PushGatewayConfigRequest_schema_def new_PushGatewayConfigRequest_def
      PushGatewayConfigRequest_toJSON_def valid_object)

subsection \<open>ImportPlatformFromFileRequest\<close>

definition ImportPlatformFromFileRequest_link :: message_link where
  "ImportPlatformFromFileRequest_link =
     \<lparr>ml_name = ''ImportPlatformFromFileRequest'', ml_type = Request, ml_src = [Controller, Instance],
      ml_dst = Instance, ml_permission = None\<rparr>"

definition ImportPlatformFromFileRequest_schema :: schema where
  "ImportPlatformFromFileRequest_schema = ObjectOf
       [(''filename'', OfType [TString], None),
        (''platformName'', OfType [TString, TNull], Some JNull),
        (''forceName'', OfType [TString], Some (JStr ''player''))]
       [''filename''] True"

record import_platform_from_file_request =
  ipf_filename :: jsval
  ipf_platformName :: jsval
  ipf_forceName :: jsval

definition new_ImportPlatformFromFileRequest :: "jsval \<Rightarrow> import_platform_from_file_request" where
  "new_ImportPlatformFromFileRequest json =
     \<lparr>ipf_filename = prop_get json ''filename'',
      ipf_platformName = val_nullish (prop_get json ''platformName'') JNull,
      ipf_forceName = val_or (prop_get json ''forceName'') (JStr ''player'')\<rparr>"

definition ImportPlatformFromFileRequest_toJSON :: "import_platform_from_file_request \<Rightarrow> jsval" where
  "ImportPlatformFromFileRequest_toJSON m =
     JObj [(''filename'', ipf_filename m),
           (''platformName'', ipf_platformName m),
           (''forceName'', ipf_forceName m)]"

definition ImportPlatformFromFileRequest_response :: schema where
  "ImportPlatformFromFileRequest_response = ObjectOf
       [(''success'', OfType [TBoolean], None),
        (''error'', OfType [TString], None)]
       [''success''] False"

interpretation ipf: message_class new_ImportPlatformFromFileRequest ImportPlatformFromFileRequest_toJSON ImportPlatformFromFileRequest_schema
  by unfold_locales
    (auto simp: ImportPlatformFromFileRequest_schema_def new_ImportPlatformFromFileRequest_def
      ImportPlatformFromFileRequest_toJSON_def valid_object)

subsection \<open>DeleteSourcePlatformRequest\<close>

definition DeleteSourcePlatformRequest_link :: message_link where
  "DeleteSourcePlatformRequest_link =
     \<lparr>ml_name = ''DeleteSourcePlatformRequest'', ml_type = Request, ml_src = [Controller],
      ml_dst = Instance, ml_permission = None\<rparr>"

definition DeleteSourcePlatformRequest_schema :: schema where
  "DeleteSourcePlatformRequest_schema = ObjectOf
       [(''platformIndex'', OfType [TInteger], None),
        (''platformName'', OfType [TString], None),
        (''forceName'', OfType [TString], Some (JStr ''player'')),
        (''exportId'', OfType [TString, TNull], Some JNull)]
       [''platformIndex'', ''platformName''] True"

record delete_source_platform_request =
  dsp_platformIndex :: jsval
  dsp_platformName :: jsval
  dsp_forceName :: jsval
  dsp_exportId :: jsval

definition new_DeleteSourcePlatformRequest :: "jsval \<Rightarrow> delete_source_platform_request" where
  "new_DeleteSourcePlatformRequest json =
     \<lparr>dsp_platformIndex = prop_get json ''platformIndex'',
      dsp_platformName = prop_get json ''platformName'',
      dsp_forceName = val_or (prop_get json ''forceName'') (JStr ''player''),
      dsp_exportId = val_nullish (prop_get json ''exportId'') JNull\<rparr>"

definition DeleteSourcePlatformRequest_toJSON :: "delete_source_platform_request \<Rightarrow> jsval" where
  "DeleteSourcePlatformRequest_toJSON m =
     JObj [(''platformIndex'', dsp_platformIndex m),
           (''platformName'', dsp_platformName m),
           (''forceName'', dsp_forceName m),
           (''exportId'', dsp_exportId m)]"

definition DeleteSourcePlatformRequest_response :: schema where
  "DeleteSourcePlatformRequest_response = ObjectOf
       [(''success'', OfType [TBoolean], None),
        (''error'', OfType [TString], None)]
       [''success''] False"

interpretation dsp: message_class new_DeleteSourcePlatformRequest DeleteSourcePlatformRequest_toJSON DeleteSourcePlatformRequest_schema
  by unfold_locales
    (auto simp: DeleteSourcePlatformRequest_schema_def new_DeleteSourcePlatformRequest_def
      DeleteSourcePlatformRequest_toJSON_def valid_object)

subsection \<open>UnlockSourcePlatformRequest\<close>

definition UnlockSourcePlatformRequest_link :: message_link where
  "UnlockSourcePlatformRequest_link =
     \<lparr>ml_name = ''UnlockSourcePlatformRequest'', ml_type = Request, ml_src = [Controller],
      ml_dst = Instance, ml_permission = None\<rparr>"

definition UnlockSourcePlatformRequest_schema :: schema where
  "UnlockSourcePlatformRequest_schema = ObjectOf
       [(''platformIndex'', OfType [TInteger], None),
        (''platformName'', OfType [TString, TNull], None),
        (''forceName'', OfType [TString], Some (JStr ''player''))]
       [''platformIndex''] True"

record unlock_source_platform_request =
  usp_platformIndex :: jsval
  usp_platformName :: jsval
  usp_forceName :: jsval

definition new_UnlockSourcePlatformRequest :: "jsval \<Rightarrow> unlock_source_platform_request" where
  "new_UnlockSourcePlatformRequest json =
     \<lparr>usp_platformIndex = prop_get json ''platformIndex'',
      usp_platformName = val_nullish (prop_get json ''platformName'') JNull,
      usp_forceName = val_or (prop_get json ''forceName'') (JStr ''player'')\<rparr>"

definition UnlockSourcePlatformRequest_toJSON :: "unlock_source_platform_request \<Rightarrow> jsval" where
  "UnlockSourcePlatformRequest_toJSON m =
     JObj [(''platformIndex'', usp_platformIndex m),
           (''platformName'', usp_platformName m),
           (''forceName'', usp_forceName m)]"

definition UnlockSourcePlatformRequest_response :: schema where
  "UnlockSourcePlatformRequest_response = ObjectOf
       [(''success'', OfType [TBoolean], None),
        (''error'', OfType [TString], None)]
       [''success''] False"

interpretation usp: message_class new_UnlockSourcePlatformRequest UnlockSourcePlatformRequest_toJSON UnlockSourcePlatformRequest_schema
  by unfold_locales
    (auto simp: UnlockSourcePlatformRequest_schema_def new_UnlockSourcePlatformRequest_def
      UnlockSourcePlatformRequest_toJSON_def valid_object)

subsection \<open>GetSourceTransferLockStateRequest\<close>

definition GetSourceTransferLockStateRequest_link :: message_link where
  "GetSourceTransferLockStateRequest_link =
     \<lparr>ml_name = ''GetSourceTransferLockStateRequest'', ml_type = Request, ml_src = [Controller],
      ml_dst = Instance, ml_permission = None\<rparr>"

definition GetSourceTransferLockStateRequest_schema :: schema where
  "GetSourceTransferLockStateRequest_schema = ObjectOf
       [(''transferId'', OfType [TString], None),
        (''platformIndex'', OfType [TInteger], None),
        (''platformName'', OfType [TString], None),
        (''forceName'', OfType [TString], Some (JStr ''player''))]
       [''transferId'', ''platformIndex'', ''platformName''] True"

record get_source_transfer_lock_state_request =
  gls_transferId :: jsval
  gls_platformIndex :: jsval
  gls_platformName :: jsval
  gls_forceName :: jsval

definition new_GetSourceTransferLockStateRequest :: "jsval \<Rightarrow> get_source_transfer_lock_state_request" where
  "new_GetSourceTransferLockStateRequest json =
     \<lparr>gls_transferId = prop_get json ''transferId'',
      gls_platformIndex = prop_get json ''platformIndex'',
      gls_platformName = prop_get json ''platformName'',
      gls_forceName = val_or (prop_get json ''forceName'') (JStr ''player'')\<rparr>"

definition GetSourceTransferLockStateRequest_toJSON :: "get_source_transfer_lock_state_request \<Rightarrow> jsval" where
  "GetSourceTransferLockStateRequest_toJSON m =
     JObj [(''transferId'', gls_transferId m),
           (''platformIndex'', gls_platformIndex m),
           (''platformName'', gls_platformName m),
           (''forceName'', gls_forceName m)]"

definition GetSourceTransferLockStateRequest_response :: schema where
  "GetSourceTransferLockStateRequest_response = ObjectOf
       [(''state'', OneOf SOURCE_TRANSFER_LOCK_STATES, None),
        (''transferId'', OfType [TString, TNull], None),
        (''error'', OfType [TString, TNull], None)]
       [''state''] True"

interpretation gls: message_class new_GetSourceTransferLockStateRequest GetSourceTransferLockStateRequest_toJSON GetSourceTransferLockStateRequest_schema
  by unfold_locales
    (auto simp: GetSourceTransferLockStateRequest_schema_def new_GetSourceTransferLockStateRequest_def
      GetSourceTransferLockStateRequest_toJSON_def valid_object)

subsection \<open>TransferStatusUpdate\<close>

definition TransferStatusUpdate_link :: message_link where
  "TransferStatusUpdate_link =
     \<lparr>ml_name = ''TransferStatusUpdate'', ml_type = Request, ml_src = [Controller],
      ml_dst = Instance, ml_permission = None\<rparr>"

definition TransferStatusUpdate_schema :: schema where
  "TransferStatusUpdate_schema = ObjectOf
       [(''transferId'', OfType [TString], None),
        (''platformName'', OfType [TString], None),
        (''message'', OfType [TString], None),
        (''color'', OfType [TString, TNull], None)]
       [''transferId'', ''platformName'', ''message''] True"

record transfer_status_update =
  tsu_transferId :: jsval
  tsu_platformName :: jsval
  tsu_message :: jsval
  tsu_color :: jsval

definition new_TransferStatusUpdate :: "jsval \<Rightarrow> transfer_status_update" where
  "new_TransferStatusUpdate json =
     \<lparr>tsu_transferId = prop_get json ''transferId'',
      tsu_platformName = prop_get json ''platformName'',
      tsu_message = prop_get json ''message'',
      tsu_color = val_or (prop_get json ''color'') JNull\<rparr>"

definition TransferStatusUpdate_toJSON :: "transfer_status_update \<Rightarrow> jsval" where
  "TransferStatusUpdate_toJSON m =
     JObj [(''transferId'', tsu_transferId m),
           (''platformName'', tsu_platformName m),
           (''message'', tsu_message m),
           (''color'', tsu_color m)]"

definition TransferStatusUpdate_response :: schema where
  "TransferStatusUpdate_response = ObjectOf
       [(''success'', OfType [TBoolean], None),
        (''error'', OfType [TString], None)]
       [''success''] False"

interpretation tsu: message_class new_TransferStatusUpdate TransferStatusUpdate_toJSON TransferStatusUpdate_schema
  by unfold_locales
    (auto simp: TransferStatusUpdate_schema_def new_TransferStatusUpdate_def
      TransferStatusUpdate_toJSON_def valid_object)

end
