(* ===== verification/Messages.thy ===== *)
theory Messages
  imports ControlMessages InstanceMessages Plugin
begin

text \<open>
  The messages the plugin registers with Clusterio (index.ts), and the document each request of the
  controller's model is sent as. Clusterio, which validates a received document against the schema
  and checks the permission, is outside the repository.
\<close>

record codec =
  co_link :: message_link
  co_schema :: schema
  co_encode :: "jsval \<Rightarrow> jsval"
    \<comment> \<open>what \<open>toJSON\<close> writes for the object \<open>fromJSON\<close> makes\<close>
  co_response :: "schema option"

abbreviation codec :: "message_link \<Rightarrow> schema \<Rightarrow> (jsval \<Rightarrow> jsval) \<Rightarrow> schema option \<Rightarrow> codec" where
  "codec l s e r \<equiv> \<lparr>co_link = l, co_schema = s, co_encode = e, co_response = r\<rparr>"

definition registered_messages :: "codec list" where
  "registered_messages =
     [codec ExportPlatformRequest_link ExportPlatformRequest_schema
        (\<lambda>j. ExportPlatformRequest_toJSON (new_ExportPlatformRequest j)) (Some ExportPlatformRequest_response),
      codec PlatformExportEvent_link PlatformExportEvent_schema
        (\<lambda>j. PlatformExportEvent_toJSON (new_PlatformExportEvent j)) (None),
      codec ImportPlatformRequest_link ImportPlatformRequest_schema
        (\<lambda>j. ImportPlatformRequest_toJSON (new_ImportPlatformRequest j)) (Some ImportPlatformRequest_response),
      codec ImportPlatformFromFileRequest_link ImportPlatformFromFileRequest_schema
        (\<lambda>j. ImportPlatformFromFileRequest_toJSON (new_ImportPlatformFromFileRequest j)) (Some ImportPlatformFromFileRequest_response),
      codec ListExportsRequest_link ListExportsRequest_schema
        (\<lambda>j. ListExportsRequest_toJSON (new_ListExportsRequest j)) (Some ListExportsRequest_response),
      codec GetStoredExportRequest_link GetStoredExportRequest_schema
        (\<lambda>j. GetStoredExportRequest_toJSON (new_GetStoredExportRequest j)) (Some GetStoredExportRequest_response),
      codec ImportUploadedExportRequest_link ImportUploadedExportRequest_schema
        (\<lambda>j. ImportUploadedExportRequest_toJSON (new_ImportUploadedExportRequest j)) (Some ImportUploadedExportRequest_response),
      codec ExportPlatformForDownloadRequest_link ExportPlatformForDownloadRequest_schema
        (\<lambda>j. ExportPlatformForDownloadRequest_toJSON (new_ExportPlatformForDownloadRequest j)) (Some ExportPlatformForDownloadRequest_response),
      codec TransferPlatformRequest_link TransferPlatformRequest_schema
        (\<lambda>j. TransferPlatformRequest_toJSON (new_TransferPlatformRequest j)) (Some TransferPlatformRequest_response),
      codec StartPlatformTransferRequest_link StartPlatformTransferRequest_schema
        (\<lambda>j. StartPlatformTransferRequest_toJSON (new_StartPlatformTransferRequest j)) (Some StartPlatformTransferRequest_response),
      codec InstanceListPlatformsRequest_link InstanceListPlatformsRequest_schema
        (\<lambda>j. InstanceListPlatformsRequest_toJSON (new_InstanceListPlatformsRequest j)) (Some InstanceListPlatformsRequest_response),
      codec TransferValidationEvent_link TransferValidationEvent_schema
        (\<lambda>j. TransferValidationEvent_toJSON (new_TransferValidationEvent j)) (None),
      codec ImportOperationCompleteEvent_link ImportOperationCompleteEvent_schema
        (\<lambda>j. ImportOperationCompleteEvent_toJSON (new_ImportOperationCompleteEvent j)) (None),
      codec DeleteSourcePlatformRequest_link DeleteSourcePlatformRequest_schema
        (\<lambda>j. DeleteSourcePlatformRequest_toJSON (new_DeleteSourcePlatformRequest j)) (Some DeleteSourcePlatformRequest_response),
      codec UnlockSourcePlatformRequest_link UnlockSourcePlatformRequest_schema
        (\<lambda>j. UnlockSourcePlatformRequest_toJSON (new_UnlockSourcePlatformRequest j)) (Some UnlockSourcePlatformRequest_response),
      codec GetSourceTransferLockStateRequest_link GetSourceTransferLockStateRequest_schema
        (\<lambda>j. GetSourceTransferLockStateRequest_toJSON (new_GetSourceTransferLockStateRequest j)) (Some GetSourceTransferLockStateRequest_response),
      codec TransferStatusUpdate_link TransferStatusUpdate_schema
        (\<lambda>j. TransferStatusUpdate_toJSON (new_TransferStatusUpdate j)) (Some TransferStatusUpdate_response),
      codec GetPlatformTreeRequest_link GetPlatformTreeRequest_schema
        (\<lambda>j. GetPlatformTreeRequest_toJSON (new_GetPlatformTreeRequest j)) (Some GetPlatformTreeRequest_response),
      codec ListTransactionLogsRequest_link ListTransactionLogsRequest_schema
        (\<lambda>j. ListTransactionLogsRequest_toJSON (new_ListTransactionLogsRequest j)) (Some ListTransactionLogsRequest_response),
      codec GetTransactionLogRequest_link GetTransactionLogRequest_schema
        (\<lambda>j. GetTransactionLogRequest_toJSON (new_GetTransactionLogRequest j)) (Some GetTransactionLogRequest_response),
      codec SetSurfaceExportSubscriptionRequest_link SetSurfaceExportSubscriptionRequest_schema
        (\<lambda>j. SetSurfaceExportSubscriptionRequest_toJSON (new_SetSurfaceExportSubscriptionRequest j)) (None),
      codec SurfaceExportTreeUpdateEvent_link SurfaceExportTreeUpdateEvent_schema
        (\<lambda>j. SurfaceExportTreeUpdateEvent_toJSON (new_SurfaceExportTreeUpdateEvent j)) (None),
      codec SurfaceExportTransferUpdateEvent_link SurfaceExportTransferUpdateEvent_schema
        (\<lambda>j. SurfaceExportTransferUpdateEvent_toJSON (new_SurfaceExportTransferUpdateEvent j)) (None),
      codec SurfaceExportLogUpdateEvent_link SurfaceExportLogUpdateEvent_schema
        (\<lambda>j. SurfaceExportLogUpdateEvent_toJSON (new_SurfaceExportLogUpdateEvent j)) (None),
      codec PlatformStateChangedEvent_link PlatformStateChangedEvent_schema
        (\<lambda>j. PlatformStateChangedEvent_toJSON (new_PlatformStateChangedEvent j)) (None),
      codec GetGatewaysRequest_link GetGatewaysRequest_schema
        (\<lambda>j. GetGatewaysRequest_toJSON (new_GetGatewaysRequest j)) (Some GetGatewaysRequest_response),
      codec SetGatewayLinkRequest_link SetGatewayLinkRequest_schema
        (\<lambda>j. SetGatewayLinkRequest_toJSON (new_SetGatewayLinkRequest j)) (Some SetGatewayLinkRequest_response),
      codec GetGatewayConfigRequest_link GetGatewayConfigRequest_schema
        (\<lambda>j. GetGatewayConfigRequest_toJSON (new_GetGatewayConfigRequest j)) (Some GetGatewayConfigRequest_response),
      codec GetInstanceRosterRequest_link GetInstanceRosterRequest_schema
        (\<lambda>j. GetInstanceRosterRequest_toJSON (new_GetInstanceRosterRequest j)) (Some GetInstanceRosterRequest_response),
      codec PushGatewayConfigRequest_link PushGatewayConfigRequest_schema
        (\<lambda>j. PushGatewayConfigRequest_toJSON (new_PushGatewayConfigRequest j)) (Some PushGatewayConfigRequest_response)]"


section \<open>Every class keeps the contract\<close>

lemmas message_classes =
  epr.message_class_axioms pee.message_class_axioms ipr.message_class_axioms ipf.message_class_axioms
  ler.message_class_axioms gse.message_class_axioms iue.message_class_axioms epd.message_class_axioms
  tpr.message_class_axioms spt.message_class_axioms ilp.message_class_axioms tve.message_class_axioms
  ioc.message_class_axioms dsp.message_class_axioms usp.message_class_axioms gls.message_class_axioms
  tsu.message_class_axioms gpt.message_class_axioms ltl.message_class_axioms gtl.message_class_axioms
  sse.message_class_axioms tre.message_class_axioms tue.message_class_axioms lue.message_class_axioms
  psc.message_class_axioms ggr.message_class_axioms sgl.message_class_axioms ggc.message_class_axioms
  gir.message_class_axioms pgc.message_class_axioms

definition keeps_contract :: "codec \<Rightarrow> bool" where
  "keeps_contract c =
     (\<forall>j. (conforms (co_schema c) j \<longrightarrow> conforms (co_schema c) (co_encode c j)
              \<and> (\<forall>n. conforms (co_schema c) (((\<lambda>d. wire (co_encode c d)) ^^ n) j)))
        \<and> (is_wire j \<longrightarrow> (\<forall>n. ((\<lambda>d. wire (co_encode c d)) ^^ Suc n) j = wire (co_encode c j))))"

lemma class_keeps_contract:
  assumes "message_class mk js sc"
  shows "keeps_contract (codec l sc (\<lambda>j. js (mk j)) r)"
  unfolding keeps_contract_def codec.simps
  using message_class.relay_stable [OF assms] message_class.relay_valid [OF assms]
    message_class.writes_valid [OF assms] by blast

lemma registered_keep_contract: "c \<in> set registered_messages \<Longrightarrow> keeps_contract c"
  unfolding registered_messages_def list.set insert_iff empty_iff
  by (elim disjE FalseE) (simp_all only: message_classes [THEN class_keeps_contract])

text \<open>The declared defaults a schema has, and what the constructor gives an object without them.\<close>

definition defaults_kept :: "codec \<Rightarrow> bool" where
  "defaults_kept c =
     (case co_schema c of
        ObjectOf ps req sealed \<Rightarrow>
          (\<forall>(k, sc, d)\<in>set ps. \<forall>x j. d = Some x \<longrightarrow> prop_get j k = JUndef \<longrightarrow> prop_get (co_encode c j) k = x)
      | _ \<Rightarrow> True)"

lemmas link_defs =
  GetStoredExportRequest_link_def
  ImportUploadedExportRequest_link_def
  ExportPlatformForDownloadRequest_link_def
  GetPlatformTreeRequest_link_def
  ListTransactionLogsRequest_link_def
  SetSurfaceExportSubscriptionRequest_link_def
  ListExportsRequest_link_def
  TransferPlatformRequest_link_def
  StartPlatformTransferRequest_link_def
  GetGatewaysRequest_link_def
  SetGatewayLinkRequest_link_def
  GetTransactionLogRequest_link_def
  SurfaceExportTreeUpdateEvent_link_def
  SurfaceExportTransferUpdateEvent_link_def
  SurfaceExportLogUpdateEvent_link_def
  PlatformExportEvent_link_def
  TransferValidationEvent_link_def
  ImportOperationCompleteEvent_link_def
  PlatformStateChangedEvent_link_def
  GetGatewayConfigRequest_link_def
  GetInstanceRosterRequest_link_def
  ExportPlatformRequest_link_def
  ImportPlatformRequest_link_def
  InstanceListPlatformsRequest_link_def
  PushGatewayConfigRequest_link_def
  ImportPlatformFromFileRequest_link_def
  DeleteSourcePlatformRequest_link_def
  UnlockSourcePlatformRequest_link_def
  GetSourceTransferLockStateRequest_link_def
  TransferStatusUpdate_link_def

lemmas message_defs =
  GetStoredExportRequest_schema_def new_GetStoredExportRequest_def GetStoredExportRequest_toJSON_def
  ImportUploadedExportRequest_schema_def new_ImportUploadedExportRequest_def ImportUploadedExportRequest_toJSON_def
  ExportPlatformForDownloadRequest_schema_def new_ExportPlatformForDownloadRequest_def ExportPlatformForDownloadRequest_toJSON_def
  GetPlatformTreeRequest_schema_def new_GetPlatformTreeRequest_def GetPlatformTreeRequest_toJSON_def
  ListTransactionLogsRequest_schema_def new_ListTransactionLogsRequest_def ListTransactionLogsRequest_toJSON_def
  SetSurfaceExportSubscriptionRequest_schema_def new_SetSurfaceExportSubscriptionRequest_def SetSurfaceExportSubscriptionRequest_toJSON_def
  ListExportsRequest_schema_def new_ListExportsRequest_def ListExportsRequest_toJSON_def
  TransferPlatformRequest_schema_def new_TransferPlatformRequest_def TransferPlatformRequest_toJSON_def
  StartPlatformTransferRequest_schema_def new_StartPlatformTransferRequest_def StartPlatformTransferRequest_toJSON_def
  GetGatewaysRequest_schema_def new_GetGatewaysRequest_def GetGatewaysRequest_toJSON_def
  SetGatewayLinkRequest_schema_def new_SetGatewayLinkRequest_def SetGatewayLinkRequest_toJSON_def
  GetTransactionLogRequest_schema_def new_GetTransactionLogRequest_def GetTransactionLogRequest_toJSON_def
  SurfaceExportTreeUpdateEvent_schema_def new_SurfaceExportTreeUpdateEvent_def SurfaceExportTreeUpdateEvent_toJSON_def
  SurfaceExportTransferUpdateEvent_schema_def new_SurfaceExportTransferUpdateEvent_def SurfaceExportTransferUpdateEvent_toJSON_def
  SurfaceExportLogUpdateEvent_schema_def new_SurfaceExportLogUpdateEvent_def SurfaceExportLogUpdateEvent_toJSON_def
  PlatformExportEvent_schema_def new_PlatformExportEvent_def PlatformExportEvent_toJSON_def
  TransferValidationEvent_schema_def new_TransferValidationEvent_def TransferValidationEvent_toJSON_def
  ImportOperationCompleteEvent_schema_def new_ImportOperationCompleteEvent_def ImportOperationCompleteEvent_toJSON_def
  PlatformStateChangedEvent_schema_def new_PlatformStateChangedEvent_def PlatformStateChangedEvent_toJSON_def
  GetGatewayConfigRequest_schema_def new_GetGatewayConfigRequest_def GetGatewayConfigRequest_toJSON_def
  GetInstanceRosterRequest_schema_def new_GetInstanceRosterRequest_def GetInstanceRosterRequest_toJSON_def
  ExportPlatformRequest_schema_def new_ExportPlatformRequest_def ExportPlatformRequest_toJSON_def
  ImportPlatformRequest_schema_def new_ImportPlatformRequest_def ImportPlatformRequest_toJSON_def
  InstanceListPlatformsRequest_schema_def new_InstanceListPlatformsRequest_def InstanceListPlatformsRequest_toJSON_def
  PushGatewayConfigRequest_schema_def new_PushGatewayConfigRequest_def PushGatewayConfigRequest_toJSON_def
  ImportPlatformFromFileRequest_schema_def new_ImportPlatformFromFileRequest_def ImportPlatformFromFileRequest_toJSON_def
  DeleteSourcePlatformRequest_schema_def new_DeleteSourcePlatformRequest_def DeleteSourcePlatformRequest_toJSON_def
  UnlockSourcePlatformRequest_schema_def new_UnlockSourcePlatformRequest_def UnlockSourcePlatformRequest_toJSON_def
  GetSourceTransferLockStateRequest_schema_def new_GetSourceTransferLockStateRequest_def GetSourceTransferLockStateRequest_toJSON_def
  TransferStatusUpdate_schema_def new_TransferStatusUpdate_def TransferStatusUpdate_toJSON_def

lemma registered_defaults_kept: "c \<in> set registered_messages \<Longrightarrow> defaults_kept c"
  unfolding registered_messages_def list.set insert_iff empty_iff
  by (elim disjE FalseE) (simp_all add: defaults_kept_def message_defs)

section \<open>The documents of the requests the controller sends\<close>

definition target_document :: "resolved_target \<Rightarrow> jsval" where
  "target_document t =
     JObj [(''instanceId'', JNum (num_of_int (rt_instanceId t))), (''instanceName'', JStr (rt_instanceName t)),
           (''targetGateway'', JStr (rt_targetGateway t)), (''online'', JBool (rt_online t))]"

definition gateway_document :: "resolved_gateway \<Rightarrow> jsval" where
  "gateway_document g =
     JObj [(''gatewayName'', JStr (rg_gatewayName g)), (''targets'', JArr (map target_document (rg_targets g)))]"

fun message_document :: "message \<Rightarrow> jsval" where
  "message_document (TransferStatusUpdate tid name text colour) =
     TransferStatusUpdate_toJSON (new_TransferStatusUpdate (JObj
       [(''transferId'', JStr tid), (''platformName'', JStr name), (''message'', JStr text),
        (''color'', val_of_str colour)]))"
| "message_document (ImportPlatformRequest eid exportData force planet) =
     ImportPlatformRequest_toJSON (new_ImportPlatformRequest (JObj
       [(''exportId'', JStr eid), (''exportData'', exportData), (''forceName'', JStr force),
        (''targetPlanet'', val_of_str planet)]))"
| "message_document (DeleteSourcePlatformRequest i name force eid) =
     DeleteSourcePlatformRequest_toJSON (new_DeleteSourcePlatformRequest (JObj
       [(''platformIndex'', JNum (num_of_int i)), (''platformName'', JStr name), (''forceName'', JStr force),
        (''exportId'', val_of_str eid)]))"
| "message_document (UnlockSourcePlatformRequest i name force) =
     UnlockSourcePlatformRequest_toJSON (new_UnlockSourcePlatformRequest (JObj
       [(''platformIndex'', JNum (num_of_int i)), (''platformName'', val_of_str name), (''forceName'', JStr force)]))"
| "message_document (ExportPlatformRequest i force target) =
     ExportPlatformRequest_toJSON (new_ExportPlatformRequest (JObj
       [(''platformIndex'', JNum (num_of_int i)), (''forceName'', JStr force), (''targetInstanceId'', val_of_int target)]))"
| "message_document (InstanceListPlatformsRequest force) =
     InstanceListPlatformsRequest_toJSON (new_InstanceListPlatformsRequest (JObj [(''forceName'', JStr force)]))"
| "message_document (PushGatewayConfigRequest gateways names) =
     PushGatewayConfigRequest_toJSON (new_PushGatewayConfigRequest (JObj
       [(''gateways'', JArr (map gateway_document gateways)), (''activeGatewayNames'', JArr (map JStr names))]))"

fun message_schema :: "message \<Rightarrow> schema" where
  "message_schema (TransferStatusUpdate _ _ _ _) = TransferStatusUpdate_schema"
| "message_schema (ImportPlatformRequest _ _ _ _) = ImportPlatformRequest_schema"
| "message_schema (DeleteSourcePlatformRequest _ _ _ _) = DeleteSourcePlatformRequest_schema"
| "message_schema (UnlockSourcePlatformRequest _ _ _) = UnlockSourcePlatformRequest_schema"
| "message_schema (ExportPlatformRequest _ _ _) = ExportPlatformRequest_schema"
| "message_schema (InstanceListPlatformsRequest _) = InstanceListPlatformsRequest_schema"
| "message_schema (PushGatewayConfigRequest _ _) = PushGatewayConfigRequest_schema"

text \<open>The data of an export is an object; every other field has its type in the model.\<close>

fun well_typed :: "message \<Rightarrow> bool" where
  "well_typed (ImportPlatformRequest _ exportData _ _) = has_type exportData TObject"
| "well_typed _ = True"

lemma fits_val_of [simp]:
  "fits (OfType [TString, TNull]) (val_of_str s)" "fits (OfType [TInteger, TNull]) (val_of_int i)"
  "val_of_str s \<noteq> JUndef" "val_of_int i \<noteq> JUndef"
  by (simp_all add: fits_def val_of_str_def val_of_int_def split: option.split)

lemma fits_conforms: "conforms sc v \<Longrightarrow> fits sc v"
  by (simp add: fits_def)

lemma gateway_document_conforms:
  "conforms RESOLVED_GATEWAYS_SCHEMA (JArr (map gateway_document gs))"
proof -
  have t: "conforms RESOLVED_TARGET_SCHEMA (target_document t)" for t
    by (simp add: RESOLVED_TARGET_SCHEMA_def target_document_def valid_object fits_conforms)
  then show ?thesis
    by (simp add: RESOLVED_GATEWAYS_SCHEMA_def gateway_document_def valid_object fits_conforms)
qed

lemma message_document_conforms:
  assumes "well_typed m"
  shows "conforms (message_schema m) (message_document m)"
proof (cases m)
  case (TransferStatusUpdate tid name line colour)
  show ?thesis
    unfolding TransferStatusUpdate message_document.simps message_schema.simps
    by (rule tsu.writes_valid) (simp add: TransferStatusUpdate_schema_def valid_object fits_conforms)
next
  case (ImportPlatformRequest eid exportData force planet)
  moreover have "exportData \<noteq> JUndef"
    using assms ImportPlatformRequest by auto
  ultimately show ?thesis
    using assms
    unfolding ImportPlatformRequest message_document.simps message_schema.simps
    by (intro ipr.writes_valid) (simp add: ImportPlatformRequest_schema_def valid_object fits_conforms)
next
  case (DeleteSourcePlatformRequest i name force eid)
  show ?thesis
    unfolding DeleteSourcePlatformRequest message_document.simps message_schema.simps
    by (rule dsp.writes_valid) (simp add: DeleteSourcePlatformRequest_schema_def valid_object fits_conforms)
next
  case (UnlockSourcePlatformRequest i name force)
  show ?thesis
    unfolding UnlockSourcePlatformRequest message_document.simps message_schema.simps
    by (rule usp.writes_valid) (simp add: UnlockSourcePlatformRequest_schema_def valid_object fits_conforms)
next
  case (ExportPlatformRequest i force target)
  show ?thesis
    unfolding ExportPlatformRequest message_document.simps message_schema.simps
    by (rule epr.writes_valid) (simp add: ExportPlatformRequest_schema_def valid_object fits_conforms)
next
  case (InstanceListPlatformsRequest force)
  show ?thesis
    unfolding InstanceListPlatformsRequest message_document.simps message_schema.simps
    by (rule ilp.writes_valid) (simp add: InstanceListPlatformsRequest_schema_def valid_object fits_conforms)
next
  case (PushGatewayConfigRequest gs names)
  show ?thesis
    unfolding PushGatewayConfigRequest message_document.simps message_schema.simps
    by (rule pgc.writes_valid) (simp add: PushGatewayConfigRequest_schema_def valid_object fits_conforms gateway_document_conforms)
qed

text \<open>Two of the classes, for the concrete cases below.\<close>

abbreviation set_link_codec :: codec where
  "set_link_codec \<equiv> codec SetGatewayLinkRequest_link SetGatewayLinkRequest_schema
     (\<lambda>j. SetGatewayLinkRequest_toJSON (new_SetGatewayLinkRequest j)) (Some SetGatewayLinkRequest_response)"

abbreviation export_codec :: codec where
  "export_codec \<equiv> codec ExportPlatformRequest_link ExportPlatformRequest_schema
     (\<lambda>j. ExportPlatformRequest_toJSON (new_ExportPlatformRequest j)) (Some ExportPlatformRequest_response)"

lemma sample_codecs: "set_link_codec \<in> set registered_messages" "export_codec \<in> set registered_messages"
  by (simp_all add: registered_messages_def)

section \<open>Properties\<close>



text \<open>
  Where a schema declares a default for a property, the constructor gives an object that lacks
  the property that very value: whether or not the receiver fills in defaults, the message means
  the same.
\<close>

theorem declared_defaults_are_the_constructors:
  assumes "c \<in> set registered_messages" and "co_schema c = ObjectOf ps req sealed"
    and "(k, sc, Some d) \<in> set ps" and "prop_get j k = JUndef"
  shows "prop_get (co_encode c j) k = d"
  using registered_defaults_kept [OF assms(1)] assms(2-4) by (auto simp: defaults_kept_def)

theorem declared_defaults_are_the_constructors_witness:
  "prop_get (co_encode export_codec (JObj [(''platformIndex'', JNum (num_of_int 3))])) ''forceName'' = JStr ''player''"
  using declared_defaults_are_the_constructors [OF sample_codecs(2), of _ _ _ "''forceName''" "OfType [TString]"]
  by (simp add: ExportPlatformRequest_schema_def)

text \<open>
  A message a control connection may send goes to the controller and needs a permission; the
  ones that are served without the transfer permission are the readers and the subscription. No
  two registered messages share a name, and an event declares no response.
\<close>

theorem control_messages_need_permission:
  "distinct (map (\<lambda>c. ml_name (co_link c)) registered_messages) \<and>
   (\<forall>c\<in>set registered_messages. ml_type (co_link c) = Event \<longrightarrow> co_response c = None) \<and>
   (\<forall>c\<in>set registered_messages. Control \<in> set (ml_src (co_link c)) \<longrightarrow>
     ml_dst (co_link c) = Controller \<and>
     (ml_permission (co_link c) = Some PERM_TRANSFER_EXPORTS \<or>
      ml_permission (co_link c) \<in> {Some PERM_LIST_EXPORTS, Some PERM_UI_VIEW, Some PERM_VIEW_LOGS}
      \<and> ml_name (co_link c) \<in> {''ListExportsRequest'', ''GetStoredExportRequest'', ''GetPlatformTreeRequest'',
            ''ListTransactionLogsRequest'', ''GetTransactionLogRequest'', ''SetSurfaceExportSubscriptionRequest'',
            ''GetGatewaysRequest''}))"
  by (simp_all add: registered_messages_def link_defs)

theorem control_messages_need_permission_witness:
  "ml_dst (co_link set_link_codec) = Controller"
  using control_messages_need_permission sample_codecs(1)
  by (simp add: SetGatewayLinkRequest_link_def)

text \<open>
  C16: Every request the controller sends is written as a document that the schema of its class
  admits, also after the wire.
\<close>

theorem sent_requests_are_valid:
  assumes "well_typed m"
  shows "conforms (message_schema m) (wire (message_document m))"
  using message_document_conforms [OF assms] by (rule conforms_wire)

theorem sent_requests_are_valid_witness:
  "conforms ImportPlatformRequest_schema (wire (message_document
     (ImportPlatformRequest ''1:job'' (JObj [(''platform'', JObj [])]) ''player'' None)))"
  using sent_requests_are_valid [of "ImportPlatformRequest ''1:job'' (JObj [(''platform'', JObj [])]) ''player'' None"]
  by simp

end
