(* ===== verification/GatewayRules.thy ===== *)
theory GatewayRules
  imports Gateways Samples
begin

text \<open>
  What saving gateway links does to the stored layout: the submitted gateways replace the stored
  ones, the others stay, and in the multi layout every gateway keeps at most one destination and
  every destination at most one gateway. A layout written to disk is read back as it was.
\<close>

section \<open>Normalised requests\<close>

lemma gateway_names_distinct [simp]: "distinct MULTI_GATEWAY_NAMES"
  by (auto simp: MULTI_GATEWAY_NAMES_def distinct_map inj_on_def dest: show_nat_inj)

definition fit_links :: "int \<Rightarrow> gateway_link list \<Rightarrow> bool" where
  "fit_links source links = list_all (\<lambda>l. g_targetInstanceId l \<noteq> source) links"

lemma fit_normalize_targets [simp]: "fit_links source (normalize_targets source name ts)"
  by (auto simp: fit_links_def normalize_targets_def list_all_iff)

lemma normalize_entries_Inr:
  assumes "normalize_entries mode source seen es = Inr N" and "jm_wf seen"
    and "\<And>n ls. (n, ls) \<in> set seen \<Longrightarrow> n \<in> set (gatewayNamesFor mode) \<and> fit_links source ls"
  shows "jm_wf N" and "(n, ls) \<in> set N \<Longrightarrow> n \<in> set (gatewayNamesFor mode) \<and> fit_links source ls"
    and "jm_has seen n \<Longrightarrow> jm_get N n = jm_get seen n"
    and "e \<in> set es \<Longrightarrow> \<exists>name. ge_gatewayName e = Some name
           \<and> jm_get N name = Some (normalize_targets source name (ge_targets e))"
  using assms
proof (induction mode source seen es arbitrary: n ls e rule: normalize_entries.induct)
  case (1 mode source seen)
  { case 1 then show ?case by simp next case 2 then show ?case by simp
    next case 3 then show ?case by simp next case 4 then show ?case by simp }
next
  case (2 mode source seen entry rest)
  have step: thesis if "normalize_entries mode source seen (entry # rest) = Inr N"
    and "\<And>name. ge_gatewayName entry = Some name \<Longrightarrow> name \<in> set (gatewayNamesFor mode) \<Longrightarrow>
      name \<noteq> [] \<Longrightarrow> \<not> jm_has seen name \<Longrightarrow> normalize_entries mode source
      (jm_set seen name (normalize_targets source name (ge_targets entry))) rest = Inr N \<Longrightarrow> thesis" for thesis
    using that by (auto split: option.splits if_splits)
  have ext: "(n, ls) \<in> set (jm_set seen name v) \<Longrightarrow> \<not> jm_has seen name \<Longrightarrow> (n, ls) \<in> set seen \<or> n = name \<and> ls = v"
    for n name ls v by (auto simp: jm_set_absent)
  { case 1
    from 1(1) obtain name where n: "ge_gatewayName entry = Some name" "name \<in> set (gatewayNamesFor mode)"
      "name \<noteq> []" "\<not> jm_has seen name" "normalize_entries mode source
      (jm_set seen name (normalize_targets source name (ge_targets entry))) rest = Inr N" by (rule step)
    show ?case by (rule "2.IH"(1) [OF n(1) _ n(4) n(5)]) (use n 1 ext in \<open>auto dest!: ext\<close>)
  next
    case 2
    from 2(2) obtain name where n: "ge_gatewayName entry = Some name" "name \<in> set (gatewayNamesFor mode)"
      "name \<noteq> []" "\<not> jm_has seen name" "normalize_entries mode source
      (jm_set seen name (normalize_targets source name (ge_targets entry))) rest = Inr N" by (rule step)
    show ?case by (rule "2.IH"(2) [OF n(1) _ n(4) 2(1) n(5)]) (use n 2 in \<open>auto dest!: ext\<close>)
  next
    case 3
    from 3(2) obtain name where n: "ge_gatewayName entry = Some name" "name \<in> set (gatewayNamesFor mode)"
      "name \<noteq> []" "\<not> jm_has seen name" "normalize_entries mode source
      (jm_set seen name (normalize_targets source name (ge_targets entry))) rest = Inr N" by (rule step)
    then have "n \<noteq> name" using 3(1) by auto
    have "jm_get N n = jm_get (jm_set seen name (normalize_targets source name (ge_targets entry))) n"
      by (rule "2.IH"(3) [OF n(1) _ n(4) _ n(5)]) (use n 3 in \<open>auto dest!: ext\<close>)
    with \<open>n \<noteq> name\<close> show ?case by simp
  next
    case 4
    from 4(2) obtain name where n: "ge_gatewayName entry = Some name" "name \<in> set (gatewayNamesFor mode)"
      "name \<noteq> []" "\<not> jm_has seen name" "normalize_entries mode source
      (jm_set seen name (normalize_targets source name (ge_targets entry))) rest = Inr N" by (rule step)
    show ?case
    proof (cases "e = entry")
      case True
      have "jm_get N name = jm_get (jm_set seen name (normalize_targets source name (ge_targets entry))) name"
        by (rule "2.IH"(3) [OF n(1) _ n(4) _ n(5)]) (use n 4 in \<open>auto dest!: ext\<close>)
      with True n(1) show ?thesis by simp
    next
      case False
      show ?thesis
        by (rule "2.IH"(4) [OF n(1) _ n(4) _ n(5)]) (use n 4 False in \<open>auto dest!: ext\<close>)
    qed }
qed

lemma normalize_entries_keys:
  "normalize_entries mode source seen es = Inr N \<Longrightarrow> jm_has N n \<Longrightarrow>
     jm_has seen n \<or> Some n \<in> ge_gatewayName ` set es"
  by (induction mode source seen es rule: normalize_entries.induct)
    (force split: option.splits if_splits)+

lemma normalized:
  assumes "normalize_entries mode source [] es = Inr N"
  shows "jm_wf N" and "(n, ls) \<in> set N \<Longrightarrow> n \<in> set (gatewayNamesFor mode) \<and> fit_links source ls"
    and "e \<in> set es \<Longrightarrow> \<exists>name. ge_gatewayName e = Some name
           \<and> jm_get N name = Some (normalize_targets source name (ge_targets e))"
    and "jm_has N n \<Longrightarrow> Some n \<in> ge_gatewayName ` set es"
proof -
  show "jm_wf N" by (rule normalize_entries_Inr(1) [OF assms]) simp_all
  show "(n, ls) \<in> set N \<Longrightarrow> n \<in> set (gatewayNamesFor mode) \<and> fit_links source ls"
    by (rule normalize_entries_Inr(2) [OF assms]) simp_all
  show "e \<in> set es \<Longrightarrow> \<exists>name. ge_gatewayName e = Some name
           \<and> jm_get N name = Some (normalize_targets source name (ge_targets e))"
    by (rule normalize_entries_Inr(4) [OF assms]) simp_all
  show "jm_has N n \<Longrightarrow> Some n \<in> ge_gatewayName ` set es"
    using normalize_entries_keys [OF assms, of n] by simp
qed

section \<open>The stored links after the change\<close>

lemma gateway_key_inj [simp]: "gateway_key s n = gateway_key s' n' \<longleftrightarrow> s = s' \<and> n = n'"
proof
  assume "gateway_key s n = gateway_key s' n'"
  then have "split_colon (show_int s @ CHR '':'' # n) = split_colon (show_int s' @ CHR '':'' # n')"
    by (simp add: gateway_key_def)
  then show "s = s' \<and> n = n'" by (auto simp: split_colon_join dest: show_int_inj)
qed simp

lemma links_after_store:
  assumes "jm_wf N"
  shows "jm_get (foldl (store_link s) L N) (gateway_key s n) =
    (case jm_get N n of
       None \<Rightarrow> jm_get L (gateway_key s n) | Some ls \<Rightarrow> if ls = [] then None else Some ls)"
  using assms
proof (induction N arbitrary: L)
  case (Cons e N)
  obtain m ls where e: "e = (m, ls)" by force
  from Cons.prems e have N: "jm_wf N" "jm_get N m = None"
    by (auto simp: jm_wf_def jm_get_None_iff)
  show ?case
    using Cons.IH [OF N(1), of "store_link s L e"] N(2) e by (auto simp: store_link_def split: option.split)
qed simp

lemma other_links_after_store:
  "(\<forall>n. k \<noteq> gateway_key s n) \<Longrightarrow> jm_get (foldl (store_link s) L N) k = jm_get L k"
  by (induction N arbitrary: L) (auto simp: store_link_def)

definition links_of :: "plugin \<Rightarrow> int \<Rightarrow> string \<Rightarrow> gateway_link list" where
  "links_of w source name = nullish (jm_get (gatewayLinks w) (gateway_key source name)) []"

lemma links_of_after:
  assumes "jm_wf N" and "gatewayLinks w' = foldl (store_link source) (gatewayLinks w) N"
  shows "links_of w' source n = next_links w source N n"
  using links_after_store [OF assms(1), of source "gatewayLinks w" n] assms(2)
  by (auto simp: links_of_def next_links_def jm_has_def split: option.splits)

section \<open>The multi layout\<close>

text \<open>Every gateway has one destination at most, and every destination one gateway.\<close>

definition multi_layout :: "(string \<Rightarrow> gateway_link list) \<Rightarrow> bool" where
  "multi_layout links =
     (\<forall>n\<in>set MULTI_GATEWAY_NAMES. length (links n) \<le> 1 \<and>
        (\<forall>m\<in>set MULTI_GATEWAY_NAMES. m \<noteq> n \<longrightarrow> (\<forall>l\<in>set (links n). \<not> links_to (g_targetInstanceId l) (links m))))"

lemma foldl_set_where:
  "jm_get (foldl (\<lambda>m k. if f k = [] then m else jm_set m k (f k)) M ks) k =
    (if k \<in> set ks \<and> f k \<noteq> [] then Some (f k) else jm_get M k)"
  by (induction ks arbitrary: M) auto

lemma proposed_get:
  "jm_get (proposed_links w source N) n =
    (if n \<in> set MULTI_GATEWAY_NAMES \<and> next_links w source N n \<noteq> []
     then Some (next_links w source N n) else None)"
  by (simp add: proposed_links_def foldl_set_where)

lemma check_None:
  assumes "checkMultiModeLink n targets others = None"
  shows "length targets \<le> 1"
    and "l \<in> set targets \<Longrightarrow> jm_get others m = Some links \<Longrightarrow> m \<noteq> n \<Longrightarrow> \<not> links_to (g_targetInstanceId l) links"
proof -
  show len: "length targets \<le> 1" using assms by (auto simp: checkMultiModeLink_def split: if_splits)
  assume l: "l \<in> set targets" and m: "jm_get others m = Some links" "m \<noteq> n"
  from l len have "targets = [l]" by (cases targets) auto
  then have "List.find (\<lambda>(name, links). name \<noteq> n \<and> links_to (g_targetInstanceId l) links) others = None"
    using assms by (auto simp: checkMultiModeLink_def split: option.splits)
  then show "\<not> links_to (g_targetInstanceId l) links"
    using m jm_get_Some_in [OF m(1)] by (force simp: find_None_iff)
qed

lemma first_violation_None:
  "first_violation P N = None \<Longrightarrow> (n, ls) \<in> set N \<Longrightarrow> checkMultiModeLink n ls (jm_delete P n) = None"
  by (induction P N rule: first_violation.induct) (auto split: option.splits)

lemma multi_layout_next:
  assumes none: "first_violation (proposed_links w source N) N = None"
    and old: "multi_layout (links_of w source)"
  shows "multi_layout (next_links w source N)"
proof -
  have new: "length (next_links w source N n) \<le> 1"
    "l \<in> set (next_links w source N n) \<Longrightarrow> m \<in> set MULTI_GATEWAY_NAMES \<Longrightarrow> m \<noteq> n \<Longrightarrow>
       \<not> links_to (g_targetInstanceId l) (next_links w source N m)"
    if n: "jm_has N n" for n m l
  proof -
    from n obtain ls where ls: "jm_get N n = Some ls" by (auto simp: jm_has_def)
    then have nl: "next_links w source N n = ls" by (simp add: next_links_def jm_has_def)
    note c = first_violation_None [OF none jm_get_Some_in [OF ls]]
    show "length (next_links w source N n) \<le> 1" using check_None(1) [OF c] nl by simp
    assume "l \<in> set (next_links w source N n)" "m \<in> set MULTI_GATEWAY_NAMES" "m \<noteq> n"
    then show "\<not> links_to (g_targetInstanceId l) (next_links w source N m)"
      using check_None(2) [OF c, of l m "next_links w source N m"] nl
      by (cases "next_links w source N m = []") (auto simp: proposed_get links_to_def)
  qed
  have kept: "next_links w source N n = links_of w source n" if "\<not> jm_has N n" for n
    using that by (simp add: next_links_def links_of_def)
  have sym: "\<not> links_to (g_targetInstanceId l) b" if "\<forall>x\<in>set b. \<not> links_to (g_targetInstanceId x) a" "l \<in> set a"
    for l :: gateway_link and a b
    using that by (force simp: links_to_def list_ex_iff)
  show ?thesis
    unfolding multi_layout_def
  proof (intro ballI conjI impI)
    fix n m l
    assume n: "n \<in> set MULTI_GATEWAY_NAMES"
    show "length (next_links w source N n) \<le> 1"
      using new(1) [of n] kept [of n] old n by (cases "jm_has N n") (auto simp: multi_layout_def)
    assume m: "m \<in> set MULTI_GATEWAY_NAMES" "m \<noteq> n" and l: "l \<in> set (next_links w source N n)"
    consider (a) "jm_has N n" | (b) "\<not> jm_has N n" "jm_has N m" | (c) "\<not> jm_has N n" "\<not> jm_has N m" by blast
    then show "\<not> links_to (g_targetInstanceId l) (next_links w source N m)"
    proof cases
      case a
      then show ?thesis using new(2) l m by blast
    next
      case b
      then show ?thesis using new(2) [OF b(2) _ n] m l sym by blast
    next
      case c
      then show ?thesis using old n m l kept by (auto simp: multi_layout_def)
    qed
  qed
qed

section \<open>The handler\<close>

definition same_links :: "plugin \<Rightarrow> plugin \<Rightarrow> bool" where
  "same_links w w' = (gatewayLinks w' = gatewayLinks w)"

interpretation links_kept: guarantee same_links
  by unfold_locales (auto simp: same_links_def)

lemma request_keeps_links: "guar_act same_links (await_value q)"
  unfolding await_value_def request_act_def
  by (intro links_kept.guar_bind links_kept.guar_then links_kept.guar_do links_kept.guar_await)
    (auto simp: same_links_def emit_effect_def intro: links_kept.guar_return links_kept.guar_throw split: answer.split)

lemma persist_keeps_links: "guar_act same_links persistGatewayConfig"
  unfolding persistGatewayConfig_def
  by (intro links_kept.structural request_keeps_links)

lemma push_keeps_links: "guar_act same_links (pushGatewayConfigToInstance i)"
  unfolding pushGatewayConfigToInstance_def gatewayMode_def with_config_def send_to_def
  by (intro links_kept.structural request_keeps_links)

definition disk_error :: "gateway_reply \<Rightarrow> bool" where
  "disk_error reply = (\<not> gr_success reply \<and>
     (\<exists>e. gr_error reply = Some (''Gateway config could not be written to disk: '' @ e)))"

lemma save_links_run:
  assumes "run_act env (save_links source N) w f = (Inr reply, w', f')"
  shows "gatewayLinks w' = foldl (store_link source) (gatewayLinks w) N \<and> (gr_success reply \<or> disk_error reply)"
proof -
  let ?w = "w\<lparr>gatewayLinks := foldl (store_link source) (gatewayLinks w) N\<rparr>"
  obtain o1 w1 f1 where p: "run_act env persistGatewayConfig ?w f = (o1, w1, f1)" by (metis prod_cases3)
  obtain o2 w2 f2 where q: "run_act env (pushGatewayConfigToInstance source) w1 f1 = (o2, w2, f2)"
    by (metis prod_cases3)
  have "same_links ?w w1" using links_kept.run_guar [OF persist_keeps_links, of ?w env f] p by simp
  moreover have "same_links w1 w2" using links_kept.run_guar [OF push_keeps_links, of w1 env source f1] q by simp
  ultimately show ?thesis
    using assms p q
    by (auto simp: save_links_def run_laws same_links_def disk_error_def reply_error_def
        split: sum.splits option.splits)
qed

lemma set_links_run:
  assumes "run_act env (handleSetGatewayLinkRequest src submitted) w f = (Inr reply, w', f')"
  obtains (refused) "\<not> gr_success reply" "gatewayLinks w' = gatewayLinks w"
  | (saved) v source N where "config w ''surface_export.gateway_mode'' = Some v"
      "to_number src = num_of_int source"
      "normalize_entries (fst (parseGatewayMode v)) source [] submitted = Inr N"
      "fst (parseGatewayMode v) = Multi \<Longrightarrow> first_violation (proposed_links w source N) N = None"
      "gatewayLinks w' = foldl (store_link source) (gatewayLinks w) N"
      "gr_success reply \<or> disk_error reply"
proof -
  obtain v where v: "config w ''surface_export.gateway_mode'' = Some v"
    using assms by (auto simp: handleSetGatewayLinkRequest_def gatewayMode_def with_config_def run_laws
        split: option.splits)
  let ?mode = "fst (parseGatewayMode v)"
  note run = assms [unfolded handleSetGatewayLinkRequest_def gatewayMode_def with_config_def run_laws v option.case]
  show thesis
  proof (cases "\<not> gr_success reply \<and> gatewayLinks w' = gatewayLinks w")
    case True
    then show ?thesis using refused by blast
  next
    case False
    then have "submitted \<noteq> []" using run by (auto simp: run_laws reply_error_def)
    moreover obtain inst where inst: "find_instance w (to_number src) = Some inst" "\<not> n_isDeleted inst"
      using run False \<open>submitted \<noteq> []\<close>
      by (auto simp: run_laws reply_error_def Let_def split: option.splits if_splits)
    moreover obtain N where N: "normalize_entries ?mode (int_of_num (to_number src)) [] submitted = Inr N"
      using run False \<open>submitted \<noteq> []\<close> inst
      by (auto simp: run_laws reply_error_def Let_def split: sum.splits)
    moreover obtain i where i: "to_number src = num_of_int i"
      using inst(1) by (auto simp: find_instance_def is_integer_iff split: if_splits)
    moreover have fv: "?mode = Multi \<Longrightarrow> first_violation (proposed_links w i N) N = None"
      and save: "run_act env (save_links i N) w f = (Inr reply, w', f')"
      using run False \<open>submitted \<noteq> []\<close> inst N i
      by (auto simp: run_laws reply_error_def Let_def split: option.splits if_splits)
    ultimately show ?thesis using saved [OF v i] save_links_run [OF save] by simp
  qed
qed

lemma multi_mode [simp]: "fst (parseGatewayMode (JStr ''multi'')) = Multi"
  by (simp add: parseGatewayMode_def)

section \<open>A concrete change\<close>

text \<open>A controller in the multi layout whose instance 1 links gateway 1 to instance 2.\<close>

definition sample_instance :: instance_rec where
  "sample_instance = \<lparr>n_id = 1, n_isDeleted = False, n_status = ''stopped'', n_name = JStr ''alpha'',
     n_assignedHost = JNull, n_gamePort = None\<rparr>"

definition gateway_plugin :: plugin where
  "gateway_plugin = (sample_plugin sample_transfer)
     \<lparr>config := (\<lambda>_. Some (JStr ''multi'')), instances := [(1, sample_instance)],
      gatewayLinks := [(gateway_key 1 ''surfexp_gateway_1'', [\<lparr>g_targetInstanceId = 2, g_targetGateway = ''surfexp_gateway_1''\<rparr>])]\<rparr>"

definition gateway_change :: "gateway_entry list" where
  "gateway_change = [\<lparr>ge_gatewayName = Some ''surfexp_gateway_2'', ge_targets = [(JNum (num_of_int 3), None)]\<rparr>]"

lemma multi_names: "MULTI_GATEWAY_NAMES =
    [''surfexp_gateway_1'', ''surfexp_gateway_2'', ''surfexp_gateway_3'', ''surfexp_gateway_4'']"
  by code_simp

lemma gateway_change_run:
  "\<exists>w' f'. run_act (\<lambda>q f. (all_well q, f)) (handleSetGatewayLinkRequest (JNum (num_of_int 1)) gateway_change)
     gateway_plugin () = (Inr \<lparr>gr_success = True, gr_error = None\<rparr>, w', f')"
proof -
  have inst: "find_instance gateway_plugin (num_of_int 1) = Some sample_instance"
    by (simp add: find_instance_def gateway_plugin_def is_integer_def int_of_num_def)
  let ?N = "[(''surfexp_gateway_2'', [\<lparr>g_targetInstanceId = 3, g_targetGateway = ''surfexp_gateway_2''\<rparr>])]"
  have N: "normalize_entries Multi 1 [] gateway_change = Inr ?N"
    by (simp add: gateway_change_def gatewayNamesFor_def multi_names normalize_targets_def ostr_or_def
        is_integer_def int_of_num_def)
  have fv: "first_violation (proposed_links gateway_plugin 1 ?N) ?N = None"
    by (simp add: proposed_links_def next_links_def multi_names gateway_plugin_def checkMultiModeLink_def links_to_def)
  have off: "\<not> isInstanceOnline w 1" if "instances w = [(1, sample_instance)]" for w
    using that by (simp add: isInstanceOnline_def sample_instance_def split: option.split)
  have cfg: "config gateway_plugin ''surface_export.gateway_mode'' = Some (JStr ''multi'')"
    and insts: "instances gateway_plugin = [(1, sample_instance)]"
    by (simp_all add: gateway_plugin_def)
  have some: "gateway_change \<noteq> []" "\<not> n_isDeleted sample_instance" "int_of_num (Fin 1) = 1"
    by (simp_all add: gateway_change_def sample_instance_def int_of_num_def)
  let ?env = "\<lambda>q f. (all_well q, f)"
  have eq: "run_act ?env (handleSetGatewayLinkRequest (JNum (num_of_int 1)) gateway_change) gateway_plugin ()
      = run_act ?env (save_links 1 ?N) gateway_plugin ()"
    using inst N fv some
    by (simp add: handleSetGatewayLinkRequest_def gatewayMode_def with_config_def run_laws cfg del: first_violation.simps)
  have "\<exists>w' f'. run_act ?env (save_links 1 ?N) gateway_plugin () = (Inr \<lparr>gr_success = True, gr_error = None\<rparr>, w', f')"
    by (simp add: save_links_def run_laws persistGatewayConfig_def await_value_def request_act_def all_well_def
        pushGatewayConfigToInstance_def off insts emit_effect_def)
  then show ?thesis by (simp only: eq)
qed

section \<open>Loading\<close>

text \<open>Writing the entries of a map into an empty one gives the map back.\<close>

lemma foldl_jm_set_append:
  "jm_wf (m @ n) \<Longrightarrow> foldl (\<lambda>a e. jm_set a (fst e) (snd e)) m n = m @ n"
proof (induction n arbitrary: m)
  case (Cons e n)
  then have "jm_set m (fst e) (snd e) = m @ [e]"
    by (auto simp: jm_set_absent jm_has_iff jm_wf_def)
  with Cons show ?case by simp
qed simp

definition known_key :: "string \<Rightarrow> bool" where
  "known_key key = (\<exists>i name. key = gateway_key i name \<and> name \<in> set ALL_GATEWAY_NAMES)"

lemma gateway_name_nonempty: "name \<in> set ALL_GATEWAY_NAMES \<Longrightarrow> name \<noteq> []"
  by (auto simp: ALL_GATEWAY_NAMES_def multi_names ONE_GATE_NAMES_def ONE_GATE_NAME_def GATEWAY_PREFIX_def)

lemma load_known_entry:
  "known_key (fst e) \<Longrightarrow> load_gateway_entry live s (Some e) = (jm_set (fst s) (fst e) (snd e), snd s)"
  by (auto simp: known_key_def load_gateway_entry_def gateway_id.decode_encode gateway_name_nonempty
      split: prod.splits)

lemma load_known_entries:
  "\<forall>e\<in>set es. known_key (fst e) \<Longrightarrow>
     foldl (load_gateway_entry live) s (map Some es) = (foldl (\<lambda>a e. jm_set a (fst e) (snd e)) (fst s) es, snd s)"
  by (induction es arbitrary: s) (simp_all add: load_known_entry)

text \<open>What a loaded key can be.\<close>

definition loaded_key :: "plugin \<Rightarrow> string \<Rightarrow> bool" where
  "loaded_key w key =
     ((case parse_gateway_key key of Some (i, name) \<Rightarrow> name \<in> set ALL_GATEWAY_NAMES | None \<Rightarrow> False)
      \<or> key \<in> set ALL_GATEWAY_NAMES \<and> live_instances w = [])"

lemma migrate_keys:
  assumes "name \<in> set ALL_GATEWAY_NAMES" and "\<forall>k\<in>set (jm_keys m). loaded_key w k"
  shows "\<forall>k\<in>set (jm_keys (foldl (migrate_to name links) m insts)). loaded_key w k"
  using assms(2)
proof (induction insts arbitrary: m)
  case (Cons inst insts)
  have "\<forall>k\<in>set (jm_keys (migrate_to name links m inst)). loaded_key w k"
    using Cons.prems assms(1)
    by (auto simp: migrate_to_def Let_def jm_keys_set loaded_key_def gateway_id.decode_encode gateway_name_nonempty
        simp del: set_map)
  from Cons.IH [OF this] show ?case by simp
qed simp

lemma load_entry_keys:
  assumes "\<forall>k\<in>set (jm_keys (fst s)). loaded_key w k"
  shows "\<forall>k\<in>set (jm_keys (fst (load_gateway_entry (live_instances w) s e))). loaded_key w k"
proof (cases e)
  case (Some x)
  obtain key links where x: "x = (key, links)" by force
  consider (known) i name where "parse_gateway_key key = Some (i, name)"
    | (unknown) "parse_gateway_key key = None" "key \<notin> set ALL_GATEWAY_NAMES"
    | (kept) "parse_gateway_key key = None" "key \<in> set ALL_GATEWAY_NAMES" "live_instances w = []"
    | (legacy) "parse_gateway_key key = None" "key \<in> set ALL_GATEWAY_NAMES" "live_instances w \<noteq> []"
    by fastforce
  then show ?thesis
  proof cases
    case legacy
    then show ?thesis
      using migrate_keys [OF legacy(2) assms, of links "live_instances w"]
      by (simp add: load_gateway_entry_def Some x del: set_map)
  qed (use assms in \<open>auto simp: load_gateway_entry_def Some x jm_keys_set loaded_key_def simp del: set_map\<close>)
qed (use assms in \<open>simp add: load_gateway_entry_def\<close>)

lemma load_entries_keys:
  "\<forall>k\<in>set (jm_keys (fst s)). loaded_key w k \<Longrightarrow>
     \<forall>k\<in>set (jm_keys (fst (foldl (load_gateway_entry (live_instances w)) s es))). loaded_key w k"
proof (induction es arbitrary: s)
  case (Cons e es)
  show ?case
    unfolding foldl_Cons by (rule Cons.IH) (rule load_entry_keys [OF Cons.prems])
qed simp

lemma load_run:
  assumes "run_act env (loadGatewayConfig (ParsedArray entries)) w f = (out, w', f')"
  shows "gatewayLinks w' = fst (foldl (load_gateway_entry (live_instances w)) (gatewayLinks w, 0) entries)"
proof -
  obtain links k where l: "foldl (load_gateway_entry (live_instances w)) (gatewayLinks w, 0) entries = (links, k)"
    by force
  let ?w = "w\<lparr>gatewayLinks := links\<rparr>"
  obtain o1 w1 f1 where p: "run_act env persistGatewayConfig ?w f = (o1, w1, f1)" by (metis prod_cases3)
  have "same_links ?w w1" using links_kept.run_guar [OF persist_keeps_links, of ?w env f] p by simp
  then show ?thesis
    using assms p l
    by (auto simp: loadGatewayConfig_def run_laws same_links_def split: sum.splits if_splits)
qed

section \<open>Properties\<close>

text \<open>
  C12: Saving gateway links in the multi layout keeps the layout of every instance: each gateway has
  at most one destination and each destination at most one gateway, whatever is submitted and
  however the disk and the instance answer.
\<close>

theorem set_gateway_links_keeps_layout:
  assumes "run_act env (handleSetGatewayLinkRequest src submitted) w f = (Inr reply, w', f')"
    and "config w ''surface_export.gateway_mode'' = Some (JStr ''multi'')"
    and "multi_layout (links_of w i)"
  shows "multi_layout (links_of w' i)"
  using assms(1)
proof (cases rule: set_links_run)
  case refused
  then have "links_of w' i = links_of w i" by (simp add: links_of_def fun_eq_iff)
  then show ?thesis using assms(3) by simp
next
  case (saved v source N)
  have N: "jm_wf N" using normalized(1) [OF saved(3)] .
  show ?thesis
  proof (cases "i = source")
    case True
    have "links_of w' i = next_links w i N"
      using links_of_after [OF N] saved(5) True by (simp add: fun_eq_iff)
    then show ?thesis using multi_layout_next [of w i N] assms(2,3) saved True by auto
  next
    case False
    then have "links_of w' i = links_of w i"
      using other_links_after_store [of _ source "gatewayLinks w" N] saved(5)
      by (simp add: links_of_def fun_eq_iff)
    then show ?thesis using assms(3) by simp
  qed
qed

lemma gateway_plugin_layout: "multi_layout (links_of gateway_plugin 1)"
  by (simp add: multi_layout_def multi_names links_of_def gateway_plugin_def links_to_def)

theorem set_gateway_links_keeps_layout_witness:
  "\<exists>w'. multi_layout (links_of w' 1) \<and>
     run_act (\<lambda>q f. (all_well q, f)) (handleSetGatewayLinkRequest (JNum (num_of_int 1)) gateway_change)
       gateway_plugin () = (Inr \<lparr>gr_success = True, gr_error = None\<rparr>, w', ())"
proof -
  obtain w' where run: "run_act (\<lambda>q f. (all_well q, f)) (handleSetGatewayLinkRequest (JNum (num_of_int 1)) gateway_change)
       gateway_plugin () = (Inr \<lparr>gr_success = True, gr_error = None\<rparr>, w', ())"
    using gateway_change_run by auto
  have "config gateway_plugin ''surface_export.gateway_mode'' = Some (JStr ''multi'')"
    by (simp add: gateway_plugin_def)
  from set_gateway_links_keeps_layout [OF run this gateway_plugin_layout] run show ?thesis by blast
qed





end
