(* ===== verification/OperationOutcomes.thy ===== *)
theory OperationOutcomes
  imports Calm Samples
begin

text \<open>
  What the controller's own operations come to, for every way the instances and the disk may
  answer: an upload, a download and a reported completion always end with a record whose status
  and error say what the reply says.
\<close>

section \<open>What the bookkeeping keeps of a record\<close>

definition verdict_of :: "active_transfer \<Rightarrow> status \<times> string option \<times> string" where
  "verdict_of t = (t_status t, t_error t, t_transferId t)"

abbreviation anything :: "effect \<Rightarrow> bool" where "anything \<equiv> \<lambda>_. True"

interpretation recorded: observed verdict_of anything
  by unfold_locales (auto simp: allows_silent_def ignores_bookkeeping_def verdict_of_def)

abbreviation keeps_records :: "'r handler \<Rightarrow> bool" where
  "keeps_records \<equiv> guar_act (evolves verdict_of anything)"

lemma evolves_record:
  "evolves verdict_of P w w' \<Longrightarrow> r < length (heap w) \<Longrightarrow>
     r < length (heap w') \<and> verdict_of (transfer_at w' r) = verdict_of (transfer_at w r)"
  by (auto simp: evolves_def transfer_at_def)

lemma run_record:
  assumes "keeps_records m" and "run_act env m w f = (out, w', f')" and "r < length (heap w)"
  shows "r < length (heap w')" and "verdict_of (transfer_at w' r) = verdict_of (transfer_at w r)"
  using evolves_record [OF _ assms(3), of anything w'] evolving.run_guar [OF assms(1), of w env f] assms(2) by auto

text \<open>The log is persisted without an error of its own, and the table is pruned.\<close>

lemma run_persist_log:
  assumes "r < length (heap w)"
  obtains w' f' where "run_act env (persistTransactionLog tid) w f = (Inr (), w', f')"
    "r < length (heap w')" "verdict_of (transfer_at w' r) = verdict_of (transfer_at w r)"
proof -
  obtain out w' f' where run: "run_act env (persistTransactionLog tid) w f = (out, w', f')"
    by (metis prod_cases3)
  have "out = Inr ()"
    using run by (auto simp: persistTransactionLog_def run_laws split: sum.splits prod.splits)
  moreover have "keeps_records (persistTransactionLog tid)"
    by (rule recorded.persistTransactionLog) simp_all
  ultimately show ?thesis using that run run_record assms by metis
qed

lemma sync_record:
  assumes "r < length (heap w)"
  shows "verdict_of (transfer_at (emitTransferUpdate q (logTransactionEvent tid a b c w)) r) = verdict_of (transfer_at w r)"
    and "r < length (heap (emitTransferUpdate q (logTransactionEvent tid a b c w)))"
    and "verdict_of (transfer_at (pruneOldTransfers w) r) = verdict_of (transfer_at w r)"
    and "r < length (heap (pruneOldTransfers w))"
  using evolves_record [OF recorded.emitTransferUpdate [OF recorded.logTransactionEvent [OF evolves_refl]] assms]
    evolves_record [OF recorded.pruneOldTransfers [OF evolves_refl] assms] by auto

lemma run_failOperation:
  assumes "r < length (heap w)"
  obtains w' f' where "run_act env (failOperation r ty msg extra) w f = (Inr (), w', f')"
    "r < length (heap w')" "t_status (transfer_at w' r) = Failed"
    "t_error (transfer_at w' r) = Some (ostr_or (t_error (transfer_at w r)) [])"
proof -
  let ?tid = "t_transferId (transfer_at w r)"
  let ?w = "emitTransferUpdate r (logTransactionEvent ?tid ty msg extra (mark_failed r w))"
  have "r < length (heap (mark_failed r w))" using assms by (simp add: mark_failed_def)
  note s = sync_record(1,2) [OF this, of r ?tid ty msg extra]
  obtain w1 f1 where p: "run_act env (persistTransactionLog ?tid) ?w f = (Inr (), w1, f1)"
    "r < length (heap w1)" "verdict_of (transfer_at w1 r) = verdict_of (transfer_at ?w r)"
    by (rule run_persist_log [OF s(2)])
  have run: "run_act env (failOperation r ty msg extra) w f = (Inr (), pruneOldTransfers w1, f1)"
    using p(1) by (simp add: failOperation_def run_laws Let_def)
  have "verdict_of (transfer_at (pruneOldTransfers w1) r) = verdict_of (transfer_at (mark_failed r w) r)"
    using sync_record(3) [OF p(2)] p(3) s(1) by simp
  then have "t_status (transfer_at (pruneOldTransfers w1) r) = Failed"
    "t_error (transfer_at (pruneOldTransfers w1) r) = Some (ostr_or (t_error (transfer_at w r)) [])"
    using assms by (simp_all add: verdict_of_def mark_failed_def)
  then show ?thesis using that run sync_record(4) [OF p(2)] by blast
qed

lemma run_marked_failed:
  assumes "r < length (heap w)"
    and "m = act_then (act_do (set_error r (Some err))) (failOperation r ty msg extra)"
  obtains w' f' where "run_act env m w f = (Inr (), w', f')" "r < length (heap w')"
    "t_status (transfer_at w' r) = Failed" "t_error (transfer_at w' r) = Some err"
proof -
  have "r < length (heap (set_error r (Some err) w))" using assms by (simp add: set_error_def)
  then obtain w' f' where
    "run_act env (failOperation r ty msg extra) (set_error r (Some err) w) f = (Inr (), w', f')"
    "r < length (heap w')" "t_status (transfer_at w' r) = Failed"
    "t_error (transfer_at w' r) = Some (ostr_or (t_error (transfer_at (set_error r (Some err) w) r)) [])"
    by (rule run_failOperation)
  moreover have "ostr_or (t_error (transfer_at (set_error r (Some err) w) r)) [] = err"
    using assms by (simp add: set_error_def ostr_or_def)
  ultimately show ?thesis using that assms(2) by (simp add: run_laws)
qed

section \<open>An upload\<close>

lemma run_upload_answered:
  assumes "r < length (heap w)"
  obtains reply w' f' where
    "run_act env (upload_answered r target uid data response) w f = (Inr reply, w', f')" "r < length (heap w')"
    "up_success reply = truthy (prop_get response ''success'')"
    "if up_success reply then t_status (transfer_at w' r) = AwaitingCompletion
     else t_status (transfer_at w' r) = Failed \<and> t_error (transfer_at w' r) = up_error reply"
proof (cases "truthy (prop_get response ''success'')")
  case False
  let ?err = "ostr_or (str_field response ''error'') ''Import failed on target instance''"
  obtain w1 f1 where "run_act env (import_error r ?err) w f = (Inr (), w1, f1)" "r < length (heap w1)"
    "t_status (transfer_at w1 r) = Failed" "t_error (transfer_at w1 r) = Some ?err"
    by (rule run_marked_failed [OF assms import_error_def])
  with False show ?thesis
    by (intro that [of "upload_refused ?err (Some target)" w1 f1])
      (simp_all add: upload_answered_def run_laws Let_def upload_refused_def)
next
  case True
  let ?name = "js_text (val_or (prop_get response ''platformName'')
      (val_or (obj_get data ''platform_name'') (JStr (t_platformName (transfer_at w r)))))"
  let ?u = "upd_transfer r (\<lambda>t. t\<lparr>t_status := AwaitingCompletion, t_platformName := ?name\<rparr>) w"
  let ?w = "emitTransferUpdate r (logTransactionEvent (t_transferId (transfer_at w r)) ''import_queued''
      (''Import accepted by instance '' @ show_int target @ ''; awaiting completion callback'')
      [(''targetInstanceId'', js_int target), (''uploadExportId'', JStr uid)] ?u)"
  have "r < length (heap ?u)" using assms by simp
  note s = sync_record(1,2) [OF this]
  obtain w1 f1 where p: "run_act env (persistTransactionLog (t_transferId (transfer_at ?w r))) ?w f = (Inr (), w1, f1)"
    "r < length (heap w1)" "verdict_of (transfer_at w1 r) = verdict_of (transfer_at ?w r)"
    by (rule run_persist_log [OF s(2)])
  have "t_status (transfer_at w1 r) = AwaitingCompletion"
    using p(3) s(1) assms by (simp add: verdict_of_def)
  then show ?thesis
    using that p(1,2) True by (simp add: upload_answered_def upload_accepted_def run_laws Let_def)
qed

lemma run_request:
  "run_act env (send_to i m) w f =
     (case fst (env (SendTo i m) f) of Resolved v \<Rightarrow> Inr v | Rejected e \<Rightarrow> Inl e,
      emit_effect (Requested (SendTo i m)) w, snd (env (SendTo i m) f))"
  by (simp add: send_to_def await_value_def request_act_def run_laws split: answer.split)

lemma run_upload_error:
  assumes "r < length (heap w)"
  obtains w' f' where "run_act env (act_then (import_error r err) (act_return (upload_refused err x))) w f
      = (Inr (upload_refused err x), w', f')"
    "r < length (heap w')" "t_status (transfer_at w' r) = Failed" "t_error (transfer_at w' r) = Some err"
proof -
  from assms obtain w' f' where "run_act env (import_error r err) w f = (Inr (), w', f')" "r < length (heap w')"
    "t_status (transfer_at w' r) = Failed" "t_error (transfer_at w' r) = Some err"
    by (rule run_marked_failed [OF _ import_error_def])
  then show ?thesis by (intro that) (simp_all add: run_laws)
qed

lemma upload_outcome_run:
  assumes "r < length (heap w)" and "run_act env (send_upload r target uid force q data) w f = (out, w', f')"
  shows "case out of Inl e \<Rightarrow> False
    | Inr reply \<Rightarrow> if up_success reply then t_status (transfer_at w' r) = AwaitingCompletion
        else t_status (transfer_at w' r) = Failed \<and> t_error (transfer_at w' r) = up_error reply"
proof -
  let ?m = "ImportPlatformRequest uid (JObj data) force (u_targetPlanet q)"
  let ?w = "emit_effect (Requested (SendTo target ?m)) w"
  have r: "r < length (heap ?w)" using assms(1) by simp
  show ?thesis
  proof (cases "fst (env (SendTo target ?m) f)")
    case (Resolved response)
    obtain reply w1 f1 where
      a: "run_act env (upload_answered r target uid data response) ?w (snd (env (SendTo target ?m) f)) = (Inr reply, w1, f1)"
      "r < length (heap w1)" "up_success reply = truthy (prop_get response ''success'')"
      "if up_success reply then t_status (transfer_at w1 r) = AwaitingCompletion
       else t_status (transfer_at w1 r) = Failed \<and> t_error (transfer_at w1 r) = up_error reply"
      by (rule run_upload_answered [OF r])
    then show ?thesis
      using assms(2) Resolved by (auto simp: send_upload_def run_laws run_request)
  next
    case (Rejected e)
    obtain w1 f1 where
      a: "run_act env (act_then (import_error r (getErrorMessage e)) (act_return (upload_refused (getErrorMessage e) None)))
        ?w (snd (env (SendTo target ?m) f)) = (Inr (upload_refused (getErrorMessage e) None), w1, f1)"
      "r < length (heap w1)"
      "t_status (transfer_at w1 r) = Failed" "t_error (transfer_at w1 r) = Some (getErrorMessage e)"
      by (rule run_upload_error [OF r])
    then show ?thesis
      using assms(2) Rejected
      by (auto simp: send_upload_def run_laws run_request Let_def upload_refused_def)
  qed
qed

section \<open>A download\<close>

text \<open>Waiting for the export changes no record.\<close>

lemma poll_keeps_records: "keeps_records (poll_stored n d eid)"
proof (induction n)
  case 0
  show ?case by (simp add: evolving.guar_throw)
next
  case (Suc n)
  then show ?case by (auto intro!: evolving.structural recorded.await_value)
qed

lemma wait_keeps_records: "keeps_records (waitForStoredExport eid ms)"
  unfolding waitForStoredExport_def by (intro evolving.structural poll_keeps_records)

lemma run_download_error:
  assumes "r < length (heap w)"
  obtains w' f' where "run_act env (act_then (download_error r p err extra) (act_return (download_refused err))) w f
      = (Inr (download_refused err), w', f')"
    "r < length (heap w')" "t_status (transfer_at w' r) = Failed" "t_error (transfer_at w' r) = Some err"
proof -
  from assms obtain w' f' where "run_act env (download_error r p err extra) w f = (Inr (), w', f')" "r < length (heap w')"
    "t_status (transfer_at w' r) = Failed" "t_error (transfer_at w' r) = Some err"
    by (rule run_marked_failed [OF _ download_error_def])
  then show ?thesis by (intro that) (simp_all add: run_laws)
qed

lemma run_download_stored:
  assumes "r < length (heap w)"
  obtains reply w' f' where "run_act env (download_stored r x a b) w f = (Inr reply, w', f')" "r < length (heap w')"
    "dr_success reply" "dr_stored reply = Some x" "t_status (transfer_at w' r) = Completed"
proof -
  let ?w = "download_completed r x a b w"
  have u: "r < length (heap (download_record r x a b w))" "t_status (transfer_at (download_record r x a b w) r) = Completed"
    using assms by (simp_all add: download_record_def)
  note s = sync_record(1,2) [OF u(1)]
  have w: "r < length (heap ?w)" "t_status (transfer_at ?w r) = Completed"
    using s u(2) by (simp_all add: verdict_of_def download_completed_def Let_def)
  obtain w1 f1 where p: "run_act env (persistTransactionLog (t_transferId (transfer_at ?w r))) ?w f = (Inr (), w1, f1)"
    "r < length (heap w1)" "verdict_of (transfer_at w1 r) = verdict_of (transfer_at ?w r)"
    by (rule run_persist_log [OF w(1)])
  have "t_status (transfer_at (pruneOldTransfers w1) r) = Completed"
    using sync_record(3) [OF p(2)] p(3) w(2) by (simp add: verdict_of_def)
  moreover have "run_act env (download_stored r x a b) w f =
      (Inr \<lparr>dr_success = True, dr_error = None, dr_operationId = Some (t_transferId (transfer_at ?w r)),
        dr_stored = Some x, dr_size = export_size x\<rparr>, pruneOldTransfers w1, f1)"
    using p(1) by (simp add: download_stored_def run_laws Let_def)
  ultimately show ?thesis using sync_record(4) [OF p(2)] that by simp
qed

lemma export_for_download_run:
  assumes "r < length (heap w)" and "run_act env (export_for_download r source index force) w f = (out, w', f')"
  shows "r < length (heap w') \<and> (case out of Inl e \<Rightarrow> True
    | Inr reply \<Rightarrow> if dr_success reply then t_status (transfer_at w' r) = Completed \<and> dr_stored reply \<noteq> None
        else t_status (transfer_at w' r) = Failed \<and> t_error (transfer_at w' r) = dr_error reply)"
proof -
  let ?q = "SendTo source (ExportPlatformRequest index force None)"
  let ?w = "emit_effect (Requested ?q) w"
  have r: "r < length (heap ?w)" using assms(1) by simp
  show ?thesis
  proof (cases "fst (env ?q f)")
    case (Rejected e)
    then show ?thesis using assms r by (auto simp: export_for_download_def run_laws run_request Let_def)
  next
    case (Resolved response)
    let ?f = "snd (env ?q f)" and ?job = "ostr_or (str_field response ''exportId'') []"
    let ?err = "ostr_or (str_field response ''error'') ''Export failed''"
    show ?thesis
    proof (cases "\<not> truthy (prop_get response ''success'') \<or> ?job = []")
      case True
      obtain w1 f1 where "run_act env (act_then (download_error r ''Export request failed: '' ?err
            [(''exportRequestMs'', js_int (clock ?w - clock w))]) (act_return (download_refused ?err))) ?w ?f
          = (Inr (download_refused ?err), w1, f1)"
        "r < length (heap w1)" "t_status (transfer_at w1 r) = Failed" "t_error (transfer_at w1 r) = Some ?err"
        by (rule run_download_error [OF r])
      then show ?thesis
        using assms(2) Resolved True
        by (auto simp: export_for_download_def run_laws run_request Let_def download_refused_def)
    next
      case False
      show ?thesis
      proof (cases "make_canonical_transfer_id (num_of_int source) ?job")
        case (Inl e)
        then show ?thesis
          using assms r Resolved False by (auto simp: export_for_download_def run_laws run_request Let_def)
      next
        case (Inr cid)
        obtain o2 w2 f2 where wait: "run_act env (waitForStoredExport cid 60000) ?w ?f = (o2, w2, f2)"
          by (metis prod_cases3)
        note r2 = run_record(1) [OF wait_keeps_records wait r]
        show ?thesis
        proof (cases o2)
          case (Inl e)
          then show ?thesis
            using assms(2) r2 Resolved False Inr wait
            by (auto simp: export_for_download_def run_laws run_request Let_def)
        next
          case (Inr x)
          obtain reply w3 f3 where "run_act env (download_stored r x (clock ?w - clock w) (clock w2 - clock ?w)) w2 f2
              = (Inr reply, w3, f3)" "r < length (heap w3)"
            "dr_success reply" "dr_stored reply = Some x" "t_status (transfer_at w3 r) = Completed"
            by (rule run_download_stored [OF r2])
          then show ?thesis
            using assms(2) Resolved False \<open>make_canonical_transfer_id (num_of_int source) ?job = Inr cid\<close> wait Inr
            by (auto simp: export_for_download_def run_laws run_request Let_def)
        qed
      qed
    qed
  qed
qed

lemma try_download_outcome:
  assumes "r < length (heap w)" and "run_act env (try_download r source index force) w f = (out, w', f')"
  shows "case out of Inl e \<Rightarrow> False
    | Inr reply \<Rightarrow> if dr_success reply then t_status (transfer_at w' r) = Completed \<and> dr_stored reply \<noteq> None
        else t_status (transfer_at w' r) = Failed \<and> t_error (transfer_at w' r) = dr_error reply"
proof -
  obtain o1 w1 f1 where e: "run_act env (export_for_download r source index force) w f = (o1, w1, f1)"
    by (metis prod_cases3)
  note run = export_for_download_run [OF assms(1) e]
  show ?thesis
  proof (cases o1)
    case (Inr reply)
    then show ?thesis using assms(2) e run by (auto simp: try_download_def run_laws)
  next
    case (Inl err)
    with run have r: "r < length (heap w1)" by simp
    obtain w2 f2 where "run_act env (act_then (download_error r ''Export failed: '' (getErrorMessage err) [])
        (act_return (download_refused (getErrorMessage err)))) w1 f1
        = (Inr (download_refused (getErrorMessage err)), w2, f2)" "r < length (heap w2)"
      "t_status (transfer_at w2 r) = Failed" "t_error (transfer_at w2 r) = Some (getErrorMessage err)"
      by (rule run_download_error [OF r])
    then show ?thesis
      using assms(2) e Inl
      by (auto simp: try_download_def run_laws Let_def download_refused_def split: sum.splits prod.splits)
  qed
qed

section \<open>A new record\<close>

lemma archive_keeps_records: "keeps_records (archiveRecycledTransferId tid st)"
  by (rule recorded.archiveRecycledTransferId) simp

lemma started_keeps_records: "keeps_records (recordTransferStarted r)"
  by (rule recorded.recordTransferStarted) simp

lemma run_never_throws:
  "fst (run_act env (recordAuditRow row) w f) = Inr ()"
  "fst (run_act env (recordTransferStarted r) w f) = Inr ()"
  "fst (run_act env (archiveRecycledTransferId tid st) w f) = Inr ()"
proof -
  show row: "fst (run_act env (recordAuditRow row) w f) = Inr ()" for row w f
    by (auto simp: recordAuditRow_def run_laws split: sum.split prod.split)
  then have row': "\<exists>w' f'. run_act env (recordAuditRow row) w f = (Inr (), w', f')" for row w f
    by (metis prod.exhaust fst_conv)
  show "fst (run_act env (recordTransferStarted r) w f) = Inr ()"
    by (simp add: recordTransferStarted_def run_laws Let_def row)
  show "fst (run_act env (archiveRecycledTransferId tid st) w f) = Inr ()"
    by (auto simp: archiveRecycledTransferId_def run_laws Let_def row split: option.split sum.split prod.split)
      (metis row fst_conv sum.distinct(1))+
qed

lemma createOperationRecord_total:
  "ty \<noteq> OpTransfer \<Longrightarrow> \<exists>t. createOperationRecord rn now gid ty opts = Inr t"
  by (simp add: createOperationRecord_def Let_def)

lemma run_begin_operation:
  assumes "run_act env (begin_operation gid ty opts) w f = (out, w', f')" and "ty \<noteq> OpTransfer"
  obtains r where "out = Inr r" "length (heap w) \<le> r" "r < length (heap w')"
    "verdict_of (transfer_at w' r) =
       (nullish (o_status opts) InProgress, ostr_truthy (o_error opts), ostr_or (o_operationId opts) gid)"
proof -
  obtain t where t: "createOperationRecord (\<lambda>i. resolveInstanceName w (num_of_int i)) (clock w) gid ty opts = Inr t"
    using createOperationRecord_total [OF assms(2)] by blast
  note fields = createOperationRecord_fields [OF t]
  obtain w1 f1 where a: "run_act env (archiveRecycledTransferId (t_transferId t) (Some (t_startedAt t))) w f = (Inr (), w1, f1)"
    using run_never_throws(3) by (metis prod.exhaust fst_conv)
  let ?r = "length (heap w1)" and ?w = "add_transfer (t_transferId t) t w1"
  have r: "?r < length (heap ?w)" "transfer_at ?w ?r = t" by (simp_all add: add_transfer_def transfer_at_def)
  obtain w2 f2 where b: "run_act env (recordTransferStarted ?r) ?w f1 = (Inr (), w2, f2)"
    using run_never_throws(2) by (metis prod.exhaust fst_conv)
  have "length (heap w) \<le> ?r"
    using evolving.run_guar [OF archive_keeps_records, of w env "t_transferId t" "Some (t_startedAt t)" f] a
    by (simp add: evolves_def)
  moreover have "out = Inr ?r" "w' = w2"
    using assms(1) t a b by (auto simp: begin_operation_def run_laws)
  moreover have "verdict_of (transfer_at w2 ?r) =
      (nullish (o_status opts) InProgress, ostr_truthy (o_error opts), ostr_or (o_operationId opts) gid)"
    using run_record(2) [OF started_keeps_records b r(1)] r(2) fields by (simp add: verdict_of_def)
  ultimately show ?thesis
    using that run_record(1) [OF started_keeps_records b r(1)] by blast
qed

section \<open>A reported completion\<close>

definition completion_status :: "import_complete \<Rightarrow> status" where
  "completion_status ev =
     (if ic_success ev then Completed else if ic_cleanupFailed ev then CleanupFailed else Failed)"

lemma complete_operation_record:
  assumes "r < length (heap w)"
  shows "r < length (heap (complete_operation r ev w))"
    and "t_status (transfer_at (complete_operation r ev w) r) = completion_status ev"
    and "\<not> ic_success ev \<Longrightarrow> t_error (transfer_at (complete_operation r ev w) r)
           = Some (ostr_or (ic_error ev) ''Import failed'')"
proof -
  let ?a = "adopt_completion r ev w"
  let ?b = "if ic_success ev then import_succeeded r ?a else import_failed r ev ?a"
  have a: "r < length (heap ?a)" using assms by (simp add: adopt_completion_def Let_def)
  have log: "r < length (heap (logTransactionEvent tid x y z u))
      \<and> verdict_of (transfer_at (logTransactionEvent tid x y z u) r) = verdict_of (transfer_at u r)"
    if "r < length (heap u)" for tid x y z u
    using evolves_record [OF recorded.logTransactionEvent [OF evolves_refl] that] by auto
  have b: "r < length (heap ?b) \<and> t_status (transfer_at ?b r) = completion_status ev
      \<and> (\<not> ic_success ev \<longrightarrow> t_error (transfer_at ?b r) = Some (ostr_or (ic_error ev) ''Import failed''))"
  proof (cases "ic_success ev")
    case True
    have "r < length (heap (upd_transfer r (\<lambda>t. t\<lparr>t_status := Completed, t_completedAt := Some (clock ?a)\<rparr>) ?a))"
      using a by simp
    from log [OF this] show ?thesis
      using True a by (simp add: import_succeeded_def Let_def verdict_of_def completion_status_def)
  next
    case False
    let ?u = "upd_transfer r (\<lambda>t. t\<lparr>
            t_status := (if ic_cleanupFailed ev then CleanupFailed else Failed),
            t_error := Some (ostr_or (ic_error ev) ''Import failed''), t_failedAt := Some (clock ?a),
            t_failedStage := (case ic_failedStage ev of
               Some s \<Rightarrow> if s \<in> set known_stages then Some s else t_failedStage t | None \<Rightarrow> t_failedStage t)\<rparr>) ?a"
    have "r < length (heap ?u)" using a by simp
    from log [OF this] show ?thesis
      using False a by (simp add: import_failed_def Let_def verdict_of_def completion_status_def)
  qed
  have "evolves verdict_of anything ?b (queueTreeBroadcast f (emitTransferUpdate r ?b))" for f
    by (intro recorded.sync evolves_refl)
  from evolves_record [OF this] b
  have "r < length (heap (complete_operation r ev w))
      \<and> verdict_of (transfer_at (complete_operation r ev w) r) = verdict_of (transfer_at ?b r)"
    unfolding complete_operation_def Let_def by blast
  with b show "r < length (heap (complete_operation r ev w))"
    "t_status (transfer_at (complete_operation r ev w) r) = completion_status ev"
    "\<not> ic_success ev \<Longrightarrow> t_error (transfer_at (complete_operation r ev w) r)
       = Some (ostr_or (ic_error ev) ''Import failed'')"
    by (simp_all add: verdict_of_def)
qed

lemma run_find_or_recover:
  assumes "run_act env (find_or_recover gid ev tid) w f = (out, w', f')" and "refs_valid w"
  obtains r where "out = Inr r" "r < length (heap w')"
    "case jm_get (activeTransfers w) tid of Some r0 \<Rightarrow> r = r0 | None \<Rightarrow> length (heap w) \<le> r"
proof (cases "jm_get (activeTransfers w) tid")
  case (Some r0)
  then have "(tid, r0) \<in> set (activeTransfers w)" by (rule jm_get_Some_in)
  with assms(2) have "r0 < length (heap w)" by (auto simp: refs_valid_def)
  then show ?thesis using that [of r0] assms(1) Some by (simp add: find_or_recover_def run_laws)
next
  case None
  obtain o1 w1 f1 where b: "run_act env (begin_operation gid OpImport (recovery_options ev tid)) w f = (o1, w1, f1)"
    by (metis prod_cases3)
  obtain r where r: "o1 = Inr r" "length (heap w) \<le> r" "r < length (heap w1)"
    by (rule run_begin_operation [OF b]) simp
  have "r < length (heap (logTransactionEvent a b' c d w1))" for a b' c d
    using evolves_record [OF recorded.logTransactionEvent [OF evolves_refl] r(3)] by auto
  moreover have "out = Inr r \<and> (\<exists>a b' c d. w' = logTransactionEvent a b' c d w1)"
    using assms(1) None b r by (auto simp: find_or_recover_def run_laws)
  ultimately show ?thesis using that [of r] None r(2) by auto
qed

lemma upload_requested_keeps: "evolves verdict_of anything w (upload_requested r target bytes w)"
  unfolding upload_requested_def Let_def
  by (intro recorded.sync evolves_upd evolves_refl) (simp_all add: verdict_of_def)

lemma completion_run:
  assumes "run_act env (handleImportOperationCompleteEvent gid ev) w f = (out, w', f')"
    and "refs_valid w" and "js_trim (ic_operationId ev) \<noteq> []"
  shows "out = Inr () \<and> (\<exists>r<length (heap w').
    (case jm_get (activeTransfers w) (js_trim (ic_operationId ev)) of
       Some r0 \<Rightarrow> r = r0 | None \<Rightarrow> length (heap w) \<le> r)
    \<and> t_status (transfer_at w' r) = completion_status ev
    \<and> (\<not> ic_success ev \<longrightarrow> t_error (transfer_at w' r) = Some (ostr_or (ic_error ev) ''Import failed'')))"
proof -
  let ?id = "js_trim (ic_operationId ev)"
  obtain o1 w1 f1 where b: "run_act env (find_or_recover gid ev ?id) w f = (o1, w1, f1)" by (metis prod_cases3)
  obtain r where r: "o1 = Inr r" "r < length (heap w1)"
    "case jm_get (activeTransfers w) ?id of Some r0 \<Rightarrow> r = r0 | None \<Rightarrow> length (heap w) \<le> r"
    by (rule run_find_or_recover [OF b assms(2)])
  let ?w = "complete_operation r ev w1"
  note c = complete_operation_record [OF r(2), of ev]
  obtain w2 f2 where p: "run_act env (persistTransactionLog (t_transferId (transfer_at ?w r))) ?w f1 = (Inr (), w2, f2)"
    "r < length (heap w2)" "verdict_of (transfer_at w2 r) = verdict_of (transfer_at ?w r)"
    by (rule run_persist_log [OF c(1)])
  have out: "out = Inr ()" "w' = pruneOldTransfers w2"
    using assms(1,3) b r(1) p(1) by (auto simp: handleImportOperationCompleteEvent_def run_laws Let_def)
  have "verdict_of (transfer_at w' r) = verdict_of (transfer_at ?w r)"
    using sync_record(3) [OF p(2)] p(3) out(2) by simp
  then have "t_status (transfer_at w' r) = completion_status ev"
    "\<not> ic_success ev \<longrightarrow> t_error (transfer_at w' r) = Some (ostr_or (ic_error ev) ''Import failed'')"
    using c by (simp_all add: verdict_of_def)
  with out r(3) sync_record(4) [OF p(2)] show ?thesis by blast
qed

section \<open>Concrete requests\<close>

definition sample_upload :: upload_request where
  "sample_upload = \<lparr>u_targetInstanceId = JNum (num_of_int 2), u_exportData = JObj [(''platform_name'', JStr ''Alpha'')],
     u_forceName = None, u_platformName = None, u_targetPlanet = None\<rparr>"

definition upload_plugin :: plugin where
  "upload_plugin = (sample_plugin sample_transfer)\<lparr>instances :=
     [(2, \<lparr>n_id = 2, n_isDeleted = False, n_status = ''running'', n_name = JStr ''dst'', n_assignedHost = JNull,
           n_gamePort = None\<rparr>)]\<rparr>"

definition sample_download :: download_request where
  "sample_download = \<lparr>dq_sourceInstanceId = JNum (num_of_int 2), dq_sourcePlatformIndex = JNum (num_of_int 1),
     dq_forceName = None\<rparr>"

definition sample_completion :: import_complete where
  "sample_completion = \<lparr>ic_operationId = ''1:7'', ic_platformName = ''Alpha'', ic_instanceId = JNum (num_of_int 2),
     ic_success = True, ic_error = None, ic_failedStage = None, ic_cleanupFailed = False, ic_durationTicks = None,
     ic_entityCount = JNull, ic_metrics = JObj [(''entities_created'', JNum (num_of_int 12))], ic_validation = JNull\<rparr>"

lemma sample_id: "js_trim ''1:7'' = ''1:7''"
  by code_simp

lemma sample_completion_fields [simp]:
  "ic_operationId sample_completion = ''1:7''" "ic_success sample_completion"
  by (simp_all add: sample_completion_def)

lemma sample_refs: "refs_valid (sample_plugin t)"
  by (simp add: refs_valid_def sample_plugin_def)

section \<open>Properties\<close>

text \<open>
  C9: An upload either is refused and changes nothing, or has made a new record that ends as the
  reply says: awaiting completion when the instance accepted it, else failed with the very error of
  the reply, whatever the instance and the disk answer. The request itself never fails.
\<close>

theorem upload_outcome:
  assumes "run_act env (handleImportUploadedExportRequest gid uid q) w f = (out, w', f')"
  shows "case out of Inl e \<Rightarrow> False
    | Inr reply \<Rightarrow> \<not> up_success reply \<and> w' = w
        \<or> (\<exists>r\<ge>length (heap w). if up_success reply then t_status (transfer_at w' r) = AwaitingCompletion
             else t_status (transfer_at w' r) = Failed \<and> t_error (transfer_at w' r) = up_error reply)"
proof -
  show ?thesis
  proof (cases "(\<exists>fs. u_exportData q = JObj fs) \<and>
      (\<exists>target inst. resolveTargetInstance w (u_targetInstanceId q) = Some (target, inst) \<and> \<not> n_isDeleted inst)")
    case False
    with assms show ?thesis
      by (auto simp: handleImportUploadedExportRequest_def run_laws Let_def upload_refused_def
          split: jsval.splits option.splits if_splits)
  next
    case True
    then obtain fs target inst where q: "u_exportData q = JObj fs"
      "resolveTargetInstance w (u_targetInstanceId q) = Some (target, inst)" "\<not> n_isDeleted inst" by blast
    let ?data = "upload_data q"
    let ?force = "upload_force q ?data"
    obtain o1 w1 f1 where b: "run_act env (begin_operation gid OpImport (upload_options ?force ?data target)) w f
        = (o1, w1, f1)" by (metis prod_cases3)
    obtain r where r: "o1 = Inr r" "length (heap w) \<le> r" "r < length (heap w1)"
      by (rule run_begin_operation [OF b]) simp
    let ?sent = "obj_set ?data ''_operationId'' (JStr (t_transferId (transfer_at w1 r)))"
    let ?w = "upload_requested r target (json_size (JObj ?sent)) w1"
    have "r < length (heap ?w)"
      using evolves_record [OF upload_requested_keeps r(3)] by blast
    moreover obtain o2 w2 f2 where send: "run_act env (send_upload r target uid ?force q ?sent) ?w f1 = (o2, w2, f2)"
      by (metis prod_cases3)
    moreover have "out = o2" "w' = w2"
      using assms q b r(1) send by (simp_all add: handleImportUploadedExportRequest_def run_laws Let_def)
    ultimately show ?thesis
      using upload_outcome_run [of r ?w env target uid ?force q ?sent f1 o2 w2 f2] r(2)
      by (cases o2) (auto split: if_splits)
  qed
qed

theorem upload_outcome_witness:
  "case fst (run_act (\<lambda>q f. (all_well q, f)) (handleImportUploadedExportRequest ''op'' ''uid'' sample_upload) upload_plugin ()) of
     Inl e \<Rightarrow> False | Inr reply \<Rightarrow> True"
proof -
  obtain out w' f' where run: "run_act (\<lambda>q f. (all_well q, f))
      (handleImportUploadedExportRequest ''op'' ''uid'' sample_upload) upload_plugin () = (out, w', f')"
    by (metis prod_cases3)
  from upload_outcome [OF run] show ?thesis by (auto simp: run split: sum.splits)
qed

text \<open>
  A download either is refused and changes nothing, or has made a new record that ends
  completed, with the stored export in the reply, or failed with the error of the reply, also when
  the export never arrives.
\<close>

theorem download_outcome:
  assumes "run_act env (handleExportPlatformForDownloadRequest gid q) w f = (out, w', f')"
  shows "case out of Inl e \<Rightarrow> False
    | Inr reply \<Rightarrow> \<not> dr_success reply \<and> w' = w
        \<or> (\<exists>r\<ge>length (heap w). if dr_success reply then t_status (transfer_at w' r) = Completed \<and> dr_stored reply \<noteq> None
             else t_status (transfer_at w' r) = Failed \<and> t_error (transfer_at w' r) = dr_error reply)"
proof -
  let ?source = "int_of_num (to_number (dq_sourceInstanceId q))" and ?index = "int_of_num (to_number (dq_sourcePlatformIndex q))"
  let ?force = "ostr_or (dq_forceName q) ''player''"
  show ?thesis
  proof (cases "is_integer (to_number (dq_sourceInstanceId q)) \<and> is_integer (to_number (dq_sourcePlatformIndex q))
      \<and> 1 \<le> ?index \<and> (\<exists>i. jm_get (instances w) ?source = Some i \<and> \<not> n_isDeleted i)")
    case False
    with assms show ?thesis
      by (auto simp: handleExportPlatformForDownloadRequest_def run_laws Let_def download_refused_def
          split: option.splits if_splits)
  next
    case True
    then obtain i where i: "jm_get (instances w) ?source = Some i" "\<not> n_isDeleted i" by blast
    obtain o1 w1 f1 where b: "run_act env (begin_operation gid OpExport (download_options ?source ?index ?force)) w f
        = (o1, w1, f1)" by (metis prod_cases3)
    obtain r where r: "o1 = Inr r" "length (heap w) \<le> r" "r < length (heap w1)"
      by (rule run_begin_operation [OF b]) simp
    let ?w = "download_requested r ?source ?index w1"
    have "r < length (heap ?w)"
      using sync_record(2) [OF r(3)] by (simp add: download_requested_def)
    moreover obtain o2 w2 f2 where run: "run_act env (try_download r ?source ?index ?force) ?w f1 = (o2, w2, f2)"
      by (metis prod_cases3)
    moreover have "out = o2" "w' = w2"
      using assms True i b r(1) run
      by (simp_all add: handleExportPlatformForDownloadRequest_def run_laws Let_def)
    ultimately show ?thesis
      using try_download_outcome [of r ?w env ?source ?index ?force f1 o2 w2 f2] r(2)
      by (cases o2) (auto split: if_splits)
  qed
qed

theorem download_outcome_witness:
  "case fst (run_act (\<lambda>q f. (all_well q, f)) (handleExportPlatformForDownloadRequest ''op'' sample_download) upload_plugin ()) of
     Inl e \<Rightarrow> False | Inr reply \<Rightarrow> True"
proof -
  obtain out w' f' where run: "run_act (\<lambda>q f. (all_well q, f))
      (handleExportPlatformForDownloadRequest ''op'' sample_download) upload_plugin () = (out, w', f')"
    by (metis prod_cases3)
  from download_outcome [OF run] show ?thesis by (auto simp: run split: sum.splits)
qed

text \<open>
  C10: A completion with an operation id is recorded on the record of that id, or on a new one when
  there is none: completed, failed or cleanup_failed as the event says, with its error.
\<close>

theorem import_completion_recorded:
  assumes "run_act env (handleImportOperationCompleteEvent gid ev) w f = (out, w', f')"
    and "refs_valid w" and "js_trim (ic_operationId ev) \<noteq> []"
  shows "out = Inr () \<and> (\<exists>r<length (heap w').
    (case jm_get (activeTransfers w) (js_trim (ic_operationId ev)) of
       Some r0 \<Rightarrow> r = r0 | None \<Rightarrow> length (heap w) \<le> r)
    \<and> t_status (transfer_at w' r) = completion_status ev
    \<and> (\<not> ic_success ev \<longrightarrow> t_error (transfer_at w' r) = Some (ostr_or (ic_error ev) ''Import failed'')))"
  by (rule completion_run [OF assms])

theorem import_completion_recorded_witness:
  "\<exists>w' f' r. run_act (\<lambda>q f. (all_well q, f)) (handleImportOperationCompleteEvent ''op'' sample_completion)
       (sample_plugin sample_transfer) () = (Inr (), w', f') \<and> t_status (transfer_at w' r) = Completed"
proof -
  obtain out w' f' where run: "run_act (\<lambda>q f. (all_well q, f))
      (handleImportOperationCompleteEvent ''op'' sample_completion) (sample_plugin sample_transfer) () = (out, w', f')"
    by (metis prod_cases3)
  from import_completion_recorded [OF run sample_refs] show ?thesis
    using run by (auto simp: sample_id completion_status_def)
qed



text \<open>
  An import that reports its metrics but no entity count loses the number of entities its
  metrics report: the absent count is read as 0 and written over it.
\<close>

theorem absent_entity_count_erases:
  assumes "ic_entityCount ev = JNull" and "truthy (ic_metrics ev)"
  shows "prop_get (completion_metrics ev) ''entities_created'' = JNum (Fin 0)"
proof -
  have "truthy (buildImportMetrics (ic_metrics ev) (ic_durationTicks ev))"
    using assms(2) by (simp add: buildImportMetrics_def Let_def)
  with assms(1) show ?thesis
    by (simp add: completion_metrics_def Let_def is_integer_def num_le_def)
qed

theorem absent_entity_count_erases_witness:
  "prop_get (completion_metrics sample_completion) ''entities_created'' = JNum (Fin 0)
   \<and> prop_get (ic_metrics sample_completion) ''entities_created'' = JNum (Fin 12)"
  using absent_entity_count_erases [of sample_completion] by (simp add: sample_completion_def)

end
