(* ===== verification/JsonParse.thy ===== *)
theory JsonParse
  imports Json
begin

text \<open>
  \<open>JSON.parse\<close> on UTF-8 text, and its round trip with \<open>JSON.stringify\<close>. \<open>None\<close> is a
  \<open>SyntaxError\<close>. The reader takes fuel for the nesting of arrays and objects: every second call
  consumes a character, so twice the length of the text is enough. Of a repeated member name the
  last value counts, in the place of the first (\<open>obj_set\<close>). The escape of a lone surrogate
  is kept as its three generalized UTF-8 bytes.
\<close>

section \<open>Reading\<close>

definition json_ws :: "char \<Rightarrow> bool" where
  "json_ws c = ((of_char c :: nat) \<in> {9, 10, 13, 32})"

abbreviation skip_ws :: "string \<Rightarrow> string" where
  "skip_ws \<equiv> dropWhile json_ws"

definition simple_escape :: "char \<Rightarrow> char option" where
  "simple_escape e =
     (let n = of_char e :: nat in
      if n = 34 \<or> n = 92 \<or> n = 47 then Some e
      else if n = 98 then Some (char_of (8 :: nat))
      else if n = 102 then Some (char_of (12 :: nat))
      else if n = 110 then Some (char_of (10 :: nat))
      else if n = 114 then Some (char_of (13 :: nat))
      else if n = 116 then Some (char_of (9 :: nat)) else None)"

text \<open>The body of a string literal: plain bytes, and code units given by \<open>\\uXXXX\<close>.\<close>

fun string_items :: "string \<Rightarrow> ((char + nat) list \<times> string) option" where
  "string_items [] = None"
| "string_items (c # cs) =
     (if c = quote then Some ([], cs)
      else if c = backslash then
        (case cs of
           [] \<Rightarrow> None
         | e # es \<Rightarrow>
             (case simple_escape e of
                Some d \<Rightarrow> map_option (apfst ((#) (Inl d))) (string_items es)
              | None \<Rightarrow>
                  if e = CHR ''u'' then
                    (case es of
                       h1 # h2 # h3 # h4 # r \<Rightarrow>
                         (case radix_value 16 0 [h1, h2, h3, h4] of
                            Some u \<Rightarrow> map_option (apfst ((#) (Inr u))) (string_items r)
                          | None \<Rightarrow> None)
                     | _ \<Rightarrow> None)
                  else None))
      else if (of_char c :: nat) < 32 then None
      else map_option (apfst ((#) (Inl c))) (string_items cs))"

declare string_items.simps(2) [simp del]

text \<open>The UTF-8 bytes of a code point; a pair of surrogates is one code point.\<close>

definition utf8_bytes :: "nat \<Rightarrow> string" where
  "utf8_bytes p = map char_of
     (if p < 0x80 then [p]
      else if p < 0x800 then [0xC0 + p div 64, 0x80 + p mod 64]
      else if p < 0x10000 then [0xE0 + p div 4096, 0x80 + p div 64 mod 64, 0x80 + p mod 64]
      else [0xF0 + p div 262144, 0x80 + p div 4096 mod 64, 0x80 + p div 64 mod 64, 0x80 + p mod 64])"

fun items_text :: "(char + nat) list \<Rightarrow> string" where
  "items_text [] = []"
| "items_text (Inl c # is) = c # items_text is"
| "items_text (Inr u # Inr l # is) =
     (if 0xD800 \<le> u \<and> u < 0xDC00 \<and> 0xDC00 \<le> l \<and> l < 0xE000
      then utf8_bytes (0x10000 + (u - 0xD800) * 1024 + (l - 0xDC00)) @ items_text is
      else utf8_bytes u @ items_text (Inr l # is))"
| "items_text (Inr u # is) = utf8_bytes u @ items_text is"

text \<open>What follows the opening quote of a string.\<close>

definition parse_string :: "string \<Rightarrow> (string \<times> string) option" where
  "parse_string s = map_option (apfst items_text) (string_items s)"

text \<open>A number: no leading zero, digits on both sides of a point, digits in an exponent.\<close>

definition number_sign :: "string \<Rightarrow> string \<times> string" where
  "number_sign s = (case s of c # cs \<Rightarrow> if c = CHR ''-'' then ([c], cs) else ([], s) | [] \<Rightarrow> ([], s))"

definition fraction_part :: "string \<Rightarrow> (string \<times> string) option" where
  "fraction_part s =
     (case s of
        c # cs \<Rightarrow>
          if c = CHR ''.'' then
            let ds = takeWhile is_digit cs
            in if ds = [] then None else Some (c # ds, dropWhile is_digit cs)
          else Some ([], s)
      | [] \<Rightarrow> Some ([], s))"

definition exponent_text :: "string \<Rightarrow> (string \<times> string) option" where
  "exponent_text s =
     (case s of
        c # cs \<Rightarrow>
          if c = CHR ''e'' \<or> c = CHR ''E'' then
            let (sign, r) = (case cs of d # ds \<Rightarrow> if d = CHR ''+'' \<or> d = CHR ''-'' then ([d], ds) else ([], cs)
                             | [] \<Rightarrow> ([], cs));
                ds = takeWhile is_digit r
            in if ds = [] then None else Some (c # sign @ ds, dropWhile is_digit r)
          else Some ([], s)
      | [] \<Rightarrow> Some ([], s))"

definition parse_number :: "string \<Rightarrow> (jsval \<times> string) option" where
  "parse_number s =
     (let (sign, s1) = number_sign s; ip = takeWhile is_digit s1; s2 = dropWhile is_digit s1 in
      if ip = [] \<or> (hd ip = CHR ''0'' \<and> tl ip \<noteq> []) then None
      else case fraction_part s2 of
             None \<Rightarrow> None
           | Some (fp, s3) \<Rightarrow>
               (case exponent_text s3 of
                  None \<Rightarrow> None
                | Some (ex, s4) \<Rightarrow> Some (JNum (signed_decimal (sign @ ip @ fp @ ex)), s4)))"

definition strip_word :: "string \<Rightarrow> string \<Rightarrow> string option" where
  "strip_word w s = (if take (length w) s = w then Some (drop (length w) s) else None)"

definition parse_scalar :: "string \<Rightarrow> (jsval \<times> string) option" where
  "parse_scalar s =
     (case strip_word ''null'' s of
        Some r \<Rightarrow> Some (JNull, r)
      | None \<Rightarrow>
          (case strip_word ''true'' s of
             Some r \<Rightarrow> Some (JBool True, r)
           | None \<Rightarrow>
               (case strip_word ''false'' s of
                  Some r \<Rightarrow> Some (JBool False, r)
                | None \<Rightarrow> parse_number s)))"

text \<open>One separator or closing bracket after blanks.\<close>

definition next_char :: "string \<Rightarrow> (char \<times> string) option" where
  "next_char s = (case skip_ws s of [] \<Rightarrow> None | c # cs \<Rightarrow> Some (c, cs))"

fun parse_value :: "nat \<Rightarrow> string \<Rightarrow> (jsval \<times> string) option"
  and parse_elems :: "nat \<Rightarrow> string \<Rightarrow> (jsval list \<times> string) option"
  and parse_members :: "nat \<Rightarrow> string \<Rightarrow> ((string \<times> jsval) list \<times> string) option" where
  "parse_value 0 s = None"
| "parse_value (Suc k) s =
     (case next_char s of
        None \<Rightarrow> None
      | Some (c, cs) \<Rightarrow>
          if c = quote then map_option (apfst JStr) (parse_string cs)
          else if c = CHR ''['' then
            (case next_char cs of
               None \<Rightarrow> None
             | Some (d, r) \<Rightarrow> if d = CHR '']'' then Some (JArr [], r)
                 else map_option (apfst JArr) (parse_elems k cs))
          else if c = CHR ''{'' then
            (case next_char cs of
               None \<Rightarrow> None
             | Some (d, r) \<Rightarrow> if d = CHR ''}'' then Some (JObj [], r)
                 else map_option (apfst (\<lambda>fs. JObj (obj_spread [] fs))) (parse_members k cs))
          else parse_scalar (c # cs))"
| "parse_elems 0 s = None"
| "parse_elems (Suc k) s =
     (case parse_value k s of
        None \<Rightarrow> None
      | Some (v, r) \<Rightarrow>
          (case next_char r of
             None \<Rightarrow> None
           | Some (d, r1) \<Rightarrow>
               if d = CHR '','' then map_option (apfst ((#) v)) (parse_elems k r1)
               else if d = CHR '']'' then Some ([v], r1) else None))"
| "parse_members 0 s = None"
| "parse_members (Suc k) s =
     (case next_char s of
        None \<Rightarrow> None
      | Some (q, cs) \<Rightarrow>
          if q \<noteq> quote then None
          else (case parse_string cs of
             None \<Rightarrow> None
           | Some (key, r) \<Rightarrow>
               (case next_char r of
                  None \<Rightarrow> None
                | Some (d, r1) \<Rightarrow>
                    if d \<noteq> CHR '':'' then None
                    else (case parse_value k r1 of
                       None \<Rightarrow> None
                     | Some (v, r2) \<Rightarrow>
                         (case next_char r2 of
                            None \<Rightarrow> None
                          | Some (e, r3) \<Rightarrow>
                              if e = CHR '','' then map_option (apfst ((#) (key, v))) (parse_members k r3)
                              else if e = CHR ''}'' then Some ([(key, v)], r3) else None)))))"

definition parse_json :: "string \<Rightarrow> jsval option" where
  "parse_json s =
     (case parse_value (2 * length s + 2) s of
        Some (v, r) \<Rightarrow> if skip_ws r = [] then Some v else None
      | None \<Rightarrow> None)"


section \<open>Round trip\<close>

text \<open>
  The values whose text is read back as they are: nothing undefined, numbers that are integers,
  distinct member names.
\<close>

fun plain_json :: "jsval \<Rightarrow> bool" and plain_elems :: "jsval list \<Rightarrow> bool"
  and plain_fields :: "(string \<times> jsval) list \<Rightarrow> bool" where
  "plain_json JUndef = False"
| "plain_json JNull = True"
| "plain_json (JBool b) = True"
| "plain_json (JNum n) = is_integer n"
| "plain_json (JStr s) = True"
| "plain_json (JArr xs) = plain_elems xs"
| "plain_json (JObj fs) = (distinct (map fst fs) \<and> plain_fields fs)"
| "plain_elems [] = True"
| "plain_elems (x # xs) = (plain_json x \<and> plain_elems xs)"
| "plain_fields [] = True"
| "plain_fields ((k, v) # fs) = (plain_json v \<and> plain_fields fs)"

lemma quote_backslash [simp]:
  "of_char quote = (34 :: nat)" "of_char backslash = (92 :: nat)" "quote \<noteq> backslash" "backslash \<noteq> quote"
  "quote = CHR 0x22" "backslash = CHR 0x5C"
  by (simp_all add: quote_def backslash_def char_of_def bit_simps)

declare quote_backslash(5,6) [simp del]

lemma items_text_Inr: "u < 0xD800 \<Longrightarrow> items_text (Inr u # is) = utf8_bytes u @ items_text is"
  by (cases "is" rule: items_text.cases) auto

lemma items_text_low: "u < 128 \<Longrightarrow> items_text (Inr u # is) = char_of u # items_text is"
  by (simp add: items_text_Inr utf8_bytes_def)

lemma hex_digit_hex_char: "d < 16 \<Longrightarrow> hex_digit (hex_char d) = Some d"
  by (auto simp: hex_digit_def hex_char_def)


lemma hex_digit_zero: "hex_digit (CHR ''0'') = Some 0"
  by (simp add: hex_digit_def)

lemma string_items_escape:
  assumes "string_items r = Some (is, t)"
  shows "\<exists>i. string_items (escape_char c @ r) = Some (i # is, t) \<and> items_text (i # is) = c # items_text is"
proof -
  define n where "n = (of_char c :: nat)"
  have c: "c = char_of n" and n: "n < 256"
    by (simp_all add: n_def)
  consider "n \<in> {34, 92, 8, 9, 10, 12, 13}" | "n < 32" "n \<notin> {8, 9, 10, 12, 13}"
    | "32 \<le> n" "n \<notin> {34, 92}" by fastforce
  then show ?thesis
  proof cases
    case 1
    with assms show ?thesis
      by (auto simp: escape_char_def n_def [symmetric] string_items.simps(2) simple_escape_def c)
         (simp_all add: quote_def backslash_def)
  next
    case 2
    have "n div 16 < 16" "n mod 16 < 16" "n div 16 * 16 + n mod 16 = n" using n by auto
    moreover have "radix_value 16 0 [CHR ''0'', CHR ''0'', hex_char (n div 16), hex_char (n mod 16)] = Some n"
      using calculation by (simp add: hex_digit_hex_char hex_digit_zero)
    moreover have "simple_escape (CHR ''u'') = None" by (simp add: simple_escape_def)
    ultimately have "string_items (escape_char c @ r) = Some (Inr n # is, t)"
      using 2 assms by (auto simp: escape_char_def n_def [symmetric] string_items.simps(2))
    moreover have "items_text (Inr n # is) = c # items_text is"
      using 2 c by (subst items_text_low) auto
    ultimately show ?thesis by blast
  next
    case 3
    then have "escape_char c = [c]" "c \<noteq> quote" "c \<noteq> backslash"
      by (auto simp: escape_char_def n_def)
    with 3 assms show ?thesis
      by (auto simp: string_items.simps(2) n_def)
  qed
qed

lemma string_items_escaped:
  "\<exists>is. string_items (concat (map escape_char s) @ quote # rest) = Some (is, rest) \<and> items_text is = s"
proof (induction s)
  case Nil
  then show ?case by (simp add: string_items.simps(2))
next
  case (Cons c s)
  then obtain "is" where i: "string_items (concat (map escape_char s) @ quote # rest) = Some (is, rest)"
    and t: "items_text is = s" by blast
  from string_items_escape [OF i, of c] t show ?case by auto
qed

lemma parse_string_json_string:
  "parse_string (concat (map escape_char s) @ quote # rest) = Some (s, rest)"
  using string_items_escaped [of s rest] by (auto simp: parse_string_def)

text \<open>Numbers: the text of an integer, followed by anything that does not continue a number.\<close>

definition ends_number :: "string \<Rightarrow> bool" where
  "ends_number rest =
     (case rest of [] \<Rightarrow> True | c # cs \<Rightarrow> \<not> is_digit c \<and> c \<notin> {CHR ''.'', CHR ''e'', CHR ''E''})"

lemma show_nat_leading: "10 \<le> n \<Longrightarrow> hd (show_nat n) \<noteq> CHR ''0''"
proof (induction n rule: show_nat.induct)
  case (1 n)
  show ?case
  proof (cases "n div 10 < 10")
    case True
    with "1.prems" have "n div 10 \<in> {1..9}" by auto
    then have "digit_char (n div 10) \<noteq> CHR ''0''"
      using digit_of_digit_char [of "n div 10"] digit_of_digit_char [of 0] True
      by (metis digit_char_numerals(1) atLeastAtMost_iff not_one_le_zero option.inject zero_less_numeral)
    with True "1.prems" show ?thesis
      by (simp add: show_nat.simps [of n] show_nat.simps [of "n div 10"])
  next
    case False
    with 1 show ?thesis by (simp add: show_nat.simps [of n] hd_append)
  qed
qed

lemma show_nat_leading_zero: "hd (show_nat n) = CHR ''0'' \<Longrightarrow> tl (show_nat n) = []"
  using show_nat_leading [of n] by (cases "n < 10") (auto simp: show_nat.simps [of n])

lemma digits_span:
  assumes "ends_number rest"
  shows "takeWhile is_digit (show_nat n @ rest) = show_nat n"
    and "dropWhile is_digit (show_nat n @ rest) = rest"
proof -
  have stop: "takeWhile is_digit rest = []" "dropWhile is_digit rest = rest"
    using assms by (auto simp: ends_number_def split: list.splits)
  show "takeWhile is_digit (show_nat n @ rest) = show_nat n"
    by (subst takeWhile_append2) (auto dest: show_nat_digits simp: stop)
  show "dropWhile is_digit (show_nat n @ rest) = rest"
    by (subst dropWhile_append2) (auto dest: show_nat_digits simp: stop)
qed

lemma ends_number_parts:
  "ends_number rest \<Longrightarrow> fraction_part rest = Some ([], rest)"
  "ends_number rest \<Longrightarrow> exponent_text rest = Some ([], rest)"
  by (auto simp: ends_number_def fraction_part_def exponent_text_def split: list.splits)

lemma show_nat_hd_digit: "\<exists>c cs. show_nat n = c # cs \<and> is_digit c"
  by (metis list.set_intros(1) neq_Nil_conv show_nat_digits show_nat_nonempty)

lemma parse_number_show_int:
  assumes "ends_number rest"
  shows "parse_number (show_int i @ rest) = Some (JNum (num_of_int i), rest)"
proof (cases "i < 0")
  case True
  obtain c cs where d: "show_nat (nat (- i)) = c # cs" "is_digit c"
    using show_nat_hd_digit by blast
  then have nodash: "c \<noteq> CHR ''-''" "c \<noteq> CHR ''+''" by auto
  have "signed_decimal (CHR ''-'' # show_nat (nat (- i))) = num_neg (signed_decimal (show_nat (nat (- i))))"
    using d nodash by (simp add: signed_decimal_def)
  with True have "signed_decimal (CHR ''-'' # show_nat (nat (- i))) = num_of_int i"
    by simp
  with True assms show ?thesis
    by (auto simp: parse_number_def number_sign_def show_int_def Let_def digits_span ends_number_parts
        dest: show_nat_leading_zero)
next
  case False
  obtain c cs where d: "show_nat (nat i) = c # cs" "is_digit c"
    using show_nat_hd_digit by blast
  then have "number_sign (show_nat (nat i) @ rest) = ([], show_nat (nat i) @ rest)"
    by (auto simp: number_sign_def)
  with False assms show ?thesis
    by (auto simp: parse_number_def show_int_def Let_def digits_span ends_number_parts
        dest: show_nat_leading_zero)
qed

lemma show_int_hd: "\<exists>c cs. show_int i = c # cs \<and> (is_digit c \<or> c = CHR ''-'')"
  by (metis list.set_intros(1) neq_Nil_conv show_int_chars show_int_nonempty)

lemma parse_scalar_show_int:
  assumes "ends_number rest"
  shows "parse_scalar (show_int i @ rest) = Some (JNum (num_of_int i), rest)"
proof -
  obtain c cs where d: "show_int i = c # cs" "is_digit c \<or> c = CHR ''-''"
    using show_int_hd by blast
  then have "c \<noteq> CHR ''n''" "c \<noteq> CHR ''t''" "c \<noteq> CHR ''f''"
    by (auto simp: is_digit_def digit_of_def)
  with d have "strip_word ''null'' (show_int i @ rest) = None"
    "strip_word ''true'' (show_int i @ rest) = None" "strip_word ''false'' (show_int i @ rest) = None"
    by (simp_all add: strip_word_def)
  with assms show ?thesis by (simp add: parse_scalar_def parse_number_show_int)
qed

text \<open>The first character of a text is neither a blank nor a bracket that closes.\<close>

definition opens_value :: "char \<Rightarrow> bool" where
  "opens_value c = (\<not> json_ws c \<and> c \<notin> {CHR '']'', CHR ''}'', CHR '','', CHR '':''})"

lemma opens_value_literals:
  "opens_value quote" "opens_value (CHR ''['')" "opens_value (CHR ''{'')" "opens_value (CHR ''n'')"
  "opens_value (CHR ''t'')" "opens_value (CHR ''f'')" "opens_value (CHR ''-'')"
  "is_digit c \<Longrightarrow> opens_value c"
  by (auto simp: opens_value_def json_ws_def quote_backslash(5) is_digit_def digit_of_def Let_def
      split: if_splits)

lemma json_text_opens: "plain_json v \<Longrightarrow> \<exists>c cs. json_text v = c # cs \<and> opens_value c"
proof (cases v)
  case (JNum n)
  assume "plain_json v"
  with JNum obtain i where "n = num_of_int i" by (auto simp: is_integer_iff)
  with JNum show ?thesis
    using show_int_hd [of i] by (auto simp: json_num_def opens_value_literals)
qed (auto simp: json_string_def opens_value_literals)

lemma next_char_opens [simp]: "opens_value c \<Longrightarrow> next_char (c # cs) = Some (c, cs)"
  by (simp add: next_char_def opens_value_def)

lemma next_char_literals [simp]:
  "next_char (CHR '','' # cs) = Some (CHR '','', cs)" "next_char (CHR '']'' # cs) = Some (CHR '']'', cs)"
  "next_char (CHR ''}'' # cs) = Some (CHR ''}'', cs)" "next_char (CHR '':'' # cs) = Some (CHR '':'', cs)"
  "next_char (quote # cs) = Some (quote, cs)"
  by (simp_all add: next_char_def json_ws_def quote_backslash(5))

lemma ends_number_literals [simp]:
  "ends_number []" "ends_number (CHR '','' # cs)" "ends_number (CHR '']'' # cs)" "ends_number (CHR ''}'' # cs)"
  by (simp_all add: ends_number_def is_digit_def digit_of_def)

lemma obj_set_new: "k \<notin> fst ` set fs \<Longrightarrow> obj_set fs k v = fs @ [(k, v)]"
  by (induction fs) auto

lemma obj_spread_distinct:
  "distinct (map fst (acc @ fs)) \<Longrightarrow> obj_spread acc fs = acc @ fs"
  by (induction fs arbitrary: acc) (auto simp: obj_spread_def obj_set_new)

lemma quote_not_literal [simp]: "quote \<noteq> CHR ''[''" "quote \<noteq> CHR ''{''" "CHR ''['' \<noteq> quote" "CHR ''{'' \<noteq> quote"
  "CHR ''n'' \<noteq> quote" "CHR ''t'' \<noteq> quote" "CHR ''f'' \<noteq> quote"
  by (simp_all add: quote_backslash(5))

lemma not_quote: "is_digit c \<or> c = CHR ''-'' \<Longrightarrow> c \<noteq> quote \<and> c \<noteq> CHR ''['' \<and> c \<noteq> CHR ''{''"
  by (auto simp: quote_backslash(5) is_digit_def digit_of_def)

lemma parse_value_scalar:
  assumes "opens_value c" and "c \<notin> {quote, CHR ''['', CHR ''{''}" and "0 < k"
  shows "parse_value k (c # cs) = parse_scalar (c # cs)"
  using assms by (cases k) auto

lemma parse_json_text:
  "plain_json v \<Longrightarrow> ends_number rest \<Longrightarrow> 2 * length (json_text v) \<le> k \<Longrightarrow>
     parse_value k (json_text v @ rest) = Some (v, rest)"
  "plain_elems xs \<Longrightarrow> xs \<noteq> [] \<Longrightarrow> 2 * length (join_with '','' (json_elems xs)) + 1 \<le> k \<Longrightarrow>
     parse_elems k (join_with '','' (json_elems xs) @ CHR '']'' # rest) = Some (xs, rest)"
  "plain_fields fs \<Longrightarrow> fs \<noteq> [] \<Longrightarrow> 2 * length (join_with '','' (json_fields fs)) + 1 \<le> k \<Longrightarrow>
     parse_members k (join_with '','' (json_fields fs) @ CHR ''}'' # rest) = Some (fs, rest)"
proof (induction v and xs and fs arbitrary: rest k and rest k and rest k
    rule: json_text_json_elems_json_fields.induct)
  case (4 n)
  then obtain i where n: "n = num_of_int i" by (auto simp: is_integer_iff)
  obtain c cs where d: "show_int i = c # cs" "is_digit c \<or> c = CHR ''-''"
    using show_int_hd by blast
  then have o: "opens_value c" by (auto simp: opens_value_literals)
  from 4 n d obtain k' where k: "k = Suc k'" by (cases k) (auto simp: json_num_def)
  from parse_scalar_show_int [OF 4(2), of i] d o not_quote [OF d(2)]
  show ?case by (simp add: k n json_num_def)
next
  case (5 s)
  then obtain k' where k: "k = Suc k'" by (cases k) (auto simp: json_string_def)
  from 5 show ?case
    by (simp add: k json_string_def parse_string_json_string)
next
  case (6 xs)
  then obtain k' where k: "k = Suc k'" by (cases k) auto
  show ?case
  proof (cases xs)
    case Nil
    then show ?thesis by (simp add: k opens_value_literals)
  next
    case (Cons y ys)
    with 6 have "plain_json y" by simp
    then obtain c cs where o: "json_text y = c # cs" "opens_value c"
      using json_text_opens by blast
    define t where "t = join_with '','' (json_elems xs)"
    obtain ts where t: "t = c # ts"
      using Cons o by (cases "json_elems ys") (auto simp: t_def)
    have p: "parse_elems k' (t @ CHR '']'' # rest) = Some (xs, rest)"
      unfolding t_def using 6 Cons k by (intro "6.IH") auto
    have c: "c \<noteq> CHR '']''" using o by (simp add: opens_value_def)
    show ?thesis
      using p c o by (simp add: k opens_value_literals t_def [symmetric] t)
  qed
next
  case (7 fs)
  then obtain k' where k: "k = Suc k'" by (cases k) auto
  show ?case
  proof (cases fs)
    case Nil
    then show ?thesis by (simp add: k opens_value_literals)
  next
    case (Cons f gs)
    define t where "t = join_with '','' (json_fields fs)"
    obtain ts where t: "t = quote # ts"
      using 7 Cons by (cases f; cases "snd f"; cases "json_fields gs") (auto simp: t_def json_string_def)
    have p: "parse_members k' (t @ CHR ''}'' # rest) = Some (fs, rest)"
      unfolding t_def using 7 Cons k by (intro "7.IH") auto
    have s: "obj_spread [] fs = fs"
      using 7 obj_spread_distinct [of "[]" fs] by simp
    have q: "quote \<noteq> CHR ''}''" by (simp add: quote_backslash(5))
    show ?thesis
      using p s q by (simp add: k opens_value_literals t_def [symmetric] t)
  qed
next
  case (9 x xs)
  then obtain k' where k: "k = Suc k'" by (cases k) auto
  show ?case
  proof (cases xs)
    case Nil
    have "parse_value k' (json_text x @ CHR '']'' # rest) = Some (x, CHR '']'' # rest)"
      using 9 Nil k by (intro "9.IH") auto
    with Nil show ?thesis by (simp add: k)
  next
    case (Cons y ys)
    let ?t = "join_with '','' (json_elems xs)"
    have j: "join_with '','' (json_elems (x # xs)) = json_text x @ CHR '','' # ?t"
      using Cons by simp
    have "parse_value k' (json_text x @ CHR '','' # (?t @ CHR '']'' # rest)) = Some (x, CHR '','' # (?t @ CHR '']'' # rest))"
      using 9 j k by (intro "9.IH"(1)) auto
    moreover have "parse_elems k' (?t @ CHR '']'' # rest) = Some (xs, rest)"
      using 9 j k Cons by (intro "9.IH"(2)) auto
    ultimately show ?thesis by (simp add: k j del: json_elems.simps)
  qed
next
  case (11 key v fs)
  then obtain k' where k: "k = Suc k'" by (cases k) auto
  from 11 have v: "v \<noteq> JUndef" "plain_json v" by auto
  let ?m = "json_string key @ CHR '':'' # json_text v"
  show ?case
  proof (cases fs)
    case Nil
    have "parse_value k' (json_text v @ CHR ''}'' # rest) = Some (v, CHR ''}'' # rest)"
      using 11 v Nil k by (intro "11.IH"(2)) auto
    with Nil v show ?thesis by (simp add: k json_string_def parse_string_json_string)
  next
    case (Cons f gs)
    let ?t = "join_with '','' (json_fields fs)"
    have "json_fields fs \<noteq> []" using 11 Cons by (cases f) auto
    then have j: "join_with '','' (json_fields ((key, v) # fs)) = ?m @ CHR '','' # ?t"
      using v by (cases "json_fields fs") simp_all
    have "parse_value k' (json_text v @ CHR '','' # (?t @ CHR ''}'' # rest)) = Some (v, CHR '','' # (?t @ CHR ''}'' # rest))"
      using 11 j k v by (intro "11.IH"(2)) auto
    moreover have "parse_members k' (?t @ CHR ''}'' # rest) = Some (fs, rest)"
      using 11 j k Cons v by (intro "11.IH"(3)) auto
    ultimately show ?thesis
      by (simp add: k j json_string_def parse_string_json_string del: json_fields.simps)
  qed
qed (auto simp: parse_value_scalar parse_scalar_def strip_word_def opens_value_literals)

theorem parse_stringify:
  assumes "plain_json v"
  shows "parse_json (json_text v) = Some v"
  using parse_json_text(1) [OF assms, of "[]" "2 * length (json_text v) + 2"]
  by (simp add: parse_json_def)

end
