(* ===== verification/Encoding.thy ===== *)
theory Encoding
  imports JsonParse Helpers "HOL-Library.Word"
begin

unbundle bit_operations_syntax

text \<open>
  How data travels to the game over RCON (helpers.ts): the ASCII form of a JSON text, its checksum,
  the long brackets of a Lua string, and the chunks. Here the width of a character matters, so a
  string is the list of its 16-bit code units (\<open>ustring\<close>); \<open>utf16_units\<close> and \<open>utf8_encode\<close>
  lead from and to the UTF-8 text of the rest of the development.
\<close>

type_synonym ustring = "16 word list"

section \<open>Code units\<close>

text \<open>The code units of an ASCII literal.\<close>

definition lit :: "string \<Rightarrow> ustring" where
  "lit s = map (\<lambda>c. of_nat (of_char c)) s"

fun utf16_units :: "string \<Rightarrow> ustring" where
  "utf16_units [] = []"
| "utf16_units (c # cs) =
     (let n = of_char c :: nat in
      if n < 0x80 then of_nat n # utf16_units cs
      else if n < 0xE0 then
        (case cs of
           a # r \<Rightarrow> of_nat ((n - 0xC0) * 64 + (of_char a - 0x80)) # utf16_units r
         | [] \<Rightarrow> [0xFFFD])
      else if n < 0xF0 then
        (case cs of
           a # b # r \<Rightarrow>
             of_nat ((n - 0xE0) * 4096 + (of_char a - 0x80) * 64 + (of_char b - 0x80)) # utf16_units r
         | _ \<Rightarrow> [0xFFFD])
      else
        (case cs of
           a # b # d # r \<Rightarrow>
             (let p = (n - 0xF0) * 262144 + (of_char a - 0x80) * 4096 + (of_char b - 0x80) * 64
                        + (of_char d - 0x80) - 0x10000
              in of_nat (0xD800 + p div 1024) # of_nat (0xDC00 + p mod 1024) # utf16_units r)
         | _ \<Rightarrow> [0xFFFD]))"

text \<open>A lone surrogate is sent as U+FFFD.\<close>

definition utf8_unit :: "16 word \<Rightarrow> string" where
  "utf8_unit u = utf8_bytes (if 0xD800 \<le> u \<and> u < 0xE000 then 0xFFFD else unat u)"

fun utf8_encode :: "ustring \<Rightarrow> string" where
  "utf8_encode [] = []"
| "utf8_encode [u] = utf8_unit u"
| "utf8_encode (u # l # us) =
     (if 0xD800 \<le> u \<and> u < 0xDC00 \<and> 0xDC00 \<le> l \<and> l < 0xE000
      then utf8_bytes (0x10000 + (unat u - 0xD800) * 1024 + (unat l - 0xDC00)) @ utf8_encode us
      else utf8_unit u @ utf8_encode (l # us))"

section \<open>Hexadecimal text\<close>

fun hex_text :: "nat \<Rightarrow> string" where
  "hex_text n = (if n < 16 then [hex_char n] else hex_text (n div 16) @ [hex_char (n mod 16)])"

declare hex_text.simps [simp del]

definition pad_start :: "nat \<Rightarrow> char \<Rightarrow> string \<Rightarrow> string" where
  "pad_start k c s = replicate (k - length s) c @ s"

section \<open>The ASCII form\<close>

definition ascii_unit :: "16 word \<Rightarrow> ustring" where
  "ascii_unit u =
     (if 0x7F \<le> u then lit (backslash # CHR ''u'' # pad_start 4 (CHR ''0'') (hex_text (unat u))) else [u])"

definition toAsciiJson :: "ustring \<Rightarrow> ustring" where
  "toAsciiJson json = concat (map ascii_unit json)"

section \<open>The checksum\<close>

definition checksum_step :: "nat \<Rightarrow> 16 word \<Rightarrow> nat" where
  "checksum_step h u = (h * 31 + unat u) mod 4294967296"

definition checksum_value :: "ustring \<Rightarrow> nat" where
  "checksum_value ascii = foldl checksum_step 0 ascii"

definition simpleChecksum :: "ustring \<Rightarrow> string" where
  "simpleChecksum ascii = pad_start 8 (CHR ''0'') (hex_text (checksum_value ascii))"

section \<open>Long brackets\<close>

text \<open>The error of \<open>bracketWrap\<close> is its message.\<close>

definition closing_bracket :: "nat \<Rightarrow> ustring" where
  "closing_bracket level = lit '']'' @ replicate level 0x3D @ lit '']''"

definition opening_bracket :: "nat \<Rightarrow> ustring" where
  "opening_bracket level = lit ''['' @ replicate level 0x3D @ lit ''[''"

definition bracketWrap :: "ustring \<Rightarrow> string + ustring" where
  "bracketWrap text =
     (case List.find (\<lambda>level. \<not> includes_str (closing_bracket level) (text @ lit '']'')) [1..<10] of
        Some level \<Rightarrow> Inr (opening_bracket level @ text @ closing_bracket level)
      | None \<Rightarrow> Inl ''no safe long-bracket level found for payload'')"

section \<open>Chunks\<close>

text \<open>The loop as it is written; with a chunk size of zero it does not end on non-empty data.\<close>

partial_function (option) chunk_loop ::
    "nat \<Rightarrow> 'a list \<Rightarrow> nat \<Rightarrow> 'a list list \<Rightarrow> 'a list list option" where
  "chunk_loop chunkSize data i chunks =
     (if i < length data
      then chunk_loop chunkSize data (i + chunkSize) (chunks @ [take chunkSize (drop i data)])
      else Some chunks)"

text \<open>What it returns for a positive chunk size (\<open>chunk_loop_chunkify\<close>).\<close>

function chunkify :: "nat \<Rightarrow> 'a list \<Rightarrow> 'a list list" where
  "chunkify n data =
     (if data = [] \<or> n = 0 then [] else take n data # chunkify n (drop n data))"
  by pat_completeness auto
termination by (relation "measure (\<lambda>(n, data). length data)") auto

declare chunkify.simps [simp del]

section \<open>Replacing a pattern\<close>

text \<open>
  \<open>s.replace(/pattern/g, replacement)\<close> for a pattern without groups. The replacement is not taken
  literally: after a dollar sign, a dollar, an ampersand, a backquote and a quote stand for a dollar,
  the match, what precedes it and what follows it.
\<close>

fun expand_replacement :: "ustring \<Rightarrow> ustring \<Rightarrow> ustring \<Rightarrow> ustring \<Rightarrow> ustring" where
  "expand_replacement before matched after [] = []"
| "expand_replacement before matched after [c] = [c]"
| "expand_replacement before matched after (c # d # cs) =
     (if c = 0x24 \<and> d = 0x24 then 0x24 # expand_replacement before matched after cs
      else if c = 0x24 \<and> d = 0x26 then matched @ expand_replacement before matched after cs
      else if c = 0x24 \<and> d = 0x60 then before @ expand_replacement before matched after cs
      else if c = 0x24 \<and> d = 0x27 then after @ expand_replacement before matched after cs
      else c # expand_replacement before matched after (d # cs))"

function replace_from :: "ustring \<Rightarrow> ustring \<Rightarrow> ustring \<Rightarrow> ustring \<Rightarrow> ustring" where
  "replace_from pat rep before s =
     (case s of
        [] \<Rightarrow> []
      | c # cs \<Rightarrow>
          if pat \<noteq> [] \<and> starts_with pat s
          then expand_replacement before pat (drop (length pat) s) rep
                 @ replace_from pat rep (before @ pat) (drop (length pat) s)
          else c # replace_from pat rep (before @ [c]) cs)"
  by pat_completeness auto
termination by (relation "measure (\<lambda>(pat, rep, before, s). length s)") auto

declare replace_from.simps [simp del]

definition replace_all :: "string \<Rightarrow> ustring \<Rightarrow> ustring \<Rightarrow> ustring" where
  "replace_all pat rep s = replace_from (lit pat) rep [] s"


section \<open>Facts on hexadecimal text\<close>

lemma hex_text_nonempty [simp]: "hex_text n \<noteq> []"
  by (subst hex_text.simps) simp

lemma radix_value_append:
  "radix_value b acc (xs @ ys) =
     (case radix_value b acc xs of None \<Rightarrow> None | Some v \<Rightarrow> radix_value b v ys)"
  by (induction xs arbitrary: acc) (auto split: option.split)

lemma hex_digit_char: "d < 16 \<Longrightarrow> hex_digit (hex_char d) = Some d"
  by (auto simp: hex_digit_def hex_char_def)

lemma radix_value_hex_text [simp]: "radix_value 16 0 (hex_text n) = Some n"
proof (induction n rule: hex_text.induct)
  case (1 n)
  show ?case
  proof (cases "n < 16")
    case True
    then show ?thesis by (simp add: hex_text.simps [of n] hex_digit_char)
  next
    case False
    with 1 show ?thesis by (simp add: hex_text.simps [of n] hex_digit_char radix_value_append)
  qed
qed

lemma radix_value_pad_start [simp]: "radix_value 16 0 (pad_start k (CHR ''0'') xs) = radix_value 16 0 xs"
proof -
  have "radix_value 16 0 (replicate n (CHR ''0'') @ xs) = radix_value 16 0 xs" for n
    by (induction n) (simp_all add: hex_digit_zero)
  then show ?thesis by (simp add: pad_start_def)
qed

lemma length_hex_text: "n < 16 ^ k \<Longrightarrow> 0 < k \<Longrightarrow> length (hex_text n) \<le> k"
proof (induction n arbitrary: k rule: hex_text.induct)
  case (1 n)
  show ?case
  proof (cases "n < 16")
    case True
    with 1 show ?thesis by (simp add: hex_text.simps [of n])
  next
    case False
    with 1 obtain j where j: "k = Suc j" "0 < j" by (cases k) (auto, metis power_0 gr0I mult.right_neutral)
    with 1 have "n div 16 < 16 ^ j" by (simp add: less_mult_imp_div_less mult.commute)
    with 1 False j have "length (hex_text (n div 16)) \<le> j" by simp
    with False j show ?thesis by (simp add: hex_text.simps [of n])
  qed
qed

lemma length_pad_hex: "n < 16 ^ k \<Longrightarrow> 0 < k \<Longrightarrow> length (pad_start k c (hex_text n)) = k"
  using length_hex_text [of n k] by (simp add: pad_start_def)

lemma hex_char_ascii: "d < 16 \<Longrightarrow> (of_char (hex_char d) :: nat) < 103"
  by (auto simp: hex_char_def)

lemma hex_text_ascii: "c \<in> set (hex_text n) \<Longrightarrow> (of_char c :: nat) < 103"
proof (induction n rule: hex_text.induct)
  case (1 n)
  then show ?case
    by (cases "n < 16") (auto simp: hex_text.simps [of n] hex_char_ascii)
qed

lemma pad_hex_ascii: "c \<in> set (pad_start k (CHR ''0'') (hex_text n)) \<Longrightarrow> (of_char c :: nat) < 103"
  by (auto simp: pad_start_def dest: hex_text_ascii split: if_splits)

section \<open>The ASCII form means the same\<close>

text \<open>
  How a JSON reader takes the characters of a string literal: an escape stands for one code unit,
  any other character for itself.
\<close>

definition unit_char :: "16 word \<Rightarrow> char" where
  "unit_char u = (if u < 0x80 then char_of (unat u) else CHR 0x00)"

fun unescape :: "ustring \<Rightarrow> ustring option" where
  "unescape [] = Some []"
| "unescape (c # cs) =
     (if c \<noteq> 0x5C then map_option ((#) c) (unescape cs)
      else (case cs of
          [] \<Rightarrow> None
        | e # es \<Rightarrow>
            (case simple_escape (unit_char e) of
               Some d \<Rightarrow> map_option ((#) (of_nat (of_char d))) (unescape es)
             | None \<Rightarrow>
                 if e = 0x75 then
                   (case es of
                      h1 # h2 # h3 # h4 # r \<Rightarrow>
                        (case radix_value 16 0 (map unit_char [h1, h2, h3, h4]) of
                           Some u \<Rightarrow> map_option ((#) (of_nat u)) (unescape r)
                         | None \<Rightarrow> None)
                    | _ \<Rightarrow> None)
                 else None)))"

declare unescape.simps(2) [simp del]

lemma unat_small: "n < 65536 \<Longrightarrow> unat (of_nat n :: 16 word) = n"
  by (simp add: unsigned_of_nat take_bit_nat_eq_self)

lemma unit_char_lit: "(of_char c :: nat) < 128 \<Longrightarrow> unit_char (of_nat (of_char c)) = c"
  by (simp add: unit_char_def word_less_nat_alt unat_small)

lemma unescape_hex:
  assumes "radix_value 16 0 (map unit_char [h1, h2, h3, h4]) = Some v"
  shows "unescape (0x5C # 0x75 # h1 # h2 # h3 # h4 # r) = map_option ((#) (of_nat v)) (unescape r)"
proof -
  have "simple_escape (unit_char 0x75) = None" by (simp add: unit_char_def simple_escape_def)
  with assms show ?thesis by (simp only: unescape.simps(2)) simp
qed

lemma unescape_ascii_unit:
  "unescape (lit (backslash # CHR ''u'' # pad_start 4 (CHR ''0'') (hex_text (unat u))) @ r) =
     map_option ((#) u) (unescape r)"
proof -
  define ds where "ds = pad_start 4 (CHR ''0'') (hex_text (unat u))"
  have "unat u < 16 ^ 4" using unsigned_less [of u] by simp
  then have "length ds = 4" unfolding ds_def by (rule length_pad_hex) simp
  then obtain a b c d where ds: "ds = [a, b, c, d]"
    by (auto simp: numeral_eq_Suc length_Suc_conv)
  have v: "radix_value 16 0 [a, b, c, d] = Some (unat u)"
    unfolding ds [symmetric] ds_def by simp
  have "unit_char (of_nat (of_char x)) = x" if "x \<in> {a, b, c, d}" for x
    using that pad_hex_ascii [of x 4 "unat u"] ds by (intro unit_char_lit) (auto simp: ds_def)
  then have "map unit_char (lit ds) = [a, b, c, d]"
    by (simp add: lit_def ds)
  with v have "radix_value 16 0 (map unit_char (lit ds)) = Some (unat u)" by simp
  then show ?thesis
    unfolding ds_def [symmetric] by (simp add: lit_def ds unescape_hex)
qed

lemma toAsciiJson_simps [simp]:
  "toAsciiJson [] = []" "toAsciiJson (u # us) = ascii_unit u @ toAsciiJson us"
  by (simp_all add: toAsciiJson_def)

lemma lit_ascii:
  assumes "\<And>c. c \<in> set s \<Longrightarrow> (of_char c :: nat) < 127" and "u \<in> set (lit s)"
  shows "u < 0x7F"
proof -
  from assms(2) obtain c where c: "c \<in> set s" "u = of_nat (of_char c)"
    by (auto simp: lit_def)
  with assms(1) have "(of_char c :: nat) < 127" by blast
  with c have "unat u < 127" by (simp add: unat_small)
  then show ?thesis by (simp add: word_less_nat_alt)
qed

lemma ascii_unit_ascii: "u \<in> set (ascii_unit v) \<Longrightarrow> u < 0x7F"
proof (cases "0x7F \<le> v")
  case True
  assume "u \<in> set (ascii_unit v)"
  with True have u: "u \<in> set (lit (backslash # CHR ''u'' # pad_start 4 (CHR ''0'') (hex_text (unat v))))"
    by (simp add: ascii_unit_def)
  have "(of_char c :: nat) < 127" if "c \<in> set (pad_start 4 (CHR ''0'') (hex_text (unat v)))" for c
    using pad_hex_ascii [OF that] by simp
  then show ?thesis
    by (intro lit_ascii [OF _ u]) auto
qed (simp add: ascii_unit_def not_le)

lemma toAsciiJson_ascii: "u \<in> set (toAsciiJson t) \<Longrightarrow> u < 0x7F"
  by (auto simp: toAsciiJson_def dest: ascii_unit_ascii)

lemma unit_char_not_ascii:
  assumes "0x7F \<le> u"
  shows "(of_char (unit_char u) :: nat) \<in> {0, 127}"
proof (cases "u < 0x80")
  case True
  with assms have "unat u = 127" by (simp add: word_less_nat_alt word_le_nat_alt)
  with True show ?thesis by (simp add: unit_char_def)
qed (simp add: unit_char_def)

lemma simple_escape_ascii: "simple_escape (unit_char e) = Some d \<Longrightarrow> ascii_unit e = [e]"
  using unit_char_not_ascii [of e] by (auto simp: simple_escape_def ascii_unit_def Let_def)

lemma hex_digit_ascii: "hex_digit (unit_char h) = Some d \<Longrightarrow> ascii_unit h = [h]"
  using unit_char_not_ascii [of h] by (auto simp: hex_digit_def ascii_unit_def Let_def)

lemma unescape_toAsciiJson:
  "unescape t = Some s \<Longrightarrow> unescape (toAsciiJson t) = Some s"
proof (induction t arbitrary: s rule: unescape.induct)
  case (2 c cs)
  show ?case
  proof (cases "c = 0x5C")
    case False
    with 2 obtain s' where s: "s = c # s'" "unescape cs = Some s'"
      by (auto simp: unescape.simps(2))
    with "2.IH" False have "unescape (toAsciiJson cs) = Some s'" by simp
    with s False show ?thesis
      by (auto simp: ascii_unit_def unescape_ascii_unit unescape.simps(2))
  next
    case True
    then have c: "ascii_unit c = [c]" by (simp add: ascii_unit_def)
    obtain e es where cs: "cs = e # es"
      using "2.prems" True by (cases cs) (auto simp: unescape.simps(2))
    show ?thesis
    proof (cases "simple_escape (unit_char e)")
      case (Some d)
      with "2.IH" "2.prems" True cs c show ?thesis
        by (auto simp: unescape.simps(2) simple_escape_ascii)
    next
      case None
      with "2.prems" True cs have e: "e = 0x75" by (auto simp: unescape.simps(2) split: if_splits)
      obtain h1 h2 h3 h4 r v where es: "es = h1 # h2 # h3 # h4 # r"
        and v: "radix_value 16 0 (map unit_char [h1, h2, h3, h4]) = Some v"
        using "2.prems" True cs None e
        by (auto simp: unescape.simps(2) split: list.splits option.splits)
      have h: "ascii_unit h1 = [h1]" "ascii_unit h2 = [h2]" "ascii_unit h3 = [h3]" "ascii_unit h4 = [h4]"
        using v by (auto intro: hex_digit_ascii split: option.splits if_splits)
      have u: "ascii_unit 0x75 = [0x75]" by (simp add: ascii_unit_def)
      obtain s' where s: "s = of_nat v # s'" "unescape r = Some s'"
        using "2.prems" unescape_hex [OF v, of r] by (auto simp: True cs e es)
      with "2.IH" True cs None e es v have "unescape (toAsciiJson r) = Some s'" by simp
      with s h u c unescape_hex [OF v, of "toAsciiJson r"] show ?thesis
        by (simp add: cs e es True)
    qed
  qed
qed simp

section \<open>The checksum is a 32-bit hash\<close>

lemma checksum_value_bound: "checksum_value t < 2 ^ 32"
  by (cases t rule: rev_cases) (simp_all add: checksum_value_def checksum_step_def)

lemma ucast_of_nat: "(ucast (u :: 16 word) :: 32 word) = of_nat (unat u)"
  by (simp add: word_unat_eq_iff unsigned_ucast_eq unsigned_of_nat)

lemma checksum_value_word:
  "of_nat (checksum_value t) = foldl (\<lambda>h u. h * 31 + ucast u) (0 :: 32 word) t"
proof (induction t rule: rev_induct)
  case Nil
  then show ?case by (simp add: checksum_value_def)
next
  case (snoc u t)
  have "of_nat ((n * 31 + unat u) mod 4294967296) = (of_nat n * 31 + ucast u :: 32 word)" for n
  proof -
    have "(of_nat (m mod 4294967296) :: 32 word) = of_nat m" for m
      by (simp add: word_of_nat_eq_iff take_bit_eq_mod)
    from this [of "n * 31 + unat u"] show ?thesis
      unfolding ucast_of_nat by (simp only: of_nat_add of_nat_mult of_nat_numeral)
  qed
  with snoc show ?case by (simp add: checksum_value_def checksum_step_def)
qed

text \<open>A step of the hash is injective in both arguments: 31 has an inverse modulo 2^32.\<close>

lemma hash_step_inj:
  fixes h h' :: "32 word"
  assumes "h * 31 + u = h' * 31 + u"
  shows "h = h'"
proof -
  have one: "(31 :: 32 word) * 3186588639 = 1" by simp
  from assms have "h * 31 = h' * 31" by simp
  then have "h * 31 * 3186588639 = h' * 31 * 3186588639" by (rule arg_cong)
  then show ?thesis unfolding mult.assoc one mult_1_right .
qed

lemma hash_fold_inj:
  fixes h h' :: "32 word"
  assumes "foldl (\<lambda>h u. h * 31 + ucast (u :: 16 word)) h ys = foldl (\<lambda>h u. h * 31 + ucast u) h' ys"
  shows "h = h'"
  using assms by (induction ys arbitrary: h h') (auto dest: hash_step_inj)

lemma checksum_detects:
  assumes "a \<noteq> b"
  shows "checksum_value (xs @ a # ys) \<noteq> checksum_value (xs @ b # ys)"
proof
  assume "checksum_value (xs @ a # ys) = checksum_value (xs @ b # ys)"
  then have "(of_nat (checksum_value (xs @ a # ys)) :: 32 word) = of_nat (checksum_value (xs @ b # ys))"
    by simp
  then have "(ucast a :: 32 word) = ucast b"
    unfolding checksum_value_word by (auto dest: hash_fold_inj)
  then have "unat (ucast a :: 32 word) = unat (ucast b :: 32 word)" by simp
  then have "unat a = unat b"
    by (simp add: unsigned_ucast_eq take_bit_nat_eq_self order_less_le_trans [OF unsigned_less])
  with assms show False by (simp add: word_unat_eq_iff)
qed

lemma simpleChecksum_value:
  "length (simpleChecksum t) = 8" "radix_value 16 0 (simpleChecksum t) = Some (checksum_value t)"
  using checksum_value_bound [of t] length_pad_hex [of "checksum_value t" 8]
  by (simp_all add: simpleChecksum_def)

section \<open>Long brackets are read back\<close>

text \<open>In a wrapped text the closing bracket occurs at the end only.\<close>

lemma closing_bracket_overlap:
  assumes "text @ closing_bracket n = u @ closing_bracket n @ v"
    and "\<not> includes_str (closing_bracket n) (text @ lit '']'')"
  shows "u = text \<and> v = []"
proof (cases "length v = 0")
  case True
  with assms(1) show ?thesis by simp
next
  case False
  have len: "length text = length u + length v"
    using arg_cong [OF assms(1), of length] by simp
  define w where "w = u @ closing_bracket n"
  have l: "length (closing_bracket n) = n + 2" by (simp add: closing_bracket_def lit_def)
  have pre: "w @ v = text @ closing_bracket n" using assms(1) by (simp add: w_def)
  show ?thesis
  proof (cases "length w \<le> length text + 1")
    case True
    have "take (length w) (text @ closing_bracket n) = w" by (simp flip: pre)
    moreover have "take (length w) (text @ closing_bracket n) = take (length w) (text @ lit '']'')"
      using True by (cases "length w = length text + 1") (simp_all add: closing_bracket_def lit_def)
    ultimately have "text @ lit '']'' = u @ closing_bracket n @ drop (length w) (text @ lit '']'')"
      by (metis append.assoc append_take_drop_id w_def)
    with assms(2) show ?thesis by (metis includes_str_iff)
  next
    case False
    \<comment> \<open>the last character of the occurrence would be an equals sign\<close>
    define i where "i = length w - 1 - length text"
    from \<open>length v \<noteq> 0\<close> obtain k where "length v = Suc k" by (cases "length v") auto
    with False len l have i: "0 < i" "i \<le> n" "length w - 1 = length text + i"
      by (auto simp: i_def w_def)
    have "w ! (length w - 1) = 0x5D"
      by (simp add: w_def closing_bracket_def lit_def nth_append)
    moreover have "w ! (length w - 1) = (text @ closing_bracket n) ! (length w - 1)"
      unfolding pre [symmetric] using l by (simp add: nth_append w_def)
    moreover have "(text @ closing_bracket n) ! (length text + i) = 0x3D"
      using i by (auto simp: closing_bracket_def lit_def nth_append nth_Cons')
    ultimately show ?thesis using i by simp
  qed
qed

section \<open>Chunks rejoin\<close>

lemma chunkify_Nil [simp]: "chunkify n [] = []"
  by (simp add: chunkify.simps)

lemma chunk_loop_zero:
  assumes "chunk_loop 0 data i acc = Some r"
  shows "\<not> i < length data"
proof -
  have "n = 0 \<longrightarrow> \<not> i < length data" if "chunk_loop n data i acc = Some r" for n
    by (rule chunk_loop.raw_induct [OF _ that, of "\<lambda>n data i acc r. n = 0 \<longrightarrow> \<not> i < length data"])
      (auto split: if_splits, metis add_0_right gr0I)
  with assms show ?thesis by blast
qed

lemma chunk_loop_from:
  "0 < n \<Longrightarrow> chunk_loop n data i acc = Some (acc @ chunkify n (drop i data))"
proof (induction "length data - i" arbitrary: i acc rule: less_induct)
  case less
  show ?case
  proof (cases "i < length data")
    case True
    with less have "chunk_loop n data (i + n) (acc @ [take n (drop i data)]) =
        Some ((acc @ [take n (drop i data)]) @ chunkify n (drop (i + n) data))" by simp
    with True less.prems show ?thesis
      by (subst chunk_loop.simps) (simp add: chunkify.simps [of n "drop i data"] add.commute)
  qed (subst chunk_loop.simps, simp add: chunkify.simps)
qed

lemma concat_chunkify: "0 < n \<Longrightarrow> concat (chunkify n data) = data"
proof (induction n data rule: chunkify.induct)
  case (1 n data)
  then show ?case by (cases "data = []") (simp_all add: chunkify.simps [of n data])
qed

lemma chunkify_sizes:
  "c \<in> set (chunkify n data) \<Longrightarrow> 0 < length c \<and> length c \<le> n"
proof (induction n data rule: chunkify.induct)
  case (1 n data)
  then show ?case
    by (cases "data = [] \<or> n = 0") (auto simp: chunkify.simps [of n data])
qed

lemma length_chunkify: "0 < n \<Longrightarrow> length (chunkify n data) = (length data + n - 1) div n"
proof (induction n data rule: chunkify.induct)
  case (1 n data)
  show ?case
  proof (cases "data = []")
    case False
    with 1 have IH: "length (chunkify n (drop n data)) = (length data - n + n - 1) div n" by simp
    have "(length data + n - 1) div n = Suc ((length data - n + n - 1) div n)"
    proof (cases "length data \<le> n")
      case True
      with False have "(length data + n - 1) div n = (n + (length data - 1)) div n" "(length data - 1) div n = 0"
        by (cases data, auto)+
      with True 1 show ?thesis by simp
    next
      case big: False
      then have "length data + n - 1 = n + (length data - 1)" "length data - n + n - 1 = length data - 1" by auto
      moreover have "(n + (length data - 1)) div n = Suc ((length data - 1) div n)" using 1 by simp
      ultimately show ?thesis by metis
    qed
    with IH False 1 show ?thesis by (simp add: chunkify.simps [of n data])
  qed (use 1 in \<open>simp add: chunkify.simps\<close>)
qed

section \<open>Properties\<close>

text \<open>
  C21: The ASCII form of a JSON text has no character beyond 0x7E, and every string literal in it is
  read as the same code units: an escaped character, a surrogate pair and an escape already
  there keep their meaning.
\<close>

theorem ascii_form_same_text:
  assumes "unescape t = Some s"
  shows "unescape (toAsciiJson t) = Some s \<and> (\<forall>u\<in>set (toAsciiJson t). u < 0x7F)"
  using assms unescape_toAsciiJson toAsciiJson_ascii by blast

theorem ascii_form_same_text_witness:
  "unescape (toAsciiJson (lit ''a'' @ [0x5C, 0x22, 0xE9, 0xD83D, 0xDE80])) = Some [0x61, 0x22, 0xE9, 0xD83D, 0xDE80]"
proof -
  have "unescape (lit ''a'' @ [0x5C, 0x22, 0xE9, 0xD83D, 0xDE80]) = Some [0x61, 0x22, 0xE9, 0xD83D, 0xDE80]"
    by code_simp
  from ascii_form_same_text [OF this] show ?thesis by blast
qed

text \<open>
  C22: The checksum is the eight-digit hexadecimal text of a 32-bit wrap-around hash, although the
  code computes it with a remainder on unbounded numbers; and it differs whenever a single character
  of the text differs.
\<close>

theorem checksum_is_32_bit_hash:
  "length (simpleChecksum t) = 8 \<and>
   radix_value 16 0 (simpleChecksum t) = Some (unat (foldl (\<lambda>h u. h * 31 + ucast u) (0 :: 32 word) t)) \<and>
   (\<forall>xs a b ys. t = xs @ a # ys \<and> a \<noteq> b \<longrightarrow> simpleChecksum (xs @ b # ys) \<noteq> simpleChecksum t)"
proof -
  have "unat (of_nat (checksum_value t) :: 32 word) = checksum_value t"
    using checksum_value_bound [of t] by (simp add: unsigned_of_nat take_bit_nat_eq_self)
  then show ?thesis
    unfolding checksum_value_word [symmetric]
    by (metis checksum_detects option.inject simpleChecksum_value)
qed

theorem checksum_is_32_bit_hash_witness:
  "simpleChecksum (lit ''{}'') \<noteq> simpleChecksum (lit ''{]'')"
proof -
  have "lit ''{]'' = lit ''{'' @ 0x5D # []" "lit ''{}'' = lit ''{'' @ 0x7D # []" "(0x5D :: 16 word) \<noteq> 0x7D"
    by (simp_all add: lit_def)
  with checksum_is_32_bit_hash [of "lit ''{]''"] show ?thesis by metis
qed

text \<open>
  C23: A wrapped text is a Lua long string whose closing bracket occurs at its end only, also when
  the text itself ends in a bracket; the level is between 1 and 9, and wrapping fails only if each
  of these closing brackets occurs.
\<close>

theorem bracket_wrap_read_back:
  "(case bracketWrap text of
      Inl e \<Rightarrow> \<forall>n. 1 \<le> n \<and> n < 10 \<longrightarrow> includes_str (closing_bracket n) (text @ lit '']'')
    | Inr w \<Rightarrow> \<exists>n. 1 \<le> n \<and> n < 10 \<and> w = opening_bracket n @ text @ closing_bracket n \<and>
        (\<forall>u v. text @ closing_bracket n = u @ closing_bracket n @ v \<longrightarrow> u = text \<and> v = []))"
proof (cases "List.find (\<lambda>level. \<not> includes_str (closing_bracket level) (text @ lit '']'')) [1..<10]")
  case None
  then have "\<forall>n\<in>set [1..<10]. includes_str (closing_bracket n) (text @ lit '']'')"
    by (simp only: find_None_iff) simp
  then show ?thesis unfolding bracketWrap_def None by auto
next
  case (Some n)
  then have "1 \<le> n" "n < 10" "\<not> includes_str (closing_bracket n) (text @ lit '']'')"
    using find_Some_iff [OF Some] by auto
  with Some show ?thesis
    using closing_bracket_overlap [of "text" n] by (auto simp: bracketWrap_def intro!: exI [of _ n])
qed

theorem bracket_wrap_read_back_witness:
  "bracketWrap (lit ''a]=]'') = Inr (lit ''[==[a]=]]==]'') \<and>
   (\<exists>n. lit ''[==[a]=]]==]'' = opening_bracket n @ lit ''a]=]'' @ closing_bracket n)"
proof -
  have w: "bracketWrap (lit ''a]=]'') = Inr (lit ''[==[a]=]]==]'')" by code_simp
  with bracket_wrap_read_back [of "lit ''a]=]''"] show ?thesis by auto
qed

text \<open>
  C24: The chunk loop ends exactly if the chunk size is positive or there is no data. Then its
  chunks, joined, are the data; none is empty or longer than the chunk size; and there are as few
  as that allows.
\<close>

theorem chunk_loop_ends:
  "(if n = 0 \<and> data \<noteq> [] then chunk_loop n data 0 [] = None
    else \<exists>chunks. chunk_loop n data 0 [] = Some chunks \<and> concat chunks = data \<and>
        (\<forall>c\<in>set chunks. 0 < length c \<and> length c \<le> n) \<and>
        (0 < n \<longrightarrow> length chunks = (length data + n - 1) div n))"
proof (cases "n = 0")
  case True
  have "chunk_loop 0 data 0 [] = None" if "data \<noteq> []"
    using that chunk_loop_zero [of data 0 "[]"] by (cases "chunk_loop 0 data 0 []") auto
  with True show ?thesis by (simp add: chunk_loop.simps [of 0 "[]"])
next
  case False
  then show ?thesis
    using chunk_loop_from [of n data 0 "[]"] concat_chunkify [of n data] length_chunkify [of n data]
      chunkify_sizes [of _ n data] by auto
qed

theorem chunk_loop_ends_witness:
  "\<exists>chunks. chunk_loop 2 ''abcde'' 0 [] = Some chunks \<and> concat chunks = ''abcde'' \<and> length chunks = 3"
  using chunk_loop_ends [of 2 "''abcde''"] by auto

end
