(* ===== verification/LuaInterface.thy ===== *)
theory LuaInterface
  imports Encoding InstanceMessages ControlMessages
begin

text \<open>
  The instance plugin's way to the game (lib/lua-interface.ts, the sending half of helpers.ts): the
  state the instance plugin keeps, the requests it awaits, and one RCON script per remote call of
  the mod. A script is UTF-8 text; where a script is built from a large payload it is built from
  code units (theory Encoding) and encoded when it is sent.

  Outside the repository, and so fields of the state that nothing changes: \<open>escapeString\<close> of
  Clusterio (\<open>luaEscape\<close>), the message of a \<open>SyntaxError\<close> of \<open>JSON.parse\<close> and the
  token made of the time and a random number. Log output is left out.
\<close>

section \<open>State, requests\<close>

datatype controller_message =
    ToPlatformExport platform_export_event
  | ToTransferPlatform transfer_platform_request
  | ToTransferValidation transfer_validation_event
  | ToImportComplete import_operation_complete_event
  | ToStateChanged platform_state_changed_event
  | ToGetGatewayConfig get_gateway_config_request
  | ToGetRoster get_instance_roster_request

datatype instance_request =
    Rcon string bool
      \<comment> \<open>the command, and whether an empty reply is expected\<close>
  | ToController controller_message
  | HostWait int
  | ReadScriptOutput string
      \<comment> \<open>a file of the instance's script-output directory\<close>

record pending_transfer =
  pt_platform_index :: "int option"
  pt_platform_name :: "string option"
  pt_force_name :: "string option"
  pt_destination_instance_id :: "int option"
  pt_job_id :: jsval

record instance_plugin =
  ip_clock :: int
  ip_id :: int
  ip_config :: "string \<Rightarrow> jsval"
  controllerManagedTransferExports :: "string list"
  pendingTransfer :: "pending_transfer option"
  ip_luaEscape :: "ustring \<Rightarrow> ustring"
  ip_syntaxError :: "string \<Rightarrow> string"
  ip_token :: string
  ip_trace :: "instance_request list"

type_synonym 'r lua = "(instance_request, answer, instance_plugin, thrown, 'r) act"

definition issue :: "instance_request \<Rightarrow> instance_plugin \<Rightarrow> instance_plugin" where
  "issue q s = s\<lparr>ip_trace := ip_trace s @ [q]\<rparr>"

definition ask :: "instance_request \<Rightarrow> jsval lua" where
  "ask q = act_then (act_do (issue q))
     (act_bind (act_await q) (\<lambda>a. case a of Resolved v \<Rightarrow> act_return v | Rejected e \<Rightarrow> act_throw e))"

definition plain_error :: "string \<Rightarrow> thrown" where
  "plain_error m = ErrorObject m None"

text \<open>\<open>JSON.parse\<close>.\<close>

definition json_parse :: "string \<Rightarrow> jsval lua" where
  "json_parse s = (case parse_json s of
     Some v \<Rightarrow> act_return v
   | None \<Rightarrow> act_get (\<lambda>w. act_throw (ErrorObject (ip_syntaxError w s) None)))"

text \<open>A member of a value that may be null, outside optional chaining.\<close>

definition member_of :: "jsval \<Rightarrow> string \<Rightarrow> jsval lua" where
  "member_of v k =
     (if is_nullish v
      then act_throw (plain_error (''Cannot read properties of '' @ js_text v @ '' (reading '' @
             [CHR 0x27] @ k @ [CHR 0x27] @ '')''))
      else act_return (prop_get v k))"

text \<open>\<open>escapeString\<close> on text.\<close>

definition lua_escape :: "instance_plugin \<Rightarrow> string \<Rightarrow> string" where
  "lua_escape s t = utf8_encode (ip_luaEscape s (utf16_units t))"

definition dq :: string where "dq = [CHR 0x22]"

text \<open>A quoted argument of a script.\<close>

definition lua_arg :: "instance_plugin \<Rightarrow> string \<Rightarrow> string" where
  "lua_arg s t = dq @ lua_escape s t @ dq"

definition int_text :: "int \<Rightarrow> string" where "int_text i = show_int i"

section \<open>Sending a document in chunks\<close>

definition chunk_string :: "instance_plugin \<Rightarrow> bool \<Rightarrow> ustring \<Rightarrow> ustring" where
  "chunk_string s needsEscaping chunk =
     (if needsEscaping then [0x27] @ ip_luaEscape s chunk @ [0x27]
      else lit ''[['' @ chunk @ lit '']]'')"

definition chunk_command :: "ustring \<Rightarrow> ustring \<Rightarrow> nat \<Rightarrow> nat \<Rightarrow> ustring" where
  "chunk_command template chunkString index ofTotal =
     replace_all ''%TOTAL%'' (lit (show_nat ofTotal))
       (replace_all ''%INDEX%'' (lit (show_nat index))
         (replace_all ''%CHUNK%'' chunkString template))"

definition chunk_accepted :: "string \<Rightarrow> bool" where
  "chunk_accepted reply = (starts_with ''CHUNK_OK:'' reply \<or> starts_with ''JOB_QUEUED:'' reply)"

definition chunk_failure :: "nat \<Rightarrow> nat \<Rightarrow> string \<Rightarrow> string" where
  "chunk_failure index ofTotal reply =
     ''Chunked import failed at chunk '' @ show_nat index @ ''/'' @ show_nat ofTotal @ '': '' @
       str_or reply ''<empty reply>''"

fun send_chunks :: "ustring \<Rightarrow> bool \<Rightarrow> nat \<Rightarrow> nat \<Rightarrow> ustring list \<Rightarrow> unit lua" where
  "send_chunks template esc index ofTotal [] = act_return ()"
| "send_chunks template esc index ofTotal (chunk # chunks) =
     act_get (\<lambda>s.
       act_bind (ask (Rcon (utf8_encode (lit ''/sc '' @ chunk_command template (chunk_string s esc chunk) index ofTotal)) False))
         (\<lambda>response.
            let reply = (case response of JStr t \<Rightarrow> js_trim t | _ \<Rightarrow> [])
            in if chunk_accepted reply then send_chunks template esc (Suc index) ofTotal chunks
               else act_throw (plain_error (chunk_failure index ofTotal reply))))"

definition sendChunkedJson :: "ustring \<Rightarrow> jsval \<Rightarrow> nat \<Rightarrow> unit lua" where
  "sendChunkedJson template data chunkSize =
     (let json = utf16_units (json_text data); chunks = chunkify chunkSize json
      in send_chunks template (includes_str (lit '']]'') json) 1 (length chunks) chunks)"

definition RCON_CHUNK_SIZE :: nat where "RCON_CHUNK_SIZE = 100000"
definition GATEWAY_CONFIG_SINGLE_LIMIT :: nat where "GATEWAY_CONFIG_SINGLE_LIMIT = 7000"
definition GATEWAY_CONFIG_CHUNK_SIZE :: nat where "GATEWAY_CONFIG_CHUNK_SIZE = 40000"

section \<open>Gateway configuration\<close>

definition gateway_script_head :: string where
  \<open>gateway_script_head =
     ''/sc if not (remote.interfaces["surface_export"] '' @
     ''and remote.interfaces["surface_export"]["configure_gateways"]) then '' @
     ''rcon.print('{"ok":false,"error":"surface_export configure_gateways remote missing (module not loaded)"}') '' @
     ''else local ok, res = pcall(function() return ''\<close>

definition gateway_script_tail :: string where
  \<open>gateway_script_tail =
     '' end) '' @
     ''if ok then rcon.print(helpers.table_to_json(res)) '' @
     ''else rcon.print(helpers.table_to_json({ ok = false, error = tostring(res) })) end end''\<close>

definition gatewayRemoteScript :: "ustring \<Rightarrow> string" where
  "gatewayRemoteScript expr = gateway_script_head @ utf8_encode expr @ gateway_script_tail"

definition configure_call :: "string \<Rightarrow> string" where
  \<open>configure_call name = ''remote.call("surface_export", "'' @ name @ ''", ''\<close>

text \<open>
  The last line of the reply that is not blank. A line end may be preceded by a carriage return,
  which the trimming removes.
\<close>

definition reply_lines :: "string \<Rightarrow> string list" where
  "reply_lines t = filter (\<lambda>l. l \<noteq> []) (map js_trim (split_on (CHR 0x0A) t))"

definition last_line :: "string \<Rightarrow> string" where
  "last_line t = (let ls = reply_lines t in if ls = [] then [] else last ls)"

definition falsy_to_empty :: "jsval \<Rightarrow> string" where
  "falsy_to_empty v = (if truthy v then js_text v else [])"

definition callGatewayRemote :: "string \<Rightarrow> string \<Rightarrow> jsval lua" where
  "callGatewayRemote script phase =
     act_bind (ask (Rcon script False)) (\<lambda>raw.
       let line = last_line (falsy_to_empty raw) in
       act_bind
         (act_try (json_parse line)
           (\<lambda>err. act_throw (plain_error (''gateway config '' @ phase @ '': non-JSON reply '' @ dq @
              utf8_encode (take 200 (utf16_units line)) @ dq @ '' ('' @ getErrorMessage err @ '')''))))
         (\<lambda>parsed.
            act_bind (member_of parsed ''ok'') (\<lambda>accepted.
              if accepted \<noteq> JBool True
              then act_throw (plain_error (''gateway config '' @ phase @ '' failed: '' @
                     js_text (val_nullish (prop_get parsed ''error'') (JStr ''unknown''))))
              else act_return parsed)))"

definition verifyGatewayEcho :: "jsval \<Rightarrow> int \<Rightarrow> int \<Rightarrow> unit lua" where
  "verifyGatewayEcho reply gateways bytes =
     (if prop_get reply ''gateways'' \<noteq> JNum (num_of_int gateways) \<or> prop_get reply ''bytes'' \<noteq> JNum (num_of_int bytes)
      then act_throw (plain_error (''gateway config echo-verify failed: instance applied '' @
        ''gateways='' @ js_text (prop_get reply ''gateways'') @ '' bytes='' @ js_text (prop_get reply ''bytes'') @ '', '' @
        ''expected gateways='' @ int_text gateways @ '' bytes='' @ int_text bytes))
      else act_return ())"

text \<open>\<open>Object.keys(v).length\<close>.\<close>

definition keys_count :: "jsval \<Rightarrow> int lua" where
  "keys_count v =
     (case v of
        JObj fs \<Rightarrow> act_return (int (length fs))
      | JArr xs \<Rightarrow> act_return (int (length xs))
      | JStr t \<Rightarrow> act_return (int (length (utf16_units t)))
      | JNull \<Rightarrow> act_throw (plain_error ''Cannot convert undefined or null to object'')
      | JUndef \<Rightarrow> act_throw (plain_error ''Cannot convert undefined or null to object'')
      | _ \<Rightarrow> act_return 0)"

definition wrapped :: "ustring \<Rightarrow> ustring lua" where
  "wrapped t = (case bracketWrap t of Inl e \<Rightarrow> act_throw (plain_error e) | Inr w \<Rightarrow> act_return w)"

definition active_argument :: "string option \<Rightarrow> ustring lua" where
  "active_argument active =
     (case ostr_truthy active of
        None \<Rightarrow> act_return []
      | Some json \<Rightarrow> act_bind (wrapped (toAsciiJson (utf16_units json))) (\<lambda>w. act_return (lit '', '' @ w)))"

fun send_gateway_chunks :: "string \<Rightarrow> nat \<Rightarrow> nat \<Rightarrow> ustring list \<Rightarrow> unit lua" where
  "send_gateway_chunks token ofTotal i [] = act_return ()"
| "send_gateway_chunks token ofTotal i (chunk # chunks) =
     act_bind (wrapped chunk) (\<lambda>w.
       act_then (act_bind (callGatewayRemote
           (gatewayRemoteScript (lit (configure_call ''configure_gateways_chunk'' @ dq @ token @ dq @ '', '' @
              show_nat (i + 1) @ '', '') @ w @ lit '')''))
           (''chunk '' @ show_nat (i + 1) @ ''/'' @ show_nat ofTotal)) (\<lambda>_. act_return ()))
         (send_gateway_chunks token ofTotal (i + 1) chunks))"

definition send_gateways_chunked :: "ustring \<Rightarrow> ustring \<Rightarrow> int \<Rightarrow> int lua" where
  "send_gateways_chunked asciiJson activeArg expectedGateways =
     act_get (\<lambda>s.
       let token = ''gwcfg_'' @ ip_token s; chunks = chunkify GATEWAY_CONFIG_CHUNK_SIZE asciiJson in
       act_bind (callGatewayRemote
           (gatewayRemoteScript (lit (configure_call ''configure_gateways_begin'' @ dq @ token @ dq @ '', '' @
              show_nat (length chunks) @ '', '' @ dq @ simpleChecksum asciiJson @ dq @ '')'')))
           ''begin'')
         (\<lambda>_. act_then (send_gateway_chunks token (length chunks) 0 chunks)
           (act_bind (callGatewayRemote
               (gatewayRemoteScript (lit (configure_call ''configure_gateways_commit'' @ dq @ token @ dq) @
                  activeArg @ lit '')''))
               ''commit'')
             (\<lambda>commit. act_then (verifyGatewayEcho commit expectedGateways (int (length asciiJson)))
                (act_return expectedGateways)))))"

definition configureGateways :: "string \<Rightarrow> string option \<Rightarrow> int lua" where
  "configureGateways gatewaysJson activeGatewaysJson =
     (let asciiJson = toAsciiJson (utf16_units gatewaysJson) in
      act_bind (active_argument activeGatewaysJson) (\<lambda>activeArg.
      act_bind (json_parse gatewaysJson) (\<lambda>doc.
      act_bind (keys_count doc) (\<lambda>expectedGateways.
      act_bind (wrapped asciiJson) (\<lambda>w.
        let single = gatewayRemoteScript (lit (configure_call ''configure_gateways'') @ w @ activeArg @ lit '')'') in
        if length single \<le> GATEWAY_CONFIG_SINGLE_LIMIT
        then act_bind (callGatewayRemote single ''apply'') (\<lambda>reply.
               act_then (verifyGatewayEcho reply expectedGateways (int (length asciiJson)))
                 (act_return expectedGateways))
        else send_gateways_chunked asciiJson activeArg expectedGateways)))))"

section \<open>The other remote calls\<close>

text \<open>\<open>/sc \<dots>\<close> of a call of the mod with its arguments.\<close>

definition remote_call :: "string \<Rightarrow> string list \<Rightarrow> string" where
  "remote_call name args = configure_call name @ join_with '', '' args @ '')''"

record lua_configure =
  lc_batchSize :: jsval
  lc_maxConcurrentJobs :: jsval
  lc_showProgress :: jsval
  lc_debugMode :: jsval
  lc_maxExportCacheSize :: jsval

definition configure_script :: "lua_configure \<Rightarrow> string" where
  \<open>configure_script cfg =
     ''/sc if remote.interfaces["surface_export"] and remote.interfaces["surface_export"]["configure"] then '' @
     ''remote.call("surface_export", "configure", {'' @
     ''batch_size='' @ js_text (lc_batchSize cfg) @ '', '' @
     ''max_concurrent_jobs='' @ js_text (lc_maxConcurrentJobs cfg) @ '', '' @
     ''show_progress='' @ js_text (lc_showProgress cfg) @ '', '' @
     ''debug_mode='' @ js_text (lc_debugMode cfg) @ '', '' @
     ''max_export_cache_size='' @ js_text (lc_maxExportCacheSize cfg) @ ''}) end''\<close>

definition lua_configure_game :: "lua_configure \<Rightarrow> unit lua" where
  "lua_configure_game cfg = act_then (ask (Rcon (configure_script cfg) True)) (act_return ())"

definition roster_script :: "instance_plugin \<Rightarrow> string \<Rightarrow> string" where
  \<open>roster_script s rosterJson =
     ''/sc if remote.interfaces["surface_export"] and remote.interfaces["surface_export"]["teleport_roster_update"] then '' @
     ''remote.call("surface_export", "teleport_roster_update", '' @ lua_arg s rosterJson @ '') end''\<close>

definition roster_too_long :: "nat \<Rightarrow> string" where
  "roster_too_long n =
     ''Teleport roster command is '' @ show_nat n @ '' bytes (> 7000); '' @
     ''too many instances for a single RCON push '' @ map char_of [0xE2, 0x80, 0x94 :: nat] @
     '' chunk the roster (see configure_gateways_begin).''"

definition pushTeleportRoster :: "string \<Rightarrow> unit lua" where
  "pushTeleportRoster rosterJson =
     act_get (\<lambda>s.
       let script = roster_script s rosterJson in
       if 7000 < length script then act_throw (plain_error (roster_too_long (length script)))
       else act_then (ask (Rcon script True)) (act_return ()))"

definition export_script :: "instance_plugin \<Rightarrow> string \<Rightarrow> string \<Rightarrow> string \<Rightarrow> string" where
  \<open>export_script s platformIndex forceName targetArg =
     ''/sc local export_id, err = '' @
     remote_call ''export_platform'' [platformIndex, lua_arg s forceName, targetArg] @ ''; '' @
     ''if export_id then rcon.print(export_id) else rcon.print("EXPORT_FAILED:" .. tostring(err or "unknown")) end''\<close>

definition lua_exportPlatform :: "jsval \<Rightarrow> string \<Rightarrow> string \<Rightarrow> jsval lua" where
  "lua_exportPlatform platformIndex forceName targetArg =
     act_get (\<lambda>s. ask (Rcon (export_script s (js_text platformIndex) forceName targetArg) False))"

definition print_script :: "string \<Rightarrow> string" where
  "print_script call = ''/sc rcon.print('' @ call @ '')''"

text \<open>\<open>None\<close> is null.\<close>

definition getExportJson :: "string \<Rightarrow> jsval option lua" where
  "getExportJson exportId =
     act_get (\<lambda>s.
       act_bind (ask (Rcon (print_script (remote_call ''get_export_json'' [lua_arg s exportId])) False)) (\<lambda>result.
         let jsonText = js_trim (falsy_to_empty result) in
         if jsonText = [] \<or> jsonText = ''null'' then act_return None
         else act_bind (json_parse jsonText) (\<lambda>parsed.
                act_return (if truthy parsed \<and> is_object parsed then Some parsed else None))))"

definition listExportsJson :: "jsval lua" where
  \<open>listExportsJson =
     act_bind (ask (Rcon (print_script ''remote.call("surface_export", "list_exports_json")'') False))
       (\<lambda>result. json_parse (js_text result))\<close>

definition listPlatformsJson :: "string \<Rightarrow> jsval list lua" where
  "listPlatformsJson forceName =
     act_get (\<lambda>s.
       act_bind (ask (Rcon (print_script (remote_call ''list_platforms_json'' [lua_arg s forceName])) False)) (\<lambda>result.
         act_bind (json_parse (js_text result)) (\<lambda>parsed.
           act_return (case parsed of JArr xs \<Rightarrow> xs | _ \<Rightarrow> []))))"

definition import_template :: "instance_plugin \<Rightarrow> string \<Rightarrow> string \<Rightarrow> string" where
  "import_template s targetName forceName =
     ''rcon.print('' @ remote_call ''import_platform_chunk''
       [lua_arg s targetName, ''%CHUNK%'', ''%INDEX%'', ''%TOTAL%'', lua_arg s forceName] @ '')''"

definition importPlatformChunked :: "string \<Rightarrow> string \<Rightarrow> jsval \<Rightarrow> unit lua" where
  "importPlatformChunked targetName forceName exportData =
     act_get (\<lambda>s. sendChunkedJson (utf16_units (import_template s targetName forceName)) exportData RCON_CHUNK_SIZE)"

definition lua_deleteSourcePlatform :: "int \<Rightarrow> string \<Rightarrow> string \<Rightarrow> string option \<Rightarrow> jsval lua" where
  "lua_deleteSourcePlatform platformIndex platformName forceName exportId =
     act_get (\<lambda>s.
       ask (Rcon (print_script (remote_call ''delete_platform_for_transfer''
         [int_text platformIndex, lua_arg s platformName, lua_arg s forceName,
          (case ostr_truthy exportId of Some e \<Rightarrow> lua_arg s e | None \<Rightarrow> ''nil'')])) False))"

definition lua_getSourceTransferLockState :: "string \<Rightarrow> int \<Rightarrow> string \<Rightarrow> string \<Rightarrow> jsval lua" where
  "lua_getSourceTransferLockState transferId platformIndex platformName forceName =
     act_get (\<lambda>s.
       ask (Rcon (print_script (remote_call ''get_source_transfer_lock_state_json''
         [lua_arg s transferId, int_text platformIndex, lua_arg s platformName, lua_arg s forceName])) False))"

definition unlock_script :: "string list \<Rightarrow> string" where
  \<open>unlock_script args =
     ''/sc local success, err = '' @ remote_call ''unlock_platform'' args @ ''; '' @
     ''if success then     rcon.print("SUCCESS"); else     rcon.print("ERROR:" .. (err or "Unknown error")); end''\<close>

definition lua_unlockPlatform :: "int \<Rightarrow> string option \<Rightarrow> jsval lua" where
  "lua_unlockPlatform platformIndex platformName =
     act_get (\<lambda>s.
       ask (Rcon (unlock_script (int_text platformIndex #
         (case ostr_truthy platformName of Some n \<Rightarrow> [lua_arg s n] | None \<Rightarrow> []))) False))"

definition printToGame :: "string \<Rightarrow> string \<Rightarrow> unit lua" where
  "printToGame message colorCode =
     act_get (\<lambda>s.
       act_then (ask (Rcon (''/sc game.print('' @ lua_arg s message @ '', '' @ colorCode @ '')'') True)) (act_return ()))"

definition signalReady :: "unit lua" where
  \<open>signalReady = act_then (ask (Rcon ''/sc rcon.print("surface-export-ready")'' False)) (act_return ())\<close>

section \<open>The lock state of a source\<close>

record lock_state =
  lk_state :: string
  lk_transferId :: "string option"
  lk_error :: "string option"

definition unknown_lock_state :: "string option \<Rightarrow> string \<Rightarrow> lock_state" where
  "unknown_lock_state tid e = \<lparr>lk_state = ''unknown/offline'', lk_transferId = tid, lk_error = Some e\<rparr>"

definition isSourceTransferLockState :: "jsval \<Rightarrow> bool" where
  "isSourceTransferLockState v = (case v of JStr s \<Rightarrow> s \<in> set SOURCE_TRANSFER_LOCK_STATES | _ \<Rightarrow> False)"

definition normalizeSourceTransferLockState :: "jsval \<Rightarrow> lock_state" where
  "normalizeSourceTransferLockState v =
     (if \<not> truthy v \<or> \<not> is_object v then unknown_lock_state None ''missing source lock state''
      else \<lparr>lk_state = (if isSourceTransferLockState (prop_get v ''state'') then js_text (prop_get v ''state'')
                        else ''unknown/offline''),
            lk_transferId = str_field v ''transferId'',
            lk_error = str_field v ''error''\<rparr>)"

definition parseSourceTransferLockStateJson :: "(string \<Rightarrow> string) \<Rightarrow> string \<Rightarrow> lock_state" where
  "parseSourceTransferLockStateJson syntaxError t =
     (if t = [] \<or> js_trim t = [] then unknown_lock_state None ''empty source lock state response''
      else case parse_json t of
             Some v \<Rightarrow> normalizeSourceTransferLockState v
           | None \<Rightarrow> unknown_lock_state None (syntaxError t))"

end
