(* ===== verification/InstancePlugin.thy ===== *)
theory InstancePlugin
  imports LuaInterface EventMessages Ids
begin

text \<open>
  The instance plugin (instance.ts): exports and imports on behalf of the controller, the hand-over
  of a finished export, the verdict on a finished import, and the source-side commands of a transfer
  (delete, unlock, lock state). Every handler is here with its guards and its error path; log
  output is left out, and so is the registration of the handlers with Clusterio.
\<close>

section \<open>Results of RCON calls\<close>

definition ascii_upper :: "char \<Rightarrow> char" where
  "ascii_upper c = (let n = of_char c :: nat in if 97 \<le> n \<and> n \<le> 122 then char_of (n - 32) else c)"

definition normalizeRconScalarResult :: "jsval \<Rightarrow> string" where
  "normalizeRconScalarResult v = last_line (js_text (val_nullish v (JStr [])))"

definition isInvalidExportId :: "string \<Rightarrow> bool" where
  "isInvalidExportId exportId =
     (exportId = [] \<or>
      (let lowered = map ascii_lower (js_trim exportId)
       in starts_with ''export_failed'' lowered \<or> lowered = ''nil'' \<or> starts_with ''error'' lowered))"

text \<open>\<open>s.trim()\<close> on the result of a call, which is a string.\<close>

definition trimmed_result :: "jsval \<Rightarrow> string lua" where
  "trimmed_result v =
     (case v of JStr t \<Rightarrow> act_return (js_trim t)
      | _ \<Rightarrow> act_throw (plain_error ''result.trim is not a function''))"

text \<open>\<open>s.replace("ERROR:", "")\<close>: the first occurrence.\<close>

fun without_first :: "string \<Rightarrow> string \<Rightarrow> string" where
  "without_first pat [] = []"
| "without_first pat (c # cs) =
     (if starts_with pat (c # cs) then drop (length pat) (c # cs) else c # without_first pat cs)"

record command_result =
  cr_success :: bool
  cr_exportId :: "string option"
  cr_error :: "string option"

definition succeeded :: command_result where
  "succeeded = \<lparr>cr_success = True, cr_exportId = None, cr_error = None\<rparr>"

definition failed_with :: "string \<Rightarrow> command_result" where
  "failed_with e = \<lparr>cr_success = False, cr_exportId = None, cr_error = Some e\<rparr>"

section \<open>Export\<close>

definition export_target_arg :: "jsval \<Rightarrow> string" where
  "export_target_arg targetInstanceId =
     (let n = to_number targetInstanceId
      in if is_integer n \<and> num_less (Fin 0) n then num_text n else ''nil'')"

text \<open>What the reply of the export call means.\<close>

definition export_reply :: "string \<Rightarrow> command_result" where
  "export_reply exportResult =
     (if exportResult = [] \<or> map ascii_lower exportResult = ''nil''
      then failed_with ''Export failed - no export_id returned''
      else if starts_with ''EXPORT_FAILED'' (map ascii_upper exportResult)
      then (let reason = js_trim (join_with '':'' (tl (split_on (CHR '':'') exportResult)))
            in failed_with (if reason = [] then ''Export failed'' else ''Export failed - '' @ reason))
      else let exportId = js_trim exportResult
           in if isInvalidExportId exportId then failed_with ''Export failed - invalid export_id returned''
              else \<lparr>cr_success = True, cr_exportId = Some exportId, cr_error = None\<rparr>)"

definition exportPlatform :: "jsval \<Rightarrow> string \<Rightarrow> jsval \<Rightarrow> command_result lua" where
  "exportPlatform platformIndex forceName targetInstanceId =
     act_try
       (act_bind (lua_exportPlatform platformIndex forceName (export_target_arg targetInstanceId))
         (\<lambda>rconResult. act_return (export_reply (normalizeRconScalarResult rconResult))))
       (\<lambda>err. act_return (failed_with (getErrorMessage err)))"

text \<open>A missing force is the default \<open>player\<close>, an empty one is passed on.\<close>

definition default_player :: "jsval \<Rightarrow> string" where
  "default_player v = (if v = JUndef then ''player'' else js_text v)"

definition note_managed_export :: "string \<Rightarrow> instance_plugin \<Rightarrow> instance_plugin" where
  "note_managed_export e s =
     s\<lparr>controllerManagedTransferExports :=
         (if e \<in> set (controllerManagedTransferExports s) then controllerManagedTransferExports s
          else controllerManagedTransferExports s @ [e])\<rparr>"

definition handleExportPlatformRequest :: "export_platform_request \<Rightarrow> command_result lua" where
  "handleExportPlatformRequest request =
     act_bind (exportPlatform (epr_platformIndex request) (default_player (epr_forceName request))
         (val_nullish (epr_targetInstanceId request) JNull))
       (\<lambda>result.
          let n = to_number (epr_targetInstanceId request)
          in act_then
               (if cr_success result \<and> is_integer n \<and> num_less (Fin 0) n
                then act_do (note_managed_export (nullish (cr_exportId result) [])) else act_return ())
               (act_return result))"

definition listExports :: "jsval lua" where
  "listExports = act_try listExportsJson (\<lambda>err. act_return (JArr []))"

text \<open>\<open>logOnMissing\<close> lists the exports for the log.\<close>

definition getExportData :: "string \<Rightarrow> bool \<Rightarrow> jsval option lua" where
  "getExportData exportId logOnMissing =
     act_try
       (let safeExportId = js_trim exportId in
        if isInvalidExportId safeExportId then act_return None
        else act_bind (getExportJson safeExportId) (\<lambda>exportData.
               case exportData of
                 Some d \<Rightarrow> act_return (Some d)
               | None \<Rightarrow>
                   act_then (if logOnMissing then act_bind listExports (\<lambda>_. act_return ()) else act_return ())
                     (act_return None)))
       (\<lambda>err. act_return None)"

definition EXPORT_POLL_TIMEOUT_MS :: int where "EXPORT_POLL_TIMEOUT_MS = 30000"
definition EXPORT_POLL_INTERVAL_MS :: int where "EXPORT_POLL_INTERVAL_MS = 500"

text \<open>
  One poll per unit of fuel; a wait advances the clock by the interval, so as many polls as the
  timeout has milliseconds never run out.
\<close>

fun poll_export :: "nat \<Rightarrow> int \<Rightarrow> int \<Rightarrow> string \<Rightarrow> jsval option lua" where
  "poll_export 0 deadline intervalMs exportId = act_bind listExports (\<lambda>_. act_return None)"
| "poll_export (Suc n) deadline intervalMs exportId =
     act_get (\<lambda>s.
       if ip_clock s < deadline then
         act_bind (getExportData exportId False) (\<lambda>attempt.
           case attempt of
             Some d \<Rightarrow> act_return (Some d)
           | None \<Rightarrow> act_bind (ask (HostWait intervalMs)) (\<lambda>_. poll_export n deadline intervalMs exportId))
       else act_bind listExports (\<lambda>_. act_return None))"

definition waitForExportData :: "string \<Rightarrow> int \<Rightarrow> int \<Rightarrow> jsval option lua" where
  "waitForExportData exportId timeoutMs intervalMs =
     act_get (\<lambda>s. poll_export (nat timeoutMs + 1) (ip_clock s + timeoutMs) intervalMs exportId)"

section \<open>Import\<close>

definition imported_name :: "instance_plugin \<Rightarrow> string" where
  "imported_name s = ''Imported_'' @ int_text (ip_clock s)"

definition importPlatform :: "jsval \<Rightarrow> string \<Rightarrow> command_result lua" where
  "importPlatform exportData forceName =
     act_get (\<lambda>s.
       act_try
         (act_then
           (importPlatformChunked
             (js_text (val_or (prop_get exportData ''platform_name'') (JStr (imported_name s)))) forceName exportData)
           (act_return succeeded))
         (\<lambda>err. act_return (failed_with (getErrorMessage err))))"

text \<open>The target planet is written into the document, an object.\<close>

definition with_planet :: "jsval \<Rightarrow> jsval \<Rightarrow> jsval" where
  "with_planet exportData targetPlanet =
     (if truthy targetPlanet
      then (case exportData of JObj fs \<Rightarrow> JObj (obj_set fs ''_targetPlanet'' targetPlanet) | v \<Rightarrow> v)
      else exportData)"

definition handleImportPlatformRequest :: "import_platform_request \<Rightarrow> command_result lua" where
  "handleImportPlatformRequest request =
     importPlatform (with_planet (ipr_exportData request) (ipr_targetPlanet request))
       (js_text (val_or (ipr_forceName request) (JStr ''player'')))"

definition importPlatformFromFile :: "string \<Rightarrow> string option \<Rightarrow> string \<Rightarrow> command_result lua" where
  "importPlatformFromFile filename platformName forceName =
     act_try
       (act_bind (ask (ReadScriptOutput filename)) (\<lambda>content.
        act_bind (json_parse (js_text content)) (\<lambda>exportData.
        act_get (\<lambda>s.
        act_bind
          (case ostr_truthy platformName of
             Some n \<Rightarrow> act_return n
           | None \<Rightarrow> act_bind (member_of exportData ''platform_name'') (\<lambda>n.
               act_return (js_text (val_or n (JStr (imported_name s))))))
          (\<lambda>target. act_then (importPlatformChunked target forceName exportData) (act_return succeeded))))))
       (\<lambda>err. act_return (failed_with (getErrorMessage err)))"

definition handleImportPlatformFromFileRequest :: "import_platform_from_file_request \<Rightarrow> command_result lua" where
  "handleImportPlatformFromFileRequest request =
     importPlatformFromFile (js_text (ipf_filename request))
       (case ipf_platformName request of JStr n \<Rightarrow> Some n | _ \<Rightarrow> None)
       (js_text (val_or (ipf_forceName request) (JStr ''player'')))"

text \<open>An event of the game: the document the mod sent.\<close>

definition handleImportFileRequest :: "jsval \<Rightarrow> unit lua" where
  "handleImportFileRequest data =
     act_bind
       (importPlatformFromFile (falsy_to_empty (prop_get data ''filename''))
         (str_field data ''platform_name'') (nullish (str_field data ''force_name'') ''player''))
       (\<lambda>_. act_return ())"

section \<open>Platform list\<close>

definition platform_entry :: "string \<Rightarrow> jsval \<Rightarrow> jsval" where
  "platform_entry forceName p =
     JObj [(''platformIndex'', prop_get p ''platform_index''),
           (''platformName'', prop_get p ''platform_name''),
           (''forceName'', val_or (prop_get p ''force_name'') (JStr (str_or forceName ''player''))),
           (''surfaceIndex'', val_nullish (prop_get p ''surface_index'') JNull),
           (''surfaceName'', val_nullish (prop_get p ''surface_name'') JNull),
           (''entityCount'', JNum (to_number (val_or (prop_get p ''entity_count'') (JNum (Fin 0))))),
           (''isLocked'', JBool (truthy (prop_get p ''is_locked''))),
           (''hasSpaceHub'', JBool (truthy (prop_get p ''has_space_hub''))),
           (''spaceLocation'', val_nullish (prop_get p ''space_location'') JNull),
           (''currentTarget'', val_nullish (prop_get p ''current_target'') JNull),
           (''speed'', (case prop_get p ''speed'' of JNum n \<Rightarrow> JNum n | _ \<Rightarrow> JNum (Fin 0))),
           (''state'', val_nullish (prop_get p ''state'') JNull),
           (''departureTick'', val_nullish (prop_get p ''departure_tick'') JNull),
           (''estimatedDurationTicks'', val_nullish (prop_get p ''estimated_duration_ticks'') JNull)]"

text \<open>A null entry of the list throws, and any error gives an empty list.\<close>

definition listPlatforms :: "string \<Rightarrow> jsval list lua" where
  "listPlatforms forceName =
     act_try
       (act_bind (listPlatformsJson (str_or forceName ''player'')) (\<lambda>parsed.
          if list_ex is_nullish parsed
          then act_throw (plain_error ''Cannot read properties of null (reading platform_index)'')
          else act_return (map (platform_entry forceName) parsed)))
       (\<lambda>err. act_return [])"

record platform_list_reply =
  pl_instanceId :: int
  pl_instanceName :: jsval
  pl_forceName :: string
  pl_platforms :: "jsval list"

definition handleInstanceListPlatformsRequest :: "instance_list_platforms_request \<Rightarrow> platform_list_reply lua" where
  "handleInstanceListPlatformsRequest request =
     (let forceName = js_text (val_or (ilp_forceName request) (JStr ''player'')) in
      act_bind (listPlatforms forceName) (\<lambda>platforms.
        act_get (\<lambda>s. act_return
          \<lparr>pl_instanceId = ip_id s, pl_instanceName = ip_config s ''instance.name'',
           pl_forceName = forceName, pl_platforms = platforms\<rparr>)))"

section \<open>A finished export\<close>

definition sendTo_controller :: "controller_message \<Rightarrow> jsval lua" where
  "sendTo_controller m = ask (ToController m)"

definition transfer_request_message :: "string \<Rightarrow> jsnum \<Rightarrow> int \<Rightarrow> string \<Rightarrow> controller_message" where
  "transfer_request_message canonicalExportId targetInstanceId instanceId exportId =
     ToTransferPlatform (new_TransferPlatformRequest (JObj
       [(''exportId'', JStr canonicalExportId),
        (''targetInstanceId'', JNum targetInstanceId),
        (''sourceInstanceId'', JNum (num_of_int instanceId)),
        (''sourceExportId'', JStr exportId)]))"

text \<open>
  After a refused transfer: the unlock, whose outcome is only logged, then a line in the game, whose
  failure is ignored.
\<close>

definition unlock_after_refusal :: "jsval \<Rightarrow> jsnum \<Rightarrow> unit lua" where
  "unlock_after_refusal safeToUnlockSource platformIndex =
     (if safeToUnlockSource = JBool True \<and> is_integer platformIndex
      then act_bind (lua_unlockPlatform (int_of_num platformIndex) None) (\<lambda>_. act_return ())
      else act_return ())"

definition startControllerTransfer :: "string \<Rightarrow> jsnum \<Rightarrow> jsnum \<Rightarrow> unit lua" where
  "startControllerTransfer exportId targetInstanceId platformIndex =
     act_get (\<lambda>s.
       case make_canonical_transfer_id (num_of_int (ip_id s)) exportId of
         Inl e \<Rightarrow> act_throw (plain_error (id_error_text e))
       | Inr canonicalExportId \<Rightarrow>
           act_bind (sendTo_controller (transfer_request_message canonicalExportId targetInstanceId (ip_id s) exportId))
             (\<lambda>response. act_bind (member_of response ''success'') (\<lambda>accepted.
                if truthy accepted then act_return ()
                else act_then (unlock_after_refusal (prop_get response ''safeToUnlockSource'') platformIndex)
                  (act_try
                    (printToGame (''[Transfer] '' @ js_text (prop_get response ''error'')) ''{1, 0.3, 0.3}'')
                    (\<lambda>err. act_return ())))))"

definition export_event_message :: "instance_plugin \<Rightarrow> string \<Rightarrow> jsval \<Rightarrow> jsval \<Rightarrow> controller_message" where
  "export_event_message s exportId data exportData =
     (let n = to_number (prop_get data ''platform_index'') in
      ToPlatformExport (new_PlatformExportEvent (JObj
       [(''exportId'', JStr exportId),
        (''platformName'', JStr (falsy_to_empty (prop_get data ''platform_name''))),
        (''platformIndex'', if is_integer n then JNum n else JNull),
        (''instanceId'', JNum (num_of_int (ip_id s))),
        (''exportData'', exportData),
        (''timestamp'', JNum (num_of_int (ip_clock s))),
        (''exportMetrics'', val_or (prop_get data ''export_metrics'') JNull)])))"

text \<open>\<open>a === b\<close> on a job id, a string or a number.\<close>

definition same_job :: "jsval \<Rightarrow> jsval \<Rightarrow> bool" where
  "same_job a b = (a = b \<and> a \<noteq> JNum NaN \<and> (case a of JObj _ \<Rightarrow> False | JArr _ \<Rightarrow> False | _ \<Rightarrow> True))"

definition num_of_opt :: "int option \<Rightarrow> jsnum" where
  "num_of_opt x = (case x of None \<Rightarrow> NaN | Some i \<Rightarrow> num_of_int i)"

definition clear_pending :: "instance_plugin \<Rightarrow> instance_plugin" where
  "clear_pending s = s\<lparr>pendingTransfer := None\<rparr>"

definition forget_managed_export :: "string \<Rightarrow> instance_plugin \<Rightarrow> instance_plugin" where
  "forget_managed_export e s =
     s\<lparr>controllerManagedTransferExports := filter (\<lambda>x. x \<noteq> e) (controllerManagedTransferExports s)\<rparr>"

text \<open>
  A pending transfer of this job is started and then dropped. While it is being started, another
  handler may replace or drop it: it is read again where the code reads it again.
\<close>

definition start_pending_transfer :: "string \<Rightarrow> jsval \<Rightarrow> unit lua" where
  "start_pending_transfer exportId job =
     act_get (\<lambda>s.
       case pendingTransfer s of
         None \<Rightarrow> act_return ()
       | Some p \<Rightarrow>
           if \<not> same_job (pt_job_id p) job then act_return ()
           else (case pt_destination_instance_id p of
               None \<Rightarrow> act_do clear_pending
             | Some target \<Rightarrow>
                 if target \<le> 0 then act_do clear_pending
                 else act_then
                   (startControllerTransfer exportId (num_of_int target) (num_of_opt (pt_platform_index p)))
                   (act_do clear_pending)))"

definition hand_over_export :: "string \<Rightarrow> jsval \<Rightarrow> unit lua" where
  "hand_over_export exportId data =
     (if truthy (prop_get data ''destination_instance_id'') then
        act_get (\<lambda>s.
          if exportId \<in> set (controllerManagedTransferExports s)
          then act_do (forget_managed_export exportId)
          else startControllerTransfer exportId (to_number (prop_get data ''destination_instance_id''))
                 (to_number (prop_get data ''platform_index'')))
      else start_pending_transfer exportId (prop_get data ''job_id''))"

definition handleExportComplete :: "jsval \<Rightarrow> unit lua" where
  "handleExportComplete data =
     (let exportId = js_trim (falsy_to_empty (prop_get data ''export_id'')) in
      if isInvalidExportId exportId then act_return ()
      else act_try
        (act_bind (getExportData exportId True) (\<lambda>found.
           case found of
             None \<Rightarrow> act_return ()
           | Some exportData \<Rightarrow>
               act_get (\<lambda>s.
               act_bind (sendTo_controller (export_event_message s exportId data exportData)) (\<lambda>_.
                 hand_over_export exportId data))))
        (\<lambda>err. act_return ()))"

section \<open>Events of the game\<close>

definition integer_field :: "jsval \<Rightarrow> string \<Rightarrow> int option" where
  "integer_field data k =
     (let n = to_number (prop_get data k) in if is_integer n then Some (int_of_num n) else None)"

definition pending_of :: "jsval \<Rightarrow> pending_transfer" where
  "pending_of data =
     \<lparr>pt_platform_index = integer_field data ''platform_index'',
      pt_platform_name = str_field data ''platform_name'',
      pt_force_name = str_field data ''force_name'',
      pt_destination_instance_id = integer_field data ''destination_instance_id'',
      pt_job_id = (case prop_get data ''job_id'' of JStr t \<Rightarrow> JStr t | JNum n \<Rightarrow> JNum n | _ \<Rightarrow> JUndef)\<rparr>"

definition handleTransferRequest :: "jsval \<Rightarrow> unit lua" where
  "handleTransferRequest data = act_do (\<lambda>s. s\<lparr>pendingTransfer := Some (pending_of data)\<rparr>)"

definition state_changed_message :: "instance_plugin \<Rightarrow> jsval \<Rightarrow> controller_message" where
  "state_changed_message s data =
     ToStateChanged (new_PlatformStateChangedEvent (JObj
       [(''instanceId'', JNum (num_of_int (ip_id s))),
        (''platformName'', JStr (falsy_to_empty (prop_get data ''platform_name''))),
        (''forceName'', JStr (js_text (val_or (prop_get data ''force_name'') (JStr ''player''))))]))"

definition instance_handlePlatformStateChanged :: "jsval \<Rightarrow> unit lua" where
  "instance_handlePlatformStateChanged data =
     act_try
       (act_get (\<lambda>s. act_bind (sendTo_controller (state_changed_message s data)) (\<lambda>_. act_return ())))
       (\<lambda>err. act_return ())"

definition handleTeleportRosterRequest :: "unit lua" where
  "handleTeleportRosterRequest =
     act_try
       (act_get (\<lambda>s.
        act_bind (sendTo_controller (ToGetRoster (new_GetInstanceRosterRequest
            (JObj [(''instanceId'', JNum (num_of_int (ip_id s)))]))))
          (\<lambda>resp. pushTeleportRoster (json_text (JObj
             [(''instances'', val_or (prop_get resp ''instances'') (JArr []))])))))
       (\<lambda>err. act_return ())"

section \<open>Gateway configuration\<close>

text \<open>
  The document keyed by gateway name; the wire form of a gateway is an object with a name and a
  list of targets. A null entry throws.
\<close>

fun keyed_gateways :: "(string \<times> jsval) list \<Rightarrow> jsval list \<Rightarrow> (string \<times> jsval) list" where
  "keyed_gateways keyed [] = keyed"
| "keyed_gateways keyed (g # gs) =
     keyed_gateways (obj_set keyed (js_text (prop_get g ''gatewayName''))
       (JObj [(''targets'', val_or (prop_get g ''targets'') (JArr []))])) gs"

definition gateway_list :: "jsval \<Rightarrow> jsval list" where
  "gateway_list v = (case v of JArr xs \<Rightarrow> xs | _ \<Rightarrow> [])"

definition applyGatewaysToLua :: "jsval \<Rightarrow> jsval \<Rightarrow> int lua" where
  "applyGatewaysToLua gateways activeGatewayNames =
     (if list_ex is_nullish (gateway_list gateways)
      then act_throw (plain_error ''Cannot read properties of null (reading gatewayName)'')
      else configureGateways (json_text (JObj (keyed_gateways [] (gateway_list gateways))))
             (if truthy activeGatewayNames then Some (json_text activeGatewayNames) else None))"

definition pullAndApply :: "unit lua" where
  "pullAndApply =
     act_get (\<lambda>s.
     act_bind (sendTo_controller (ToGetGatewayConfig (new_GetGatewayConfigRequest
         (JObj [(''instanceId'', JNum (num_of_int (ip_id s)))]))))
       (\<lambda>resp. act_bind (applyGatewaysToLua (val_or (prop_get resp ''gateways'') (JArr []))
            (prop_get resp ''activeGatewayNames''))
          (\<lambda>_. act_return ())))"

text \<open>The retry is a task of its own, started when the first attempt failed.\<close>

definition gateway_retry :: "unit lua" where
  "gateway_retry = act_then (act_bind (ask (HostWait 10000)) (\<lambda>_. act_return ()))
     (act_try pullAndApply (\<lambda>err. act_return ()))"

text \<open>The result says whether the retry was started.\<close>

definition sendGatewayConfigToLua :: "bool lua" where
  "sendGatewayConfigToLua =
     act_try (act_then pullAndApply (act_return False)) (\<lambda>err. act_return True)"

definition handlePushGatewayConfig :: "push_gateway_config_request \<Rightarrow> command_result lua" where
  "handlePushGatewayConfig request =
     act_try
       (act_bind (applyGatewaysToLua (pgc_gateways request) (pgc_activeGatewayNames request))
         (\<lambda>_. act_return succeeded))
       (\<lambda>err. act_return (failed_with (getErrorMessage err)))"

section \<open>Start\<close>

definition validateInstanceConfiguration :: "instance_plugin \<Rightarrow> thrown option" where
  "validateInstanceConfiguration s =
     (if \<not> truthy (ip_config s ''factorio.enable_script_commands'')
      then Some (plain_error ''Surface Export requires factorio.enable_script_commands to be enabled'')
      else case ip_config s ''surface_export.max_export_cache_size'' of
             JNum n \<Rightarrow> if num_less n (Fin 1)
                       then Some (plain_error ''surface_export.max_export_cache_size must be >= 1'') else None
           | _ \<Rightarrow> Some (plain_error ''surface_export.max_export_cache_size must be >= 1''))"

definition ensureLuaConsoleUnlocked :: "unit lua" where
  "ensureLuaConsoleUnlocked =
     act_then (act_try signalReady (\<lambda>err. act_return ()))
       (act_try signalReady (\<lambda>err. act_return ()))"

definition sendConfigurationToLua :: "unit lua" where
  "sendConfigurationToLua =
     act_get (\<lambda>s. act_try
       (lua_configure_game
         \<lparr>lc_batchSize = ip_config s ''surface_export.batch_size'',
          lc_maxConcurrentJobs = ip_config s ''surface_export.max_concurrent_jobs'',
          lc_showProgress = ip_config s ''surface_export.show_progress'',
          lc_debugMode = ip_config s ''surface_export.debug_mode'',
          lc_maxExportCacheSize = ip_config s ''surface_export.max_export_cache_size''\<rparr>)
       (\<lambda>err. act_return ()))"

definition instance_onStart :: "bool lua" where
  "instance_onStart =
     act_then ensureLuaConsoleUnlocked (act_then sendConfigurationToLua sendGatewayConfigToLua)"

section \<open>The verdict on an import\<close>

definition finite_or :: "jsval \<Rightarrow> jsval \<Rightarrow> jsval" where
  "finite_or v d = (let n = to_number v in if is_finite n then JNum n else d)"

definition is_record :: "jsval \<Rightarrow> bool" where
  "is_record v = (case v of JObj _ \<Rightarrow> True | _ \<Rightarrow> False)"

definition missing_validation :: "jsval \<Rightarrow> jsval" where
  "missing_validation data =
     JObj [(''itemCountMatch'', JBool False), (''fluidCountMatch'', JBool False),
           (''entityCount'', finite_or (prop_get data ''entity_count'') JUndef),
           (''mismatchDetails'', JStr ''Validation payload not retrieved'')]"

definition reported_validation :: "jsval \<Rightarrow> jsval" where
  "reported_validation parsed =
     JObj (obj_spread (obj_fields parsed)
       [(''itemCountMatch'', JBool (truthy (prop_get parsed ''itemCountMatch''))),
        (''fluidCountMatch'', JBool (truthy (prop_get parsed ''fluidCountMatch'')))])"

definition validation_of :: "jsval \<Rightarrow> jsval" where
  "validation_of data =
     (if is_record (prop_get data ''validation'') then reported_validation (prop_get data ''validation'')
      else missing_validation data)"

definition import_success :: "jsval \<Rightarrow> bool" where
  "import_success data =
     (is_record (prop_get data ''validation'') \<and> prop_get data ''success'' = JBool True
       \<and> prop_get (validation_of data) ''itemCountMatch'' = JBool True
       \<and> prop_get (validation_of data) ''fluidCountMatch'' = JBool True)"

text \<open>The finite numbers of the metrics, and their phase spans.\<close>

definition normalized_metrics :: "jsval \<Rightarrow> jsval" where
  "normalized_metrics metrics =
     (if \<not> is_object metrics then JUndef
      else let numbers = filter (\<lambda>(k, v). case v of JNum n \<Rightarrow> is_finite n | _ \<Rightarrow> False) (entries_of metrics)
           in JObj (case prop_get metrics ''phase_spans'' of
                JArr xs \<Rightarrow> obj_set numbers ''phase_spans'' (JArr xs) | _ \<Rightarrow> numbers))"

definition platform_name_or_unknown :: "jsval \<Rightarrow> string" where
  "platform_name_or_unknown data = js_text (val_or (prop_get data ''platform_name'') (JStr ''Unknown''))"

definition validation_event :: "string \<Rightarrow> jsval \<Rightarrow> jsnum \<Rightarrow> bool \<Rightarrow> jsval \<Rightarrow> jsval \<Rightarrow> controller_message" where
  "validation_event transferId data sourceInstanceId success validation metrics =
     ToTransferValidation (new_TransferValidationEvent (JObj
       [(''transferId'', JStr transferId),
        (''platformName'', JStr (platform_name_or_unknown data)),
        (''sourceInstanceId'', JNum sourceInstanceId),
        (''success'', JBool success),
        (''validation'', validation),
        (''metrics'', metrics)]))"

definition failed_validation :: "thrown \<Rightarrow> jsval" where
  "failed_validation err =
     JObj [(''itemCountMatch'', JBool False), (''fluidCountMatch'', JBool False),
           (''mismatchDetails'', JStr (''Validation error: '' @ getErrorMessage err))]"

text \<open>A transfer's import: the verdict, or a failure verdict if sending it failed.\<close>

definition report_transfer :: "jsval \<Rightarrow> string \<Rightarrow> jsnum \<Rightarrow> unit lua" where
  "report_transfer data transferId sourceInstanceId =
     act_try
       (act_bind (sendTo_controller (validation_event transferId data sourceInstanceId
            (import_success data) (validation_of data)
            (normalized_metrics (val_or (prop_get data ''metrics'') JNull))))
         (\<lambda>_. act_return ()))
       (\<lambda>err. act_try
          (act_bind (sendTo_controller (validation_event transferId data sourceInstanceId False
              (failed_validation err) JUndef))
            (\<lambda>_. act_return ()))
          (\<lambda>sendErr. act_return ()))"

text \<open>An import that belongs to no transfer: its completion, with the error text of a failed one.\<close>

definition reported_text :: "jsval \<Rightarrow> string \<Rightarrow> string option" where
  "reported_text data k = ostr_truthy (str_field data k)"

definition import_error_text :: "instance_plugin \<Rightarrow> jsval \<Rightarrow> string" where
  "import_error_text s data =
     join_truthy ''; ''
       [Some (''Import failed'' @
          (case reported_text data ''failed_stage'' of Some st \<Rightarrow> '' at '' @ st | None \<Rightarrow> []) @ '': '' @
          nullish (reported_text data ''error'') ''the destination refused the import''),
        (if prop_get data ''cleanup_failed'' = JBool True
         then Some (''destination discard FAILED '' @ em_dash @ '' a leftover platform remains on instance '' @
                int_text (ip_id s) @ '': '' @ nullish (reported_text data ''cleanup_error'') ''delete_platform failed'')
         else None),
        (if prop_get data ''destination_preserved'' = JBool True
         then Some ''destination platform was PRESERVED by preserve_failed_destination'' else None)]"

definition import_complete_message :: "instance_plugin \<Rightarrow> string \<Rightarrow> jsval \<Rightarrow> controller_message" where
  "import_complete_message s operationId data =
     (let importSucceeded = (prop_get data ''success'' \<noteq> JBool False) in
      ToImportComplete (new_ImportOperationCompleteEvent (JObj
       [(''operationId'', JStr operationId),
        (''platformName'', JStr (platform_name_or_unknown data)),
        (''instanceId'', JNum (num_of_int (ip_id s))),
        (''success'', JBool importSucceeded),
        (''error'', if importSucceeded then JNull else JStr (import_error_text s data)),
        (''failedStage'', val_of_str (reported_text data ''failed_stage'')),
        (''cleanupFailed'', JBool (prop_get data ''cleanup_failed'' = JBool True)),
        (''destinationPreserved'', JBool (prop_get data ''destination_preserved'' = JBool True)),
        (''durationTicks'', finite_or (prop_get data ''duration_ticks'') JNull),
        (''entityCount'', finite_or (prop_get data ''entity_count'') JNull),
        (''metrics'', val_or (val_or (prop_get data ''metrics'') JNull) JNull),
        (''validation'', if is_record (prop_get data ''validation'') then prop_get data ''validation'' else JNull)])))"

definition report_operation :: "jsval \<Rightarrow> string \<Rightarrow> unit lua" where
  "report_operation data operationId =
     act_try
       (act_get (\<lambda>s.
        act_bind (sendTo_controller (import_complete_message s operationId data)) (\<lambda>_.
          instance_handlePlatformStateChanged (JObj
            [(''platform_name'', JStr (falsy_to_empty (prop_get data ''platform_name''))),
             (''force_name'', JStr (js_text (val_or (prop_get data ''force_name'') (JStr ''player''))))]))))
       (\<lambda>err. act_return ())"

definition handleImportCompleteValidation :: "jsval \<Rightarrow> unit lua" where
  "handleImportCompleteValidation data =
     (let transferId = js_trim (falsy_to_empty (prop_get data ''transfer_id''));
          sourceInstanceId = to_number (prop_get data ''source_instance_id'') in
      if transferId = [] \<or> \<not> is_integer sourceInstanceId \<or> \<not> num_less (Fin 0) sourceInstanceId then
        (if truthy (prop_get data ''operation_id'')
            \<and> js_text (prop_get data ''operation_id'') \<noteq> []
         then report_operation data (js_text (prop_get data ''operation_id''))
         else act_return ())
      else report_transfer data transferId sourceInstanceId)"

section \<open>Commands on the source platform\<close>

definition invalid_index_text :: "jsval \<Rightarrow> string" where
  "invalid_index_text v = ''invalid platformIndex: '' @ js_text v"

text \<open>Only the reply \<open>SUCCESS\<close> is a success.\<close>

definition command_reply :: "string \<Rightarrow> command_result" where
  "command_reply trimmed =
     (if trimmed = ''SUCCESS'' then succeeded else failed_with (without_first ''ERROR:'' trimmed))"

definition handleDeleteSourcePlatform :: "delete_source_platform_request \<Rightarrow> command_result lua" where
  "handleDeleteSourcePlatform request =
     (case coercePlatformIndex (dsp_platformIndex request) of
        None \<Rightarrow> act_return (failed_with (invalid_index_text (dsp_platformIndex request)))
      | Some platformIndex \<Rightarrow>
          act_try
            (act_bind (lua_deleteSourcePlatform platformIndex (falsy_to_empty (dsp_platformName request))
                (js_text (val_or (dsp_forceName request) (JStr ''player'')))
                (case dsp_exportId request of JStr e \<Rightarrow> Some e | _ \<Rightarrow> None))
              (\<lambda>result. act_bind (trimmed_result result) (\<lambda>t. act_return (command_reply t))))
            (\<lambda>err. act_return (failed_with (getErrorMessage err))))"

definition handleUnlockSourcePlatform :: "unlock_source_platform_request \<Rightarrow> command_result lua" where
  "handleUnlockSourcePlatform request =
     (case coercePlatformIndex (usp_platformIndex request) of
        None \<Rightarrow> act_return (failed_with (invalid_index_text (usp_platformIndex request)))
      | Some platformIndex \<Rightarrow>
          act_try
            (act_bind (lua_unlockPlatform platformIndex
                (case usp_platformName request of JStr n \<Rightarrow> Some n | _ \<Rightarrow> None))
              (\<lambda>result. act_bind (trimmed_result result) (\<lambda>t. act_return (command_reply t))))
            (\<lambda>err. act_return (failed_with (getErrorMessage err))))"

definition handleGetSourceTransferLockState :: "get_source_transfer_lock_state_request \<Rightarrow> lock_state lua" where
  "handleGetSourceTransferLockState request =
     (let transferId = (case gls_transferId request of JStr t \<Rightarrow> Some t | _ \<Rightarrow> None) in
      case coercePlatformIndex (gls_platformIndex request) of
        None \<Rightarrow> act_return \<lparr>lk_state = ''identity_mismatch'', lk_transferId = transferId,
                  lk_error = Some (invalid_index_text (gls_platformIndex request))\<rparr>
      | Some platformIndex \<Rightarrow>
          act_try
            (act_bind (lua_getSourceTransferLockState (nullish transferId []) platformIndex
                (falsy_to_empty (gls_platformName request))
                (js_text (val_or (gls_forceName request) (JStr ''player''))))
              (\<lambda>result. act_bind (trimmed_result result) (\<lambda>t.
                 act_get (\<lambda>s. act_return (parseSourceTransferLockStateJson (ip_syntaxError s) t)))))
            (\<lambda>err. act_return (unknown_lock_state transferId (getErrorMessage err))))"

definition status_colours :: "(string \<times> string) list" where
  "status_colours =
     [(''green'', ''{0, 1, 0}''), (''yellow'', ''{1, 1, 0}''), (''red'', ''{1, 0, 0}''),
      (''blue'', ''{0, 0.5, 1}''), (''white'', ''{1, 1, 1}'')]"

definition handleTransferStatusUpdate :: "transfer_status_update \<Rightarrow> command_result lua" where
  "handleTransferStatusUpdate request =
     (let colorCode = (case map_of status_colours (falsy_to_empty (tsu_color request)) of
            Some c \<Rightarrow> c | None \<Rightarrow> ''{1, 1, 1}'') in
      act_try
        (act_then (printToGame (js_text (val_nullish (tsu_message request) (JStr []))) colorCode)
          (act_return succeeded))
        (\<lambda>err. act_return (failed_with (getErrorMessage err))))"

end
