(* ===== verification/InstanceRules.thy ===== *)
theory InstanceRules
  imports InstancePlugin Outcomes
begin

text \<open>
  What the instance plugin asks of the game and of the controller: for every state, every answer and
  every interleaving (locale \<open>asking\<close>), and exactly, for a handler run to its end.
\<close>

section \<open>Asking at every interleaving\<close>

text \<open>A segment appends requests that satisfy \<open>P\<close> to the trace and takes none away.\<close>

definition asks_only :: "(instance_request \<Rightarrow> bool) \<Rightarrow> instance_plugin \<Rightarrow> instance_plugin \<Rightarrow> bool" where
  "asks_only P s t = (\<exists>qs. ip_trace t = ip_trace s @ qs \<and> (\<forall>q\<in>set qs. P q))"

interpretation asking: guarantee "asks_only P" for P
proof
  show "asks_only P s s" for s
    by (simp add: asks_only_def)
  show "asks_only P s u" if "asks_only P s t" "asks_only P t u" for s t u
    using that unfolding asks_only_def by fastforce
qed

lemma asks_only_issue: "P q \<Longrightarrow> asks_only P s (issue q s)"
  by (simp add: asks_only_def issue_def)

lemma asks_ask: "P q \<Longrightarrow> guar_act (asks_only P) (ask q)"
  unfolding ask_def
  by (intro asking.structural asking.guar_do asks_only_issue)
    (auto intro: asking.structural split: answer.split)

lemma asks_do: "(\<And>s. ip_trace (u s) = ip_trace s) \<Longrightarrow> guar_act (asks_only P) (act_do u)"
  by (intro asking.guar_do) (simp add: asks_only_def)

lemma asks_json_parse: "guar_act (asks_only P) (json_parse s)"
  unfolding json_parse_def by (auto intro!: asking.structural split: option.split)

lemma asks_member_of: "guar_act (asks_only P) (member_of v k)"
  unfolding member_of_def by (intro asking.structural)

lemmas asks_intros = asking.structural asks_ask asks_json_parse asks_member_of


section \<open>Running a handler to its end\<close>

lemma run_ask [run_laws]:
  "run_act env (ask q) s f =
     (case env q f of (Resolved v, f1) \<Rightarrow> (Inr v, issue q s, f1) | (Rejected e, f1) \<Rightarrow> (Inl e, issue q s, f1))"
  by (simp add: ask_def run_laws split: prod.split answer.split)

lemma issue_frame [simp]:
  "ip_trace (issue q s) = ip_trace s @ [q]" "ip_clock (issue q s) = ip_clock s" "ip_id (issue q s) = ip_id s"
  "ip_config (issue q s) = ip_config s" "pendingTransfer (issue q s) = pendingTransfer s"
  "controllerManagedTransferExports (issue q s) = controllerManagedTransferExports s"
  "ip_luaEscape (issue q s) = ip_luaEscape s" "ip_syntaxError (issue q s) = ip_syntaxError s"
  "ip_token (issue q s) = ip_token s"
  by (simp_all add: issue_def)

section \<open>The verdict on an import\<close>

text \<open>What the controller reads from the event it receives.\<close>

definition received_verdict :: "controller_message \<Rightarrow> verdict option" where
  "received_verdict m =
     (case m of
        ToTransferValidation e \<Rightarrow>
          (case (tve_transferId e, tve_platformName e, tve_sourceInstanceId e, tve_success e) of
             (JStr t, JStr p, JNum n, JBool b) \<Rightarrow>
               if is_integer n
               then Some \<lparr>ve_transferId = t, ve_platformName = p, ve_sourceInstanceId = int_of_num n,
                          ve_success = b, ve_validation = tve_validation e, ve_metrics = tve_metrics e\<rparr>
               else None
           | _ \<Rightarrow> None)
      | _ \<Rightarrow> None)"

definition transfer_of :: "jsval \<Rightarrow> string" where
  "transfer_of data = js_trim (falsy_to_empty (prop_get data ''transfer_id''))"

text \<open>What a success means: a validation object whose two counts match, and a reported success.\<close>

definition validated :: "jsval \<Rightarrow> bool" where
  "validated data =
     ((\<exists>fs. prop_get data ''validation'' = JObj fs \<and> truthy (obj_get fs ''itemCountMatch'')
        \<and> truthy (obj_get fs ''fluidCountMatch''))
      \<and> prop_get data ''success'' = JBool True)"

lemma obj_get_spread_last:
  "obj_get (obj_spread fs [(a, x), (b, y)]) k = (if k = b then y else if k = a then x else obj_get fs k)"
  by (simp add: obj_spread_def)

lemma import_success_validated: "import_success data = validated data"
  by (cases "prop_get data ''validation''")
    (auto simp: import_success_def validated_def is_record_def validation_of_def reported_validation_def
      obj_fields_def obj_get_spread_last)

lemma received_validation_event [simp]:
  "received_verdict (validation_event tid data n b v m) =
     (if is_integer n
      then Some \<lparr>ve_transferId = tid, ve_platformName = platform_name_or_unknown data,
        ve_sourceInstanceId = int_of_num n, ve_success = b, ve_validation = v, ve_metrics = m\<rparr>
      else None)"
  by (simp add: received_verdict_def validation_event_def new_TransferValidationEvent_def)

lemma received_others [simp]:
  "received_verdict (import_complete_message s oid data) = None"
  "received_verdict (state_changed_message s d) = None"
  by (simp_all add: received_verdict_def import_complete_message_def state_changed_message_def Let_def)

definition truthful_verdict :: "jsval \<Rightarrow> instance_request \<Rightarrow> bool" where
  "truthful_verdict data q =
     (\<forall>m v. q = ToController m \<and> received_verdict m = Some v \<longrightarrow>
        ve_transferId v = transfer_of data \<and> (ve_success v \<longrightarrow> validated data))"

lemma asks_report_transfer:
  "tid = transfer_of data \<Longrightarrow> guar_act (asks_only (truthful_verdict data)) (report_transfer data tid n)"
  unfolding report_transfer_def sendTo_controller_def
  by (intro asks_intros) (auto simp: truthful_verdict_def import_success_validated split: if_splits)

lemma asks_report_operation:
  "guar_act (asks_only (truthful_verdict data)) (report_operation data oid)"
  unfolding report_operation_def instance_handlePlatformStateChanged_def sendTo_controller_def
  by (intro asks_intros) (auto simp: truthful_verdict_def)

lemma asks_verdict:
  "guar_act (asks_only (truthful_verdict data)) (handleImportCompleteValidation data)"
  unfolding handleImportCompleteValidation_def Let_def
  by (intro asks_intros asks_report_operation asks_report_transfer) (simp add: transfer_of_def)

definition first_verdict :: "jsval \<Rightarrow> string \<Rightarrow> jsnum \<Rightarrow> controller_message" where
  "first_verdict data tid n = validation_event tid data n (import_success data) (validation_of data)
     (normalized_metrics (val_or (prop_get data ''metrics'') JNull))"

lemma run_report_transfer:
  assumes "env (ToController (first_verdict data tid n)) f = (Rejected e, f1)"
  shows "fst (run_act env (report_transfer data tid n) s f) = Inr () \<and>
     ip_trace (fst (snd (run_act env (report_transfer data tid n) s f))) =
       ip_trace s @ [ToController (first_verdict data tid n),
         ToController (validation_event tid data n False (failed_validation e) JUndef)]"
  using assms unfolding report_transfer_def first_verdict_def [symmetric] sendTo_controller_def
  by (simp add: run_laws split: prod.split answer.split)

definition transfer_source :: "jsval \<Rightarrow> jsnum" where
  "transfer_source data = to_number (prop_get data ''source_instance_id'')"

definition belongs_to_transfer :: "jsval \<Rightarrow> bool" where
  "belongs_to_transfer data =
     (transfer_of data \<noteq> [] \<and> is_integer (transfer_source data) \<and> num_less (Fin 0) (transfer_source data))"

lemma transfer_import:
  "belongs_to_transfer data \<Longrightarrow>
     handleImportCompleteValidation data = report_transfer data (transfer_of data) (transfer_source data)"
  by (simp add: handleImportCompleteValidation_def belongs_to_transfer_def transfer_of_def transfer_source_def)

text \<open>
  C18: Whatever the game reports, whatever the controller answers and however the handler interleaves
  with others, each verdict an instance sends on an import names the transfer of the report, and it
  is a SUCCESS only if the report carries a validation object in which the item and the fluid
  counts match, and says itself that the import succeeded. An absent validation or an error on the
  way never becomes a SUCCESS.
\<close>

theorem success_verdict_is_genuine:
  "guar_act (asks_only (\<lambda>q. \<forall>m v. q = ToController m \<and> received_verdict m = Some v \<longrightarrow>
       ve_transferId v = js_trim (falsy_to_empty (prop_get data ''transfer_id'')) \<and>
       (ve_success v \<longrightarrow>
          (\<exists>fs. prop_get data ''validation'' = JObj fs \<and> truthy (obj_get fs ''itemCountMatch'')
             \<and> truthy (obj_get fs ''fluidCountMatch''))
          \<and> prop_get data ''success'' = JBool True)))
     (handleImportCompleteValidation data)"
  using asks_verdict [of data]
  unfolding truthful_verdict_def validated_def transfer_of_def .

definition sample_report :: "(string \<times> jsval) list \<Rightarrow> jsval" where
  "sample_report extra =
     JObj ([(''transfer_id'', JStr ''1:7''), (''source_instance_id'', JNum (Fin 1)),
            (''platform_name'', JStr ''Alpha''), (''success'', JBool True)] @ extra)"

definition both_match :: "(string \<times> jsval) list" where
  "both_match = [(''validation'', JObj [(''itemCountMatch'', JBool True), (''fluidCountMatch'', JBool True)])]"

definition quiet_instance :: instance_plugin where
  "quiet_instance =
     \<lparr>ip_clock = 5000, ip_id = 2, ip_config = (\<lambda>_. JUndef), controllerManagedTransferExports = [],
      pendingTransfer = None, ip_luaEscape = (\<lambda>u. u), ip_syntaxError = (\<lambda>_. ''bad json''), ip_token = ''t_1'',
      ip_trace = []\<rparr>"

theorem success_verdict_is_genuine_witness:
  "asks_only (\<lambda>q. \<forall>m v. q = ToController m \<and> received_verdict m = Some v \<longrightarrow> \<not> ve_success v) quiet_instance
     (fst (handleImportCompleteValidation (sample_report []) quiet_instance))"
proof -
  have "prop_get (sample_report []) ''validation'' = JUndef" by (simp add: sample_report_def)
  with success_verdict_is_genuine [of "sample_report []"] show ?thesis
    unfolding guar_act_def asks_only_def by fastforce
qed

text \<open>
  C19: If the delivery of a SUCCESS verdict fails, the instance reports a FAILURE of the same transfer
  although the import was validated and stands; the controller that still waits for a verdict then
  releases the source, so both copies are live.
\<close>

theorem lost_success_releases_source:
  fixes ans :: "request \<Rightarrow> answer"
  assumes "belongs_to_transfer data" and "validated data"
    and "\<And>m. \<exists>e. fst (env (ToController m) f) = Rejected e"
    and "jm_get (activeTransfers w) (transfer_of data) = Some r" "r < length (heap w)"
    and "t_status (transfer_at w r) = AwaitingValidation"
  shows "\<exists>first second v st pend stored.
     ip_trace (fst (snd (run_act env (handleImportCompleteValidation data) s f))) =
       ip_trace s @ [ToController first, ToController second]
     \<and> map_option ve_success (received_verdict first) = Some True
     \<and> received_verdict second = Some v \<and> \<not> ve_success v \<and> ve_transferId v = transfer_of data
     \<and> settled_as (run_with ans (handleTransferValidation v) w) r w (unlock_request (transfer_at w r)) st pend stored"
proof -
  let ?first = "first_verdict data (transfer_of data) (transfer_source data)"
  obtain e f1 where e: "env (ToController ?first) f = (Rejected e, f1)"
    using assms(3) by (metis prod.collapse)
  let ?second = "validation_event (transfer_of data) data (transfer_source data) False (failed_validation e) JUndef"
  obtain v where v: "received_verdict ?second = Some v" "\<not> ve_success v" "ve_transferId v = transfer_of data"
    using assms(1) by (simp add: belongs_to_transfer_def)
  have tr: "ip_trace (fst (snd (run_act env (handleImportCompleteValidation data) s f))) =
      ip_trace s @ [ToController ?first, ToController ?second]"
    using run_report_transfer [of env data "transfer_of data" "transfer_source data" f e f1 s] e transfer_import [OF assms(1)] by simp
  have f: "map_option ve_success (received_verdict ?first) = Some True"
    using assms(1,2) by (simp add: first_verdict_def belongs_to_transfer_def import_success_validated)
  have a: "jm_get (activeTransfers w) (ve_transferId v) = Some r" using assms(4) v by simp
  have "settled_as (run_with ans (handleTransferValidation v) w) r w (unlock_request (transfer_at w r))
     (if ostr_truthy (cleanup_error_of (ve_validation v)) \<noteq> None then CleanupFailed else Failed)
     (if unlock_error (ans (unlock_request (transfer_at w r))) = None
      then jm_delete (pendingTransfers w) (ve_transferId v) else pendingTransfers w) (platformStorage w)"
    using run_settle_failure [OF run_verdict(2) [OF a assms(5,6)] v(2), of ans]
    unfolding run_verdict [OF a assms(5,6)] settled_as_def by simp
  with tr f v show ?thesis by blast
qed

theorem lost_success_releases_source_witness:
  "\<exists>v st pend stored. \<not> ve_success v \<and> ve_transferId v = ''1:7''
     \<and> settled_as (run_with all_well (handleTransferValidation v) (sample_plugin sample_transfer)) 0
         (sample_plugin sample_transfer) (unlock_request sample_transfer) st pend stored"
proof -
  have tid: "transfer_of (sample_report both_match) = ''1:7''"
    by (simp add: transfer_of_def sample_report_def falsy_to_empty_def js_trim_solid solid_def)
  have b: "belongs_to_transfer (sample_report both_match)"
    unfolding belongs_to_transfer_def tid
    by (simp add: transfer_source_def sample_report_def is_integer_def)
  have v: "validated (sample_report both_match)"
    by (simp add: validated_def sample_report_def both_match_def)
  from lost_success_releases_source [OF b v, where env = "\<lambda>q f. (Rejected (plain_error ''lost''), f)"
      and w = "sample_plugin sample_transfer" and r = 0 and s = quiet_instance and ans = all_well and f = "()"] tid
  show ?thesis by (simp del: received_validation_event) blast
qed

section \<open>Commands on the source platform\<close>

definition says_success :: "answer \<Rightarrow> bool" where
  "says_success a = (case a of Resolved (JStr t) \<Rightarrow> js_trim t = ''SUCCESS'' | _ \<Rightarrow> False)"

text \<open>One command, and the result its answer means.\<close>

definition answered_command :: "answer \<Rightarrow> command_result \<Rightarrow> bool" where
  "answered_command a r =
     ((cr_success r \<longleftrightarrow> says_success a) \<and> cr_exportId r = None \<and> (cr_error r = None \<longleftrightarrow> cr_success r))"

lemma command_reply_cases:
  "command_reply t = (if t = ''SUCCESS'' then succeeded else failed_with (without_first ''ERROR:'' t))"
  by (simp add: command_reply_def)

definition command :: "instance_request \<Rightarrow> command_result lua" where
  "command q = act_try (act_bind (ask q)
       (\<lambda>result. act_bind (trimmed_result result) (\<lambda>t. act_return (command_reply t))))
     (\<lambda>err. act_return (failed_with (getErrorMessage err)))"

definition sends_command :: "(instance_request \<Rightarrow> 'f \<Rightarrow> answer \<times> 'f) \<Rightarrow> instance_plugin \<Rightarrow> 'f
    \<Rightarrow> (thrown + command_result) \<times> instance_plugin \<times> 'f \<Rightarrow> bool" where
  "sends_command env s f out \<longleftrightarrow>
     (\<exists>q r. fst (snd out) = issue q s \<and> fst out = Inr r \<and> answered_command (fst (env q f)) r)"

lemma run_command: "sends_command env s f (run_act env (command q) s f)"
proof -
  obtain a f1 where a: "env q f = (a, f1)" by (cases "env q f")
  show ?thesis
    unfolding sends_command_def
    by (rule exI [of _ q]) (auto simp: command_def run_laws a trimmed_result_def command_reply_def
        answered_command_def says_success_def succeeded_def failed_with_def split: answer.split jsval.split)
qed

lemma run_delete:
  "coercePlatformIndex (dsp_platformIndex request) = Some i \<Longrightarrow>
     sends_command env s f (run_act env (handleDeleteSourcePlatform request) s f)"
  by (simp add: handleDeleteSourcePlatform_def lua_deleteSourcePlatform_def)
    (rule back_subst [of "sends_command env s f", OF run_command], simp add: command_def run_laws)

lemma run_unlock_command:
  "coercePlatformIndex (usp_platformIndex request) = Some i \<Longrightarrow>
     sends_command env s f (run_act env (handleUnlockSourcePlatform request) s f)"
  by (simp add: handleUnlockSourcePlatform_def lua_unlockPlatform_def)
    (rule back_subst [of "sends_command env s f", OF run_command], simp add: command_def run_laws)

definition refused_index :: "jsval \<Rightarrow> command_result" where
  "refused_index v = failed_with (''invalid platformIndex: '' @ js_text v)"

lemma delete_refused:
  "coercePlatformIndex (dsp_platformIndex request) = None \<Longrightarrow>
     run_act env (handleDeleteSourcePlatform request) s f = (Inr (refused_index (dsp_platformIndex request)), s, f)"
  by (simp add: handleDeleteSourcePlatform_def run_laws refused_index_def invalid_index_text_def)

lemma unlock_refused:
  "coercePlatformIndex (usp_platformIndex request) = None \<Longrightarrow>
     run_act env (handleUnlockSourcePlatform request) s f = (Inr (refused_index (usp_platformIndex request)), s, f)"
  by (simp add: handleUnlockSourcePlatform_def run_laws refused_index_def invalid_index_text_def)



section \<open>The lock state of a source\<close>

text \<open>The reply of the handler as a document.\<close>

definition lock_state_document :: "lock_state \<Rightarrow> jsval" where
  "lock_state_document st =
     JObj [(''state'', JStr (lk_state st)), (''transferId'', val_of_str (lk_transferId st)),
           (''error'', val_of_str (lk_error st))]"

lemma lock_document_conforms:
  "lk_state st \<in> set SOURCE_TRANSFER_LOCK_STATES \<Longrightarrow>
     conforms GetSourceTransferLockStateRequest_response (lock_state_document st)"
  by (cases "lk_transferId st"; cases "lk_error st")
    (simp_all add: GetSourceTransferLockStateRequest_response_def lock_state_document_def val_of_str_def
      conforms.simps props_conform.simps fits_def)

lemma unknown_state [simp]: "lk_state (unknown_lock_state t e) = ''unknown/offline''"
  by (simp add: unknown_lock_state_def)

lemma unknown_is_known [simp]: "''unknown/offline'' \<in> set SOURCE_TRANSFER_LOCK_STATES"
  by (simp add: SOURCE_TRANSFER_LOCK_STATES_def)

text \<open>A definite state is one the mod's reply names.\<close>

definition reported_by :: "answer \<Rightarrow> lock_state \<Rightarrow> bool" where
  "reported_by a st \<longleftrightarrow>
     (\<exists>t v. a = Resolved (JStr t) \<and> parse_json (js_trim t) = Some v \<and> prop_get v ''state'' = JStr (lk_state st))"

lemma normalized_lock_state:
  "lk_state (normalizeSourceTransferLockState v) \<in> set SOURCE_TRANSFER_LOCK_STATES"
  "lk_state (normalizeSourceTransferLockState v) \<noteq> ''unknown/offline'' \<Longrightarrow>
     prop_get v ''state'' = JStr (lk_state (normalizeSourceTransferLockState v))"
  by (auto simp: normalizeSourceTransferLockState_def unknown_lock_state_def SOURCE_TRANSFER_LOCK_STATES_def
      isSourceTransferLockState_def split: jsval.splits if_splits)

lemma parsed_lock_state:
  "lk_state (parseSourceTransferLockStateJson se t) \<in> set SOURCE_TRANSFER_LOCK_STATES"
  "lk_state (parseSourceTransferLockStateJson se t) \<noteq> ''unknown/offline'' \<Longrightarrow>
     \<exists>v. parse_json t = Some v \<and> prop_get v ''state'' = JStr (lk_state (parseSourceTransferLockStateJson se t))"
  using normalized_lock_state [of "the (parse_json t)"]
  by (auto simp: parseSourceTransferLockStateJson_def split: option.splits if_splits)

lemma run_lock_state:
  "\<exists>st. fst (run_act env (handleGetSourceTransferLockState q) s f) = Inr st
     \<and> lk_state st \<in> set SOURCE_TRANSFER_LOCK_STATES
     \<and> (lk_state st \<in> {''unknown/offline'', ''identity_mismatch''} \<or> (\<exists>q. reported_by (fst (env q f)) st))"
proof (cases "coercePlatformIndex (gls_platformIndex q)")
  case None
  then show ?thesis
    by (simp add: handleGetSourceTransferLockState_def Let_def run_laws SOURCE_TRANSFER_LOCK_STATES_def)
next
  case (Some i)
  define tid where "tid = (case gls_transferId q of JStr t \<Rightarrow> Some t | _ \<Rightarrow> None)"
  obtain q' where run: "run_act env (lua_getSourceTransferLockState (nullish tid []) i
        (falsy_to_empty (gls_platformName q)) (js_text (val_or (gls_forceName q) (JStr ''player'')))) s f =
      run_act env (ask q') s f"
    by (simp add: lua_getSourceTransferLockState_def run_laws(5) del: run_ask)
  obtain a f1 where a: "env q' f = (a, f1)" by (cases "env q' f")
  define st where "st = (case a of
       Resolved (JStr t) \<Rightarrow> parseSourceTransferLockStateJson (ip_syntaxError s) (js_trim t)
     | Resolved v \<Rightarrow> unknown_lock_state tid (getErrorMessage (plain_error ''result.trim is not a function''))
     | Rejected e \<Rightarrow> unknown_lock_state tid (getErrorMessage e))"
  have "fst (run_act env (handleGetSourceTransferLockState q) s f) = Inr st"
    using run a Some
    by (simp add: handleGetSourceTransferLockState_def Let_def tid_def [symmetric] run_laws trimmed_result_def st_def
        split: answer.split jsval.split)
  moreover have "lk_state st \<in> set SOURCE_TRANSFER_LOCK_STATES"
    by (simp add: st_def parsed_lock_state(1) split: answer.split jsval.split)
  moreover have "lk_state st = ''unknown/offline'' \<or> reported_by (fst (env q' f)) st"
    using parsed_lock_state(2) a
    by (auto simp: st_def reported_by_def split: answer.splits jsval.splits)
  ultimately show ?thesis by blast
qed

text \<open>
  Asked for the lock state of a source, the instance always answers, with a document the message
  class admits, whatever the game replies. A definite state (before the commit, committed, source
  gone) is answered only if the reply is a JSON document that names it; an error, a reply that is no
  JSON and a state the code does not know become \<open>unknown/offline\<close>.
\<close>

theorem lock_state_reply_is_known:
  "\<exists>st. fst (run_act env (handleGetSourceTransferLockState q) s f) = Inr st
     \<and> conforms GetSourceTransferLockStateRequest_response (lock_state_document st)
     \<and> (lk_state st \<in> {''unknown/offline'', ''identity_mismatch''} \<or> (\<exists>q. reported_by (fst (env q f)) st))"
  using run_lock_state [of env q s f] lock_document_conforms by blast

end
