(* ===== verification/Authority.thy ===== *)
theory Authority
  imports InstanceRules Sending
begin

text \<open>
  The authority to unlock a source. A refused \<open>TransferPlatformRequest\<close> may tell the instance that
  the source is safe to unlock (\<open>safeToUnlockSource\<close>), and the instance acts on it. What the flag
  says of the call that sets it, at every interleaving (predicate \<open>returns\<close>), and what
  it does not say.
\<close>

section \<open>Results at every interleaving\<close>

inductive returns :: "('r \<Rightarrow> bool) \<Rightarrow> ('q, 'a, 'w, 'e, 'r) async \<Rightarrow> bool" for P where
  returns_Return: "P r \<Longrightarrow> returns P (Return r)"
| returns_Throw: "returns P (Throw e)"
| returns_Await: "(\<And>a s. returns P (snd (k a s))) \<Longrightarrow> returns P (Await q k)"

inductive_simps returns_simps [simp]:
  "returns P (Return r)" "returns P (Throw e)" "returns P (Await q k)"

definition returns_act :: "('r \<Rightarrow> bool) \<Rightarrow> ('q, 'a, 'w, 'e, 'r) act \<Rightarrow> bool" where
  "returns_act P m = (\<forall>s. returns P (snd (m s)))"

lemma returns_async_bind:
  assumes "\<And>r. returns_act P (f r)"
  shows "returns P (snd (async_bind p f s))"
  by (induction p arbitrary: s rule: async_induct) (use assms in \<open>auto simp: returns_act_def\<close>)

lemma returns_async_catch:
  assumes "\<And>e. returns_act P (h e)"
  shows "returns P p \<Longrightarrow> returns P (snd (async_catch p h s))"
  by (induction p arbitrary: s rule: async_induct) (use assms in \<open>auto simp: returns_act_def\<close>)

lemma returns_intros:
  "P r \<Longrightarrow> returns_act P (act_return r)"
  "returns_act P (act_throw e)"
  "(\<And>s. returns_act P (g s)) \<Longrightarrow> returns_act P (act_get g)"
  "(\<And>r. returns_act P (f r)) \<Longrightarrow> returns_act P (act_bind m f)"
  "returns_act P n \<Longrightarrow> returns_act P (act_then m' n)"
  "returns_act P m1 \<Longrightarrow> (\<And>e. returns_act P (h e)) \<Longrightarrow> returns_act P (act_try m1 h)"
  "(b \<Longrightarrow> returns_act P m1) \<Longrightarrow> (\<not> b \<Longrightarrow> returns_act P n) \<Longrightarrow> returns_act P (if b then m1 else n)"
  "(x = None \<Longrightarrow> returns_act P m1) \<Longrightarrow> (\<And>v. x = Some v \<Longrightarrow> returns_act P (j v)) \<Longrightarrow>
     returns_act P (case x of None \<Rightarrow> m1 | Some v \<Rightarrow> j v)"
  by (auto simp: returns_act_def act_run intro: returns_async_bind [unfolded returns_act_def]
      returns_async_catch [unfolded returns_act_def] split: option.split)

section \<open>What the flag says\<close>

abbreviation no_authority :: "transfer_result \<Rightarrow> bool" where
  "no_authority r \<equiv> \<not> r_safeToUnlockSource r"

lemma no_authority_results [simp]: "no_authority (failure e)" "no_authority (started tid m)"
  by (simp_all add: failure_def started_def)

lemma send_import_no_authority: "returns_act no_authority (send_import tid r target m)"
  unfolding send_import_def handleImportFailure_def import_accepted_def import_send_failed_def Let_def
  by (intro returns_intros) simp_all

lemma launch_no_authority: "returns_act no_authority (launch_transfer tid eid x target planet operation)"
  unfolding launch_transfer_def by (intro returns_intros send_import_no_authority)

text \<open>A call that does nothing but return.\<close>

definition only_returns :: "('q, 'a, 'w, 'e, 'r) act \<Rightarrow> 'w \<Rightarrow> bool" where
  "only_returns m w = (\<exists>r. m w = (w, Return r))"

lemma transferPlatform_authority:
  "only_returns (transferPlatform eid target metrics st planet) w
     \<or> returns no_authority (snd (transferPlatform eid target metrics st planet w))"
proof -
  have l: "returns no_authority (snd (launch_transfer tid eid x target planet operation w))" for tid x operation
    using launch_no_authority by (simp add: returns_act_def)
  show ?thesis
    by (auto simp: transferPlatform_def only_returns_def act_run Let_def l
        split: option.split jsval.split sum.split)
qed

lemma release_no_authority:
  "returns_act no_authority (act_then (release_stored x) (act_return (failure e)))"
  by (intro returns_intros) simp

lemma transfer_request_authority:
  "only_returns (handleTransferPlatformRequest q) w
     \<or> returns no_authority (snd (handleTransferPlatformRequest q w))"
proof (cases "resolveTargetInstance w (tq_targetInstanceId q)")
  case None
  then show ?thesis by (simp add: handleTransferPlatformRequest_def only_returns_def act_run)
next
  case (Some ti)
  obtain target inst where ti: "ti = (target, inst)" by (cases ti)
  define attempt where "attempt = act_get (\<lambda>w.
      case (if jm_has (platformStorage w) (tq_exportId q) then Inr (tq_exportId q) else fallback_export_id q) of
        Inl e \<Rightarrow> act_throw e | Inr eid \<Rightarrow> transferPlatform eid target JNull None None)"
  define rescue :: "thrown \<Rightarrow> transfer_result handler" where "rescue = (\<lambda>err. case fallback_export_id q of
      Inl e \<Rightarrow> act_throw e
    | Inr fallback \<Rightarrow> act_get (\<lambda>w. act_then
        (release_stored (first_some (jm_get (platformStorage w) (tq_exportId q)) (jm_get (platformStorage w) fallback)))
        (act_return (failure (getErrorMessage err)))))"
  have rescue: "returns_act no_authority (rescue e)" for e
    unfolding rescue_def
    by (cases "fallback_export_id q") (auto intro!: returns_intros release_no_authority)
  have h: "handleTransferPlatformRequest q w = act_try attempt rescue w"
    by (simp add: handleTransferPlatformRequest_def Some ti attempt_def rescue_def act_run)
  have "only_returns attempt w \<or> returns no_authority (snd (attempt w))"
    using transferPlatform_authority [of _ target JNull None None w]
    by (auto simp: attempt_def act_run only_returns_def split: sum.split)
  then show ?thesis
    unfolding only_returns_def h
    by (auto simp: act_run intro: returns_async_catch [OF rescue])
qed

text \<open>
  C25: At every interleaving: a reply to a transfer request that tells the instance the source is safe
  to unlock comes from a call that only looked at the state: it changed nothing, sent nothing to
  any instance and awaited nothing. Every call that got further, and every call that ends in an
  error, replies without that authority.
\<close>

theorem unlock_authority_only_before_any_effect:
  "(\<exists>r. handleTransferPlatformRequest q w = (w, Return r))
     \<or> returns (\<lambda>r. \<not> r_safeToUnlockSource r) (snd (handleTransferPlatformRequest q w))"
  using transfer_request_authority [of q w] by (simp add: only_returns_def)

section \<open>What the flag does not say\<close>

text \<open>The reply as the document the instance reads.\<close>

definition reply_document :: "transfer_result \<Rightarrow> jsval" where
  "reply_document r =
     JObj [(''success'', JBool (r_success r)), (''error'', val_of_str (r_error r)),
           (''safeToUnlockSource'', JBool (r_safeToUnlockSource r))]"

definition unlock_request_of :: "int \<Rightarrow> instance_request" where
  "unlock_request_of i = Rcon (unlock_script [int_text i]) False"

text \<open>The rest of the hand-over only adds requests.\<close>

lemma ask_grows: "ip_trace (fst (snd (run_act env (ask q) s f))) = ip_trace s @ [q]"
  by (simp add: run_ask split: prod.split answer.split)

lemma refused_hand_over_unlocks:
  assumes "make_canonical_transfer_id (num_of_int (ip_id s)) job = Inr cid"
    and "env (ToController (transfer_request_message cid target (ip_id s) job)) f = (Resolved (reply_document r), f1)"
    and "\<not> r_success r" and "r_safeToUnlockSource r"
  shows "unlock_request_of i \<in> set (ip_trace (fst (snd (run_act env (startControllerTransfer job target (num_of_int i)) s f))))"
proof -
  define rest where "rest = act_try (printToGame (''[Transfer] '' @ js_text (val_of_str (r_error r))) ''{1, 0.3, 0.3}'')
     (\<lambda>err. act_return ())"
  let ?q = "unlock_request_of i"
  let ?s1 = "issue (ToController (transfer_request_message cid target (ip_id s) job)) s"
  obtain a f2 where a: "env ?q f1 = (a, f2)" by (cases "env ?q f1")
  have run: "run_act env (startControllerTransfer job target (num_of_int i)) s f =
      run_act env (act_then (act_bind (ask ?q) (\<lambda>_. act_return ())) rest) ?s1 f1"
    using assms
    by (simp add: startControllerTransfer_def sendTo_controller_def run_laws member_of_def reply_document_def
        is_nullish_def unlock_after_refusal_def lua_unlockPlatform_def unlock_request_of_def ostr_truthy_def rest_def)
  have "asks_only (\<lambda>_. True) t (fst (snd (run_act env rest t g)))" for t g
    unfolding rest_def by (rule asking.run_guar) (auto simp: printToGame_def intro!: asks_intros)
  then have grow: "set (ip_trace t) \<subseteq> set (ip_trace (fst (snd (run_act env rest t g))))" for t g
    unfolding asks_only_def by (metis set_append Un_upper1)
  have "?q \<in> set (ip_trace (issue ?q ?s1))" by simp
  with grow [of "issue ?q ?s1" f2] show ?thesis
    unfolding run by (cases a) (auto simp: run_laws a)
qed

text \<open>
  C26: A retry of a transfer whose record is settled, also one that was validated at the destination
  but whose source could not be deleted (\<open>cleanup_failed\<close>), is refused with the authority to
  unlock; the instance that asked then unlocks the source, although the refusal itself says that
  the destination may hold a committed copy.
\<close>

theorem settled_retry_unlocks_source:
  assumes "resolveTargetInstance w (tq_targetInstanceId q) = Some (target, inst)"
    and "jm_get (platformStorage w) (tq_exportId q) = Some x" and "isInstanceOnline w target"
    and "find_transfer w (stored_transfer_id (tq_exportId q) x) = Some t"
    and "t_status t \<in> {Completed, CleanupFailed, Errored}"
    and "make_canonical_transfer_id (num_of_int (ip_id s)) job = Inr cid"
  shows "\<exists>r. handleTransferPlatformRequest q w = (w, Return r) \<and> \<not> r_success r
     \<and> (\<forall>env f f1 tgt i.
          env (ToController (transfer_request_message cid tgt (ip_id s) job)) f = (Resolved (reply_document r), f1) \<longrightarrow>
          unlock_request_of i \<in> set (ip_trace (fst (snd (run_act env (startControllerTransfer job tgt (num_of_int i)) s f)))))"
proof -
  obtain e where "retry_guard (stored_transfer_id (tq_exportId q) x) (Some t) = Some (refused e)"
    using assms(5) by (auto simp: retry_guard_def is_live_def)
  then have t: "transferPlatform (tq_exportId q) target JNull None None w = (w, Return (refused e))"
    using assms(2-4) by (simp add: transferPlatform_def act_run Let_def)
  have "handleTransferPlatformRequest q w = (w, Return (refused e))"
    using assms(1,2) by (simp add: handleTransferPlatformRequest_def act_run jm_has_def t)
  moreover have "\<not> r_success (refused e)" "r_safeToUnlockSource (refused e)"
    by (simp_all add: refused_def)
  ultimately show ?thesis
    by (intro exI [of _ "refused e"] conjI allI impI refused_hand_over_unlocks [OF assms(6)])
qed

definition sample_destination :: instance_rec where
  "sample_destination = \<lparr>n_id = 2, n_isDeleted = False, n_status = ''running'', n_name = JStr ''dst'',
     n_assignedHost = JNum (Fin 1), n_gamePort = None\<rparr>"

definition sample_stored_export :: stored_export where
  "sample_stored_export = \<lparr>x_exportId = ''1:7'', x_sourceExportId = Some ''7'', x_platformName = ''Alpha'',
     x_platformIndex = JNum (Fin 3), x_instanceId = Fin 1, x_exportData = JObj [], x_exportMetrics = JNull,
     x_timestamp = 900, x_size = Some 2\<rparr>"

definition settled_plugin :: plugin where
  "settled_plugin = (sample_plugin (sample_transfer\<lparr>t_status := CleanupFailed\<rparr>))
     \<lparr>platformStorage := [(''1:7'', sample_stored_export)], instances := [(2, sample_destination)],
      hosts := [(1, \<lparr>h_id = 1, h_name = ''host'', h_connected = True, h_isDeleted = False, h_publicAddress = None\<rparr>)]\<rparr>"

definition sample_transfer_request :: transfer_request where
  "sample_transfer_request = \<lparr>tq_exportId = ''1:7'', tq_targetInstanceId = JNum (Fin 2),
     tq_sourceInstanceId = Some 1, tq_sourceExportId = Some ''7''\<rparr>"

theorem settled_retry_unlocks_source_witness:
  "\<exists>r. handleTransferPlatformRequest sample_transfer_request settled_plugin = (settled_plugin, Return r)
     \<and> unlock_request_of 3 \<in> set (ip_trace (fst (snd (run_act (\<lambda>q f. (Resolved (reply_document r), f))
           (startControllerTransfer ''7'' (Fin 2) (num_of_int 3)) quiet_instance ()))))"
proof -
  have two: "is_integer (Fin 2)" "int_of_num (Fin 2) = 2" "is_integer (Fin 1)" "int_of_num (Fin 1) = 1"
    using is_integer_simps(1) [of 2] int_of_num_simps(1) [of 2] is_integer_simps(1) [of 1] int_of_num_simps(1) [of 1]
    by simp_all
  have 1: "resolveTargetInstance settled_plugin (tq_targetInstanceId sample_transfer_request) = Some (2, sample_destination)"
    by (simp add: resolveTargetInstance_def find_instance_def settled_plugin_def sample_transfer_request_def
        sample_destination_def two Let_def)
  have 2: "jm_get (platformStorage settled_plugin) (tq_exportId sample_transfer_request) = Some sample_stored_export"
    by (simp add: settled_plugin_def sample_transfer_request_def)
  have 3: "isInstanceOnline settled_plugin 2"
    by (simp add: isInstanceOnline_def settled_plugin_def sample_destination_def find_host_def two)
  have 4: "find_transfer settled_plugin (stored_transfer_id (tq_exportId sample_transfer_request) sample_stored_export)
      = Some (sample_transfer\<lparr>t_status := CleanupFailed\<rparr>)"
    by (simp add: find_transfer_def stored_transfer_id_def sample_transfer_request_def sample_stored_export_def
        settled_plugin_def sample_plugin_def transfer_at_def str_or_def)
  have 6: "make_canonical_transfer_id (num_of_int (ip_id quiet_instance)) ''7'' = Inr ''2:7''"
  proof -
    have "show_int 2 @ CHR '':'' # ''7'' = ''2:7''" by (simp add: show_int_def show_nat.simps)
    moreover have "ip_id quiet_instance = 2" by (simp add: quiet_instance_def)
    ultimately show ?thesis using make_canonical_ok [of 2 "''7''"] by (metis list.simps(3) zero_less_numeral)
  qed
  have 5: "t_status (sample_transfer\<lparr>t_status := CleanupFailed\<rparr>) \<in> {Completed, CleanupFailed, Errored}"
    by simp
  obtain r where r: "handleTransferPlatformRequest sample_transfer_request settled_plugin = (settled_plugin, Return r)"
    and unlock: "\<And>env (f :: unit) f1 tgt i.
      env (ToController (transfer_request_message ''2:7'' tgt (ip_id quiet_instance) ''7'')) f = (Resolved (reply_document r), f1) \<Longrightarrow>
      unlock_request_of i \<in> set (ip_trace (fst (snd (run_act env (startControllerTransfer ''7'' tgt (num_of_int i)) quiet_instance f))))"
    using settled_retry_unlocks_source [OF 1 2 3 4 5 6] by metis
  have "unlock_request_of 3 \<in> set (ip_trace (fst (snd (run_act (\<lambda>q f. (Resolved (reply_document r), f))
           (startControllerTransfer ''7'' (Fin 2) (num_of_int 3)) quiet_instance ()))))"
    by (rule unlock) (rule refl)
  with r show ?thesis by blast
qed

end
