(* ===== verification/Waiting.thy ===== *)
theory Waiting
  imports Samples
begin

text \<open>
  The wait for a stored export ends. The loop of the code is bounded by the clock, the model by fuel:
  whatever the other handlers do between two polls, the fuel is never what ends the wait.
\<close>

text \<open>
  Resuming a suspended function a number of times, each time with an answer and in the state the
  other handlers have left by then.
\<close>

fun feed :: "('q, 'a, 'w, 'e, 'r) async \<Rightarrow> ('a \<times> 'w) list \<Rightarrow> ('q, 'a, 'w, 'e, 'r) async" where
  "feed p [] = p"
| "feed (Await q k) ((a, s) # xs) = feed (snd (k a s)) xs"
| "feed (Return r) (x # xs) = Return r"
| "feed (Throw e) (x # xs) = Throw e"

text \<open>A wait of \<open>d\<close> milliseconds takes at least as long.\<close>

fun advances :: "int \<Rightarrow> int \<Rightarrow> plugin list \<Rightarrow> bool" where
  "advances now d [] = True"
| "advances now d (s # ss) = (now + d \<le> clock s \<and> advances (clock s) d ss)"

text \<open>
  The wait found the export in one of the states it looked at, or failed: because a timer failed or
  because the deadline had passed.
\<close>

fun wait_outcome :: "int \<Rightarrow> string \<Rightarrow> plugin list \<Rightarrow> answer list \<Rightarrow>
    (request, answer, plugin, thrown, stored_export) async \<Rightarrow> bool" where
  "wait_outcome deadline exportId states answers (Return x) =
     (\<exists>s\<in>set states. clock s < deadline \<and> jm_get (platformStorage s) exportId = Some x)"
| "wait_outcome deadline exportId states answers (Throw e) =
     ((\<exists>s\<in>set states. deadline \<le> clock s) \<or> Rejected e \<in> set answers)"
| "wait_outcome deadline exportId states answers (Await q k) = False"

lemma wait_outcome_Cons:
  "wait_outcome d eid states answers p \<Longrightarrow> wait_outcome d eid (s # states) (a # answers) p"
  by (cases p) auto

lemma feed_done [simp]: "feed (Return r) xs = Return r" "feed (Throw e) xs = Throw e"
  by (cases xs; simp)+

lemma poll_ends:
  "advances (clock s) 100 (map snd xs) \<Longrightarrow> deadline \<le> clock s + 100 * int (length xs) \<Longrightarrow>
     deadline \<le> clock s + int n \<Longrightarrow> 0 < n \<Longrightarrow>
     wait_outcome deadline exportId (s # map snd xs) (map fst xs)
       (feed (snd (poll_stored n deadline exportId s)) xs)"
proof (induction n arbitrary: s xs)
  case (Suc n)
  show ?case
  proof (cases "clock s < deadline")
    case False
    then show ?thesis by (simp add: act_run)
  next
    case late: True
    show ?thesis
    proof (cases "jm_get (platformStorage s) exportId")
      case (Some x)
      with late show ?thesis by (auto simp: act_run)
    next
      case None
      with late Suc.prems obtain a t ys where xs: "xs = (a, t) # ys"
        by (cases xs) auto
      with Suc.prems have t: "clock s + 100 \<le> clock t" and ys: "advances (clock t) 100 (map snd ys)" by auto
      show ?thesis
      proof (cases a)
        case (Rejected e)
        with late None xs show ?thesis
          by (simp add: act_run await_value_def request_act_def)
      next
        case (Resolved v)
        have "feed (snd (poll_stored (Suc n) deadline exportId s)) xs = feed (snd (poll_stored n deadline exportId t)) ys"
          using late None by (simp add: xs Resolved act_run await_value_def request_act_def)
        moreover have "wait_outcome deadline exportId (t # map snd ys) (map fst ys)
            (feed (snd (poll_stored n deadline exportId t)) ys)"
        proof (cases "n = 0")
          case True
          with Suc.prems t show ?thesis by (simp add: act_run)
        next
          case False
          with Suc.prems xs t ys show ?thesis by (intro Suc.IH) auto
        qed
        ultimately show ?thesis by (simp add: xs wait_outcome_Cons)
      qed
    qed
  qed
qed simp



end
