(* ===== verification/PersistQueue.thy ===== *)
theory PersistQueue
  imports Prelude
begin

text \<open>
  The write queues (lib/persist-queue.ts): every file of the plugin is written through
  \<open>enqueueWrite\<close>, which lets a write of a path begin only when the write that was queued before it
  on the same path has settled. The promises of the writes are numbered in the order of their
  creation; the event loop starts a write, lets it act (an element of the log) and settles it, in
  any order the queues admit.
\<close>

section \<open>The queues\<close>

datatype write_phase = Queued | Writing | is_settled: Settled (fulfilled: bool)

record write_promise =
  wp_path :: string
  wp_previous :: "nat option"
  wp_phase :: write_phase

record 'a write_queues =
  writeChains :: "string \<Rightarrow> nat option"
  runs :: "write_promise list"
  acts :: "(nat \<times> 'a) list"

definition enqueueWrite :: "string \<Rightarrow> 'a write_queues \<Rightarrow> nat \<times> 'a write_queues" where
  "enqueueWrite path q =
     (let run = length (runs q) in
      (run, q\<lparr>runs := runs q @ [\<lparr>wp_path = path, wp_previous = writeChains q path, wp_phase = Queued\<rparr>],
              writeChains := (writeChains q)(path \<mapsto> run)\<rparr>))"

definition resetWriteQueuesForTest :: "'a write_queues \<Rightarrow> 'a write_queues" where
  "resetWriteQueuesForTest q = q\<lparr>writeChains := (\<lambda>_. None)\<rparr>"

text \<open>\<open>Promise.allSettled\<close> of the previous write; a path without one has a resolved promise.\<close>

definition allSettled :: "write_promise list \<Rightarrow> nat option \<Rightarrow> bool" where
  "allSettled rs previous = (case previous of None \<Rightarrow> True | Some i \<Rightarrow> is_settled (wp_phase (rs ! i)))"

definition set_phase :: "nat \<Rightarrow> write_phase \<Rightarrow> 'a write_queues \<Rightarrow> 'a write_queues" where
  "set_phase i p q = q\<lparr>runs := (runs q)[i := (runs q ! i)\<lparr>wp_phase := p\<rparr>]\<rparr>"

definition fresh_queues :: "'a write_queues" where
  "fresh_queues = \<lparr>writeChains = (\<lambda>_. None), runs = [], acts = []\<rparr>"

definition may_start :: "'a write_queues \<Rightarrow> nat \<Rightarrow> bool" where
  "may_start q i \<longleftrightarrow> i < length (runs q) \<and> wp_phase (runs q ! i) = Queued \<and> allSettled (runs q) (wp_previous (runs q ! i))"

definition writing :: "'a write_queues \<Rightarrow> nat \<Rightarrow> bool" where
  "writing q i \<longleftrightarrow> i < length (runs q) \<and> wp_phase (runs q ! i) = Writing"

inductive queue_step :: "'a write_queues \<Rightarrow> 'a write_queues \<Rightarrow> bool" where
  enqueue: "queue_step q (snd (enqueueWrite path q))"
| start: "may_start q i \<Longrightarrow> queue_step q (set_phase i Writing q)"
| act: "writing q i \<Longrightarrow> queue_step q (q\<lparr>acts := acts q @ [(i, a)]\<rparr>)"
| settle: "writing q i \<Longrightarrow> queue_step q (set_phase i (Settled ok) q)"

inductive queue_reachable :: "'a write_queues \<Rightarrow> bool" where
  initial: "queue_reachable fresh_queues"
| step: "queue_reachable q \<Longrightarrow> queue_step q q' \<Longrightarrow> queue_reachable q'"

section \<open>The invariant\<close>

definition path_runs :: "string \<Rightarrow> write_promise list \<Rightarrow> nat list" where
  "path_runs path rs = filter (\<lambda>i. wp_path (rs ! i) = path) [0..<length rs]"

definition latest_run :: "string \<Rightarrow> write_promise list \<Rightarrow> nat option" where
  "latest_run path rs = (if path_runs path rs = [] then None else Some (last (path_runs path rs)))"

definition path_acts :: "string \<Rightarrow> 'a write_queues \<Rightarrow> (nat \<times> 'a) list" where
  "path_acts path q = filter (\<lambda>e. wp_path (runs q ! fst e) = path) (acts q)"

definition acts_of :: "nat \<Rightarrow> 'a write_queues \<Rightarrow> (nat \<times> 'a) list" where
  "acts_of i q = filter (\<lambda>e. fst e = i) (acts q)"

definition serial :: "'a write_queues \<Rightarrow> bool" where
  "serial q \<longleftrightarrow> (\<forall>path. path_acts path q = concat (map (\<lambda>i. acts_of i q) (path_runs path (runs q))))"

text \<open>The chain of every path: each write waits for the one queued before it.\<close>

definition chained :: "'a write_queues \<Rightarrow> bool" where
  "chained q \<longleftrightarrow> (\<forall>path. writeChains q path = latest_run path (runs q))
     \<and> (\<forall>i<length (runs q). wp_previous (runs q ! i) = latest_run (wp_path (runs q ! i)) (take i (runs q)))"

definition started_in_turn :: "'a write_queues \<Rightarrow> bool" where
  "started_in_turn q \<longleftrightarrow> (\<forall>i<length (runs q).
     wp_phase (runs q ! i) \<noteq> Queued \<longrightarrow> allSettled (runs q) (wp_previous (runs q ! i)))"

definition acts_started :: "'a write_queues \<Rightarrow> bool" where
  "acts_started q \<longleftrightarrow> (\<forall>e\<in>set (acts q). fst e < length (runs q) \<and> wp_phase (runs q ! fst e) \<noteq> Queued)"

definition queue_ok :: "'a write_queues \<Rightarrow> bool" where
  "queue_ok q \<longleftrightarrow> chained q \<and> started_in_turn q \<and> acts_started q \<and> serial q"

lemma path_runs_snoc:
  "path_runs path (rs @ [r]) = path_runs path rs @ (if wp_path r = path then [length rs] else [])"
  by (auto simp: path_runs_def nth_append intro!: filter_cong)

lemma in_path_runs: "i \<in> set (path_runs path rs) \<longleftrightarrow> i < length rs \<and> wp_path (rs ! i) = path"
  by (auto simp: path_runs_def)

lemma path_runs_update:
  "wp_path r = wp_path (rs ! i) \<Longrightarrow> path_runs path (rs[i := r]) = path_runs path rs"
  by (cases "i < length rs") (auto simp: path_runs_def nth_list_update intro!: filter_cong)

lemma sorted_last: "sorted is \<Longrightarrow> i \<in> set is \<Longrightarrow> i \<le> last is" for i :: nat
  by (induction "is") auto

lemma latest_run_bound: "latest_run path rs = Some k \<Longrightarrow> k < length rs \<and> wp_path (rs ! k) = path"
proof -
  assume "latest_run path rs = Some k"
  then have "k \<in> set (path_runs path rs)" by (auto simp: latest_run_def split: if_splits)
  then show ?thesis by (simp add: in_path_runs)
qed

lemma path_runs_update_take:
  "i < length rs \<Longrightarrow> path_runs path ((take k rs)[i := (rs ! i)\<lparr>wp_phase := p\<rparr>]) = path_runs path (take k rs)"
proof (cases "i < k")
  case False
  then have "length (take k rs) \<le> i" by simp
  from list_update_beyond [OF this] have "(take k rs)[i := (rs ! i)\<lparr>wp_phase := p\<rparr>] = take k rs" .
  then show ?thesis by (simp only:)
qed (simp add: path_runs_update)

lemma latest_before:
  assumes "i < j" and "j < length rs" and "wp_path (rs ! i) = path"
  shows "\<exists>k. latest_run path (take j rs) = Some k \<and> i \<le> k \<and> k < j \<and> wp_path (rs ! k) = path"
proof -
  let ?is = "path_runs path (take j rs)"
  from assms have i: "i \<in> set ?is" by (simp add: in_path_runs)
  then have "last ?is \<in> set ?is" by (cases ?is) auto
  then have "last ?is < j \<and> wp_path (rs ! last ?is) = path" by (auto simp: in_path_runs)
  moreover have "sorted ?is" by (simp add: path_runs_def sorted_wrt_filter)
  then have "i \<le> last ?is" using i by (rule sorted_last)
  ultimately show ?thesis using i by (auto simp: latest_run_def)
qed

lemma earlier_settled:
  assumes "queue_ok q" and "i < j" and "j < length (runs q)" and "wp_path (runs q ! i) = wp_path (runs q ! j)"
    and "wp_phase (runs q ! j) \<noteq> Queued"
  shows "is_settled (wp_phase (runs q ! i))"
  using assms(2-)
proof (induction j rule: less_induct)
  case (less j)
  from latest_before [OF less.prems(1,2,3)] obtain k
    where k: "latest_run (wp_path (runs q ! j)) (take j (runs q)) = Some k" "i \<le> k" "k < j"
      "wp_path (runs q ! k) = wp_path (runs q ! j)" by blast
  then have "is_settled (wp_phase (runs q ! k))"
    using assms(1) less.prems by (auto simp: queue_ok_def chained_def started_in_turn_def allSettled_def)
  with less.IH [OF k(3)] k less.prems show ?case by (cases "i = k") (auto simp: is_settled_def)
qed

text \<open>Every step keeps the invariant.\<close>

lemma ok_enqueue: "queue_ok q \<Longrightarrow> queue_ok (snd (enqueueWrite path q))"
proof -
  assume ok: "queue_ok q"
  let ?q = "snd (enqueueWrite path q)"
  have q: "runs ?q = runs q @ [\<lparr>wp_path = path, wp_previous = writeChains q path, wp_phase = Queued\<rparr>]" "acts ?q = acts q"
      "writeChains ?q = (writeChains q)(path \<mapsto> length (runs q))"
    by (simp_all add: enqueueWrite_def Let_def)
  have started: "\<forall>e\<in>set (acts q). fst e < length (runs q)"
    using ok by (simp add: queue_ok_def acts_started_def)
  have "chained ?q"
    using ok by (auto simp: queue_ok_def chained_def q latest_run_def path_runs_snoc nth_append less_Suc_eq)
  moreover have "started_in_turn ?q"
    unfolding started_in_turn_def
  proof (intro allI impI)
    fix i assume i: "i < length (runs ?q)" "wp_phase (runs ?q ! i) \<noteq> Queued"
    then have lt: "i < length (runs q)" by (auto simp: q nth_append less_Suc_eq split: if_splits)
    with i ok have "allSettled (runs q) (wp_previous (runs q ! i))"
      by (auto simp: queue_ok_def started_in_turn_def q nth_append)
    moreover have "k < i" if "wp_previous (runs q ! i) = Some k" for k
      using that ok lt latest_run_bound [of "wp_path (runs q ! i)" "take i (runs q)" k]
      by (auto simp: queue_ok_def chained_def)
    ultimately show "allSettled (runs ?q) (wp_previous (runs ?q ! i))"
      using lt by (auto simp: q nth_append allSettled_def split: option.splits)
  qed
  moreover have "acts_started ?q"
    using ok by (auto simp: queue_ok_def acts_started_def q nth_append)
  moreover have "serial ?q"
    unfolding serial_def
  proof
    fix p
    have "path_acts p ?q = path_acts p q"
      using started by (auto simp: path_acts_def q nth_append intro!: filter_cong)
    moreover have "acts_of i ?q = acts_of i q" for i by (simp add: acts_of_def q)
    moreover have "acts_of (length (runs q)) q = []" using started by (auto simp: acts_of_def filter_empty_conv)
    ultimately show "path_acts p ?q = concat (map (\<lambda>i. acts_of i ?q) (path_runs p (runs ?q)))"
      using ok by (simp add: queue_ok_def serial_def path_runs_snoc q(1))
  qed
  ultimately show ?thesis by (simp add: queue_ok_def)
qed

lemma ok_set_phase:
  assumes ok: "queue_ok q" and i: "i < length (runs q)"
    and turn: "p \<noteq> Queued" "wp_phase (runs q ! i) = Queued \<Longrightarrow> allSettled (runs q) (wp_previous (runs q ! i))"
    and keeps: "is_settled (wp_phase (runs q ! i)) \<Longrightarrow> is_settled p"
  shows "queue_ok (set_phase i p q)"
proof -
  let ?q = "set_phase i p q"
  have q: "length (runs ?q) = length (runs q)" "acts ?q = acts q" "writeChains ?q = writeChains q"
    by (simp_all add: set_phase_def)
  have nth: "wp_path (runs ?q ! k) = wp_path (runs q ! k)" "wp_previous (runs ?q ! k) = wp_previous (runs q ! k)"
      "wp_phase (runs ?q ! k) = (if k = i then p else wp_phase (runs q ! k))" if "k < length (runs q)" for k
    using that i by (auto simp: set_phase_def nth_list_update)
  have paths: "path_runs path (runs ?q) = path_runs path (runs q)" for path
    by (simp add: set_phase_def path_runs_update)
  have "path_runs path (take k (runs ?q)) = path_runs path (take k (runs q))" for path k
    by (simp add: set_phase_def take_update_swap path_runs_update_take i)
  then have before: "latest_run path (take k (runs ?q)) = latest_run path (take k (runs q))" for path k
    by (simp add: latest_run_def)
  have latest_same: "latest_run path (runs ?q) = latest_run path (runs q)" for path
    by (simp add: latest_run_def paths)
  have settled: "allSettled (runs q) pr \<Longrightarrow> allSettled (runs ?q) pr" if "\<forall>k. pr = Some k \<longrightarrow> k < length (runs q)" for pr
    using that keeps by (auto simp: allSettled_def nth split: option.splits)
  have known: "\<forall>k. wp_previous (runs q ! j) = Some k \<longrightarrow> k < length (runs q)" if j: "j < length (runs q)" for j
  proof (intro allI impI)
    fix k assume "wp_previous (runs q ! j) = Some k"
    with ok j have "latest_run (wp_path (runs q ! j)) (take j (runs q)) = Some k"
      by (auto simp: queue_ok_def chained_def)
    from latest_run_bound [OF this] j show "k < length (runs q)" by simp
  qed
  have "chained ?q"
    using ok by (simp add: queue_ok_def chained_def q nth before latest_same)
  moreover have "started_in_turn ?q"
    using ok turn settled [OF known] by (auto simp: queue_ok_def started_in_turn_def q nth)
  moreover have "acts_started ?q"
    using ok turn(1) by (auto simp: queue_ok_def acts_started_def q nth)
  moreover have "path_acts path ?q = path_acts path q" for path
    using ok by (auto simp: path_acts_def q nth queue_ok_def acts_started_def intro!: filter_cong)
  then have "serial ?q"
    using ok by (simp add: queue_ok_def serial_def paths acts_of_def q)
  ultimately show ?thesis by (simp add: queue_ok_def)
qed

text \<open>A write acts while the later ones of its path have not begun.\<close>

lemma ok_act:
  assumes ok: "queue_ok q" and i: "writing q i"
  shows "queue_ok (q\<lparr>acts := acts q @ [(i, a)]\<rparr>)"
proof -
  let ?q = "q\<lparr>acts := acts q @ [(i, a)]\<rparr>"
  have "path_acts path ?q = concat (map (\<lambda>k. acts_of k ?q) (path_runs path (runs q)))" for path
  proof (cases "wp_path (runs q ! i) = path")
    case False
    then have "path_acts path ?q = path_acts path q" by (simp add: path_acts_def)
    moreover have "acts_of k ?q = acts_of k q" if "k \<in> set (path_runs path (runs q))" for k
      using that False by (auto simp: acts_of_def in_path_runs)
    then have "map (\<lambda>k. acts_of k ?q) (path_runs path (runs q)) = map (\<lambda>k. acts_of k q) (path_runs path (runs q))"
      by (rule map_cong [OF refl])
    ultimately show ?thesis using ok by (simp only: queue_ok_def serial_def)
  next
    case True
    with i have "i \<in> set (path_runs path (runs q))" by (simp add: writing_def in_path_runs)
    then obtain before after where split: "path_runs path (runs q) = before @ i # after" by (meson split_list)
    have "sorted_wrt (<) (path_runs path (runs q))"
      by (simp add: path_runs_def sorted_wrt_filter)
    then have order: "\<forall>k\<in>set before. k < i" "\<forall>k\<in>set after. i < k" by (auto simp: split sorted_wrt_append)
    have none: "acts_of k q = []" if k: "k \<in> set after" for k
    proof -
      from k split have "k < length (runs q)" "wp_path (runs q ! k) = path"
        using in_path_runs [of k path "runs q"] by auto
      moreover have "\<not> is_settled (wp_phase (runs q ! i))" using i by (simp add: writing_def)
      ultimately have "wp_phase (runs q ! k) = Queued"
        using earlier_settled [OF ok, of i k] order(2) k True by auto
      with ok show ?thesis by (auto simp: acts_of_def queue_ok_def acts_started_def filter_empty_conv)
    qed
    have same: "map (\<lambda>k. acts_of k ?q) ks = map (\<lambda>k. acts_of k q) ks" if "i \<notin> set ks" for ks
      using that by (intro map_cong refl) (auto simp: acts_of_def)
    have apart: "i \<notin> set before" "i \<notin> set after" using order by auto
    have "acts_of i ?q = acts_of i q @ [(i, a)]" by (simp add: acts_of_def)
    then have "concat (map (\<lambda>k. acts_of k ?q) (path_runs path (runs q)))
        = concat (map (\<lambda>k. acts_of k q) before) @ (acts_of i q @ [(i, a)]) @ concat (map (\<lambda>k. acts_of k q) after)"
      by (simp only: split map_append list.map concat_append concat.simps same [OF apart(1)] same [OF apart(2)])
    also have "concat (map (\<lambda>k. acts_of k q) after) = []" using none by simp
    also have "concat (map (\<lambda>k. acts_of k q) before) @ (acts_of i q @ [(i, a)]) @ [] = path_acts path q @ [(i, a)]"
      using ok none by (simp add: queue_ok_def serial_def split)
    finally show ?thesis using True by (simp add: path_acts_def)
  qed
  then have "serial ?q" by (simp add: serial_def)
  then show ?thesis
    using ok i by (auto simp: queue_ok_def chained_def started_in_turn_def acts_started_def writing_def)
qed

lemma step_ok: "queue_step q q' \<Longrightarrow> queue_ok q \<Longrightarrow> queue_ok q'"
  by (induction rule: queue_step.induct)
    (auto simp: may_start_def writing_def intro: ok_enqueue ok_act ok_set_phase)

lemma reachable_ok: "queue_reachable q \<Longrightarrow> queue_ok q"
proof (induction rule: queue_reachable.induct)
  case initial
  show ?case
    by (simp add: queue_ok_def chained_def started_in_turn_def acts_started_def serial_def fresh_queues_def
        latest_run_def path_runs_def path_acts_def)
qed (rule step_ok)

section \<open>Properties\<close>

lemma first_unsettled:
  assumes ok: "queue_ok q" and i: "i \<in> set (path_runs path (runs q))" "\<not> is_settled (wp_phase (runs q ! i))"
  shows "\<exists>k\<in>set (path_runs path (runs q)). k \<le> i \<and> (may_start q k \<or> writing q k)"
proof -
  define P where "P k \<longleftrightarrow> k \<in> set (path_runs path (runs q)) \<and> \<not> is_settled (wp_phase (runs q ! k))" for k
  define k where "k = (LEAST k. P k)"
  have "P i" using i by (simp add: P_def)
  then have k: "P k" "k \<le> i" and least: "\<And>j. j < k \<Longrightarrow> \<not> P j"
    unfolding k_def by (rule LeastI, rule Least_le, blast dest: not_less_Least)
  have in_k: "k < length (runs q)" "wp_path (runs q ! k) = path"
    using k(1) by (simp_all add: P_def in_path_runs)
  have "allSettled (runs q) (wp_previous (runs q ! k))"
  proof (cases "wp_previous (runs q ! k)")
    case (Some j)
    with ok in_k have "latest_run path (take k (runs q)) = Some j" by (auto simp: queue_ok_def chained_def)
    from latest_run_bound [OF this] in_k have "j < k" "wp_path (runs q ! j) = path" by auto
    with least [of j] in_k show ?thesis by (simp add: Some allSettled_def P_def in_path_runs)
  qed (simp add: allSettled_def)
  with k in_k have "may_start q k \<or> writing q k"
    by (cases "wp_phase (runs q ! k)") (auto simp: may_start_def writing_def P_def)
  with k show ?thesis by (auto simp: P_def)
qed

text \<open>
  C28: however enqueuing, starting, acting and settling of the writes of all paths interleave, and
  whichever of them fail: two writes of one path are never under way together; a write has begun only
  if all earlier ones of its path have settled; what has been done on a path is what its writes did,
  one write after the other in the order in which they were enqueued; and as long as a write has not
  settled, itself or one enqueued before it on its path can go on, so no failed write blocks the path
  and no path waits for another.
\<close>

theorem writes_take_turns:
  assumes "queue_reachable q"
  shows "length (filter (writing q) (path_runs path (runs q))) \<le> 1
    \<and> path_acts path q = concat (map (\<lambda>i. acts_of i q) (path_runs path (runs q)))
    \<and> (\<forall>j\<in>set (path_runs path (runs q)). \<forall>i\<in>set (path_runs path (runs q)).
         i < j \<and> wp_phase (runs q ! j) \<noteq> Queued \<longrightarrow> is_settled (wp_phase (runs q ! i)))
    \<and> (\<forall>i\<in>set (path_runs path (runs q)). \<not> is_settled (wp_phase (runs q ! i)) \<longrightarrow>
         (\<exists>k\<in>set (path_runs path (runs q)). k \<le> i \<and> (may_start q k \<or> writing q k)))"
proof (intro conjI ballI impI)
  have ok: "queue_ok q" using assms by (rule reachable_ok)
  let ?is = "path_runs path (runs q)"
  show serial: "path_acts path q = concat (map (\<lambda>i. acts_of i q) ?is)"
    using ok by (simp add: queue_ok_def serial_def)
  show turn: "is_settled (wp_phase (runs q ! i))"
    if "j \<in> set ?is" "i \<in> set ?is" "i < j \<and> wp_phase (runs q ! j) \<noteq> Queued" for i j
    using earlier_settled [OF ok, of i j] that by (simp add: in_path_runs)
  show "\<exists>k\<in>set ?is. k \<le> i \<and> (may_start q k \<or> writing q k)"
    if "i \<in> set ?is" "\<not> is_settled (wp_phase (runs q ! i))" for i
    using first_unsettled [OF ok that] .
  have "i = j" if "i \<in> set ?is" "j \<in> set ?is" "writing q i" "writing q j" for i j
    using turn [of i j] turn [of j i] that by (cases i j rule: linorder_cases) (auto simp: writing_def)
  then have "\<exists>k. set (filter (writing q) ?is) \<subseteq> {k}"
    by (cases "\<exists>i\<in>set ?is. writing q i") fastforce+
  then obtain k where "set (filter (writing q) ?is) \<subseteq> {k}" ..
  then have "card (set (filter (writing q) ?is)) \<le> card {k}" by (intro card_mono) auto
  moreover have "distinct (filter (writing q) ?is)" by (simp add: path_runs_def)
  note distinct_card [OF this]
  ultimately show "length (filter (writing q) ?is) \<le> 1" by simp
qed

theorem writes_take_turns_witness:
  "let q0 = snd (enqueueWrite ''a'' (snd (enqueueWrite ''a'' (fresh_queues :: nat write_queues))));
       q1 = set_phase 0 Writing q0;
       q = set_phase 1 Writing (set_phase 0 (Settled False) (q1\<lparr>acts := acts q1 @ [(0, 5)]\<rparr>))
   in length (filter (writing q) (path_runs ''a'' (runs q))) \<le> 1 \<and> writing q 1
     \<and> path_acts ''a'' q = [(0, 5)]"
proof -
  define q0 where "q0 = snd (enqueueWrite ''a'' (snd (enqueueWrite ''a'' (fresh_queues :: nat write_queues))))"
  define q1 where "q1 = set_phase 0 Writing q0"
  define q2 where "q2 = q1\<lparr>acts := acts q1 @ [(0, 5)]\<rparr>"
  define q where "q = set_phase 1 Writing (set_phase 0 (Settled False) q2)"
  let ?w = "\<lambda>previous phase. \<lparr>wp_path = ''a'', wp_previous = previous, wp_phase = phase\<rparr>"
  have r0: "runs q0 = [?w None Queued, ?w (Some 0) Queued]" "acts q0 = []"
    by (simp_all add: q0_def enqueueWrite_def Let_def fresh_queues_def)
  have r1: "runs q1 = [?w None Writing, ?w (Some 0) Queued]" "acts q1 = []"
    by (simp_all add: q1_def set_phase_def r0)
  have r2: "runs q2 = runs q1" "acts q2 = [(0, 5)]"
    by (simp_all add: q2_def r1)
  have r3: "runs (set_phase 0 (Settled False) q2) = [?w None (Settled False), ?w (Some 0) Queued]"
    by (simp add: set_phase_def r2 r1)
  have r: "runs q = [?w None (Settled False), ?w (Some 0) Writing]" "acts q = [(0, 5)]"
    using r3 by (simp_all add: q_def set_phase_def r2)
  have may: "may_start q0 0" "may_start (set_phase 0 (Settled False) q2) 1"
    by (simp_all add: may_start_def allSettled_def r0 r3)
  have w: "writing q1 0" "writing q2 0" by (simp_all add: writing_def r1 r2)
  have "queue_reachable q0" unfolding q0_def
    by (rule queue_reachable.step [OF queue_reachable.step [OF queue_reachable.initial]]) (rule queue_step.enqueue)+
  then have "queue_reachable q1" unfolding q1_def by (rule queue_reachable.step) (rule queue_step.start [OF may(1)])
  then have "queue_reachable q2" unfolding q2_def by (rule queue_reachable.step) (rule queue_step.act [OF w(1)])
  then have "queue_reachable (set_phase 0 (Settled False) q2)"
    by (rule queue_reachable.step) (rule queue_step.settle [OF w(2)])
  then have "queue_reachable q" unfolding q_def by (rule queue_reachable.step) (rule queue_step.start [OF may(2)])
  from writes_take_turns [OF this, of "''a''"]
  have "length (filter (writing q) (path_runs ''a'' (runs q))) \<le> 1" by blast
  moreover have "writing q 1" "path_acts ''a'' q = [(0, 5)]" by (simp_all add: writing_def path_acts_def r)
  ultimately show ?thesis unfolding Let_def q_def q2_def q1_def q0_def by blast
qed

end
