(* ===== verification/Ledger.thy ===== *)
theory Ledger
  imports AuditRows JsonParse
begin

text \<open>
  The audit ledger as a file (lib/audit-ledger.ts): one JSON line per row, appended to the live
  file, which is renamed to generation 1 when it has grown too large, each generation to the next,
  the oldest removed. The disk is a map from paths to texts; every call on it takes a number, and
  \<open>faults\<close> says which calls the environment refuses, with which error. The writes of one path
  run one after another (theory PersistQueue, \<open>writes_take_turns\<close>), so an append is modelled as one step.
\<close>

section \<open>Files\<close>

datatype fs_call =
    Stat string
  | Rename string string
  | Remove string
  | Append string string
  | Read string

record disk =
  files :: "string \<Rightarrow> string option"
  calls :: nat
  faults :: "nat \<Rightarrow> fs_call \<Rightarrow> thrown option"

type_synonym 'a io = "disk \<Rightarrow> (thrown + 'a) \<times> disk"

definition io_return :: "'a \<Rightarrow> 'a io" where
  "io_return x d = (Inr x, d)"

definition io_throw :: "thrown \<Rightarrow> 'a io" where
  "io_throw e d = (Inl e, d)"

definition io_bind :: "'a io \<Rightarrow> ('a \<Rightarrow> 'b io) \<Rightarrow> 'b io" where
  "io_bind m f d = (case m d of (Inl e, d1) \<Rightarrow> (Inl e, d1) | (Inr x, d1) \<Rightarrow> f x d1)"

definition io_catch :: "'a io \<Rightarrow> (thrown \<Rightarrow> 'a io) \<Rightarrow> 'a io" where
  "io_catch m h d = (case m d of (Inl e, d1) \<Rightarrow> h e d1 | (Inr x, d1) \<Rightarrow> (Inr x, d1))"

definition enoent :: thrown where
  "enoent = ErrorObject ''no such file or directory'' (Some ''ENOENT'')"

definition is_enoent :: "thrown \<Rightarrow> bool" where
  "is_enoent err =
     (case err of ErrorObject m c \<Rightarrow> c = Some ''ENOENT''
      | ThrownValue v \<Rightarrow> prop_get v ''code'' = JStr ''ENOENT'')"

text \<open>What a call does to the files, and its result.\<close>

fun fs_effect :: "fs_call \<Rightarrow> (string \<Rightarrow> string option) \<Rightarrow> (thrown + string) \<times> (string \<Rightarrow> string option)" where
  "fs_effect (Stat p) fs = (case fs p of None \<Rightarrow> Inl enoent | Some t \<Rightarrow> Inr t, fs)"
| "fs_effect (Read p) fs = (case fs p of None \<Rightarrow> Inl enoent | Some t \<Rightarrow> Inr t, fs)"
| "fs_effect (Remove p) fs = (Inr [], fs(p := None))"
| "fs_effect (Append p t) fs = (Inr [], fs(p \<mapsto> nullish (fs p) [] @ t))"
| "fs_effect (Rename p q) fs =
     (case fs p of None \<Rightarrow> (Inl enoent, fs) | Some t \<Rightarrow> (Inr [], fs(p := None, q \<mapsto> t)))"

definition fs_do :: "fs_call \<Rightarrow> string io" where
  "fs_do call d =
     (let d1 = d\<lparr>calls := Suc (calls d)\<rparr> in
      case faults d (calls d) call of
        Some e \<Rightarrow> (Inl e, d1)
      | None \<Rightarrow> (case fs_effect call (files d) of (r, f) \<Rightarrow> (r, d1\<lparr>files := f\<rparr>)))"

definition fs_size :: "string \<Rightarrow> nat io" where
  "fs_size p = io_bind (fs_do (Stat p)) (\<lambda>t. io_return (length t))"

section \<open>Rows as documents\<close>

definition kind_text :: "row_kind \<Rightarrow> string" where
  "kind_text k = (case k of RowStart \<Rightarrow> ''start'' | RowTerminal \<Rightarrow> ''terminal'')"

definition audit_row_json :: "audit_row \<Rightarrow> jsval" where
  "audit_row_json row = JObj
     ([(''v'', js_int (a_v row)), (''transferId'', JStr (a_transferId row)),
       (''rowKind'', JStr (kind_text (a_rowKind row))), (''savedAt'', js_int (a_savedAt row)),
       (''operationType'', JStr (a_operationType row)), (''platformName'', JStr (a_platformName row)),
       (''platformIndex'', val_of_int (a_platformIndex row)),
       (''sourceInstanceId'', js_int (a_sourceInstanceId row)),
       (''sourceInstanceName'', val_of_str (a_sourceInstanceName row)),
       (''targetInstanceId'', js_int (a_targetInstanceId row)),
       (''targetInstanceName'', val_of_str (a_targetInstanceName row)),
       (''exportId'', val_of_str (a_exportId row)), (''artifactSizeBytes'', val_of_int (a_artifactSizeBytes row)),
       (''status'', JStr (a_status row)), (''startedAt'', val_of_int (a_startedAt row)),
       (''completedAt'', val_of_int (a_completedAt row)), (''failedAt'', val_of_int (a_failedAt row)),
       (''lastEventAt'', val_of_int (a_lastEventAt row)), (''eventCount'', js_int (a_eventCount row)),
       (''error'', val_of_str (a_error row))]
      @ (if a_errorTruncated row then [(''errorTruncated'', JBool True)] else []))"

definition newline :: char where "newline = CHR 0x0A"

definition ledger_line :: "audit_row \<Rightarrow> string" where
  "ledger_line row = json_text (audit_row_json row) @ [newline]"

section \<open>Appending and rotating\<close>

definition DEFAULT_LEDGER_MAX_BYTES :: jsnum where
  "DEFAULT_LEDGER_MAX_BYTES = Fin (32 * 1024 * 1024)"

definition DEFAULT_LEDGER_MAX_FILES :: nat where
  "DEFAULT_LEDGER_MAX_FILES = 8"

record rotation_options =
  maxBytes :: "jsnum option"
  maxFiles :: "nat option"

definition jsonl :: string where "jsonl = ''.jsonl''"

definition has_jsonl :: "string \<Rightarrow> bool" where
  "has_jsonl path = (jsonl = drop (length path - length jsonl) path)"

definition generationPath :: "string \<Rightarrow> nat \<Rightarrow> string" where
  "generationPath path g =
     (if has_jsonl path then take (length path - length jsonl) path @ ''.'' @ show_nat g @ jsonl else path)"

text \<open>The loop of \<open>rotateIfNeeded\<close>, from a generation down to 1.\<close>

fun shift_generations :: "string \<Rightarrow> nat \<Rightarrow> nat \<Rightarrow> unit io" where
  "shift_generations path m 0 = io_return ()"
| "shift_generations path m (Suc g) =
     io_bind
       (if Suc g = m then fs_do (Remove (generationPath path (Suc g)))
        else io_catch (fs_do (Rename (generationPath path (Suc g)) (generationPath path (Suc g + 1))))
               (\<lambda>err. if is_enoent err then io_return [] else io_throw err))
       (\<lambda>_. shift_generations path m g)"

definition rotateIfNeeded :: "string \<Rightarrow> rotation_options \<Rightarrow> bool io" where
  "rotateIfNeeded path options =
     (let bytes = nullish (maxBytes options) DEFAULT_LEDGER_MAX_BYTES;
          m = nullish (maxFiles options) DEFAULT_LEDGER_MAX_FILES
      in if \<not> is_finite bytes \<or> \<not> num_less (Fin 0) bytes then io_return False
         else io_bind
           (io_catch (io_bind (fs_size path) (\<lambda>n. io_return (Some n)))
              (\<lambda>err. if is_enoent err then io_return None else io_throw err))
           (\<lambda>n. case n of
                None \<Rightarrow> io_return False
              | Some n \<Rightarrow>
                  if num_less (Fin (of_nat n)) bytes then io_return False
                  else io_bind (shift_generations path m m)
                    (\<lambda>_. io_bind (fs_do (Rename path (generationPath path 1))) (\<lambda>_. io_return True))))"

definition appendAuditRow :: "string \<Rightarrow> audit_row \<Rightarrow> rotation_options \<Rightarrow> unit io" where
  "appendAuditRow path row rotation =
     io_bind (rotateIfNeeded path rotation)
       (\<lambda>_. io_bind (fs_do (Append path (ledger_line row))) (\<lambda>_. io_return ()))"

section \<open>Loading\<close>

record skipped_line =
  sk_lineNumber :: nat
  sk_byteOffset :: nat
  sk_reason :: string
  sk_file :: "string option"

record ledger_load =
  l_rows :: "jsval list"
  l_skipped :: "skipped_line list"

definition is_audit_row :: "jsval \<Rightarrow> bool" where
  "is_audit_row v = (is_object v \<and> (case prop_get v ''transferId'' of JStr _ \<Rightarrow> True | _ \<Rightarrow> False))"

text \<open>
  The loop over the lines; \<open>msg\<close> is the text of the \<open>SyntaxError\<close> of a line that is no JSON. An
  object is never falsy, so the test of a falsy value is part of \<open>is_audit_row\<close>.
\<close>

fun read_lines :: "(string \<Rightarrow> string) \<Rightarrow> nat \<Rightarrow> nat \<Rightarrow> string list \<Rightarrow> ledger_load" where
  "read_lines msg i lineStart [] = \<lparr>l_rows = [], l_skipped = []\<rparr>"
| "read_lines msg i lineStart (line # lines) =
     (let rest = read_lines msg (Suc i) (lineStart + length line + 1) lines;
          skip = (\<lambda>reason. rest\<lparr>l_skipped :=
            \<lparr>sk_lineNumber = i + 1, sk_byteOffset = lineStart, sk_reason = reason, sk_file = None\<rparr> # l_skipped rest\<rparr>)
      in if js_trim line = [] then rest
         else case parse_json line of
                None \<Rightarrow> skip (msg line)
              | Some v \<Rightarrow>
                  if \<not> is_audit_row v then skip ''not an audit row''
                  else rest\<lparr>l_rows := v # l_rows rest\<rparr>)"

definition readLedgerFile :: "(string \<Rightarrow> string) \<Rightarrow> string \<Rightarrow> ledger_load io" where
  "readLedgerFile msg path =
     io_catch
       (io_bind (fs_do (Read path)) (\<lambda>content. io_return (read_lines msg 0 0 (split_on newline content))))
       (\<lambda>err. if is_enoent err then io_return \<lparr>l_rows = [], l_skipped = []\<rparr> else io_throw err)"

definition combine :: "string \<Rightarrow> ledger_load \<Rightarrow> ledger_load \<Rightarrow> ledger_load" where
  "combine path one rest =
     \<lparr>l_rows = l_rows one @ l_rows rest,
      l_skipped = map (\<lambda>k. k\<lparr>sk_file := Some path\<rparr>) (l_skipped one) @ l_skipped rest\<rparr>"

fun load_files :: "(string \<Rightarrow> string) \<Rightarrow> string list \<Rightarrow> ledger_load io" where
  "load_files msg [] = io_return \<lparr>l_rows = [], l_skipped = []\<rparr>"
| "load_files msg (path # paths) =
     io_bind (readLedgerFile msg path)
       (\<lambda>one. io_bind (load_files msg paths) (\<lambda>rest. io_return (combine path one rest)))"

definition ledger_paths :: "string \<Rightarrow> nat \<Rightarrow> string list" where
  "ledger_paths path m = map (generationPath path) (rev [1..<m + 1]) @ [path]"

definition loadAuditLedger :: "(string \<Rightarrow> string) \<Rightarrow> string \<Rightarrow> rotation_options \<Rightarrow> ledger_load io" where
  "loadAuditLedger msg path options =
     load_files msg (ledger_paths path (nullish (maxFiles options) DEFAULT_LEDGER_MAX_FILES))"

section \<open>Facts on the files\<close>

lemmas io_defs = io_return_def io_throw_def io_bind_def io_catch_def

text \<open>The environment refuses no calls but those of a set.\<close>

definition spares :: "fs_call set \<Rightarrow> disk \<Rightarrow> bool" where
  "spares S d = (\<forall>n c. c \<notin> S \<longrightarrow> faults d n c = None)"

lemma fs_spared:
  "spares S d \<Longrightarrow> c \<notin> S \<Longrightarrow>
     fs_do c d = (fst (fs_effect c (files d)), d\<lparr>calls := Suc (calls d), files := snd (fs_effect c (files d))\<rparr>)"
  by (simp add: fs_do_def spares_def Let_def split: prod.split)

lemma spares_simps [simp]:
  "spares S (d\<lparr>calls := n\<rparr>) = spares S d" "spares S (d\<lparr>files := f\<rparr>) = spares S d"
  by (simp_all add: spares_def)

lemma spares_faults: "faults d' = faults d \<Longrightarrow> spares S d' = spares S d"
  by (simp add: spares_def)

lemma is_enoent_enoent [simp]: "is_enoent enoent"
  by (simp add: is_enoent_def enoent_def)

lemma generationPath_inj:
  assumes "has_jsonl path"
  shows "generationPath path g = generationPath path h \<longleftrightarrow> g = h"
  using assms by (auto simp: generationPath_def dest: show_nat_inj)

lemma generationPath_live:
  assumes "has_jsonl path"
  shows "generationPath path g \<noteq> path" "path \<noteq> generationPath path g"
proof -
  have "length path \<noteq> length (generationPath path g)"
    using assms by (simp add: generationPath_def)
  then show "generationPath path g \<noteq> path" "path \<noteq> generationPath path g" by auto
qed

section \<open>Shifting the generations\<close>

text \<open>Every generation below a bound has moved up by one, and nothing else has changed.\<close>

definition shifted ::
    "string \<Rightarrow> nat \<Rightarrow> (string \<Rightarrow> string option) \<Rightarrow> (string \<Rightarrow> string option) \<Rightarrow> bool" where
  "shifted path k f f' =
     ((\<forall>j. 1 \<le> j \<and> j \<le> k \<longrightarrow> f' (generationPath path (Suc j)) = f (generationPath path j))
      \<and> f' (generationPath path 1) = (if 1 \<le> k then None else f (generationPath path 1))
      \<and> (\<forall>q. (\<forall>j. 1 \<le> j \<and> j \<le> Suc k \<longrightarrow> q \<noteq> generationPath path j) \<longrightarrow> f' q = f q))"

lemma shift_below:
  assumes "has_jsonl path" and "spares {Rename path (generationPath path 1)} d"
    and "k < m" and "files d (generationPath path (Suc k)) = None"
  shows "\<exists>d'. shift_generations path m k d = (Inr (), d') \<and> faults d' = faults d
           \<and> shifted path k (files d) (files d')"
  using assms(2-)
proof (induction k arbitrary: d)
  case 0
  then show ?case by (simp add: io_defs shifted_def)
next
  case (Suc k)
  let ?g = "generationPath path"
  define f1 where "f1 = (case files d (?g (Suc k)) of None \<Rightarrow> files d
    | Some t \<Rightarrow> (files d)(?g (Suc k) := None, ?g (Suc (Suc k)) \<mapsto> t))"
  define d1 where "d1 = d\<lparr>calls := Suc (calls d), files := f1\<rparr>"
  have move: "io_catch (fs_do (Rename (?g (Suc k)) (?g (Suc k + 1))))
      (\<lambda>err. if is_enoent err then io_return [] else io_throw err) d = (Inr [], d1)"
    using Suc.prems(1) generationPath_live [OF assms(1)]
    by (simp add: io_defs fs_spared [where S = "{Rename path (?g 1)}"] d1_def f1_def split: option.split)
  have f1: "f1 (?g (Suc k)) = None" "f1 (?g (Suc (Suc k))) = files d (?g (Suc k))"
    "\<And>q. q \<noteq> ?g (Suc k) \<Longrightarrow> q \<noteq> ?g (Suc (Suc k)) \<Longrightarrow> f1 q = files d q"
    using Suc.prems(3) generationPath_inj [OF assms(1)] by (simp_all add: f1_def split: option.split)
  obtain d' where d': "shift_generations path m k d1 = (Inr (), d')" "faults d' = faults d1"
      "shifted path k (files d1) (files d')"
    using Suc.IH [of d1] Suc.prems(1,2) f1(1) by (auto simp: d1_def)
  have "shift_generations path m (Suc k) d = (Inr (), d')"
    using move d'(1) Suc.prems(2) by (simp add: io_bind_def)
  moreover have "shifted path (Suc k) (files d) (files d')"
  proof -
    have below: "files d' (?g (Suc j)) = f1 (?g j)" if "1 \<le> j" "j \<le> k" for j
      using d'(3) that by (simp add: shifted_def d1_def)
    have first: "files d' (?g 1) = None"
      using d'(3) f1(1) by (cases k) (auto simp: shifted_def d1_def)
    have other: "files d' q = f1 q" if "\<And>j. 1 \<le> j \<Longrightarrow> j \<le> Suc k \<Longrightarrow> q \<noteq> ?g j" for q
      using d'(3) that by (simp add: shifted_def d1_def)
    have "files d' (?g (Suc j)) = files d (?g j)" if "1 \<le> j" "j \<le> Suc k" for j
    proof (cases "j = Suc k")
      case True
      then show ?thesis
        using other [of "?g (Suc (Suc k))"] f1(2) generationPath_inj [OF assms(1)] by simp
    next
      case False
      then show ?thesis using below [of j] f1(3) [of "?g j"] that generationPath_inj [OF assms(1)] by simp
    qed
    moreover have "files d' q = files d q" if "\<And>j. 1 \<le> j \<Longrightarrow> j \<le> Suc (Suc k) \<Longrightarrow> q \<noteq> ?g j" for q
      using other [of q] f1(3) [of q] that by simp
    ultimately show ?thesis using first by (simp add: shifted_def)
  qed
  ultimately show ?case using d'(2) by (auto simp: d1_def)
qed

lemma shift_all:
  assumes "has_jsonl path" and "spares {Rename path (generationPath path 1)} d"
  shows "\<exists>d'. shift_generations path m m d = (Inr (), d') \<and> faults d' = faults d
           \<and> shifted path (m - 1) ((files d)(generationPath path m := if m = 0 then files d (generationPath path m) else None)) (files d')"
proof (cases m)
  case 0
  then show ?thesis by (simp add: io_defs shifted_def)
next
  case (Suc k)
  let ?g = "generationPath path"
  define d1 where "d1 = d\<lparr>calls := Suc (calls d), files := (files d)(?g m := None)\<rparr>"
  have "fs_do (Remove (?g m)) d = (Inr [], d1)"
    using assms(2) by (simp add: fs_spared [where S = "{Rename path (?g 1)}"] d1_def)
  then have step: "shift_generations path m m d = shift_generations path m k d1"
    by (simp add: Suc io_bind_def)
  obtain d' where d': "shift_generations path m k d1 = (Inr (), d')" "faults d' = faults d1"
      "shifted path k (files d1) (files d')"
    using shift_below [OF assms(1), of d1 k m] assms(2) by (auto simp: d1_def Suc)
  show ?thesis using step d' by (auto simp: d1_def Suc)
qed

section \<open>Lines\<close>

definition rows_of_text :: "string \<Rightarrow> jsval list" where
  "rows_of_text t = l_rows (read_lines (\<lambda>_. []) 0 0 (split_on newline t))"

lemma l_rows_read_lines: "l_rows (read_lines msg i n ls) = l_rows (read_lines (\<lambda>_. []) 0 0 ls)"
proof (induction ls arbitrary: msg i n)
  case (Cons line ls)
  have "l_rows (read_lines msg (Suc i) (n + length line + 1) ls) = l_rows (read_lines (\<lambda>_. []) 0 0 ls)"
    "l_rows (read_lines (\<lambda>_. []) (Suc 0) (0 + length line + 1) ls) = l_rows (read_lines (\<lambda>_. []) 0 0 ls)"
    by (rule Cons.IH)+
  then show ?case by (simp add: Let_def split: option.split)
qed simp

definition row_of_line :: "string \<Rightarrow> jsval list" where
  "row_of_line line =
     (if js_trim line = [] then []
      else case parse_json line of None \<Rightarrow> [] | Some v \<Rightarrow> if is_audit_row v then [v] else [])"

lemma l_rows_lines: "l_rows (read_lines msg i n ls) = concat (map row_of_line ls)"
proof (induction ls arbitrary: msg i n)
  case (Cons line ls)
  then show ?case by (simp add: Let_def row_of_line_def split: option.split)
qed simp

lemma rows_of_text_lines: "rows_of_text t = concat (map row_of_line (split_on newline t))"
  by (simp add: rows_of_text_def l_rows_lines)

lemma split_on_nonempty [simp]: "split_on d s \<noteq> []"
  by (induction s) (auto split: list.split)

lemma split_on_append: "split_on d (s @ d # t) = split_on d s @ split_on d t"
proof (induction s)
  case (Cons c s)
  then show ?case by (cases "split_on d s") auto
qed simp

lemma split_on_none: "d \<notin> set s \<Longrightarrow> split_on d s = [s]"
  by (induction s) auto

lemma row_of_line_nil [simp]: "row_of_line [] = []"
proof -
  have "strip_front ps [] = []" for ps
  proof -
    have "List.find (\<lambda>p. p \<noteq> [] \<and> take (length p) [] = p) ps = None" by (auto simp: find_None_iff)
    then show ?thesis by (subst strip_front.simps) simp
  qed
  then show ?thesis by (simp add: row_of_line_def js_trim_def)
qed

text \<open>A text whose last line is complete.\<close>

definition sealed :: "string \<Rightarrow> bool" where
  "sealed t = (t = [] \<or> last t = newline)"

lemma rows_of_text_sealed:
  assumes "sealed t"
  shows "rows_of_text (t @ u) = rows_of_text t @ rows_of_text u"
proof (cases "t = []")
  case True
  then show ?thesis by (simp add: rows_of_text_lines)
next
  case False
  with assms have t: "t = butlast t @ [newline]" by (simp add: sealed_def) (metis append_butlast_last_id)
  then have "rows_of_text (t @ u) = rows_of_text (butlast t) @ rows_of_text u"
    by (metis append.assoc append_Cons append_Nil rows_of_text_lines split_on_append map_append concat_append)
  moreover have "rows_of_text t = rows_of_text (butlast t)"
    by (subst t) (simp add: rows_of_text_lines split_on_append)
  ultimately show ?thesis by simp
qed

lemma newline_simps [simp]:
  "quote \<noteq> newline" "newline \<noteq> quote" "newline \<noteq> backslash" "\<not> is_digit newline" "of_char newline = (10 :: nat)"
  by code_simp+

lemma hex_char_newline: "hex_char d \<noteq> newline \<or> 16 \<le> d"
proof -
  have "\<forall>d\<in>set [0..<16]. hex_char d \<noteq> newline" by code_simp
  then show ?thesis by (auto simp: not_le)
qed

lemma escape_char_newline: "newline \<notin> set (escape_char c)"
proof (cases "c = newline")
  case True
  have "newline \<notin> set (escape_char newline)" by code_simp
  with True show ?thesis by simp
next
  case False
  let ?n = "of_char c :: nat"
  have h: "newline \<noteq> hex_char (?n mod 16)" "?n < 32 \<Longrightarrow> newline \<noteq> hex_char (?n div 16)"
    using hex_char_newline [of "?n mod 16"] hex_char_newline [of "?n div 16"] by (auto dest: sym)
  have l: "newline \<noteq> CHR ''b''" "newline \<noteq> CHR ''t''" "newline \<noteq> CHR ''n''" "newline \<noteq> CHR ''f''"
    "newline \<noteq> CHR ''r''" "newline \<noteq> CHR ''u''" "newline \<noteq> CHR ''0''"
    by code_simp+
  show ?thesis using False h by (simp add: escape_char_def Let_def l)
qed

lemma json_string_newline: "newline \<notin> set (json_string s)"
  using escape_char_newline by (auto simp: json_string_def)

lemma show_int_newline: "newline \<notin> set (show_int i)"
proof -
  have "newline \<noteq> CHR ''-''" by code_simp
  then show ?thesis using show_nat_digits [of newline] by (auto simp: show_int_def)
qed

lemma join_with_newline:
  "newline \<notin> set sep \<Longrightarrow> \<forall>s\<in>set ss. newline \<notin> set s \<Longrightarrow> newline \<notin> set (join_with sep ss)"
  by (induction sep ss rule: join_with.induct) auto

lemma json_text_newline:
  "plain_json v \<Longrightarrow> newline \<notin> set (json_text v)"
  "plain_elems xs \<Longrightarrow> \<forall>t\<in>set (json_elems xs). newline \<notin> set t"
  "plain_fields fs \<Longrightarrow> \<forall>t\<in>set (json_fields fs). newline \<notin> set t"
proof (induction v and xs and fs rule: json_text_json_elems_json_fields.induct)
  case (3 b)
  have "newline \<notin> set ''true''" "newline \<notin> set ''false''" by code_simp+
  then show ?case by simp
next
  case (4 n)
  then obtain i where "n = num_of_int i" by (auto simp: is_integer_iff)
  then show ?case using show_int_newline by (simp add: json_num_def)
next
  case (6 xs)
  have "newline \<noteq> CHR ''[''" "newline \<noteq> CHR '']''" "newline \<notin> set '',''" by code_simp+
  with 6 show ?case by (simp add: join_with_newline)
next
  case (7 fs)
  have "newline \<noteq> CHR ''{''" "newline \<noteq> CHR ''}''" "newline \<notin> set '',''" by code_simp+
  with 7 show ?case by (simp add: join_with_newline)
next
  case (11 k v fs)
  have "newline \<noteq> CHR '':''" by code_simp
  with 11 show ?case by (auto simp: json_string_newline)
qed (simp_all add: json_string_newline, code_simp)

lemma plain_row: "plain_json (audit_row_json row)"
  by (auto simp: audit_row_json_def js_int_def val_of_str_def val_of_int_def split: option.split)

lemma row_of_ledger_line: "row_of_line (json_text (audit_row_json row)) = [audit_row_json row]"
proof -
  obtain fs where fs: "audit_row_json row = JObj fs" by (simp add: audit_row_json_def)
  have "js_trim (json_text (audit_row_json row)) = json_text (audit_row_json row)"
    unfolding fs by (rule js_trim_solid) (simp_all add: solid_def)
  moreover have "is_audit_row (audit_row_json row)"
    by (simp add: is_audit_row_def audit_row_json_def is_object_def prop_get_def)
  moreover have "json_text (audit_row_json row) \<noteq> []" by (simp add: fs)
  ultimately show ?thesis by (simp add: row_of_line_def parse_stringify [OF plain_row])
qed

lemma rows_of_ledger_line: "rows_of_text (ledger_line row) = [audit_row_json row]"
  using json_text_newline(1) [OF plain_row, of row]
  by (simp add: rows_of_text_lines ledger_line_def split_on_append [where t = "[]", simplified]
      split_on_none row_of_ledger_line)

section \<open>The ledger as generations of rows\<close>

definition rows_in :: "(string \<Rightarrow> string option) \<Rightarrow> string \<Rightarrow> jsval list" where
  "rows_in f q = (case f q of None \<Rightarrow> [] | Some t \<Rightarrow> rows_of_text t)"

text \<open>The specification: the rows of each generation, the oldest first, the live file last.\<close>

definition generations :: "string \<Rightarrow> nat \<Rightarrow> disk \<Rightarrow> jsval list list" where
  "generations path m d = map (rows_in (files d)) (ledger_paths path m)"

definition record_row :: "jsval \<Rightarrow> jsval list list \<Rightarrow> jsval list list" where
  "record_row v gs = butlast gs @ [last gs @ [v]]"

definition begin_generation :: "jsval list list \<Rightarrow> jsval list list" where
  "begin_generation gs = tl gs @ [[]]"

definition live_full :: "string \<Rightarrow> rotation_options \<Rightarrow> disk \<Rightarrow> bool" where
  "live_full path options d =
     (let bytes = nullish (maxBytes options) DEFAULT_LEDGER_MAX_BYTES
      in is_finite bytes \<and> num_less (Fin 0) bytes
         \<and> (\<exists>t. files d path = Some t \<and> \<not> num_less (Fin (of_nat (length t))) bytes))"

abbreviation file_limit :: "rotation_options \<Rightarrow> nat" where
  "file_limit options \<equiv> nullish (maxFiles options) DEFAULT_LEDGER_MAX_FILES"

lemma rows_in_cong: "f q = g r \<Longrightarrow> rows_in f q = rows_in g r"
  by (simp add: rows_in_def)

lemma generations_snoc:
  "generations path m d = map (\<lambda>g. rows_in (files d) (generationPath path g)) (rev [1..<m + 1]) @ [rows_in (files d) path]"
  by (simp add: generations_def ledger_paths_def)

lemma rotated_generations:
  assumes p: "has_jsonl path"
    and sh: "shifted path (m - 1) ((files d)(generationPath path m := if m = 0 then files d (generationPath path m) else None)) f"
    and f': "files d' = f(path := None, generationPath path 1 \<mapsto> t)" and t: "files d path = Some t"
  shows "generations path m d' = begin_generation (generations path m d)"
proof (cases m)
  case 0
  then show ?thesis
    using generationPath_live(2) [OF p] by (simp add: generations_snoc begin_generation_def f' rows_in_def)
next
  case (Suc k)
  let ?g = "generationPath path"
  have up: "files d' (?g (Suc j)) = files d (?g j)" if "1 \<le> j" "j \<le> k" for j
    using sh that generationPath_inj [OF p] generationPath_live [OF p] by (simp add: shifted_def f' Suc)
  have first: "files d' (?g 1) = files d path" and live: "files d' path = None"
    using t generationPath_live [OF p] by (simp_all add: f')
  have "rev [1..<m + 1] = map Suc (rev [1..<m]) @ [1]"
  proof -
    have "[1..<m + 1] = 1 # map Suc [1..<m]"
      by (simp add: Suc map_Suc_upt upt_conv_Cons del: upt_Suc)
    then show ?thesis by (simp add: rev_map)
  qed
  then have "generations path m d' = map (\<lambda>j. rows_in (files d') (?g (Suc j))) (rev [1..<m])
      @ [rows_in (files d') (?g 1), rows_in (files d') path]"
    by (simp add: generations_snoc)
  also have "map (\<lambda>j. rows_in (files d') (?g (Suc j))) (rev [1..<m]) = map (\<lambda>j. rows_in (files d) (?g j)) (rev [1..<m])"
    by (rule map_cong) (auto simp: Suc intro!: rows_in_cong up)
  also have "rows_in (files d') (?g 1) = rows_in (files d) path"
    by (rule rows_in_cong) (rule first)
  finally show ?thesis
    by (simp add: generations_snoc begin_generation_def live Suc) (simp add: rows_in_def live)
qed

lemma rotateIfNeeded_calm:
  assumes p: "has_jsonl path" and d: "spares {} d"
  shows "\<exists>d'. rotateIfNeeded path options d = (Inr (live_full path options d), d') \<and> faults d' = faults d
    \<and> generations path (file_limit options) d' =
        (if live_full path options d then begin_generation (generations path (file_limit options) d)
         else generations path (file_limit options) d)
    \<and> (if live_full path options d then files d' path = None else files d' path = files d path)"
proof -
  let ?g = "generationPath path" and ?m = "file_limit options"
  define bytes where "bytes = nullish (maxBytes options) DEFAULT_LEDGER_MAX_BYTES"
  have stat: "io_catch (io_bind (fs_size path) (\<lambda>n. io_return (Some n)))
      (\<lambda>err. if is_enoent err then io_return None else io_throw err) d
      = (Inr (map_option length (files d path)), d\<lparr>calls := Suc (calls d)\<rparr>)"
    by (simp add: io_defs fs_size_def fs_spared [OF d] split: option.split)
  show ?thesis
  proof (cases "live_full path options d")
    case False
    then have "rotateIfNeeded path options d = (Inr False, d) \<or>
        rotateIfNeeded path options d = (Inr False, d\<lparr>calls := Suc (calls d)\<rparr>)"
      by (auto simp: rotateIfNeeded_def live_full_def io_bind_def [of "io_catch _ _"] stat Let_def io_return_def
          bytes_def [symmetric] split: option.split)
    with False show ?thesis by (auto simp: generations_def)
  next
    case True
    then obtain t where t: "files d path = Some t" and b: "is_finite bytes" "num_less (Fin 0) bytes"
        "\<not> num_less (Fin (of_nat (length t))) bytes"
      by (auto simp: live_full_def bytes_def Let_def)
    obtain d1 where d1: "shift_generations path ?m ?m (d\<lparr>calls := Suc (calls d)\<rparr>) = (Inr (), d1)"
        "faults d1 = faults d"
        "shifted path (?m - 1) ((files d)(?g ?m := if ?m = 0 then files d (?g ?m) else None)) (files d1)"
      using shift_all [OF p, of "d\<lparr>calls := Suc (calls d)\<rparr>" ?m] d by (auto simp: spares_def cong: if_cong)
    have live: "files d1 path = Some t"
      using d1(3) t generationPath_live [OF p] by (simp add: shifted_def)
    define d2 where "d2 = d1\<lparr>calls := Suc (calls d1), files := (files d1)(path := None, ?g 1 \<mapsto> t)\<rparr>"
    have "fs_do (Rename path (?g 1)) d1 = (Inr [], d2)"
      using spares_faults [OF d1(2)] d live by (simp add: fs_spared [where S = "{}"] d2_def)
    then have "rotateIfNeeded path options d = (Inr True, d2)"
      using b d1(1) by (simp add: rotateIfNeeded_def io_bind_def stat t Let_def io_return_def bytes_def [symmetric])
    moreover have "generations path ?m d2 = begin_generation (generations path ?m d)"
      by (rule rotated_generations [OF p d1(3) _ t]) (simp add: d2_def)
    moreover have "files d2 path = None" "faults d2 = faults d"
      using generationPath_live [OF p] d1(2) by (simp_all add: d2_def)
    ultimately show ?thesis using True by auto
  qed
qed

lemma append_generations:
  assumes "has_jsonl path" and "sealed (nullish (files d path) [])"
    and "files d' = (files d)(path \<mapsto> nullish (files d path) [] @ ledger_line row)"
  shows "generations path m d' = record_row (audit_row_json row) (generations path m d)
    \<and> sealed (nullish (files d' path) [])"
proof -
  have "rows_in (files d') path = rows_in (files d) path @ [audit_row_json row]"
    using assms(2,3) rows_of_text_sealed [OF assms(2)]
    by (auto simp: rows_in_def rows_of_ledger_line nullish_def split: option.splits)
  moreover have "rows_in (files d') (generationPath path g) = rows_in (files d) (generationPath path g)" for g
    using assms(3) generationPath_live [OF assms(1)] by (simp add: rows_in_def)
  ultimately show ?thesis
    by (simp add: generations_snoc record_row_def assms(3) nullish_def sealed_def ledger_line_def)
qed

lemma load_calm:
  assumes "spares {} d"
  shows "\<exists>l d'. load_files msg ps d = (Inr l, d') \<and> files d' = files d \<and> l_rows l = concat (map (rows_in (files d)) ps)"
  using assms
proof (induction ps arbitrary: d)
  case Nil
  then show ?case by (simp add: io_defs)
next
  case (Cons q ps)
  let ?d = "d\<lparr>calls := Suc (calls d)\<rparr>"
  obtain one where one: "readLedgerFile msg q d = (Inr one, ?d)" "l_rows one = rows_in (files d) q"
  proof (cases "files d q")
    case None
    then show ?thesis
      by (intro that [of "\<lparr>l_rows = [], l_skipped = []\<rparr>"])
        (simp_all add: readLedgerFile_def io_defs fs_spared [OF Cons.prems] rows_in_def)
  next
    case (Some t)
    then show ?thesis
      by (intro that [of "read_lines msg 0 0 (split_on newline t)"])
        (simp_all add: readLedgerFile_def io_defs fs_spared [OF Cons.prems] rows_in_def rows_of_text_lines l_rows_lines)
  qed
  obtain l d' where "load_files msg ps ?d = (Inr l, d')" "files d' = files d"
      "l_rows l = concat (map (rows_in (files d)) ps)"
    using Cons.IH [of ?d] Cons.prems by auto
  with one show ?case by (auto simp: io_bind_def io_return_def combine_def)
qed

section \<open>A live file that cannot be renamed\<close>

lemma failing_append:
  assumes p: "has_jsonl path" and d: "spares {Rename path (generationPath path 1)} d"
    and e: "\<And>n. faults d n (Rename path (generationPath path 1)) = Some e"
    and full: "live_full path options d"
  shows "\<exists>d'. appendAuditRow path row options d = (Inl e, d') \<and> faults d' = faults d
    \<and> files d' path = files d path
    \<and> (\<forall>j. 1 \<le> j \<and> j \<le> file_limit options \<longrightarrow>
         files d' (generationPath path j) = (if j = 1 then None else files d (generationPath path (j - 1))))"
proof -
  let ?g = "generationPath path" and ?m = "file_limit options" and ?d = "d\<lparr>calls := Suc (calls d)\<rparr>"
  define bytes where "bytes = nullish (maxBytes options) DEFAULT_LEDGER_MAX_BYTES"
  obtain t where t: "files d path = Some t" and b: "is_finite bytes" "num_less (Fin 0) bytes"
      "\<not> num_less (Fin (of_nat (length t))) bytes"
    using full by (auto simp: live_full_def bytes_def Let_def)
  have stat: "io_catch (io_bind (fs_size path) (\<lambda>n. io_return (Some n)))
      (\<lambda>err. if is_enoent err then io_return None else io_throw err) d = (Inr (Some (length t)), ?d)"
    by (simp add: io_defs fs_size_def fs_spared [OF d] t)
  obtain d1 where d1: "shift_generations path ?m ?m ?d = (Inr (), d1)" "faults d1 = faults d"
      "shifted path (?m - 1) ((files d)(?g ?m := if ?m = 0 then files d (?g ?m) else None)) (files d1)"
    using shift_all [OF p, of ?d ?m] d by (auto simp: spares_def cong: if_cong)
  have live: "files d1 path = files d path"
    using d1(3) generationPath_live [OF p] by (simp add: shifted_def)
  have "fs_do (Rename path (?g 1)) d1 = (Inl e, d1\<lparr>calls := Suc (calls d1)\<rparr>)"
    using e by (simp add: fs_do_def d1(2))
  then have run: "appendAuditRow path row options d = (Inl e, d1\<lparr>calls := Suc (calls d1)\<rparr>)"
    using b d1(1) by (simp add: appendAuditRow_def rotateIfNeeded_def io_bind_def stat Let_def bytes_def [symmetric])
  have "files d1 (?g j) = (if j = 1 then None else files d (?g (j - 1)))" if "1 \<le> j" "j \<le> ?m" for j
  proof (cases "j = 1")
    case True
    then show ?thesis
      using d1(3) that generationPath_inj [OF p] by (cases "?m = 1") (auto simp: shifted_def)
  next
    case False
    define i where "i = j - 1"
    have i: "j = Suc i" "1 \<le> i" using False that(1) by (auto simp: i_def)
    then show ?thesis using d1(3) that generationPath_inj [OF p] by (simp add: shifted_def)
  qed
  with run live d1(2) show ?thesis by auto
qed

lemma failing_appends:
  assumes "has_jsonl path" and "spares {Rename path (generationPath path 1)} d"
    and "\<And>n. faults d n (Rename path (generationPath path 1)) = Some e"
    and "live_full path options d"
  shows "let d' = foldl (\<lambda>d row. snd (appendAuditRow path row options d)) d rows in
    faults d' = faults d \<and> files d' path = files d path
    \<and> (\<forall>j. 1 \<le> j \<and> j \<le> file_limit options \<longrightarrow> files d' (generationPath path j) =
         (if j \<le> length rows then None else files d (generationPath path (j - length rows))))"
proof (induction rows rule: rev_induct)
  case (snoc row rows)
  define d1 where "d1 = foldl (\<lambda>d row. snd (appendAuditRow path row options d)) d rows"
  have d1: "faults d1 = faults d" "files d1 path = files d path"
    "\<And>j. 1 \<le> j \<Longrightarrow> j \<le> file_limit options \<Longrightarrow> files d1 (generationPath path j) =
         (if j \<le> length rows then None else files d (generationPath path (j - length rows)))"
    using snoc.IH unfolding Let_def d1_def [symmetric] by blast+
  have "spares {Rename path (generationPath path 1)} d1" "live_full path options d1"
    using assms(2,4) d1(2) spares_faults [OF d1(1)] by (simp_all add: live_full_def)
  from failing_append [OF assms(1) this(1) _ this(2), of e row] obtain d' where
    d': "appendAuditRow path row options d1 = (Inl e, d')" "faults d' = faults d1" "files d' path = files d1 path"
    "\<forall>j. 1 \<le> j \<and> j \<le> file_limit options \<longrightarrow>
         files d' (generationPath path j) = (if j = 1 then None else files d1 (generationPath path (j - 1)))"
    using assms(3) d1(1) by auto
  have step: "foldl (\<lambda>d row. snd (appendAuditRow path row options d)) d (rows @ [row]) = d'"
    using d'(1) by (simp add: d1_def [symmetric])
  have "files d' (generationPath path j) =
      (if j \<le> length (rows @ [row]) then None else files d (generationPath path (j - length (rows @ [row]))))"
    if "1 \<le> j" "j \<le> file_limit options" for j
  proof (cases "j = 1")
    case False
    then have "files d' (generationPath path j) = files d1 (generationPath path (j - 1))" using d'(4) that by simp
    also have "\<dots> = (if j - 1 \<le> length rows then None else files d (generationPath path (j - 1 - length rows)))"
      using False that by (intro d1(3)) auto
    finally show ?thesis using that by auto
  qed (use d'(4) that in simp)
  then show ?case unfolding Let_def step using d'(2,3) d1(1,2) by simp
qed simp

section \<open>Properties\<close>

text \<open>
  C31: the ledger file implements generations of rows: while no call of the environment fails, an
  append adds the row as the last one of the live generation, after a live file that has
  reached the size limit became the newest full generation and the oldest was dropped, and nothing
  else changes; what is loaded afterwards is the rows of the generations in their order.
\<close>

theorem append_refines_generations:
  assumes "spares {} d" and "has_jsonl path" and "sealed (nullish (files d path) [])"
  shows "\<exists>d' l d''. appendAuditRow path row options d = (Inr (), d')
    \<and> sealed (nullish (files d' path) [])
    \<and> generations path (file_limit options) d' = record_row (audit_row_json row)
        (if live_full path options d then begin_generation (generations path (file_limit options) d)
         else generations path (file_limit options) d)
    \<and> loadAuditLedger msg path options d' = (Inr l, d'')
    \<and> l_rows l = concat (generations path (file_limit options) d')"
proof -
  obtain d1 where d1: "rotateIfNeeded path options d = (Inr (live_full path options d), d1)" "faults d1 = faults d"
      "generations path (file_limit options) d1 =
        (if live_full path options d then begin_generation (generations path (file_limit options) d)
         else generations path (file_limit options) d)"
      "if live_full path options d then files d1 path = None else files d1 path = files d path"
    using rotateIfNeeded_calm [OF assms(2,1), of options] by auto
  have calm: "spares {} d1" using spares_faults [OF d1(2)] assms(1) by simp
  define d' where "d' = d1\<lparr>calls := Suc (calls d1),
    files := (files d1)(path \<mapsto> nullish (files d1 path) [] @ ledger_line row)\<rparr>"
  have run: "appendAuditRow path row options d = (Inr (), d')"
    by (simp add: appendAuditRow_def io_bind_def d1(1) fs_spared [OF calm] d'_def io_return_def)
  have "sealed (nullish (files d1 path) [])"
    using d1(4) assms(3) by (cases "live_full path options d") (auto simp: nullish_def sealed_def)
  from append_generations [OF assms(2) this, of d' row "file_limit options"]
  have g: "generations path (file_limit options) d' =
      record_row (audit_row_json row) (generations path (file_limit options) d1) \<and> sealed (nullish (files d' path) [])"
    by (simp add: d'_def)
  have "spares {} d'" using calm by (simp add: d'_def)
  from load_calm [OF this, of msg "ledger_paths path (file_limit options)"]
  obtain l d'' where "loadAuditLedger msg path options d' = (Inr l, d'')"
      "l_rows l = concat (generations path (file_limit options) d')"
    by (auto simp: loadAuditLedger_def generations_def)
  with run g d1(3) show ?thesis by auto
qed

text \<open>
  C32: a write that a crash cuts just before the end of its line costs two rows: the row appended
  next is glued to the complete row before it, and the loader, which reads line by line, drops both.
\<close>

theorem torn_newline_loses_two_rows:
  assumes "spares {} d" and "has_jsonl path" and "\<not> live_full path options d"
    and "sealed t" and "files d path = Some (t @ json_text (audit_row_json row0))"
  shows "\<exists>d'. appendAuditRow path row options d = (Inr (), d') \<and>
    rows_in (files d) path = rows_of_text t @ [audit_row_json row0] \<and> rows_in (files d') path = rows_of_text t"
proof -
  let ?j = "\<lambda>row. json_text (audit_row_json row)"
  obtain d1 where d1: "rotateIfNeeded path options d = (Inr False, d1)" "faults d1 = faults d" "files d1 path = files d path"
    using rotateIfNeeded_calm [OF assms(2,1), of options] assms(3) by auto
  have calm: "spares {} d1" using spares_faults [OF d1(2)] assms(1) by simp
  define d' where "d' = d1\<lparr>calls := Suc (calls d1), files := (files d1)(path \<mapsto> t @ ?j row0 @ ledger_line row)\<rparr>"
  have run: "appendAuditRow path row options d = (Inr (), d')"
    by (simp add: appendAuditRow_def io_bind_def d1(1,3) assms(5) fs_spared [OF calm] d'_def io_return_def nullish_def)
  have nl: "newline \<notin> set (?j row0 @ ?j row)"
    using json_text_newline(1) [OF plain_row] by simp
  have glued: "parse_json (?j row0 @ ?j row) = None"
  proof -
    obtain v where v: "audit_row_json row = JObj v" by (simp add: audit_row_json_def)
    have "\<not> is_digit (CHR ''{'')" by code_simp
    then have e: "ends_number (?j row)" by (simp add: v ends_number_def)
    have "parse_value (2 * length (?j row0 @ ?j row) + 2) (?j row0 @ ?j row) = Some (audit_row_json row0, ?j row)"
      by (rule parse_json_text(1) [OF plain_row e]) simp
    moreover have "skip_ws (?j row) \<noteq> []" by (simp add: v json_ws_def)
    ultimately show ?thesis by (simp add: parse_json_def del: parse_value.simps)
  qed
  have "rows_of_text (?j row0 @ ledger_line row) = row_of_line (?j row0 @ ?j row)"
    using nl by (simp add: ledger_line_def rows_of_text_lines split_on_none
        split_on_append [where s = "?j row0 @ ?j row" and t = "[]", simplified])
  also have "\<dots> = []" using glued by (simp add: row_of_line_def)
  finally have "rows_in (files d') path = rows_of_text t"
    using rows_of_text_sealed [OF assms(4)] by (simp add: rows_in_def d'_def)
  moreover have "rows_in (files d) path = rows_of_text t @ [audit_row_json row0]"
  proof -
    have "rows_of_text (?j row0) = [audit_row_json row0]"
      using nl by (simp add: rows_of_text_lines split_on_none row_of_ledger_line)
    then show ?thesis by (simp add: rows_in_def assms(5) rows_of_text_sealed [OF assms(4)])
  qed
  ultimately show ?thesis using run by auto
qed

text \<open>
  C33: rotation removes the oldest generation and shifts the others before the live file is moved.
  While the environment refuses that last renaming, every append fails, and each attempt drops
  one more generation: after as many attempts as there are generations the history is gone.
\<close>

theorem failing_rotation_erases_history:
  assumes "has_jsonl path" and "spares {Rename path (generationPath path 1)} d"
    and "\<forall>n. faults d n (Rename path (generationPath path 1)) = Some e"
    and "live_full path options d"
  shows "let d' = foldl (\<lambda>d row. snd (appendAuditRow path row options d)) d rows in
    fst (appendAuditRow path row options d') = Inl e
    \<and> files d' path = files d path
    \<and> (\<forall>j. 1 \<le> j \<and> j \<le> file_limit options \<longrightarrow> files d' (generationPath path j) =
         (if j \<le> length rows then None else files d (generationPath path (j - length rows))))"
proof -
  define d' where "d' = foldl (\<lambda>d row. snd (appendAuditRow path row options d)) d rows"
  note d' = failing_appends [OF assms(1,2) assms(3) [rule_format] assms(4), of rows, unfolded Let_def, folded d'_def]
  then have "spares {Rename path (generationPath path 1)} d'" "live_full path options d'"
    using assms(2,4) spares_faults [of d' d] by (simp_all add: live_full_def)
  from failing_append [OF assms(1) this(1) _ this(2), of e row] obtain d''
    where "appendAuditRow path row options d' = (Inl e, d'')"
    using d' assms(3) by auto
  then have "fst (appendAuditRow path row options d') = Inl e" by simp
  with d' show ?thesis unfolding Let_def d'_def [symmetric] by blast
qed

section \<open>Samples\<close>

definition sample_row :: "string \<Rightarrow> audit_row" where
  "sample_row tid = buildAuditRow tid RowTerminal 2000 3 (Some 1990)
     \<lparr>i_transferId = Some tid, i_operationType = Some ''transfer'', i_exportId = Some tid,
      i_artifactSizeBytes = None, i_platformName = Some ''Alpha'', i_platformIndex = Some 3,
      i_forceName = None, i_sourceInstanceId = Some 1, i_sourceInstanceName = None,
      i_targetInstanceId = Some 2, i_targetInstanceName = None,
      i_status = Some ''completed'', i_startedAt = Some 1000, i_completedAt = Some 2000,
      i_failedAt = None, i_error = None\<rparr>"

definition sample_disk :: "(string \<Rightarrow> string option) \<Rightarrow> (fs_call \<Rightarrow> thrown option) \<Rightarrow> disk" where
  "sample_disk f refused = \<lparr>files = f, calls = 0, faults = \<lambda>n. refused\<rparr>"

lemma sample_path [simp]: "has_jsonl ''audit.jsonl''"
  by code_simp

lemma sample_calm [simp]: "spares S (sample_disk f (\<lambda>_. None))"
  by (simp add: spares_def sample_disk_def)

theorem append_refines_generations_witness:
  "\<exists>d' l d''. appendAuditRow ''audit.jsonl'' (sample_row ''1:7'') \<lparr>maxBytes = None, maxFiles = Some 2\<rparr>
        (sample_disk (\<lambda>_. None) (\<lambda>_. None)) = (Inr (), d')
    \<and> loadAuditLedger (\<lambda>_. []) ''audit.jsonl'' \<lparr>maxBytes = None, maxFiles = Some 2\<rparr> d' = (Inr l, d'')
    \<and> l_rows l = [audit_row_json (sample_row ''1:7'')]"
proof -
  let ?d = "sample_disk (\<lambda>_. None) (\<lambda>_. None)" and ?o = "\<lparr>maxBytes = None, maxFiles = Some 2\<rparr>"
  have "sealed (nullish (files ?d ''audit.jsonl'') [])" by (simp add: sample_disk_def sealed_def nullish_def)
  from append_refines_generations [OF sample_calm sample_path this, of "sample_row ''1:7''" ?o "\<lambda>_. []"]
  obtain d' l d'' where *: "appendAuditRow ''audit.jsonl'' (sample_row ''1:7'') ?o ?d = (Inr (), d')"
    "generations ''audit.jsonl'' 2 d' = record_row (audit_row_json (sample_row ''1:7'')) (generations ''audit.jsonl'' 2 ?d)"
    "loadAuditLedger (\<lambda>_. []) ''audit.jsonl'' ?o d' = (Inr l, d'')"
    "l_rows l = concat (generations ''audit.jsonl'' 2 d')"
    by (auto simp: live_full_def sample_disk_def nullish_def)
  have "generations ''audit.jsonl'' 2 ?d = [[], [], []]"
    by (simp add: generations_def ledger_paths_def sample_disk_def rows_in_def numeral_2_eq_2)
  with * show ?thesis by (auto simp: record_row_def)
qed

theorem torn_newline_loses_two_rows_witness:
  "\<exists>d'. appendAuditRow ''audit.jsonl'' (sample_row ''1:8'') \<lparr>maxBytes = Some (Fin 0), maxFiles = None\<rparr>
        (sample_disk [''audit.jsonl'' \<mapsto> json_text (audit_row_json (sample_row ''1:7''))] (\<lambda>_. None)) = (Inr (), d')
    \<and> rows_in (files d') ''audit.jsonl'' = []"
proof -
  let ?d = "sample_disk [''audit.jsonl'' \<mapsto> json_text (audit_row_json (sample_row ''1:7''))] (\<lambda>_. None)"
  have "\<not> live_full ''audit.jsonl'' \<lparr>maxBytes = Some (Fin 0), maxFiles = None\<rparr> ?d"
    by (simp add: live_full_def nullish_def)
  from torn_newline_loses_two_rows [OF sample_calm sample_path this, of "[]"]
  show ?thesis by (auto simp: sealed_def sample_disk_def rows_of_text_lines)
qed

theorem failing_rotation_erases_history_witness:
  "let refused = (\<lambda>c. if c = Rename ''audit.jsonl'' (generationPath ''audit.jsonl'' 1)
                  then Some (ErrorObject ''resource busy'' (Some ''EBUSY'')) else None);
       d = sample_disk [''audit.jsonl'' \<mapsto> ''{}'', generationPath ''audit.jsonl'' 1 \<mapsto> ''{}''] refused;
       d' = snd (appendAuditRow ''audit.jsonl'' (sample_row ''1:7'') \<lparr>maxBytes = Some (Fin 1), maxFiles = Some 1\<rparr> d)
   in files d (generationPath ''audit.jsonl'' 1) = Some ''{}'' \<and> files d' (generationPath ''audit.jsonl'' 1) = None"
proof -
  define refused where "refused = (\<lambda>c. if c = Rename ''audit.jsonl'' (generationPath ''audit.jsonl'' 1)
                  then Some (ErrorObject ''resource busy'' (Some ''EBUSY'')) else None)"
  define d where "d = sample_disk [''audit.jsonl'' \<mapsto> ''{}'', generationPath ''audit.jsonl'' 1 \<mapsto> ''{}''] refused"
  let ?o = "\<lparr>maxBytes = Some (Fin 1), maxFiles = Some 1\<rparr>"
  have 1: "spares {Rename ''audit.jsonl'' (generationPath ''audit.jsonl'' 1)} d"
    by (simp add: spares_def d_def sample_disk_def refused_def)
  have 2: "\<forall>n. faults d n (Rename ''audit.jsonl'' (generationPath ''audit.jsonl'' 1)) = Some (ErrorObject ''resource busy'' (Some ''EBUSY''))"
    by (simp add: d_def sample_disk_def refused_def)
  have 3: "live_full ''audit.jsonl'' ?o d"
    using generationPath_live [OF sample_path]
    by (simp add: live_full_def nullish_def is_finite_def d_def sample_disk_def)
  have "files d (generationPath ''audit.jsonl'' 1) = Some ''{}''" by (simp add: d_def sample_disk_def)
  moreover have "files (snd (appendAuditRow ''audit.jsonl'' (sample_row ''1:7'') ?o d)) (generationPath ''audit.jsonl'' 1) = None"
    using failing_rotation_erases_history [OF sample_path 1 2 3, where rows = "[sample_row ''1:7'']"]
    by (simp add: Let_def nullish_def)
  ultimately show ?thesis unfolding Let_def d_def refused_def by (rule conjI)
qed

end
