(* ===== verification/Intervals.thy ===== *)
theory Intervals
  imports Prelude
begin

text \<open>
  The interval arithmetic of the transfer timeline (shared/transfer-timeline.ts): merging intervals
  and the gaps they leave in a span of time. Numbers are exact rationals. An interval holds the
  instants from its start up to, not including, its end.
\<close>

type_synonym interval = "rat \<times> rat"

definition RESIDUAL_FLOOR_MS :: rat where
  "RESIDUAL_FLOOR_MS = 2"

definition merge_step :: "interval list \<Rightarrow> interval \<Rightarrow> interval list" where
  "merge_step merged p =
     (if merged \<noteq> [] \<and> fst p \<le> snd (last merged)
      then butlast merged @ [(fst (last merged), max (snd (last merged)) (snd p))]
      else merged @ [p])"

definition mergeIntervals :: "interval list \<Rightarrow> interval list" where
  "mergeIntervals intervals = foldl merge_step [] (sort_key fst (filter (\<lambda>p. fst p < snd p) intervals))"

fun gap_loop :: "rat \<Rightarrow> rat \<Rightarrow> interval list \<Rightarrow> interval list" where
  "gap_loop totalMs cursor [] = (if cursor < totalMs then [(cursor, totalMs)] else [])"
| "gap_loop totalMs cursor (p # rest) =
     (if cursor < fst p then [(cursor, min (fst p) totalMs)] else [])
     @ gap_loop totalMs (max cursor (snd p)) rest"

definition long_gap :: "interval \<Rightarrow> bool" where
  "long_gap p = (RESIDUAL_FLOOR_MS < snd p - fst p)"

definition gapsWithin :: "interval list \<Rightarrow> rat \<Rightarrow> interval list" where
  "gapsWithin covered totalMs = filter long_gap (gap_loop totalMs 0 (mergeIntervals covered))"

section \<open>Facts\<close>

definition spans_at :: "interval \<Rightarrow> rat \<Rightarrow> bool" where
  "spans_at p x = (fst p \<le> x \<and> x < snd p)"

definition covers :: "interval list \<Rightarrow> rat \<Rightarrow> bool" where
  "covers ps x = (\<exists>p\<in>set ps. spans_at p x)"

definition total_length :: "interval list \<Rightarrow> rat" where
  "total_length ps = sum_list (map (\<lambda>p. snd p - fst p) ps)"

lemma covers_simps [simp]:
  "covers [] x = False" "covers (p # ps) x = (spans_at p x \<or> covers ps x)"
  "covers (ps @ qs) x = (covers ps x \<or> covers qs x)"
  by (auto simp: covers_def)

lemma total_length_simps [simp]:
  "total_length [] = 0" "total_length (p # ps) = snd p - fst p + total_length ps" "total_length (ps @ qs) = total_length ps + total_length qs"
  by (simp_all add: total_length_def)

text \<open>Proper intervals in order: touching at most, or with a distance between any two.\<close>

definition ordered :: "interval list \<Rightarrow> bool" where
  "ordered ps = (sorted_wrt (\<lambda>p q. snd p \<le> fst q) ps \<and> (\<forall>p\<in>set ps. fst p < snd p))"

definition separated :: "interval list \<Rightarrow> bool" where
  "separated ps = (sorted_wrt (\<lambda>p q. snd p < fst q) ps \<and> (\<forall>p\<in>set ps. fst p < snd p))"

lemma separated_ordered: "separated ps \<Longrightarrow> ordered ps"
  unfolding separated_def ordered_def by (metis (mono_tags, lifting) less_imp_le sorted_wrt_mono_rel)

lemma ordered_Cons [simp]:
  "ordered (p # ps) \<longleftrightarrow> fst p < snd p \<and> (\<forall>q\<in>set ps. snd p \<le> fst q) \<and> ordered ps"
  "ordered []"
  by (auto simp: ordered_def)

lemma merge_step_separated:
  assumes "separated ps" and "fst p < snd p" and "\<forall>q\<in>set ps. fst q \<le> fst p"
  shows "separated (merge_step ps p) \<and> (\<forall>q\<in>set (merge_step ps p). fst q \<le> fst p)
    \<and> covers (merge_step ps p) x = (covers ps x \<or> spans_at p x)"
proof (cases "ps \<noteq> [] \<and> fst p \<le> snd (last ps)")
  case False
  show ?thesis
  proof (cases "ps = []")
    case True
    with assms(2) show ?thesis by (simp add: merge_step_def separated_def)
  next
    case ne: False
    with False have "snd (last ps) < fst p" by simp
    moreover have "snd q \<le> snd (last ps)" if "q \<in> set ps" for q
    proof -
      have ps: "butlast ps @ [last ps] = ps" using ne by simp
      have "sorted_wrt (\<lambda>p q. snd p < fst q) (butlast ps @ [last ps])" "fst (last ps) < snd (last ps)"
        using assms(1) ne unfolding ps by (simp_all add: separated_def)
      moreover have "q \<in> set (butlast ps) \<or> q = last ps" using that ps by (metis in_set_conv_decomp_last rotate1.simps(2) set_ConsD set_rotate1)
      ultimately show ?thesis by (auto simp: sorted_wrt_append)
    qed
    ultimately have "\<forall>q\<in>set ps. snd q < fst p" by force
    with assms False show ?thesis by (auto simp: merge_step_def separated_def sorted_wrt_append)
  qed
next
  case True
  define a b where "a = fst (last ps)" and "b = snd (last ps)"
  have ps: "ps = butlast ps @ [(a, b)]" using True by (simp add: a_def b_def)
  have m: "merge_step ps p = butlast ps @ [(a, max b (snd p))]"
    using True by (simp add: merge_step_def a_def b_def)
  have "separated (butlast ps @ [(a, b)])" "\<forall>q\<in>set (butlast ps @ [(a, b)]). fst q \<le> fst p"
    using assms ps by simp_all
  then have s: "sorted_wrt (\<lambda>p q. snd p < fst q) (butlast ps)" "\<forall>q\<in>set (butlast ps). snd q < a \<and> fst q < snd q"
    "a < b" "a \<le> fst p" "\<forall>q\<in>set (butlast ps). fst q \<le> fst p"
    by (auto simp: separated_def sorted_wrt_append)
  have "covers ps x = (covers (butlast ps) x \<or> spans_at (a, b) x)"
    by (subst ps) simp
  moreover have "spans_at (a, max b (snd p)) x = (spans_at (a, b) x \<or> spans_at p x)"
    using True s(3,4) by (auto simp: spans_at_def b_def)
  ultimately show ?thesis
    using s unfolding m by (auto simp: separated_def sorted_wrt_append)
qed

lemma foldl_merge:
  assumes "sorted (map fst qs)" and "\<forall>q\<in>set qs. fst q < snd q" and "separated ps"
    and "\<forall>p\<in>set ps. \<forall>q\<in>set qs. fst p \<le> fst q"
  shows "separated (foldl merge_step ps qs) \<and> covers (foldl merge_step ps qs) x = (covers ps x \<or> covers qs x)"
  using assms
proof (induction qs arbitrary: ps)
  case (Cons q qs)
  have m: "separated (merge_step ps q)" "\<forall>r\<in>set (merge_step ps q). fst r \<le> fst q"
    "covers (merge_step ps q) x = (covers ps x \<or> spans_at q x)"
    using merge_step_separated [of ps q x] Cons.prems by auto
  have "\<forall>r\<in>set (merge_step ps q). \<forall>s\<in>set qs. fst r \<le> fst s"
    using m(2) Cons.prems(1) by fastforce
  then show ?case using Cons.IH [of "merge_step ps q"] Cons.prems m by simp
qed simp

text \<open>The merged intervals have distances between them and hold the same instants.\<close>

lemma merged:
  "separated (mergeIntervals ps)"
  "covers (mergeIntervals ps) x \<longleftrightarrow> covers ps x"
proof -
  let ?qs = "sort_key fst (filter (\<lambda>p. fst p < snd p) ps)"
  have *: "separated (foldl merge_step [] ?qs) \<and> covers (foldl merge_step [] ?qs) x = (covers [] x \<or> covers ?qs x)" for x
    by (rule foldl_merge) (auto simp: separated_def)
  then show "separated (mergeIntervals ps)" by (simp add: mergeIntervals_def)
  have "covers ?qs x = covers ps x"
    unfolding covers_def spans_at_def by force
  with * show "covers (mergeIntervals ps) x \<longleftrightarrow> covers ps x" by (simp add: mergeIntervals_def)
qed

text \<open>Intervals in order keep their total length.\<close>

lemma foldl_merge_length:
  assumes "ordered (ps @ qs)"
  shows "total_length (foldl merge_step ps qs) = total_length ps + total_length qs \<and> length (foldl merge_step ps qs) \<le> length ps + length qs"
  using assms
proof (induction qs arbitrary: ps)
  case (Cons q qs)
  show ?case
  proof (cases "ps \<noteq> [] \<and> fst q \<le> snd (last ps)")
    case False
    then have "merge_step ps q = ps @ [q]" by (auto simp: merge_step_def)
    with Cons.IH [of "ps @ [q]"] Cons.prems show ?thesis by simp
  next
    case True
    define us a b where "us = butlast ps" and "a = fst (last ps)" and "b = snd (last ps)"
    have ps: "ps = us @ [(a, b)]" using True by (simp add: us_def a_def b_def)
    have o: "ordered (us @ (a, b) # q # qs)" using Cons.prems ps by simp
    then have "b \<le> fst q" "fst q < snd q" by (auto simp: ordered_def sorted_wrt_append)
    with True have b: "b = fst q" by (simp add: b_def)
    have m: "merge_step ps q = us @ [(a, snd q)]"
      using True b \<open>fst q < snd q\<close> by (simp add: merge_step_def us_def a_def b_def)
    have "ordered ((us @ [(a, snd q)]) @ qs)"
      using o b by (auto simp: ordered_def sorted_wrt_append)
    from Cons.IH [OF this] have "total_length (foldl merge_step ps (q # qs)) = total_length (us @ [(a, snd q)]) + total_length qs
        \<and> length (foldl merge_step ps (q # qs)) \<le> length (us @ [(a, snd q)]) + length qs"
      by (simp add: m)
    moreover have "total_length ps = total_length us + (b - a)" "length ps = length us + 1" by (simp_all add: ps)
    ultimately show ?thesis using b by simp
  qed
qed simp

lemma sort_key_ordered: "ordered ps \<Longrightarrow> sort_key fst (filter (\<lambda>p. fst p < snd p) ps) = ps"
proof (induction ps)
  case (Cons p ps)
  then have "insort_key fst p ps = p # ps" by (cases ps) auto
  with Cons show ?case by simp
qed simp

lemma merged_ordered:
  assumes "ordered ps"
  shows "total_length (mergeIntervals ps) = total_length ps" "length (mergeIntervals ps) \<le> length ps"
  using foldl_merge_length [of "[]" ps] assms by (simp_all add: mergeIntervals_def sort_key_ordered)

text \<open>The gaps of intervals in order are in order too, and fill what the intervals leave.\<close>

lemma gap_loop_fills:
  assumes "ordered ps" and "\<forall>p\<in>set ps. cursor \<le> fst p \<and> snd p \<le> t" and "cursor \<le> t"
  shows "ordered (gap_loop t cursor ps) \<and> (\<forall>g\<in>set (gap_loop t cursor ps). cursor \<le> fst g \<and> snd g \<le> t)
    \<and> total_length (gap_loop t cursor ps) + total_length ps = t - cursor
    \<and> length (gap_loop t cursor ps) \<le> length ps + 1
    \<and> (covers (gap_loop t cursor ps) x \<longleftrightarrow> cursor \<le> x \<and> x < t \<and> \<not> covers ps x)"
  using assms
proof (induction ps arbitrary: cursor)
  case Nil
  then show ?case by (auto simp: spans_at_def)
next
  case (Cons p ps)
  let ?G = "gap_loop t (snd p) ps" and ?H = "if cursor < fst p then [(cursor, fst p)] else []"
  have p: "cursor \<le> fst p" "fst p < snd p" "snd p \<le> t" "\<forall>q\<in>set ps. snd p \<le> fst q"
    using Cons.prems by simp_all
  then have g: "gap_loop t cursor (p # ps) = ?H @ ?G" by (simp add: min_absorb1 max_absorb2)
  have IH: "ordered ?G" "\<forall>g\<in>set ?G. snd p \<le> fst g \<and> snd g \<le> t" "total_length ?G + total_length ps = t - snd p"
      "length ?G \<le> length ps + 1" "covers ?G x \<longleftrightarrow> snd p \<le> x \<and> x < t \<and> \<not> covers ps x"
    using Cons.IH [of "snd p"] Cons.prems by simp_all
  have late: "\<not> covers ps x" if "x < snd p"
  proof
    assume "covers ps x"
    then obtain q where "q \<in> set ps" "fst q \<le> x" by (auto simp: covers_def spans_at_def)
    with p(4) that show False by (meson leD order_trans)
  qed
  have "\<forall>g\<in>set ?G. fst p \<le> fst g \<and> cursor \<le> fst g \<and> snd g \<le> t"
    using IH(2) p by (meson less_imp_le order_trans)
  then have "ordered (?H @ ?G) \<and> (\<forall>g\<in>set (?H @ ?G). cursor \<le> fst g \<and> snd g \<le> t)"
    using IH(1) p by auto
  moreover have "total_length (?H @ ?G) + total_length (p # ps) = t - cursor"
    using IH(3) p(1) by (cases "cursor < fst p") simp_all
  moreover have "covers (?H @ ?G) x \<longleftrightarrow> cursor \<le> x \<and> x < t \<and> \<not> covers (p # ps) x"
    using IH(5) p(1-3) late by (cases "cursor < fst p") (auto simp: spans_at_def)
  ultimately show ?case unfolding g using IH(4) by simp
qed

lemma short_gaps:
  "total_length gs - 2 * of_nat (length gs) \<le> total_length (filter long_gap gs)"
  by (induction gs) (auto simp: long_gap_def RESIDUAL_FLOOR_MS_def)

lemma ordered_filter: "ordered gs \<Longrightarrow> ordered (filter P gs)"
  by (simp add: ordered_def sorted_wrt_filter)

lemma total_length_filter_le: "ordered gs \<Longrightarrow> total_length (filter P gs) \<le> total_length gs"
  by (induction gs) auto

lemma total_length_nonneg: "ordered ps \<Longrightarrow> 0 \<le> total_length ps"
  using total_length_filter_le [of ps "\<lambda>_. False"] by simp

lemma merge_step_bounds:
  assumes "\<forall>q\<in>set ps. lo \<le> fst q \<and> snd q \<le> hi" and "lo \<le> fst p" and "snd p \<le> hi"
  shows "\<forall>q\<in>set (merge_step ps p). lo \<le> fst q \<and> snd q \<le> hi"
proof (cases "ps \<noteq> [] \<and> fst p \<le> snd (last ps)")
  case True
  then have "lo \<le> fst (last ps)" "snd (last ps) \<le> hi" "\<forall>q\<in>set (butlast ps). lo \<le> fst q \<and> snd q \<le> hi"
    using assms(1) by (simp_all add: in_set_butlastD)
  with True assms(3) show ?thesis by (simp add: merge_step_def)
next
  case False
  then have "merge_step ps p = ps @ [p]" by (auto simp: merge_step_def)
  with assms show ?thesis by simp
qed

lemma merged_bounds:
  assumes "\<forall>q\<in>set ps. lo \<le> fst q \<and> snd q \<le> hi"
  shows "p \<in> set (mergeIntervals ps) \<Longrightarrow> lo \<le> fst p \<and> snd p \<le> hi"
proof -
  have *: "\<forall>q\<in>set (foldl merge_step acc qs). lo \<le> fst q \<and> snd q \<le> hi"
    if "\<forall>q\<in>set acc. lo \<le> fst q \<and> snd q \<le> hi" "\<forall>q\<in>set qs. lo \<le> fst q \<and> snd q \<le> hi" for acc qs
    using that
  proof (induction qs arbitrary: acc)
    case (Cons q qs)
    from Cons.prems have "\<forall>r\<in>set (merge_step acc q). lo \<le> fst r \<and> snd r \<le> hi"
      by (intro merge_step_bounds) simp_all
    moreover have "\<forall>r\<in>set qs. lo \<le> fst r \<and> snd r \<le> hi" using Cons.prems(2) by simp
    ultimately have "\<forall>r\<in>set (foldl merge_step (merge_step acc q) qs). lo \<le> fst r \<and> snd r \<le> hi"
      by (rule Cons.IH)
    then show ?case by (simp only: foldl_Cons)
  qed simp
  have "\<forall>q\<in>set (mergeIntervals ps). lo \<le> fst q \<and> snd q \<le> hi"
    unfolding mergeIntervals_def by (rule *) (use assms in auto)
  then show "p \<in> set (mergeIntervals ps) \<Longrightarrow> lo \<le> fst p \<and> snd p \<le> hi" by blast
qed

end
