(* ===== verification/Timeline.thy ===== *)
theory Timeline
  imports Intervals Helpers
begin

text \<open>
  The timeline of a transfer (shared/transfer-timeline.ts): rows built from the recorded events,
  overlapping measured spans trimmed, and the rest of the time shown as residual rows. Times are
  exact rationals. A row that the code shares between its list and a detail window is its position
  in the list. \<open>fmt\<close> is \<open>Number.toLocaleString\<close>, which depends on the locale of the browser;
  spans of an import are objects, as their type says. The colour table and the hatching belong to
  the rendering and are left out.
\<close>

section \<open>Data\<close>

datatype span_kind = Measured | TickDerived | Residual | DetailGap | Event

record timeline_row =
  w_key :: string
  w_label :: string
  w_indent :: nat
  w_start :: rat
  w_end :: rat
  w_duration :: "rat option"
  w_color :: string
  w_kind :: span_kind
  w_note :: "string option"

record detail_window =
  dw_start :: rat
  dw_end :: rat
  dw_children :: "nat list"

record attribution =
  at_totalMs :: rat
  at_attributedMs :: rat
  at_residualMs :: rat
  at_residualPct :: rat
  at_overlapTrimmedMs :: rat
  at_detailGapMs :: rat
  at_detailGapPct :: rat

record transfer_timeline =
  tl_totalMs :: rat
  tl_rows :: "timeline_row list"
  tl_attribution :: attribution

section \<open>Numbers and names\<close>

definition finite_ms :: "jsval \<Rightarrow> rat option" where
  "finite_ms v = (case to_number v of Fin q \<Rightarrow> Some q | _ \<Rightarrow> None)"

definition positive_ms :: "jsval \<Rightarrow> rat option" where
  "positive_ms v = (case finite_ms v of Some n \<Rightarrow> if 0 < n then Some n else None | None \<Rightarrow> None)"

definition ms_text :: "rat \<Rightarrow> string" where
  "ms_text q = num_text (Fin q)"

definition IMPORT_SPAN_LABELS :: "(string \<times> string) list" where
  "IMPORT_SPAN_LABELS =
     [(''delivery'', ''Delivery''), (''queue'', ''Queue wait''), (''tiles'', ''Tiles''), (''entities'', ''Entities''),
      (''fluids'', ''Fluids''), (''belts'', ''Belts''), (''state'', ''State''), (''inventories'', ''Inventories''),
      (''hub'', ''Hub''), (''held_items'', ''Held items''), (''activation'', ''Activation''),
      (''loss_analysis'', ''Loss analysis''), (''queue_setup'', ''Queue setup''), (''beacons'', ''Beacons''),
      (''validation'', ''Validation gate'')]"

definition is_lower :: "char \<Rightarrow> bool" where
  "is_lower c = (let n = of_char c :: nat in 97 \<le> n \<and> n \<le> 122)"

definition is_upper :: "char \<Rightarrow> bool" where
  "is_upper c = (let n = of_char c :: nat in 65 \<le> n \<and> n \<le> 90)"

text \<open>A blank between a lower case letter or digit and an upper case letter.\<close>

fun split_camel :: "string \<Rightarrow> string" where
  "split_camel (c # d # cs) =
     (if (is_lower c \<or> is_digit c) \<and> is_upper d then c # CHR '' '' # d # split_camel cs
      else c # split_camel (d # cs))"
| "split_camel s = s"

text \<open>Every run of underscores and dashes becomes one blank.\<close>

function join_words :: "string \<Rightarrow> string" where
  "join_words [] = []"
| "join_words (c # cs) =
     (if c = CHR ''_'' \<or> c = CHR ''-''
      then CHR '' '' # join_words (dropWhile (\<lambda>d. d = CHR ''_'' \<or> d = CHR ''-'') cs)
      else c # join_words cs)"
  by pat_completeness auto
termination
  by (relation "measure length") (auto simp: le_imp_less_Suc length_dropWhile_le)

text \<open>The first letter in upper case; the names of phases are ASCII.\<close>

definition upper_first :: "string \<Rightarrow> string" where
  "upper_first s =
     (case s of c # cs \<Rightarrow> (if is_lower c then char_of ((of_char c :: nat) - 32) else c) # cs | [] \<Rightarrow> [])"

definition humanize :: "string \<Rightarrow> string" where
  "humanize key = upper_first (join_words (split_camel key))"

definition drop_ms_suffix :: "string \<Rightarrow> string" where
  "drop_ms_suffix key =
     (if drop (length key - 2) key = ''Ms'' then take (length key - 2) key else key)"

section \<open>Rows of the events\<close>

record timeline_build =
  tb_rows :: "timeline_row list"
  tb_windows :: "detail_window list"
  tb_import :: "nat option"
  tb_total :: rat

definition add_row :: "timeline_row \<Rightarrow> timeline_build \<Rightarrow> timeline_build" where
  "add_row r st = st\<lparr>tb_rows := tb_rows st @ [r]\<rparr>"

definition measured_row :: "string \<Rightarrow> string \<Rightarrow> rat \<Rightarrow> rat \<Rightarrow> rat \<Rightarrow> string \<Rightarrow> string \<Rightarrow> timeline_row" where
  "measured_row key label s e d color note =
     \<lparr>w_key = key, w_label = label, w_indent = 1, w_start = s, w_end = e, w_duration = Some d,
      w_color = color, w_kind = Measured, w_note = Some note\<rparr>"

definition event_type :: "jsval \<Rightarrow> string" where
  "event_type ev = js_text (val_or (prop_get ev ''eventType'') (JStr ''event''))"

definition event_row :: "string \<Rightarrow> rat \<Rightarrow> timeline_row" where
  "event_row type tm =
     \<lparr>w_key = ''event:'' @ type @ '':'' @ ms_text tm, w_label = type, w_indent = 0, w_start = tm, w_end = tm,
      w_duration = None,
      w_color = (if includes_str ''failed'' type \<or> includes_str ''error'' type \<or> includes_str ''timeout'' type
                 then ''red''
                 else if includes_str ''completed'' type \<or> includes_str ''success'' type then ''green'' else ''blue''),
      w_kind = Event, w_note = None\<rparr>"

definition async_row :: "(rat \<Rightarrow> string) \<Rightarrow> rat \<Rightarrow> rat \<Rightarrow> bool \<Rightarrow> rat \<Rightarrow> rat option \<Rightarrow> timeline_row" where
  "async_row fmt tm envelopeStart enclosed asyncMs ticks =
     \<lparr>w_key = ''export:async:'' @ ms_text tm,
      w_label = (case ticks of Some t \<Rightarrow> ''Async export ('' @ fmt t @ '' ticks)'' | None \<Rightarrow> ''Async export''),
      w_indent = (if enclosed then 2 else 1),
      w_start = max 0 (if envelopeStart = tm then tm - asyncMs else envelopeStart),
      w_end = (if envelopeStart = tm then tm else min (envelopeStart + asyncMs) tm),
      w_duration = Some asyncMs, w_color = ''exportAsync'', w_kind = TickDerived,
      w_note = Some ((case ticks of Some t \<Rightarrow> ms_text t | None \<Rightarrow> ''?'') @ '' ticks x 16.67 ms nominal ''
                 @ em_dash @ '' a tick count, not elapsed time.'')\<rparr>"

definition add_async :: "(rat \<Rightarrow> string) \<Rightarrow> rat \<Rightarrow> rat \<Rightarrow> bool \<Rightarrow> jsval \<Rightarrow> timeline_build \<Rightarrow> timeline_build" where
  "add_async fmt tm lockStart enclosed m st =
     (case positive_ms (prop_get m ''instanceAsyncExportMs'') of
        None \<Rightarrow> st
      | Some asyncMs \<Rightarrow>
          (let st1 = add_row (async_row fmt tm (if enclosed then lockStart else tm) enclosed asyncMs
                 (positive_ms (prop_get m ''instanceAsyncExportTicks''))) st
           in if enclosed
              then st1\<lparr>tb_windows := tb_windows st1 @
                     [\<lparr>dw_start = lockStart, dw_end = tm, dw_children = [length (tb_rows st)]\<rparr>]\<rparr>
              else st1))"

definition export_rows :: "(rat \<Rightarrow> string) \<Rightarrow> rat \<Rightarrow> jsval \<Rightarrow> timeline_build \<Rightarrow> timeline_build" where
  "export_rows fmt tm m st =
     (let lockMs = nullish (finite_ms (prop_get m ''requestExportAndLockMs'')) 0;
          storeMs = nullish (finite_ms (prop_get m ''waitForControllerStoreMs'')) 0;
          lockEnd = tm - storeMs;
          lockStart = lockEnd - lockMs;
          st1 = (if 0 < lockMs
                 then add_row (measured_row (''export:lock:'' @ ms_text tm) ''Request export + lock source''
                        lockStart lockEnd lockMs ''exportQueue''
                        ''Controller wall clock: export request through source lock.'') st
                 else st);
          st2 = (if 0 < storeMs
                 then add_row (measured_row (''export:store:'' @ ms_text tm) ''Wait for store''
                        lockEnd tm storeMs ''exportStore''
                        ''Controller wall clock: waiting for the export to land in the controller store.'') st1
                 else st1)
      in add_async fmt tm lockStart (0 < lockMs \<or> 0 < storeMs) m st2)"

definition transmission_rows :: "rat \<Rightarrow> jsval \<Rightarrow> timeline_build \<Rightarrow> timeline_build" where
  "transmission_rows tm ev st =
     (case positive_ms (prop_get ev ''transmissionMs'') of
        None \<Rightarrow> st
      | Some ms \<Rightarrow> add_row (measured_row (''phase:transmission:'' @ ms_text tm) ''Transmission + payload upload''
          (tm - ms) tm ms ''transmission''
          (''Controller wall clock: import request sent until the destination accepted it ''
            @ ''(its RCON chunk feed runs inside).'')) st)"

definition destination_rows :: "rat \<Rightarrow> jsval \<Rightarrow> timeline_build \<Rightarrow> timeline_build" where
  "destination_rows tm ev st =
     (case positive_ms (prop_get ev ''validationMs'') of
        None \<Rightarrow> st
      | Some ms \<Rightarrow>
          (let st1 = add_row (measured_row (''phase:destimport:'' @ ms_text tm) ''Destination import''
                 (tm - ms) tm ms ''destImport''
                 ''Controller wall clock: destination accepted the import until its verdict arrived.'') st
           in if tb_import st1 = None
              then st1\<lparr>tb_import := Some (length (tb_windows st1)),
                     tb_windows := tb_windows st1 @ [\<lparr>dw_start = tm - ms, dw_end = tm, dw_children = []\<rparr>]\<rparr>
              else st1))"

text \<open>One phase span of an import; inside the import window it is one of its children.\<close>

definition span_count :: "jsval \<Rightarrow> string \<Rightarrow> rat option" where
  "span_count m name =
     (case map_of [(''tiles'', ''tiles_placed''), (''entities'', ''entities_created''), (''fluids'', ''fluids_restored''),
                   (''belts'', ''belt_items_restored''), (''state'', ''circuits_connected'')] name of
        None \<Rightarrow> None
      | Some k \<Rightarrow> positive_ms (prop_get m k))"

definition span_row :: "(rat \<Rightarrow> string) \<Rightarrow> rat \<Rightarrow> rat \<Rightarrow> jsval \<Rightarrow> jsval \<Rightarrow> timeline_row" where
  "span_row fmt tm segStart m sp =
     (let name = js_text (val_or (prop_get sp ''name'') (JStr ''phase''));
          startMs = segStart + nullish (finite_ms (prop_get sp ''startOffsetMs'')) 0;
          dur = nullish (finite_ms (prop_get sp ''durationMs'')) 0;
          base = ostr_or (map_of IMPORT_SPAN_LABELS name) (humanize name)
      in \<lparr>w_key = ''import:'' @ name @ '':'' @ ms_text tm,
          w_label = (case span_count m name of Some c \<Rightarrow> base @ '' ('' @ fmt c @ '')'' | None \<Rightarrow> base),
          w_indent = 2, w_start = startMs, w_end = startMs + max dur 1,
          w_duration = (if dur = 0 then None else Some dur), w_color = name, w_kind = TickDerived,
          w_note = Some (if dur = 0
            then ''Under one tick '' @ em_dash @ '' below what game.tick can resolve, not instant.''
            else ''Tick count x 16.67 ms nominal '' @ em_dash @ '' not elapsed time.'')\<rparr>)"

definition add_span :: "timeline_row \<Rightarrow> timeline_build \<Rightarrow> timeline_build" where
  "add_span r st =
     (let st1 = add_row r st in
      case tb_import st1 of
        None \<Rightarrow> st1
      | Some i \<Rightarrow> st1\<lparr>tb_windows := (tb_windows st1)[i :=
          (tb_windows st1 ! i)\<lparr>dw_children := dw_children (tb_windows st1 ! i) @ [length (tb_rows st)]\<rparr>]\<rparr>)"

definition import_rows :: "(rat \<Rightarrow> string) \<Rightarrow> rat option \<Rightarrow> rat \<Rightarrow> jsval \<Rightarrow> timeline_build \<Rightarrow> timeline_build" where
  "import_rows fmt importStarted tm m st =
     (let segStart = nullish importStarted (tm - nullish (finite_ms (prop_get m ''total_ms'')) 0) in
      case prop_get m ''phaseSpans'' of
        JArr spans \<Rightarrow>
          foldl (\<lambda>st sp. add_span (span_row fmt tm segStart m sp) st) st
            (sort_key (\<lambda>sp. nullish (finite_ms (prop_get sp ''startOffsetMs'')) 0) spans)
      | _ \<Rightarrow> st)"

definition phase_row :: "rat \<Rightarrow> string \<times> jsval \<Rightarrow> timeline_build \<Rightarrow> timeline_build" where
  "phase_row tm e st =
     (if fst e \<in> {''transmissionMs'', ''validationMs'', ''exportTickEstimateMs'', ''exportMs''} then st
      else case positive_ms (snd e) of
             None \<Rightarrow> st
           | Some ms \<Rightarrow> add_row (measured_row (''phase:'' @ fst e @ '':'' @ ms_text tm)
               (humanize (drop_ms_suffix (fst e))) (tm - ms) tm ms (drop_ms_suffix (fst e))
               ''Controller wall clock.'') st)"

text \<open>The body of the loop over the events.\<close>

definition add_event :: "(rat \<Rightarrow> string) \<Rightarrow> jsval \<Rightarrow> rat option \<Rightarrow> timeline_build \<Rightarrow> jsval \<Rightarrow> timeline_build" where
  "add_event fmt detailedSummary importStarted st ev =
     (let tm = nullish (finite_ms (prop_get ev ''elapsedMs'')) 0;
          type = event_type ev;
          st1 = (add_row (event_row type tm) st)\<lparr>tb_total := max (tb_total st) tm\<rparr>;
          exportMetrics = (if truthy (prop_get ev ''exportMetrics'') then prop_get ev ''exportMetrics''
                           else if type = ''transfer_created'' then prop_get detailedSummary ''export'' else JNull);
          st2 = (if truthy exportMetrics then export_rows fmt tm exportMetrics st1 else st1);
          st3 = destination_rows tm ev (transmission_rows tm ev st2);
          st4 = (if truthy (prop_get ev ''importMetrics'')
                 then import_rows fmt importStarted tm (prop_get ev ''importMetrics'') st3 else st3);
          phases = prop_get ev ''phases''
      in if is_object phases then foldl (\<lambda>st e. phase_row tm e st) st4 (entries_of phases) else st4)"

text \<open>The time of the last \<open>import_started\<close> event that has one.\<close>

definition import_started_at :: "jsval list \<Rightarrow> rat option" where
  "import_started_at events =
     foldl (\<lambda>found ev. case finite_ms (prop_get ev ''elapsedMs'') of
         Some tm \<Rightarrow> if truthy (prop_get ev ''eventType'') \<and> js_text (prop_get ev ''eventType'') = ''import_started''
                    then Some tm else found
       | None \<Rightarrow> found) None events"

definition event_build :: "(rat \<Rightarrow> string) \<Rightarrow> jsval list \<Rightarrow> jsval \<Rightarrow> timeline_build" where
  "event_build fmt events detailedSummary =
     foldl (add_event fmt detailedSummary (import_started_at events))
       \<lparr>tb_rows = [], tb_windows = [], tb_import = None, tb_total = 0\<rparr> events"

section \<open>Trimming and residuals\<close>

text \<open>A measured row after the end of the ones before it, and how much was cut off.\<close>

definition trim_row :: "rat \<Rightarrow> timeline_row \<Rightarrow> timeline_row \<times> rat" where
  "trim_row priorEnd r =
     (if w_end r \<le> priorEnd \<and> w_start r < priorEnd
      then (r\<lparr>w_start := priorEnd, w_end := priorEnd, w_duration := Some 0\<rparr>, w_end r - w_start r)
      else if w_start r < priorEnd \<and> priorEnd < w_end r
      then (r\<lparr>w_start := priorEnd, w_duration := Some (w_end r - priorEnd)\<rparr>, priorEnd - w_start r)
      else (r, 0))"

fun trim_rows :: "rat \<Rightarrow> nat list \<Rightarrow> timeline_row list \<Rightarrow> timeline_row list \<times> rat" where
  "trim_rows priorEnd [] rows = (rows, 0)"
| "trim_rows priorEnd (i # is) rows =
     (let (r, cut) = trim_row priorEnd (rows ! i);
          (rows', cuts) = trim_rows (max priorEnd (w_end r)) is (rows[i := r])
      in (rows', cut + cuts))"

definition measured_order :: "timeline_row list \<Rightarrow> nat list" where
  "measured_order rows =
     sort_key (\<lambda>i. w_start (rows ! i)) (filter (\<lambda>i. w_kind (rows ! i) = Measured) [0..<length rows])"

definition clipped :: "rat \<Rightarrow> timeline_row \<Rightarrow> interval" where
  "clipped totalMs r = (max 0 (w_start r), min (w_end r) totalMs)"

definition covered_intervals :: "rat \<Rightarrow> timeline_row list \<Rightarrow> interval list" where
  "covered_intervals totalMs rows = filter (\<lambda>p. fst p < snd p) (map (clipped totalMs) rows)"

definition residual_row :: "interval \<Rightarrow> timeline_row" where
  "residual_row g =
     \<lparr>w_key = ''residual:'' @ ms_text (fst g), w_label = ''Unattributed'', w_indent = 1, w_start = fst g,
      w_end = snd g, w_duration = Some (snd g - fst g), w_color = ''residual'', w_kind = Residual,
      w_note = Some ''Wall-clock time no measured span covers. Bounded by the spans on either side.''\<rparr>"

definition clamp_row :: "detail_window \<Rightarrow> timeline_row \<Rightarrow> timeline_row" where
  "clamp_row win r =
     (let s = min (max (w_start r) (dw_start win)) (dw_end win);
          e = min (max (w_end r) s) (dw_end win)
      in r\<lparr>w_start := s, w_end := e, w_duration := map_option (\<lambda>d. min d (e - s)) (w_duration r)\<rparr>)"

definition detail_gap_row :: "detail_window \<Rightarrow> interval \<Rightarrow> timeline_row" where
  "detail_gap_row win g =
     \<lparr>w_key = ''detailgap:'' @ ms_text (dw_start win) @ '':'' @ ms_text (fst g), w_label = ''No phase detail'',
      w_indent = 2, w_start = dw_start win + fst g, w_end = dw_start win + snd g,
      w_duration = Some (snd g - fst g), w_color = ''detailGap'', w_kind = DetailGap,
      w_note = Some (''Inside a measured window, but past where its tick-derived spans reach. ''
        @ ''Span marks are game.tick deltas; a tick that runs long does not widen them.'')\<rparr>"

text \<open>One detail window: its children are clamped to it, what they leave becomes gap rows.\<close>

definition detail_step :: "timeline_row list \<times> rat \<times> rat \<Rightarrow> detail_window \<Rightarrow> timeline_row list \<times> rat \<times> rat" where
  "detail_step acc win =
     (let (rows, gapMs, windowTotal) = acc in
      if dw_children win = [] then acc
      else let rows1 = foldl (\<lambda>rows i. rows[i := clamp_row win (rows ! i)]) rows (dw_children win);
               windowMs = dw_end win - dw_start win;
               gaps = gapsWithin (map (\<lambda>i. (w_start (rows1 ! i) - dw_start win, w_end (rows1 ! i) - dw_start win))
                        (dw_children win)) windowMs
           in (rows1 @ map (detail_gap_row win) gaps, gapMs + total_length gaps, windowTotal + windowMs))"

definition percent :: "rat \<Rightarrow> rat \<Rightarrow> rat" where
  "percent part whole = (if 0 < whole then part / whole * 100 else 0)"

definition buildTransferTimeline :: "(rat \<Rightarrow> string) \<Rightarrow> jsval list \<Rightarrow> jsval \<Rightarrow> transfer_timeline" where
  "buildTransferTimeline fmt events detailedSummary =
     (let st = event_build fmt (filter truthy events) detailedSummary;
          totalMs = tb_total st;
          order = measured_order (tb_rows st);
          (trimmed, overlapTrimmedMs) = trim_rows 0 order (tb_rows st);
          covered = covered_intervals totalMs (map (\<lambda>i. trimmed ! i) order);
          (rows, detailGapMs, windowTotalMs) =
            foldl detail_step (trimmed @ map residual_row (gapsWithin covered totalMs), 0, 0) (tb_windows st);
          attributedMs = total_length (mergeIntervals covered);
          residualMs = max 0 (totalMs - attributedMs)
      in \<lparr>tl_totalMs = totalMs,
          tl_rows = sort_key w_start (sort_key w_indent rows),
          tl_attribution = \<lparr>at_totalMs = totalMs, at_attributedMs = attributedMs, at_residualMs = residualMs,
            at_residualPct = percent residualMs totalMs, at_overlapTrimmedMs = overlapTrimmedMs,
            at_detailGapMs = detailGapMs, at_detailGapPct = percent detailGapMs windowTotalMs\<rparr>\<rparr>)"

section \<open>Presentation\<close>

record gantt_geometry =
  gg_startPct :: rat
  gg_widthPct :: rat
  gg_markerPct :: rat

definition toGanttGeometry :: "rat \<Rightarrow> rat \<Rightarrow> rat \<Rightarrow> gantt_geometry" where
  "toGanttGeometry startMs endMs totalMs =
     (let scale = (if 0 < totalMs then totalMs else 1);
          startPct = max 0 (min 100 (startMs / scale * 100))
      in \<lparr>gg_startPct = startPct,
          gg_widthPct = (if startMs < endMs then max (4 / 5) (min (100 - startPct) ((endMs - startMs) / scale * 100)) else 0),
          gg_markerPct = max 0 (min 100 (endMs / scale * 100))\<rparr>)"

definition NOTICE_THRESHOLD_PCT :: rat where "NOTICE_THRESHOLD_PCT = 5"
definition DETAIL_GAP_FLOOR_MS :: rat where "DETAIL_GAP_FLOOR_MS = 1000"

text \<open>The percentages are not negative, so \<open>toFixed(0)\<close> rounds half up.\<close>

definition notice_texts :: "attribution \<Rightarrow> (string \<times> string) list" where
  "notice_texts a =
     (let ms = (\<lambda>q. formatMs (Some (Fin q)));
          pct = (\<lambda>q. show_int (math_round q))
      in (if NOTICE_THRESHOLD_PCT < at_residualPct a
          then [(ms (at_residualMs a) @ '' of '' @ ms (at_totalMs a) @ '' ('' @ pct (at_residualPct a)
                   @ ''%) is unattributed'',
                 ''No measured span covers this time. It is bounded by the spans on either side of it.'')]
          else [])
         @ (if NOTICE_THRESHOLD_PCT < at_detailGapPct a \<and> DETAIL_GAP_FLOOR_MS \<le> at_detailGapMs a
            then [(ms (at_detailGapMs a) @ '' of measured work ('' @ pct (at_detailGapPct a) @ ''%) has no phase detail'',
                   ''The window is measured wall clock, but the spans inside it are game.tick deltas ''
                   @ ''scaled by a nominal 60 UPS. A tick that runs long does not widen them, so the ''
                   @ ''breakdown stops short of the window it sits in. The dark-orange bar is the difference, not idle time.'')]
            else []))"

definition describeAttribution :: "attribution \<Rightarrow> (string \<times> string) option" where
  "describeAttribution a =
     (let notices = notice_texts a in
      if notices = [] then None
      else Some (fst (hd notices),
        join_with '' '' (map (\<lambda>n. if 1 < length notices then fst n @ '': '' @ snd n else snd n) notices)))"

end
