(* ===== verification/TimelineRules.thy ===== *)
theory TimelineRules
  imports Timeline "HOL-Library.Multiset"
begin

text \<open>
  What the timeline of a transfer shows: measured spans never overlap, and measured and residual
  time are the whole of the transfer.
\<close>

section \<open>The rows of the events\<close>

text \<open>The children of a window are tick-derived rows.\<close>

definition children_ok :: "timeline_row list \<Rightarrow> detail_window \<Rightarrow> bool" where
  "children_ok rows win = (\<forall>i\<in>set (dw_children win). i < length rows \<and> w_kind (rows ! i) = TickDerived)"

definition row_ok :: "timeline_row \<Rightarrow> bool" where
  "row_ok r = (w_kind r \<in> {Measured, TickDerived, Event} \<and> (w_kind r = Measured \<longrightarrow> w_start r < w_end r))"

definition build_ok :: "timeline_build \<Rightarrow> bool" where
  "build_ok st =
     (0 \<le> tb_total st \<and> (\<forall>r\<in>set (tb_rows st). row_ok r) \<and> (\<forall>win\<in>set (tb_windows st). children_ok (tb_rows st) win)
      \<and> (\<forall>i. tb_import st = Some i \<longrightarrow> i < length (tb_windows st)))"

lemma children_ok_append: "children_ok rows win \<Longrightarrow> children_ok (rows @ new) win"
  by (auto simp: children_ok_def nth_append)

lemma add_row_simps [simp]:
  "tb_windows (add_row r st) = tb_windows st" "tb_import (add_row r st) = tb_import st"
  "tb_total (add_row r st) = tb_total st" "tb_rows (add_row r st) = tb_rows st @ [r]"
  by (simp_all add: add_row_def)

lemma add_row_ok: "build_ok st \<Longrightarrow> row_ok r \<Longrightarrow> build_ok (add_row r st)"
  by (auto simp: build_ok_def intro: children_ok_append)

lemma measured_row_ok: "s < e \<Longrightarrow> row_ok (measured_row k l s e d c n)"
  by (simp add: measured_row_def row_ok_def)

lemma add_window_ok:
  assumes "build_ok st" and "children_ok (tb_rows st) win"
  shows "build_ok (st\<lparr>tb_windows := tb_windows st @ [win]\<rparr>)"
    and "build_ok (st\<lparr>tb_import := Some (length (tb_windows st)), tb_windows := tb_windows st @ [win]\<rparr>)"
  using assms unfolding build_ok_def by (auto intro: less_SucI)

lemma add_async_ok:
  assumes "build_ok st"
  shows "build_ok (add_async fmt tm lockStart enclosed m st)"
proof (cases "positive_ms (prop_get m ''instanceAsyncExportMs'')")
  case None
  with assms show ?thesis by (simp add: add_async_def)
next
  case (Some ms)
  define r where "r = async_row fmt tm (if enclosed then lockStart else tm) enclosed ms
    (positive_ms (prop_get m ''instanceAsyncExportTicks''))"
  define win where "win = \<lparr>dw_start = lockStart, dw_end = tm, dw_children = [length (tb_rows st)]\<rparr>"
  have "w_kind r = TickDerived" by (simp add: r_def async_row_def)
  then have "build_ok (add_row r st)" "children_ok (tb_rows (add_row r st)) win"
    using assms by (simp_all add: add_row_ok row_ok_def children_ok_def win_def)
  then show ?thesis
    using add_window_ok(1) [of "add_row r st" win] by (simp add: add_async_def Some r_def [symmetric] win_def [symmetric] Let_def)
qed

lemma export_rows_ok:
  assumes "build_ok st"
  shows "build_ok (export_rows fmt tm m st)"
proof -
  have "build_ok (if (0 :: rat) < d then add_row (measured_row k l s (s + d) d c n) st else st)" if "build_ok st" for k l s d c n st
    using that by (simp add: add_row_ok measured_row_ok)
  from this [where s = "tm - a - b" and d = b for a b] this [where s = "tm - a" and d = a for a] show ?thesis
    using assms unfolding export_rows_def Let_def by (intro add_async_ok) (simp add: add_row_ok measured_row_ok)
qed

lemma positive_ms_pos: "positive_ms v = Some ms \<Longrightarrow> 0 < ms"
  by (auto simp: positive_ms_def split: option.splits if_splits)

lemma transmission_rows_ok: "build_ok st \<Longrightarrow> build_ok (transmission_rows tm ev st)"
  unfolding transmission_rows_def
  by (auto intro!: add_row_ok measured_row_ok dest: positive_ms_pos split: option.split)

lemma destination_rows_ok:
  assumes "build_ok st"
  shows "build_ok (destination_rows tm ev st)"
proof (cases "positive_ms (prop_get ev ''validationMs'')")
  case None
  with assms show ?thesis by (simp add: destination_rows_def)
next
  case (Some ms)
  then have 1: "build_ok (add_row (measured_row k l (tm - ms) tm ms c n) st)" for k l c n
    using assms positive_ms_pos [OF Some] by (simp add: add_row_ok measured_row_ok)
  show ?thesis
    using add_window_ok(2) [OF 1] 1 by (simp add: destination_rows_def Some Let_def children_ok_def)
qed

lemma add_span_ok:
  assumes "build_ok st" and "w_kind r = TickDerived"
  shows "build_ok (add_span r st)"
proof (cases "tb_import st")
  case None
  then show ?thesis using assms by (simp add: add_span_def add_row_ok row_ok_def)
next
  case (Some i)
  have ok: "build_ok (add_row r st)" using assms by (simp add: add_row_ok row_ok_def)
  have i: "i < length (tb_windows st)" using assms(1) Some by (simp add: build_ok_def)
  define win where "win = (tb_windows st ! i)\<lparr>dw_children := dw_children (tb_windows st ! i) @ [length (tb_rows st)]\<rparr>"
  have "children_ok (tb_rows st @ [r]) (tb_windows st ! i)"
    using ok i by (simp add: build_ok_def)
  then have "children_ok (tb_rows st @ [r]) win"
    using assms(2) by (auto simp: children_ok_def win_def)
  then have "\<forall>w\<in>set ((tb_windows st)[i := win]). children_ok (tb_rows st @ [r]) w"
    using ok set_update_subset_insert [of "tb_windows st" i win] by (auto simp: build_ok_def)
  then show ?thesis
    using ok Some i by (simp add: add_span_def build_ok_def win_def [symmetric])
qed

lemma foldl_ok: "build_ok st \<Longrightarrow> (\<And>st x. build_ok st \<Longrightarrow> build_ok (f st x)) \<Longrightarrow> build_ok (foldl f st xs)"
  by (induction xs arbitrary: st) auto

lemma import_rows_ok: "build_ok st \<Longrightarrow> build_ok (import_rows fmt s tm m st)"
  unfolding import_rows_def Let_def
  by (auto intro!: foldl_ok add_span_ok simp: span_row_def Let_def split: jsval.split)

lemma phase_row_ok: "build_ok st \<Longrightarrow> build_ok (phase_row tm e st)"
  unfolding phase_row_def
  by (auto intro!: add_row_ok measured_row_ok dest: positive_ms_pos split: option.split)

lemma event_ok:
  assumes "build_ok st"
  shows "build_ok ((add_row (event_row t tm) st)\<lparr>tb_total := max (tb_total st) tm\<rparr>)"
proof -
  have "build_ok (add_row (event_row t tm) st)"
    using assms by (intro add_row_ok) (simp_all add: row_ok_def event_row_def)
  then show ?thesis by (simp add: build_ok_def le_max_iff_disj)
qed

lemma add_event_ok:
  assumes "build_ok st"
  shows "build_ok (add_event fmt summary s st ev)"
  unfolding add_event_def Let_def
  using event_ok [OF assms]
  by (simp add: foldl_ok phase_row_ok import_rows_ok destination_rows_ok transmission_rows_ok export_rows_ok)

lemma event_build_ok: "build_ok (event_build fmt events summary)"
  unfolding event_build_def by (intro foldl_ok add_event_ok) (simp_all add: build_ok_def)

section \<open>Trimming\<close>

fun trim_list :: "rat \<Rightarrow> timeline_row list \<Rightarrow> timeline_row list" where
  "trim_list p [] = []"
| "trim_list p (r # rs) = fst (trim_row p r) # trim_list (max p (w_end (fst (trim_row p r)))) rs"

definition row_length :: "timeline_row \<Rightarrow> rat" where
  "row_length r = w_end r - w_start r"

lemma trim_row_facts:
  assumes "w_start r \<le> w_end r"
  shows "p \<le> w_start (fst (trim_row p r))" "w_start (fst (trim_row p r)) \<le> w_end (fst (trim_row p r))"
    "row_length r = row_length (fst (trim_row p r)) + snd (trim_row p r)" "w_kind (fst (trim_row p r)) = w_kind r"
  using assms by (auto simp: trim_row_def row_length_def)

lemma trim_kind: "w_kind (fst (trim_row p r)) = w_kind r"
  by (simp add: trim_row_def)

lemma map_nth_update_other: "i \<notin> set is \<Longrightarrow> map (\<lambda>k. rows[i := r] ! k) is = map (\<lambda>k. rows ! k) is"
  by (intro map_cong refl) (metis nth_list_update_neq)

lemma trim_rows_effect:
  assumes "distinct is" and "\<forall>i\<in>set is. i < length rows"
  shows "map (\<lambda>i. fst (trim_rows p is rows) ! i) is = trim_list p (map (\<lambda>i. rows ! i) is)"
    and "length (fst (trim_rows p is rows)) = length rows"
    and "j \<notin> set is \<Longrightarrow> fst (trim_rows p is rows) ! j = rows ! j"
    and "map w_kind (fst (trim_rows p is rows)) = map w_kind rows"
  using assms
proof (induction p "is" rows arbitrary: j rule: trim_rows.induct)
  case (2 p i "is" rows)
  let ?r = "fst (trim_row p (rows ! i))" and ?rows = "rows[i := fst (trim_row p (rows ! i))]"
  obtain r c where rc: "trim_row p (rows ! i) = (r, c)" by fastforce
  have step: "fst (trim_rows p (i # is) rows) = fst (trim_rows (max p (w_end r)) is ?rows)"
    by (simp add: rc split: prod.split)
  note IH = "2.IH" [OF rc [symmetric] refl]
  {
    case 1
    then have i: "i \<notin> set is" "i < length rows" by simp_all
    then have "trim_list (max p (w_end r)) (map (\<lambda>k. rows[i := r] ! k) is) = trim_list (max p (w_end r)) (map (\<lambda>k. rows ! k) is)"
      by (intro arg_cong [where f = "trim_list (max p (w_end r))"] map_nth_update_other)
    then show ?case using 1 IH(1,3) i unfolding step by (simp add: rc)
  next
    case 2
    then show ?case using IH(2) unfolding step by (simp add: rc)
  next
    case 3
    then show ?case using IH(3) unfolding step by (simp add: rc)
  next
    case 4
    have "map w_kind (rows[i := r]) = map w_kind rows"
      using trim_kind [of p "rows ! i"] rc 4(2) by (metis fst_conv list.set_intros(1) list_update_id map_update nth_map)
    then show ?case using 4 IH(4) unfolding step by (simp add: rc)
  }
qed simp_all

lemma trim_list_ordered:
  assumes "\<forall>r\<in>set rs. w_start r \<le> w_end r"
  shows "sorted_wrt (\<lambda>r s. w_end r \<le> w_start s) (trim_list p rs)
    \<and> (\<forall>r\<in>set (trim_list p rs). p \<le> w_start r \<and> w_start r \<le> w_end r)"
  using assms
proof (induction p rs rule: trim_list.induct)
  case (2 p r rs)
  then show ?case using trim_row_facts(1,2) [of r p] by (auto intro: order_trans)
qed simp

lemma trim_list_lengths:
  assumes "\<forall>r\<in>set rs. w_start r \<le> w_end r" and "distinct is" and "\<forall>i\<in>set is. i < length rows"
    and "rs = map (\<lambda>i. rows ! i) is"
  shows "sum_list (map row_length rs) = sum_list (map row_length (trim_list p rs)) + snd (trim_rows p is rows)"
  using assms
proof (induction "is" arbitrary: p rs rows)
  case (Cons i "is")
  obtain r c where rc: "trim_row p (rows ! i) = (r, c)" by fastforce
  have same: "map (\<lambda>k. rows[i := r] ! k) is = map (\<lambda>k. rows ! k) is"
    using Cons.prems(2) by (intro map_nth_update_other) simp
  have "sum_list (map row_length (map (\<lambda>k. rows ! k) is)) =
      sum_list (map row_length (trim_list (max p (w_end r)) (map (\<lambda>k. rows ! k) is)))
      + snd (trim_rows (max p (w_end r)) is (rows[i := r]))"
    using Cons.prems by (intro Cons.IH) (auto simp: same)
  then show ?case
    using trim_row_facts(3) [of "rows ! i" p] Cons.prems(1) by (simp add: Cons.prems(4) rc split: prod.split)
qed simp

text \<open>The rows of a list that satisfy a condition, by their positions.\<close>

lemma filter_positions:
  "mset (filter P xs) = mset (map (\<lambda>i. xs ! i) (sort_key k (filter (\<lambda>i. P (xs ! i)) [0..<length xs])))"
proof -
  have "filter P xs = filter P (map (\<lambda>i. xs ! i) [0..<length xs])" by (simp add: map_nth)
  also have "\<dots> = map (\<lambda>i. xs ! i) (filter (\<lambda>i. P (xs ! i)) [0..<length xs])"
    by (simp add: filter_map o_def)
  finally show ?thesis by simp
qed

lemma measured_order_facts:
  "distinct (measured_order rows)" "\<forall>i\<in>set (measured_order rows). i < length rows \<and> w_kind (rows ! i) = Measured"
  by (auto simp: measured_order_def)

lemma measured_order_rows:
  "mset (map (\<lambda>i. rows ! i) (measured_order rows)) = mset (filter (\<lambda>r. w_kind r = Measured) rows)"
  unfolding measured_order_def by (rule filter_positions [symmetric])

section \<open>Windows\<close>

lemma filter_update:
  assumes "P x = P (xs ! i)" and "\<not> P x"
  shows "filter P (xs[i := x]) = filter P xs"
proof (cases "i < length xs")
  case True
  then have "xs[i := x] = take i xs @ x # drop (Suc i) xs" "xs = take i xs @ xs ! i # drop (Suc i) xs"
    by (simp_all add: upd_conv_take_nth_drop id_take_nth_drop)
  then show ?thesis using assms by (metis filter.simps(2) filter_append)
qed (simp add: list_update_beyond)

text \<open>What the windows do to the other rows: nothing.\<close>

lemma clamp_kind: "w_kind (clamp_row win r) = w_kind r"
  by (simp add: clamp_row_def Let_def)

lemma clamp_children:
  assumes "children_ok rows win" and "set is \<subseteq> set (dw_children win)" and "\<And>r. P r \<Longrightarrow> w_kind r \<noteq> TickDerived"
  defines "rows' \<equiv> foldl (\<lambda>rows i. rows[i := clamp_row win (rows ! i)]) rows is"
  shows "filter P rows' = filter P rows \<and> map w_kind rows' = map w_kind rows"
  unfolding rows'_def using assms(1,2)
proof (induction "is" arbitrary: rows)
  case (Cons i "is")
  let ?rows = "rows[i := clamp_row win (rows ! i)]"
  have i: "i < length rows" "w_kind (rows ! i) = TickDerived"
    using Cons.prems by (auto simp: children_ok_def)
  have k: "map w_kind ?rows = map w_kind rows"
    by (metis clamp_kind i(1) list_update_id map_update nth_map)
  then have "children_ok ?rows win"
    using Cons.prems(1) unfolding children_ok_def by (metis length_list_update nth_map)
  moreover have "filter P ?rows = filter P rows"
    using i(2) assms(3) clamp_kind by (intro filter_update) metis+
  ultimately show ?case using Cons.IH [of ?rows] Cons.prems(2) k by simp
qed simp

lemma children_ok_kinds: "map w_kind rows' = map w_kind rows \<Longrightarrow> children_ok rows' win = children_ok rows win"
  unfolding children_ok_def by (metis length_map nth_map)

lemma detail_steps:
  assumes "\<forall>win\<in>set wins. children_ok (fst acc) win" and "\<And>r. P r \<Longrightarrow> w_kind r \<noteq> TickDerived \<and> w_kind r \<noteq> DetailGap"
  shows "filter P (fst (foldl detail_step acc wins)) = filter P (fst acc)"
  using assms(1)
proof (induction wins arbitrary: acc)
  case (Cons win wins)
  obtain rows a b where acc: "acc = (rows, a, b)" by (cases acc)
  have "filter P (fst (detail_step acc win)) = filter P rows
      \<and> (\<exists>new. map w_kind (fst (detail_step acc win)) = map w_kind rows @ new)"
  proof (cases "dw_children win = []")
    case True
    then show ?thesis by (simp add: acc detail_step_def)
  next
    case False
    have "children_ok rows win" using Cons.prems by (simp add: acc)
    from clamp_children [OF this order_refl, of P] assms(2) False show ?thesis
      by (auto simp: acc detail_step_def Let_def detail_gap_row_def filter_empty_conv dest: assms(2))
  qed
  moreover have "children_ok (fst (detail_step acc win)) w"
    if "children_ok rows w" "map w_kind (fst (detail_step acc win)) = map w_kind rows @ new" for w new
    using that(1) arg_cong [OF that(2), of length] that(2) unfolding children_ok_def
    by (metis add_lessD1 length_append length_map nth_append nth_map trans_less_add1)
  ultimately show ?case using Cons.IH [of "detail_step acc win"] Cons.prems by (auto simp: acc)
qed simp

section \<open>The whole of the transfer\<close>

definition row_holds :: "timeline_row \<Rightarrow> rat \<Rightarrow> bool" where
  "row_holds r x = (w_start r \<le> x \<and> x < w_end r)"

text \<open>The part of a row inside the transfer.\<close>

definition inside :: "rat \<Rightarrow> timeline_row \<Rightarrow> rat" where
  "inside totalMs r = max 0 (min (w_end r) totalMs - max 0 (w_start r))"

lemma covered_Cons:
  "covered_intervals t (r # rs) =
     (if max 0 (w_start r) < min (w_end r) t then [(max 0 (w_start r), min (w_end r) t)] else [])
     @ covered_intervals t rs"
  by (simp add: covered_intervals_def clipped_def)

lemma covered_bounds:
  "\<forall>p\<in>set (covered_intervals t rs). 0 \<le> fst p \<and> snd p \<le> t"
  "length (covered_intervals t rs) \<le> length rs"
  unfolding covered_intervals_def by (auto simp: clipped_def intro: order_trans [OF length_filter_le])

lemma covered_length: "total_length (covered_intervals t rs) = sum_list (map (inside t) rs)"
  by (induction rs) (auto simp: covered_Cons inside_def covered_intervals_def [of t "[]"])

lemma covered_instants:
  assumes "\<forall>r\<in>set rs. 0 \<le> w_start r"
  shows "covers (covered_intervals t rs) x \<longleftrightarrow> x < t \<and> (\<exists>r\<in>set rs. row_holds r x)"
  using assms
proof (induction rs)
  case (Cons r rs)
  have "covers (if max 0 (w_start r) < min (w_end r) t then [(max 0 (w_start r), min (w_end r) t)] else []) x
      \<longleftrightarrow> x < t \<and> row_holds r x"
    using Cons.prems by (auto simp: spans_at_def row_holds_def)
  then show ?case using Cons by (auto simp: covered_Cons)
qed (simp add: covered_intervals_def)

lemma covered_ordered:
  assumes "sorted_wrt (\<lambda>r s. w_end r \<le> w_start s) rs"
  shows "ordered (covered_intervals t rs)"
  using assms
proof (induction rs)
  case (Cons r rs)
  have "min (w_end r) t \<le> fst p" if "p \<in> set (covered_intervals t rs)" for p
  proof -
    from that obtain s where "s \<in> set rs" "fst p = max 0 (w_start s)" by (auto simp: covered_intervals_def clipped_def)
    with Cons.prems show ?thesis by (simp add: min_le_iff_disj le_max_iff_disj)
  qed
  with Cons show ?case by (simp add: covered_Cons)
qed (simp add: covered_intervals_def)

lemma at_most_one:
  assumes "sorted_wrt (\<lambda>r s. w_end r \<le> w_start s) rs"
  shows "length (filter (\<lambda>r. row_holds r x) rs) \<le> 1"
  using assms
proof (induction rs)
  case (Cons r rs)
  show ?case
  proof (cases "row_holds r x")
    case True
    then have "filter (\<lambda>s. row_holds s x) rs = []"
      using Cons.prems by (fastforce simp: row_holds_def filter_empty_conv)
    with True show ?thesis by simp
  qed (use Cons in simp)
qed simp

lemma same_rows:
  assumes "mset xs = mset ys"
  shows "set xs = set ys" "length (filter P xs) = length (filter P ys)" "sum_list (map (f :: timeline_row \<Rightarrow> rat) xs) = sum_list (map f ys)"
    "length xs = length ys"
proof -
  show "set xs = set ys" by (rule mset_eq_setD [OF assms])
  have "mset (filter P xs) = mset (filter P ys)" using assms by simp
  then show "length (filter P xs) = length (filter P ys)" by (rule mset_eq_length)
  have "sum_mset (mset (map f xs)) = sum_mset (mset (map f ys))" using assms by simp
  then show "sum_list (map f xs) = sum_list (map f ys)" by (simp only: sum_mset_sum_list)
  show "length xs = length ys" by (rule mset_eq_length [OF assms])
qed

text \<open>The measured rows after trimming, in the order of the trimming, and what they leave.\<close>

definition trimmed_rows :: "timeline_build \<Rightarrow> timeline_row list" where
  "trimmed_rows st =
     map (\<lambda>i. fst (trim_rows 0 (measured_order (tb_rows st)) (tb_rows st)) ! i) (measured_order (tb_rows st))"

lemma trimmed_rows_facts:
  assumes "build_ok st"
  defines "rows \<equiv> fst (trim_rows 0 (measured_order (tb_rows st)) (tb_rows st))"
  shows "sorted_wrt (\<lambda>r s. w_end r \<le> w_start s) (trimmed_rows st)"
    and "\<forall>r\<in>set (trimmed_rows st). 0 \<le> w_start r"
    and "mset (filter (\<lambda>r. w_kind r = Measured) rows) = mset (trimmed_rows st)"
    and "map w_kind rows = map w_kind (tb_rows st)"
    and "sum_list (map row_length (filter (\<lambda>r. w_kind r = Measured) (tb_rows st))) =
       sum_list (map row_length (trimmed_rows st)) + snd (trim_rows 0 (measured_order (tb_rows st)) (tb_rows st))"
proof -
  let ?o = "measured_order (tb_rows st)" and ?R = "tb_rows st"
  have o: "distinct ?o" "\<forall>i\<in>set ?o. i < length ?R" using measured_order_facts [of ?R] by auto
  have rs: "trimmed_rows st = trim_list 0 (map (\<lambda>i. ?R ! i) ?o)"
    using trim_rows_effect(1) [OF o] by (simp add: trimmed_rows_def)
  have proper: "\<forall>r\<in>set (map (\<lambda>i. ?R ! i) ?o). w_start r \<le> w_end r"
  proof -
    have "w_start (?R ! i) \<le> w_end (?R ! i)" if "i \<in> set ?o" for i
    proof -
      have "row_ok (?R ! i)" "w_kind (?R ! i) = Measured"
        using assms(1) measured_order_facts(2) [of ?R] that by (simp_all add: build_ok_def)
      then show ?thesis by (simp add: row_ok_def)
    qed
    then show ?thesis by simp
  qed
  show "sorted_wrt (\<lambda>r s. w_end r \<le> w_start s) (trimmed_rows st)" "\<forall>r\<in>set (trimmed_rows st). 0 \<le> w_start r"
    using trim_list_ordered [OF proper, of 0] by (auto simp: rs)
  show kinds: "map w_kind rows = map w_kind ?R"
    unfolding rows_def by (rule trim_rows_effect(4) [OF o])
  have same_kind: "w_kind (rows ! i) = w_kind (?R ! i)" if "i < length ?R" for i
    using kinds that by (metis length_map nth_map)
  have len: "length rows = length ?R" using kinds by (metis length_map)
  have "filter (\<lambda>i. w_kind (rows ! i) = Measured) [0..<length rows] = filter (\<lambda>i. w_kind (?R ! i) = Measured) [0..<length ?R]"
    using same_kind len by (intro filter_cong) auto
  then have "mset (filter (\<lambda>r. w_kind r = Measured) rows) = mset (map (\<lambda>i. rows ! i) ?o)"
    using filter_positions [of "\<lambda>r. w_kind r = Measured" rows "\<lambda>i. w_start (?R ! i)"] by (simp add: measured_order_def)
  then show "mset (filter (\<lambda>r. w_kind r = Measured) rows) = mset (trimmed_rows st)"
    by (simp add: trimmed_rows_def rows_def)
  show "sum_list (map row_length (filter (\<lambda>r. w_kind r = Measured) ?R)) =
      sum_list (map row_length (trimmed_rows st)) + snd (trim_rows 0 ?o ?R)"
    using trim_list_lengths [OF proper o refl] same_rows(3) [OF measured_order_rows [of ?R], of row_length]
    by (simp add: rs)
qed

lemma timeline_rows:
  assumes "st = event_build fmt (filter truthy events) summary"
    and "G = gapsWithin (covered_intervals (tb_total st) (trimmed_rows st)) (tb_total st)"
    and "line = buildTransferTimeline fmt events summary"
  shows "mset (filter (\<lambda>r. w_kind r = Measured) (tl_rows line)) = mset (trimmed_rows st)"
    and "mset (filter (\<lambda>r. w_kind r = Residual) (tl_rows line)) = mset (map residual_row G)"
    and "tl_totalMs line = tb_total st"
    and "at_attributedMs (tl_attribution line) = total_length (mergeIntervals (covered_intervals (tb_total st) (trimmed_rows st)))"
    and "at_residualMs (tl_attribution line) = max 0 (tb_total st - at_attributedMs (tl_attribution line))"
    and "at_overlapTrimmedMs (tl_attribution line) = snd (trim_rows 0 (measured_order (tb_rows st)) (tb_rows st))"
proof -
  let ?o = "measured_order (tb_rows st)" and ?R = "tb_rows st"
  define rows where "rows = fst (trim_rows 0 ?o ?R)"
  define acc where "acc = foldl detail_step (rows @ map residual_row G, 0, 0) (tb_windows st)"
  have ok: "build_ok st" by (simp add: assms(1) event_build_ok)
  note t = trimmed_rows_facts [OF ok, folded rows_def]
  have cov: "covered_intervals (tb_total st) (map (\<lambda>i. rows ! i) ?o) = covered_intervals (tb_total st) (trimmed_rows st)"
    by (simp add: trimmed_rows_def rows_def)
  obtain cut where tr: "trim_rows 0 ?o ?R = (rows, cut)" by (metis rows_def prod.collapse)
  obtain rows2 gap wt where acc2: "acc = (rows2, gap, wt)" by (cases acc)
  have line: "line = \<lparr>tl_totalMs = tb_total st, tl_rows = sort_key w_start (sort_key w_indent rows2),
      tl_attribution = \<lparr>at_totalMs = tb_total st,
        at_attributedMs = total_length (mergeIntervals (covered_intervals (tb_total st) (trimmed_rows st))),
        at_residualMs = max 0 (tb_total st - total_length (mergeIntervals (covered_intervals (tb_total st) (trimmed_rows st)))),
        at_residualPct = percent (max 0 (tb_total st - total_length (mergeIntervals (covered_intervals (tb_total st) (trimmed_rows st))))) (tb_total st),
        at_overlapTrimmedMs = cut, at_detailGapMs = gap, at_detailGapPct = percent gap wt\<rparr>\<rparr>"
    using acc2 unfolding assms(3) buildTransferTimeline_def assms(1) [symmetric] Let_def tr
    by (simp add: cov assms(2) [symmetric] acc_def)
  then show "tl_totalMs line = tb_total st"
    "at_attributedMs (tl_attribution line) = total_length (mergeIntervals (covered_intervals (tb_total st) (trimmed_rows st)))"
    "at_residualMs (tl_attribution line) = max 0 (tb_total st - at_attributedMs (tl_attribution line))"
    "at_overlapTrimmedMs (tl_attribution line) = snd (trim_rows 0 ?o ?R)"
    by (simp_all add: tr)
  have wins: "\<forall>win\<in>set (tb_windows st). children_ok (rows @ map residual_row G) win"
    using ok children_ok_kinds [OF t(4)] by (auto simp: build_ok_def intro: children_ok_append)
  have keep: "mset (filter P (tl_rows line)) = mset (filter P (rows @ map residual_row G))"
    if "\<And>r. P r \<Longrightarrow> w_kind r \<noteq> TickDerived \<and> w_kind r \<noteq> DetailGap" for P
  proof -
    have "filter P rows2 = filter P (rows @ map residual_row G)"
      using detail_steps [of "tb_windows st" "(rows @ map residual_row G, 0, 0)" P] wins that acc2
      by (simp add: acc_def)
    from arg_cong [OF this, of mset] show ?thesis by (simp add: line)
  qed
  have k: "w_kind (residual_row g) = Residual" for g by (simp add: residual_row_def)
  have "filter (\<lambda>r. w_kind r = Residual) rows = []"
  proof -
    have "\<forall>r\<in>set rows. w_kind r \<in> {Measured, TickDerived, Event}"
    proof -
      have "w_kind ` set rows = w_kind ` set ?R" using arg_cong [OF t(4), of set] by simp
      then show ?thesis using ok unfolding build_ok_def row_ok_def by (metis imageE imageI)
    qed
    then show ?thesis by (fastforce simp: filter_empty_conv)
  qed
  then show "mset (filter (\<lambda>r. w_kind r = Residual) (tl_rows line)) = mset (map residual_row G)"
    by (subst keep) (auto simp: k filter_map o_def)
  have "mset (filter (\<lambda>r. w_kind r = Measured) (tl_rows line)) = mset (filter (\<lambda>r. w_kind r = Measured) rows)"
    by (subst keep) (auto simp: k filter_map o_def)
  with t(3) show "mset (filter (\<lambda>r. w_kind r = Measured) (tl_rows line)) = mset (trimmed_rows st)" by simp
qed

lemma timeline_accounts:
  fixes fmt :: "rat \<Rightarrow> string" and events :: "jsval list" and summary :: jsval
  defines "line \<equiv> buildTransferTimeline fmt events summary"
  defines "M \<equiv> filter (\<lambda>r. w_kind r = Measured) (tl_rows line)"
    and "R \<equiv> filter (\<lambda>r. w_kind r = Residual) (tl_rows line)"
    and "recorded \<equiv> filter (\<lambda>r. w_kind r = Measured) (tb_rows (event_build fmt (filter truthy events) summary))"
    and "a \<equiv> tl_attribution line"
  shows "length (filter (\<lambda>r. row_holds r x) M) \<le> 1
    \<and> sum_list (map row_length recorded) = sum_list (map row_length M) + at_overlapTrimmedMs a
    \<and> at_attributedMs a + at_residualMs a = tl_totalMs line
    \<and> 0 \<le> at_attributedMs a \<and> 0 \<le> at_residualMs a
    \<and> at_attributedMs a = sum_list (map (inside (tl_totalMs line)) M)
    \<and> \<not> (\<exists>r\<in>set R. row_holds r x \<and> (x < 0 \<or> tl_totalMs line \<le> x \<or> (\<exists>m\<in>set M. row_holds m x)))
    \<and> \<not> (\<exists>r\<in>set R. row_length r \<le> 2)
    \<and> sum_list (map row_length R) \<le> at_residualMs a
    \<and> at_residualMs a \<le> sum_list (map row_length R) + 2 * of_nat (length M + 1)"
proof -
  define st where "st = event_build fmt (filter truthy events) summary"
  define C where "C = covered_intervals (tb_total st) (trimmed_rows st)"
  define G where "G = gap_loop (tb_total st) 0 (mergeIntervals C)"
  define L where "L = filter long_gap G"
  have ok: "build_ok st" by (simp add: st_def event_build_ok)
  note t = trimmed_rows_facts [OF ok]
  note rows = timeline_rows [OF st_def, of "gapsWithin C (tb_total st)" line, unfolded C_def, OF refl meta_eq_to_obj_eq [OF line_def], folded C_def]
  have GL: "gapsWithin C (tb_total st) = L" by (simp add: gapsWithin_def L_def G_def)
  have M: "mset M = mset (trimmed_rows st)" using rows(1) by (simp add: M_def)
  have Rs: "mset R = mset (map residual_row L)" using rows(2) by (simp add: R_def GL)
  have T: "tl_totalMs line = tb_total st" by (rule rows(3))
  have C: "ordered C" "total_length C = sum_list (map (inside (tb_total st)) M)"
    "length C \<le> length M"
    using covered_ordered [OF t(1)] covered_length [of "tb_total st" "trimmed_rows st"]
      covered_bounds(2) [of "tb_total st" "trimmed_rows st"] same_rows(3,4) [OF M]
    by (simp_all add: C_def)
  have bounds: "\<forall>p\<in>set (mergeIntervals C). 0 \<le> fst p \<and> snd p \<le> tb_total st"
  proof
    fix p assume p: "p \<in> set (mergeIntervals C)"
    show "0 \<le> fst p \<and> snd p \<le> tb_total st"
      using merged_bounds [OF _ p] covered_bounds(1) [of "tb_total st" "trimmed_rows st"] by (simp add: C_def)
  qed
  have "0 \<le> tb_total st" using ok by (simp add: build_ok_def)
  note g = gap_loop_fills [OF separated_ordered [OF merged(1)] bounds this, of x, folded G_def]
  have att: "at_attributedMs a = total_length C"
    using rows(4) merged_ordered(1) [OF C(1)] by (simp add: a_def C_def)
  have G0: "0 \<le> total_length G" "total_length L \<le> total_length G" using g by (simp_all add: total_length_nonneg total_length_filter_le L_def)
  have C0: "0 \<le> total_length C" by (rule total_length_nonneg [OF C(1)])
  have sum: "total_length G + total_length C = tb_total st"
    using g merged_ordered(1) [OF C(1)] by simp
  have res: "at_residualMs a = total_length G"
    using rows(5) att sum G0(1) by (simp add: a_def max_def)
  have RL: "sum_list (map row_length R) = total_length L"
    using same_rows(3) [OF Rs, of row_length]
    by (simp add: o_def row_length_def residual_row_def total_length_def)
  have "length G \<le> length M + 1"
    using g merged_ordered(2) [OF C(1)] C(3) by linarith
  then have few: "2 * of_nat (length G) \<le> (2 * of_nat (length M + 1) :: rat)" by (metis mult_left_mono of_nat_le_iff zero_le_numeral)
  have inst: "\<not> (\<exists>r\<in>set R. row_holds r x \<and> (x < 0 \<or> tl_totalMs line \<le> x \<or> (\<exists>m\<in>set M. row_holds m x)))"
  proof
    assume "\<exists>r\<in>set R. row_holds r x \<and> (x < 0 \<or> tl_totalMs line \<le> x \<or> (\<exists>m\<in>set M. row_holds m x))"
    then obtain p where p: "p \<in> set L" "row_holds (residual_row p) x"
        "x < 0 \<or> tl_totalMs line \<le> x \<or> (\<exists>m\<in>set M. row_holds m x)"
      using same_rows(1) [OF Rs] by auto
    then have "covers G x" by (auto simp: covers_def L_def row_holds_def residual_row_def spans_at_def)
    then have "0 \<le> x" "x < tb_total st" "\<not> covers C x" using g merged(2) by auto
    then show False
      using p(3) covered_instants [OF t(2), of "tb_total st" x] same_rows(1) [OF M] by (simp add: T C_def)
  qed
  have long: "\<not> (\<exists>r\<in>set R. row_length r \<le> 2)"
    using same_rows(1) [OF Rs]
    by (auto simp: L_def long_gap_def RESIDUAL_FLOOR_MS_def row_length_def residual_row_def)
  have "length (filter (\<lambda>r. row_holds r x) M) \<le> 1"
    using at_most_one [OF t(1), of x] same_rows(2) [OF M] by simp
  moreover have "sum_list (map row_length recorded) = sum_list (map row_length M) + at_overlapTrimmedMs a"
    using t(5) rows(6) same_rows(3) [OF M, of row_length] by (simp add: recorded_def st_def [symmetric] a_def)
  ultimately show ?thesis
    using inst long att res sum G0 C0 RL few short_gaps [of G] C(2) by (simp add: T L_def)
qed

text \<open>
  C34: whatever was recorded of a transfer, its timeline accounts for the whole of it. The measured
  rows never overlap; what trimming cut off is reported; attributed and residual time add up to the
  total, the attributed time being that of the measured rows inside the transfer; a residual row is
  longer than 2 ms, lies inside the transfer and shares no instant with a measured row; and the
  residual rows show the residual time up to 2 ms per measured row.
\<close>

theorem timeline_accounts_for_the_whole:
  "let line = buildTransferTimeline fmt events summary;
       M = filter (\<lambda>r. w_kind r = Measured) (tl_rows line);
       R = filter (\<lambda>r. w_kind r = Residual) (tl_rows line);
       recorded = filter (\<lambda>r. w_kind r = Measured) (tb_rows (event_build fmt (filter truthy events) summary));
       a = tl_attribution line
   in length (filter (\<lambda>r. row_holds r x) M) \<le> 1
    \<and> sum_list (map row_length recorded) = sum_list (map row_length M) + at_overlapTrimmedMs a
    \<and> at_attributedMs a + at_residualMs a = tl_totalMs line
    \<and> 0 \<le> at_attributedMs a \<and> 0 \<le> at_residualMs a
    \<and> at_attributedMs a = sum_list (map (inside (tl_totalMs line)) M)
    \<and> \<not> (\<exists>r\<in>set R. row_holds r x \<and> (x < 0 \<or> tl_totalMs line \<le> x \<or> (\<exists>m\<in>set M. row_holds m x)))
    \<and> \<not> (\<exists>r\<in>set R. row_length r \<le> 2)
    \<and> sum_list (map row_length R) \<le> at_residualMs a
    \<and> at_residualMs a \<le> sum_list (map row_length R) + 2 * of_nat (length M + 1)"
  unfolding Let_def by (rule timeline_accounts)

end
