(* ===== verification/GatewayGraph.thy ===== *)
theory GatewayGraph
  imports Gateways Encoding
begin

text \<open>
  The graph of the gateway canvas (web/gateway/gateway-graph.ts): the staged edits, the edges and
  nodes built from them, and what a connection or a removal does to them. Instance ids of links are
  integers; the number before the colon of an edit key may be any finite number. \<open>le\<close> is the
  order of \<open>localeCompare\<close>, which depends on the locale of the browser.
\<close>

section \<open>Node and handle names\<close>

definition instanceNodeId :: "int \<Rightarrow> string" where
  "instanceNodeId i = ''instance:'' @ show_int i"

definition finite_of :: "string \<Rightarrow> rat option" where
  "finite_of s = (case str_to_num s of Fin q \<Rightarrow> Some q | _ \<Rightarrow> None)"

definition instanceIdFromNodeId :: "string option \<Rightarrow> rat option" where
  "instanceIdFromNodeId nodeId =
     (case ostr_truthy nodeId of
        None \<Rightarrow> None
      | Some s \<Rightarrow> if starts_with ''instance:'' s then finite_of (drop (length ''instance:'') s) else None)"

datatype handle_side = Top | Right | Bottom | Left

definition side_text :: "handle_side \<Rightarrow> string" where
  "side_text side = (case side of Top \<Rightarrow> ''top'' | Right \<Rightarrow> ''right'' | Bottom \<Rightarrow> ''bottom'' | Left \<Rightarrow> ''left'')"

definition with_side :: "string \<Rightarrow> handle_side option \<Rightarrow> string" where
  "with_side s side = (case side of None \<Rightarrow> s | Some d \<Rightarrow> s @ ''@'' @ side_text d)"

definition sourceHandleId :: "string \<Rightarrow> handle_side option \<Rightarrow> string" where
  "sourceHandleId gatewayName side = with_side (''s:'' @ gatewayName) side"

definition targetHandleId :: "string \<Rightarrow> handle_side option \<Rightarrow> string" where
  "targetHandleId gatewayName side = with_side (''t:'' @ gatewayName) side"

definition platformHandleId :: "jsnum \<Rightarrow> string" where
  "platformHandleId i = ''p:'' @ num_text i"

definition platformIndexFromHandleId :: "string option \<Rightarrow> rat option" where
  "platformIndexFromHandleId handleId =
     (case ostr_truthy handleId of
        None \<Rightarrow> None
      | Some s \<Rightarrow> if starts_with ''p:'' s then finite_of (drop 2 s) else None)"

text \<open>The part before the last at sign, if there is one.\<close>

definition before_last_at :: "string \<Rightarrow> string" where
  "before_last_at s =
     (if CHR ''@'' \<in> set s then rev (drop 1 (dropWhile (\<lambda>c. c \<noteq> CHR ''@'') (rev s))) else s)"

definition gatewayFromHandleId :: "string option \<Rightarrow> string option" where
  "gatewayFromHandleId handleId =
     (case ostr_truthy handleId of
        None \<Rightarrow> None
      | Some s \<Rightarrow>
          if js_length s < 3 then None
          else if starts_with ''s:'' s \<or> starts_with ''t:'' s then ostr_truthy (Some (before_last_at (drop 2 s)))
          else None)"

section \<open>Edits\<close>

type_synonym edits = "(string, gateway_link list) jsmap"

record connect_request =
  cr_sourceInstanceId :: int
  cr_sourceGateway :: string
  cr_targetInstanceId :: int
  cr_targetGateway :: string

abbreviation edit_targets :: "edits \<Rightarrow> string \<Rightarrow> gateway_link list" where
  "edit_targets edits key \<equiv> nullish (jm_get edits key) []"

definition same_link :: "gateway_link \<Rightarrow> gateway_link \<Rightarrow> bool" where
  "same_link t u = (g_targetInstanceId t = g_targetInstanceId u \<and> g_targetGateway t = g_targetGateway u)"

definition withTarget :: "gateway_link list \<Rightarrow> gateway_link \<Rightarrow> gateway_link list" where
  "withTarget targets add = (if list_ex (\<lambda>t. same_link t add) targets then targets else targets @ [add])"

definition withoutTarget :: "gateway_link list \<Rightarrow> gateway_link \<Rightarrow> gateway_link list" where
  "withoutTarget targets gone = filter (\<lambda>t. \<not> same_link t gone) targets"

definition forward_link :: "connect_request \<Rightarrow> gateway_link" where
  "forward_link q = \<lparr>g_targetInstanceId = cr_targetInstanceId q, g_targetGateway = cr_targetGateway q\<rparr>"

definition reverse_link :: "connect_request \<Rightarrow> gateway_link" where
  "reverse_link q = \<lparr>g_targetInstanceId = cr_sourceInstanceId q, g_targetGateway = cr_sourceGateway q\<rparr>"

definition forward_key :: "connect_request \<Rightarrow> string" where
  "forward_key q = edit_key (cr_sourceInstanceId q) (cr_sourceGateway q)"

definition reverse_key :: "connect_request \<Rightarrow> string" where
  "reverse_key q = edit_key (cr_targetInstanceId q) (cr_targetGateway q)"

text \<open>Both lists are computed from the old edits; a repeated key keeps its place and the later value.\<close>

definition applyConnect :: "edits \<Rightarrow> connect_request \<Rightarrow> edits" where
  "applyConnect edits q =
     (if cr_sourceInstanceId q = cr_targetInstanceId q then edits
      else if cr_sourceGateway q = [] \<or> cr_targetGateway q = [] then edits
      else jm_set (jm_set edits (forward_key q) (withTarget (edit_targets edits (forward_key q)) (forward_link q)))
             (reverse_key q) (withTarget (edit_targets edits (reverse_key q)) (reverse_link q)))"

definition applyDisconnect :: "edits \<Rightarrow> connect_request \<Rightarrow> edits" where
  "applyDisconnect edits q =
     jm_set (jm_set edits (forward_key q) (withoutTarget (edit_targets edits (forward_key q)) (forward_link q)))
       (reverse_key q) (withoutTarget (edit_targets edits (reverse_key q)) (reverse_link q))"

text \<open>A row of the reply of the controller.\<close>

record link_row =
  lr_sourceInstanceId :: jsnum
  lr_gatewayName :: string
  lr_targets :: "gateway_link list option"

definition editsFromLinks :: "link_row list \<Rightarrow> edits" where
  "editsFromLinks links =
     foldl (\<lambda>edits row.
       if \<not> is_finite (lr_sourceInstanceId row) \<or> lr_gatewayName row = [] then edits
       else jm_set edits (num_text (lr_sourceInstanceId row) @ CHR '':'' # lr_gatewayName row)
              (map (\<lambda>t. t\<lparr>g_targetGateway := str_or (g_targetGateway t) (lr_gatewayName row)\<rparr>)
                (nullish (lr_targets row) []))) [] links"

text \<open>The order of \<open>Array.sort\<close> and of \<open>>\<close> on strings: by code units.\<close>

fun units_less :: "ustring \<Rightarrow> ustring \<Rightarrow> bool" where
  "units_less [] [] = False"
| "units_less [] (v # vs) = True"
| "units_less (u # us) [] = False"
| "units_less (u # us) (v # vs) = (u < v \<or> (u = v \<and> units_less us vs))"

definition js_less :: "string \<Rightarrow> string \<Rightarrow> bool" where
  "js_less s t = units_less (utf16_units s) (utf16_units t)"

definition js_sort :: "string list \<Rightarrow> string list" where
  "js_sort = sort_by (\<lambda>s t. \<not> js_less t s)"

definition link_text :: "gateway_link \<Rightarrow> string" where
  "link_text t = show_int (g_targetInstanceId t) @ ''/'' @ g_targetGateway t"

definition sameTargets :: "gateway_link list \<Rightarrow> gateway_link list \<Rightarrow> bool" where
  "sameTargets a b = (length a = length b \<and> js_sort (map link_text a) = js_sort (map link_text b))"

text \<open>The keys of two objects, each once, in the order of their first occurrence.\<close>

definition union_keys :: "edits \<Rightarrow> edits \<Rightarrow> string list" where
  "union_keys edits baseline = jm_keys edits @ filter (\<lambda>k. \<not> jm_has edits k) (jm_keys baseline)"

definition dirtyKeys :: "edits \<Rightarrow> edits \<Rightarrow> string list" where
  "dirtyKeys edits baseline =
     js_sort (filter (\<lambda>key. \<not> sameTargets (edit_targets edits key) (edit_targets baseline key)) (union_keys edits baseline))"

section \<open>Edges\<close>

record endpoint =
  ep_instanceId :: rat
  ep_gateway :: string

record gateway_edge =
  ge_id :: string
  ge_source :: string
  ge_sourceHandle :: string
  ge_target :: string
  ge_targetHandle :: string
  ge_low :: endpoint
  ge_high :: endpoint
  ge_forward :: bool
  ge_reverse :: bool

definition endpointKey :: "endpoint \<Rightarrow> string" where
  "endpointKey e = num_text (Fin (ep_instanceId e)) @ ''/'' @ ep_gateway e"

definition flipped :: "endpoint \<Rightarrow> endpoint \<Rightarrow> bool" where
  "flipped a b = js_less (endpointKey b) (endpointKey a)"

definition orient :: "endpoint \<Rightarrow> endpoint \<Rightarrow> endpoint \<times> endpoint" where
  "orient a b = (if flipped a b then (b, a) else (a, b))"

definition edgeId :: "endpoint \<Rightarrow> endpoint \<Rightarrow> string" where
  "edgeId a b = (let (low, high) = orient a b in ''link:'' @ endpointKey low @ ''|'' @ endpointKey high)"

definition key_links :: "string \<Rightarrow> gateway_link list \<Rightarrow> (endpoint \<times> endpoint) list" where
  "key_links key targets =
     (case parse_edit_key key of
        None \<Rightarrow> []
      | Some (i, gatewayName) \<Rightarrow>
          map (\<lambda>t. (\<lparr>ep_instanceId = i, ep_gateway = gatewayName\<rparr>,
                    \<lparr>ep_instanceId = of_int (g_targetInstanceId t),
                     ep_gateway = str_or (g_targetGateway t) gatewayName\<rparr>)) targets)"

definition directedLinks :: "edits \<Rightarrow> (endpoint \<times> endpoint) list" where
  "directedLinks edits = concat (map (\<lambda>(key, targets). key_links key targets) edits)"

definition new_edge :: "endpoint \<Rightarrow> endpoint \<Rightarrow> gateway_edge" where
  "new_edge low high =
     \<lparr>ge_id = edgeId low high,
      ge_source = ''instance:'' @ num_text (Fin (ep_instanceId low)), ge_sourceHandle = sourceHandleId (ep_gateway low) None,
      ge_target = ''instance:'' @ num_text (Fin (ep_instanceId high)), ge_targetHandle = targetHandleId (ep_gateway high) None,
      ge_low = low, ge_high = high, ge_forward = False, ge_reverse = False\<rparr>"

definition add_link :: "(string, gateway_edge) jsmap \<Rightarrow> endpoint \<times> endpoint \<Rightarrow> (string, gateway_edge) jsmap" where
  "add_link byPair link =
     (let (low, high) = orient (fst link) (snd link);
          edge = nullish (jm_get byPair (edgeId low high)) (new_edge low high)
      in jm_set byPair (edgeId low high)
           (if flipped (fst link) (snd link) then edge\<lparr>ge_reverse := True\<rparr> else edge\<lparr>ge_forward := True\<rparr>))"

definition buildEdges :: "(string \<Rightarrow> string \<Rightarrow> bool) \<Rightarrow> edits \<Rightarrow> gateway_edge list" where
  "buildEdges le edits =
     sort_by (\<lambda>a b. le (ge_id a) (ge_id b)) (jm_values (foldl add_link [] (directedLinks edits)))"

section \<open>Usage\<close>

type_synonym usage = "(rat, (string, nat \<times> nat) jsmap) jsmap"

definition bump :: "usage \<Rightarrow> endpoint \<Rightarrow> (nat \<times> nat \<Rightarrow> nat \<times> nat) \<Rightarrow> usage" where
  "bump usage e f =
     (let perInstance = nullish (jm_get usage (ep_instanceId e)) [];
          entry = nullish (jm_get perInstance (ep_gateway e)) (0, 0)
      in jm_set usage (ep_instanceId e) (jm_set perInstance (ep_gateway e) (f entry)))"

definition gatewayUsage :: "edits \<Rightarrow> usage" where
  "gatewayUsage edits =
     foldl (\<lambda>usage link. bump (bump usage (fst link) (apfst Suc)) (snd link) (apsnd Suc)) [] (directedLinks edits)"

definition usage_of :: "usage \<Rightarrow> rat \<Rightarrow> string \<Rightarrow> nat \<times> nat" where
  "usage_of usage i name = nullish (jm_get (nullish (jm_get usage i) []) name) (0, 0)"

section \<open>Nodes\<close>

record canvas_instance =
  ci_instanceId :: int
  ci_instanceName :: string
  ci_address :: "string option"
  ci_status :: "string option"
  ci_connected :: bool
  ci_platforms :: "jsval list"

record canvas_host =
  ch_hostId :: int
  ch_hostName :: string
  ch_connected :: bool
  ch_instances :: "canvas_instance list"

record canvas_tree =
  ct_forceName :: "string option"
  ct_hosts :: "canvas_host list"
  ct_unassigned :: "canvas_instance list"

record graph_node =
  gn_id :: string
  gn_x :: rat
  gn_y :: rat
  gn_dimmed :: bool
  gn_instanceId :: int
  gn_instanceName :: string
  gn_address :: string
  gn_online :: bool
  gn_hostKey :: string
  gn_hostName :: string
  gn_platforms :: "jsval list"
  gn_gateways :: "(string \<times> (nat \<times> nat)) list"

definition NODE_DIAMETER :: rat where "NODE_DIAMETER = 150"
definition CAPTION_HEIGHT :: rat where "CAPTION_HEIGHT = 76"
definition CAPTION_WIDTH :: rat where "CAPTION_WIDTH = 190"
definition INSTANCE_GAP :: rat where "INSTANCE_GAP = 70"
definition COLUMN_GAP :: rat where "COLUMN_GAP = 90"

definition UNASSIGNED_HOST_KEY :: string where "UNASSIGNED_HOST_KEY = ''unassigned''"
definition ALL_HOSTS :: string where "ALL_HOSTS = ''all''"

definition isOnline :: "canvas_instance \<Rightarrow> bool" where
  "isOnline i = (ci_connected i \<and> ci_status i = Some ''running'')"

record canvas_column =
  cc_key :: string
  cc_name :: string
  cc_connected :: bool
  cc_instances :: "canvas_instance list"

definition sorted_instances :: "(string \<Rightarrow> string \<Rightarrow> bool) \<Rightarrow> canvas_instance list \<Rightarrow> canvas_instance list" where
  "sorted_instances le = sort_by (\<lambda>a b. le (ci_instanceName a) (ci_instanceName b))"

definition graph_columns :: "(string \<Rightarrow> string \<Rightarrow> bool) \<Rightarrow> canvas_tree option \<Rightarrow> canvas_column list" where
  "graph_columns le tree =
     (case tree of None \<Rightarrow> []
      | Some t \<Rightarrow>
          map (\<lambda>h. \<lparr>cc_key = show_int (ch_hostId h), cc_name = ch_hostName h, cc_connected = ch_connected h,
                    cc_instances = sorted_instances le (ch_instances h)\<rparr>)
            (sort_by (\<lambda>a b. le (ch_hostName a) (ch_hostName b)) (ct_hosts t))
          @ (if ct_unassigned t = [] then []
             else [\<lparr>cc_key = UNASSIGNED_HOST_KEY, cc_name = ''Unassigned'', cc_connected = False,
                    cc_instances = sorted_instances le (ct_unassigned t)\<rparr>]))"

definition canvas_platforms :: "canvas_tree option \<Rightarrow> jsval list \<Rightarrow> jsval list" where
  "canvas_platforms tree platforms =
     map (\<lambda>p. case p of
            JObj fs \<Rightarrow> JObj (obj_set fs ''forceName''
              (val_or (prop_get p ''forceName'')
                 (JStr (ostr_or (case tree of None \<Rightarrow> None | Some t \<Rightarrow> ct_forceName t) ''player''))))
          | _ \<Rightarrow> p)
       (filter (\<lambda>p. truthy (prop_get p ''hasSpaceHub'')) platforms)"

definition column_nodes ::
    "canvas_tree option \<Rightarrow> gateway_mode \<Rightarrow> usage \<Rightarrow> (string \<Rightarrow> bool) \<Rightarrow> nat \<Rightarrow> canvas_column \<Rightarrow> graph_node list" where
  "column_nodes tree mode usage dimmed columnIndex column =
     (let columnWidth = max NODE_DIAMETER CAPTION_WIDTH in
      map (\<lambda>(index, i).
        \<lparr>gn_id = instanceNodeId (ci_instanceId i),
         gn_x = of_nat columnIndex * (columnWidth + COLUMN_GAP) + max 0 ((columnWidth - NODE_DIAMETER) / 2),
         gn_y = of_nat index * (NODE_DIAMETER + CAPTION_HEIGHT + INSTANCE_GAP),
         gn_dimmed = dimmed (cc_key column), gn_instanceId = ci_instanceId i, gn_instanceName = ci_instanceName i,
         gn_address = ostr_or (ci_address i) [], gn_online = isOnline i, gn_hostKey = cc_key column,
         gn_hostName = cc_name column, gn_platforms = canvas_platforms tree (ci_platforms i),
         gn_gateways = map (\<lambda>n. (n, usage_of usage (of_int (ci_instanceId i)) n)) (gatewayNamesFor mode)\<rparr>)
        (enumerate 0 (cc_instances column)))"

record canvas_graph =
  cg_nodes :: "graph_node list"
  cg_edges :: "gateway_edge list"
  cg_hosts :: "(string \<times> string \<times> bool) list"

definition buildGraph ::
    "(string \<Rightarrow> string \<Rightarrow> bool) \<Rightarrow> canvas_tree option \<Rightarrow> edits \<Rightarrow> gateway_mode \<Rightarrow> string \<Rightarrow> canvas_graph" where
  "buildGraph le tree edits mode hostFilter =
     (let columns = graph_columns le tree;
          filtering = (hostFilter \<noteq> ALL_HOSTS \<and> list_ex (\<lambda>c. cc_key c = hostFilter) columns);
          dimmed = (\<lambda>key. filtering \<and> key \<noteq> hostFilter)
      in \<lparr>cg_nodes = concat (map (\<lambda>(columnIndex, c). column_nodes tree mode (gatewayUsage edits) dimmed columnIndex c)
                         (enumerate 0 columns)),
          cg_edges = buildEdges le edits,
          cg_hosts = map (\<lambda>c. (cc_key c, cc_name c, cc_connected c)) columns\<rparr>)"

text \<open>The rest of a node is of any type.\<close>

record 'a positioned =
  pn_id :: string
  pn_position :: "rat \<times> rat"
  pn_selected :: "bool option"
  pn_rest :: 'a

definition preservePositions :: "'b positioned list \<Rightarrow> 'a positioned list \<Rightarrow> 'a positioned list" where
  "preservePositions previous new =
     (if previous = [] then new
      else map (\<lambda>n. case map_of (rev (map (\<lambda>p. (pn_id p, p)) previous)) (pn_id n) of
              None \<Rightarrow> n
            | Some e \<Rightarrow> n\<lparr>pn_position := pn_position e, pn_selected := pn_selected e\<rparr>) new)"

end
