(* ===== verification/Canvas.thy ===== *)
theory Canvas
  imports GatewayGraph
begin

text \<open>
  The logic of the gateway canvas outside its rendering (web/gateway/GatewayCanvas.tsx and
  web/gateway/debug-mode.ts): which connections are staged, bulk linking, what a save sends, and the
  mock instances of the debug mode, which must never be sent.
\<close>

section \<open>Connections\<close>

record link_ends =
  le_sourceInstanceId :: rat
  le_sourceGateway :: string
  le_targetInstanceId :: rat
  le_targetGateway :: string

text \<open>A link of the graph library as its four names.\<close>

definition toConnectRequest ::
    "string option \<Rightarrow> string option \<Rightarrow> string option \<Rightarrow> string option \<Rightarrow> link_ends option" where
  "toConnectRequest source sourceHandle target targetHandle =
     (case (instanceIdFromNodeId source, instanceIdFromNodeId target,
            gatewayFromHandleId sourceHandle, gatewayFromHandleId targetHandle) of
        (Some i, Some j, Some g, Some h) \<Rightarrow>
          Some \<lparr>le_sourceInstanceId = i, le_sourceGateway = g, le_targetInstanceId = j, le_targetGateway = h\<rparr>
      | _ \<Rightarrow> None)"

text \<open>The other gateways of an instance that carry links.\<close>

definition canvas_others :: "edits \<Rightarrow> int \<Rightarrow> string \<Rightarrow> (string, gateway_link list) jsmap" where
  "canvas_others edits i gateway =
     foldl (\<lambda>others (key, targets).
       case parse_edit_key key of
         None \<Rightarrow> others
       | Some (j, name) \<Rightarrow>
           if j = of_int i \<and> name \<noteq> gateway \<and> targets \<noteq> [] then jm_set others name targets else others)
       [] edits"

definition end_violation :: "edits \<Rightarrow> int \<Rightarrow> string \<Rightarrow> gateway_link \<Rightarrow> string option" where
  "end_violation edits i gateway link =
     checkMultiModeLink gateway (edit_targets edits (edit_key i gateway) @ [link]) (canvas_others edits i gateway)"

definition multiModeViolation :: "edits \<Rightarrow> connect_request \<Rightarrow> string option" where
  "multiModeViolation edits q =
     (case end_violation edits (cr_sourceInstanceId q) (cr_sourceGateway q) (forward_link q) of
        Some e \<Rightarrow> Some e
      | None \<Rightarrow> end_violation edits (cr_targetInstanceId q) (cr_targetGateway q) (reverse_link q))"

text \<open>The pairs of the two nested loops, and what is done with one of them.\<close>

fun bulk_pairs :: "int list \<Rightarrow> (int \<times> int) list" where
  "bulk_pairs [] = []"
| "bulk_pairs (i # is) = map (Pair i) is @ bulk_pairs is"

definition bulk_step :: "string \<Rightarrow> gateway_mode \<Rightarrow> bool \<Rightarrow> edits \<times> string list \<Rightarrow> int \<times> int \<Rightarrow> edits \<times> string list" where
  "bulk_step gateway mode connect acc p =
     (let (edits, refused) = acc;
          q = \<lparr>cr_sourceInstanceId = fst p, cr_sourceGateway = gateway,
               cr_targetInstanceId = snd p, cr_targetGateway = gateway\<rparr>
      in if \<not> connect then (applyDisconnect edits q, refused)
         else case (if mode = Multi then multiModeViolation edits q else None) of
                Some e \<Rightarrow> (edits, refused @ [e])
              | None \<Rightarrow> (applyConnect edits q, refused))"

definition planBulkLink :: "edits \<Rightarrow> int list \<Rightarrow> string \<Rightarrow> gateway_mode \<Rightarrow> bool \<Rightarrow> edits \<times> string list" where
  "planBulkLink edits instanceIds gateway mode connect =
     foldl (bulk_step gateway mode connect) (edits, []) (bulk_pairs instanceIds)"

section \<open>Mock instances\<close>

definition mockInstanceId :: "int \<Rightarrow> int" where
  "mockInstanceId index = - (index + 1)"

definition isMockInstanceId :: "rat \<Rightarrow> bool" where
  "isMockInstanceId i = (i < 0)"

definition isMockEditKey :: "string \<Rightarrow> bool" where
  "isMockEditKey key = (case parse_edit_key key of Some (i, _) \<Rightarrow> isMockInstanceId i | None \<Rightarrow> False)"

record debug_state =
  db_enabled :: bool
  db_mockInstances :: nat
  db_mockPlatforms :: nat

definition mock_platform :: "nat \<Rightarrow> jsval" where
  "mock_platform platformIndex = JObj
     [(''platformIndex'', js_int (int platformIndex + 1)),
      (''platformName'', JStr (''mock-pad-'' @ show_nat (platformIndex + 1))),
      (''forceName'', JStr ''player''), (''hasSpaceHub'', JBool True),
      (''spaceLocation'', JStr ([''nauvis'', ''vulcanus'', ''fulgora'', ''gleba'', ''aquilo''] ! (platformIndex mod 5))),
      (''isLocked'', JBool (platformIndex mod 7 = 3))]"

definition mock_instance :: "nat \<Rightarrow> nat \<Rightarrow> canvas_instance" where
  "mock_instance platforms index =
     \<lparr>ci_instanceId = mockInstanceId (int index), ci_instanceName = ''mock-instance-'' @ show_nat (index + 1),
      ci_address = Some (''mock:'' @ show_nat (34000 + index)), ci_status = Some ''running'', ci_connected = True,
      ci_platforms = map mock_platform [0..<platforms]\<rparr>"

definition MOCK_HOST_ID :: int where "MOCK_HOST_ID = - 1"

definition withMockInstances :: "canvas_tree option \<Rightarrow> debug_state \<Rightarrow> canvas_tree option" where
  "withMockInstances tree state =
     (if \<not> db_enabled state \<or> db_mockInstances state = 0 then tree
      else map_option (\<lambda>t. t\<lparr>ct_hosts := ct_hosts t @
        [\<lparr>ch_hostId = MOCK_HOST_ID, ch_hostName = ''mock (debug)'', ch_connected = True,
          ch_instances = map (mock_instance (db_mockPlatforms state)) [0..<db_mockInstances state]\<rparr>]\<rparr>) tree)"

section \<open>Saving\<close>

type_synonym save_group = "(string \<times> gateway_link list) list"

text \<open>The changed keys that are saved, grouped by instance; keys that cannot be read are reported.\<close>

definition group_key :: "edits \<Rightarrow> string list \<times> (rat, save_group) jsmap \<Rightarrow> string \<Rightarrow> string list \<times> (rat, save_group) jsmap" where
  "group_key edits acc key =
     (case parse_edit_key key of
        None \<Rightarrow> (fst acc @ [key @ '': unreadable key''], snd acc)
      | Some (i, name) \<Rightarrow>
          (fst acc, jm_set (snd acc) i (nullish (jm_get (snd acc) i) []
             @ [(name, map (\<lambda>t. t\<lparr>g_targetGateway := str_or (g_targetGateway t) name\<rparr>) (edit_targets edits key))])))"

definition pending_keys :: "edits \<Rightarrow> edits \<Rightarrow> string list" where
  "pending_keys edits baseline = filter (\<lambda>key. \<not> isMockEditKey key) (dirtyKeys edits baseline)"

definition save_payload :: "edits \<Rightarrow> edits \<Rightarrow> string list \<times> (rat, save_group) jsmap" where
  "save_payload edits baseline = foldl (group_key edits) ([], []) (pending_keys edits baseline)"

definition mockLeaksInPayload :: "(rat, save_group) jsmap \<Rightarrow> string list" where
  "mockLeaksInPayload payload =
     concat (map (\<lambda>(i, gateways).
       (if isMockInstanceId i then [''source instance '' @ num_text (Fin i)] else [])
       @ concat (map (\<lambda>(name, targets).
           map (\<lambda>t. name @ '' -> instance '' @ show_int (g_targetInstanceId t))
             (filter (\<lambda>t. isMockInstanceId (of_int (g_targetInstanceId t))) targets)) gateways)) payload)"

text \<open>The requests of a save, one for each instance; none if a mock instance is among them.\<close>

definition request_entry :: "string \<times> gateway_link list \<Rightarrow> gateway_entry" where
  "request_entry e =
     \<lparr>ge_gatewayName = Some (fst e),
      ge_targets = map (\<lambda>t. (js_int (g_targetInstanceId t), Some (g_targetGateway t))) (snd e)\<rparr>"

definition save_requests :: "edits \<Rightarrow> edits \<Rightarrow> (rat \<times> gateway_entry list) list" where
  "save_requests edits baseline =
     (let payload = snd (save_payload edits baseline) in
      if mockLeaksInPayload payload \<noteq> [] then []
      else map (\<lambda>(i, gateways). (i, map request_entry gateways)) payload)"

end
