(* ===== verification/CanvasRules.thy ===== *)
theory CanvasRules
  imports Canvas GatewayRules
begin

text \<open>
  What staging on the canvas keeps: links stay reciprocal, the layout of every instance stays one
  the controller accepts, every edge is drawn in both directions, and a save is not refused.
\<close>

section \<open>Keys\<close>

lemma edit_key_inj [simp]: "edit_key i n = edit_key j m \<longleftrightarrow> i = j \<and> n = m"
proof
  assume "edit_key i n = edit_key j m"
  then have "split_colon (show_int i @ CHR '':'' # n) = split_colon (show_int j @ CHR '':'' # m)"
    by (simp add: edit_key_def)
  then have "show_int i = show_int j" "n = m" by (simp_all add: split_colon_join)
  then show "i = j \<and> n = m" by (metis int_of_num_simps(1) str_to_num_show_int)
qed simp

lemma parse_edit_key_simp [simp]:
  "parse_edit_key (edit_key i n) = (if n = [] then None else Some (of_int i, n))"
  by (simp add: parse_edit_key_def edit_key_def split_colon_join)

section \<open>Well-formed edits\<close>

definition edits_wf :: "edits \<Rightarrow> bool" where
  "edits_wf E = (jm_wf E \<and> (\<forall>k\<in>set (jm_keys E). \<exists>i n. k = edit_key i n)
     \<and> (\<forall>(k, ts)\<in>set E. \<forall>t\<in>set ts. g_targetGateway t \<noteq> []))"

definition layout :: "edits \<Rightarrow> int \<Rightarrow> string \<Rightarrow> gateway_link list" where
  "layout E i n = edit_targets E (edit_key i n)"

definition linked :: "edits \<Rightarrow> int \<Rightarrow> string \<Rightarrow> int \<Rightarrow> string \<Rightarrow> bool" where
  "linked E i n j m = (\<lparr>g_targetInstanceId = j, g_targetGateway = m\<rparr> \<in> set (layout E i n))"

lemma linkedI: "t \<in> set (layout E i n) \<Longrightarrow> linked E i n (g_targetInstanceId t) (g_targetGateway t)"
  by (cases t) (simp add: linked_def)

text \<open>Every link has its counterpart, and none leads back to its own instance.\<close>

definition reciprocal :: "edits \<Rightarrow> bool" where
  "reciprocal E = (\<forall>i n j m. linked E i n j m \<longrightarrow> linked E j m i n \<and> i \<noteq> j \<and> n \<noteq> [])"

lemma same_link_iff [simp]: "same_link t u \<longleftrightarrow> t = u"
  by (auto simp: same_link_def)

lemma set_withTarget [simp]: "set (withTarget ts t) = insert t (set ts)"
  by (auto simp: withTarget_def list_ex_iff)

lemma set_withoutTarget [simp]: "set (withoutTarget ts t) = set ts - {t}"
  by (auto simp: withoutTarget_def)

lemma layout_connect:
  "layout (applyConnect E q) i n =
     (if cr_sourceInstanceId q = cr_targetInstanceId q \<or> cr_sourceGateway q = [] \<or> cr_targetGateway q = []
      then layout E i n
      else if i = cr_sourceInstanceId q \<and> n = cr_sourceGateway q then withTarget (layout E i n) (forward_link q)
      else if i = cr_targetInstanceId q \<and> n = cr_targetGateway q then withTarget (layout E i n) (reverse_link q)
      else layout E i n)"
  by (auto simp: layout_def applyConnect_def forward_key_def reverse_key_def nullish_def)

lemma layout_disconnect:
  assumes "cr_sourceInstanceId q \<noteq> cr_targetInstanceId q"
  shows "layout (applyDisconnect E q) i n =
     (if i = cr_sourceInstanceId q \<and> n = cr_sourceGateway q then withoutTarget (layout E i n) (forward_link q)
      else if i = cr_targetInstanceId q \<and> n = cr_targetGateway q then withoutTarget (layout E i n) (reverse_link q)
      else layout E i n)"
  using assms by (auto simp: layout_def applyDisconnect_def forward_key_def reverse_key_def nullish_def)

lemma in_jm_set: "(k', v') \<in> set (jm_set m k v) \<Longrightarrow> (k', v') \<in> set m \<or> k' = k \<and> v' = v"
  by (induction m k v rule: jm_set.induct) (auto split: if_splits)

lemma edits_wf_set:
  assumes "edits_wf E" and "\<forall>t\<in>set ts. g_targetGateway t \<noteq> []"
  shows "edits_wf (jm_set E (edit_key i n) ts)"
  using assms by (auto simp: edits_wf_def jm_keys_set dest!: in_jm_set)

lemma edits_wf_targets: "edits_wf E \<Longrightarrow> t \<in> set (edit_targets E k) \<Longrightarrow> g_targetGateway t \<noteq> []"
  by (cases "jm_get E k") (auto simp: edits_wf_def nullish_def dest!: jm_get_Some_in)

lemma edits_wf_connect:
  assumes "edits_wf E"
  shows "edits_wf (applyConnect E q)"
proof -
  have "g_targetGateway t \<noteq> []" if "t \<in> set (withTarget (edit_targets E k) u)" "g_targetGateway u \<noteq> []" for t k u
    using that edits_wf_targets [OF assms] by auto
  then show ?thesis
    using assms unfolding applyConnect_def forward_key_def reverse_key_def
    by (auto simp: forward_link_def reverse_link_def intro!: edits_wf_set)
qed

lemma edits_wf_disconnect:
  assumes "edits_wf E"
  shows "edits_wf (applyDisconnect E q)"
  using assms edits_wf_targets [OF assms] unfolding applyDisconnect_def forward_key_def reverse_key_def
  by (intro edits_wf_set) auto

lemma linked_connect:
  assumes "cr_sourceInstanceId q \<noteq> cr_targetInstanceId q" and "cr_sourceGateway q \<noteq> []" and "cr_targetGateway q \<noteq> []"
  shows "linked (applyConnect E q) i n j m \<longleftrightarrow> linked E i n j m
     \<or> (i, n, j, m) = (cr_sourceInstanceId q, cr_sourceGateway q, cr_targetInstanceId q, cr_targetGateway q)
     \<or> (i, n, j, m) = (cr_targetInstanceId q, cr_targetGateway q, cr_sourceInstanceId q, cr_sourceGateway q)"
  using assms by (auto simp: linked_def layout_connect forward_link_def reverse_link_def)

lemma linked_disconnect:
  assumes "cr_sourceInstanceId q \<noteq> cr_targetInstanceId q"
  shows "linked (applyDisconnect E q) i n j m \<longleftrightarrow> linked E i n j m
     \<and> (i, n, j, m) \<noteq> (cr_sourceInstanceId q, cr_sourceGateway q, cr_targetInstanceId q, cr_targetGateway q)
     \<and> (i, n, j, m) \<noteq> (cr_targetInstanceId q, cr_targetGateway q, cr_sourceInstanceId q, cr_sourceGateway q)"
  using assms by (auto simp: linked_def layout_disconnect forward_link_def reverse_link_def)

lemma reciprocal_connect:
  assumes "reciprocal E"
  shows "reciprocal (applyConnect E q)"
proof (cases "cr_sourceInstanceId q = cr_targetInstanceId q \<or> cr_sourceGateway q = [] \<or> cr_targetGateway q = []")
  case True
  then have "applyConnect E q = E" by (auto simp: applyConnect_def)
  with assms show ?thesis by simp
next
  case False
  with assms show ?thesis unfolding reciprocal_def by (auto simp: linked_connect)
qed

lemma reciprocal_disconnect:
  assumes "reciprocal E" and "cr_sourceInstanceId q \<noteq> cr_targetInstanceId q"
  shows "reciprocal (applyDisconnect E q)"
  using assms(1) unfolding reciprocal_def linked_disconnect [OF assms(2)] by blast

section \<open>The layout of an instance\<close>

lemma canvas_others_get:
  assumes "edits_wf E" and "m \<noteq> n" and "m \<noteq> []" and "layout E i m \<noteq> []"
  shows "jm_get (canvas_others E i n) m = Some (layout E i m)"
proof -
  define step where "step = (\<lambda>(others :: (string, gateway_link list) jsmap) (key, targets).
       case parse_edit_key key of
         None \<Rightarrow> others
       | Some (j, name) \<Rightarrow>
           if j = of_int i \<and> name \<noteq> n \<and> targets \<noteq> [] then jm_set others name targets else others)"
  have step: "step acc (edit_key j name, ts) =
      (if name \<noteq> [] \<and> j = i \<and> name \<noteq> n \<and> ts \<noteq> [] then jm_set acc name ts else acc)" for acc j name ts
    by (simp add: step_def)
  have get: "jm_get (foldl step acc E) m = (case jm_get E (edit_key i m) of
      None \<Rightarrow> jm_get acc m | Some ts \<Rightarrow> if ts = [] then jm_get acc m else Some ts)"
    if "jm_wf E" "\<forall>k\<in>set (jm_keys E). \<exists>i n. k = edit_key i n" for E acc
    using that
  proof (induction E arbitrary: acc)
    case (Cons e E)
    obtain k ts where e: "e = (k, ts)" by (cases e)
    from Cons.prems e obtain j name where k: "k = edit_key j name" by auto
    have rest: "jm_wf E" "\<forall>k\<in>set (jm_keys E). \<exists>i n. k = edit_key i n" "jm_get E k = None"
      using Cons.prems by (auto simp: e jm_wf_def jm_get_None_iff)
    have IH: "jm_get (foldl step acc' E) m = (case jm_get E (edit_key i m) of
      None \<Rightarrow> jm_get acc' m | Some ts \<Rightarrow> if ts = [] then jm_get acc' m else Some ts)" for acc'
      by (rule Cons.IH [OF rest(1,2)])
    show ?case
      using assms(2,3) rest(3) by (auto simp: e k step IH split: option.split)
  qed simp
  have "canvas_others E i n = foldl step [] E" by (simp add: canvas_others_def step_def)
  then show ?thesis
    using get [of E "[]"] assms by (auto simp: edits_wf_def layout_def nullish_def split: option.splits)
qed

lemma end_violation_None:
  assumes "edits_wf E" and "end_violation E i n link = None"
  shows "layout E i n = []"
    and "m \<noteq> n \<Longrightarrow> m \<noteq> [] \<Longrightarrow> \<not> links_to (g_targetInstanceId link) (layout E i m)"
proof -
  have c: "checkMultiModeLink n (layout E i n @ [link]) (canvas_others E i n) = None"
    using assms(2) by (simp add: end_violation_def layout_def)
  show "layout E i n = []" using check_None(1) [OF c] by simp
  assume m: "m \<noteq> n" "m \<noteq> []"
  show "\<not> links_to (g_targetInstanceId link) (layout E i m)"
  proof (cases "layout E i m = []")
    case True
    then show ?thesis by (simp add: links_to_def)
  next
    case False
    then show ?thesis
      using check_None(2) [OF c, of link m] canvas_others_get [OF assms(1) m] m by simp
  qed
qed

lemma multi_names_nonempty: "n \<in> set MULTI_GATEWAY_NAMES \<Longrightarrow> n \<noteq> []"
  by (auto simp: MULTI_GATEWAY_NAMES_def)

lemma multi_layout_add:
  assumes "multi_layout L" and "L n = []"
    and "\<And>m. m \<in> set MULTI_GATEWAY_NAMES \<Longrightarrow> m \<noteq> n \<Longrightarrow> \<not> links_to (g_targetInstanceId l) (L m)"
  shows "multi_layout (L(n := [l]))"
proof -
  have "\<forall>m\<in>set MULTI_GATEWAY_NAMES. m \<noteq> n \<longrightarrow> (\<forall>t\<in>set (L m). g_targetInstanceId t \<noteq> g_targetInstanceId l)"
    using assms(3) by (auto simp: links_to_def list_ex_iff)
  then show ?thesis using assms(1,2) by (auto simp: multi_layout_def links_to_def list_ex_iff) metis+
qed

lemma multi_layout_subset:
  assumes "multi_layout L" and "\<And>n. L' n = L n \<or> L' n = withoutTarget (L n) t"
  shows "multi_layout L'"
proof -
  have "length (L' n) \<le> length (L n)" "set (L' n) \<subseteq> set (L n)" for n
    using assms(2) [of n] by (auto simp: withoutTarget_def)
  then show ?thesis
    using assms(1) unfolding multi_layout_def links_to_def list_ex_iff
    by (meson in_mono order_trans)
qed

text \<open>A request between two instances that the check lets through.\<close>

lemma multi_connect:
  assumes "edits_wf E" and "multiModeViolation E q = None" and "\<forall>i. multi_layout (layout E i)"
  shows "\<forall>i. multi_layout (layout (applyConnect E q) i)"
proof (cases "cr_sourceInstanceId q = cr_targetInstanceId q \<or> cr_sourceGateway q = [] \<or> cr_targetGateway q = []")
  case True
  then have "applyConnect E q = E" by (auto simp: applyConnect_def)
  with assms(3) show ?thesis by simp
next
  case False
  have v: "end_violation E (cr_sourceInstanceId q) (cr_sourceGateway q) (forward_link q) = None"
    "end_violation E (cr_targetInstanceId q) (cr_targetGateway q) (reverse_link q) = None"
    using assms(2) by (auto simp: multiModeViolation_def split: option.splits)
  note s = end_violation_None [OF assms(1) v(1)] and t = end_violation_None [OF assms(1) v(2)]
  show ?thesis
  proof
    fix i
    have "layout (applyConnect E q) i =
        (if i = cr_sourceInstanceId q then (layout E i)(cr_sourceGateway q := [forward_link q])
         else if i = cr_targetInstanceId q then (layout E i)(cr_targetGateway q := [reverse_link q])
         else layout E i)"
      using False s(1) t(1) by (intro ext) (auto simp: layout_connect withTarget_def)
    moreover have "multi_layout ((layout E (cr_sourceInstanceId q))(cr_sourceGateway q := [forward_link q]))"
      using assms(3) s multi_names_nonempty by (intro multi_layout_add) auto
    moreover have "multi_layout ((layout E (cr_targetInstanceId q))(cr_targetGateway q := [reverse_link q]))"
      using assms(3) t multi_names_nonempty by (intro multi_layout_add) auto
    ultimately show "multi_layout (layout (applyConnect E q) i)"
      using assms(3) by simp
  qed
qed

lemma multi_disconnect:
  assumes "cr_sourceInstanceId q \<noteq> cr_targetInstanceId q" and "\<forall>i. multi_layout (layout E i)"
  shows "\<forall>i. multi_layout (layout (applyDisconnect E q) i)"
proof
  fix i
  define t where "t = (if i = cr_sourceInstanceId q then forward_link q else reverse_link q)"
  have "layout (applyDisconnect E q) i n = layout E i n \<or> layout (applyDisconnect E q) i n = withoutTarget (layout E i n) t" for n
    unfolding layout_disconnect [OF assms(1)] t_def using assms(1) by simp
  with assms(2) [rule_format, of i] show "multi_layout (layout (applyDisconnect E q) i)"
    by (rule multi_layout_subset)
qed

section \<open>Bulk linking\<close>

definition staged_ok :: "gateway_mode \<Rightarrow> edits \<Rightarrow> bool" where
  "staged_ok mode E = (edits_wf E \<and> reciprocal E \<and> (mode = Multi \<longrightarrow> (\<forall>i. multi_layout (layout E i))))"

lemma bulk_step_ok:
  assumes "staged_ok mode (fst acc)" and "fst p \<noteq> snd p"
  shows "staged_ok mode (fst (bulk_step gateway mode connect acc p))"
proof -
  obtain E refused where acc: "acc = (E, refused)" by (cases acc)
  define q where "q = \<lparr>cr_sourceInstanceId = fst p, cr_sourceGateway = gateway,
    cr_targetInstanceId = snd p, cr_targetGateway = gateway\<rparr>"
  have q: "cr_sourceInstanceId q \<noteq> cr_targetInstanceId q" using assms(2) by (simp add: q_def)
  have ok: "edits_wf E" "reciprocal E" "mode = Multi \<Longrightarrow> \<forall>i. multi_layout (layout E i)"
    using assms(1) by (auto simp: acc staged_ok_def)
  have dis: "staged_ok mode (applyDisconnect E q)"
    using ok edits_wf_disconnect reciprocal_disconnect [OF _ q] multi_disconnect [OF q] by (simp add: staged_ok_def)
  have con: "staged_ok mode (applyConnect E q)" if "mode = Multi \<Longrightarrow> multiModeViolation E q = None"
    using ok that edits_wf_connect reciprocal_connect multi_connect by (simp add: staged_ok_def)
  show ?thesis
    using assms(1) dis con
    by (cases "mode = Multi") (auto simp: bulk_step_def acc q_def [symmetric] split: option.split)
qed

lemma bulk_pairs_distinct: "distinct is \<Longrightarrow> p \<in> set (bulk_pairs is) \<Longrightarrow> fst p \<noteq> snd p"
  by (induction "is") auto

lemma plan_ok:
  assumes "staged_ok mode E" and "distinct is"
  shows "staged_ok mode (fst (planBulkLink E is gateway mode connect))"
proof -
  have "staged_ok mode (fst (foldl (bulk_step gateway mode connect) acc ps))"
    if "staged_ok mode (fst acc)" "\<forall>p\<in>set ps. fst p \<noteq> snd p" for acc ps
    using that
  proof (induction ps arbitrary: acc)
    case (Cons p ps)
    then have "staged_ok mode (fst (bulk_step gateway mode connect acc p))" by (intro bulk_step_ok) simp_all
    from Cons.IH [OF this] Cons.prems(2) show ?case by simp
  qed simp
  from this [of "(E, [])" "bulk_pairs is"] show ?thesis
    using assms bulk_pairs_distinct by (simp add: planBulkLink_def)
qed

section \<open>Edges in both directions\<close>

lemma units_less_asym: "units_less us vs \<Longrightarrow> \<not> units_less vs us"
  by (induction us vs rule: units_less.induct) auto

lemma units_less_total: "us \<noteq> vs \<Longrightarrow> units_less us vs \<or> units_less vs us"
  by (induction us vs rule: units_less.induct) auto

lemma utf16_ascii:
  "\<forall>c\<in>set s. (of_char c :: nat) < 0x80 \<Longrightarrow> utf16_units (s @ t) = map (\<lambda>c. of_nat (of_char c)) s @ utf16_units t"
  by (induction s) (auto simp: Let_def)

lemma show_int_ascii: "c \<in> set (show_int i) \<Longrightarrow> (of_char c :: nat) < 0x80 \<and> (of_char c :: nat) \<noteq> 0x2F"
proof -
  assume "c \<in> set (show_int i)"
  then have "is_digit c \<or> c = CHR ''-''" by (rule show_int_chars)
  then show ?thesis by (auto simp: is_digit_def digit_of_def Let_def split: if_splits)
qed

lemma endpoint_units_inj:
  assumes "utf16_units (endpointKey \<lparr>ep_instanceId = of_int i, ep_gateway = n\<rparr>) =
      utf16_units (endpointKey \<lparr>ep_instanceId = of_int j, ep_gateway = m\<rparr>)"
  shows "i = j"
proof -
  let ?u = "\<lambda>c. of_nat (of_char c) :: 16 word"
  have u: "utf16_units (endpointKey \<lparr>ep_instanceId = of_int k, ep_gateway = g\<rparr>) =
      map ?u (show_int k) @ 0x2F # utf16_units g" for k g
    using utf16_ascii [of "show_int k" "CHR ''/'' # g"] show_int_ascii [of _ k] by (simp add: endpointKey_def Let_def)
  have unat: "unat (?u c) = of_char c" for c
    by (rule unat_small) (use nat_of_char_less_256 [of c] in linarith)
  have ne: "?u c \<noteq> 0x2F" if "c \<in> set (show_int k)" for c k
  proof
    assume "?u c = 0x2F"
    then have "(of_char c :: nat) = 0x2F" using unat [of c] by simp
    then show False using show_int_ascii [OF that] by simp
  qed
  have tw: "takeWhile (\<lambda>x. x \<noteq> 0x2F) (map ?u (show_int k) @ 0x2F # xs) = map ?u (show_int k)" for k and xs :: ustring
    using ne by (subst takeWhile_append2) auto
  from assms have "map ?u (show_int i) = map ?u (show_int j)"
    unfolding u by (metis tw)
  moreover have "inj ?u" by (rule injI) (metis unat of_char_eq_iff)
  ultimately have "show_int i = show_int j" by (metis inj_map_eq_map)
  then show "i = j" by (rule show_int_inj)
qed

abbreviation keys_differ :: "endpoint \<Rightarrow> endpoint \<Rightarrow> bool" where
  "keys_differ a b \<equiv> utf16_units (endpointKey a) \<noteq> utf16_units (endpointKey b)"

lemma flipped_swap: "keys_differ a b \<Longrightarrow> flipped b a \<longleftrightarrow> \<not> flipped a b"
  using units_less_total units_less_asym unfolding flipped_def js_less_def by blast

lemma orient_swap: "keys_differ a b \<Longrightarrow> orient b a = orient a b"
  using flipped_swap [of a b] by (simp add: orient_def)

lemma edgeId_orient: "orient a b = (low, high) \<Longrightarrow> edgeId low high = edgeId a b"
  using units_less_asym unfolding edgeId_def orient_def flipped_def js_less_def
  by (auto split: if_splits)

definition link_id :: "endpoint \<times> endpoint \<Rightarrow> string" where
  "link_id l = edgeId (fst l) (snd l)"

definition link_flipped :: "endpoint \<times> endpoint \<Rightarrow> bool" where
  "link_flipped l = flipped (fst l) (snd l)"

lemma add_link_get:
  "jm_get (add_link M l) k =
    (if k = link_id l then
       (let e = nullish (jm_get M k) (new_edge (fst (orient (fst l) (snd l))) (snd (orient (fst l) (snd l))))
        in Some (if link_flipped l then e\<lparr>ge_reverse := True\<rparr> else e\<lparr>ge_forward := True\<rparr>))
     else jm_get M k)"
proof -
  obtain low high where o: "orient (fst l) (snd l) = (low, high)" by (cases "orient (fst l) (snd l)")
  show ?thesis
    by (simp add: add_link_def o edgeId_orient [OF o] link_id_def link_flipped_def Let_def)
qed

lemma add_links_get:
  assumes "jm_get (foldl add_link M ls) k = Some e"
  shows "(ge_forward e \<longleftrightarrow> (\<exists>e0. jm_get M k = Some e0 \<and> ge_forward e0) \<or> (\<exists>l\<in>set ls. link_id l = k \<and> \<not> link_flipped l))
    \<and> (ge_reverse e \<longleftrightarrow> (\<exists>e0. jm_get M k = Some e0 \<and> ge_reverse e0) \<or> (\<exists>l\<in>set ls. link_id l = k \<and> link_flipped l))
    \<and> (jm_get M k = None \<longrightarrow> (\<exists>l\<in>set ls. link_id l = k))"
  using assms
proof (induction ls arbitrary: M)
  case (Cons l ls)
  from Cons.IH [of "add_link M l"] Cons.prems
  show ?case
    by (cases "jm_get M k"; cases "k = link_id l") (auto simp: add_link_get Let_def nullish_def new_edge_def)
qed simp

lemma jm_wf_add_links: "jm_wf M \<Longrightarrow> jm_wf (foldl add_link M ls)"
  by (induction ls arbitrary: M) (auto simp: add_link_def Let_def split: prod.split)

lemma directed_iff:
  assumes "edits_wf E"
  shows "(a, b) \<in> set (directedLinks E) \<longleftrightarrow>
    (\<exists>i n j m. linked E i n j m \<and> n \<noteq> [] \<and> a = \<lparr>ep_instanceId = of_int i, ep_gateway = n\<rparr>
       \<and> b = \<lparr>ep_instanceId = of_int j, ep_gateway = m\<rparr>)" (is "?l \<longleftrightarrow> ?r")
proof
  assume ?l
  then obtain k ts where "(k, ts) \<in> set E" "(a, b) \<in> set (key_links k ts)"
    by (auto simp: directedLinks_def)
  then obtain t i n where k: "(k, ts) \<in> set E" "parse_edit_key k = Some (i, n)" "t \<in> set ts"
      "a = \<lparr>ep_instanceId = i, ep_gateway = n\<rparr>"
      "b = \<lparr>ep_instanceId = of_int (g_targetInstanceId t), ep_gateway = str_or (g_targetGateway t) n\<rparr>"
    by (cases "parse_edit_key k") (auto simp: key_links_def)
  from k(1) assms obtain i' n' where key: "k = edit_key i' n'" by (force simp: edits_wf_def)
  then have n: "n \<noteq> []" "i = of_int i'" "n' = n" using k(2) by (auto split: if_splits)
  have "jm_get E k = Some ts" using assms k(1) by (simp add: jm_get_iff_in edits_wf_def)
  then have "t \<in> set (layout E i' n)" using k(3) key n(3) by (simp add: layout_def)
  moreover from this assms have "g_targetGateway t \<noteq> []" by (simp add: layout_def edits_wf_targets)
  ultimately have "linked E i' n (g_targetInstanceId t) (g_targetGateway t)"
    "b = \<lparr>ep_instanceId = of_int (g_targetInstanceId t), ep_gateway = g_targetGateway t\<rparr>"
    using k(5) by (simp_all add: linkedI str_or_def)
  then show ?r using k(4) n by blast
next
  assume ?r
  then obtain i n j m where l: "linked E i n j m" "n \<noteq> []" "a = \<lparr>ep_instanceId = of_int i, ep_gateway = n\<rparr>"
      "b = \<lparr>ep_instanceId = of_int j, ep_gateway = m\<rparr>" by blast
  then obtain ts where ts: "jm_get E (edit_key i n) = Some ts" "\<lparr>g_targetInstanceId = j, g_targetGateway = m\<rparr> \<in> set ts"
    by (cases "jm_get E (edit_key i n)") (auto simp: linked_def layout_def nullish_def)
  then have "(edit_key i n, ts) \<in> set E" by (simp add: jm_get_Some_in)
  have "m \<noteq> []"
    using edits_wf_targets [OF assms, of _ "edit_key i n"] ts by (force simp: nullish_def)
  then have "(a, b) \<in> set (key_links (edit_key i n) ts)"
    using l(2-) by (simp add: key_links_def) (rule image_eqI [OF _ ts(2)], simp add: str_or_def)
  with \<open>(edit_key i n, ts) \<in> set E\<close> show ?l by (auto simp: directedLinks_def)
qed

lemma edges_both_ways:
  assumes "edits_wf E" and "reciprocal E" and "e \<in> set (buildEdges le E)"
  shows "ge_forward e \<and> ge_reverse e"
proof -
  let ?M = "foldl add_link [] (directedLinks E)"
  obtain k where "(k, e) \<in> set ?M" using assms(3) by (auto simp: buildEdges_def)
  then have e: "jm_get ?M k = Some e" by (simp add: jm_get_iff_in jm_wf_add_links)
  note flags = add_links_get [OF e]
  then obtain a b where ab: "(a, b) \<in> set (directedLinks E)" "edgeId a b = k"
    by (auto simp: link_id_def)
  then obtain i n j m where l: "linked E i n j m" "n \<noteq> []" "a = \<lparr>ep_instanceId = of_int i, ep_gateway = n\<rparr>"
      "b = \<lparr>ep_instanceId = of_int j, ep_gateway = m\<rparr>"
    by (auto simp: directed_iff [OF assms(1)])
  with assms(2) have "linked E j m i n" "i \<noteq> j" by (auto simp: reciprocal_def)
  with assms(2) have r: "linked E j m i n" "i \<noteq> j" "m \<noteq> []" unfolding reciprocal_def by blast+
  then have ba: "(b, a) \<in> set (directedLinks E)"
    using l by (auto simp: directed_iff [OF assms(1)])
  have diff: "keys_differ a b" using endpoint_units_inj r(2) l by auto
  have "edgeId b a = k" using ab(2) orient_swap [OF diff] by (simp add: edgeId_def)
  then show ?thesis
    using flags ab ba flipped_swap [OF diff]
    by (cases "flipped a b") (auto simp: link_id_def link_flipped_def intro: bexI [of _ "(a, b)"] bexI [of _ "(b, a)"])
qed

section \<open>A save is accepted\<close>

lemma set_bulk [simp]: "set (js_sort xs) = set xs"
  by (simp add: js_sort_def)

lemma dirty_facts:
  assumes "edits_wf E" and "edits_wf B"
  shows "distinct (pending_keys E B)"
    and "key \<in> set (pending_keys E B) \<Longrightarrow> \<exists>i n. key = edit_key i n"
    and "\<not> isMockEditKey key \<Longrightarrow> key \<notin> set (pending_keys E B) \<Longrightarrow> sameTargets (edit_targets E key) (edit_targets B key)"
proof -
  have "distinct (union_keys E B)"
    using assms by (auto simp: union_keys_def edits_wf_def jm_wf_def jm_has_iff)
  then show "distinct (pending_keys E B)"
    by (simp add: pending_keys_def dirtyKeys_def js_sort_def)
  have keys: "set (union_keys E B) = set (jm_keys E) \<union> set (jm_keys B)"
    by (auto simp: union_keys_def jm_has_iff)
  show "key \<in> set (pending_keys E B) \<Longrightarrow> \<exists>i n. key = edit_key i n"
    using assms keys unfolding pending_keys_def dirtyKeys_def edits_wf_def by auto
  show "sameTargets (edit_targets E key) (edit_targets B key)"
    if "\<not> isMockEditKey key" "key \<notin> set (pending_keys E B)"
  proof (cases "key \<in> set (union_keys E B)")
    case True
    with that show ?thesis by (auto simp: pending_keys_def dirtyKeys_def)
  next
    case False
    then have "jm_get E key = None" "jm_get B key = None" by (auto simp: keys jm_get_None_iff)
    then show ?thesis by (simp add: sameTargets_def nullish_def)
  qed
qed

text \<open>The group of an instance holds its pending gateways with their staged targets.\<close>

definition staged_entry :: "edits \<Rightarrow> int \<Rightarrow> string \<Rightarrow> string \<times> gateway_link list" where
  "staged_entry E i n = (n, map (\<lambda>t. t\<lparr>g_targetGateway := str_or (g_targetGateway t) n\<rparr>) (layout E i n))"

lemma group_keys:
  assumes "distinct ks" and "\<forall>k\<in>set ks. \<exists>i n. k = edit_key i n"
  shows "jm_wf (snd (foldl (group_key E) ([], []) ks)) \<and>
    (\<forall>i. \<exists>ns. distinct ns \<and> (\<forall>n. n \<in> set ns \<longleftrightarrow> n \<noteq> [] \<and> edit_key i n \<in> set ks) \<and>
       jm_get (snd (foldl (group_key E) ([], []) ks)) (of_int i) =
         (if ns = [] then None else Some (map (staged_entry E i) ns)))"
  using assms
proof (induction ks rule: rev_induct)
  case (snoc k ks)
  define acc where "acc = foldl (group_key E) ([], []) ks"
  obtain j m where k: "k = edit_key j m" using snoc.prems(2) by auto
  have new: "edit_key j m \<notin> set ks" using snoc.prems(1) k by simp
  have wf: "jm_wf (snd acc)"
    and IH: "\<And>i. \<exists>ns. distinct ns \<and> (\<forall>n. n \<in> set ns \<longleftrightarrow> n \<noteq> [] \<and> edit_key i n \<in> set ks) \<and>
       jm_get (snd acc) (of_int i) = (if ns = [] then None else Some (map (staged_entry E i) ns))"
    using snoc unfolding acc_def by auto
  have step: "snd (group_key E acc k) =
      (if m = [] then snd acc
       else jm_set (snd acc) (of_int j) (nullish (jm_get (snd acc) (of_int j)) [] @ [staged_entry E j m]))"
    by (simp add: group_key_def k staged_entry_def layout_def)
  have "\<exists>ns. distinct ns \<and> (\<forall>n. n \<in> set ns \<longleftrightarrow> n \<noteq> [] \<and> edit_key i n \<in> set (ks @ [k])) \<and>
      jm_get (snd (group_key E acc k)) (of_int i) = (if ns = [] then None else Some (map (staged_entry E i) ns))" for i
  proof -
    obtain ns where ns: "distinct ns" "\<forall>n. n \<in> set ns \<longleftrightarrow> n \<noteq> [] \<and> edit_key i n \<in> set ks"
        "jm_get (snd acc) (of_int i) = (if ns = [] then None else Some (map (staged_entry E i) ns))"
      using IH by blast
    show ?thesis
    proof (cases "m \<noteq> [] \<and> i = j")
      case True
      then have "m \<notin> set ns" using ns(2) new by simp
      then have "distinct (ns @ [m])" using ns(1) by simp
      moreover have "n \<in> set (ns @ [m]) \<longleftrightarrow> n \<noteq> [] \<and> edit_key i n \<in> set (ks @ [k])" for n
        using ns(2) True k by auto
      moreover have "jm_get (snd (group_key E acc k)) (of_int i) = Some (map (staged_entry E i) (ns @ [m]))"
        using True ns(3) by (cases "ns = []") (simp_all add: step nullish_def)
      ultimately show ?thesis by (intro exI [of _ "ns @ [m]"]) simp
    next
      case False
      then have "n \<noteq> [] \<Longrightarrow> edit_key i n \<noteq> k" for n using k by auto
      then have "n \<in> set ns \<longleftrightarrow> n \<noteq> [] \<and> edit_key i n \<in> set (ks @ [k])" for n
        using ns(2) by auto
      moreover have "jm_get (snd (group_key E acc k)) (of_int i) = jm_get (snd acc) (of_int i)"
        using False by (auto simp: step)
      ultimately show ?thesis using ns(1,3) by (intro exI [of _ ns]) simp
    qed
  qed
  moreover have "jm_wf (snd (group_key E acc k))" using wf by (simp add: step)
  moreover have eq: "foldl (group_key E) ([], []) (ks @ [k]) = group_key E acc k" by (simp add: acc_def)
  ultimately show ?case unfolding eq by blast
qed simp

lemma requests:
  assumes "edits_wf E" and "edits_wf B" and "(of_int i, entries) \<in> set (save_requests E B)"
  shows "\<exists>ns. ns \<noteq> [] \<and> distinct ns \<and> (\<forall>n. n \<in> set ns \<longleftrightarrow> n \<noteq> [] \<and> edit_key i n \<in> set (pending_keys E B))
    \<and> entries = map request_entry (map (staged_entry E i) ns)"
proof -
  let ?M = "snd (save_payload E B)"
  obtain gs where gs: "(of_int i, gs) \<in> set ?M" "entries = map request_entry gs"
    using assms(3) by (auto simp: save_requests_def Let_def split: if_splits)
  have "jm_wf ?M" and "\<exists>ns. distinct ns \<and> (\<forall>n. n \<in> set ns \<longleftrightarrow> n \<noteq> [] \<and> edit_key i n \<in> set (pending_keys E B)) \<and>
       jm_get ?M (of_int i) = (if ns = [] then None else Some (map (staged_entry E i) ns))"
    using group_keys [OF dirty_facts(1) [OF assms(1,2)], of E] dirty_facts(2) [OF assms(1,2)]
    unfolding save_payload_def by blast+
  moreover from this(1) gs(1) have "jm_get ?M (of_int i) = Some gs" by (simp add: jm_get_iff_in)
  ultimately show ?thesis using gs(2) by (auto split: if_splits)
qed

lemma staged_targets:
  assumes "edits_wf E" and "reciprocal E"
  shows "normalize_targets i n (ge_targets (request_entry (staged_entry E i n))) = layout E i n"
proof -
  have t: "g_targetGateway t \<noteq> [] \<and> g_targetInstanceId t \<noteq> i" if "t \<in> set (layout E i n)" for t
  proof
    show "g_targetGateway t \<noteq> []" using that edits_wf_targets [OF assms(1)] by (simp add: layout_def)
    have "linked E i n (g_targetInstanceId t) (g_targetGateway t)" using that by (rule linkedI)
    then show "g_targetInstanceId t \<noteq> i" using assms(2) unfolding reciprocal_def by blast
  qed
  have "map (\<lambda>t. t\<lparr>g_targetGateway := str_or (g_targetGateway t) n\<rparr>) (layout E i n) = layout E i n"
    by (intro map_idI) (simp add: t str_or_def)
  then have "normalize_targets i n (ge_targets (request_entry (staged_entry E i n))) =
      map (\<lambda>t. \<lparr>g_targetInstanceId = g_targetInstanceId t, g_targetGateway = ostr_or (Some (g_targetGateway t)) n\<rparr>)
        (filter (\<lambda>t. g_targetInstanceId t \<noteq> i) (layout E i n))"
    by (simp add: normalize_targets_def request_entry_def staged_entry_def filter_map o_def js_int_def)
  also have "filter (\<lambda>t. g_targetInstanceId t \<noteq> i) (layout E i n) = layout E i n"
    using t by (simp add: filter_id_conv)
  finally show ?thesis using t by (simp add: ostr_or_def map_idI)
qed

lemma normalize_staged:
  assumes "edits_wf E" and "reciprocal E" and "distinct ns" and "\<forall>n\<in>set ns. n \<in> set MULTI_GATEWAY_NAMES \<and> \<not> jm_has seen n"
  shows "normalize_entries Multi i seen (map request_entry (map (staged_entry E i) ns)) =
    Inr (seen @ map (\<lambda>n. (n, layout E i n)) ns)"
  using assms(3,4)
proof (induction ns arbitrary: seen)
  case (Cons n ns)
  have n: "n \<in> set MULTI_GATEWAY_NAMES" "\<not> jm_has seen n" "n \<noteq> []"
    using Cons.prems(2) multi_names_nonempty by auto
  have g: "ge_gatewayName (request_entry (staged_entry E i n)) = Some n"
    by (simp add: request_entry_def staged_entry_def)
  have "\<forall>k\<in>set ns. k \<in> set MULTI_GATEWAY_NAMES \<and> \<not> jm_has (seen @ [(n, layout E i n)]) k"
    using Cons.prems by (auto simp: jm_has_iff)
  from Cons.IH [OF _ this] Cons.prems(1) n show ?case
    by (simp add: g staged_targets [OF assms(1,2)] jm_set_absent gatewayNamesFor_def)
qed simp

lemma check_fits:
  assumes "length targets \<le> 1"
    and "\<And>t m links. t \<in> set targets \<Longrightarrow> (m, links) \<in> set others \<Longrightarrow> m \<noteq> n \<Longrightarrow> \<not> links_to (g_targetInstanceId t) links"
  shows "checkMultiModeLink n targets others = None"
proof (cases targets)
  case Nil
  then show ?thesis by (simp add: checkMultiModeLink_def)
next
  case (Cons t ts)
  then have "ts = []" using assms(1) by simp
  moreover have "List.find (\<lambda>(name, links). name \<noteq> n \<and> links_to (g_targetInstanceId t) links) others = None"
    using assms(2) [of t] Cons by (auto simp: find_None_iff)
  ultimately show ?thesis by (simp add: checkMultiModeLink_def Cons)
qed

lemma first_violation_fits:
  "\<forall>(n, ls)\<in>set N. checkMultiModeLink n ls (jm_delete P n) = None \<Longrightarrow> first_violation P N = None"
  by (induction N) auto

lemma jm_wf_proposed: "jm_wf (proposed_links w i N)"
proof -
  have "jm_wf (foldl (\<lambda>m k. if f k = [] then m else jm_set m k (f k)) M ks)" if "jm_wf M"
    for f :: "string \<Rightarrow> gateway_link list" and M ks
    using that by (induction ks arbitrary: M) auto
  then show ?thesis by (simp add: proposed_links_def)
qed

lemma link_text_inj: "link_text t = link_text u \<Longrightarrow> t = u"
proof -
  have slash: "CHR ''/'' \<notin> set (show_int i)" for i
    using show_int_ascii [of "CHR ''/''" i] by auto
  assume eq: "link_text t = link_text u"
  let ?w = "takeWhile (\<lambda>c. c \<noteq> CHR ''/'')"
  have w: "?w (link_text v) = show_int (g_targetInstanceId v)" for v
    unfolding link_text_def by (subst takeWhile_append2) (use slash in auto)
  from eq have "show_int (g_targetInstanceId t) = show_int (g_targetInstanceId u)" by (metis w)
  with eq have "g_targetInstanceId t = g_targetInstanceId u" "g_targetGateway t = g_targetGateway u"
    by (auto simp: link_text_def dest: show_int_inj)
  then show "t = u" by simp
qed

lemma sameTargets_single:
  assumes "sameTargets a b" and "length a \<le> 1"
  shows "a = b"
proof (cases a)
  case Nil
  then show ?thesis using assms(1) by (simp add: sameTargets_def)
next
  case (Cons t ts)
  then obtain u where "a = [t]" "b = [u]"
    using assms by (cases b) (auto simp: sameTargets_def)
  then show ?thesis using assms(1) link_text_inj by (simp add: sameTargets_def js_sort_def)
qed

text \<open>The canvas and the controller agree on what is stored for an instance.\<close>

definition in_step :: "plugin \<Rightarrow> edits \<Rightarrow> int \<Rightarrow> bool" where
  "in_step w B i = (\<forall>n\<in>set MULTI_GATEWAY_NAMES. links_of w i n = layout B i n)"

lemma save_accepted:
  assumes E: "edits_wf E" "reciprocal E" "multi_layout (layout E i)" and B: "edits_wf B" and step: "in_step w B i"
    and names: "\<forall>n. n \<noteq> [] \<and> edit_key i n \<in> set (pending_keys E B) \<longrightarrow> n \<in> set MULTI_GATEWAY_NAMES"
    and req: "(of_int i, entries) \<in> set (save_requests E B)"
  shows "\<exists>N. entries \<noteq> [] \<and> normalize_entries Multi i [] entries = Inr N
    \<and> first_violation (proposed_links w i N) N = None
    \<and> (\<forall>n\<in>set MULTI_GATEWAY_NAMES. next_links w i N n = layout E i n)"
proof -
  obtain ns where ns: "ns \<noteq> []" "distinct ns" "\<forall>n. n \<in> set ns \<longleftrightarrow> n \<noteq> [] \<and> edit_key i n \<in> set (pending_keys E B)"
      "entries = map request_entry (map (staged_entry E i) ns)"
    using requests [OF E(1) B req] by blast
  define N where "N = map (\<lambda>n. (n, layout E i n)) ns"
  have norm: "normalize_entries Multi i [] entries = Inr N"
    using normalize_staged [OF E(1,2) ns(2), of "[]" i] ns(3) names by (simp add: ns(4) N_def jm_has_iff)
  have "\<not> i < 0"
  proof
    assume "i < 0"
    from ns(1) obtain n where "n \<noteq> []" "edit_key i n \<in> set (pending_keys E B)" using ns(3) by (meson last_in_set)
    with \<open>i < 0\<close> show False by (simp add: pending_keys_def isMockEditKey_def isMockInstanceId_def)
  qed
  have N: "jm_get N n = (if n \<in> set ns then Some (layout E i n) else None)" for n
    unfolding N_def using ns(2) by (induction ns) auto
  have "next_links w i N n = layout E i n" if n: "n \<in> set MULTI_GATEWAY_NAMES" for n
  proof (cases "n \<in> set ns")
    case True
    then show ?thesis by (simp add: next_links_def jm_has_def N)
  next
    case False
    have "\<not> isMockEditKey (edit_key i n)" using \<open>\<not> i < 0\<close> by (simp add: isMockEditKey_def isMockInstanceId_def)
    with False ns(3) multi_names_nonempty [OF n] have "sameTargets (layout E i n) (layout B i n)"
      using dirty_facts(3) [OF E(1) B] by (simp add: layout_def)
    moreover have "length (layout E i n) \<le> 1" using E(3) n by (simp add: multi_layout_def)
    ultimately have "layout E i n = layout B i n" by (rule sameTargets_single)
    then show ?thesis using False step n by (simp add: next_links_def jm_has_def N in_step_def links_of_def)
  qed
  then have L: "\<forall>n\<in>set MULTI_GATEWAY_NAMES. next_links w i N n = layout E i n" by blast
  have "checkMultiModeLink n ls (jm_delete (proposed_links w i N) n) = None" if "(n, ls) \<in> set N" for n ls
  proof -
    from that have n: "n \<in> set ns" "ls = layout E i n" by (auto simp: N_def)
    then have nm: "n \<in> set MULTI_GATEWAY_NAMES" using names ns(3) by blast
    show ?thesis
    proof (rule check_fits)
      show "length ls \<le> 1" using E(3) nm n(2) by (simp add: multi_layout_def)
      fix t m links
      assume t: "t \<in> set ls" and m: "(m, links) \<in> set (jm_delete (proposed_links w i N) n)" "m \<noteq> n"
      then have "jm_get (proposed_links w i N) m = Some links"
        using jm_wf_proposed by (metis jm_delete_subset jm_get_iff_in subsetD)
      then have "m \<in> set MULTI_GATEWAY_NAMES" "links = layout E i m"
        using L by (auto simp: proposed_get split: if_splits)
      then show "\<not> links_to (g_targetInstanceId t) links"
        using E(3) nm n(2) t m(2) by (auto simp: multi_layout_def)
    qed
  qed
  then have "first_violation (proposed_links w i N) N = None" by (auto intro: first_violation_fits)
  with norm L ns(1,4) show ?thesis by auto
qed

section \<open>Properties\<close>

text \<open>
  Linking or unlinking a whole group of instances keeps what the canvas stages in order: keys are
  read back as they are, every link has its counterpart and none leads back to its own instance, in
  the multi layout every gateway of every instance has one destination at most and every destination
  one gateway; and every edge that is drawn has both directions.
\<close>

theorem bulk_links_keep_the_layout:
  assumes "staged_ok mode E" and "distinct instanceIds"
  shows "staged_ok mode (fst (planBulkLink E instanceIds gateway mode connect))
    \<and> (\<forall>e\<in>set (buildEdges le (fst (planBulkLink E instanceIds gateway mode connect))). ge_forward e \<and> ge_reverse e)"
proof -
  have ok: "staged_ok mode (fst (planBulkLink E instanceIds gateway mode connect))" by (rule plan_ok [OF assms])
  then have "edits_wf (fst (planBulkLink E instanceIds gateway mode connect))"
    "reciprocal (fst (planBulkLink E instanceIds gateway mode connect))" by (auto simp: staged_ok_def)
  from edges_both_ways [OF this] ok show ?thesis by blast
qed

theorem bulk_links_keep_the_layout_witness:
  "let E = fst (planBulkLink [] [1, 2, 3] ''gate'' Multi True)
   in staged_ok Multi E \<and> list_all (\<lambda>e. ge_forward e \<and> ge_reverse e) (buildEdges (\<lambda>s t. True) E)"
proof -
  have "staged_ok Multi []"
    by (simp add: staged_ok_def edits_wf_def reciprocal_def linked_def layout_def nullish_def multi_layout_def links_to_def)
  from bulk_links_keep_the_layout [OF this, of "[1, 2, 3]" "''gate''" True "\<lambda>s t. True"]
  show ?thesis by (simp add: Let_def list_all_iff)
qed

text \<open>
  The canvas and the controller agree: if the canvas was loaded from what the controller stores
  for an instance, and what it stages is in order and names gateways of the multi layout, then the
  request it sends for that instance is not refused by the controller, which goes on to save
  exactly the staged layout of the instance.
\<close>

theorem canvas_save_is_accepted:
  assumes "staged_ok Multi E" and "edits_wf B" and "in_step w B i"
    and "\<forall>n. n \<noteq> [] \<and> edit_key i n \<in> set (pending_keys E B) \<longrightarrow> n \<in> set MULTI_GATEWAY_NAMES"
    and "(of_int i, entries) \<in> set (save_requests E B)"
    and "config w ''surface_export.gateway_mode'' = Some (JStr ''multi'')"
    and "find_instance w (num_of_int i) = Some inst" and "\<not> n_isDeleted inst"
  shows "\<exists>N. handleSetGatewayLinkRequest (js_int i) entries w = save_links i N w
    \<and> (\<forall>n\<in>set MULTI_GATEWAY_NAMES. next_links w i N n = layout E i n)"
proof -
  have E: "edits_wf E" "reciprocal E" "multi_layout (layout E i)" using assms(1) by (auto simp: staged_ok_def)
  obtain N where N: "entries \<noteq> []" "normalize_entries Multi i [] entries = Inr N"
      "first_violation (proposed_links w i N) N = None" "\<forall>n\<in>set MULTI_GATEWAY_NAMES. next_links w i N n = layout E i n"
    using save_accepted [OF E assms(2,3,4,5)] by blast
  have "handleSetGatewayLinkRequest (js_int i) entries w = save_links i N w"
    using assms(6-8) N(1-3)
    by (simp add: handleSetGatewayLinkRequest_def gatewayMode_def with_config_def parseGatewayMode_def act_run
        js_int_def Let_def)
  with N(4) show ?thesis by blast
qed

definition sample_gate :: string where "sample_gate = ''surfexp_gateway_1''"

definition canvas_sample :: edits where
  "canvas_sample =
     [(edit_key 1 sample_gate, [\<lparr>g_targetInstanceId = 2, g_targetGateway = sample_gate\<rparr>]),
      (edit_key 2 sample_gate, [\<lparr>g_targetInstanceId = 1, g_targetGateway = sample_gate\<rparr>])]"

lemma sample_gate_known: "sample_gate \<in> set MULTI_GATEWAY_NAMES"
  by (simp add: sample_gate_def multi_names)

lemma sample_gate_nonempty: "sample_gate \<noteq> []"
  by (simp add: sample_gate_def)

lemma sample_keys: "edit_key 1 sample_gate = ''1:surfexp_gateway_1''" "edit_key 2 sample_gate = ''2:surfexp_gateway_1''"
  unfolding sample_gate_def by code_simp+

lemma sample_keys_order: "js_less ''1:surfexp_gateway_1'' ''2:surfexp_gateway_1''" "\<not> js_less ''2:surfexp_gateway_1'' ''1:surfexp_gateway_1''"
  by code_simp+

lemma canvas_sample_plan: "canvas_sample = fst (planBulkLink [] [1, 2] sample_gate Multi True)"
  unfolding canvas_sample_def sample_gate_def by code_simp

lemma canvas_sample_keys: "pending_keys canvas_sample [] = [edit_key 1 sample_gate, edit_key 2 sample_gate]"
proof -
  have "dirtyKeys canvas_sample [] = js_sort [edit_key 1 sample_gate, edit_key 2 sample_gate]"
    by (simp add: dirtyKeys_def union_keys_def canvas_sample_def sameTargets_def nullish_def sample_keys)
  also have "\<dots> = [edit_key 1 sample_gate, edit_key 2 sample_gate]"
    by (simp add: js_sort_def sample_keys sample_keys_order)
  finally show ?thesis
    by (simp add: pending_keys_def isMockEditKey_def isMockInstanceId_def sample_gate_nonempty)
qed

lemma canvas_sample_saves: "save_requests canvas_sample [] =
     [(1, [\<lparr>ge_gatewayName = Some sample_gate, ge_targets = [(js_int 2, Some sample_gate)]\<rparr>]),
      (2, [\<lparr>ge_gatewayName = Some sample_gate, ge_targets = [(js_int 1, Some sample_gate)]\<rparr>])]"
proof -
  have "edit_targets canvas_sample (edit_key 1 sample_gate) = [\<lparr>g_targetInstanceId = 2, g_targetGateway = sample_gate\<rparr>]"
    "edit_targets canvas_sample (edit_key 2 sample_gate) = [\<lparr>g_targetInstanceId = 1, g_targetGateway = sample_gate\<rparr>]"
    by (simp_all add: canvas_sample_def nullish_def sample_keys)
  then have "snd (save_payload canvas_sample []) =
      [(1, [(sample_gate, [\<lparr>g_targetInstanceId = 2, g_targetGateway = sample_gate\<rparr>])]),
       (2, [(sample_gate, [\<lparr>g_targetInstanceId = 1, g_targetGateway = sample_gate\<rparr>])])]"
    by (simp add: save_payload_def canvas_sample_keys group_key_def sample_gate_nonempty str_or_def nullish_def)
  then show ?thesis
    by (simp add: save_requests_def mockLeaksInPayload_def isMockInstanceId_def request_entry_def)
qed

theorem canvas_save_is_accepted_witness:
  "\<exists>N w. handleSetGatewayLinkRequest (js_int 1)
       [\<lparr>ge_gatewayName = Some sample_gate, ge_targets = [(js_int 2, Some sample_gate)]\<rparr>] w
     = save_links 1 N w"
proof -
  define w where "w = (sample_plugin sample_transfer)
     \<lparr>config := (\<lambda>_. Some (JStr ''multi'')), instances := [(1, sample_instance)], gatewayLinks := []\<rparr>"
  have "staged_ok Multi []"
    by (simp add: staged_ok_def edits_wf_def reciprocal_def linked_def layout_def nullish_def multi_layout_def links_to_def)
  then have ok: "staged_ok Multi canvas_sample"
    unfolding canvas_sample_plan by (rule plan_ok) simp
  have 1: "edits_wf []" by (simp add: edits_wf_def)
  have 2: "in_step w [] 1" by (simp add: in_step_def links_of_def layout_def w_def nullish_def)
  from sample_gate_known have 3: "\<forall>n. n \<noteq> [] \<and> edit_key 1 n \<in> set (pending_keys canvas_sample []) \<longrightarrow> n \<in> set MULTI_GATEWAY_NAMES"
    unfolding canvas_sample_keys by auto
  have 4: "(of_int 1, [\<lparr>ge_gatewayName = Some sample_gate,
      ge_targets = [(js_int 2, Some sample_gate)]\<rparr>]) \<in> set (save_requests canvas_sample [])"
    unfolding canvas_sample_saves by simp
  have 5: "config w ''surface_export.gateway_mode'' = Some (JStr ''multi'')" by (simp add: w_def)
  have 6: "find_instance w (num_of_int 1) = Some sample_instance"
    using int_of_num_simps(1) [of 1] is_integer_simps(1) [of 1] by (simp add: find_instance_def w_def)
  have 7: "\<not> n_isDeleted sample_instance" by (simp add: sample_instance_def)
  from canvas_save_is_accepted [OF ok 1 2 3 4 5 6 7] show ?thesis by blast
qed

end
