(* ===== verification/LiveStatus.thy ===== *)
theory LiveStatus
  imports Helpers
begin

text \<open>
  What the browser page knows of its connection and of the order of what it receives
  (shared/live-status.ts, shared/revision-gate.ts): the status it shows, the delays of its retries,
  the watermarks of the three live channels, and which pushes and snapshots are applied.
\<close>

section \<open>Live status\<close>

datatype live_status = Live | Reconnecting | Offline | Degraded

datatype connection_event = Connect | Drop | Resume | Close

datatype sync_outcome = Subscribed | Unsubscribed | Skipped | SyncFailed

definition nextLiveStatus :: "live_status \<Rightarrow> bool \<Rightarrow> connection_event option \<Rightarrow> sync_outcome option \<Rightarrow> live_status" where
  "nextLiveStatus previous isConnected lastEvent outcome =
     (if outcome = None \<and> lastEvent = Some Close then Offline
      else if outcome = None \<and> lastEvent = Some Drop then Reconnecting
      else if \<not> isConnected then (if lastEvent = Some Close then Offline else Reconnecting)
      else case outcome of
             Some SyncFailed \<Rightarrow> Degraded
           | Some Subscribed \<Rightarrow> Live
           | Some Skipped \<Rightarrow> Reconnecting
           | _ \<Rightarrow> previous)"

definition shouldRetryResubscribe :: "live_status \<Rightarrow> bool \<Rightarrow> bool" where
  "shouldRetryResubscribe status isConnected \<longleftrightarrow> isConnected \<and> status = Degraded"

definition RESUBSCRIBE_BASE_DELAY_MS :: nat where "RESUBSCRIBE_BASE_DELAY_MS = 1000"
definition RESUBSCRIBE_MAX_DELAY_MS :: nat where "RESUBSCRIBE_MAX_DELAY_MS = 30000"

text \<open>Attempts are counted from 0, so the bound of the code at 0 has no effect.\<close>

definition resubscribeDelayMs :: "nat \<Rightarrow> nat" where
  "resubscribeDelayMs attempt = min RESUBSCRIBE_MAX_DELAY_MS (RESUBSCRIBE_BASE_DELAY_MS * 2 ^ attempt)"

section \<open>Revisions\<close>

record watermarks =
  wm_tree :: rat
  wm_transfer :: rat
  wm_log :: rat

definition freshRevisionWatermarks :: watermarks where
  "freshRevisionWatermarks = \<lparr>wm_tree = 0, wm_transfer = 0, wm_log = 0\<rparr>"

text \<open>The revision that is applied, if there is one.\<close>

definition fresh_revision :: "jsval \<Rightarrow> rat \<Rightarrow> rat option" where
  "fresh_revision revision watermark =
     (case to_number revision of Fin q \<Rightarrow> if watermark < q then Some q else None | _ \<Rightarrow> None)"

definition isFreshRevision :: "jsval \<Rightarrow> rat \<Rightarrow> bool" where
  "isFreshRevision revision watermark \<longleftrightarrow> fresh_revision revision watermark \<noteq> None"

record snapshot_decision =
  sd_apply :: bool
  sd_watermark :: "rat option"

definition decideSnapshot :: "jsval \<Rightarrow> rat \<Rightarrow> snapshot_decision" where
  "decideSnapshot revision watermark =
     (case revision of
        JNum (Fin q) \<Rightarrow>
          if watermark < q then \<lparr>sd_apply = True, sd_watermark = Some q\<rparr>
          else \<lparr>sd_apply = False, sd_watermark = None\<rparr>
      | _ \<Rightarrow> \<lparr>sd_apply = True, sd_watermark = None\<rparr>)"

text \<open>
  The delays double from one second to half a minute: no retry waits longer, and no retry comes
  sooner than the one before it.
\<close>

lemma resubscribe_delays:
  "RESUBSCRIBE_BASE_DELAY_MS \<le> resubscribeDelayMs attempt" "resubscribeDelayMs attempt \<le> RESUBSCRIBE_MAX_DELAY_MS"
  "resubscribeDelayMs attempt \<le> resubscribeDelayMs (Suc attempt)"
proof -
  have "(1000::nat) * 1 \<le> 1000 * 2 ^ attempt" by (rule mult_le_mono2) simp
  then show "RESUBSCRIBE_BASE_DELAY_MS \<le> resubscribeDelayMs attempt"
    by (simp add: resubscribeDelayMs_def RESUBSCRIBE_MAX_DELAY_MS_def RESUBSCRIBE_BASE_DELAY_MS_def)
qed (auto simp: resubscribeDelayMs_def)

text \<open>The page shows itself live only if it is connected and its subscription was accepted.\<close>

lemma live_only_if_subscribed:
  "nextLiveStatus previous isConnected lastEvent outcome = Live \<Longrightarrow> previous \<noteq> Live \<Longrightarrow>
    isConnected \<and> outcome = Some Subscribed"
  by (auto simp: nextLiveStatus_def split: if_splits option.splits sync_outcome.splits)

lemma snapshot_of_number:
  "decideSnapshot (JNum n) watermark =
    (case fresh_revision (JNum n) watermark of
       Some q \<Rightarrow> \<lparr>sd_apply = True, sd_watermark = Some q\<rparr>
     | None \<Rightarrow> \<lparr>sd_apply = \<not> is_finite n, sd_watermark = None\<rparr>)"
  by (cases n) (auto simp: decideSnapshot_def fresh_revision_def)

end
