(* ===== verification/WebUtils.thy ===== *)
theory WebUtils
  imports LiveStatus Timeline
begin

text \<open>
  The data the browser page keeps of transfers (web/utils.ts, web/view-models.ts): reading the
  documents it receives, and merging the summary of a transfer into the list it shows. A summary is
  an object with an identity, since the page tells by it what changed while it was waiting.
\<close>

section \<open>Reading documents\<close>

definition getString :: "jsval \<Rightarrow> string \<Rightarrow> jsval \<Rightarrow> jsval" where
  "getString obj key fallback = (case prop_get obj key of JStr s \<Rightarrow> JStr s | _ \<Rightarrow> fallback)"

definition getNumber :: "jsval \<Rightarrow> string \<Rightarrow> jsval \<Rightarrow> jsval" where
  "getNumber obj key fallback = (case prop_get obj key of JNum n \<Rightarrow> JNum n | _ \<Rightarrow> fallback)"

definition getProp :: "jsval \<Rightarrow> string \<Rightarrow> jsval \<Rightarrow> jsval" where
  "getProp obj key fallback = (if is_object obj then val_nullish (prop_get obj key) fallback else fallback)"

definition statusColor :: "string \<Rightarrow> string" where
  "statusColor status =
     (if status \<in> {''transporting'', ''in_progress''} then ''processing''
      else if status \<in> {''awaiting_validation'', ''awaiting_completion''} then ''gold''
      else if status = ''completed'' then ''success''
      else if status \<in> {''failed'', ''error'', ''cleanup_failed''} then ''error''
      else ''default'')"

section \<open>Summaries\<close>

record summary =
  sm_ref :: nat
  sm_fields :: "(string \<times> jsval) list"

abbreviation sm_get :: "summary \<Rightarrow> string \<Rightarrow> jsval" where
  "sm_get s \<equiv> obj_get (sm_fields s)"

abbreviation sm_id :: "summary \<Rightarrow> jsval" where
  "sm_id s \<equiv> sm_get s ''transferId''"

definition summaryFromTransferInfo :: "int \<Rightarrow> jsval \<Rightarrow> jsval \<Rightarrow> (string \<times> jsval) list option" where
  "summaryFromTransferInfo now info lastEventAt =
     (if \<not> truthy info then None
      else Some
        [(''transferId'', val_or (getString info ''transferId'' JNull) (val_or (getString info ''id'' JNull) (JStr []))),
         (''operationType'', getString info ''operationType'' (JStr ''transfer'')),
         (''exportId'', getString info ''exportId'' JNull),
         (''artifactSizeBytes'', getNumber info ''artifactSizeBytes'' JNull),
         (''downloadable'', JBool False),
         (''platformName'', getString info ''platformName'' (JStr ''Unknown'')),
         (''sourceInstanceId'', getNumber info ''sourceInstanceId'' (js_int (- 1))),
         (''sourceInstanceName'', getString info ''sourceInstanceName'' JNull),
         (''targetInstanceId'', getNumber info ''targetInstanceId'' (js_int (- 1))),
         (''targetInstanceName'', getString info ''targetInstanceName'' JNull),
         (''status'', getString info ''status'' (JStr ''unknown'')),
         (''startedAt'', getNumber info ''startedAt'' (js_int now)),
         (''completedAt'', getNumber info ''completedAt'' JNull),
         (''failedAt'', getNumber info ''failedAt'' JNull),
         (''error'', getString info ''error'' JNull),
         (''lastEventAt'', lastEventAt)])"

text \<open>Newest first; the start times are numbers, as their type says.\<close>

definition started_at :: "summary \<Rightarrow> jsnum" where
  "started_at s = to_number (val_or (sm_get s ''startedAt'') (js_int 0))"

definition by_start_time :: "summary list \<Rightarrow> summary list" where
  "by_start_time = sort_by (\<lambda>a b. \<not> num_less (started_at a) (started_at b))"

definition summaries_by_id :: "summary list \<Rightarrow> (jsval, summary) jsmap" where
  "summaries_by_id summaries = foldl (\<lambda>m s. jm_set m (sm_id s) s) [] summaries"

text \<open>The merged summary is a new object, \<open>ref\<close> its identity; \<open>incoming\<close> is any value.\<close>

definition merged_summary :: "nat \<Rightarrow> summary option \<Rightarrow> jsval \<Rightarrow> summary" where
  "merged_summary ref old incoming =
     \<lparr>sm_ref = ref,
      sm_fields = obj_spread (case old of Some s \<Rightarrow> obj_spread [] (sm_fields s) | None \<Rightarrow> []) (entries_of incoming)\<rparr>"

definition mergeTransferSummary :: "nat \<Rightarrow> summary list \<Rightarrow> jsval \<Rightarrow> summary list" where
  "mergeTransferSummary ref existing incoming =
     (let byId = summaries_by_id existing; key = prop_get incoming ''transferId'' in
      by_start_time (jm_values
        (if truthy incoming \<and> truthy key then jm_set byId key (merged_summary ref (jm_get byId key) incoming)
         else byId)))"

text \<open>\<open>before\<close> has the identity of the summary of each transfer.\<close>

definition entriesChangedSince :: "(jsval, nat) jsmap \<Rightarrow> summary list \<Rightarrow> summary list" where
  "entriesChangedSince before current = filter (\<lambda>s. jm_get before (sm_id s) \<noteq> Some (sm_ref s)) current"

definition refs_by_id :: "summary list \<Rightarrow> (jsval, nat) jsmap" where
  "refs_by_id summaries = foldl (\<lambda>m s. jm_set m (sm_id s) (sm_ref s)) [] summaries"

end
