(* ===== verification/WebClient.thy ===== *)
theory WebClient
  imports WebUtils
begin

text \<open>
  The browser side of the plugin (web/index.tsx, class WebPlugin): the state the page shows, the
  live subscription and its retries, the snapshot it fetches, and the pushes of the three live
  channels. The components that render the state are left out; a registered callback is a number.
\<close>

section \<open>State\<close>

record tree_state =
  ts_forceName :: string
  ts_hosts :: jsval
  ts_unassignedInstances :: jsval
  ts_revision :: rat
  ts_generatedAt :: jsnum

record log_detail =
  ld_transferInfo :: jsval
  ld_summary :: jsval
  ld_events :: "jsval list"
  ld_detailRetained :: jsval

record web_state =
  ws_tree :: "tree_state option"
  ws_loadingTree :: bool
  ws_treeError :: "string option"
  ws_transferSummaries :: "summary list"
  ws_logDetails :: "(string, log_detail) jsmap"
  ws_lastTreeRevision :: rat
  ws_lastTransferRevision :: rat
  ws_lastLogRevision :: rat
  ws_canViewLogs :: bool
  ws_liveStatus :: live_status
  ws_liveError :: "string option"

text \<open>An armed timer of the retries: its delay, and the attempt and generation it goes on with.\<close>

record retry_timer =
  rt_id :: nat
  rt_delayMs :: nat
  rt_attempt :: nat
  rt_generation :: nat

record web_plugin =
  wb_callbacks :: "nat list"
  wb_liveUpdatesEnabled :: bool
  wb_state :: web_state
  wb_resubscribeTimer :: "nat option"
  wb_lastConnectionEvent :: "connection_event option"
  wb_resubscribeGeneration :: nat
  wb_connected :: bool
  wb_clock :: int
  wb_nextRef :: nat
  wb_nextTimer :: nat
  wb_armed :: "retry_timer list"

definition initial_web_state :: web_state where
  "initial_web_state =
     \<lparr>ws_tree = None, ws_loadingTree = False, ws_treeError = None, ws_transferSummaries = [], ws_logDetails = [],
      ws_lastTreeRevision = 0, ws_lastTransferRevision = 0, ws_lastLogRevision = 0, ws_canViewLogs = True,
      ws_liveStatus = Reconnecting, ws_liveError = None\<rparr>"

text \<open>The messages to the controller; the answer is the response.\<close>

datatype web_request =
    SetSubscription bool bool bool
  | FetchTree string
  | FetchLogs nat
  | FetchLog string

type_synonym 'r web = "(web_request, answer, web_plugin, thrown, 'r) act"

definition link_send :: "web_request \<Rightarrow> jsval web" where
  "link_send q = act_bind (act_await q) (\<lambda>a. case a of Resolved v \<Rightarrow> act_return v | Rejected e \<Rightarrow> act_throw e)"

definition upd_state :: "(web_state \<Rightarrow> web_state) \<Rightarrow> web_plugin \<Rightarrow> web_plugin" where
  "upd_state f w = w\<lparr>wb_state := f (wb_state w)\<rparr>"

definition permission_denied :: "thrown \<Rightarrow> bool" where
  "permission_denied err = includes_str ''permission denied'' (map ascii_lower (getErrorMessage err))"

section \<open>Snapshots\<close>

text \<open>New objects for the rows of a fetched list.\<close>

definition fetched_summaries :: "nat \<Rightarrow> jsval \<Rightarrow> summary list" where
  "fetched_summaries ref reply =
     (case reply of
        JArr rows \<Rightarrow> by_start_time (map (\<lambda>(i, row). \<lparr>sm_ref = ref + i, sm_fields = obj_fields row\<rparr>) (enumerate 0 rows))
      | _ \<Rightarrow> [])"

definition reply_length :: "jsval \<Rightarrow> nat" where
  "reply_length reply = (case reply of JArr rows \<Rightarrow> length rows | _ \<Rightarrow> 0)"

fun merge_pushed :: "nat \<Rightarrow> summary list \<Rightarrow> summary list \<Rightarrow> summary list" where
  "merge_pushed ref summaries [] = summaries"
| "merge_pushed ref summaries (pushed # rest) =
     merge_pushed (Suc ref) (mergeTransferSummary ref summaries (JObj (sm_fields pushed))) rest"

text \<open>The fetched list, with what was pushed while it was on its way merged over it.\<close>

definition take_logs :: "(jsval, nat) jsmap \<Rightarrow> jsval \<Rightarrow> web_plugin \<Rightarrow> summary list \<times> web_plugin" where
  "take_logs before reply w =
     (let ref = wb_nextRef w;
          changed = entriesChangedSince before (ws_transferSummaries (wb_state w))
      in (merge_pushed (ref + reply_length reply) (fetched_summaries ref reply) changed,
          w\<lparr>wb_nextRef := ref + reply_length reply + length changed\<rparr>))"

definition fetch_summaries :: "(jsval, nat) jsmap \<Rightarrow> summary list web" where
  "fetch_summaries before =
     act_get (\<lambda>w.
       if \<not> ws_canViewLogs (wb_state w) then act_return (ws_transferSummaries (wb_state w))
       else act_try
         (act_bind (link_send (FetchLogs 100)) (\<lambda>reply. act_sync (take_logs before reply)))
         (\<lambda>err. if permission_denied err
                then act_then (act_do (upd_state (\<lambda>s. s\<lparr>ws_canViewLogs := False\<rparr>))) (act_return [])
                else act_throw err))"

definition snapshot_tree :: "int \<Rightarrow> jsval \<Rightarrow> snapshot_decision \<Rightarrow> tree_state" where
  "snapshot_tree now response decision =
     \<lparr>ts_forceName = js_text (getProp response ''forceName'' (JStr ''player'')),
      ts_hosts = getProp response ''hosts'' (JArr []),
      ts_unassignedInstances = getProp response ''unassignedInstances'' (JArr []),
      ts_revision = nullish (sd_watermark decision) 0,
      ts_generatedAt = to_number (getProp response ''generatedAt'' (js_int now))\<rparr>"

definition apply_snapshot :: "jsval \<Rightarrow> summary list \<Rightarrow> web_plugin \<Rightarrow> web_plugin" where
  "apply_snapshot response summaries w =
     upd_state (\<lambda>s.
       let revision = JNum (to_number (getProp response ''revision'' (JNum NaN)));
           decision = decideSnapshot revision (ws_lastTreeRevision s);
           s1 = (if sd_apply decision
                 then s\<lparr>ws_tree := Some (snapshot_tree (wb_clock w) response decision),
                        ws_lastTreeRevision := nullish (sd_watermark decision) (ws_lastTreeRevision s)\<rparr>
                 else s)
       in s1\<lparr>ws_transferSummaries := summaries, ws_loadingTree := False, ws_treeError := None\<rparr>) w"

definition refreshSnapshots :: "unit web" where
  "refreshSnapshots =
     act_then (act_do (upd_state (\<lambda>s. s\<lparr>ws_loadingTree := True, ws_treeError := None\<rparr>)))
     (act_get (\<lambda>w. let before = refs_by_id (ws_transferSummaries (wb_state w)) in
        act_try
          (act_bind (link_send (FetchTree ''player'')) (\<lambda>response.
           act_bind (fetch_summaries before) (\<lambda>summaries.
           act_do (apply_snapshot response summaries))))
          (\<lambda>err. act_do (upd_state (\<lambda>s. s\<lparr>ws_loadingTree := False,
             ws_treeError := Some (getErrorMessage_or ''Failed to refresh Surface Export state'' err)\<rparr>)))))"

section \<open>The live subscription\<close>

definition trySubscribe :: "bool \<Rightarrow> bool \<Rightarrow> unit web" where
  "trySubscribe shouldEnable logs =
     act_then (link_send (SetSubscription shouldEnable shouldEnable logs)) (act_return ())"

definition syncLiveState :: "sync_outcome web" where
  "syncLiveState =
     act_get (\<lambda>w.
       let shouldEnable = (wb_callbacks w \<noteq> []);
           enabled = act_do (\<lambda>w. w\<lparr>wb_liveUpdatesEnabled := shouldEnable\<rparr>);
           logsEnabled = (shouldEnable \<and> ws_canViewLogs (wb_state w))
       in if \<not> wb_connected w then act_then enabled (act_return Skipped)
          else act_then
            (act_try (trySubscribe shouldEnable logsEnabled)
               (\<lambda>err. if logsEnabled \<and> permission_denied err
                      then act_then (act_do (upd_state (\<lambda>s. s\<lparr>ws_canViewLogs := False\<rparr>))) (trySubscribe shouldEnable False)
                      else act_throw err))
            (act_then enabled
              (if shouldEnable then act_then refreshSnapshots (act_return Subscribed) else act_return Unsubscribed)))"

definition applyLiveStatus :: "sync_outcome option \<Rightarrow> string option \<Rightarrow> web_plugin \<Rightarrow> web_plugin" where
  "applyLiveStatus outcome error w =
     upd_state (\<lambda>s. s\<lparr>ws_liveStatus := nextLiveStatus (ws_liveStatus s) (wb_connected w) (wb_lastConnectionEvent w) outcome,
                      ws_liveError := error\<rparr>) w"

definition syncAndReport :: "unit web" where
  "syncAndReport =
     act_bind (act_try (act_bind syncLiveState (\<lambda>outcome. act_return (Inr outcome))) (\<lambda>err. act_return (Inl err)))
       (\<lambda>r. case r of
          Inr outcome \<Rightarrow> act_do (applyLiveStatus (Some outcome) None)
        | Inl err \<Rightarrow> act_do (applyLiveStatus (Some SyncFailed) (Some (getErrorMessage_or ''live subscription failed'' err))))"

definition clearResubscribeTimer :: "web_plugin \<Rightarrow> web_plugin" where
  "clearResubscribeTimer w =
     (case wb_resubscribeTimer w of
        None \<Rightarrow> w
      | Some i \<Rightarrow> w\<lparr>wb_armed := filter (\<lambda>t. rt_id t \<noteq> i) (wb_armed w), wb_resubscribeTimer := None\<rparr>)"

definition arm_retry :: "nat \<Rightarrow> nat \<Rightarrow> web_plugin \<Rightarrow> web_plugin" where
  "arm_retry attempt generation w =
     w\<lparr>wb_armed := wb_armed w @ [\<lparr>rt_id = wb_nextTimer w, rt_delayMs = resubscribeDelayMs attempt,
         rt_attempt = attempt + 1, rt_generation = generation\<rparr>],
       wb_resubscribeTimer := Some (wb_nextTimer w), wb_nextTimer := Suc (wb_nextTimer w)\<rparr>"

text \<open>From a given attempt of a generation; the default argument opens a new generation.\<close>

definition resubscribe_from :: "nat \<Rightarrow> nat \<Rightarrow> unit web" where
  "resubscribe_from attempt generation =
     act_then (act_do clearResubscribeTimer)
     (act_then syncAndReport
     (act_get (\<lambda>w.
        if generation \<noteq> wb_resubscribeGeneration w then act_return ()
        else if \<not> shouldRetryResubscribe (ws_liveStatus (wb_state w)) (wb_connected w) then act_return ()
        else act_do (arm_retry attempt generation))))"

definition resubscribeUntilLive :: "unit web" where
  "resubscribeUntilLive =
     act_then (act_do (\<lambda>w. w\<lparr>wb_resubscribeGeneration := Suc (wb_resubscribeGeneration w)\<rparr>))
       (act_get (\<lambda>w. resubscribe_from 0 (wb_resubscribeGeneration w)))"

text \<open>A timer that fires.\<close>

definition retry_fired :: "retry_timer \<Rightarrow> unit web" where
  "retry_fired t =
     act_then (act_do (\<lambda>w. w\<lparr>wb_armed := filter (\<lambda>u. rt_id u \<noteq> rt_id t) (wb_armed w), wb_resubscribeTimer := None\<rparr>))
       (resubscribe_from (rt_attempt t) (rt_generation t))"

definition with_watermarks :: "watermarks \<Rightarrow> web_state \<Rightarrow> web_state" where
  "with_watermarks m s = s\<lparr>ws_lastTreeRevision := wm_tree m, ws_lastTransferRevision := wm_transfer m,
     ws_lastLogRevision := wm_log m\<rparr>"

definition onControllerConnectionEvent :: "connection_event \<Rightarrow> unit web" where
  "onControllerConnectionEvent event =
     act_then (act_do (\<lambda>w. w\<lparr>wb_lastConnectionEvent := Some event\<rparr>))
     (act_then (if event = Connect then act_do (upd_state (with_watermarks freshRevisionWatermarks)) else act_return ())
     (if event = Connect \<or> event = Resume then resubscribeUntilLive
      else act_do (\<lambda>w. applyLiveStatus None None
             (clearResubscribeTimer (w\<lparr>wb_resubscribeGeneration := Suc (wb_resubscribeGeneration w)\<rparr>)))))"

definition onUpdate :: "nat \<Rightarrow> unit web" where
  "onUpdate callback =
     act_then (act_do (\<lambda>w. w\<lparr>wb_callbacks := wb_callbacks w @ [callback]\<rparr>)) syncAndReport"

text \<open>The last registration of the callback is removed.\<close>

definition remove_last :: "'a \<Rightarrow> 'a list \<Rightarrow> 'a list" where
  "remove_last x xs = rev (remove1 x (rev xs))"

definition offUpdate :: "nat \<Rightarrow> unit web" where
  "offUpdate callback =
     act_then (act_do (\<lambda>w. w\<lparr>wb_callbacks := remove_last callback (wb_callbacks w)\<rparr>)) syncAndReport"

section \<open>Pushes\<close>

definition handleTreeUpdate :: "jsval \<Rightarrow> web_plugin \<Rightarrow> web_plugin" where
  "handleTreeUpdate event w =
     (case fresh_revision (val_nullish (prop_get event ''revision'') (js_int 0)) (ws_lastTreeRevision (wb_state w)) of
        None \<Rightarrow> w
      | Some revision \<Rightarrow>
          let tree = val_nullish (prop_get event ''tree'') (JObj []) in
          upd_state (\<lambda>s. s\<lparr>
            ws_tree := Some \<lparr>ts_forceName = js_text (val_or (prop_get event ''forceName'') (JStr ''player'')),
              ts_hosts = val_or (prop_get tree ''hosts'') (JArr []),
              ts_unassignedInstances = val_or (prop_get tree ''unassignedInstances'') (JArr []),
              ts_revision = revision,
              ts_generatedAt = to_number (val_nullish (prop_get event ''generatedAt'') (js_int (wb_clock w)))\<rparr>,
            ws_loadingTree := False, ws_treeError := None, ws_lastTreeRevision := revision\<rparr>) w)"

definition handleTransferUpdate :: "jsval \<Rightarrow> web_plugin \<Rightarrow> web_plugin" where
  "handleTransferUpdate event w =
     (case fresh_revision (val_nullish (prop_get event ''revision'') (js_int 0)) (ws_lastTransferRevision (wb_state w)) of
        None \<Rightarrow> w
      | Some revision \<Rightarrow>
          (upd_state (\<lambda>s. s\<lparr>
             ws_transferSummaries := mergeTransferSummary (wb_nextRef w) (ws_transferSummaries s) (prop_get event ''transfer''),
             ws_lastTransferRevision := revision\<rparr>) w)\<lparr>wb_nextRef := Suc (wb_nextRef w)\<rparr>)"

text \<open>The summary of the transfer info of a reply or a push, under the id the log was asked for.\<close>

definition merge_info :: "string \<Rightarrow> jsval \<Rightarrow> jsval \<Rightarrow> web_plugin \<Rightarrow> web_plugin" where
  "merge_info transferId info lastEventAt w =
     (case summaryFromTransferInfo (wb_clock w) info lastEventAt of
        None \<Rightarrow> w
      | Some sm \<Rightarrow>
          (upd_state (\<lambda>s. s\<lparr>ws_transferSummaries := mergeTransferSummary (wb_nextRef w) (ws_transferSummaries s)
             (JObj (obj_set sm ''transferId'' (JStr transferId)))\<rparr>) w)\<lparr>wb_nextRef := Suc (wb_nextRef w)\<rparr>)"

definition no_detail :: log_detail where
  "no_detail = \<lparr>ld_transferInfo = JUndef, ld_summary = JUndef, ld_events = [], ld_detailRetained = JUndef\<rparr>"

text \<open>Two events are the same if their time, type and message are; the values are not objects.\<close>

definition same_log_event :: "jsval \<Rightarrow> jsval \<Rightarrow> bool" where
  "same_log_event a b = list_all (\<lambda>k. prop_get a k = prop_get b k) [''timestampMs'', ''eventType'', ''message'']"

definition handleLogUpdate :: "jsval \<Rightarrow> web_plugin \<Rightarrow> web_plugin" where
  "handleLogUpdate event w =
     (case fresh_revision (val_nullish (prop_get event ''revision'') (js_int 0)) (ws_lastLogRevision (wb_state w)) of
        None \<Rightarrow> w
      | Some revision \<Rightarrow>
          let transferId = js_text (val_or (prop_get event ''transferId'') (JStr [])) in
          if transferId = [] then w
          else
            let existing = nullish (jm_get (ws_logDetails (wb_state w)) transferId) no_detail;
                events = ld_events existing;
                incoming = val_or (prop_get event ''event'') (JObj []);
                duplicate = (events \<noteq> [] \<and> same_log_event (last events) incoming);
                info = prop_get event ''transferInfo'';
                detail = existing\<lparr>
                  ld_transferInfo := val_or info (val_or (ld_transferInfo existing) JNull),
                  ld_summary := val_or (prop_get event ''summary'') (val_or (ld_summary existing) JNull),
                  ld_events := (if duplicate then events else events @ [incoming])\<rparr>
            in merge_info transferId info (val_or (prop_get incoming ''timestampMs'') JNull)
                 (upd_state (\<lambda>s. s\<lparr>ws_logDetails := jm_set (ws_logDetails s) transferId detail,
                    ws_lastLogRevision := revision\<rparr>) w))"

section \<open>Loading a log\<close>

definition loaded_detail :: "log_detail \<Rightarrow> jsval \<Rightarrow> log_detail" where
  "loaded_detail existing response =
     \<lparr>ld_transferInfo = val_or (getProp response ''transferInfo'' JNull) (val_or (ld_transferInfo existing) JNull),
      ld_summary = val_or (getProp response ''summary'' JNull) (val_or (ld_summary existing) JNull),
      ld_events = (case getProp response ''events'' JNull of JArr es \<Rightarrow> es | _ \<Rightarrow> ld_events existing),
      ld_detailRetained = getProp response ''detailRetained'' (JBool True)\<rparr>"

definition store_log :: "string \<Rightarrow> jsval \<Rightarrow> web_plugin \<Rightarrow> web_plugin" where
  "store_log transferId response w =
     (let detail = loaded_detail (nullish (jm_get (ws_logDetails (wb_state w)) transferId) no_detail) response;
          lastAt = (if ld_events detail = [] then JNull else prop_get (last (ld_events detail)) ''timestampMs'')
      in merge_info transferId (ld_transferInfo detail) lastAt
           (upd_state (\<lambda>s. s\<lparr>ws_logDetails := jm_set (ws_logDetails s) transferId detail\<rparr>) w))"

definition loadTransactionLog :: "string \<Rightarrow> unit web" where
  "loadTransactionLog transferId =
     act_bind (link_send (FetchLog transferId)) (\<lambda>response.
       if \<not> truthy (getProp response ''success'' (JBool False))
       then act_throw (ErrorObject (js_text (getProp response ''error'' (JStr ''Failed to load transaction log''))) None)
       else act_do (store_log transferId response))"

end
