(* ===== verification/WebClientRules.thy ===== *)
theory WebClientRules
  imports WebClient
begin

text \<open>
  What the browser side guarantees: in every interleaving of pushes, snapshots, retries and page
  changes the shown tree is only replaced by a newer one; a fetched list never hides what was pushed
  while it was on its way; and what happens to a page whose first subscription fails.
\<close>

section \<open>Events\<close>

datatype web_event =
    TreePush jsval
  | TransferPush jsval
  | LogPush jsval
  | ConnectionChanged connection_event
  | PageOpened nat
  | PageClosed nat
  | RetryDue retry_timer
  | LogWanted string

fun web_handler :: "web_event \<Rightarrow> unit web" where
  "web_handler (TreePush e) = act_do (handleTreeUpdate e)"
| "web_handler (TransferPush e) = act_do (handleTransferUpdate e)"
| "web_handler (LogPush e) = act_do (handleLogUpdate e)"
| "web_handler (ConnectionChanged e) = onControllerConnectionEvent e"
| "web_handler (PageOpened c) = onUpdate c"
| "web_handler (PageClosed c) = offUpdate c"
| "web_handler (RetryDue t) = retry_fired t"
| "web_handler (LogWanted i) = loadTransactionLog i"

section \<open>The newest tree is kept\<close>

definition keeps_newest :: "web_plugin \<Rightarrow> web_plugin \<Rightarrow> bool" where
  "keeps_newest w w' \<longleftrightarrow>
     (let s = wb_state w; s' = wb_state w' in
      ws_lastTreeRevision s \<le> ws_lastTreeRevision s' \<and> ws_lastTransferRevision s \<le> ws_lastTransferRevision s' \<and>
      ws_lastLogRevision s \<le> ws_lastLogRevision s' \<and>
      (ws_tree s' = ws_tree s \<and> ws_lastTreeRevision s' = ws_lastTreeRevision s \<or>
       (\<exists>t. ws_tree s' = Some t \<and>
          (ws_lastTreeRevision s < ws_lastTreeRevision s' \<and> ts_revision t = ws_lastTreeRevision s' \<or> ts_revision t = 0))))"

lemma keeps_newest_same:
  "ws_tree (wb_state w') = ws_tree (wb_state w) \<Longrightarrow> ws_lastTreeRevision (wb_state w') = ws_lastTreeRevision (wb_state w) \<Longrightarrow>
   ws_lastTransferRevision (wb_state w) \<le> ws_lastTransferRevision (wb_state w') \<Longrightarrow>
   ws_lastLogRevision (wb_state w) \<le> ws_lastLogRevision (wb_state w') \<Longrightarrow> keeps_newest w w'"
  by (simp add: keeps_newest_def)

lemma keeps_newest_trans: "keeps_newest u v \<Longrightarrow> keeps_newest v w \<Longrightarrow> keeps_newest u w"
  unfolding keeps_newest_def Let_def by (elim conjE disjE exE) (auto intro: less_le_trans)

interpretation newest: guarantee keeps_newest
  by unfold_locales (simp add: keeps_newest_same, rule keeps_newest_trans)

lemma upd_state_fields [simp]:
  "wb_state (upd_state f w) = f (wb_state w)" "wb_nextRef (upd_state f w) = wb_nextRef w"
  "wb_clock (upd_state f w) = wb_clock w" "wb_connected (upd_state f w) = wb_connected w"
  "wb_callbacks (upd_state f w) = wb_callbacks w" "wb_armed (upd_state f w) = wb_armed w"
  "wb_resubscribeTimer (upd_state f w) = wb_resubscribeTimer w"
  "wb_resubscribeGeneration (upd_state f w) = wb_resubscribeGeneration w"
  "wb_lastConnectionEvent (upd_state f w) = wb_lastConnectionEvent w"
  by (simp_all add: upd_state_def)

lemma fresh_revision_less: "fresh_revision v m = Some q \<Longrightarrow> m < q"
  by (auto simp: fresh_revision_def split: jsnum.splits if_splits)

lemma newest_pushes [guar_intros]:
  "guar_act keeps_newest (act_do (handleTreeUpdate e))"
  "guar_act keeps_newest (act_do (handleTransferUpdate e))"
  "guar_act keeps_newest (act_do (handleLogUpdate e))"
  "guar_act keeps_newest (act_do (store_log i v))"
proof -
  have info: "ws_tree (wb_state (merge_info i d v w)) = ws_tree (wb_state w)"
    "ws_lastTreeRevision (wb_state (merge_info i d v w)) = ws_lastTreeRevision (wb_state w)"
    "ws_lastTransferRevision (wb_state (merge_info i d v w)) = ws_lastTransferRevision (wb_state w)"
    "ws_lastLogRevision (wb_state (merge_info i d v w)) = ws_lastLogRevision (wb_state w)" for i d v w
    by (simp_all add: merge_info_def split: option.split)
  show "guar_act keeps_newest (act_do (handleTreeUpdate e))"
    by (rule newest.guar_do)
      (auto simp: handleTreeUpdate_def keeps_newest_def Let_def split: option.split dest: fresh_revision_less)
  show "guar_act keeps_newest (act_do (handleTransferUpdate e))"
    by (rule newest.guar_do)
      (auto simp: handleTransferUpdate_def keeps_newest_same split: option.split dest!: fresh_revision_less
        intro!: keeps_newest_same)
  show "guar_act keeps_newest (act_do (handleLogUpdate e))"
    by (rule newest.guar_do)
      (auto simp: handleLogUpdate_def Let_def info split: option.split dest!: fresh_revision_less
        intro!: keeps_newest_same)
  show "guar_act keeps_newest (act_do (store_log i v))"
    by (rule newest.guar_do) (auto simp: store_log_def Let_def info intro!: keeps_newest_same)
qed

lemma newest_snapshot [guar_intros]: "guar_act keeps_newest (act_do (apply_snapshot response summaries))"
  by (rule newest.guar_do)
    (auto simp: apply_snapshot_def Let_def decideSnapshot_def snapshot_tree_def keeps_newest_def
      split: jsval.split jsnum.split if_splits)

text \<open>The other updates leave the tree and the watermarks as they are.\<close>

lemma newest_updates [guar_intros]:
  "guar_act keeps_newest (act_do (upd_state (\<lambda>s. s\<lparr>ws_loadingTree := b, ws_treeError := e\<rparr>)))"
  "guar_act keeps_newest (act_do (upd_state (\<lambda>s. s\<lparr>ws_canViewLogs := b\<rparr>)))"
  "guar_act keeps_newest (act_do (\<lambda>w. w\<lparr>wb_liveUpdatesEnabled := b\<rparr>))"
  "guar_act keeps_newest (act_do (applyLiveStatus oc err))"
  "guar_act keeps_newest (act_do clearResubscribeTimer)"
  "guar_act keeps_newest (act_do (arm_retry n g))"
  "guar_act keeps_newest (act_sync (take_logs before reply))"
  by (auto simp: applyLiveStatus_def clearResubscribeTimer_def arm_retry_def take_logs_def Let_def
      split: option.split intro!: newest.guar_do newest.guar_sync keeps_newest_same)

lemma newest_link_send [guar_intros]: "guar_act keeps_newest (link_send q)"
  unfolding link_send_def by (rule newest.guar_bind) (auto intro: newest.structural split: answer.split)

lemma newest_refresh [guar_intros]: "guar_act keeps_newest refreshSnapshots"
  unfolding refreshSnapshots_def fetch_summaries_def
  by (intro newest.structural guar_intros)

lemma newest_sync [guar_intros]: "guar_act keeps_newest syncAndReport"
proof -
  have "guar_act keeps_newest syncLiveState"
    unfolding syncLiveState_def trySubscribe_def
    by (intro newest.structural guar_intros) (simp_all add: newest_updates(3))
  then show ?thesis
    unfolding syncAndReport_def
    by (auto intro!: newest.structural guar_intros split: sum.split)
qed

lemma newest_resubscribe [guar_intros]:
  "guar_act keeps_newest (resubscribe_from n g)" "guar_act keeps_newest resubscribeUntilLive"
proof -
  show from_n: "guar_act keeps_newest (resubscribe_from n g)" for n g
    unfolding resubscribe_from_def by (intro newest.structural guar_intros)
  show "guar_act keeps_newest resubscribeUntilLive"
    unfolding resubscribeUntilLive_def
    by (intro newest.structural from_n newest.guar_do keeps_newest_same) simp_all
qed

lemma newest_connection: "e \<noteq> Connect \<Longrightarrow> guar_act keeps_newest (onControllerConnectionEvent e)"
  unfolding onControllerConnectionEvent_def
  by (intro newest.structural guar_intros newest.guar_do)
    (auto simp: applyLiveStatus_def clearResubscribeTimer_def split: option.split intro!: keeps_newest_same)

lemma newest_page [guar_intros]:
  "guar_act keeps_newest (onUpdate c)" "guar_act keeps_newest (offUpdate c)" "guar_act keeps_newest (retry_fired t)"
  "guar_act keeps_newest (loadTransactionLog i)"
proof -
  show "guar_act keeps_newest (onUpdate c)" "guar_act keeps_newest (offUpdate c)"
    unfolding onUpdate_def offUpdate_def
    by (intro newest.structural guar_intros newest.guar_do keeps_newest_same; simp)+
  show "guar_act keeps_newest (retry_fired t)"
    unfolding retry_fired_def by (intro newest.structural guar_intros newest.guar_do keeps_newest_same) simp_all
  show "guar_act keeps_newest (loadTransactionLog i)"
    unfolding loadTransactionLog_def by (intro newest.structural guar_intros)
qed

definition at_new_session :: "web_plugin \<Rightarrow> web_plugin" where
  "at_new_session w = upd_state (with_watermarks freshRevisionWatermarks) w"

lemma newest_new_session:
  "keeps_newest (at_new_session w) (fst (onControllerConnectionEvent Connect w))
    \<and> guar keeps_newest (snd (onControllerConnectionEvent Connect w))"
proof -
  let ?w = "w\<lparr>wb_lastConnectionEvent := Some Connect\<rparr>"
  have "onControllerConnectionEvent Connect w = resubscribeUntilLive (at_new_session ?w)"
    by (simp add: onControllerConnectionEvent_def act_run at_new_session_def)
  moreover have "keeps_newest (at_new_session ?w) (fst (resubscribeUntilLive (at_new_session ?w)))"
      "guar keeps_newest (snd (resubscribeUntilLive (at_new_session ?w)))"
    using newest_resubscribe(2) by (simp_all add: guar_act_def)
  moreover have "keeps_newest (at_new_session w) (at_new_session ?w)"
    by (rule keeps_newest_same) (simp_all add: at_new_session_def)
  ultimately show ?thesis by (simp add: keeps_newest_trans)
qed

lemma newest_handler: "e \<noteq> ConnectionChanged Connect \<Longrightarrow> guar_act keeps_newest (web_handler e)"
  by (cases e) (auto intro: guar_intros newest_connection)


section \<open>Merging what was pushed\<close>

definition distinct_ids :: "summary list \<Rightarrow> bool" where
  "distinct_ids ss \<longleftrightarrow> distinct (map sm_id ss)"

text \<open>The summary of a transfer in a list.\<close>

definition summary_of :: "summary list \<Rightarrow> jsval \<Rightarrow> summary option" where
  "summary_of ss k = List.find (\<lambda>s. sm_id s = k) ss"

lemma summary_of_iff:
  assumes "distinct_ids ss"
  shows "summary_of ss k = Some s \<longleftrightarrow> s \<in> set ss \<and> sm_id s = k"
  using assms unfolding distinct_ids_def summary_of_def by (induction ss) auto

lemma summary_of_None: "summary_of ss k = None \<longleftrightarrow> k \<notin> sm_id ` set ss"
  by (auto simp: summary_of_def find_None_iff)

lemma summary_of_Cons: "summary_of (p # ps) k = (if sm_id p = k then Some p else summary_of ps k)"
  by (simp add: summary_of_def)

lemma summaries_by_id_snoc: "summaries_by_id (ss @ [s]) = jm_set (summaries_by_id ss) (sm_id s) s"
  by (simp add: summaries_by_id_def)

lemma summaries_by_id_Nil: "summaries_by_id [] = []"
  by (simp add: summaries_by_id_def)

lemma summaries_by_id_wf: "jm_wf (summaries_by_id ss)"
  by (induction ss rule: rev_induct) (simp_all add: summaries_by_id_snoc summaries_by_id_Nil)

lemma summaries_by_id_key: "jm_get (summaries_by_id ss) k = Some s \<Longrightarrow> sm_id s = k"
  by (induction ss rule: rev_induct) (auto simp: summaries_by_id_snoc summaries_by_id_Nil split: if_splits)

lemma summaries_by_id_in: "jm_get (summaries_by_id ss) k = Some s \<Longrightarrow> s \<in> set ss"
  by (induction ss rule: rev_induct) (auto simp: summaries_by_id_snoc summaries_by_id_Nil split: if_splits)

lemma summaries_by_id_has: "s \<in> set ss \<Longrightarrow> jm_get (summaries_by_id ss) (sm_id s) \<noteq> None"
  by (induction ss rule: rev_induct) (auto simp: summaries_by_id_snoc)

lemma summaries_by_id_get:
  assumes "distinct_ids ss"
  shows "jm_get (summaries_by_id ss) k = summary_of ss k"
proof (cases "jm_get (summaries_by_id ss) k")
  case None
  then have "k \<notin> sm_id ` set ss" using summaries_by_id_has by fastforce
  with None show ?thesis by (simp add: summary_of_None [THEN iffD2])
next
  case (Some s)
  then have "s \<in> set ss" "sm_id s = k" by (auto dest: summaries_by_id_in summaries_by_id_key)
  with Some show ?thesis using summary_of_iff [OF assms] by metis
qed

text \<open>A list of the values of a map by ids, in whatever order.\<close>

lemma listed_by_id:
  assumes wf: "jm_wf m" and key: "\<And>k s. jm_get m k = Some s \<Longrightarrow> sm_id s = k"
  shows "distinct_ids (by_start_time (jm_values m))" and "summary_of (by_start_time (jm_values m)) k = jm_get m k"
proof -
  have key_in: "sm_id s = k" if "(k, s) \<in> set m" for k s
    using that key wf jm_get_iff_in by metis
  then have ids: "map (sm_id \<circ> snd) m = jm_keys m" by (auto intro: map_cong)
  show d: "distinct_ids (by_start_time (jm_values m))"
    using wf by (simp only: distinct_ids_def by_start_time_def jm_wf_def distinct_map_sort_by map_map ids)
  have "s \<in> set (by_start_time (jm_values m)) \<and> sm_id s = k \<longleftrightarrow> jm_get m k = Some s" for s
    using key_in wf by (auto simp: by_start_time_def jm_get_iff_in intro: rev_image_eqI)
  then have "summary_of (by_start_time (jm_values m)) k = Some s \<longleftrightarrow> jm_get m k = Some s" for s
    using summary_of_iff [OF d] by blast
  then show "summary_of (by_start_time (jm_values m)) k = jm_get m k"
    by (metis not_None_eq)
qed

lemma obj_get_in: "distinct (map fst row) \<Longrightarrow> (k, v) \<in> set row \<Longrightarrow> obj_get row k = v"
  by (induction row) (auto simp: rev_image_eqI)

lemma obj_get_rev: "distinct (map fst row) \<Longrightarrow> k \<in> fst ` set row \<Longrightarrow> obj_get (rev row) k = obj_get row k"
proof -
  assume d: "distinct (map fst row)" and "k \<in> fst ` set row"
  then obtain v where v: "(k, v) \<in> set row" by auto
  have "distinct (map fst (rev row))" using d by (simp add: rev_map [symmetric])
  with v d show ?thesis using obj_get_in [of "rev row" k v] obj_get_in [of row k v] by simp
qed

text \<open>What one merge makes of the summaries.\<close>

lemma merge_by_id:
  assumes "distinct_ids ss" and "truthy (obj_get row ''transferId'')"
    and "distinct (map fst row)"
  shows "distinct_ids (mergeTransferSummary ref ss (JObj row))"
    and "summary_of (mergeTransferSummary ref ss (JObj row)) k =
      (if k = obj_get row ''transferId'' then Some (merged_summary ref (summary_of ss k) (JObj row)) else summary_of ss k)"
proof -
  let ?i = "obj_get row ''transferId''" and ?m = "summaries_by_id ss"
  let ?new = "merged_summary ref (jm_get ?m ?i) (JObj row)"
  have merge: "mergeTransferSummary ref ss (JObj row) = by_start_time (jm_values (jm_set ?m ?i ?new))"
    using assms(2) by (simp add: mergeTransferSummary_def Let_def)
  have "''transferId'' \<in> fst ` set row"
  proof (rule ccontr)
    assume "''transferId'' \<notin> fst ` set row"
    then have "?i = JUndef" by (induction row) auto
    with assms(2) show False by simp
  qed
  moreover have "obj_get (rev row) k = obj_get row k" if "k \<in> fst ` set row" for k
    using that assms(3) obj_get_rev by blast
  ultimately have "sm_id ?new = ?i" by (simp add: merged_summary_def obj_get_spread entries_of_def)
  then have key: "sm_id s = k" if "jm_get (jm_set ?m ?i ?new) k = Some s" for k s
    using that summaries_by_id_key [of ss] by (auto split: if_splits)
  have wf: "jm_wf (jm_set ?m ?i ?new)" by (simp add: summaries_by_id_wf)
  show "distinct_ids (mergeTransferSummary ref ss (JObj row))"
    unfolding merge by (rule listed_by_id(1) [OF wf key])
  show "summary_of (mergeTransferSummary ref ss (JObj row)) k =
      (if k = ?i then Some (merged_summary ref (summary_of ss k) (JObj row)) else summary_of ss k)"
    unfolding merge using listed_by_id(2) [OF wf key, of k] summaries_by_id_get [OF assms(1)] by auto
qed

definition summary_ok :: "summary \<Rightarrow> bool" where
  "summary_ok s \<longleftrightarrow> truthy (sm_id s) \<and> distinct (map fst (sm_fields s))"

text \<open>Merging the pushed summaries over the fetched ones.\<close>

lemma merge_pushed_by_id:
  assumes "distinct_ids ss" and "distinct_ids pushed" and "\<forall>s\<in>set pushed. summary_ok s"
  shows "distinct_ids (merge_pushed ref ss pushed) \<and>
    (case summary_of pushed k of
       None \<Rightarrow> summary_of (merge_pushed ref ss pushed) k = summary_of ss k
     | Some p \<Rightarrow> \<exists>n. summary_of (merge_pushed ref ss pushed) k =
         Some (merged_summary n (summary_of ss k) (JObj (sm_fields p))))"
  using assms
proof (induction pushed arbitrary: ref ss)
  case Nil
  then show ?case by (simp add: summary_of_def)
next
  case (Cons p pushed)
  let ?ss = "mergeTransferSummary ref ss (JObj (sm_fields p))"
  have p: "truthy (sm_id p)" "distinct (map fst (sm_fields p))" using Cons.prems(3) by (auto simp: summary_ok_def)
  note merged = merge_by_id [OF Cons.prems(1) p]
  have rest: "distinct_ids pushed" "\<forall>s\<in>set pushed. summary_ok s" "summary_of pushed (sm_id p) = None"
    using Cons.prems(2,3) by (auto simp: distinct_ids_def summary_of_None)
  note IH = Cons.IH [OF merged(1) [of ref] rest(1,2), of "Suc ref"]
  show ?case
    using IH rest(3) merged(2) [of ref k]
    by (cases "k = sm_id p") (auto simp: summary_of_Cons split: option.split)
qed

lemma merged_fields: "f \<in> fst ` set row \<Longrightarrow> distinct (map fst row) \<Longrightarrow> sm_get (merged_summary n old (JObj row)) f = obj_get row f"
  by (simp add: merged_summary_def entries_of_def obj_get_spread obj_get_rev)

lemma distinct_ids_filter: "distinct_ids ss \<Longrightarrow> distinct_ids (filter P ss)"
  by (simp add: distinct_ids_def distinct_map_filter)

text \<open>The run of a fetch whose two requests are answered, in whatever states it is resumed.\<close>

lemma refresh_run:
  assumes "ws_canViewLogs (wb_state w1)"
  shows "\<exists>k1 k2. snd (refreshSnapshots w0) = Await (FetchTree ''player'') k1
    \<and> snd (k1 (Resolved response) w1) = Await (FetchLogs 100) k2
    \<and> k2 (Resolved reply) w2 =
        (let t = take_logs (refs_by_id (ws_transferSummaries (wb_state w0))) reply w2
         in (apply_snapshot response (fst t) (snd t), Return ()))"
  using assms by (simp add: refreshSnapshots_def fetch_summaries_def link_send_def act_run Let_def)

lemma shown_after_snapshot: "ws_transferSummaries (wb_state (apply_snapshot response summaries w)) = summaries"
  by (simp add: apply_snapshot_def Let_def)


definition sample_summary :: "string \<Rightarrow> (string \<times> jsval) list" where
  "sample_summary st = [(''transferId'', JStr ''1:7''), (''status'', JStr st), (''startedAt'', js_int 1000)]"

definition sample_page :: web_plugin where
  "sample_page = \<lparr>wb_callbacks = [], wb_liveUpdatesEnabled = False, wb_state = initial_web_state,
     wb_resubscribeTimer = None, wb_lastConnectionEvent = Some Connect, wb_resubscribeGeneration = 0,
     wb_connected = True, wb_clock = 0, wb_nextRef = 0, wb_nextTimer = 0, wb_armed = []\<rparr>"


section \<open>A page whose first subscription fails\<close>

text \<open>What a failed subscription leaves, for every reason but a missing permission.\<close>

lemma run_syncAndReport_rejected:
  assumes "wb_connected w" and "\<not> permission_denied e" and "\<And>a b c f. fst (env (SetSubscription a b c) f) = Rejected e"
  shows "\<exists>f'. run_act env syncAndReport w f =
    (Inr (), applyLiveStatus (Some SyncFailed) (Some (getErrorMessage_or ''live subscription failed'' e)) w, f')"
  using assms
  by (simp add: syncAndReport_def syncLiveState_def trySubscribe_def link_send_def run_laws Let_def)

lemma degraded_status: "wb_connected w \<Longrightarrow> ws_liveStatus (wb_state (applyLiveStatus (Some SyncFailed) err w)) = Degraded"
  by (simp add: applyLiveStatus_def nextLiveStatus_def)

lemma armed_status [simp]:
  "wb_armed (applyLiveStatus oc err w) = wb_armed w" "wb_connected (applyLiveStatus oc err w) = wb_connected w"
  "wb_resubscribeGeneration (applyLiveStatus oc err w) = wb_resubscribeGeneration w"
  by (simp_all add: applyLiveStatus_def)

text \<open>
  Only a subscription that a connection event asked for is retried. If the subscription fails that
  a page asks for when it is opened on a standing connection, the page shows itself as degraded,
  which promises a retry, but no retry is armed; the same failure after a connection event arms one.
\<close>

theorem failed_subscription_of_page_is_not_retried:
  assumes "wb_connected w" and "\<not> permission_denied e"
    and "\<And>a b c f. fst (env (SetSubscription a b c) f) = Rejected e"
  shows "\<exists>w1 w2 f1 f2. run_act env (onUpdate callback) w f = (Inr (), w1, f1)
    \<and> ws_liveStatus (wb_state w1) = Degraded \<and> wb_armed w1 = wb_armed w
    \<and> run_act env resubscribeUntilLive w f = (Inr (), w2, f2)
    \<and> ws_liveStatus (wb_state w2) = Degraded
    \<and> (\<exists>t\<in>set (wb_armed w2). rt_delayMs t = RESUBSCRIBE_BASE_DELAY_MS \<and> rt_generation t = wb_resubscribeGeneration w2)"
proof -
  define u where "u = w\<lparr>wb_callbacks := wb_callbacks w @ [callback]\<rparr>"
  have u: "wb_connected u" "wb_armed u = wb_armed w" using assms(1) by (simp_all add: u_def)
  obtain f1 where page: "run_act env (onUpdate callback) w f =
      (Inr (), applyLiveStatus (Some SyncFailed) (Some (getErrorMessage_or ''live subscription failed'' e)) u, f1)"
    using run_syncAndReport_rejected [of u e env f] assms(2,3) u(1) by (auto simp: onUpdate_def run_laws u_def)
  define v where "v = clearResubscribeTimer (w\<lparr>wb_resubscribeGeneration := Suc (wb_resubscribeGeneration w)\<rparr>)"
  have v: "wb_connected v" "wb_resubscribeGeneration v = Suc (wb_resubscribeGeneration w)"
    using assms(1) by (simp_all add: v_def clearResubscribeTimer_def split: option.split)
  define v1 where "v1 = applyLiveStatus (Some SyncFailed) (Some (getErrorMessage_or ''live subscription failed'' e)) v"
  have v1: "wb_connected v1" "wb_resubscribeGeneration v1 = Suc (wb_resubscribeGeneration w)"
      "ws_liveStatus (wb_state v1) = Degraded"
    using v degraded_status [OF v(1)] by (simp_all add: v1_def)
  obtain f2 where "run_act env syncAndReport v f = (Inr (), v1, f2)"
    using run_syncAndReport_rejected [of v e env f] assms(2,3) v(1) by (auto simp: v1_def)
  then have conn: "run_act env resubscribeUntilLive w f = (Inr (), arm_retry 0 (Suc (wb_resubscribeGeneration w)) v1, f2)"
    using v1 by (simp add: resubscribeUntilLive_def resubscribe_from_def run_laws v_def shouldRetryResubscribe_def)
  have "ws_liveStatus (wb_state (arm_retry 0 g v1)) = Degraded" for g using v1(3) by (simp add: arm_retry_def)
  moreover have "\<exists>t\<in>set (wb_armed (arm_retry 0 (Suc (wb_resubscribeGeneration w)) v1)).
      rt_delayMs t = RESUBSCRIBE_BASE_DELAY_MS \<and> rt_generation t = wb_resubscribeGeneration (arm_retry 0 (Suc (wb_resubscribeGeneration w)) v1)"
    using v1(2) by (simp add: arm_retry_def resubscribeDelayMs_def RESUBSCRIBE_BASE_DELAY_MS_def RESUBSCRIBE_MAX_DELAY_MS_def)
  ultimately show ?thesis
    using page conn degraded_status [OF u(1)] u(2) by (metis armed_status(1))
qed

theorem failed_subscription_of_page_is_not_retried_witness:
  "let refuse = (\<lambda>(q :: web_request) (f :: unit). (Rejected (ErrorObject ''timeout'' None), f));
       w1 = fst (snd (run_act refuse (onUpdate 1) sample_page ()))
   in ws_liveStatus (wb_state w1) = Degraded \<and> wb_armed w1 = []"
proof -
  define refuse where "refuse = (\<lambda>(q :: web_request) (f :: unit). (Rejected (ErrorObject ''timeout'' None), f))"
  have "wb_connected sample_page" by (simp add: sample_page_def)
  moreover have "\<not> permission_denied (ErrorObject ''timeout'' None)" by code_simp
  ultimately show ?thesis
    using failed_subscription_of_page_is_not_retried [of sample_page "ErrorObject ''timeout'' None" refuse 1 "()"]
    by (auto simp: refuse_def Let_def sample_page_def)
qed

end
