(* ===== verification/RetryRace.thy ===== *)
theory RetryRace
  imports Authority OperationOutcomes
begin

text \<open>
  Two attempts on the same stored export that overlap. The guard against a second attempt looks at
  the table of transfers, which is filled only after the log of an earlier transfer of the same id
  has been archived; archiving waits for a write. An attempt that begins during that wait passes the
  guard, too, and both send their import request.
\<close>

section \<open>From the guard to the send\<close>

text \<open>What \<open>transferPlatform\<close> checks before it starts.\<close>

definition may_begin :: "plugin \<Rightarrow> string \<Rightarrow> stored_export \<Rightarrow> int \<Rightarrow> bool" where
  "may_begin w eid x target =
     (jm_get (platformStorage w) eid = Some x \<and> isInstanceOnline w target
      \<and> retry_guard (stored_transfer_id eid x) (find_transfer w (stored_transfer_id eid x)) = None
      \<and> (case x_platformIndex x of JNum n \<Rightarrow> is_integer n \<and> 1 \<le> int_of_num n | _ \<Rightarrow> False))"

lemma transfer_record_total:
  assumes "1 \<le> i"
  obtains op where "transfer_record w tid eid sid x i target None m = Inr op" "t_startedAt op = clock w"
proof -
  have "num_less (Fin 0) (num_of_int i)" using assms by simp
  then have "\<exists>op. transfer_record w tid eid sid x i target None m = Inr op \<and> t_startedAt op = clock w"
    by (auto simp: transfer_record_def createOperationRecord_def transfer_options_def Let_def js_int_def
        no_options_def js_defs split: prod.split)
  then show ?thesis using that by blast
qed

lemma started_attempt:
  assumes "may_begin w eid x target"
  obtains op where "t_startedAt op = clock w"
    "transferPlatform eid target JNull None None w =
       launch_transfer (stored_transfer_id eid x) eid x target None op w"
proof -
  obtain n where n: "x_platformIndex x = JNum n" "is_integer n" "1 \<le> int_of_num n"
    using assms by (auto simp: may_begin_def split: jsval.splits)
  obtain op where "transfer_record w (stored_transfer_id eid x) eid
      (stored_source_export (stored_transfer_id eid x) x) x (int_of_num n) target None JNull = Inr op"
    "t_startedAt op = clock w"
    by (rule transfer_record_total [OF n(3)])
  then show ?thesis
    using assms n by (intro that) (simp_all add: may_begin_def transferPlatform_def act_run Let_def)
qed

text \<open>The part of \<open>launch_transfer\<close> that follows the archival.\<close>

definition after_archival ::
    "string \<Rightarrow> string \<Rightarrow> stored_export \<Rightarrow> int \<Rightarrow> string option \<Rightarrow> active_transfer \<Rightarrow> transfer_result handler" where
  "after_archival tid eid x target planet operation =
     act_bind (act_sync (\<lambda>w. (length (heap w), add_transfer tid operation w))) (\<lambda>r.
        act_then (act_do (logTransactionEvent tid ''transfer_created''
            (t_platformName operation @ '': ''
             @ name_or_id (t_sourceInstanceName operation) (t_sourceInstanceId operation) @ '' '' @ right_arrow @ '' ''
             @ name_or_id (t_targetInstanceName operation) target)
            [(''exportMetrics'', t_exportMetrics operation), (''payloadMetrics'', t_payloadMetrics operation)]))
          (act_then (recordTransferStarted r)
            (act_then (act_do (updateTransfer r))
              (send_import tid r target (import_message tid eid x planet)))))"

lemma launch_transfer_parts:
  "launch_transfer tid eid x target planet op =
     act_then (archiveRecycledTransferId tid (Some (t_startedAt op))) (after_archival tid eid x target planet op)"
  by (simp add: launch_transfer_def after_archival_def)

section \<open>Every started attempt sends\<close>

lemma run_grows:
  assumes "calm_act m"
  obtains ext where "trace (snd (run_with ans m w)) = trace w @ ext"
  using evolving.run_guar [OF assms, of w "answering ans" "()"]
  by (auto simp: evolves_def run_with_def case_prod_beta)

lemma run_send_first:
  "run_with ans (act_try (act_then (act_do u) (act_bind (send_to i m) g)) h) w =
     run_with ans (act_try (case ans (SendTo i m) of Resolved v \<Rightarrow> g v | Rejected e \<Rightarrow> act_throw e) h)
       (emit_effect (Requested (SendTo i m)) (u w))"
  by (simp add: run_laws split: answer.split)

lemma calm_record_started: "calm_act (recordTransferStarted r)"
  by (rule calm.recordTransferStarted) simp

lemma run_record_started:
  obtains w' where "run_with ans (recordTransferStarted r) w = (Inr (), w')" "keeps w w'"
proof -
  have k: "guar_act keeps (recordTransferStarted r)"
    unfolding recordTransferStarted_def Let_def by (intro keeping.structural keeping_recordAuditRow)
  have "fst (run_with ans (recordTransferStarted r) w) = Inr ()"
    using run_never_throws(2) [of "answering ans" r w "()"] by (simp add: run_with_def case_prod_beta)
  then show ?thesis using that run_with_keeps [OF k, of w ans] by (metis prod.collapse)
qed

lemma send_import_sends:
  assumes "no_delete (Requested (SendTo target m))"
  obtains ext where "trace (snd (run_with ans (send_import tid r target m) w)) =
     trace w @ Requested (SendTo target m) # ext"
proof -
  define g where "g = (\<lambda>response. act_bind (act_sync (endPhase tid ''transmission'')) (\<lambda>transmissionMs.
              act_bind (read_prop response ''success'') (\<lambda>success.
                if \<not> truthy success
                then handleImportFailure tid (ostr_or (str_field response ''error'') ''Import failed'') transmissionMs
                else act_try (import_accepted tid r transmissionMs)
                       (\<lambda>e. act_return (failure (getErrorMessage e))))))"
  have calm: "calm_act (act_try (case a of Resolved v \<Rightarrow> g v | Rejected e \<Rightarrow> act_throw e) (import_send_failed tid r))" for a
    unfolding g_def
    by (cases a) (auto intro!: evolving.structural evolving.guar_sync calm.sync calm.read_prop
        calm_handleImportFailure calm_import_accepted calm_import_send_failed)
  obtain ext where "trace (snd (run_with ans (send_import tid r target m) w)) =
      trace (emit_effect (Requested (SendTo target m)) (startPhase tid ''transmission'' w)) @ ext"
    unfolding send_import_def g_def [symmetric] run_send_first by (rule run_grows [OF calm])
  then show ?thesis using that by (simp add: startPhase_def upd_transfer_def split: option.splits)
qed

definition sends_import :: "(request \<Rightarrow> answer) \<Rightarrow> transfer_result handler \<Rightarrow> int \<Rightarrow> message \<Rightarrow> plugin \<Rightarrow> bool" where
  "sends_import ans m target msg w \<longleftrightarrow>
     (\<exists>before later res w'. run_with ans m w = (Inr res, w')
        \<and> trace w' = trace w @ before @ Requested (SendTo target msg) # later
        \<and> (delivered (ans (SendTo target msg)) \<longrightarrow> r_success res))"

lemma sends_after:
  assumes "run_with ans m w = (Inr (), w1)" and "trace w1 = trace w @ ext" and "sends_import ans n target msg w1"
  shows "sends_import ans (act_then m n) target msg w"
proof -
  obtain e1 e2 res w' where "run_with ans n w1 = (Inr res, w')"
    "trace w' = trace w @ (ext @ e1) @ Requested (SendTo target msg) # e2"
    "delivered (ans (SendTo target msg)) \<longrightarrow> r_success res"
    using assms(2,3) by (auto simp: sends_import_def)
  moreover have "run_with ans (act_then m n) w = run_with ans n w1" by (simp add: run_laws assms(1))
  ultimately show ?thesis unfolding sends_import_def by metis
qed

lemma after_archival_sends:
  "sends_import ans (after_archival tid eid x target planet op) target (import_message tid eid x planet) w"
proof -
  let ?m = "import_message tid eid x planet" and ?r = "length (heap w)"
  define w1 where "w1 = logTransactionEvent tid ''transfer_created''
            (t_platformName op @ '': ''
             @ name_or_id (t_sourceInstanceName op) (t_sourceInstanceId op) @ '' '' @ right_arrow @ '' ''
             @ name_or_id (t_targetInstanceName op) target)
            [(''exportMetrics'', t_exportMetrics op), (''payloadMetrics'', t_payloadMetrics op)]
            (add_transfer tid op w)"
  have k1: "keeps (add_transfer tid op w) w1" unfolding w1_def by (rule keeps_log) simp
  obtain e1 where t1: "trace w1 = trace w @ e1"
    using calm.logTransactionEvent [OF calm.add_transfer [OF evolves_refl [of identity_of no_delete w]]]
    unfolding w1_def evolves_def by blast
  obtain w2 where s: "run_with ans (recordTransferStarted ?r) w1 = (Inr (), w2)" and k2: "keeps w1 w2"
    by (rule run_record_started)
  obtain e2 where t2: "trace w2 = trace w1 @ e2"
    using run_grows [OF calm_record_started, of ans ?r w1] by (auto simp: s)
  define w3 where "w3 = updateTransfer ?r w2"
  obtain e3 where t3: "trace w3 = trace w2 @ e3"
    using calm.updateTransfer [OF evolves_refl [of identity_of no_delete w2]]
    unfolding w3_def evolves_def by blast
  have k: "keeps (add_transfer tid op w) w3"
    unfolding w3_def by (rule keeps_updateTransfer) (rule keeps_trans [OF k1 k2])
  have tab: "jm_get (activeTransfers w3) tid = Some ?r" "?r < length (heap w3)"
    using keepsD(1,6) [OF k] by (simp_all add: add_transfer_def)
  have m: "no_delete (Requested (SendTo target ?m))" "\<not> decides (SendTo target ?m)"
    by (simp_all add: import_message_def decides_def)
  obtain e4 where t4: "trace (snd (run_with ans (send_import tid ?r target ?m) w3)) =
      trace w3 @ Requested (SendTo target ?m) # e4"
    by (rule send_import_sends [OF m(1)])
  obtain res w' where run: "run_with ans (send_import tid ?r target ?m) w3 = (Inr res, w')"
    and ok: "delivered (ans (SendTo target ?m)) \<longrightarrow> r_success res"
    using run_send_import [OF tab m(2), of ans] by (metis (no_types))
  have "run_with ans (after_archival tid eid x target planet op) w = (Inr res, w')"
    by (simp only: after_archival_def run_laws fst_conv snd_conv prod.case sum.case w1_def [symmetric] s
        w3_def [symmetric] run)
  moreover have "trace w' = trace w @ (e1 @ e2 @ e3) @ Requested (SendTo target ?m) # e4"
    using t1 t2 t3 t4 by (simp add: run)
  ultimately show ?thesis using ok unfolding sends_import_def by blast
qed

section \<open>Two attempts at once\<close>

text \<open>An archival that has to wait: the log kept for the id belongs to an attempt started at another time.\<close>

definition has_older_log :: "plugin \<Rightarrow> string \<Rightarrow> bool" where
  "has_older_log w tid =
     (clock w \<noteq> 0 \<and>
      (case index_of (\<lambda>l. l_transferId l = tid) (persistedTransactionLogs w) of
         None \<Rightarrow> False
       | Some n \<Rightarrow> (case l_transferInfo (persistedTransactionLogs w ! n) of
           None \<Rightarrow> True | Some i \<Rightarrow> i_startedAt i \<noteq> Some (clock w))))"

lemma run_archival:
  obtains w' ext where "run_with ans (archiveRecycledTransferId tid st) w = (Inr (), w')" "trace w' = trace w @ ext"
proof -
  have calm: "calm_act (archiveRecycledTransferId tid st)" by (rule calm.archiveRecycledTransferId) simp
  obtain ext where "trace (snd (run_with ans (archiveRecycledTransferId tid st) w)) = trace w @ ext"
    by (rule run_grows [OF calm])
  moreover have "fst (run_with ans (archiveRecycledTransferId tid st) w) = Inr ()"
    using run_never_throws(3) [of "answering ans" tid st w "()"] by (simp add: run_with_def case_prod_beta)
  ultimately show ?thesis using that by (metis prod.collapse)
qed

lemma run_with_cong: "m w = m' w \<Longrightarrow> run_with ans m w = run_with ans m' w"
  by (simp add: run_with_def run_act_def)

lemma await_bind: "snd (m w) = Await q k \<Longrightarrow> act_bind m f w = (fst (m w), Await q (\<lambda>a. act_bind (k a) f))"
  by (simp add: act_bind_def fun_eq_iff)

definition archival_rest :: "string \<Rightarrow> audit_row \<Rightarrow> answer \<Rightarrow> unit handler" where
  "archival_rest tid row a =
     act_then (act_try (act_bind (case a of Resolved v \<Rightarrow> act_return v | Rejected e \<Rightarrow> act_throw e)
         (\<lambda>_. act_do (note_audit_row row))) (\<lambda>err. act_return ())) (act_do (forget_events tid))"

lemma archival_waits:
  assumes "has_older_log w tid"
  obtains logs row where
    "archiveRecycledTransferId tid (Some (clock w)) w =
      (emit_effect (Requested (AppendAuditRow row)) (w\<lparr>persistedTransactionLogs := logs\<rparr>),
       Await (AppendAuditRow row)
         (archival_rest tid row))"
proof -
  have row: "act_then (recordAuditRow row) (act_do (forget_events tid)) w0 =
      (emit_effect (Requested (AppendAuditRow row)) w0, Await (AppendAuditRow row) (archival_rest tid row))" for row w0
    by (auto simp: archival_rest_def recordAuditRow_def await_value_def request_act_def act_run fun_eq_iff)
  obtain n where n: "index_of (\<lambda>l. l_transferId l = tid) (persistedTransactionLogs w) = Some n"
    "\<not> (case l_transferInfo (persistedTransactionLogs w ! n) of None \<Rightarrow> False | Some i \<Rightarrow> i_startedAt i = Some (clock w))"
    and c: "oint_truthy (Some (clock w)) \<noteq> None"
    using assms by (auto simp: has_older_log_def oint_truthy_def split: option.splits)
  have "\<exists>logs row. archiveRecycledTransferId tid (Some (clock w)) w =
      act_then (recordAuditRow row) (act_do (forget_events tid)) (w\<lparr>persistedTransactionLogs := logs\<rparr>)"
    using n c unfolding archiveRecycledTransferId_def Let_def act_get_def by (auto simp: act_run)
  then show ?thesis using that row by metis
qed

text \<open>An attempt suspended at the archival: the state it leaves still lets another one start.\<close>

lemma attempt_suspends:
  assumes "may_begin w eid x a" and "has_older_log w (stored_transfer_id eid x)"
  obtains w1 q k where "transferPlatform eid a JNull None None w = (w1, Await q k)"
    "trace w1 = trace w @ [Requested q]"
    "\<forall>b. isInstanceOnline w b \<longrightarrow> may_begin w1 eid x b"
    "\<forall>ans v w2. sends_import ans (k v) a (import_message (stored_transfer_id eid x) eid x None) w2"
proof -
  let ?tid = "stored_transfer_id eid x"
  obtain op where A: "t_startedAt op = clock w"
    "transferPlatform eid a JNull None None w = launch_transfer ?tid eid x a None op w"
    by (rule started_attempt [OF assms(1)])
  obtain logs row where arch: "archiveRecycledTransferId ?tid (Some (clock w)) w =
      (emit_effect (Requested (AppendAuditRow row)) (w\<lparr>persistedTransactionLogs := logs\<rparr>),
       Await (AppendAuditRow row) (archival_rest ?tid row))"
    by (rule archival_waits [OF assms(2)])
  define w1 where "w1 = emit_effect (Requested (AppendAuditRow row)) (w\<lparr>persistedTransactionLogs := logs\<rparr>)"
  define k where "k = (\<lambda>v. act_then (archival_rest ?tid row v) (after_archival ?tid eid x a None op))"
  have "transferPlatform eid a JNull None None w = (w1, Await (AppendAuditRow row) k)"
    unfolding A(2) launch_transfer_parts A(1) act_then_def k_def by (simp add: await_bind arch w1_def)
  moreover have parts: "find_host w1 = find_host w" "transfer_at w1 = transfer_at w" "instances w1 = instances w"
    "activeTransfers w1 = activeTransfers w" "platformStorage w1 = platformStorage w"
    by (simp_all add: w1_def emit_effect_def find_host_def transfer_at_def Let_def fun_eq_iff)
  have "isInstanceOnline w1 b = isInstanceOnline w b" "find_transfer w1 ?tid = find_transfer w ?tid" for b
    unfolding isInstanceOnline_def find_transfer_def parts by (rule refl)+
  then have "may_begin w1 eid x b" if "isInstanceOnline w b" for b
    using assms(1) that by (simp add: may_begin_def parts)
  moreover have "sends_import ans (k v) a (import_message ?tid eid x None) w2" for ans v w2
  proof -
    obtain v2 where "run_with ans (archival_rest ?tid row v) w2 = (Inr (), v2)" "trace v2 = trace w2 @ []"
      unfolding archival_rest_def
      by (cases v) (simp_all add: run_laws note_audit_row_def forget_events_def)
    then show ?thesis
      unfolding k_def by (rule sends_after) (simp_all add: after_archival_sends)
  qed
  moreover have "trace w1 = trace w @ [Requested (AppendAuditRow row)]" by (simp add: w1_def)
  ultimately show ?thesis using that [of w1 "AppendAuditRow row" k] by blast
qed

lemma attempt_sends:
  assumes "may_begin w eid x target"
  shows "sends_import ans (transferPlatform eid target JNull None None) target
     (import_message (stored_transfer_id eid x) eid x None) w"
proof -
  obtain op where "transferPlatform eid target JNull None None w =
      launch_transfer (stored_transfer_id eid x) eid x target None op w"
    by (rule started_attempt [OF assms])
  then have run: "run_with ans (transferPlatform eid target JNull None None) w =
      run_with ans (launch_transfer (stored_transfer_id eid x) eid x target None op) w"
    by (rule run_with_cong)
  obtain w' ext where "run_with ans (archiveRecycledTransferId (stored_transfer_id eid x) (Some (t_startedAt op))) w = (Inr (), w')"
    "trace w' = trace w @ ext"
    by (rule run_archival)
  then have "sends_import ans (launch_transfer (stored_transfer_id eid x) eid x target None op) target
      (import_message (stored_transfer_id eid x) eid x None) w"
    unfolding launch_transfer_parts by (rule sends_after) (rule after_archival_sends)
  then show ?thesis by (simp add: sends_import_def run)
qed

text \<open>
  C7: of two attempts to transfer the same stored export that overlap, both can start. If a log of an
  earlier attempt is kept under the id, an attempt that passed the guard waits for the archival of
  that log before it enters the table. A second attempt that arrives during the wait passes the same
  guard, registers and sends its import request; then the first one goes on and sends its own. Both
  report success if the destinations accept.
\<close>

theorem overlapping_attempts_both_import:
  fixes ans :: "request \<Rightarrow> answer"
  assumes "may_begin w eid x a" and "isInstanceOnline w b" and "has_older_log w (stored_transfer_id eid x)"
  shows "\<exists>w1 q k resB w2 resA w3 e1 e2 e3.
     transferPlatform eid a JNull None None w = (w1, Await q k)
     \<and> run_with ans (transferPlatform eid b JNull None None) w1 = (Inr resB, w2)
     \<and> run_with ans (k (ans q)) w2 = (Inr resA, w3)
     \<and> (let m = import_message (stored_transfer_id eid x) eid x None
        in trace w3 = trace w @ e1 @ Requested (SendTo b m) # e2 @ Requested (SendTo a m) # e3
           \<and> (delivered (ans (SendTo b m)) \<longrightarrow> r_success resB)
           \<and> (delivered (ans (SendTo a m)) \<longrightarrow> r_success resA))"
proof -
  obtain w1 q k where A: "transferPlatform eid a JNull None None w = (w1, Await q k)"
    and t1: "trace w1 = trace w @ [Requested q]" and start: "\<forall>b. isInstanceOnline w b \<longrightarrow> may_begin w1 eid x b"
    and sends: "\<forall>ans v w2. sends_import ans (k v) a (import_message (stored_transfer_id eid x) eid x None) w2"
    by (rule attempt_suspends [OF assms(1,3)])
  let ?m = "import_message (stored_transfer_id eid x) eid x None"
  obtain f1 f2 resB w2 where B: "run_with ans (transferPlatform eid b JNull None None) w1 = (Inr resB, w2)"
    and t2: "trace w2 = trace w1 @ f1 @ Requested (SendTo b ?m) # f2"
    and okB: "delivered (ans (SendTo b ?m)) \<longrightarrow> r_success resB"
    using attempt_sends [OF start [rule_format, OF assms(2)], of ans] unfolding sends_import_def by blast
  obtain f3 f4 resA w3 where A': "run_with ans (k (ans q)) w2 = (Inr resA, w3)"
    and t3: "trace w3 = trace w2 @ f3 @ Requested (SendTo a ?m) # f4"
    and okA: "delivered (ans (SendTo a ?m)) \<longrightarrow> r_success resA"
    using sends [rule_format, of ans "ans q" w2] unfolding sends_import_def by blast
  have "trace w3 = trace w @ (Requested q # f1) @ Requested (SendTo b ?m) # (f2 @ f3) @ Requested (SendTo a ?m) # f4"
    using t1 t2 t3 by simp
  with A B A' okA okB show ?thesis unfolding Let_def by blast
qed

text \<open>A failed transfer whose log is kept, retried twice.\<close>

definition failed_plugin :: plugin where
  "failed_plugin = settled_plugin
     \<lparr>heap := [sample_transfer\<lparr>t_status := Failed\<rparr>],
      persistedTransactionLogs := [\<lparr>l_transferId = ''1:7'', l_transferInfo = Some (empty_info\<lparr>i_startedAt := Some 1000\<rparr>),
        l_summary = None, l_events = [], l_savedAt = 1500\<rparr>]\<rparr>"

theorem overlapping_attempts_both_import_witness:
  "\<exists>w1 q k resB w2 resA w3 e1 e2 e3.
     transferPlatform ''1:7'' 2 JNull None None failed_plugin = (w1, Await q k)
     \<and> run_with all_well (transferPlatform ''1:7'' 2 JNull None None) w1 = (Inr resB, w2)
     \<and> run_with all_well (k (all_well q)) w2 = (Inr resA, w3)
     \<and> (let m = import_message ''1:7'' ''1:7'' sample_stored_export None
        in trace w3 = trace failed_plugin @ e1 @ Requested (SendTo 2 m) # e2 @ Requested (SendTo 2 m) # e3)
     \<and> r_success resB \<and> r_success resA"
proof -
  have two: "is_integer (Fin 1)" "int_of_num (Fin 1) = 1" "is_integer (Fin 3)" "int_of_num (Fin 3) = 3"
    using is_integer_simps(1) [of 1] int_of_num_simps(1) [of 1] is_integer_simps(1) [of 3] int_of_num_simps(1) [of 3]
    by simp_all
  have id: "stored_transfer_id ''1:7'' sample_stored_export = ''1:7''"
    by (simp add: stored_transfer_id_def sample_stored_export_def str_or_def)
  have on: "isInstanceOnline failed_plugin 2"
    by (simp add: isInstanceOnline_def failed_plugin_def settled_plugin_def sample_destination_def find_host_def two)
  have "find_transfer failed_plugin ''1:7'' = Some (sample_transfer\<lparr>t_status := Failed\<rparr>)"
    by (simp add: find_transfer_def failed_plugin_def settled_plugin_def sample_plugin_def transfer_at_def)
  then have "retry_guard ''1:7'' (find_transfer failed_plugin ''1:7'') = None"
    by (simp add: retry_guard_def is_live_def sample_transfer_def prop_get_def)
  then have start: "may_begin failed_plugin ''1:7'' sample_stored_export 2"
    by (simp add: may_begin_def id on two) (simp add: failed_plugin_def settled_plugin_def sample_stored_export_def two)
  have old: "has_older_log failed_plugin (stored_transfer_id ''1:7'' sample_stored_export)"
    by (simp add: has_older_log_def id failed_plugin_def settled_plugin_def sample_plugin_def)
  have "delivered (all_well q)" for q
    by (simp add: delivered_def all_well_def is_nullish_def prop_get_def)
  then show ?thesis
    using overlapping_attempts_both_import [OF start on old, of all_well] unfolding Let_def id by blast
qed

end
