(* ===== verification/WebViews.thy ===== *)
theory WebViews
  imports WebClient TransferInfo
begin

text \<open>
  What the transaction log page computes from a stored log (web/utils.ts): texts of numbers, the rows
  of its tables and of the Gantt chart, and the summary of one transfer. \<open>fmt\<close> is
  \<open>Number.toLocaleString\<close> with the greatest number of fraction digits, if one is given.
\<close>

type_synonym number_format = "nat option \<Rightarrow> jsnum \<Rightarrow> string"

section \<open>Texts of numbers\<close>

fun num_fixed1 :: "jsnum \<Rightarrow> string" where
  "num_fixed1 (Fin q) = to_fixed1 q"
| "num_fixed1 n = num_text n"

fun num_abs :: "jsnum \<Rightarrow> jsnum" where
  "num_abs (Fin q) = Fin \<bar>q\<bar>"
| "num_abs NegInf = PosInf"
| "num_abs n = n"

text \<open>\<open>f\<close> on a number, \<open>-\<close> on anything else and on \<open>NaN\<close>.\<close>

definition number_or_dash :: "(jsnum \<Rightarrow> string) \<Rightarrow> jsval \<Rightarrow> string" where
  "number_or_dash f v = (case v of JNum n \<Rightarrow> if n = NaN then ''-'' else f n | _ \<Rightarrow> ''-'')"

definition formatDuration_web :: "number_format \<Rightarrow> jsval \<Rightarrow> string" where
  "formatDuration_web fmt = number_or_dash (\<lambda>ms.
     if num_le (Fin 1000) ms
     then num_fixed1 (num_scale (1 / 1000) ms) @ ''s ('' @ fmt None (num_round ms) @ ''ms)''
     else fmt None (num_round ms) @ ''ms'')"

definition formatNumeric :: "number_format \<Rightarrow> nat \<Rightarrow> jsval \<Rightarrow> string" where
  "formatNumeric fmt maxFractionDigits = number_or_dash (fmt (Some maxFractionDigits))"

definition formatCompactEnergy :: "number_format \<Rightarrow> jsval \<Rightarrow> string" where
  "formatCompactEnergy fmt = number_or_dash (\<lambda>n.
     if num_le (Fin (10 ^ 9)) (num_abs n) then fmt (Some 1) (num_scale (1 / 10 ^ 9) n) @ ''B''
     else if num_le (Fin (10 ^ 6)) (num_abs n) then fmt (Some 1) (num_scale (1 / 10 ^ 6) n) @ ''M''
     else if num_le (Fin (10 ^ 3)) (num_abs n) then fmt (Some 1) (num_scale (1 / 10 ^ 3) n) @ ''K''
     else fmt (Some 0) n)"

definition formatSigned :: "number_format \<Rightarrow> nat \<Rightarrow> jsval \<Rightarrow> string" where
  "formatSigned fmt maxFractionDigits = number_or_dash (\<lambda>n.
     (if num_less (Fin 0) n then ''+'' else []) @ fmt (Some maxFractionDigits) n)"

definition formatBytes :: "number_format \<Rightarrow> jsval \<Rightarrow> string" where
  "formatBytes fmt v =
     (case to_number v of
        Fin q \<Rightarrow>
          if q < 1024 then formatNumeric fmt 0 (JNum (Fin q)) @ '' B''
          else if q / 1024 < 1024 then formatNumeric fmt 1 (JNum (Fin (q / 1024))) @ '' KB''
          else formatNumeric fmt 2 (JNum (Fin (q / 1024 / 1024))) @ '' MB''
      | _ \<Rightarrow> ''-'')"

section \<open>Counts of operations\<close>

text \<open>Key, whether the export counts it, label.\<close>

definition OPERATION_COUNT_DEFINITIONS :: "(string \<times> bool \<times> string) list" where
  "OPERATION_COUNT_DEFINITIONS =
     [(''exportedEntityCount'', True, ''Entities''),
      (''exportedTileCount'', True, ''Tiles''),
      (''belt_items_restored'', False, ''Belt items restored''),
      (''fluids_restored'', False, ''Fluid segments restored''),
      (''circuits_connected'', False, ''Circuits connected''),
      (''copper_pruned'', False, ''Copper pruned''),
      (''proxies_linked'', False, ''Proxy targets relinked''),
      (''scheduleRecordCount'', True, ''Schedule records''),
      (''scheduleInterruptCount'', True, ''Schedule interrupts''),
      (''atomicBeltEntitiesScanned'', True, ''Belt entities scanned''),
      (''atomicBeltItemStacksCaptured'', True, ''Belt item stacks captured'')]"

definition buildOperationCountRows :: "number_format \<Rightarrow> jsval \<Rightarrow> jsval \<Rightarrow> (string \<times> string \<times> string) list" where
  "buildOperationCountRows fmt exportData importData =
     List.map_filter (\<lambda>(key, fromExport, label).
         let raw = prop_get (if fromExport then exportData else importData) key;
             value = to_number (val_nullish raw (js_int 0))
         in if value = Fin 0 then None else Some (key, label, fmt None value))
       OPERATION_COUNT_DEFINITIONS"

section \<open>The Gantt chart\<close>

record gantt_row =
  gr_row :: timeline_row
  gr_key :: string
  gr_geometry :: gantt_geometry

definition gantt_row_at :: "rat \<Rightarrow> nat \<Rightarrow> timeline_row \<Rightarrow> gantt_row" where
  "gantt_row_at totalMs i row =
     \<lparr>gr_row = row, gr_key = w_key row @ CHR ''#'' # show_nat i,
      gr_geometry = toGanttGeometry (w_start row) (w_end row) totalMs\<rparr>"

definition buildGanttRows ::
    "(rat \<Rightarrow> string) \<Rightarrow> jsval list \<Rightarrow> jsval \<Rightarrow> rat \<times> gantt_row list \<times> attribution" where
  "buildGanttRows fmt events detailedSummary =
     (let timeline = buildTransferTimeline fmt events detailedSummary
      in (tl_totalMs timeline,
          map (\<lambda>(i, row). gantt_row_at (tl_totalMs timeline) i row) (enumerate 0 (tl_rows timeline)),
          tl_attribution timeline))"

section \<open>Expected and actual amounts\<close>

text \<open>
  A map of amounts is its entries in the order of \<open>Object.keys\<close>; amounts are finite. \<open>le\<close> is
  the collation \<open>localeCompare\<close> stands for.
\<close>

type_synonym amounts = "(string \<times> rat) list"

definition amount_of :: "amounts \<Rightarrow> string \<Rightarrow> rat" where
  "amount_of m k = (case map_of m k of Some q \<Rightarrow> q | None \<Rightarrow> 0)"

definition keys_of_both :: "amounts \<Rightarrow> amounts \<Rightarrow> string list" where
  "keys_of_both expected actual =
     map fst expected @ filter (\<lambda>k. k \<notin> set (map fst expected)) (map fst actual)"

definition preserved_pct :: "rat \<Rightarrow> rat \<Rightarrow> rat option" where
  "preserved_pct expected actual = (if 0 < expected then Some (actual / expected * 100) else None)"

text \<open>\<open>Math.abs(b.delta) - Math.abs(a.delta) || a.name.localeCompare(b.name)\<close> is not positive.\<close>

definition greatest_delta :: "(string \<Rightarrow> string \<Rightarrow> bool) \<Rightarrow> string \<times> rat \<Rightarrow> string \<times> rat \<Rightarrow> bool" where
  "greatest_delta le a b = (\<bar>snd b\<bar> < \<bar>snd a\<bar> \<or> \<bar>snd b\<bar> = \<bar>snd a\<bar> \<and> le (fst a) (fst b))"

record amount_row =
  ar_name :: string
  ar_expected :: rat
  ar_actual :: rat
  ar_delta :: rat
  ar_preservedPct :: "rat option"

definition amount_row_of :: "amounts \<Rightarrow> amounts \<Rightarrow> string \<Rightarrow> amount_row" where
  "amount_row_of expected actual name =
     (let e = amount_of expected name; a = amount_of actual name
      in \<lparr>ar_name = name, ar_expected = e, ar_actual = a, ar_delta = a - e, ar_preservedPct = preserved_pct e a\<rparr>)"

definition buildExpectedActualRows ::
    "(string \<Rightarrow> string \<Rightarrow> bool) \<Rightarrow> amounts \<Rightarrow> amounts \<Rightarrow> amount_row list" where
  "buildExpectedActualRows le expected actual =
     sort_by (\<lambda>a b. greatest_delta le (ar_name a, ar_delta a) (ar_name b, ar_delta b))
       (map (amount_row_of expected actual) (keys_of_both expected actual))"

section \<open>Fluids\<close>

text \<open>A key \<open>name@<temperature>C\<close>; the name ends at the last at sign and has no line break.\<close>

definition span_end :: "('a \<Rightarrow> bool) \<Rightarrow> 'a list \<Rightarrow> 'a list \<times> 'a list" where
  "span_end P xs = (rev (dropWhile P (rev xs)), rev (takeWhile P (rev xs)))"

record fluid_key =
  fk_baseName :: string
  fk_temperatureC :: "jsnum option"

definition is_temperature :: "string \<Rightarrow> bool" where
  "is_temperature s =
     (let unsigned = (case s of c # cs \<Rightarrow> if c = CHR ''-'' then cs else s | [] \<Rightarrow> []);
          fraction = dropWhile is_digit unsigned
      in takeWhile is_digit unsigned \<noteq> []
         \<and> (case fraction of [] \<Rightarrow> True
            | c # cs \<Rightarrow> c = CHR ''.'' \<and> cs \<noteq> [] \<and> list_all is_digit cs))"

definition line_breaks :: "string list" where
  "line_breaks = [utf8 [10], utf8 [13], utf8 [0xE2, 0x80, 0xA8], utf8 [0xE2, 0x80, 0xA9]]"

definition one_line :: "string \<Rightarrow> bool" where
  "one_line s = list_all (\<lambda>b. list_all (\<lambda>i. take (length b) (drop i s) \<noteq> b) [0..<length s]) line_breaks"

definition parseFluidTemperatureKey :: "string \<Rightarrow> fluid_key" where
  "parseFluidTemperatureKey key =
     (let parts = span_end (\<lambda>c. c \<noteq> CHR ''@'') key;
          base = butlast (fst parts); temperature = snd parts
      in if fst parts \<noteq> [] \<and> temperature \<noteq> [] \<and> last temperature \<in> {CHR ''C'', CHR ''c''}
            \<and> is_temperature (butlast temperature) \<and> one_line base
         then \<lparr>fk_baseName = str_or base key, fk_temperatureC = Some (str_to_num (butlast temperature))\<rparr>
         else \<lparr>fk_baseName = key, fk_temperatureC = None\<rparr>)"

text \<open>One temperature of a fluid, and a fluid with its temperatures in the order of the keys.\<close>

record fluid_bucket =
  fb_fluidKey :: string
  fb_temp :: "string option"
  fb_expected :: rat
  fb_actual :: rat
  fb_delta :: rat
  fb_preservedPct :: "rat option"

record fluid_group =
  fg_baseName :: string
  fg_expected :: rat
  fg_actual :: rat
  fg_hasHighTempBucket :: bool
  fg_buckets :: "fluid_bucket list"

definition no_buckets :: "string \<Rightarrow> fluid_group" where
  "no_buckets name = \<lparr>fg_baseName = name, fg_expected = 0, fg_actual = 0, fg_hasHighTempBucket = False, fg_buckets = []\<rparr>"

definition fluid_bucket_of :: "number_format \<Rightarrow> amounts \<Rightarrow> amounts \<Rightarrow> string \<Rightarrow> fluid_bucket" where
  "fluid_bucket_of fmt expected actual fluidKey =
     (let e = amount_of expected fluidKey; a = amount_of actual fluidKey
      in \<lparr>fb_fluidKey = fluidKey,
          fb_temp = map_option (\<lambda>n. formatNumeric fmt 1 (JNum n) @ utf8 [0xC2, 0xB0] @ ''C'')
             (fk_temperatureC (parseFluidTemperatureKey fluidKey)),
          fb_expected = e, fb_actual = a, fb_delta = a - e, fb_preservedPct = preserved_pct e a\<rparr>)"

definition is_high_temp :: "jsnum \<Rightarrow> string \<Rightarrow> bool" where
  "is_high_temp threshold fluidKey =
     (case fk_temperatureC (parseFluidTemperatureKey fluidKey) of None \<Rightarrow> False | Some n \<Rightarrow> num_le threshold n)"

definition base_name :: "string \<Rightarrow> string" where
  "base_name fluidKey = str_or (fk_baseName (parseFluidTemperatureKey fluidKey)) fluidKey"

definition add_bucket ::
    "number_format \<Rightarrow> jsnum \<Rightarrow> amounts \<Rightarrow> amounts \<Rightarrow> (string, fluid_group) jsmap \<Rightarrow> string \<Rightarrow> (string, fluid_group) jsmap" where
  "add_bucket fmt threshold expected actual groups fluidKey =
     (let name = base_name fluidKey; bucket = fluid_bucket_of fmt expected actual fluidKey;
          g = nullish (jm_get groups name) (no_buckets name)
      in jm_set groups name
        (g\<lparr>fg_expected := fg_expected g + fb_expected bucket, fg_actual := fg_actual g + fb_actual bucket,
           fg_hasHighTempBucket := (fg_hasHighTempBucket g \<or> is_high_temp threshold fluidKey),
           fg_buckets := fg_buckets g @ [bucket]\<rparr>))"

definition fluid_groups :: "number_format \<Rightarrow> jsnum \<Rightarrow> amounts \<Rightarrow> amounts \<Rightarrow> (string, fluid_group) jsmap" where
  "fluid_groups fmt threshold expected actual =
     foldl (add_bucket fmt threshold expected actual) [] (keys_of_both expected actual)"

text \<open>What the destination reports of a fluid by energy; a member may be absent.\<close>

record thermal_aggregate =
  ta_reconciled :: "bool option"
  ta_expectedEnergy :: "rat option"
  ta_actualEnergy :: "rat option"

record fluid_row =
  fr_key :: string
  fr_name :: string
  fr_tempDisplay :: "string option"
  fr_highTemp :: bool
  fr_expected :: rat
  fr_actual :: rat
  fr_delta :: rat
  fr_preservedPct :: "rat option"
  fr_isGroup :: bool
  fr_isThermalSummary :: bool
  fr_status :: string
  fr_reconciled :: bool

definition reconciled_high_temp :: "(string \<times> thermal_aggregate) list \<Rightarrow> fluid_group \<Rightarrow> bool" where
  "reconciled_high_temp aggregates g =
     (fg_hasHighTempBucket g
      \<and> (case map_of aggregates (fg_baseName g) of
           Some a \<Rightarrow> nullish (ta_reconciled a) (\<bar>fg_actual g - fg_expected g\<bar> \<le> 1)
         | None \<Rightarrow> \<bar>fg_actual g - fg_expected g\<bar> \<le> 1))"

definition expected_energy :: "(string \<times> thermal_aggregate) list \<Rightarrow> fluid_group \<Rightarrow> rat" where
  "expected_energy aggregates g =
     (case map_of aggregates (fg_baseName g) of Some a \<Rightarrow> nullish (ta_expectedEnergy a) 0 | None \<Rightarrow> 0)"

definition actual_energy :: "(string \<times> thermal_aggregate) list \<Rightarrow> fluid_group \<Rightarrow> rat" where
  "actual_energy aggregates g =
     (case map_of aggregates (fg_baseName g) of Some a \<Rightarrow> nullish (ta_actualEnergy a) 0 | None \<Rightarrow> 0)"

definition AMOUNT_TOLERANCE :: rat where "AMOUNT_TOLERANCE = 1 / 10000"

definition thermal_row :: "string \<Rightarrow> rat \<Rightarrow> rat \<Rightarrow> fluid_row" where
  "thermal_row name expEnergy actEnergy =
     (let precision = (if 0 < expEnergy then actEnergy / expEnergy * 100 else 100)
      in \<lparr>fr_key = ''fluid:thermal:'' @ name, fr_name = name,
          fr_tempDisplay = Some (''High-temp (V'' @ utf8 [0xC3, 0x97] @ ''T)''), fr_highTemp = True,
          fr_expected = expEnergy, fr_actual = actEnergy, fr_delta = actEnergy - expEnergy,
          fr_preservedPct = Some precision, fr_isGroup = True, fr_isThermalSummary = True,
          fr_status = (if 99 \<le> precision then ''Thermal match'' else ''Thermal drift''), fr_reconciled = True\<rparr>)"

definition bucket_row :: "string \<Rightarrow> bool \<Rightarrow> fluid_bucket \<Rightarrow> fluid_row" where
  "bucket_row name highTemp b =
     \<lparr>fr_key = ''fluid:bucket:'' @ fb_fluidKey b, fr_name = name, fr_tempDisplay = fb_temp b, fr_highTemp = highTemp,
      fr_expected = fb_expected b, fr_actual = fb_actual b, fr_delta = fb_delta b,
      fr_preservedPct = fb_preservedPct b, fr_isGroup = False, fr_isThermalSummary = False,
      fr_status = (if AMOUNT_TOLERANCE < \<bar>fb_delta b\<bar> then ''Mismatch'' else ''Match''),
      fr_reconciled = (\<bar>fb_delta b\<bar> \<le> AMOUNT_TOLERANCE)\<rparr>"

definition single_row :: "string \<Rightarrow> bool \<Rightarrow> bool \<Rightarrow> fluid_bucket \<Rightarrow> fluid_row" where
  "single_row name highTemp reconciled b =
     (bucket_row name highTemp b)
       \<lparr>fr_isGroup := True,
        fr_status := (if AMOUNT_TOLERANCE < \<bar>fb_delta b\<bar>
          then (if highTemp \<and> reconciled then ''Bucket drift (reconciled)'' else ''Mismatch'') else ''Match''),
        fr_reconciled := (if highTemp then reconciled else \<bar>fb_delta b\<bar> \<le> AMOUNT_TOLERANCE)\<rparr>"

definition group_row :: "fluid_group \<Rightarrow> fluid_row" where
  "group_row g =
     (let delta = fg_actual g - fg_expected g
      in \<lparr>fr_key = ''fluid:group:'' @ fg_baseName g, fr_name = fg_baseName g, fr_tempDisplay = None,
          fr_highTemp = fg_hasHighTempBucket g, fr_expected = fg_expected g, fr_actual = fg_actual g,
          fr_delta = delta, fr_preservedPct = preserved_pct (fg_expected g) (fg_actual g),
          fr_isGroup = True, fr_isThermalSummary = False,
          fr_status = (if \<bar>delta\<bar> \<le> AMOUNT_TOLERANCE then ''Match'' else ''Mismatch''),
          fr_reconciled = (\<bar>delta\<bar> \<le> AMOUNT_TOLERANCE)\<rparr>)"

definition group_rows ::
    "(string \<Rightarrow> string \<Rightarrow> bool) \<Rightarrow> (string \<times> thermal_aggregate) list \<Rightarrow> fluid_group \<Rightarrow> fluid_row list" where
  "group_rows le aggregates g =
     (let name = fg_baseName g; highTemp = fg_hasHighTempBucket g; reconciled = reconciled_high_temp aggregates g in
      if highTemp \<and> reconciled \<and> 0 < expected_energy aggregates g
      then [thermal_row name (expected_energy aggregates g) (actual_energy aggregates g)]
      else case fg_buckets g of
        [b] \<Rightarrow> [single_row name highTemp reconciled b]
      | bs \<Rightarrow> group_row g # map (bucket_row name highTemp)
          (sort_by (\<lambda>a b. greatest_delta le (fb_fluidKey a, fb_delta a) (fb_fluidKey b, fb_delta b)) bs))"

text \<open>Each group row once, followed by its buckets.\<close>

fun with_children :: "fluid_row list \<Rightarrow> string list \<Rightarrow> fluid_row list \<Rightarrow> fluid_row list" where
  "with_children rows seen [] = []"
| "with_children rows seen (g # gs) =
     (if fr_name g \<in> set seen then with_children rows seen gs
      else g # filter (\<lambda>r. \<not> fr_isGroup r \<and> fr_name r = fr_name g) rows @ with_children rows (fr_name g # seen) gs)"

text \<open>
  The code sorts all rows first by a comparison that is not consistent (it takes every bucket as
  equal to every row), so their order then depends on the implementation of \<open>sort\<close>:
  \<open>reorder\<close> is any permutation.
\<close>

definition buildFluidInventoryRows ::
    "number_format \<Rightarrow> (string \<Rightarrow> string \<Rightarrow> bool) \<Rightarrow> (fluid_row list \<Rightarrow> fluid_row list) \<Rightarrow> amounts \<Rightarrow> amounts \<Rightarrow>
      jsnum \<Rightarrow> (string \<times> thermal_aggregate) list \<Rightarrow> fluid_row list" where
  "buildFluidInventoryRows fmt le reorder expected actual highTempThreshold aggregates =
     (let threshold = (if is_finite highTempThreshold then highTempThreshold else Fin 10000);
          rows = reorder (concat (map (group_rows le aggregates) (jm_values (fluid_groups fmt threshold expected actual))))
      in with_children rows []
           (sort_by (\<lambda>a b. greatest_delta le (fr_name a, fr_delta a) (fr_name b, fr_delta b)) (filter fr_isGroup rows)))"

section \<open>The summary of one transfer\<close>

definition findLatestEvent :: "jsval list \<Rightarrow> (jsval \<Rightarrow> bool) \<Rightarrow> jsval" where
  "findLatestEvent events P = (case List.find P (rev events) of Some e \<Rightarrow> e | None \<Rightarrow> JNull)"

definition event_type_is :: "string list \<Rightarrow> jsval \<Rightarrow> bool" where
  "event_type_is types e = (case prop_get e ''eventType'' of JStr s \<Rightarrow> s \<in> set types | _ \<Rightarrow> False)"

definition is_validation_event :: "jsval \<Rightarrow> bool" where
  "is_validation_event e =
     (event_type_is [''validation_received'', ''validation_failed''] e
      \<or> ''validation'' \<in> set (map fst (obj_fields e)))"

definition as_plain_object :: "jsval \<Rightarrow> jsval \<Rightarrow> jsval" where
  "as_plain_object v fallback = (case v of JObj fs \<Rightarrow> JObj fs | _ \<Rightarrow> fallback)"

definition object_or :: "jsval \<Rightarrow> jsval \<Rightarrow> jsval" where
  "object_or v fallback = (if is_object v then v else fallback)"

record detail_view =
  dv_transferId :: string
  dv_operationType :: jsval
  dv_result :: jsval
  dv_status :: jsval
  dv_totalDurationMs :: jsval
  dv_totalDurationStr :: jsval
  dv_phases :: jsval
  dv_platform :: jsval
  dv_export :: jsval
  dv_payload :: jsval
  dv_import :: jsval
  dv_validation :: jsval
  dv_sourceVerification :: jsval
  dv_startedAt :: jsval
  dv_completedAt :: jsval
  dv_failedAt :: jsval
  dv_lastEventAt :: jsval
  dv_error :: jsval

definition num_max0 :: "jsnum \<Rightarrow> jsnum" where
  "num_max0 n = (if num_less n (Fin 0) then Fin 0 else n)"

definition total_duration :: "jsval \<Rightarrow> jsval \<Rightarrow> jsval \<Rightarrow> jsval \<Rightarrow> jsval" where
  "total_duration summary startedAt finishedAt completionEvent =
     (let recorded = getNumber summary ''totalDurationMs'' JNull;
          measured = (if recorded = JNull \<and> truthy startedAt \<and> truthy finishedAt
            then JNum (num_max0 (num_sub (to_number finishedAt) (to_number startedAt))) else recorded)
      in if measured = JNull then getNumber completionEvent ''durationMs'' JNull else measured)"

definition result_of_status :: "jsval \<Rightarrow> string" where
  "result_of_status status =
     (if status = JStr ''completed'' then ''SUCCESS''
      else if status \<in> {JStr ''failed'', JStr ''error'', JStr ''cleanup_failed''} then ''FAILED''
      else ''IN_PROGRESS'')"

definition shown_result :: "jsval \<Rightarrow> jsval \<Rightarrow> jsval" where
  "shown_result summary status =
     (case prop_get summary ''result'' of
        JStr r \<Rightarrow> if r \<noteq> [] then JStr r else JStr (result_of_status status)
      | _ \<Rightarrow> JStr (result_of_status status))"

definition shown_platform :: "jsval \<Rightarrow> jsval" where
  "shown_platform info =
     JObj [(''name'', getString info ''platformName'' (JStr ''Unknown'')),
       (''source'', JObj [(''instanceId'', getNumber info ''sourceInstanceId'' (js_int (- 1))),
                          (''instanceName'', getString info ''sourceInstanceName'' JNull)]),
       (''destination'', JObj [(''instanceId'', getNumber info ''targetInstanceId'' (js_int (- 1))),
                               (''instanceName'', getString info ''targetInstanceName'' JNull)])]"

text \<open>The amounts of the source, else the ones the validation expected.\<close>

definition shown_source_verification :: "jsval \<Rightarrow> jsval \<Rightarrow> jsval \<Rightarrow> jsval" where
  "shown_source_verification summary created validation =
     (let sv = object_or (prop_get summary ''sourceVerification'') (object_or (prop_get created ''sourceVerification'') JNull)
      in if sv = JNull \<and> validation \<noteq> JNull
         then JObj [(''itemCounts'', object_or (prop_get validation ''expectedItemCounts'') (JObj [])),
                    (''fluidCounts'', object_or (prop_get validation ''expectedFluidCounts'') (JObj []))]
         else sv)"

definition buildDetailedLogSummary :: "number_format \<Rightarrow> log_detail \<Rightarrow> string \<Rightarrow> detail_view" where
  "buildDetailedLogSummary fmt detail transferId =
     (let info = as_plain_object (ld_transferInfo detail) JNull;
          events = ld_events detail;
          summary = as_plain_object (ld_summary detail) (JObj []);
          created = findLatestEvent events (event_type_is [''transfer_created'']);
          validated = findLatestEvent events is_validation_event;
          finished = findLatestEvent events (event_type_is [''transfer_completed'', ''transfer_failed'']);
          latest = (if events = [] then JNull else last events);
          status = val_or (getString info ''status'' JNull) (getString summary ''status'' (JStr ''unknown''));
          startedAt = val_or (getNumber info ''startedAt'' JNull)
            (val_or (getNumber summary ''startedAt'' JNull) (val_nullish (prop_get created ''timestampMs'') JNull));
          completedAt = val_or (getNumber info ''completedAt'' JNull) (getNumber summary ''completedAt'' JNull);
          failedAt = val_or (getNumber info ''failedAt'' JNull) (getNumber summary ''failedAt'' JNull);
          lastEventAt = val_or (getNumber summary ''lastEventAt'' JNull) (val_nullish (prop_get latest ''timestampMs'') JNull);
          finishedAt = val_or completedAt (val_or failedAt (val_or (prop_get finished ''timestampMs'') lastEventAt));
          totalDurationMs = total_duration summary startedAt finishedAt finished;
          validation = object_or (prop_get summary ''validation'') (object_or (prop_get validated ''validation'') JNull)
      in \<lparr>dv_transferId = transferId,
          dv_operationType = val_or (getString info ''operationType'' JNull)
            (getString summary ''operationType'' (JStr ''transfer'')),
          dv_result = shown_result summary status,
          dv_status = status,
          dv_totalDurationMs = totalDurationMs,
          dv_totalDurationStr = val_or (getString summary ''totalDurationStr'' JNull)
            (JStr (formatDuration_web fmt totalDurationMs)),
          dv_phases = object_or (prop_get summary ''phases'') (object_or (prop_get finished ''phases'') (JObj [])),
          dv_platform = object_or (prop_get summary ''platform'') (shown_platform info),
          dv_export = object_or (prop_get summary ''export'') (object_or (prop_get created ''exportMetrics'') JNull),
          dv_payload = object_or (prop_get summary ''payload'') (object_or (prop_get finished ''payloadMetrics'')
            (object_or (prop_get created ''payloadMetrics'') JNull)),
          dv_import = object_or (prop_get summary ''import'') (object_or (prop_get finished ''importMetrics'')
            (object_or (prop_get validated ''importMetrics'') JNull)),
          dv_validation = validation,
          dv_sourceVerification = shown_source_verification summary created validation,
          dv_startedAt = startedAt,
          dv_completedAt = completedAt,
          dv_failedAt = failedAt,
          dv_lastEventAt = lastEventAt,
          dv_error = val_or (getString summary ''error'' JNull) (getString info ''error'' JNull)\<rparr>)"

end
