(* ===== verification/WebViewRules.thy ===== *)
theory WebViewRules
  imports WebViews TransactionLogger Samples "HOL-Library.Multiset"
begin

text \<open>
  What the transaction log page shows: the record of the controller as it is, a lost fluid as lost,
  and a Gantt chart inside its bounds.
\<close>

section \<open>The record of the controller on the page\<close>

text \<open>The reply to a log request as the document the page receives.\<close>

definition info_document :: "transfer_info \<Rightarrow> jsval" where
  "info_document i = JObj
     [(''transferId'', val_of_str (i_transferId i)), (''operationType'', val_of_str (i_operationType i)),
      (''exportId'', val_of_str (i_exportId i)), (''artifactSizeBytes'', val_of_int (i_artifactSizeBytes i)),
      (''platformName'', val_of_str (i_platformName i)), (''platformIndex'', val_of_int (i_platformIndex i)),
      (''forceName'', val_of_str (i_forceName i)), (''sourceInstanceId'', val_of_int (i_sourceInstanceId i)),
      (''sourceInstanceName'', val_of_str (i_sourceInstanceName i)),
      (''targetInstanceId'', val_of_int (i_targetInstanceId i)),
      (''targetInstanceName'', val_of_str (i_targetInstanceName i)), (''status'', val_of_str (i_status i)),
      (''startedAt'', val_of_int (i_startedAt i)), (''completedAt'', val_of_int (i_completedAt i)),
      (''failedAt'', val_of_int (i_failedAt i)), (''error'', val_of_str (i_error i))]"

definition end_document :: "int \<times> string option \<Rightarrow> jsval" where
  "end_document p = JObj [(''instanceId'', js_int (fst p)), (''instanceName'', val_of_str (snd p))]"

definition summary_document :: "detailed_summary \<Rightarrow> jsval" where
  "summary_document d = JObj
     [(''transferId'', JStr (d_transferId d)), (''operationType'', JStr (d_operationType d)),
      (''result'', JStr (d_result d)), (''status'', JStr (d_status d)),
      (''totalDurationMs'', val_of_int (d_totalDurationMs d)), (''totalDurationStr'', val_of_str (d_totalDurationStr d)),
      (''phases'', JObj (map (\<lambda>(k, q). (k, JNum (Fin q))) (d_phases d))),
      (''platform'', JObj [(''name'', JStr (d_platformName d)), (''index'', js_int (d_platformIndex d)),
         (''source'', end_document (d_source d)), (''destination'', end_document (d_destination d))]),
      (''export'', d_export d), (''payload'', d_payload d), (''import'', d_import d),
      (''validation'', d_validation d), (''sourceVerification'', d_sourceVerification d),
      (''startedAt'', val_of_int (d_startedAt d)), (''completedAt'', val_of_int (d_completedAt d)),
      (''failedAt'', val_of_int (d_failedAt d)), (''lastEventAt'', val_of_int (d_lastEventAt d)),
      (''error'', val_of_str (d_error d))]"

definition event_document :: "log_event \<Rightarrow> jsval" where
  "event_document e = JObj (obj_spread
     [(''timestampMs'', js_int (e_timestampMs e)), (''elapsedMs'', js_int (e_elapsedMs e)),
      (''deltaMs'', js_int (e_deltaMs e)), (''eventType'', JStr (e_eventType e)),
      (''message'', JStr (e_message e))] (e_data e))"

definition option_document :: "('a \<Rightarrow> jsval) \<Rightarrow> 'a option \<Rightarrow> jsval" where
  "option_document f x = (case x of Some y \<Rightarrow> f y | None \<Rightarrow> JNull)"

fun log_reply_document :: "transaction_log_reply \<Rightarrow> jsval" where
  "log_reply_document (LogFound tid events info summary retained) = JObj
     [(''success'', JBool True), (''transferId'', JStr tid), (''events'', JArr (map event_document events)),
      (''transferInfo'', option_document info_document info),
      (''summary'', option_document summary_document summary), (''detailRetained'', JBool retained)]"
| "log_reply_document (LogMissing e) = JObj [(''success'', JBool False), (''error'', JStr e)]"

lemma getString_val [simp]:
  "getString (JObj fs) k JNull = (case obj_get fs k of JStr s \<Rightarrow> JStr s | _ \<Rightarrow> JNull)"
  "(case val_of_str x of JStr s \<Rightarrow> JStr s | _ \<Rightarrow> JNull) = val_of_str x"
  "(case val_of_int y of JNum n \<Rightarrow> JNum n | _ \<Rightarrow> JNull) = val_of_int y"
  by (simp_all add: getString_def prop_get_def val_of_str_def val_of_int_def split: option.split)

lemma getNumber_val [simp]:
  "getNumber (JObj fs) k JNull = (case obj_get fs k of JNum n \<Rightarrow> JNum n | _ \<Rightarrow> JNull)"
  by (simp add: getNumber_def prop_get_def)

lemma loaded_reply:
  "loaded_detail existing (log_reply_document (LogFound tid events (Some i) (Some d) retained)) =
     \<lparr>ld_transferInfo = info_document i, ld_summary = summary_document d,
      ld_events = map event_document events, ld_detailRetained = JBool retained\<rparr>"
  by (simp add: loaded_detail_def getProp_def is_object_def prop_get_def val_nullish_def is_nullish_def val_or_def
      option_document_def info_document_def summary_document_def)

lemma val_or_idem [simp]: "val_or x x = x"
  by (simp add: val_or_def)

lemma result_of_status_text: "result_of_status (JStr (status_text st)) = resolveTransferResult st"
  by (cases st) (simp_all add: result_of_status_def resolveTransferResult_def)

lemma status_text_nonempty [simp]: "status_text st \<noteq> []"
  by (cases st) simp_all

lemma operation_text_nonempty [simp]: "operation_text ty \<noteq> []"
  by (cases ty) simp_all

definition shows_record :: "plugin \<Rightarrow> string \<Rightarrow> active_transfer \<Rightarrow> detail_view \<Rightarrow> bool" where
  "shows_record w tid t v \<longleftrightarrow>
     dv_status v = JStr (status_text (t_status t))
     \<and> dv_result v = JStr (resolveTransferResult (t_status t))
     \<and> dv_operationType v = JStr (operation_text (t_operationType t))
     \<and> dv_startedAt v = js_int (t_startedAt t)
     \<and> dv_completedAt v = val_of_int (oint_truthy (t_completedAt t))
     \<and> dv_failedAt v = val_of_int (oint_truthy (t_failedAt t))
     \<and> dv_error v = val_of_str (ostr_truthy (t_error t))
     \<and> (let d = buildDetailedTransferSummary w tid t (getLastEventTimestamp w tid)
        in dv_totalDurationMs v = val_of_int (d_totalDurationMs d)
           \<and> dv_totalDurationStr v = val_of_str (d_totalDurationStr d))"

lemma plain_documents:
  "as_plain_object (info_document i) v = info_document i" "as_plain_object (summary_document d) v = summary_document d"
  by (simp_all add: as_plain_object_def info_document_def summary_document_def)

lemma info_reads:
  "getString (info_document i) ''status'' JNull = val_of_str (i_status i)"
  "getString (info_document i) ''operationType'' JNull = val_of_str (i_operationType i)"
  "getString (info_document i) ''error'' JNull = val_of_str (i_error i)"
  "getNumber (info_document i) ''startedAt'' JNull = val_of_int (i_startedAt i)"
  "getNumber (info_document i) ''completedAt'' JNull = val_of_int (i_completedAt i)"
  "getNumber (info_document i) ''failedAt'' JNull = val_of_int (i_failedAt i)"
  by (simp_all add: info_document_def)

lemma summary_reads:
  "getString (summary_document d) ''status'' v = JStr (d_status d)"
  "getString (summary_document d) ''operationType'' v = JStr (d_operationType d)"
  "getString (summary_document d) ''error'' JNull = val_of_str (d_error d)"
  "getString (summary_document d) ''totalDurationStr'' JNull = val_of_str (d_totalDurationStr d)"
  "getNumber (summary_document d) ''totalDurationMs'' JNull = val_of_int (d_totalDurationMs d)"
  "getNumber (summary_document d) ''completedAt'' JNull = val_of_int (d_completedAt d)"
  "getNumber (summary_document d) ''failedAt'' JNull = val_of_int (d_failedAt d)"
  "prop_get (summary_document d) ''result'' = JStr (d_result d)"
  by (simp_all add: summary_document_def) (simp_all add: getString_def prop_get_def)

text \<open>The fields of the view one by one.\<close>

lemma view_fields:
  fixes fmt detail tid
  defines "v \<equiv> buildDetailedLogSummary fmt detail tid"
    and "info \<equiv> as_plain_object (ld_transferInfo detail) JNull"
    and "summary \<equiv> as_plain_object (ld_summary detail) (JObj [])"
  shows "dv_status v = val_or (getString info ''status'' JNull) (getString summary ''status'' (JStr ''unknown''))"
    "dv_result v = shown_result summary (dv_status v)"
    "dv_operationType v = val_or (getString info ''operationType'' JNull) (getString summary ''operationType'' (JStr ''transfer''))"
    "\<exists>x. dv_startedAt v = val_or (getNumber info ''startedAt'' JNull) x"
    "dv_completedAt v = val_or (getNumber info ''completedAt'' JNull) (getNumber summary ''completedAt'' JNull)"
    "dv_failedAt v = val_or (getNumber info ''failedAt'' JNull) (getNumber summary ''failedAt'' JNull)"
    "dv_error v = val_or (getString summary ''error'' JNull) (getString info ''error'' JNull)"
    "\<exists>f e. dv_totalDurationMs v = total_duration summary (dv_startedAt v) f e"
    "dv_totalDurationStr v = val_or (getString summary ''totalDurationStr'' JNull)
       (JStr (formatDuration_web fmt (dv_totalDurationMs v)))"
    "\<exists>x. dv_validation v = object_or (prop_get summary ''validation'') x"
  unfolding v_def info_def summary_def buildDetailedLogSummary_def Let_def by auto

lemma detail_shows_record:
  assumes "t_startedAt t \<noteq> 0"
  shows "shows_record w tid t (buildDetailedLogSummary fmt
     \<lparr>ld_transferInfo = info_document (buildTransferInfo w t),
      ld_summary = summary_document (buildDetailedTransferSummary w tid t (getLastEventTimestamp w tid)),
      ld_events = es, ld_detailRetained = r\<rparr> tid)"
proof -
  define i where "i = buildTransferInfo w t"
  define d where "d = buildDetailedTransferSummary w tid t (getLastEventTimestamp w tid)"
  have i: "i_status i = Some (status_text (t_status t))" "i_operationType i = Some (operation_text (t_operationType t))"
    "i_startedAt i = Some (t_startedAt t)" "i_completedAt i = oint_truthy (t_completedAt t)"
    "i_failedAt i = oint_truthy (t_failedAt t)" "i_error i = ostr_truthy (t_error t)"
    using assms by (simp_all add: i_def buildTransferInfo_def oint_truthy_def)
  have d: "d_status d = status_text (t_status t)" "d_operationType d = operation_text (t_operationType t)"
    "d_result d = resolveTransferResult (t_status t)" "d_completedAt d = i_completedAt i" "d_failedAt d = i_failedAt i"
    "d_error d = i_error i"
    by (simp_all add: d_def i_def buildDetailedTransferSummary_def Let_def)
  obtain n where n: "d_totalDurationMs d = Some n" "d_totalDurationStr d = formatDuration (Some n)"
    using i(3) by (simp add: d_def i_def buildDetailedTransferSummary_def Let_def)
  note doc = plain_documents info_reads [of i] summary_reads [of d] i d n
  let ?d = "\<lparr>ld_transferInfo = info_document i, ld_summary = summary_document d, ld_events = es, ld_detailRetained = r\<rparr>"
  let ?v = "buildDetailedLogSummary fmt ?d tid"
  have "dv_status ?v = JStr (status_text (t_status t))"
    by (simp only: view_fields(1-3,5-7,9) doc log_detail.simps) (simp add: val_of_str_def val_or_def)
  moreover have "dv_result ?v = JStr (resolveTransferResult (t_status t))"
    by (simp only: view_fields(1-3,5-7,9) doc log_detail.simps) (simp add: shown_result_def doc resolveTransferResult_def)
  moreover have "dv_operationType ?v = JStr (operation_text (t_operationType t))"
    by (simp only: view_fields(1-3,5-7,9) doc log_detail.simps) (simp add: val_of_str_def val_or_def)
  moreover have "dv_startedAt ?v = js_int (t_startedAt t)"
    using view_fields(4) [of fmt ?d tid] assms by (auto simp: doc val_of_int_def val_or_def js_int_def)
  moreover have "dv_completedAt ?v = val_of_int (oint_truthy (t_completedAt t))"
    "dv_failedAt ?v = val_of_int (oint_truthy (t_failedAt t))" "dv_error ?v = val_of_str (ostr_truthy (t_error t))"
    by (simp_all only: view_fields(1-3,5-7,9) doc log_detail.simps val_or_idem)
  moreover have "dv_totalDurationMs ?v = val_of_int (d_totalDurationMs d)"
    using view_fields(8) [of fmt ?d tid] by (auto simp: total_duration_def doc Let_def val_of_int_def)
  moreover have "dv_totalDurationStr ?v = val_of_str (d_totalDurationStr d)"
    by (simp only: view_fields(1-3,5-7,9) log_detail.simps doc Let_def) (simp add: val_of_str_def val_or_def formatDuration_def)
  ultimately show ?thesis
    unfolding shows_record_def i_def [symmetric] d_def [symmetric] Let_def by blast
qed

text \<open>
  C35: what the log page shows of a transfer the controller holds is what the controller's record says:
  the reply to the log request, stored by the page over whatever it had of the transfer and
  summarised again by its own rules, gives the status, result, type, times, error and duration of the
  record, whichever events the log has.
\<close>

theorem page_shows_the_record:
  assumes "find_transfer w tid = Some t" and "jm_get (transactionLogs w) tid = Some events"
    and "tid \<noteq> []" and "tid \<noteq> ''latest''" and "t_startedAt t \<noteq> 0"
  shows "shows_record w tid t
    (buildDetailedLogSummary fmt
      (loaded_detail existing (log_reply_document (handleGetTransactionLog w (Some tid)))) tid)"
proof -
  have "handleGetTransactionLog w (Some tid) = LogFound tid events (Some (buildTransferInfo w t))
      (Some (buildDetailedTransferSummary w tid t (getLastEventTimestamp w tid))) True"
    using assms(1-4) by (simp add: handleGetTransactionLog_def ostr_or_def)
  then show ?thesis by (simp only: loaded_reply detail_shows_record [OF assms(5)])
qed

definition logged_plugin :: plugin where
  "logged_plugin = (sample_plugin (sample_transfer\<lparr>t_status := Failed, t_failedAt := Some 1900\<rparr>))
     \<lparr>transactionLogs := [(''1:7'', [])]\<rparr>"

theorem page_shows_the_record_witness:
  "let v = buildDetailedLogSummary (\<lambda>_ _. ''-'')
      (loaded_detail no_detail (log_reply_document (handleGetTransactionLog logged_plugin (Some ''1:7'')))) ''1:7''
   in dv_status v = JStr ''failed'' \<and> dv_result v = JStr ''FAILED'' \<and> dv_failedAt v = js_int 1900"
proof -
  let ?t = "sample_transfer\<lparr>t_status := Failed, t_failedAt := Some 1900\<rparr>"
  have "find_transfer logged_plugin ''1:7'' = Some ?t" "jm_get (transactionLogs logged_plugin) ''1:7'' = Some []"
    "t_startedAt ?t \<noteq> 0"
    by (simp_all add: logged_plugin_def find_transfer_def sample_plugin_def transfer_at_def sample_transfer_def)
  then have "shows_record logged_plugin ''1:7'' ?t (buildDetailedLogSummary (\<lambda>_ _. ''-'')
      (loaded_detail no_detail (log_reply_document (handleGetTransactionLog logged_plugin (Some ''1:7'')))) ''1:7'')"
    by (intro page_shows_the_record) simp_all
  then show ?thesis
    by (simp add: shows_record_def Let_def resolveTransferResult_def oint_truthy_def val_of_int_def js_int_def)
qed

section \<open>The Gantt chart\<close>

lemma gantt_bounds:
  fixes startMs endMs totalMs :: rat
  defines "g \<equiv> toGanttGeometry startMs endMs totalMs"
  shows "0 \<le> gg_startPct g" "gg_startPct g \<le> 100" "0 \<le> gg_markerPct g" "gg_markerPct g \<le> 100"
    "0 \<le> gg_widthPct g" "gg_startPct g + gg_widthPct g \<le> 100 \<or> gg_widthPct g = 4 / 5"
proof -
  have clamp: "0 \<le> max 0 (min 100 x)" "max 0 (min 100 x) \<le> 100"
    "s \<le> 100 \<Longrightarrow> s + max (4 / 5) (min (100 - s) y) \<le> 100 \<or> max (4 / 5) (min (100 - s) y) = 4 / 5" for x y s :: rat
    by (simp_all add: max_def min_def)
  show "0 \<le> gg_startPct g" "gg_startPct g \<le> 100" "0 \<le> gg_markerPct g" "gg_markerPct g \<le> 100"
    "0 \<le> gg_widthPct g" "gg_startPct g + gg_widthPct g \<le> 100 \<or> gg_widthPct g = 4 / 5"
    unfolding g_def toGanttGeometry_def Let_def
    by (simp_all only: gantt_geometry.simps clamp split: if_split) (use clamp in \<open>simp_all add: le_max_iff_disj\<close>)
qed

lemma numbered_keys_distinct:
  "distinct (map gr_key (map (\<lambda>(i, row). gantt_row_at totalMs i row) (enumerate n rows)))"
proof -
  have "a @ CHR ''#'' # show_nat i \<noteq> b @ CHR ''#'' # show_nat j" if "i \<noteq> j" for a b i j
  proof
    assume e: "a @ CHR ''#'' # show_nat i = b @ CHR ''#'' # show_nat j"
    have d: "takeWhile is_digit (rev (c @ CHR ''#'' # show_nat k)) = rev (show_nat k)" for c k
    proof -
      have "\<not> is_digit (CHR ''#'')" by (simp add: is_digit_def digit_of_def)
      moreover have "takeWhile is_digit (rev (show_nat k) @ ys) = rev (show_nat k) @ takeWhile is_digit ys" for ys
        by (rule takeWhile_append2) (auto dest: show_nat_digits)
      ultimately show ?thesis by simp
    qed
    from e have "rev (show_nat i) = rev (show_nat j)" by (metis d)
    with that show False by (simp add: show_nat_inj)
  qed
  then show ?thesis
    by (auto simp: distinct_conv_nth gantt_row_at_def nth_enumerate_eq)
qed

definition in_chart :: "gantt_geometry \<Rightarrow> bool" where
  "in_chart g \<longleftrightarrow>
     0 \<le> gg_startPct g \<and> gg_startPct g \<le> 100 \<and> 0 \<le> gg_markerPct g \<and> gg_markerPct g \<le> 100
     \<and> 0 \<le> gg_widthPct g \<and> (gg_startPct g + gg_widthPct g \<le> 100 \<or> gg_widthPct g = 4 / 5)"

text \<open>
  Every bar starts, ends and is marked inside the chart, except that a bar is never narrower than
  0.8 percent; and no two rows have the same key.
\<close>

theorem gantt_chart_in_bounds:
  "let (totalMs, rows, attr) = buildGanttRows fmt events summary
   in distinct (map gr_key rows) \<and> list_all (\<lambda>r. in_chart (gr_geometry r)) rows"
proof -
  have "in_chart (gr_geometry (gantt_row_at total i row))" for total i row
    unfolding in_chart_def gantt_row_at_def gantt_row.simps by (intro conjI gantt_bounds)
  then show ?thesis
    unfolding buildGanttRows_def Let_def prod.case
    by (intro conjI numbered_keys_distinct) (auto simp: list_all_iff)
qed

section \<open>Fluids\<close>

text \<open>Every key is a bucket of the group of its base name.\<close>

definition grouped :: "number_format \<Rightarrow> amounts \<Rightarrow> amounts \<Rightarrow> string list \<Rightarrow> (string, fluid_group) jsmap \<Rightarrow> bool" where
  "grouped fmt expected actual keys m \<longleftrightarrow>
     jm_wf m \<and> (\<forall>(name, g)\<in>set m. fg_baseName g = name)
     \<and> (\<forall>k\<in>set keys. \<exists>g. jm_get m (base_name k) = Some g \<and> fluid_bucket_of fmt expected actual k \<in> set (fg_buckets g))"

lemma jm_get_in_set: "jm_get m k = Some v \<Longrightarrow> (k, v) \<in> set m"
  by (induction m) (auto split: if_splits)

lemma in_set_jm_set: "(k', v') \<in> set (jm_set m k v) \<Longrightarrow> (k', v') = (k, v) \<or> (k', v') \<in> set m"
  by (induction m) (auto split: if_splits)

lemma grouped_step:
  assumes "grouped fmt expected actual keys m"
  shows "grouped fmt expected actual (keys @ [k]) (add_bucket fmt threshold expected actual m k)"
proof -
  define g0 where "g0 = nullish (jm_get m (base_name k)) (no_buckets (base_name k))"
  define b where "b = fluid_bucket_of fmt expected actual k"
  define g where "g = g0\<lparr>fg_expected := fg_expected g0 + fb_expected b, fg_actual := fg_actual g0 + fb_actual b,
           fg_hasHighTempBucket := (fg_hasHighTempBucket g0 \<or> is_high_temp threshold k), fg_buckets := fg_buckets g0 @ [b]\<rparr>"
  have m': "add_bucket fmt threshold expected actual m k = jm_set m (base_name k) g"
    by (simp add: add_bucket_def Let_def g_def g0_def b_def)
  have "fg_baseName g0 = base_name k"
    using assms by (auto simp: g0_def nullish_def no_buckets_def grouped_def dest: jm_get_in_set split: option.split)
  then have "fg_baseName g = base_name k" by (simp add: g_def)
  moreover have "set (fg_buckets g) = insert b (set (fg_buckets g0))" by (simp add: g_def)
  ultimately show ?thesis
    using assms unfolding grouped_def m'
    by (auto simp: g0_def nullish_def b_def intro: wf_intros dest!: in_set_jm_set)
qed

lemma grouped_all: "grouped fmt expected actual (keys_of_both expected actual) (fluid_groups fmt threshold expected actual)"
proof -
  have "grouped fmt expected actual keys (foldl (add_bucket fmt threshold expected actual) [] keys)" for keys
  proof (induction keys rule: rev_induct)
    case Nil
    show ?case by (simp add: grouped_def jm_wf_def)
  next
    case (snoc k keys)
    then show ?case by (simp add: grouped_step)
  qed
  then show ?thesis by (simp add: fluid_groups_def)
qed

text \<open>The rows of a group: one group row of its name, and buckets of its name.\<close>

lemma group_rows_shape:
  "\<exists>g. filter fr_isGroup (group_rows le aggregates grp) = [g] \<and> fr_name g = fg_baseName grp"
  "r \<in> set (group_rows le aggregates grp) \<Longrightarrow> fr_name r = fg_baseName grp"
proof -
  have buckets: "filter fr_isGroup (map (bucket_row n h) bs) = []" for n h bs
    by (induction bs) (simp_all add: bucket_row_def)
  show "\<exists>g. filter fr_isGroup (group_rows le aggregates grp) = [g] \<and> fr_name g = fg_baseName grp"
    by (simp add: group_rows_def Let_def thermal_row_def single_row_def group_row_def bucket_row_def
        buckets [unfolded bucket_row_def] split: list.split)
  show "r \<in> set (group_rows le aggregates grp) \<Longrightarrow> fr_name r = fg_baseName grp"
    by (auto simp: group_rows_def Let_def thermal_row_def single_row_def group_row_def bucket_row_def
        split: list.splits if_splits)
qed

lemma with_children_all:
  "distinct (map fr_name gs) \<Longrightarrow> fr_name ` set gs \<inter> set seen = {} \<Longrightarrow>
    set (with_children rows seen gs) = set gs \<union> {r \<in> set rows. \<not> fr_isGroup r \<and> fr_name r \<in> fr_name ` set gs}"
  by (induction gs arbitrary: seen) auto

lemma group_names:
  "map fr_name (filter fr_isGroup (concat (map (group_rows le aggregates) grps))) = map fg_baseName grps"
proof (induction grps)
  case (Cons grp grps)
  obtain g where "filter fr_isGroup (group_rows le aggregates grp) = [g]" "fr_name g = fg_baseName grp"
    using group_rows_shape(1) by blast
  with Cons show ?case by simp
qed simp

text \<open>Nothing of what was computed is left out, whatever the first sort does.\<close>

lemma fluid_rows_complete:
  assumes "\<And>rows. mset (reorder rows) = mset rows"
  shows "set (buildFluidInventoryRows fmt le reorder expected actual threshold aggregates) =
    set (concat (map (group_rows le aggregates) (jm_values
      (fluid_groups fmt (if is_finite threshold then threshold else Fin 10000) expected actual))))"
proof -
  define grps where "grps = jm_values (fluid_groups fmt (if is_finite threshold then threshold else Fin 10000) expected actual)"
  define all where "all = concat (map (group_rows le aggregates) grps)"
  define gs where "gs = sort_by (\<lambda>a b. greatest_delta le (fr_name a, fr_delta a) (fr_name b, fr_delta b))
      (filter fr_isGroup (reorder all))"
  have "map fg_baseName grps = map fst (fluid_groups fmt (if is_finite threshold then threshold else Fin 10000) expected actual)"
    using grouped_all [of fmt expected actual "if is_finite threshold then threshold else Fin 10000"]
    by (auto simp: grps_def grouped_def)
  then have "distinct (map fg_baseName grps)"
    using grouped_all [of fmt expected actual "if is_finite threshold then threshold else Fin 10000"]
    by (simp add: grouped_def jm_wf_def)
  then have "distinct (map fr_name (filter fr_isGroup all))" by (simp add: all_def group_names)
  moreover have "mset (map fr_name (filter fr_isGroup (reorder all))) = mset (map fr_name (filter fr_isGroup all))"
    by (simp add: assms)
  ultimately have d: "distinct (map fr_name gs)"
    unfolding gs_def distinct_map_sort_by by (metis mset_eq_imp_distinct_iff)
  have eq: "set (reorder all) = set all" by (metis assms mset_eq_setD)
  have gs: "set gs = {r \<in> set all. fr_isGroup r}" by (simp add: gs_def eq)
  have named: "fr_name r \<in> fr_name ` set gs" if r: "r \<in> set all" for r
  proof -
    obtain grp where grp: "grp \<in> set grps" "r \<in> set (group_rows le aggregates grp)" using r by (auto simp: all_def)
    obtain g where g: "filter fr_isGroup (group_rows le aggregates grp) = [g]" "fr_name g = fg_baseName grp"
      using group_rows_shape(1) by blast
    then have "g \<in> set (filter fr_isGroup (group_rows le aggregates grp))" by simp
    then have "g \<in> set gs" using grp(1) by (auto simp: gs all_def)
    moreover have "fr_name r = fr_name g" using group_rows_shape(2) [OF grp(2)] g(2) by simp
    ultimately show ?thesis by simp
  qed
  have "buildFluidInventoryRows fmt le reorder expected actual threshold aggregates = with_children (reorder all) [] gs"
    by (simp add: buildFluidInventoryRows_def Let_def all_def grps_def gs_def)
  moreover have "set (with_children (reorder all) [] gs) = set all"
    using named by (auto simp: with_children_all [OF d] eq gs)
  ultimately show ?thesis by (simp add: all_def grps_def)
qed

text \<open>A bucket that is off shows as a mismatch unless its fluid is reconciled by energy.\<close>

lemma off_bucket_row:
  assumes "b \<in> set (fg_buckets grp)" and "AMOUNT_TOLERANCE < \<bar>fb_delta b\<bar>"
    and "\<not> reconciled_high_temp aggregates grp"
  shows "\<exists>r \<in> set (group_rows le aggregates grp). fr_delta r = fb_delta b
    \<and> \<not> fr_reconciled r \<and> fr_status r = ''Mismatch''"
proof (cases "\<exists>b'. fg_buckets grp = [b']")
  case True
  then have "group_rows le aggregates grp = [single_row (fg_baseName grp) (fg_hasHighTempBucket grp) False b]"
    using assms by (auto simp: group_rows_def Let_def)
  then show ?thesis using assms(2) by (simp add: single_row_def bucket_row_def)
next
  case False
  have rows: "group_rows le aggregates grp = group_row grp # map (bucket_row (fg_baseName grp) (fg_hasHighTempBucket grp))
      (sort_by (\<lambda>a b. greatest_delta le (fb_fluidKey a, fb_delta a) (fb_fluidKey b, fb_delta b)) (fg_buckets grp))"
    using False assms(3) by (auto simp: group_rows_def Let_def split: list.split)
  have "bucket_row (fg_baseName grp) (fg_hasHighTempBucket grp) b \<in> set (group_rows le aggregates grp)"
    unfolding rows using assms(1) by simp
  then show ?thesis
    by (rule rev_bexI) (use assms(2) in \<open>simp add: bucket_row_def\<close>)
qed

text \<open>The group a key belongs to.\<close>

definition group_of :: "number_format \<Rightarrow> jsnum \<Rightarrow> amounts \<Rightarrow> amounts \<Rightarrow> string \<Rightarrow> fluid_group" where
  "group_of fmt threshold expected actual k =
     nullish (jm_get (fluid_groups fmt (if is_finite threshold then threshold else Fin 10000) expected actual) (base_name k))
       (no_buckets (base_name k))"

text \<open>
  C36: a fluid that did not arrive as it was is shown so. Of every key whose amount is off by more than
  the tolerance, unless the fluid is a high-temperature one that is reconciled, the table has a row
  of its fluid with that difference that is marked as not reconciled and says \<open>Mismatch\<close>, whatever
  order the first, inconsistent, sort leaves and even if the amounts of the fluid add up.
\<close>

theorem lost_fluid_is_shown:
  assumes "\<And>rows. mset (reorder rows) = mset rows"
    and "k \<in> set (keys_of_both expected actual)"
    and "AMOUNT_TOLERANCE < \<bar>amount_of actual k - amount_of expected k\<bar>"
    and "\<not> reconciled_high_temp aggregates (group_of fmt threshold expected actual k)"
  shows "\<exists>r \<in> set (buildFluidInventoryRows fmt le reorder expected actual threshold aggregates).
     fr_name r = base_name k \<and> fr_delta r = amount_of actual k - amount_of expected k
     \<and> \<not> fr_reconciled r \<and> fr_status r = ''Mismatch''"
proof -
  let ?th = "if is_finite threshold then threshold else Fin 10000"
  let ?b = "fluid_bucket_of fmt expected actual k"
  obtain g where g: "jm_get (fluid_groups fmt ?th expected actual) (base_name k) = Some g" "?b \<in> set (fg_buckets g)"
    using grouped_all [of fmt expected actual ?th] assms(2) unfolding grouped_def by blast
  then have in_m: "(base_name k, g) \<in> set (fluid_groups fmt ?th expected actual)" by (intro jm_get_in_set)
  then have name: "fg_baseName g = base_name k"
    using grouped_all [of fmt expected actual ?th] unfolding grouped_def by blast
  have grp: "group_of fmt threshold expected actual k = g" by (simp add: group_of_def g(1) nullish_def)
  have delta: "fb_delta ?b = amount_of actual k - amount_of expected k" by (simp add: fluid_bucket_of_def Let_def)
  obtain r where r: "r \<in> set (group_rows le aggregates g)" "fr_delta r = fb_delta ?b" "\<not> fr_reconciled r"
    "fr_status r = ''Mismatch''"
    using off_bucket_row [OF g(2), of aggregates le] assms(3,4) unfolding grp delta by blast
  have "r \<in> set (buildFluidInventoryRows fmt le reorder expected actual threshold aggregates)"
    unfolding fluid_rows_complete [of reorder, OF assms(1)] using r(1) in_m by force
  then show ?thesis using group_rows_shape(2) [OF r(1)] r(2-4) name delta by auto
qed

definition sample_expected :: amounts where
  "sample_expected = [(''gas@15C'', 10), (''gas@90C'', 10)]"

definition sample_actual :: amounts where
  "sample_actual = [(''gas@15C'', 5), (''gas@90C'', 15)]"

lemma gas_keys:
  "parseFluidTemperatureKey ''gas@15C'' = \<lparr>fk_baseName = ''gas'', fk_temperatureC = Some (Fin 15)\<rparr>"
  "parseFluidTemperatureKey ''gas@90C'' = \<lparr>fk_baseName = ''gas'', fk_temperatureC = Some (Fin 90)\<rparr>"
proof -
  have num: "str_to_num (show_int 15) = num_of_int 15" "str_to_num (show_int 90) = num_of_int 90"
    by (rule str_to_num_show_int)+
  have "show_int 15 = ''15''" "show_int 90 = ''90''"
    by (simp_all add: show_int_def show_nat.simps)
  with num have "str_to_num ''15'' = Fin 15" "str_to_num ''90'' = Fin 90" by simp_all
  moreover have "one_line ''gas''"
    by (simp add: one_line_def line_breaks_def utf8_def upt_rec char_of_def)
  ultimately show "parseFluidTemperatureKey ''gas@15C'' = \<lparr>fk_baseName = ''gas'', fk_temperatureC = Some (Fin 15)\<rparr>"
    "parseFluidTemperatureKey ''gas@90C'' = \<lparr>fk_baseName = ''gas'', fk_temperatureC = Some (Fin 90)\<rparr>"
    by (simp_all add: parseFluidTemperatureKey_def span_end_def is_temperature_def is_digit_def digit_of_def Let_def str_or_def)
qed

lemma gas_names: "base_name ''gas@15C'' = ''gas''" "base_name ''gas@90C'' = ''gas''"
  by (simp_all add: base_name_def gas_keys str_or_def)

lemma gas_temperatures:
  "\<not> is_high_temp (Fin 10000) ''gas@15C''" "\<not> is_high_temp (Fin 10000) ''gas@90C''"
  by (simp_all add: is_high_temp_def gas_keys num_le_def)

theorem lost_fluid_is_shown_witness:
  "\<exists>r \<in> set (buildFluidInventoryRows (\<lambda>_ _. []) (\<lambda>_ _. True) (\<lambda>rows. rows) sample_expected sample_actual (Fin 10000) []).
     fr_name r = ''gas'' \<and> fr_delta r = - 5 \<and> \<not> fr_reconciled r \<and> fr_status r = ''Mismatch''"
proof -
  have keys: "keys_of_both sample_expected sample_actual = [''gas@15C'', ''gas@90C'']"
    by (simp add: keys_of_both_def sample_expected_def sample_actual_def)
  have delta: "amount_of sample_actual ''gas@15C'' - amount_of sample_expected ''gas@15C'' = - 5"
    by (simp add: amount_of_def sample_expected_def sample_actual_def)
  have "\<not> fg_hasHighTempBucket (group_of (\<lambda>_ _. []) (Fin 10000) sample_expected sample_actual ''gas@15C'')"
    by (simp add: group_of_def fluid_groups_def keys add_bucket_def Let_def gas_names gas_temperatures
        nullish_def no_buckets_def is_finite_def)
  then have "\<not> reconciled_high_temp [] (group_of (\<lambda>_ _. []) (Fin 10000) sample_expected sample_actual ''gas@15C'')"
    by (simp add: reconciled_high_temp_def)
  moreover have "AMOUNT_TOLERANCE < \<bar>amount_of sample_actual ''gas@15C'' - amount_of sample_expected ''gas@15C''\<bar>"
    by (simp add: delta AMOUNT_TOLERANCE_def)
  moreover have "''gas@15C'' \<in> set (keys_of_both sample_expected sample_actual)" by (simp add: keys)
  ultimately show ?thesis
    using lost_fluid_is_shown [of "\<lambda>rows. rows" "''gas@15C''" sample_expected sample_actual "[]" "\<lambda>_ _. []" "Fin 10000" "\<lambda>_ _. True"]
    unfolding delta gas_names by simp
qed

end
