(* ===== verification/Ships.thy ===== *)
theory Ships
  imports WebUtils Canvas
begin

text \<open>
  The ships the canvas draws for transfers (shared/transfer-status.ts, web/gateway/transfer-motion.ts
  and debug-mode.ts), the refusal of a connection (GatewayCanvas.tsx), and the small decisions of the
  canvas about positions, colours and names (layout-store.ts, edge-geometry.ts, gateway-colours.ts,
  shared/planets.ts, platform-actions.ts).
\<close>

section \<open>The phase of a transfer\<close>

datatype ship_tone = ToneActive | ToneHolding | ToneSuccess | ToneFailure

record ship_phase =
  sp_distance :: rat
  sp_holding :: bool
  sp_opening :: bool
  sp_terminal :: bool
  sp_tone :: ship_tone
  sp_label :: string

definition PHASES :: "(string \<times> ship_phase) list" where
  "PHASES =
     [(''transporting'', \<lparr>sp_distance = 1 / 2, sp_holding = False, sp_opening = True, sp_terminal = False,
         sp_tone = ToneActive, sp_label = ''in transit''\<rparr>),
      (''awaiting_validation'', \<lparr>sp_distance = 1 / 2, sp_holding = True, sp_opening = False, sp_terminal = False,
         sp_tone = ToneHolding, sp_label = ''validating''\<rparr>),
      (''completed'', \<lparr>sp_distance = 1, sp_holding = False, sp_opening = False, sp_terminal = True,
         sp_tone = ToneSuccess, sp_label = ''arrived''\<rparr>),
      (''failed'', \<lparr>sp_distance = 0, sp_holding = False, sp_opening = False, sp_terminal = True,
         sp_tone = ToneFailure, sp_label = ''failed '' @ em_dash @ '' returned''\<rparr>),
      (''error'', \<lparr>sp_distance = 0, sp_holding = False, sp_opening = False, sp_terminal = True,
         sp_tone = ToneFailure, sp_label = ''timed out '' @ em_dash @ '' returned''\<rparr>),
      (''cleanup_failed'', \<lparr>sp_distance = 1, sp_holding = False, sp_opening = False, sp_terminal = True,
         sp_tone = ToneFailure, sp_label = ''arrived '' @ em_dash @ '' cleanup failed''\<rparr>)]"

text \<open>A status that names a method of every object (such as \<open>toString\<close>) is not one the program has.\<close>

definition shipPhaseFor :: "jsval \<Rightarrow> ship_phase option" where
  "shipPhaseFor status = (case status of JStr s \<Rightarrow> if s = [] then None else map_of PHASES s | _ \<Rightarrow> None)"

section \<open>Ships on an edge\<close>

record edge_marker =
  em_key :: string
  em_tone :: ship_tone
  em_distance :: rat
  em_count :: nat
  em_label :: string
  em_platformNames :: "string list"

definition marker_key :: "jsval \<Rightarrow> rat \<Rightarrow> string" where
  "marker_key status distance = js_text status @ ''@'' @ num_text (Fin distance)"

definition add_to_markers ::
    "(string, edge_marker) jsmap \<Rightarrow> jsval \<Rightarrow> ship_phase \<Rightarrow> bool \<Rightarrow> string \<Rightarrow> (string, edge_marker) jsmap" where
  "add_to_markers byPosition status phase rev_ship name =
     (let distance = (if rev_ship then 1 - sp_distance phase else sp_distance phase);
          key = marker_key status distance
      in case jm_get byPosition key of
           Some m \<Rightarrow> jm_set byPosition key
             (m\<lparr>em_count := em_count m + 1, em_platformNames := em_platformNames m @ [name]\<rparr>)
         | None \<Rightarrow> jm_set byPosition key
             \<lparr>em_key = key, em_tone = sp_tone phase, em_distance = distance, em_count = 1, em_label = sp_label phase,
              em_platformNames = [name]\<rparr>)"

definition ship_step ::
    "(summary \<Rightarrow> bool) \<Rightarrow> summary list \<times> (string, edge_marker) jsmap \<Rightarrow> summary \<Rightarrow> summary list \<times> (string, edge_marker) jsmap" where
  "ship_step isReversed acc ship =
     (case shipPhaseFor (sm_get ship ''status'') of
        None \<Rightarrow> acc
      | Some phase \<Rightarrow>
          if \<not> sp_terminal phase \<and> \<not> sp_holding phase then (fst acc @ [ship], snd acc)
          else (fst acc, add_to_markers (snd acc) (sm_get ship ''status'') phase (isReversed ship)
                 (js_text (val_or (sm_get ship ''platformName'') (JStr ''platform'')))))"

definition groupEdgeShips :: "summary list \<Rightarrow> (summary \<Rightarrow> bool) \<Rightarrow> summary list \<times> edge_marker list" where
  "groupEdgeShips ships isReversed = map_prod id jm_values (foldl (ship_step isReversed) ([], []) ships)"

section \<open>Which transfers are drawn\<close>

definition TERMINAL_LINGER_MS :: int where "TERMINAL_LINGER_MS = 10000"
definition SHIP_MEMORY_CAP :: nat where "SHIP_MEMORY_CAP = 32"

text \<open>What the page remembers of a transfer: when it was first seen ended, and whether it was seen under way.\<close>

record ship_entry =
  se_terminalSeenAt :: "int option"
  se_seenLive :: bool

definition unseen :: ship_entry where "unseen = \<lparr>se_terminalSeenAt = None, se_seenLive = False\<rparr>"

type_synonym ship_memory = "(string, ship_entry) jsmap"

text \<open>A new entry may push out the oldest one.\<close>

definition shipMemoryFor :: "string \<Rightarrow> ship_memory \<Rightarrow> ship_entry \<times> ship_memory" where
  "shipMemoryFor tid m =
     (case jm_get m tid of
        Some e \<Rightarrow> (e, m)
      | None \<Rightarrow>
          let m1 = jm_set m tid unseen
          in (unseen, if SHIP_MEMORY_CAP < length m1 then jm_delete m1 (fst (hd m1)) else m1))"

definition noteLiveSeen :: "string \<Rightarrow> ship_memory \<Rightarrow> ship_memory" where
  "noteLiveSeen tid m = jm_update (snd (shipMemoryFor tid m)) tid (\<lambda>e. e\<lparr>se_seenLive := True\<rparr>)"

definition noteTerminalSeen :: "string \<Rightarrow> int \<Rightarrow> ship_memory \<Rightarrow> ship_memory" where
  "noteTerminalSeen tid nowMs m =
     jm_update (snd (shipMemoryFor tid m)) tid
       (\<lambda>e. if se_terminalSeenAt e = None then e\<lparr>se_terminalSeenAt := Some nowMs\<rparr> else e)"

definition shipExpiryMs :: "ship_memory \<Rightarrow> jsval \<Rightarrow> string \<Rightarrow> int \<Rightarrow> int option" where
  "shipExpiryMs m status tid nowMs =
     (case shipPhaseFor status of
        None \<Rightarrow> None
      | Some phase \<Rightarrow>
          if \<not> sp_terminal phase then None
          else case jm_get m tid of
                 None \<Rightarrow> Some 0
               | Some e \<Rightarrow> if \<not> se_seenLive e then Some 0
                           else Some (nullish (se_terminalSeenAt e) nowMs + TERMINAL_LINGER_MS))"

definition finite_number :: "jsval \<Rightarrow> bool" where
  "finite_number v = (case v of JNum n \<Rightarrow> is_finite n | _ \<Rightarrow> False)"

definition has_ends :: "summary \<Rightarrow> bool" where
  "has_ends s = (finite_number (sm_get s ''sourceInstanceId'') \<and> finite_number (sm_get s ''targetInstanceId''))"

definition shipsInFlight :: "ship_memory \<Rightarrow> summary list \<Rightarrow> int \<Rightarrow> summary list" where
  "shipsInFlight m summaries nowMs =
     filter (\<lambda>s. sm_get s ''operationType'' = JStr ''transfer'' \<and> has_ends s
        \<and> shipPhaseFor (sm_get s ''status'') \<noteq> None
        \<and> (case shipExpiryMs m (sm_get s ''status'') (js_text (sm_id s)) nowMs of None \<Rightarrow> True | Some e \<Rightarrow> nowMs < e))
       summaries"

definition instancePairKey :: "rat \<Rightarrow> rat \<Rightarrow> string" where
  "instancePairKey a b =
     (if a \<le> b then num_text (Fin a) @ CHR ''|'' # num_text (Fin b) else num_text (Fin b) @ CHR ''|'' # num_text (Fin a))"

definition transientEdgeId :: "string \<Rightarrow> string" where
  "transientEdgeId tid = ''xfer:'' @ tid"

text \<open>What is remembered of the ships drawn, and the delay after which they are looked at again.\<close>

definition note_ship :: "int \<Rightarrow> ship_memory \<Rightarrow> summary \<Rightarrow> ship_memory" where
  "note_ship now m ship =
     (case shipPhaseFor (sm_get ship ''status'') of
        Some phase \<Rightarrow> if sp_terminal phase then noteTerminalSeen (js_text (sm_id ship)) now m
                      else noteLiveSeen (js_text (sm_id ship)) m
      | None \<Rightarrow> noteLiveSeen (js_text (sm_id ship)) m)"

definition note_ships :: "summary list \<Rightarrow> int \<Rightarrow> ship_memory \<Rightarrow> ship_memory \<times> int option" where
  "note_ships ships now m =
     (let m1 = foldl (note_ship now) m ships;
          expiries = List.map_filter (\<lambda>s. shipExpiryMs m1 (sm_get s ''status'') (js_text (sm_id s)) now) ships
      in (m1, if expiries = [] then None else Some (max 0 (foldl min (hd expiries) (tl expiries) - now) + 50)))"

section \<open>Mock and replayed ships\<close>

definition MOCK_SHIP_PREFIX :: string where "MOCK_SHIP_PREFIX = ''mock:''"

definition SHIP_PHASE_NAMES :: "string list" where
  "SHIP_PHASE_NAMES = [''transporting'', ''awaiting_validation'', ''completed'', ''failed'', ''cleanup_failed'']"

text \<open>A ship of the debug mode: id, status, and the ends of its route.\<close>

record mock_ship =
  ms_transferId :: string
  ms_status :: string
  ms_sourceInstanceId :: int
  ms_targetInstanceId :: int

definition mockShips :: "(int \<times> int) list \<Rightarrow> string list \<Rightarrow> mock_ship list" where
  "mockShips routes phases =
     (if routes = [] then []
      else filter (\<lambda>s. ms_sourceInstanceId s \<noteq> ms_targetInstanceId s)
        (map (\<lambda>(index, status). let (i, j) = routes ! (index mod length routes)
            in \<lparr>ms_transferId = MOCK_SHIP_PREFIX @ status, ms_status = status,
                ms_sourceInstanceId = i, ms_targetInstanceId = j\<rparr>) (enumerate 0 phases)))"

definition replayCandidates :: "summary list \<Rightarrow> summary list" where
  "replayCandidates summaries =
     filter (\<lambda>s. sm_get s ''operationType'' = JStr ''transfer'' \<and> has_ends s \<and> shipPhaseFor (sm_get s ''status'') \<noteq> None)
       summaries"

definition replayShips :: "summary list \<Rightarrow> string list \<Rightarrow> summary list" where
  "replayShips summaries transferIds =
     (if transferIds = [] then []
      else filter (\<lambda>s. has_ends s \<and> shipPhaseFor (sm_get s ''status'') \<noteq> None)
        (filter (\<lambda>s. sm_id s \<in> JStr ` set transferIds) summaries))"

text \<open>The scenario of the debug interface; its instances are named by their index.\<close>

record scenario_instance =
  si_name :: "string option"
  si_host :: "string option"
  si_online :: "bool option"
  si_platforms :: "jsval list"

record debug_scenario =
  sc_instances :: "scenario_instance list"
  sc_links :: "(int \<times> int) list"
  sc_ships :: "(int \<times> int \<times> string) list"

definition SCENARIO_HOST :: string where "SCENARIO_HOST = ''scenario (debug)''"

definition scenario_platform :: "nat \<Rightarrow> jsval \<Rightarrow> jsval" where
  "scenario_platform index platform =
     (let row = (case platform of JStr n \<Rightarrow> JObj [(''name'', JStr n)] | _ \<Rightarrow> platform) in JObj
        [(''platformIndex'', js_int (int index + 1)),
         (''platformName'', val_or (prop_get row ''name'') (JStr (''pad-'' @ show_nat (index + 1)))),
         (''forceName'', JStr ''player''), (''hasSpaceHub'', JBool True),
         (''spaceLocation'', val_nullish (prop_get row ''location'') (JStr ''nauvis'')),
         (''transferStatus'', prop_get row ''status''),
         (''isLocked'', JBool (truthy (prop_get row ''locked'')))])"

definition scenario_node :: "nat \<Rightarrow> scenario_instance \<Rightarrow> canvas_instance" where
  "scenario_node index spec =
     \<lparr>ci_instanceId = mockInstanceId (int index),
      ci_instanceName = ostr_or (si_name spec) (''scenario-'' @ show_nat (index + 1)),
      ci_address = Some (''scenario:'' @ show_nat (34000 + index)),
      ci_status = Some (if si_online spec = Some False then ''stopped'' else ''running''),
      ci_connected = (si_online spec \<noteq> Some False),
      ci_platforms = map (\<lambda>(i, p). scenario_platform i p) (enumerate 0 (si_platforms spec))\<rparr>"

definition scenario_hosts :: "debug_scenario \<Rightarrow> (string, canvas_instance list) jsmap" where
  "scenario_hosts scenario =
     foldl (\<lambda>byHost (index, spec). let host = ostr_or (si_host spec) SCENARIO_HOST
         in jm_set byHost host (nullish (jm_get byHost host) [] @ [scenario_node index spec]))
       [] (enumerate 0 (sc_instances scenario))"

definition push_target :: "string \<Rightarrow> int \<Rightarrow> int \<Rightarrow> edits \<Rightarrow> edits" where
  "push_target gatewayName i j edits =
     (let key = edit_key (mockInstanceId i) gatewayName
      in jm_set edits key (nullish (jm_get edits key) []
           @ [\<lparr>g_targetInstanceId = mockInstanceId j, g_targetGateway = gatewayName\<rparr>]))"

definition scenarioToEdits :: "debug_scenario \<Rightarrow> string \<Rightarrow> edits" where
  "scenarioToEdits scenario gatewayName =
     foldl (\<lambda>edits (i, j). if i = j then edits else push_target gatewayName j i (push_target gatewayName i j edits))
       [] (sc_links scenario)"

definition scenarioToShips :: "debug_scenario \<Rightarrow> mock_ship list" where
  "scenarioToShips scenario =
     map (\<lambda>(index, i, j, status).
         \<lparr>ms_transferId = MOCK_SHIP_PREFIX @ ''scenario-'' @ show_nat index @ CHR ''-'' # status, ms_status = status,
          ms_sourceInstanceId = mockInstanceId i, ms_targetInstanceId = mockInstanceId j\<rparr>)
       (enumerate 0 (filter (\<lambda>(i, j, status). i \<noteq> j) (sc_ships scenario)))"

text \<open>The routes of mock ships, and all ships that are drawn in the debug mode.\<close>

definition instance_pairs :: "int list \<Rightarrow> (int \<times> int) list" where
  "instance_pairs drawnIds = bulk_pairs drawnIds"

definition mock_routes :: "(int \<times> int) list \<Rightarrow> int list \<Rightarrow> (int \<times> int) list" where
  "mock_routes linked drawnIds = (if linked \<noteq> [] then linked else instance_pairs drawnIds)"

definition replayed_ships :: "summary list \<Rightarrow> string list \<Rightarrow> summary list \<Rightarrow> summary list" where
  "replayed_ships summaries transferIds realShips =
     filter (\<lambda>s. sm_id s \<notin> set (map sm_id realShips)) (replayShips summaries transferIds)"

section \<open>The saved state of the debug mode\<close>

definition MAX_MOCK_INSTANCES :: nat where "MAX_MOCK_INSTANCES = 24"
definition MAX_MOCK_PLATFORMS :: nat where "MAX_MOCK_PLATFORMS = 12"

record debug_settings = debug_state +
  ds_shipPhases :: "string list"
  ds_replayTransferIds :: "string list"
  ds_showGeometry :: bool

definition DEFAULT_DEBUG_STATE :: debug_settings where
  "DEFAULT_DEBUG_STATE = \<lparr>db_enabled = False, db_mockInstances = 4, db_mockPlatforms = 3, ds_shipPhases = [],
     ds_replayTransferIds = [], ds_showGeometry = False\<rparr>"

text \<open>\<open>clamp\<close> between 0 and a bound.\<close>

definition clamp_count :: "jsval \<Rightarrow> nat \<Rightarrow> nat \<Rightarrow> nat" where
  "clamp_count value mx fallback =
     (case to_number value of Fin q \<Rightarrow> min mx (nat (math_round q)) | _ \<Rightarrow> fallback)"

definition string_items_of :: "jsval \<Rightarrow> string list" where
  "string_items_of v = (case v of JArr xs \<Rightarrow> List.map_filter (\<lambda>x. case x of JStr s \<Rightarrow> Some s | _ \<Rightarrow> None) xs | _ \<Rightarrow> [])"

definition saved_debug_state :: "jsval \<Rightarrow> debug_settings" where
  "saved_debug_state parsed =
     \<lparr>db_enabled = truthy (prop_get parsed ''enabled''),
      db_mockInstances = clamp_count (prop_get parsed ''mockInstances'') MAX_MOCK_INSTANCES 4,
      db_mockPlatforms = clamp_count (prop_get parsed ''mockPlatforms'') MAX_MOCK_PLATFORMS 3,
      ds_shipPhases = (case prop_get parsed ''shipPhases'' of
          JArr xs \<Rightarrow> filter (\<lambda>s. s \<in> set SHIP_PHASE_NAMES) (string_items_of (JArr xs))
        | _ \<Rightarrow> if truthy (prop_get parsed ''showShips'') then SHIP_PHASE_NAMES else []),
      ds_replayTransferIds = string_items_of (prop_get parsed ''replayTransferIds''),
      ds_showGeometry = truthy (prop_get parsed ''showGeometry'')\<rparr>"

text \<open>From the text in the browser's storage and the \<open>debug\<close> parameter of the address.\<close>

definition loadDebugState :: "string option \<Rightarrow> string option \<Rightarrow> debug_settings" where
  "loadDebugState raw param =
     (let state = (case ostr_truthy raw of
          None \<Rightarrow> DEFAULT_DEBUG_STATE
        | Some stored \<Rightarrow> (case parse_json stored of
            Some v \<Rightarrow> if is_object v then saved_debug_state v else DEFAULT_DEBUG_STATE
          | None \<Rightarrow> DEFAULT_DEBUG_STATE))
      in if param = Some ''1'' \<or> param = Some ''true'' then state\<lparr>db_enabled := True\<rparr>
         else if param = Some ''0'' \<or> param = Some ''false'' then state\<lparr>db_enabled := False\<rparr>
         else state)"

section \<open>Positions\<close>

type_synonym point = "rat \<times> rat"
type_synonym saved_layout = "(string, point) jsmap"

record layout_node =
  ln_id :: string
  ln_position :: point

definition point_of :: "jsval \<Rightarrow> point option" where
  "point_of v =
     (case (prop_get v ''x'', prop_get v ''y'') of
        (JNum (Fin x), JNum (Fin y)) \<Rightarrow> Some (x, y)
      | _ \<Rightarrow> None)"

definition loadLayout :: "string option \<Rightarrow> saved_layout" where
  "loadLayout raw =
     (case ostr_truthy raw of
        None \<Rightarrow> []
      | Some stored \<Rightarrow> (case parse_json stored of
          Some (JObj fs) \<Rightarrow>
            foldl (\<lambda>layout (k, v). case point_of v of Some p \<Rightarrow> jm_set layout k p | None \<Rightarrow> layout) [] fs
        | _ \<Rightarrow> []))"

definition layout_of_nodes :: "layout_node list \<Rightarrow> saved_layout" where
  "layout_of_nodes nodes =
     foldl (\<lambda>layout n. if ln_id n \<noteq> [] then jm_set layout (ln_id n) (ln_position n) else layout) [] nodes"

definition layout_text :: "saved_layout \<Rightarrow> string" where
  "layout_text layout =
     json_text (JObj (map (\<lambda>(k, x, y). (k, JObj [(''x'', JNum (Fin x)), (''y'', JNum (Fin y))])) layout))"

definition saveLayout :: "layout_node list \<Rightarrow> string" where
  "saveLayout nodes = layout_text (layout_of_nodes nodes)"

definition applySavedLayout :: "layout_node list \<Rightarrow> saved_layout \<Rightarrow> layout_node list" where
  "applySavedLayout nodes layout =
     map (\<lambda>n. case jm_get layout (ln_id n) of Some p \<Rightarrow> n\<lparr>ln_position := p\<rparr> | None \<Rightarrow> n) nodes"

datatype edge_shape = Bezier | SmoothStep | Step | Straight

definition EDGE_SHAPES :: "(string \<times> edge_shape) list" where
  "EDGE_SHAPES = [(''bezier'', Bezier), (''smoothstep'', SmoothStep), (''step'', Step), (''straight'', Straight)]"

definition loadEdgeShape :: "string option \<Rightarrow> edge_shape" where
  "loadEdgeShape raw = (case raw of None \<Rightarrow> Bezier | Some s \<Rightarrow> nullish (map_of EDGE_SHAPES s) Bezier)"

record node_circle =
  nc_x :: rat
  nc_y :: rat
  nc_radius :: rat

text \<open>A width or height that is missing or 0 is the fallback.\<close>

definition size_or :: "rat option \<Rightarrow> rat \<Rightarrow> rat" where
  "size_or m fallback = (case m of Some q \<Rightarrow> if q = 0 then fallback else q | None \<Rightarrow> fallback)"

definition nodeCircle :: "point option \<Rightarrow> rat option \<Rightarrow> rat option \<Rightarrow> rat \<Rightarrow> rat \<Rightarrow> node_circle option" where
  "nodeCircle position width height fallbackDiameter offsetY =
     (case position of
        None \<Rightarrow> None
      | Some (x, y) \<Rightarrow>
          let w = size_or width fallbackDiameter; h = size_or height fallbackDiameter
          in Some \<lparr>nc_x = x + w / 2, nc_y = y + h / 2 + offsetY, nc_radius = min w h / 2\<rparr>)"

definition endpointSide :: "node_circle \<Rightarrow> node_circle \<Rightarrow> string" where
  "endpointSide a b =
     (let dx = nc_x b - nc_x a; dy = nc_y b - nc_y a
      in if \<bar>dy\<bar> \<le> \<bar>dx\<bar> then (if 0 \<le> dx then ''right'' else ''left'')
         else if 0 \<le> dy then ''bottom'' else ''top'')"

section \<open>Refusing a connection\<close>

text \<open>The ids of drawn nodes are integers.\<close>

definition request_of_ends :: "link_ends \<Rightarrow> connect_request" where
  "request_of_ends e =
     \<lparr>cr_sourceInstanceId = \<lfloor>le_sourceInstanceId e\<rfloor>, cr_sourceGateway = le_sourceGateway e,
      cr_targetInstanceId = \<lfloor>le_targetInstanceId e\<rfloor>, cr_targetGateway = le_targetGateway e\<rparr>"

definition connectionRefusal ::
    "string option \<Rightarrow> string option \<Rightarrow> string option \<Rightarrow> string option \<Rightarrow> edits \<Rightarrow> gateway_mode \<Rightarrow> string option" where
  "connectionRefusal source sourceHandle target targetHandle edits mode =
     (let fromPlatform = platformIndexFromHandleId sourceHandle \<noteq> None;
          unreadable = ''Could not read that connection '' @ em_dash @ '' nothing was staged.''
      in case (instanceIdFromNodeId source, instanceIdFromNodeId target) of
           (Some i, Some j) \<Rightarrow>
             if i = j then Some (if fromPlatform
               then ''A platform cannot transfer to the instance it is already on.''
               else ''An instance cannot gateway to itself.'')
             else if isMockInstanceId i \<noteq> isMockInstanceId j
             then Some ''A mock instance can only link to another mock instance.''
             else if platformIndexFromHandleId targetHandle \<noteq> None
             then Some (''Drop it on the other instance'' @ [CHR 0x27] @ ''s PORTAL, not on one of its platforms.'')
             else if fromPlatform
             then (if gatewayFromHandleId targetHandle \<noteq> None then None else Some ''Drop a platform on a gateway portal.'')
             else if gatewayFromHandleId sourceHandle = None \<or> gatewayFromHandleId targetHandle = None
             then Some ''Both ends of a gateway link must be gateway portals.''
             else if mode = Multi
             then (case toConnectRequest source sourceHandle target targetHandle of
                     Some e \<Rightarrow> multiModeViolation edits (request_of_ends e)
                   | None \<Rightarrow> Some unreadable)
             else None
         | _ \<Rightarrow> Some unreadable)"

section \<open>Names and texts\<close>

definition DEFAULT_EDGE_COLOUR :: string where "DEFAULT_EDGE_COLOUR = ''#1668dc''"

definition GATEWAY_COLOURS :: "(string \<times> string) list" where
  "GATEWAY_COLOURS =
     [(''surfexp_gateway_1'', ''#4a9eff''), (''surfexp_gateway_2'', ''#52c41a''), (''surfexp_gateway_3'', ''#fa8c16''),
      (''surfexp_gateway_4'', ''#b37feb''), (''surfexp_gateway_hub'', ''#b37feb'')]"

definition gatewayColour :: "string option \<Rightarrow> string" where
  "gatewayColour name =
     (case ostr_truthy name of None \<Rightarrow> DEFAULT_EDGE_COLOUR | Some n \<Rightarrow> nullish (map_of GATEWAY_COLOURS n) DEFAULT_EDGE_COLOUR)"

text \<open>A set keeps its names in the order of their first insertion.\<close>

definition name_set :: "string list \<Rightarrow> string list" where
  "name_set names = foldl (\<lambda>acc n. if n \<in> set acc then acc else acc @ [n]) [] names"

definition selectPlanetNames :: "(string \<Rightarrow> string \<Rightarrow> bool) \<Rightarrow> (string \<times> string) list list \<Rightarrow> string list" where
  "selectPlanetNames le buckets =
     sort_by le (name_set (map fst (filter (\<lambda>p. snd p = ''planet'') (concat buckets))))"

definition selectNavigableLocationNames :: "(string \<Rightarrow> string \<Rightarrow> bool) \<Rightarrow> jsval list \<Rightarrow> string list" where
  "selectNavigableLocationNames le connections =
     sort_by le (name_set (filter (\<lambda>n. n \<noteq> [])
       (string_items_of (JArr (concat (map (\<lambda>c. [prop_get c ''from'', prop_get c ''to'']) connections))))))"

definition platformActionKey :: "int \<Rightarrow> int \<Rightarrow> string" where
  "platformActionKey instanceId platformIndex = show_int instanceId @ CHR '':'' # show_int platformIndex"

record platform_status_fields =
  pf_isLocked :: bool
  pf_spaceLocation :: "string option"
  pf_currentTarget :: "string option"
  pf_speed :: rat
  pf_transferStatus :: "string option"
  pf_departureDateMs :: "rat option"
  pf_estimatedDurationTicks :: "rat option"

definition eta_text :: "string \<Rightarrow> rat \<Rightarrow> rat \<Rightarrow> rat \<Rightarrow> string" where
  "eta_text target now departure ticks =
     (let remainingMs = max 0 (ticks / 60 * 1000 - (now - departure))
      in right_arrow @ CHR '' '' # target @ '' (ETA ~'' @ show_int (math_round (remainingMs / 60000)) @ ''min)'')"

definition idle_status :: "platform_status_fields \<Rightarrow> rat option \<Rightarrow> string \<times> string option" where
  "idle_status p nowMs =
     (if pf_isLocked p then (''locked'', Some ''orange'')
      else if ostr_truthy (pf_spaceLocation p) \<noteq> None then (''parked'', None)
      else case ostr_truthy (pf_currentTarget p) of
        Some target \<Rightarrow>
          (case (nowMs, pf_departureDateMs p, pf_estimatedDurationTicks p) of
             (Some now, Some departure, Some ticks) \<Rightarrow> (eta_text target now departure ticks, Some ''blue'')
           | _ \<Rightarrow> (right_arrow @ CHR '' '' # target, Some ''blue''))
      | None \<Rightarrow> if 0 < pf_speed p then (''in transit'', Some ''blue'') else (em_dash, None))"

text \<open>The text shown for a platform and the colour of its tag.\<close>

definition platformStatus :: "platform_status_fields \<Rightarrow> rat option \<Rightarrow> string \<times> string option" where
  "platformStatus p nowMs =
     (case ostr_truthy (pf_transferStatus p) of
        Some st \<Rightarrow>
          if st \<noteq> ''idle'' then (map (\<lambda>c. if c = CHR ''_'' then CHR '' '' else c) st, Some ''processing'')
          else idle_status p nowMs
      | None \<Rightarrow> idle_status p nowMs)"

end
