(* ===== verification/ShipRules.thy ===== *)
theory ShipRules
  imports Ships CanvasRules
begin

text \<open>
  Ships and mock instances: the page remembers a bounded number of transfers, a drawn connection
  never joins a mock instance to a real one, and what happens when bulk linking does.
\<close>

section \<open>The memory of ships\<close>

definition bounded_memory :: "ship_memory \<Rightarrow> bool" where
  "bounded_memory m = (jm_wf m \<and> length m \<le> SHIP_MEMORY_CAP)"

lemma length_jm_update [simp]: "length (jm_update m k f) = length m"
  by (simp add: jm_update_def)

lemma keys_jm_update [simp]: "map fst (jm_update m k f) = map fst m"
  by (induction m) (auto simp: jm_update_def)

lemma length_set_absent: "jm_get m k = None \<Longrightarrow> length (jm_set m k v) = Suc (length m)"
  by (induction m) (auto split: if_splits)

lemma bounded_memory_for:
  assumes "bounded_memory m"
  shows "bounded_memory (snd (shipMemoryFor tid m)) \<and> jm_get (snd (shipMemoryFor tid m)) tid \<noteq> None"
proof (cases "jm_get m tid")
  case None
  define m1 where "m1 = jm_set m tid unseen"
  have wf: "jm_wf m1" and len: "length m1 = Suc (length m)"
    using assms None by (simp_all add: m1_def bounded_memory_def wf_intros length_set_absent)
  show ?thesis
  proof (cases m)
    case Nil
    then show ?thesis
      using None by (simp add: shipMemoryFor_def bounded_memory_def SHIP_MEMORY_CAP_def jm_wf_def Let_def)
  next
    case (Cons e rest)
    have first: "fst (hd m1) = fst e" and "fst e \<noteq> tid"
      using None Cons by (cases e; auto simp: m1_def split: if_splits)+
    have m1: "m1 = e # jm_set rest tid unseen"
      using Cons \<open>fst e \<noteq> tid\<close> by (cases e) (simp add: m1_def)
    have "filter (\<lambda>(k', v). k' \<noteq> fst e) (jm_set rest tid unseen) = jm_set rest tid unseen"
      using wf unfolding m1 jm_wf_def by (intro filter_True) (auto, metis fst_conv image_eqI)
    then have "length (jm_delete m1 (fst e)) = length m"
      using len unfolding m1 jm_delete_def by (simp add: case_prod_beta)
    then show ?thesis
      using assms None wf len \<open>fst e \<noteq> tid\<close>
      by (auto simp: shipMemoryFor_def Let_def m1_def [symmetric] first bounded_memory_def wf_intros)
         (simp_all add: m1_def)
  qed
qed (use assms in \<open>simp add: shipMemoryFor_def\<close>)

lemma bounded_memory_notes:
  "bounded_memory m \<Longrightarrow> bounded_memory (noteLiveSeen tid m)"
  "bounded_memory m \<Longrightarrow> bounded_memory (noteTerminalSeen tid now m)"
  using bounded_memory_for [of m tid]
  by (auto simp: noteLiveSeen_def noteTerminalSeen_def bounded_memory_def jm_wf_def)

text \<open>Drawing ships never makes the page remember more than the cap.\<close>

theorem ship_memory_is_bounded: "bounded_memory m \<Longrightarrow> bounded_memory (fst (note_ships ships now m))"
proof -
  have "bounded_memory m \<Longrightarrow> bounded_memory (foldl (note_ship now) m ships)" for m
    by (induction ships arbitrary: m) (auto simp: note_ship_def bounded_memory_notes split: option.split)
  then show "bounded_memory m \<Longrightarrow> bounded_memory (fst (note_ships ships now m))"
    by (simp add: note_ships_def Let_def)
qed

section \<open>Mock instances\<close>

text \<open>No link joins a mock instance to a real one.\<close>

definition unmixed :: "edits \<Rightarrow> bool" where
  "unmixed E \<longleftrightarrow> (\<forall>i n j m. linked E i n j m \<longrightarrow> (i < 0 \<longleftrightarrow> j < 0))"

lemma drawn_is_unmixed:
  assumes "connectionRefusal s sh t th E mode = None" and "toConnectRequest s sh t th = Some e"
  shows "(le_sourceInstanceId e < 0) = (le_targetInstanceId e < 0) \<and> le_sourceInstanceId e \<noteq> le_targetInstanceId e"
  using assms
  by (auto simp: connectionRefusal_def toConnectRequest_def isMockInstanceId_def Let_def split: option.splits if_splits)

text \<open>Drawing a connection that is not refused keeps mock and real instances apart.\<close>

theorem drawn_links_never_mix:
  assumes "unmixed E" and "connectionRefusal s sh t th E mode = None" and "toConnectRequest s sh t th = Some e"
    and "is_integer (Fin (le_sourceInstanceId e))" and "is_integer (Fin (le_targetInstanceId e))"
  shows "unmixed (applyConnect E (request_of_ends e))"
proof (cases "le_sourceGateway e = [] \<or> le_targetGateway e = []")
  case True
  then have "applyConnect E (request_of_ends e) = E" by (auto simp: applyConnect_def request_of_ends_def)
  with assms(1) show ?thesis by simp
next
  case False
  let ?q = "request_of_ends e"
  have "of_int (cr_sourceInstanceId ?q) = le_sourceInstanceId e" "of_int (cr_targetInstanceId ?q) = le_targetInstanceId e"
    using assms(4,5) by (auto simp: request_of_ends_def is_integer_def)
  then have "(cr_sourceInstanceId ?q < 0) = (cr_targetInstanceId ?q < 0)" "cr_sourceInstanceId ?q \<noteq> cr_targetInstanceId ?q"
    using drawn_is_unmixed [OF assms(2,3)] by (metis of_int_less_0_iff)+
  then show ?thesis
    using assms(1) False unfolding unmixed_def
    by (subst linked_connect) (auto simp: request_of_ends_def)
qed

lemma same_targets_set: "sameTargets a b \<Longrightarrow> set a = set b"
proof -
  assume "sameTargets a b"
  then have "set (js_sort (map link_text a)) = set (js_sort (map link_text b))" by (simp add: sameTargets_def)
  then have "link_text ` set a = link_text ` set b" by simp
  moreover have "inj link_text" by (rule injI) (rule link_text_inj)
  ultimately show ?thesis by (simp add: inj_image_eq_iff)
qed

lemma no_leaks:
  assumes "mockLeaksInPayload M = []" and "(i, gs) \<in> set M" and "e \<in> set gs"
  shows "filter (\<lambda>t. isMockInstanceId (of_int (g_targetInstanceId t))) (snd e) = []"
proof -
  have "concat (map (\<lambda>(name, targets).
           map (\<lambda>t. name @ '' -> instance '' @ show_int (g_targetInstanceId t))
             (filter (\<lambda>t. isMockInstanceId (of_int (g_targetInstanceId t))) targets)) gs) = []"
    using assms(1,2) unfolding mockLeaksInPayload_def concat_eq_Nil_conv by (fastforce split: if_splits)
  then show ?thesis
    using assms(3) unfolding concat_eq_Nil_conv by (cases e) fastforce
qed

text \<open>A staged link from a real instance to a mock one stops every save, of whatever else is staged.\<close>

lemma mixed_link_stops_saving:
  assumes E: "edits_wf E" and B: "edits_wf B" and l: "linked E i n j m" "\<not> linked B i n j m"
    and i: "0 \<le> i" and j: "j < 0" and n: "n \<noteq> []" and m: "m \<noteq> []"
  shows "save_requests E B = []"
proof -
  let ?M = "snd (save_payload E B)"
  let ?t = "\<lparr>g_targetInstanceId = j, g_targetGateway = m\<rparr>"
  have real: "\<not> isMockEditKey (edit_key i n)" using i n by (simp add: isMockEditKey_def isMockInstanceId_def)
  have "set (edit_targets E (edit_key i n)) \<noteq> set (edit_targets B (edit_key i n))"
    using l by (auto simp: linked_def layout_def)
  then have "edit_key i n \<in> set (pending_keys E B)"
    using dirty_facts(3) [OF E B real] same_targets_set by blast
  moreover obtain ns where ns: "\<forall>n. n \<in> set ns \<longleftrightarrow> n \<noteq> [] \<and> edit_key i n \<in> set (pending_keys E B)"
      "jm_get ?M (of_int i) = (if ns = [] then None else Some (map (staged_entry E i) ns))"
    using group_keys [OF dirty_facts(1) [OF E B], of E] dirty_facts(2) [OF E B] unfolding save_payload_def by blast
  ultimately have "n \<in> set ns" and get: "(of_int i, map (staged_entry E i) ns) \<in> set ?M"
    using n by (auto intro!: jm_get_Some_in split: if_splits)
  have "?t \<in> set (snd (staged_entry E i n))"
    using l(1) m by (force simp: staged_entry_def linked_def str_or_def)
  then have "?t \<in> set (filter (\<lambda>t. isMockInstanceId (of_int (g_targetInstanceId t))) (snd (staged_entry E i n)))"
    using j by (simp add: isMockInstanceId_def)
  then have leak: "filter (\<lambda>t. isMockInstanceId (of_int (g_targetInstanceId t))) (snd (staged_entry E i n)) \<noteq> []"
    by (metis empty_iff empty_set)
  have "mockLeaksInPayload ?M \<noteq> []"
  proof
    assume "mockLeaksInPayload ?M = []"
    then have "filter (\<lambda>t. isMockInstanceId (of_int (g_targetInstanceId t))) (snd (staged_entry E i n)) = []"
      by (rule no_leaks [OF _ get]) (simp add: \<open>n \<in> set ns\<close>)
    with leak show False by simp
  qed
  then show ?thesis by (simp add: save_requests_def Let_def)
qed

text \<open>
  Bulk linking has no such refusal. Linking a selected real instance with a selected mock one stages
  the link, and from then on no save sends anything until it is taken back.
\<close>

theorem bulk_link_with_a_mock_stops_saving:
  assumes "edits_wf E" and "edits_wf B" and "0 \<le> i" and "j < 0" and "name \<noteq> []" and "\<not> linked B i name j name"
    and "mode = Multi \<Longrightarrow> multiModeViolation E \<lparr>cr_sourceInstanceId = i, cr_sourceGateway = name,
        cr_targetInstanceId = j, cr_targetGateway = name\<rparr> = None"
  shows "save_requests (fst (planBulkLink E [i, j] name mode True)) B = []"
proof -
  let ?q = "\<lparr>cr_sourceInstanceId = i, cr_sourceGateway = name, cr_targetInstanceId = j, cr_targetGateway = name\<rparr>"
  have plan: "fst (planBulkLink E [i, j] name mode True) = applyConnect E ?q"
    using assms(7) by (cases "mode = Multi") (simp_all add: planBulkLink_def bulk_step_def)
  have "linked (applyConnect E ?q) i name j name"
    using assms(3-5) by (subst linked_connect) auto
  then show ?thesis
    unfolding plan using assms by (intro mixed_link_stops_saving [OF edits_wf_connect]) auto
qed

end
