(* ===== verification/ImportForm.thy ===== *)
theory ImportForm
  imports WebClient
begin

text \<open>
  The two forms of the browser page that start an operation (web/ImportModal.tsx,
  web/TransferModal.tsx): the state of the import form, choosing a file, submitting, closing; the
  instances offered; the request of a transfer. Reading a file is a request whose answer is the
  parsed document; messages to the user are a list. The location list and the rendering are left out.
\<close>

section \<open>The instances offered\<close>

text \<open>An instance of the tree as the page holds it; \<open>le\<close> is the collation of \<open>localeCompare\<close>.\<close>

definition instance_label :: "jsval \<Rightarrow> string" where
  "instance_label inst =
     (if truthy (prop_get inst ''gamePort'')
      then js_text (prop_get inst ''instanceName'') @ '' :'' @ js_text (prop_get inst ''gamePort'')
      else js_text (prop_get inst ''instanceName''))"

definition elements_of :: "jsval \<Rightarrow> jsval list" where
  "elements_of v = (case v of JArr xs \<Rightarrow> xs | _ \<Rightarrow> [])"

definition tree_instances :: "tree_state \<Rightarrow> jsval list" where
  "tree_instances t =
     concat (map (\<lambda>host. elements_of (prop_get host ''instances'')) (elements_of (ts_hosts t)))
     @ elements_of (ts_unassignedInstances t)"

definition by_label :: "(string \<Rightarrow> string \<Rightarrow> bool) \<Rightarrow> jsval list \<Rightarrow> (string \<times> jsval) list" where
  "by_label le insts =
     sort_by (\<lambda>a b. le (fst a) (fst b)) (map (\<lambda>inst. (instance_label inst, prop_get inst ''instanceId'')) insts)"

definition import_options :: "(string \<Rightarrow> string \<Rightarrow> bool) \<Rightarrow> tree_state option \<Rightarrow> (string \<times> jsval) list" where
  "import_options le tree = (case tree of None \<Rightarrow> [] | Some t \<Rightarrow> by_label le (tree_instances t))"

definition transfer_options_of ::
    "(string \<Rightarrow> string \<Rightarrow> bool) \<Rightarrow> tree_state option \<Rightarrow> int option \<Rightarrow> (string \<times> jsval) list" where
  "transfer_options_of le tree source =
     (case (tree, source) of
        (Some t, Some i) \<Rightarrow> by_label le (filter (\<lambda>inst. prop_get inst ''instanceId'' \<noteq> js_int i) (tree_instances t))
      | _ \<Rightarrow> [])"

section \<open>The import form\<close>

text \<open>A chosen file: its name, and the file object if the browser gives access to it.\<close>

record chosen_file =
  cf_name :: string
  cf_file :: "nat option"

record import_form =
  if_fileList :: "chosen_file list"
  if_payload :: "jsval option"
  if_parseError :: "string option"
  if_forceName :: string
  if_platformName :: string
  if_targetInstanceId :: "int option"
  if_targetPlanet :: "string option"
  if_importing :: bool
  if_open :: bool
  if_messages :: "string list"

datatype form_request =
    ParseFile nat
  | ImportUploaded jsval

type_synonym 'r form = "(form_request, answer, import_form, thrown, 'r) act"

definition form_await :: "form_request \<Rightarrow> jsval form" where
  "form_await q = act_bind (act_await q) (\<lambda>a. case a of Resolved v \<Rightarrow> act_return v | Rejected e \<Rightarrow> act_throw e)"

definition resetState :: "import_form \<Rightarrow> import_form" where
  "resetState s = s\<lparr>if_fileList := [], if_payload := None, if_parseError := None, if_forceName := ''player'',
     if_platformName := [], if_targetInstanceId := None, if_targetPlanet := None\<rparr>"

definition handleClose :: "import_form \<Rightarrow> import_form" where
  "handleClose s = (resetState s)\<lparr>if_open := False\<rparr>"

definition last_one :: "'a list \<Rightarrow> 'a list" where
  "last_one xs = drop (length xs - 1) xs"

definition say :: "string \<Rightarrow> import_form \<Rightarrow> import_form" where
  "say m s = s\<lparr>if_messages := if_messages s @ [m]\<rparr>"

definition take_payload :: "jsval \<Rightarrow> unit form" where
  "take_payload parsed =
     (case parsed of
        JObj fs \<Rightarrow> act_do (\<lambda>s.
          let s1 = s\<lparr>if_payload := Some (JObj fs)\<rparr>
          in if truthy (obj_get fs ''platform_name'') then s1
             else say ''JSON file is missing platform_name. Set an override below before import.'' s1)
      | _ \<Rightarrow> act_throw (ErrorObject ''JSON root must be an object'' None))"

definition handleFileChange :: "chosen_file list \<Rightarrow> unit form" where
  "handleFileChange next =
     (let latest = last_one next in
      act_then (act_do (\<lambda>s. s\<lparr>if_fileList := latest, if_payload := None, if_parseError := None\<rparr>))
        (case latest of
           [] \<Rightarrow> act_return ()
         | f # _ \<Rightarrow>
             (case cf_file f of
                None \<Rightarrow> act_do (\<lambda>s. s\<lparr>if_parseError := Some ''Unable to access selected file''\<rparr>)
              | Some n \<Rightarrow>
                  act_try (act_bind (form_await (ParseFile n)) take_payload)
                    (\<lambda>err. act_do (\<lambda>s. s\<lparr>if_parseError := Some (getErrorMessage_or ''Invalid JSON file'' err)\<rparr>)))))"

text \<open>
  Submitting takes the values the form shows when the button is pressed; the button is disabled
  without a document or a target.
\<close>

definition import_request :: "import_form \<Rightarrow> int \<Rightarrow> jsval \<Rightarrow> jsval" where
  "import_request s target payload = JObj
     ([(''targetInstanceId'', js_int target), (''exportData'', payload),
       (''forceName'', JStr (str_or (if_forceName s) ''player'')),
       (''platformName'', val_of_str (ostr_truthy (Some (js_trim (if_platformName s)))))]
      @ (case ostr_truthy (if_targetPlanet s) of Some p \<Rightarrow> [(''targetPlanet'', JStr p)] | None \<Rightarrow> []))"

definition import_started :: "(string \<times> jsval) list \<Rightarrow> int \<Rightarrow> jsval \<Rightarrow> import_form \<Rightarrow> import_form" where
  "import_started options target response s =
     handleClose (say (''Import started on ''
       @ (case List.find (\<lambda>o'. snd o' = js_int target) options of Some o' \<Rightarrow> str_or (fst o') ''instance'' | None \<Rightarrow> ''instance'')
       @ '': '' @ js_text (getProp response ''platformName'' (JStr ''Unknown''))) s)"

definition import_handleSubmit :: "(string \<times> jsval) list \<Rightarrow> unit form" where
  "import_handleSubmit options =
     act_get (\<lambda>s.
       case (if_targetInstanceId s, if_payload s) of
         (Some target, Some payload) \<Rightarrow>
           act_then (act_do (\<lambda>s. s\<lparr>if_importing := True\<rparr>))
             (act_then
               (act_try
                 (act_bind (form_await (ImportUploaded (import_request s target payload))) (\<lambda>response.
                    if \<not> truthy (getProp response ''success'' (JBool False))
                    then act_throw (ErrorObject (js_text (getProp response ''error'' (JStr ''Import failed''))) None)
                    else act_do (import_started options target response)))
                 (\<lambda>err. act_do (say (getErrorMessage_or ''Failed to import JSON'' err))))
               (act_do (\<lambda>s. s\<lparr>if_importing := False\<rparr>)))
       | _ \<Rightarrow> act_return ())"

section \<open>The transfer form\<close>

record action_source =
  as_instanceId :: int
  as_instanceName :: string
  as_platformIndex :: int
  as_platformName :: string
  as_forceName :: string

record transfer_form =
  tf_source :: "action_source option"
  tf_targetInstanceId :: "int option"
  tf_targetPlanet :: "string option"
  tf_submitting :: bool
  tf_messages :: "string list"

datatype transfer_form_request = StartTransfer jsval

type_synonym 'r transferring = "(transfer_form_request, answer, transfer_form, thrown, 'r) act"

text \<open>Another source or preset target starts the form afresh.\<close>

definition preset_transfer :: "action_source option \<Rightarrow> int option \<Rightarrow> transfer_form \<Rightarrow> transfer_form" where
  "preset_transfer source target s = s\<lparr>tf_source := source, tf_targetInstanceId := target, tf_targetPlanet := None\<rparr>"

definition transfer_request_document :: "action_source \<Rightarrow> int \<Rightarrow> string option \<Rightarrow> jsval" where
  "transfer_request_document source target planet = JObj
     [(''sourceInstanceId'', js_int (as_instanceId source)), (''sourcePlatformIndex'', js_int (as_platformIndex source)),
      (''targetInstanceId'', js_int target), (''forceName'', JStr (str_or (as_forceName source) ''player'')),
      (''targetPlanet'', val_of_str planet)]"

definition tell :: "string \<Rightarrow> transfer_form \<Rightarrow> transfer_form" where
  "tell m s = s\<lparr>tf_messages := tf_messages s @ [m]\<rparr>"

definition transfer_handleSubmit :: "unit transferring" where
  "transfer_handleSubmit =
     act_get (\<lambda>s.
       case (tf_source s, tf_targetInstanceId s) of
         (Some source, Some target) \<Rightarrow>
           act_then (act_do (\<lambda>s. s\<lparr>tf_submitting := True\<rparr>))
             (act_then
               (act_try
                 (act_bind (act_bind (act_await (StartTransfer (transfer_request_document source target (tf_targetPlanet s))))
                      (\<lambda>a. case a of Resolved v \<Rightarrow> act_return v | Rejected e \<Rightarrow> act_throw e)) (\<lambda>response.
                    if \<not> truthy (getProp response ''success'' (JBool False))
                    then act_throw (ErrorObject (js_text (getProp response ''error'' (JStr ''Transfer start failed''))) None)
                    else act_do (\<lambda>s. (tell (''Transfer started: ''
                      @ js_text (getProp response ''transferId'' (JStr []))) s)\<lparr>tf_source := None\<rparr>)))
                 (\<lambda>err. act_do (tell (getErrorMessage_or ''Failed to start transfer'' err))))
               (act_do (\<lambda>s. s\<lparr>tf_submitting := False\<rparr>)))
       | _ \<Rightarrow> act_return ())"

section \<open>Two files chosen one after the other\<close>

text \<open>The answer of a reading, given to a handler that waits for it.\<close>

lemma file_change_reads:
  assumes "last_one next = [f]" and "cf_file f = Some n"
  obtains k where "handleFileChange next s =
      (s\<lparr>if_fileList := [f], if_payload := None, if_parseError := None\<rparr>, Await (ParseFile n) k)"
    "\<And>fs s1. k (Resolved (JObj fs)) s1 =
      (let s2 = s1\<lparr>if_payload := Some (JObj fs)\<rparr> in
       if truthy (obj_get fs ''platform_name'') then s2
       else say ''JSON file is missing platform_name. Set an override below before import.'' s2, Return ())"
  using assms by (simp add: handleFileChange_def act_run form_await_def take_payload_def Let_def)

lemma say_keeps [simp]:
  "if_fileList (say m s) = if_fileList s" "if_payload (say m s) = if_payload s" "if_parseError (say m s) = if_parseError s"
  "if_targetInstanceId (say m s) = if_targetInstanceId s"
  by (simp_all add: say_def)

text \<open>
  The import form may import a file other than the one it shows. Of two files chosen one after the
  other, the document that is read last is kept: if the first file takes longer to read than the
  second, the form names the second file, shows no error, and submitting it sends the document of
  the first.
\<close>

theorem stale_file_is_imported:
  assumes "cf_file f = Some m" and "cf_file g = Some n"
  shows "\<exists>s1 k1 s2 k2 s3 s4 k3.
     handleFileChange [f] s = (s1, Await (ParseFile m) k1)
     \<and> handleFileChange [f, g] s1 = (s2, Await (ParseFile n) k2)
     \<and> k2 (Resolved (JObj docG)) s2 = (s3, Return ())
     \<and> k1 (Resolved (JObj docF)) s3 = (s4, Return ())
     \<and> if_fileList s4 = [g] \<and> if_parseError s4 = None
     \<and> snd (import_handleSubmit options (s4\<lparr>if_targetInstanceId := Some target\<rparr>))
         = Await (ImportUploaded (import_request (s4\<lparr>if_targetInstanceId := Some target\<rparr>) target (JObj docF))) k3"
proof -
  obtain k1 where k1: "handleFileChange [f] s = (s\<lparr>if_fileList := [f], if_payload := None, if_parseError := None\<rparr>, Await (ParseFile m) k1)"
    and r1: "\<And>fs s1. k1 (Resolved (JObj fs)) s1 = (let s2 = s1\<lparr>if_payload := Some (JObj fs)\<rparr> in
       if truthy (obj_get fs ''platform_name'') then s2
       else say ''JSON file is missing platform_name. Set an override below before import.'' s2, Return ())"
    using file_change_reads [of "[f]" f m s] assms(1) by (auto simp: last_one_def)
  define s1 where "s1 = s\<lparr>if_fileList := [f], if_payload := None, if_parseError := None\<rparr>"
  obtain k2 where k2: "handleFileChange [f, g] s1 = (s1\<lparr>if_fileList := [g], if_payload := None, if_parseError := None\<rparr>, Await (ParseFile n) k2)"
    and r2: "\<And>fs s1. k2 (Resolved (JObj fs)) s1 = (let s2 = s1\<lparr>if_payload := Some (JObj fs)\<rparr> in
       if truthy (obj_get fs ''platform_name'') then s2
       else say ''JSON file is missing platform_name. Set an override below before import.'' s2, Return ())"
    using file_change_reads [of "[f, g]" g n s1] assms(2) by (auto simp: last_one_def)
  define s3 where "s3 = fst (k2 (Resolved (JObj docG)) (s1\<lparr>if_fileList := [g], if_payload := None, if_parseError := None\<rparr>))"
  define s4 where "s4 = fst (k1 (Resolved (JObj docF)) s3)"
  have s3: "if_fileList s3 = [g]" "if_parseError s3 = None" by (simp_all add: s3_def r2 Let_def)
  have s4: "if_fileList s4 = [g]" "if_parseError s4 = None" "if_payload s4 = Some (JObj docF)"
    using s3 by (simp_all add: s4_def r1 Let_def)
  define t where "t = s4\<lparr>if_targetInstanceId := Some target\<rparr>"
  have "\<exists>k3. snd (import_handleSubmit options t) = Await (ImportUploaded (import_request t target (JObj docF))) k3"
    by (simp add: import_handleSubmit_def act_run form_await_def t_def s4)
  moreover have "k2 (Resolved (JObj docG)) (s1\<lparr>if_fileList := [g], if_payload := None, if_parseError := None\<rparr>) = (s3, Return ())"
    "k1 (Resolved (JObj docF)) s3 = (s4, Return ())"
    by (simp_all add: s3_def s4_def r1 r2)
  ultimately show ?thesis using k1 [folded s1_def] k2 s4(1,2) unfolding t_def by blast
qed

definition sample_form :: import_form where
  "sample_form = \<lparr>if_fileList = [], if_payload = None, if_parseError = None, if_forceName = ''player'',
     if_platformName = [], if_targetInstanceId = None, if_targetPlanet = None, if_importing = False, if_open = True,
     if_messages = []\<rparr>"

theorem stale_file_is_imported_witness:
  "\<exists>s1 k1 s2 k2 s3 s4 k3.
     handleFileChange [\<lparr>cf_name = ''big.json'', cf_file = Some 0\<rparr>] sample_form = (s1, Await (ParseFile 0) k1)
     \<and> handleFileChange [\<lparr>cf_name = ''big.json'', cf_file = Some 0\<rparr>, \<lparr>cf_name = ''small.json'', cf_file = Some 1\<rparr>] s1
         = (s2, Await (ParseFile 1) k2)
     \<and> k2 (Resolved (JObj [(''platform_name'', JStr ''Small'')])) s2 = (s3, Return ())
     \<and> k1 (Resolved (JObj [(''platform_name'', JStr ''Big'')])) s3 = (s4, Return ())
     \<and> if_fileList s4 = [\<lparr>cf_name = ''small.json'', cf_file = Some 1\<rparr>] \<and> if_parseError s4 = None
     \<and> snd (import_handleSubmit [] (s4\<lparr>if_targetInstanceId := Some 2\<rparr>))
         = Await (ImportUploaded (import_request (s4\<lparr>if_targetInstanceId := Some 2\<rparr>) 2
             (JObj [(''platform_name'', JStr ''Big'')]))) k3"
  by (rule stale_file_is_imported) simp_all

end
