(* ===== verification/CanvasSession.thy ===== *)
theory CanvasSession
  imports Ships ImportForm
begin

text \<open>
  The gateway canvas as a whole (web/gateway/GatewayCanvas.tsx): its state, loading the gateway
  configuration, drawing, clicking and deleting connections, bulk linking, saving and reverting, the
  edges it draws with the ships on them, and what its debug interface reports. Toasts are a list of
  texts, and a component's state update is a change of the state. Node and instance ids are integers.
  Left out are the frame of the view, the timers, and the elements that are rendered.
\<close>

section \<open>The state\<close>

record canvas_state =
  cv_loading :: bool
  cv_saving :: bool
  cv_loadError :: "string option"
  cv_edits :: edits
  cv_mode :: gateway_mode
  cv_baseline :: edits
  cv_transfer :: "(action_source \<times> int option) option"
  cv_locked :: bool
  cv_messages :: "string list"

datatype canvas_request =
    GetGateways
  | SetGatewayLink rat "gateway_entry list"

type_synonym 'r canvas = "(canvas_request, answer, canvas_state, thrown, 'r) act"

definition canvas_start :: canvas_state where
  "canvas_start = \<lparr>cv_loading = True, cv_saving = False, cv_loadError = None, cv_edits = [],
     cv_mode = DEFAULT_GATEWAY_MODE, cv_baseline = [], cv_transfer = None, cv_locked = False, cv_messages = []\<rparr>"

definition toast :: "string \<Rightarrow> canvas_state \<Rightarrow> canvas_state" where
  "toast m s = s\<lparr>cv_messages := cv_messages s @ [m]\<rparr>"

definition canvas_await :: "canvas_request \<Rightarrow> jsval canvas" where
  "canvas_await q = act_bind (act_await q) (\<lambda>a. case a of Resolved v \<Rightarrow> act_return v | Rejected e \<Rightarrow> act_throw e)"

section \<open>Loading\<close>

text \<open>
  A row of the reply with its targets, and the mode; every test of the mode in the code compares it
  with \<open>multi\<close>.
\<close>

definition row_target :: "jsval \<Rightarrow> gateway_link" where
  "row_target t =
     \<lparr>g_targetInstanceId = int_of_num (to_number (prop_get t ''targetInstanceId'')),
      g_targetGateway = (case prop_get t ''targetGateway'' of JStr s \<Rightarrow> s | _ \<Rightarrow> [])\<rparr>"

definition row_of :: "jsval \<Rightarrow> link_row" where
  "row_of row =
     \<lparr>lr_sourceInstanceId = (case prop_get row ''sourceInstanceId'' of JNum n \<Rightarrow> n | _ \<Rightarrow> NaN),
      lr_gatewayName = (case prop_get row ''gatewayName'' of JStr s \<Rightarrow> s | _ \<Rightarrow> []),
      lr_targets = (case prop_get row ''targets'' of JArr ts \<Rightarrow> Some (map row_target ts) | _ \<Rightarrow> None)\<rparr>"

definition mode_of :: "jsval \<Rightarrow> gateway_mode" where
  "mode_of v = (if v = JStr ''multi'' then Multi else OneGate)"

definition gateways_loaded :: "jsval \<Rightarrow> canvas_state \<Rightarrow> canvas_state" where
  "gateways_loaded response s =
     (let loaded = editsFromLinks (map row_of (elements_of (getProp response ''links'' (JArr []))))
      in s\<lparr>cv_edits := loaded, cv_baseline := loaded,
           cv_mode := mode_of (getProp response ''gatewayMode'' (JStr (gateway_mode_text DEFAULT_GATEWAY_MODE))),
           cv_loadError := None\<rparr>)"

definition load_failed :: "thrown \<Rightarrow> canvas_state \<Rightarrow> canvas_state" where
  "load_failed err s =
     (let m = getErrorMessage_or ''Failed to load gateways'' err in toast m (s\<lparr>cv_loadError := Some m\<rparr>))"

definition canvas_load :: "unit canvas" where
  "canvas_load =
     act_then (act_do (\<lambda>s. s\<lparr>cv_loading := True\<rparr>))
       (act_then
         (act_try (act_bind (canvas_await GetGateways) (\<lambda>response. act_do (gateways_loaded response)))
           (\<lambda>err. act_do (load_failed err)))
         (act_do (\<lambda>s. s\<lparr>cv_loading := False\<rparr>)))"

section \<open>Connections\<close>

text \<open>A connection or edge of the graph library.\<close>

record flow_link =
  fl_source :: "string option"
  fl_sourceHandle :: "string option"
  fl_target :: "string option"
  fl_targetHandle :: "string option"
  fl_transient :: bool

definition link_request :: "flow_link \<Rightarrow> connect_request option" where
  "link_request l =
     map_option request_of_ends (toConnectRequest (fl_source l) (fl_sourceHandle l) (fl_target l) (fl_targetHandle l))"

definition link_refusal :: "flow_link \<Rightarrow> canvas_state \<Rightarrow> string option" where
  "link_refusal l s =
     connectionRefusal (fl_source l) (fl_sourceHandle l) (fl_target l) (fl_targetHandle l) (cv_edits s) (cv_mode s)"

definition isValidConnection :: "flow_link \<Rightarrow> canvas_state \<Rightarrow> bool" where
  "isValidConnection l s = (link_refusal l s = None)"

text \<open>The platform a connection is dragged from, with its instance.\<close>

definition platformFromHandle ::
    "graph_node list \<Rightarrow> string option \<Rightarrow> string option \<Rightarrow> (jsval \<times> rat \<times> string) option" where
  "platformFromHandle nodes nodeId handleId =
     (case (platformIndexFromHandleId handleId, instanceIdFromNodeId nodeId) of
        (Some index, Some i) \<Rightarrow>
          (case List.find (\<lambda>n. Some (gn_id n) = nodeId) nodes of
             None \<Rightarrow> None
           | Some n \<Rightarrow> map_option (\<lambda>p. (p, i, gn_instanceName n))
               (List.find (\<lambda>p. prop_get p ''platformIndex'' = JNum (Fin index)) (gn_platforms n)))
      | _ \<Rightarrow> None)"

definition dragged_source :: "jsval \<Rightarrow> rat \<Rightarrow> string \<Rightarrow> action_source" where
  "dragged_source platform i name =
     \<lparr>as_instanceId = \<lfloor>i\<rfloor>, as_instanceName = name,
      as_platformIndex = int_of_num (to_number (prop_get platform ''platformIndex'')),
      as_platformName = js_text (prop_get platform ''platformName''),
      as_forceName = js_text (val_or (prop_get platform ''forceName'') (JStr ''player''))\<rparr>"

definition onConnect :: "graph_node list \<Rightarrow> flow_link \<Rightarrow> canvas_state \<Rightarrow> canvas_state" where
  "onConnect nodes l s =
     (case platformFromHandle nodes (fl_source l) (fl_sourceHandle l) of
        Some (platform, i, name) \<Rightarrow>
          (case instanceIdFromNodeId (fl_target l) of
             None \<Rightarrow> toast (''Could not read the destination '' @ em_dash @ '' no transfer was started.'') s
           | Some j \<Rightarrow> s\<lparr>cv_transfer := Some (dragged_source platform i name, Some \<lfloor>j\<rfloor>)\<rparr>)
      | None \<Rightarrow>
          (case link_request l of
             None \<Rightarrow> toast (''Could not read that connection '' @ em_dash @ '' nothing was staged.'') s
           | Some q \<Rightarrow> s\<lparr>cv_edits := applyConnect (cv_edits s) q\<rparr>))"

text \<open>A connection that was let go between two handles; the names are missing when one of them is.\<close>

definition onConnectEnd :: "bool \<Rightarrow> flow_link option \<Rightarrow> canvas_state \<Rightarrow> canvas_state" where
  "onConnectEnd isValid ends s =
     (if isValid then s
      else case ends of
        None \<Rightarrow> s
      | Some l \<Rightarrow> (case link_refusal l s of Some refusal \<Rightarrow> toast refusal s | None \<Rightarrow> s))"

definition onEdgeClick :: "bool \<Rightarrow> flow_link \<Rightarrow> canvas_state \<Rightarrow> canvas_state" where
  "onEdgeClick canEdit l s =
     (if fl_transient l
      then toast (''That is a transfer in flight, not a configured link '' @ em_dash @ '' it clears itself.'') s
      else if \<not> canEdit then s
      else if cv_locked s then toast ''The canvas is locked. Use the padlock in the controls to unlock it.'' s
      else case link_request l of
        None \<Rightarrow> toast (''Could not read that edge '' @ em_dash @ '' nothing was removed.'') s
      | Some q \<Rightarrow> s\<lparr>cv_edits := applyDisconnect (cv_edits s) q\<rparr>)"

definition onEdgesDelete :: "bool \<Rightarrow> flow_link list \<Rightarrow> canvas_state \<Rightarrow> canvas_state" where
  "onEdgesDelete canEdit deleted s =
     (if \<not> (canEdit \<and> \<not> cv_locked s) then s
      else s\<lparr>cv_edits := foldl (\<lambda>acc l. case link_request l of Some q \<Rightarrow> applyDisconnect acc q | None \<Rightarrow> acc)
        (cv_edits s) (filter (\<lambda>l. \<not> fl_transient l) deleted)\<rparr>)"

definition selected_ids :: "'a positioned list \<Rightarrow> int list" where
  "selected_ids nodes =
     List.map_filter (\<lambda>n. if pn_selected n = Some True then map_option floor (instanceIdFromNodeId (Some (pn_id n))) else None)
       nodes"

definition bulkLink :: "int list \<Rightarrow> bool \<Rightarrow> canvas_state \<Rightarrow> canvas_state" where
  "bulkLink selected connect s =
     (let (new, refused) = planBulkLink (cv_edits s) selected (hd (gatewayNamesFor (cv_mode s))) (cv_mode s) connect;
          s1 = s\<lparr>cv_edits := new\<rparr>
      in if refused = [] then s1
         else toast (show_nat (length refused) @ '' pair(s) refused: '' @ join_with '' '' (name_set refused)) s1)"

definition revert :: "canvas_state \<Rightarrow> canvas_state" where
  "revert s = s\<lparr>cv_edits := cv_baseline s\<rparr>"

text \<open>An edge of the graph, as the graph library hands it to the handlers.\<close>

definition drawn_link :: "gateway_edge \<Rightarrow> flow_link" where
  "drawn_link e =
     \<lparr>fl_source = Some (ge_source e), fl_sourceHandle = Some (ge_sourceHandle e), fl_target = Some (ge_target e),
      fl_targetHandle = Some (ge_targetHandle e), fl_transient = False\<rparr>"

section \<open>Saving\<close>

text \<open>One request for each instance, one after another; what failed and what was warned of is collected.\<close>

definition group_label :: "save_group \<Rightarrow> string" where
  "group_label gateways = join_with '', '' (map fst gateways)"

definition save_answered :: "save_group \<Rightarrow> string list \<times> string list \<Rightarrow> jsval \<Rightarrow> string list \<times> string list" where
  "save_answered gateways acc response =
     (let reason = js_text (val_or (getProp response ''error'' (JStr [])) (JStr []))
      in if \<not> truthy (getProp response ''success'' (JBool False))
         then (fst acc @ [group_label gateways @ '': '' @ str_or reason ''save failed''], snd acc)
         else if reason \<noteq> [] then (fst acc, snd acc @ [reason])
         else acc)"

definition save_refused :: "save_group \<Rightarrow> string list \<times> string list \<Rightarrow> thrown \<Rightarrow> string list \<times> string list" where
  "save_refused gateways acc err =
     (fst acc @ [group_label gateways @ '': '' @ getErrorMessage_or ''save failed'' err], snd acc)"

fun save_groups ::
    "(rat \<times> save_group) list \<Rightarrow> string list \<times> string list \<Rightarrow> (string list \<times> string list) canvas" where
  "save_groups [] acc = act_return acc"
| "save_groups ((i, gateways) # rest) acc =
     act_bind
       (act_try (act_bind (canvas_await (SetGatewayLink i (map request_entry gateways)))
                   (\<lambda>response. act_return (save_answered gateways acc response)))
          (\<lambda>err. act_return (save_refused gateways acc err)))
       (save_groups rest)"

text \<open>The edits and the changed keys are those shown when the button was pressed.\<close>

definition save_ended :: "edits \<Rightarrow> nat \<Rightarrow> string list \<times> string list \<Rightarrow> canvas_state \<Rightarrow> canvas_state" where
  "save_ended edits pending outcome s =
     (if fst outcome \<noteq> []
      then toast (show_nat (length (fst outcome)) @ '' of '' @ show_nat pending @ '' failed '' @ em_dash @ CHR '' ''
             # join_with ''; '' (fst outcome)) s
      else
        let s1 = s\<lparr>cv_baseline := filter (\<lambda>(key, ts). \<not> isMockEditKey key) edits\<rparr>
        in if snd outcome \<noteq> [] then toast (join_with ''; '' (snd outcome)) s1
           else toast (''Saved '' @ show_nat pending @ '' gateway'' @ (if pending = 1 then [] else ''s'') @ ''.'') s1)"

definition mock_refusal :: "string list \<Rightarrow> string" where
  "mock_refusal leaks =
     ''Refusing to save: '' @ join_with ''; '' leaks @ '' names a mock instance. ''
       @ ''This is a bug '' @ em_dash @ '' no gateway config was written.''"

definition canvas_save :: "unit canvas" where
  "canvas_save =
     act_get (\<lambda>s.
       let edits = cv_edits s; pending = length (pending_keys edits (cv_baseline s));
           (unreadable, payload) = save_payload edits (cv_baseline s); leaks = mockLeaksInPayload payload
       in act_then (act_do (\<lambda>s. s\<lparr>cv_saving := True\<rparr>))
            (act_then
              (if leaks \<noteq> [] then act_do (toast (mock_refusal leaks))
               else act_bind (save_groups payload (unreadable, [])) (\<lambda>outcome. act_do (save_ended edits pending outcome)))
              (act_do (\<lambda>s. s\<lparr>cv_saving := False\<rparr>))))"

end
