(* ===== verification/CanvasSessionRules.thy ===== *)
theory CanvasSessionRules
  imports CanvasSession ShipRules
begin

text \<open>
  What a session of the canvas comes to: loading puts it in step with the controller, every history
  of drawing, clicking, deleting, bulk linking and reverting keeps the staged links in order, saving
  sends every changed gateway and moves the baseline only if nothing failed; and a session whose load
  failed saves over links it never saw.
\<close>

section \<open>Running\<close>

lemma load_runs:
  obtains k where "canvas_load s = (s\<lparr>cv_loading := True\<rparr>, Await GetGateways k)"
    "\<And>v t. k (Resolved v) t = ((gateways_loaded v t)\<lparr>cv_loading := False\<rparr>, Return ())"
    "\<And>e t. k (Rejected e) t = ((load_failed e t)\<lparr>cv_loading := False\<rparr>, Return ())"
  by (simp add: canvas_load_def act_run canvas_await_def)

section \<open>Loading\<close>

text \<open>The reply of the controller as the document it sends (\<open>handleGetGatewaysRequest\<close>).\<close>

definition link_document :: "gateway_link \<Rightarrow> jsval" where
  "link_document t = JObj [(''targetInstanceId'', js_int (g_targetInstanceId t)), (''targetGateway'', JStr (g_targetGateway t))]"

definition row_document :: "int \<times> string \<times> gateway_link list \<Rightarrow> jsval" where
  "row_document r = (case r of (i, name, targets) \<Rightarrow> JObj
     [(''sourceInstanceId'', js_int i), (''gatewayName'', JStr name), (''targets'', JArr (map link_document targets))])"

definition listing_document :: "gateway_listing \<Rightarrow> jsval" where
  "listing_document L = JObj
     [(''gatewayMode'', JStr (gateway_mode_text (gl_gatewayMode L))),
      (''gatewayNames'', JArr (map JStr (gl_gatewayNames L))),
      (''links'', JArr (map row_document (gl_links L)))]"

lemma row_link_document [simp]: "row_target (link_document t) = t"
  by (simp add: row_target_def link_document_def js_int_def prop_get_def)

lemma row_of_document:
  "row_of (row_document (i, name, targets)) =
     \<lparr>lr_sourceInstanceId = num_of_int i, lr_gatewayName = name, lr_targets = Some targets\<rparr>"
  by (simp add: row_of_def row_document_def js_int_def prop_get_def o_def)

lemma mode_of_text [simp]: "mode_of (JStr (gateway_mode_text m)) = m"
  by (cases m) (simp_all add: mode_of_def)

text \<open>What the controller stores: each key once, keys of known form, destinations with a gateway.\<close>

definition stored_wf :: "plugin \<Rightarrow> bool" where
  "stored_wf w \<longleftrightarrow> jm_wf (gatewayLinks w)
     \<and> (\<forall>(key, ts)\<in>set (gatewayLinks w). (\<forall>i n. parse_gateway_key key = Some (i, n) \<longrightarrow> key = gateway_key i n)
          \<and> (\<forall>t\<in>set ts. g_targetGateway t \<noteq> []))"

definition listed :: "gateway_mode \<Rightarrow> string \<Rightarrow> bool" where
  "listed mode key = (case parse_gateway_key key of Some (i, n) \<Rightarrow> n \<in> set (gatewayNamesFor mode) | None \<Rightarrow> False)"

lemma gateway_names_nonempty: "n \<in> set (gatewayNamesFor mode) \<Longrightarrow> n \<noteq> []"
  by (auto simp: gatewayNamesFor_def ONE_GATE_NAMES_def ONE_GATE_NAME_def multi_names_nonempty split: if_splits)

lemma edit_key_is_gateway_key: "edit_key i n = gateway_key i n"
  by (simp add: edit_key_def gateway_key_def)

lemma loaded_edits:
  assumes "jm_wf m"
    and "\<forall>(key, ts)\<in>set m. (\<forall>i n. parse_gateway_key key = Some (i, n) \<longrightarrow> key = gateway_key i n)
      \<and> (\<forall>t\<in>set ts. g_targetGateway t \<noteq> [])"
  shows "editsFromLinks (map row_of (map row_document (concat (map (\<lambda>(key, targets).
           case parse_gateway_key key of None \<Rightarrow> []
           | Some (i, name) \<Rightarrow> if name \<in> set (gatewayNamesFor mode) then [(i, name, targets)] else []) m))))
         = filter (\<lambda>(key, ts). listed mode key) m"
proof -
  define rows where "rows = (\<lambda>m. map row_of (map row_document (concat (map (\<lambda>(key, targets).
           case parse_gateway_key key of None \<Rightarrow> []
           | Some (i, name) \<Rightarrow> if name \<in> set (gatewayNamesFor mode) then [(i, name, targets)] else [])
           (m :: (string \<times> gateway_link list) list)))))"
  define step where "step = (\<lambda>(edits :: edits) (row :: link_row).
       if \<not> is_finite (lr_sourceInstanceId row) \<or> lr_gatewayName row = [] then edits
       else jm_set edits (num_text (lr_sourceInstanceId row) @ CHR '':'' # lr_gatewayName row)
              (map (\<lambda>t. t\<lparr>g_targetGateway := str_or (g_targetGateway t) (lr_gatewayName row)\<rparr>)
                (nullish (lr_targets row) [])))"
  have "foldl step acc (rows m) = foldl (\<lambda>a e. jm_set a (fst e) (snd e)) acc (filter (\<lambda>(key, ts). listed mode key) m)" for acc
    using assms(2)
  proof (induction m arbitrary: acc)
    case (Cons e m)
    obtain key ts where e: "e = (key, ts)" by (cases e)
    from Cons have IH: "\<And>acc. foldl step acc (rows m) = foldl (\<lambda>a e. jm_set a (fst e) (snd e)) acc (filter (\<lambda>(key, ts). listed mode key) m)"
      by auto
    show ?case
    proof (cases "listed mode key")
      case True
      then obtain i n where p: "parse_gateway_key key = Some (i, n)" and n: "n \<in> set (gatewayNamesFor mode)"
        by (auto simp: listed_def split: option.splits)
      have key: "key = gateway_key i n" and "\<forall>t\<in>set ts. g_targetGateway t \<noteq> []" using Cons.prems p by (auto simp: e)
      then have "map (\<lambda>t. t\<lparr>g_targetGateway := str_or (g_targetGateway t) n\<rparr>) ts = ts"
        by (intro map_idI) (simp add: str_or_def)
      then have "step acc (row_of (row_document (i, n, ts))) = jm_set acc key ts"
        using gateway_names_nonempty [OF n] by (simp add: step_def row_of_document key gateway_key_def)
      moreover have "rows (e # m) = row_of (row_document (i, n, ts)) # rows m"
        using p n by (simp add: rows_def e)
      ultimately show ?thesis using True by (simp add: e IH)
    next
      case False
      then have "rows (e # m) = rows m" by (auto simp: rows_def e listed_def split: option.splits)
      with False show ?thesis by (simp add: e IH)
    qed
  qed (simp add: rows_def)
  moreover have "jm_wf ([] @ filter (\<lambda>(key, ts). listed mode key) m)"
    using assms(1) by (simp add: jm_wf_def distinct_map_filter)
  ultimately show ?thesis
    using foldl_jm_set_append [of "[]"] by (simp add: editsFromLinks_def rows_def step_def)
qed

lemma loaded_state:
  assumes "stored_wf w" and "handleGetGatewaysRequest w = (w', Return L)"
  shows "cv_edits (gateways_loaded (listing_document L) t) = filter (\<lambda>(key, ts). listed (gl_gatewayMode L) key) (gatewayLinks w)"
    and "cv_baseline (gateways_loaded (listing_document L) t) = cv_edits (gateways_loaded (listing_document L) t)"
    and "cv_mode (gateways_loaded (listing_document L) t) = gl_gatewayMode L"
proof -
  obtain mode where L: "L = \<lparr>gl_gatewayMode = mode, gl_gatewayNames = gatewayNamesFor mode,
      gl_links = concat (map (\<lambda>(key, targets). case parse_gateway_key key of None \<Rightarrow> []
           | Some (i, name) \<Rightarrow> if name \<in> set (gatewayNamesFor mode) then [(i, name, targets)] else []) (gatewayLinks w))\<rparr>"
    using assms(2) by (auto simp: handleGetGatewaysRequest_def gatewayMode_def with_config_def act_run split: option.splits)
  then have mode: "gl_gatewayMode L = mode" by simp
  have links: "gl_links L = concat (map (\<lambda>(key, targets). case parse_gateway_key key of None \<Rightarrow> []
           | Some (i, name) \<Rightarrow> if name \<in> set (gatewayNamesFor (gl_gatewayMode L)) then [(i, name, targets)] else []) (gatewayLinks w))"
    unfolding mode by (simp add: L)
  show "cv_edits (gateways_loaded (listing_document L) t) = filter (\<lambda>(key, ts). listed (gl_gatewayMode L) key) (gatewayLinks w)"
    using loaded_edits [of "gatewayLinks w" "gl_gatewayMode L"] assms(1)
    by (simp add: gateways_loaded_def listing_document_def getProp_def is_object_def prop_get_def val_nullish_def
        is_nullish_def elements_of_def stored_wf_def links Let_def)
  show "cv_mode (gateways_loaded (listing_document L) t) = gl_gatewayMode L"
    by (simp add: gateways_loaded_def listing_document_def getProp_def is_object_def prop_get_def val_nullish_def is_nullish_def Let_def)
qed (simp add: gateways_loaded_def Let_def)

lemma stored_edits_wf:
  assumes "stored_wf w"
  shows "edits_wf (filter (\<lambda>(key, ts). listed mode key) (gatewayLinks w))"
proof -
  have "\<exists>i n. key = edit_key i n" if "(key, ts) \<in> set (gatewayLinks w)" "listed mode key" for key ts
    using that assms by (fastforce simp: stored_wf_def listed_def edit_key_is_gateway_key split: option.splits)
  then show ?thesis
    using assms by (auto simp: edits_wf_def stored_wf_def jm_wf_def distinct_map_filter)
qed

lemma jm_get_filter: "jm_get (filter (\<lambda>(k, v). P k) m) k = (if P k then jm_get m k else None)"
  by (induction m) auto

lemma stored_layout:
  "n \<in> set (gatewayNamesFor mode) \<Longrightarrow> layout (filter (\<lambda>(key, ts). listed mode key) (gatewayLinks w)) i n = links_of w i n"
  using gateway_names_nonempty [of n mode]
  by (auto simp: layout_def links_of_def edit_key_is_gateway_key jm_get_filter listed_def gateway_id.decode_encode)

section \<open>What the user does\<close>

text \<open>Everything the user does to what is staged: only edges that are drawn can be clicked or deleted.\<close>

inductive user_step :: "(string \<Rightarrow> string \<Rightarrow> bool) \<Rightarrow> canvas_state \<Rightarrow> canvas_state \<Rightarrow> bool" for le where
  connect: "isValidConnection l s \<Longrightarrow> user_step le s (onConnect nodes l s)"
| connect_end: "user_step le s (onConnectEnd valid ends s)"
| click: "fl_transient l \<or> l \<in> drawn_link ` set (buildEdges le (cv_edits s)) \<Longrightarrow> user_step le s (onEdgeClick canEdit l s)"
| delete: "\<forall>l\<in>set ls. fl_transient l \<or> l \<in> drawn_link ` set (buildEdges le (cv_edits s)) \<Longrightarrow>
    user_step le s (onEdgesDelete canEdit ls s)"
| bulk: "distinct ids \<Longrightarrow> user_step le s (bulkLink ids connect s)"
| reverted: "user_step le s (revert s)"
| lock: "user_step le s (s\<lparr>cv_locked := b\<rparr>)"

text \<open>The two ends of an edge that is drawn are different instances.\<close>

lemma edge_sources:
  assumes "jm_get (foldl add_link M ls) k = Some e"
  shows "jm_get M k \<noteq> None \<and> ge_source e = ge_source (the (jm_get M k)) \<and> ge_target e = ge_target (the (jm_get M k))
    \<or> (\<exists>l\<in>set ls. ge_source e = ''instance:'' @ num_text (Fin (ep_instanceId (fst (orient (fst l) (snd l)))))
         \<and> ge_target e = ''instance:'' @ num_text (Fin (ep_instanceId (snd (orient (fst l) (snd l))))))"
  using assms
proof (induction ls arbitrary: M)
  case (Cons l ls)
  from Cons.IH [of "add_link M l"] Cons.prems
  show ?case
    by (cases "jm_get M k"; cases "k = link_id l")
      (auto simp: add_link_get Let_def nullish_def new_edge_def split: if_splits)
qed simp

lemma node_id_of_int: "instanceIdFromNodeId (Some (''instance:'' @ show_int i)) = Some (of_int i)"
  by (simp add: instanceIdFromNodeId_def ostr_truthy_def finite_of_def)

lemmas node_id_chars [simp] = node_id_of_int [simplified]

lemma drawn_link_ends:
  assumes "edits_wf E" and "reciprocal E" and "e \<in> set (buildEdges le E)" and "link_request (drawn_link e) = Some q"
  shows "cr_sourceInstanceId q \<noteq> cr_targetInstanceId q"
proof -
  let ?M = "foldl add_link [] (directedLinks E)"
  obtain k where "(k, e) \<in> set ?M" using assms(3) by (auto simp: buildEdges_def)
  then have "jm_get ?M k = Some e" by (simp add: jm_get_iff_in jm_wf_add_links)
  from edge_sources [OF this] obtain l where l: "l \<in> set (directedLinks E)"
    "ge_source e = ''instance:'' @ num_text (Fin (ep_instanceId (fst (orient (fst l) (snd l)))))"
    "ge_target e = ''instance:'' @ num_text (Fin (ep_instanceId (snd (orient (fst l) (snd l)))))" by auto
  obtain a b where ab: "l = (a, b)" by (cases l)
  with l(1) obtain i n j m where ends: "linked E i n j m" "ep_instanceId a = of_int i" "ep_instanceId b = of_int j"
    by (auto simp: directed_iff [OF assms(1)])
  then have ij: "i \<noteq> j" using assms(2) unfolding reciprocal_def by blast
  have "(ep_instanceId (fst (orient a b)), ep_instanceId (snd (orient a b))) \<in> {(of_int i, of_int j), (of_int j, of_int i)}"
    using ends by (simp add: orient_def)
  then have "(instanceIdFromNodeId (Some (ge_source e)), instanceIdFromNodeId (Some (ge_target e)))
      \<in> {(Some (of_int i), Some (of_int j)), (Some (of_int j), Some (of_int i))}"
    using l(2,3) by (auto simp: ab)
  then show ?thesis
    using assms(4) ij
    by (auto simp: link_request_def drawn_link_def toConnectRequest_def request_of_ends_def split: option.splits)
qed

section \<open>The staged links stay in order\<close>

lemma starts_with_clash: "starts_with (c # cs) s \<Longrightarrow> starts_with (d # ds) s \<Longrightarrow> c = d"
  by (cases s) auto

lemma platform_handle_is_no_gateway: "platformIndexFromHandleId h \<noteq> None \<Longrightarrow> gatewayFromHandleId h = None"
  by (auto simp: platformIndexFromHandleId_def gatewayFromHandleId_def dest: starts_with_clash split: option.splits if_splits)

lemma valid_connection_fits:
  assumes "isValidConnection l s" and "link_request l = Some q" and "cv_mode s = Multi"
  shows "multiModeViolation (cv_edits s) q = None"
proof -
  have "platformIndexFromHandleId (fl_sourceHandle l) = None"
    using assms(2) platform_handle_is_no_gateway
    by (fastforce simp: link_request_def toConnectRequest_def split: option.splits)
  then show ?thesis
    using assms
    by (auto simp: isValidConnection_def link_refusal_def connectionRefusal_def link_request_def Let_def
        split: option.splits if_splits)
qed

lemma staged_connect:
  "staged_ok mode E \<Longrightarrow> (mode = Multi \<Longrightarrow> multiModeViolation E q = None) \<Longrightarrow> staged_ok mode (applyConnect E q)"
  using edits_wf_connect reciprocal_connect multi_connect by (auto simp: staged_ok_def)

lemma staged_disconnect:
  "staged_ok mode E \<Longrightarrow> cr_sourceInstanceId q \<noteq> cr_targetInstanceId q \<Longrightarrow> staged_ok mode (applyDisconnect E q)"
  using edits_wf_disconnect reciprocal_disconnect multi_disconnect by (auto simp: staged_ok_def)

definition session_ok :: "canvas_state \<Rightarrow> bool" where
  "session_ok s = (staged_ok (cv_mode s) (cv_edits s) \<and> staged_ok (cv_mode s) (cv_baseline s))"

lemma toast_keeps [simp]:
  "cv_edits (toast m s) = cv_edits s" "cv_baseline (toast m s) = cv_baseline s" "cv_mode (toast m s) = cv_mode s"
  "cv_saving (toast m s) = cv_saving s"
  by (simp_all add: toast_def)

lemma clicked_ends:
  assumes "session_ok s" and "l \<in> drawn_link ` set (buildEdges le (cv_edits s))" and "link_request l = Some q"
  shows "cr_sourceInstanceId q \<noteq> cr_targetInstanceId q"
  using assms drawn_link_ends by (auto simp: session_ok_def staged_ok_def)

lemma deleting_keeps_order:
  assumes "staged_ok mode E" and "\<forall>l\<in>set ls. \<forall>q. link_request l = Some q \<longrightarrow> cr_sourceInstanceId q \<noteq> cr_targetInstanceId q"
  shows "staged_ok mode (foldl (\<lambda>acc l. case link_request l of Some q \<Rightarrow> applyDisconnect acc q | None \<Rightarrow> acc) E ls)"
  using assms by (induction ls arbitrary: E) (auto simp: staged_disconnect split: option.split)

lemma user_step_keeps:
  assumes "user_step le s s'"
  shows "cv_baseline s' = cv_baseline s \<and> cv_mode s' = cv_mode s"
  using assms
  by cases (auto simp: onConnect_def onConnectEnd_def onEdgeClick_def onEdgesDelete_def bulkLink_def revert_def Let_def
      split: option.split prod.split)

lemma user_step_ok:
  assumes "user_step le s s'" and ok: "session_ok s"
  shows "session_ok s'"
proof -
  have edits: "staged_ok (cv_mode s) (cv_edits s)" and base: "staged_ok (cv_mode s) (cv_baseline s)"
    using ok by (simp_all add: session_ok_def)
  have "staged_ok (cv_mode s) (cv_edits s')"
    using assms(1)
  proof cases
    case (connect l nodes)
    then show ?thesis
      using edits valid_connection_fits [OF connect(2)]
      by (auto simp: onConnect_def staged_connect split: option.split)
  next
    case (click l canEdit)
    then have "\<not> fl_transient l \<Longrightarrow> link_request l = Some q \<Longrightarrow> cr_sourceInstanceId q \<noteq> cr_targetInstanceId q" for q
      using clicked_ends [OF ok] by blast
    then show ?thesis
      using edits click(1) by (auto simp: onEdgeClick_def staged_disconnect split: option.split)
  next
    case (delete ls canEdit)
    have "\<forall>l\<in>set (filter (\<lambda>l. \<not> fl_transient l) ls). \<forall>q. link_request l = Some q \<longrightarrow>
        cr_sourceInstanceId q \<noteq> cr_targetInstanceId q"
    proof (intro ballI allI impI)
      fix l q assume l: "l \<in> set (filter (\<lambda>l. \<not> fl_transient l) ls)" and q: "link_request l = Some q"
      from l delete(2) have "l \<in> drawn_link ` set (buildEdges le (cv_edits s))" by auto
      then show "cr_sourceInstanceId q \<noteq> cr_targetInstanceId q" using clicked_ends [OF ok _ q] by blast
    qed
    then show ?thesis
      using edits delete(1) deleting_keeps_order by (simp add: onEdgesDelete_def)
  next
    case (bulk ids connect)
    then show ?thesis
      using plan_ok [OF edits bulk(2)] by (auto simp: bulkLink_def Let_def case_prod_beta)
  qed (use edits base in \<open>auto simp: onConnectEnd_def revert_def split: option.split\<close>)
  then show ?thesis using base user_step_keeps [OF assms(1)] by (simp add: session_ok_def)
qed

lemma history_ok:
  assumes "(user_step le)\<^sup>*\<^sup>* s s'" and "session_ok s"
  shows "session_ok s' \<and> cv_baseline s' = cv_baseline s \<and> cv_mode s' = cv_mode s"
  using assms by (induction rule: rtranclp_induct) (auto dest: user_step_ok user_step_keeps)

section \<open>Saving while the user goes on\<close>

lemma async_bind_assoc:
  "async_bind (snd (async_bind p f s)) g (fst (async_bind p f s)) = async_bind p (\<lambda>r. act_bind (f r) g) s"
proof (induction p arbitrary: s rule: async_induct)
  case (Return r)
  then show ?case by (simp add: act_bind_def)
qed simp_all

text \<open>
  Resuming an operation of the canvas with one answer after another; before each the user may change
  the state. The result has the requests it sent, and the last state.
\<close>

primrec drive ::
    "(answer \<times> (canvas_state \<Rightarrow> canvas_state)) list
       \<Rightarrow> canvas_state \<times> (canvas_request, answer, canvas_state, thrown, unit) async
       \<Rightarrow> canvas_request list \<times> canvas_state \<times> (canvas_request, answer, canvas_state, thrown, unit) async" where
  "drive [] r = ([], r)"
| "drive (x # xs) r =
     (case snd r of
        Await q k \<Rightarrow> map_prod (Cons q) id (drive xs (k (fst x) (snd x (fst r))))
      | _ \<Rightarrow> ([], r))"

definition group_answered :: "string list \<times> string list \<Rightarrow> save_group \<Rightarrow> answer \<Rightarrow> string list \<times> string list" where
  "group_answered acc gateways a =
     (case a of Resolved v \<Rightarrow> save_answered gateways acc v | Rejected e \<Rightarrow> save_refused gateways acc e)"

definition accepted :: "answer \<Rightarrow> bool" where
  "accepted a = (case a of Resolved v \<Rightarrow> truthy (getProp v ''success'' (JBool False)) | Rejected e \<Rightarrow> False)"

definition user_edits :: "(answer \<times> (canvas_state \<Rightarrow> canvas_state)) list \<Rightarrow> canvas_state \<Rightarrow> canvas_state" where
  "user_edits xs s = foldl (\<lambda>s x. snd x s) s xs"

definition save_results :: "string list \<times> string list \<Rightarrow> (rat \<times> save_group) list \<Rightarrow> answer list \<Rightarrow> string list \<times> string list" where
  "save_results acc payload answers = foldl (\<lambda>acc (p, a). group_answered acc (snd p) a) acc (zip payload answers)"

lemma save_groups_drive:
  assumes "length xs = length payload" and "\<And>r t. \<exists>u v. f r t = (u, Return v)"
  shows "drive xs (act_bind (save_groups payload acc) f s) =
    (map (\<lambda>(i, gs). SetGatewayLink i (map request_entry gs)) payload, f (save_results acc payload (map fst xs)) (user_edits xs s))"
  using assms(1)
proof (induction payload arbitrary: xs acc s)
  case Nil
  then show ?case by (simp add: save_results_def user_edits_def act_run)
next
  case (Cons p payload)
  obtain i gs where p: "p = (i, gs)" by (cases p)
  obtain x ys where xs: "xs = x # ys" "length ys = length payload" using Cons.prems by (cases xs) auto
  obtain k where first: "act_bind (save_groups (p # payload) acc) f s = (s, Await (SetGatewayLink i (map request_entry gs)) k)"
    and next1: "\<And>a t. k a t = act_bind (save_groups payload (group_answered acc gs a)) f t"
  proof -
    define g where "g = save_groups payload"
    define m where "m = act_try (act_bind (canvas_await (SetGatewayLink i (map request_entry gs)))
        (\<lambda>response. act_return (save_answered gs acc response))) (\<lambda>err. act_return (save_refused gs acc err))"
    have "\<exists>k. m s = (s, Await (SetGatewayLink i (map request_entry gs)) k) \<and>
        (\<forall>a t. k a t = (t, Return (group_answered acc gs a)))"
      by (simp add: m_def act_run canvas_await_def group_answered_def split: answer.split)
    then obtain k where "m s = (s, Await (SetGatewayLink i (map request_entry gs)) k)"
      "\<And>a t. k a t = (t, Return (group_answered acc gs a))" by blast
    then have "\<exists>k. act_bind (act_bind m g) f s = (s, Await (SetGatewayLink i (map request_entry gs)) k) \<and>
        (\<forall>a t. k a t = act_bind (g (group_answered acc gs a)) f t)"
      by (simp add: act_run)
    then show ?thesis using that unfolding p m_def g_def by auto
  qed
  have "save_results acc (p # payload) (map fst xs) = save_results (group_answered acc gs (fst x)) payload (map fst ys)"
    "user_edits xs s = user_edits ys (snd x s)"
    by (simp_all add: save_results_def user_edits_def xs p)
  then show ?case
    using Cons.IH [OF xs(2)] by (simp add: first [unfolded p] next1 xs(1) p del: save_groups.simps)
qed

lemma no_failures:
  "length answers = length payload \<Longrightarrow>
    fst (save_results acc payload answers) = [] \<longleftrightarrow> fst acc = [] \<and> list_all accepted answers"
proof (induction payload arbitrary: acc answers)
  case (Cons p payload)
  then obtain a as where as: "answers = a # as" "length as = length payload" by (cases answers) auto
  have "fst (group_answered acc (snd p) a) = [] \<longleftrightarrow> fst acc = [] \<and> accepted a"
    by (auto simp: group_answered_def accepted_def save_answered_def save_refused_def Let_def split: answer.split)
  moreover have "save_results acc (p # payload) answers = save_results (group_answered acc (snd p) a) payload as"
    by (simp add: save_results_def as)
  ultimately show ?case using Cons.IH [OF as(2)] by (simp add: as)
qed (simp add: save_results_def)

lemma user_edits_baseline:
  "\<forall>(a, f)\<in>set xs. \<forall>t. (user_step le)\<^sup>*\<^sup>* t (f t) \<Longrightarrow> cv_baseline (user_edits xs s) = cv_baseline s"
proof (induction xs arbitrary: s)
  case (Cons x xs)
  have "cv_baseline t' = cv_baseline t" if "(user_step le)\<^sup>*\<^sup>* t t'" for t t'
    using that by (induction rule: rtranclp_induct) (auto dest: user_step_keeps)
  then have "cv_baseline (snd x s) = cv_baseline s" using Cons.prems by (cases x) auto
  with Cons show ?case by (simp add: user_edits_def)
qed (simp add: user_edits_def)

lemma save_ended_facts:
  "cv_edits (save_ended E n r s) = cv_edits s"
  "cv_baseline (save_ended E n r s) = (if fst r = [] then filter (\<lambda>(key, ts). \<not> isMockEditKey key) E else cv_baseline s)"
  by (simp_all add: save_ended_def Let_def)

section \<open>A session that loaded nothing\<close>

lemma one_link_requests:
  assumes "0 \<le> cr_sourceInstanceId q" and "0 \<le> cr_targetInstanceId q"
    and ends: "cr_sourceInstanceId q \<noteq> cr_targetInstanceId q" and "cr_sourceGateway q \<noteq> []" and "cr_targetGateway q \<noteq> []"
  shows "set (save_requests (applyConnect [] q) []) =
    {(of_int (cr_sourceInstanceId q), [request_entry (cr_sourceGateway q, [forward_link q])]),
     (of_int (cr_targetInstanceId q), [request_entry (cr_targetGateway q, [reverse_link q])])}"
proof -
  define E where "E = [(forward_key q, [forward_link q]), (reverse_key q, [reverse_link q])]"
  have neq: "forward_key q \<noteq> reverse_key q" using ends by (simp add: forward_key_def reverse_key_def)
  have E: "applyConnect [] q = E"
    using assms neq by (simp add: applyConnect_def E_def withTarget_def nullish_def)
  have get: "jm_get E (forward_key q) = Some [forward_link q]" "jm_get E (reverse_key q) = Some [reverse_link q]"
    using neq by (simp_all add: E_def)
  have f: "parse_edit_key (forward_key q) = Some (of_int (cr_sourceInstanceId q), cr_sourceGateway q)"
    and r: "parse_edit_key (reverse_key q) = Some (of_int (cr_targetInstanceId q), cr_targetGateway q)"
    using assms(4,5) by (simp_all add: forward_key_def reverse_key_def)
  have "filter (\<lambda>key. \<not> sameTargets (edit_targets E key) (edit_targets [] key)) (union_keys E []) = [forward_key q, reverse_key q]"
    using get by (simp add: union_keys_def sameTargets_def nullish_def) (simp add: E_def)
  then have "dirtyKeys E [] \<in> {[forward_key q, reverse_key q], [reverse_key q, forward_key q]}"
    by (simp add: dirtyKeys_def js_sort_def)
  then have pending: "pending_keys E [] \<in> {[forward_key q, reverse_key q], [reverse_key q, forward_key q]}"
    using f r assms(1,2) by (auto simp: pending_keys_def isMockEditKey_def isMockInstanceId_def)
  have gates: "str_or (g_targetGateway (forward_link q)) n = cr_targetGateway q" "str_or (g_targetGateway (reverse_link q)) n = cr_sourceGateway q" for n
    using assms(4,5) by (simp_all add: forward_link_def reverse_link_def str_or_def)
  have same: "(forward_link q)\<lparr>g_targetGateway := cr_targetGateway q\<rparr> = forward_link q"
    "(reverse_link q)\<lparr>g_targetGateway := cr_sourceGateway q\<rparr> = reverse_link q"
    by (simp_all add: forward_link_def reverse_link_def)
  have "save_payload E [] \<in>
     {([], [(of_int (cr_sourceInstanceId q), [(cr_sourceGateway q, [forward_link q])]),
            (of_int (cr_targetInstanceId q), [(cr_targetGateway q, [reverse_link q])])]),
      ([], [(of_int (cr_targetInstanceId q), [(cr_targetGateway q, [reverse_link q])]),
            (of_int (cr_sourceInstanceId q), [(cr_sourceGateway q, [forward_link q])])])}"
    using pending ends get by (auto simp: save_payload_def group_key_def f r nullish_def gates same)
  moreover have "mockLeaksInPayload [(of_int (cr_sourceInstanceId q), [(cr_sourceGateway q, [forward_link q])]),
            (of_int (cr_targetInstanceId q), [(cr_targetGateway q, [reverse_link q])])] = []"
    "mockLeaksInPayload [(of_int (cr_targetInstanceId q), [(cr_targetGateway q, [reverse_link q])]),
            (of_int (cr_sourceInstanceId q), [(cr_sourceGateway q, [forward_link q])])] = []"
    using assms(1,2) by (simp_all add: mockLeaksInPayload_def isMockInstanceId_def forward_link_def reverse_link_def)
  ultimately show ?thesis
    unfolding E by (auto simp: save_requests_def)
qed

text \<open>The first segment of a save already replaces the links of the submitted gateways.\<close>

lemma save_links_stores: "gatewayLinks (fst (save_links i N w)) = foldl (store_link i) (gatewayLinks w) N"
  by (simp add: save_links_def persistGatewayConfig_def await_value_def request_act_def emit_effect_def act_run)

lemma hub_change_accepted:
  assumes mode: "config w ''surface_export.gateway_mode'' = Some (JStr ''one_gate'')"
    and inst: "find_instance w (num_of_int i) = Some inst" "\<not> n_isDeleted inst"
    and "j \<noteq> i" and "m \<noteq> []"
  shows "\<exists>N. handleSetGatewayLinkRequest (js_int i)
        [request_entry (ONE_GATE_NAME, [\<lparr>g_targetInstanceId = j, g_targetGateway = m\<rparr>])] w = save_links i N w
    \<and> links_of (fst (save_links i N w)) i ONE_GATE_NAME = [\<lparr>g_targetInstanceId = j, g_targetGateway = m\<rparr>]"
proof -
  let ?N = "[(ONE_GATE_NAME, [\<lparr>g_targetInstanceId = j, g_targetGateway = m\<rparr>])]"
  have N: "normalize_entries OneGate i [] [request_entry (ONE_GATE_NAME, [\<lparr>g_targetInstanceId = j, g_targetGateway = m\<rparr>])] = Inr ?N"
    using assms(4,5)
    by (simp add: request_entry_def gatewayNamesFor_def ONE_GATE_NAMES_def ONE_GATE_NAME_def normalize_targets_def
        ostr_or_def js_int_def)
  have "handleSetGatewayLinkRequest (js_int i)
        [request_entry (ONE_GATE_NAME, [\<lparr>g_targetInstanceId = j, g_targetGateway = m\<rparr>])] w = save_links i ?N w"
    using mode inst N
    by (simp add: handleSetGatewayLinkRequest_def gatewayMode_def with_config_def parseGatewayMode_def act_run js_int_def)
  moreover have "links_of (fst (save_links i ?N w)) i ONE_GATE_NAME = next_links w i ?N ONE_GATE_NAME"
    by (rule links_of_after) (simp_all add: save_links_stores jm_wf_def)
  ultimately show ?thesis by (intro exI [of _ ?N]) (simp add: next_links_def nullish_def jm_has_def)
qed

lemma request_is_connected:
  assumes "link_request l = Some q"
  shows "onConnect nodes l s = s\<lparr>cv_edits := applyConnect (cv_edits s) q\<rparr>"
proof -
  have "platformIndexFromHandleId (fl_sourceHandle l) = None"
    using assms platform_handle_is_no_gateway
    by (fastforce simp: link_request_def toConnectRequest_def split: option.splits)
  then have "platformFromHandle nodes (fl_source l) (fl_sourceHandle l) = None" by (simp add: platformFromHandle_def)
  with assms show ?thesis by (simp add: onConnect_def)
qed

lemma valid_connection_real:
  assumes "isValidConnection l s" and "link_request l = Some q" and "0 \<le> cr_sourceInstanceId q"
  shows "0 \<le> cr_targetInstanceId q"
  using assms
  by (auto simp: isValidConnection_def link_refusal_def connectionRefusal_def link_request_def toConnectRequest_def
      request_of_ends_def isMockInstanceId_def Let_def split: option.splits if_splits)

section \<open>Properties\<close>

text \<open>
  C40: every history of drawing, clicking, deleting, bulk linking, reverting and locking keeps the
  session in order: the staged links and the loaded ones stay well formed and reciprocal and in the
  multi layout one to one, the baseline and the mode do not move, and every edge that is drawn has
  both directions. Only a connection that the canvas does not refuse is staged, and only a drawn edge
  can be clicked or deleted.
\<close>

theorem canvas_history_keeps_order:
  assumes "(user_step le)\<^sup>*\<^sup>* s s'" and "session_ok s"
  shows "session_ok s' \<and> cv_baseline s' = cv_baseline s \<and> cv_mode s' = cv_mode s
    \<and> (\<forall>e\<in>set (buildEdges le (cv_edits s')). ge_forward e \<and> ge_reverse e)"
proof -
  note facts = history_ok [OF assms]
  then have "edits_wf (cv_edits s')" "reciprocal (cv_edits s')" by (simp_all add: session_ok_def staged_ok_def)
  then show ?thesis using facts edges_both_ways by blast
qed


text \<open>
  C39: what a save comes to, whatever is answered and whatever the user does meanwhile. It sends the
  request of every changed instance, one after another, also after a failure. What the user stages
  meanwhile is kept. The baseline becomes what was staged when the button was pressed, without mock
  instances, exactly if nothing was unreadable or named a mock instance and every request was
  answered with success; otherwise it stays.
\<close>

theorem canvas_save_outcome:
  assumes "length xs = length (save_requests (cv_edits s) (cv_baseline s))"
    and "\<forall>(a, f)\<in>set xs. \<forall>t. (user_step le)\<^sup>*\<^sup>* t (f t)"
  shows "\<exists>t. drive xs (canvas_save s) =
      (map (\<lambda>(i, entries). SetGatewayLink i entries) (save_requests (cv_edits s) (cv_baseline s)), t, Return ())
    \<and> \<not> cv_saving t \<and> cv_edits t = cv_edits (user_edits xs (s\<lparr>cv_saving := True\<rparr>))
    \<and> cv_baseline t =
        (if fst (save_payload (cv_edits s) (cv_baseline s)) = []
            \<and> mockLeaksInPayload (snd (save_payload (cv_edits s) (cv_baseline s))) = []
            \<and> list_all accepted (map fst xs)
         then filter (\<lambda>(key, ts). \<not> isMockEditKey key) (cv_edits s) else cv_baseline s)"
proof -
  define E where "E = cv_edits s"
  define n where "n = length (pending_keys E (cv_baseline s))"
  obtain bad payload where P: "save_payload E (cv_baseline s) = (bad, payload)" by (cases "save_payload E (cv_baseline s)")
  define s0 where "s0 = s\<lparr>cv_saving := True\<rparr>"
  show ?thesis
  proof (cases "mockLeaksInPayload payload = []")
    case True
    define f where "f = (\<lambda>r t. ((save_ended E n r t)\<lparr>cv_saving := False\<rparr>, Return () :: (canvas_request, answer, canvas_state, thrown, unit) async))"
    have save: "canvas_save s = act_bind (save_groups payload (bad, [])) f s0"
    proof -
      define G where "G = save_groups payload (bad, [])"
      have "act_bind (act_bind G (\<lambda>r. act_do (save_ended E n r))) (\<lambda>_. act_do (\<lambda>s. s\<lparr>cv_saving := False\<rparr>)) s0 = act_bind G f s0"
        unfolding act_bind_def async_bind_assoc by (simp add: f_def act_bind_def act_do_def)
      then show ?thesis
        using True by (simp add: canvas_save_def act_run P [unfolded E_def] s0_def n_def E_def G_def Let_def)
    qed
    have requests: "save_requests E (cv_baseline s) = map (\<lambda>(i, gs). (i, map request_entry gs)) payload"
      using True by (simp add: save_requests_def P)
    then have len: "length xs = length payload" using assms(1) by (simp add: E_def)
    define r where "r = save_results (bad, []) payload (map fst xs)"
    have "drive xs (canvas_save s) =
        (map (\<lambda>(i, gs). SetGatewayLink i (map request_entry gs)) payload, f r (user_edits xs s0))"
      unfolding save r_def by (rule save_groups_drive [OF len]) (simp add: f_def)
    moreover have "map (\<lambda>(i, gs). SetGatewayLink i (map request_entry gs)) payload
        = map (\<lambda>(i, entries). SetGatewayLink i entries) (save_requests E (cv_baseline s))"
      by (simp add: requests o_def case_prod_beta)
    moreover have "fst r = [] \<longleftrightarrow> bad = [] \<and> list_all accepted (map fst xs)"
      unfolding r_def using no_failures [of "map fst xs" payload "(bad, [])"] len by simp
    moreover have "cv_baseline (user_edits xs s0) = cv_baseline s"
      using user_edits_baseline [OF assms(2)] by (simp add: s0_def)
    ultimately show ?thesis
      using True by (simp add: f_def save_ended_facts P E_def [symmetric] s0_def [symmetric])
  next
    case False
    then have "xs = []" using assms(1) by (simp add: save_requests_def P [unfolded E_def])
    then show ?thesis
      using False by (simp add: canvas_save_def act_run P [unfolded E_def] user_edits_def save_requests_def Let_def)
  qed
qed


section \<open>Witnesses\<close>

lemma empty_order [simp]: "staged_ok mode []"
  by (simp add: staged_ok_def edits_wf_def reciprocal_def linked_def layout_def nullish_def multi_layout_def links_to_def)

lemma one_step: "user_step le s t \<Longrightarrow> (user_step le)\<^sup>*\<^sup>* s t"
  by (rule r_into_rtranclp)

lemma bulk_of_two: "user_step le s (bulkLink [1, 2] True s)"
  by (rule user_step.bulk) simp

lemma start_ok: "session_ok canvas_start"
  by (simp add: session_ok_def canvas_start_def)

theorem canvas_history_keeps_order_witness:
  "let s = revert (bulkLink [1, 2] True canvas_start) in session_ok s
     \<and> list_all (\<lambda>e. ge_forward e \<and> ge_reverse e) (buildEdges (\<lambda>a b. True) (cv_edits s))"
proof -
  have "(user_step (\<lambda>a b. True))\<^sup>*\<^sup>* canvas_start (revert (bulkLink [1, 2] True canvas_start))"
    by (rule rtranclp.rtrancl_into_rtrancl [OF one_step]) (rule bulk_of_two user_step.reverted)+
  from canvas_history_keeps_order [OF this start_ok] show ?thesis by (simp add: Let_def list_all_iff)
qed

text \<open>A connection from the hub of instance 1 to that of instance 2.\<close>

definition hub_link :: flow_link where
  "hub_link = \<lparr>fl_source = Some (''instance:'' @ show_int 1), fl_sourceHandle = Some (sourceHandleId ONE_GATE_NAME None),
     fl_target = Some (''instance:'' @ show_int 2), fl_targetHandle = Some (targetHandleId ONE_GATE_NAME None),
     fl_transient = False\<rparr>"

definition hub_request :: connect_request where
  "hub_request = \<lparr>cr_sourceInstanceId = 1, cr_sourceGateway = ONE_GATE_NAME, cr_targetInstanceId = 2, cr_targetGateway = ONE_GATE_NAME\<rparr>"

lemma hub_handles:
  "gatewayFromHandleId (Some (sourceHandleId ONE_GATE_NAME None)) = Some ONE_GATE_NAME"
  "gatewayFromHandleId (Some (targetHandleId ONE_GATE_NAME None)) = Some ONE_GATE_NAME"
  "platformIndexFromHandleId (Some (sourceHandleId ONE_GATE_NAME None)) = None"
  "platformIndexFromHandleId (Some (targetHandleId ONE_GATE_NAME None)) = None"
  by code_simp+

lemma hub_link_facts: "link_request hub_link = Some hub_request" "isValidConnection hub_link canvas_start"
  by (simp_all add: link_request_def hub_link_def toConnectRequest_def hub_handles request_of_ends_def hub_request_def
      isValidConnection_def link_refusal_def connectionRefusal_def canvas_start_def isMockInstanceId_def
      DEFAULT_GATEWAY_MODE_def Let_def)

definition hub_plugin :: plugin where
  "hub_plugin = (sample_plugin sample_transfer)
     \<lparr>config := (\<lambda>_. Some (JStr ''one_gate'')), instances := [(1, sample_instance)],
      gatewayLinks := [(gateway_key 1 ONE_GATE_NAME, [\<lparr>g_targetInstanceId = 3, g_targetGateway = ONE_GATE_NAME\<rparr>])]\<rparr>"

lemma hub_plugin_instance: "find_instance hub_plugin (num_of_int 1) = Some sample_instance"
  by (simp add: find_instance_def hub_plugin_def is_integer_def int_of_num_def)


theorem canvas_save_outcome_witness:
  "let ok = Resolved (JObj [(''success'', JBool True)]) in
   \<exists>t. drive [(ok, revert), (ok, \<lambda>t. t)] (canvas_save (canvas_start\<lparr>cv_edits := canvas_sample\<rparr>)) =
       (map (\<lambda>(i, entries). SetGatewayLink i entries) (save_requests canvas_sample []), t, Return ())
     \<and> cv_edits t = [] \<and> cv_baseline t = filter (\<lambda>(key, ts). \<not> isMockEditKey key) canvas_sample"
proof -
  define ok where "ok = Resolved (JObj [(''success'', JBool True)])"
  define s where "s = canvas_start\<lparr>cv_edits := canvas_sample\<rparr>"
  have s: "cv_edits s = canvas_sample" "cv_baseline s = []" by (simp_all add: s_def canvas_start_def)
  have ok: "accepted ok"
    by (simp add: ok_def accepted_def getProp_def is_object_def prop_get_def val_nullish_def is_nullish_def)
  have len: "length [(ok, revert), (ok, \<lambda>t. t)] = length (save_requests (cv_edits s) (cv_baseline s))"
    by (simp add: s canvas_sample_saves)
  have user: "\<forall>(a, f)\<in>set [(ok, revert), (ok, \<lambda>t. t)]. \<forall>t. (user_step (\<lambda>a b. True))\<^sup>*\<^sup>* t (f t)"
    by (auto intro: r_into_rtranclp user_step.reverted)
  have "mockLeaksInPayload (snd (save_payload canvas_sample [])) = []"
    using canvas_sample_saves by (auto simp: save_requests_def Let_def split: if_splits)
  moreover have "fst (save_payload canvas_sample []) = []"
    by (simp add: save_payload_def canvas_sample_keys group_key_def sample_gate_nonempty)
  moreover have "cv_edits (user_edits [(ok, revert), (ok, \<lambda>t. t)] (s\<lparr>cv_saving := True\<rparr>)) = []"
    by (simp add: user_edits_def revert_def s)
  ultimately show ?thesis
    using canvas_save_outcome [OF len user] ok unfolding s ok_def [symmetric] s_def [symmetric] Let_def by auto
qed


end
