(* ===== verification/CanvasDebug.thy ===== *)
theory CanvasDebug
  imports CanvasSession
begin

text \<open>
  The edges the canvas draws, with the transfers on them (the effect of web/gateway/GatewayCanvas.tsx
  that sets the edges), and the debug interface of the canvas (web/gateway/debug-api.ts): mocks, ships,
  scenarios and replays. Ids of instances are integers; counts of mocks are whole numbers.
\<close>

section \<open>Edges\<close>

text \<open>A ship as it is put on an edge.\<close>

record drawn_ship =
  dw_transferId :: string
  dw_sourceInstanceId :: int
  dw_targetInstanceId :: int

record drawn_edge =
  de_id :: string
  de_source :: string
  de_sourceHandle :: string
  de_target :: string
  de_targetHandle :: string
  de_selected :: bool
  de_deletable :: bool
  de_dimmed :: bool
  de_markerStart :: "string option"
  de_markerEnd :: "string option"
  de_transient :: bool
  de_sourceGateway :: string
  de_sourceInstanceId :: rat
  de_transfers :: "drawn_ship list"

definition pair_key :: "drawn_ship \<Rightarrow> string" where
  "pair_key s = instancePairKey (of_int (dw_sourceInstanceId s)) (of_int (dw_targetInstanceId s))"

text \<open>Ships that have no edge yet, by their transfer; an edge takes the ships of its two instances.\<close>

type_synonym unassigned = "(string, drawn_ship) jsmap"

definition unassigned_ships :: "drawn_ship list \<Rightarrow> unassigned" where
  "unassigned_ships ships = foldl (\<lambda>m s. jm_set m (dw_transferId s) s) [] ships"

definition shipsFor :: "rat \<Rightarrow> rat \<Rightarrow> unassigned \<Rightarrow> drawn_ship list \<times> unassigned" where
  "shipsFor a b m =
     (let wanted = instancePairKey a b
      in (filter (\<lambda>s. pair_key s = wanted) (jm_values m), filter (\<lambda>(k, s). pair_key s \<noteq> wanted) m))"

text \<open>Instances whose node is not dimmed.\<close>

definition focused_ids :: "graph_node list \<Rightarrow> rat list" where
  "focused_ids nodes = List.map_filter (\<lambda>n. if gn_dimmed n then None else instanceIdFromNodeId (Some (gn_id n))) nodes"

definition dim_edge :: "graph_node list \<Rightarrow> rat \<Rightarrow> rat \<Rightarrow> bool" where
  "dim_edge nodes a b = (a \<notin> set (focused_ids nodes) \<and> b \<notin> set (focused_ids nodes))"

definition link_edge :: "graph_node list \<Rightarrow> bool \<Rightarrow> string list \<Rightarrow> gateway_edge \<Rightarrow> drawn_ship list \<Rightarrow> drawn_edge" where
  "link_edge nodes interactive selected e riding =
     (let colour = gatewayColour (Some (ep_gateway (ge_low e))) in
      \<lparr>de_id = ge_id e, de_source = ge_source e, de_sourceHandle = ge_sourceHandle e, de_target = ge_target e,
       de_targetHandle = ge_targetHandle e, de_selected = (ge_id e \<in> set selected), de_deletable = interactive,
       de_dimmed = dim_edge nodes (ep_instanceId (ge_low e)) (ep_instanceId (ge_high e)),
       de_markerStart = (if ge_reverse e then Some colour else None),
       de_markerEnd = (if ge_forward e then Some colour else None),
       de_transient = False, de_sourceGateway = ep_gateway (ge_low e), de_sourceInstanceId = ep_instanceId (ge_low e),
       de_transfers = riding\<rparr>)"

fun link_edges ::
    "(gateway_edge \<Rightarrow> drawn_ship list \<Rightarrow> drawn_edge) \<Rightarrow> gateway_edge list \<Rightarrow> unassigned \<Rightarrow> drawn_edge list \<times> unassigned" where
  "link_edges draw [] m = ([], m)"
| "link_edges draw (e # es) m =
     (let (riding, m1) = shipsFor (ep_instanceId (ge_low e)) (ep_instanceId (ge_high e)) m;
          (drawn, m2) = link_edges draw es m1
      in (draw e riding # drawn, m2))"

definition ship_groups :: "drawn_ship list \<Rightarrow> (string, drawn_ship list) jsmap" where
  "ship_groups ships = foldl (\<lambda>m s. jm_set m (pair_key s) (nullish (jm_get m (pair_key s)) [] @ [s])) [] ships"

text \<open>Ships without a link get an edge of their own, if both their instances are drawn.\<close>

definition transient_edge :: "graph_node list \<Rightarrow> string \<Rightarrow> drawn_ship list \<Rightarrow> drawn_edge" where
  "transient_edge nodes anchor riders =
     (let first = hd riders in
      \<lparr>de_id = transientEdgeId (pair_key first),
       de_source = instanceNodeId (dw_sourceInstanceId first), de_sourceHandle = sourceHandleId anchor None,
       de_target = instanceNodeId (dw_targetInstanceId first), de_targetHandle = targetHandleId anchor None,
       de_selected = False, de_deletable = False,
       de_dimmed = dim_edge nodes (of_int (dw_sourceInstanceId first)) (of_int (dw_targetInstanceId first)),
       de_markerStart = None, de_markerEnd = Some (gatewayColour (Some anchor)),
       de_transient = True, de_sourceGateway = anchor, de_sourceInstanceId = of_int (dw_sourceInstanceId first),
       de_transfers = riders\<rparr>)"

definition group_drawn :: "graph_node list \<Rightarrow> drawn_ship list \<Rightarrow> bool" where
  "group_drawn nodes riders =
     (instanceNodeId (dw_sourceInstanceId (hd riders)) \<in> gn_id ` set nodes
      \<and> instanceNodeId (dw_targetInstanceId (hd riders)) \<in> gn_id ` set nodes)"

definition canvas_edges ::
    "graph_node list \<Rightarrow> gateway_edge list \<Rightarrow> drawn_ship list \<Rightarrow> gateway_mode \<Rightarrow> bool \<Rightarrow> string list \<Rightarrow> drawn_edge list" where
  "canvas_edges nodes edges ships mode interactive selected =
     (let (drawn, rest) = link_edges (link_edge nodes interactive selected) edges (unassigned_ships ships)
      in drawn @ map (transient_edge nodes (hd (gatewayNamesFor mode)))
           (filter (group_drawn nodes) (jm_values (ship_groups (jm_values rest)))))"

section \<open>Other small parts of the canvas\<close>

text \<open>Focusing a node selects it alone; the centre of the view, if the node exists.\<close>

definition focusNode :: "string \<Rightarrow> 'a positioned list \<Rightarrow> 'a positioned list \<times> (rat \<times> rat) option" where
  "focusNode nodeId nodes =
     (map (\<lambda>n. n\<lparr>pn_selected := Some (pn_id n = nodeId)\<rparr>) nodes,
      map_option (\<lambda>n. (fst (pn_position n) + NODE_DIAMETER / 2, snd (pn_position n) + NODE_DIAMETER / 2))
        (List.find (\<lambda>n. pn_id n = nodeId) nodes))"

text \<open>After a drag the positions are stored, and kept for the next rebuild of the graph.\<close>

definition onNodeDragStop :: "'a positioned list \<Rightarrow> string \<times> saved_layout" where
  "onNodeDragStop nodes =
     (saveLayout (map (\<lambda>n. \<lparr>ln_id = pn_id n, ln_position = pn_position n\<rparr>) nodes),
      foldl (\<lambda>m n. jm_set m (pn_id n) (pn_position n)) [] nodes)"

definition effectiveHostFilter :: "canvas_graph \<Rightarrow> string \<Rightarrow> string" where
  "effectiveHostFilter graph hostFilter = (if hostFilter \<in> fst ` set (cg_hosts graph) then hostFilter else ALL_HOSTS)"

definition platform_option :: "graph_node \<Rightarrow> jsval \<Rightarrow> string \<times> string" where
  "platform_option n p =
     (let index = js_text (prop_get p ''platformIndex'') in
      (gn_id n @ CHR '':'' # index,
       js_text (val_or (prop_get p ''platformName'') (JStr (''platform '' @ index))) @ CHR '' '' # em_dash @ CHR '' ''
         # str_or (gn_instanceName n) (gn_id n)))"

definition platformOptions :: "graph_node list \<Rightarrow> (string \<times> string) list" where
  "platformOptions nodes = concat (map (\<lambda>n. map (platform_option n) (gn_platforms n)) nodes)"

record canvas_description =
  cd_source :: string
  cd_instances :: nat
  cd_mockInstances :: nat
  cd_platforms :: nat
  cd_links :: nat
  cd_debugMode :: bool
  cd_shipPhases :: "string list"
  cd_replaying :: nat
  cd_geometry :: bool

definition describe :: "debug_settings \<Rightarrow> debug_scenario option \<Rightarrow> canvas_graph \<Rightarrow> canvas_description" where
  "describe state loaded graph =
     \<lparr>cd_source = (if loaded = None then ''live cluster'' else ''scenario''),
      cd_instances = length (cg_nodes graph),
      cd_mockInstances = length (filter (\<lambda>n. isMockInstanceId (of_int (gn_instanceId n))) (cg_nodes graph)),
      cd_platforms = foldl (\<lambda>k n. k + length (gn_platforms n)) 0 (cg_nodes graph),
      cd_links = length (cg_edges graph), cd_debugMode = db_enabled state, cd_shipPhases = ds_shipPhases state,
      cd_replaying = length (ds_replayTransferIds state), cd_geometry = ds_showGeometry state\<rparr>"

section \<open>The debug interface\<close>

record debug_page =
  dp_settings :: debug_settings
  dp_scenario :: "debug_scenario option"

definition patch :: "(debug_settings \<Rightarrow> debug_settings) \<Rightarrow> debug_page \<Rightarrow> debug_page" where
  "patch f d = d\<lparr>dp_settings := (f (dp_settings d))\<lparr>db_enabled := True\<rparr>\<rparr>"

definition debug_on :: "debug_page \<Rightarrow> debug_page" where "debug_on = patch id"

definition debug_off :: "debug_page \<Rightarrow> debug_page" where
  "debug_off d = d\<lparr>dp_settings := (dp_settings d)\<lparr>db_enabled := False\<rparr>\<rparr>"

definition debug_mocks :: "nat option \<Rightarrow> nat option \<Rightarrow> debug_page \<Rightarrow> debug_page" where
  "debug_mocks count pads =
     patch (\<lambda>s. s\<lparr>db_mockInstances := nullish count 4, db_mockPlatforms := nullish pads 3\<rparr>)"

definition debug_geometry :: "jsval \<Rightarrow> debug_page \<Rightarrow> debug_page" where
  "debug_geometry on = patch (\<lambda>s. s\<lparr>ds_showGeometry := (if on = JUndef then True else truthy on)\<rparr>)"

definition debug_ships :: "jsval list \<Rightarrow> debug_page \<Rightarrow> string + debug_page" where
  "debug_ships phases d =
     (if phases = [JBool False] then Inr (patch (\<lambda>s. s\<lparr>ds_shipPhases := []\<rparr>) d)
      else
        let wanted = (if phases = [] then SHIP_PHASE_NAMES else map js_text phases);
            unknown = filter (\<lambda>p. p \<notin> set SHIP_PHASE_NAMES) wanted
        in if unknown \<noteq> [] then Inl (''unknown transfer phase(s): '' @ join_with '', '' unknown @ ''. Known: ''
             @ join_with '', '' SHIP_PHASE_NAMES)
           else Inr (patch (\<lambda>s. s\<lparr>ds_shipPhases := wanted\<rparr>) d))"

text \<open>A scenario as it is given, with numbers for the indices; an accepted one has integers.\<close>

record scenario_document =
  sd_instances :: "scenario_instance list"
  sd_links :: "(jsnum \<times> jsnum) list"
  sd_ships :: "(jsnum \<times> jsnum \<times> string) list"

definition whole_index :: "jsnum \<Rightarrow> int option" where
  "whole_index n = (if is_integer n then Some (int_of_num n) else None)"

definition link_in_range :: "nat \<Rightarrow> jsnum \<times> jsnum \<Rightarrow> bool" where
  "link_in_range count l =
     (case (whole_index (fst l), whole_index (snd l)) of
        (Some i, Some j) \<Rightarrow> 0 \<le> i \<and> 0 \<le> j \<and> i < int count \<and> j < int count
      | _ \<Rightarrow> False)"

definition ship_in_range :: "nat \<Rightarrow> jsnum \<times> jsnum \<times> string \<Rightarrow> bool" where
  "ship_in_range count s =
     (case s of (a, b, status) \<Rightarrow>
       (case (whole_index a, whole_index b) of
          (Some i, Some j) \<Rightarrow> i < int count \<and> j < int count
        | _ \<Rightarrow> False))"

definition ship_text :: "jsnum \<times> jsnum \<times> string \<Rightarrow> string" where
  "ship_text s = (case s of (a, b, status) \<Rightarrow>
     json_text (JObj [(''from'', JNum a), (''to'', JNum b), (''status'', JStr status)]))"

definition range_text :: "nat \<Rightarrow> string" where
  "range_text count = '' is out of range '' @ em_dash @ '' instances are indexed 0..'' @ show_int (int count - 1)"

fun check_links :: "nat \<Rightarrow> (jsnum \<times> jsnum) list \<Rightarrow> string option" where
  "check_links count [] = None"
| "check_links count (l # ls) =
     (if \<not> link_in_range count l
      then Some (''link ['' @ num_text (fst l) @ '', '' @ num_text (snd l) @ '']'' @ range_text count)
      else check_links count ls)"

fun check_ships :: "nat \<Rightarrow> (jsnum \<times> jsnum \<times> string) list \<Rightarrow> string option" where
  "check_ships count [] = None"
| "check_ships count (s # ss) =
     (if \<not> ship_in_range count s then Some (''ship '' @ ship_text s @ range_text count)
      else if snd (snd s) \<notin> set SHIP_PHASE_NAMES
      then Some (''ship status \"'' @ snd (snd s) @ ''\" draws nothing. Known: '' @ join_with '', '' SHIP_PHASE_NAMES)
      else check_ships count ss)"

definition scenario_of :: "scenario_document \<Rightarrow> debug_scenario" where
  "scenario_of s =
     \<lparr>sc_instances = sd_instances s, sc_links = map (map_prod int_of_num int_of_num) (sd_links s),
      sc_ships = map (\<lambda>(a, b, status). (int_of_num a, int_of_num b, status)) (sd_ships s)\<rparr>"

definition debug_load :: "scenario_document \<Rightarrow> debug_page \<Rightarrow> string + debug_page" where
  "debug_load s d =
     (if sd_instances s = []
      then Inl (''a scenario needs an `instances` array '' @ em_dash @ '' see surfaceExportCanvas.help()'')
      else case check_links (length (sd_instances s)) (sd_links s) of
        Some e \<Rightarrow> Inl e
      | None \<Rightarrow> (case check_ships (length (sd_instances s)) (sd_ships s) of
          Some e \<Rightarrow> Inl e
        | None \<Rightarrow> Inr (patch id (d\<lparr>dp_scenario := Some (scenario_of s)\<rparr>))))"

definition last_n :: "nat \<Rightarrow> 'a list \<Rightarrow> 'a list" where
  "last_n n xs = drop (length xs - n) xs"

text \<open>Replays: none, the last few candidates, or transfers named by their ids.\<close>

definition debug_replay :: "summary list \<Rightarrow> jsval list \<Rightarrow> debug_page \<Rightarrow> string + debug_page" where
  "debug_replay candidates ids d =
     (let replaying = (\<lambda>ts. Inr (patch (\<lambda>s. s\<lparr>ds_replayTransferIds := ts\<rparr>) d));
          names = map (\<lambda>c. js_text (sm_id c)) candidates
      in if ids = [JBool False] then replaying []
         else if candidates = []
         then Inl (''no drawable transfers '' @ em_dash @ '' this page has seen no transfer summaries with two endpoints'')
         else case ids of
           [] \<Rightarrow> replaying (last_n 3 names)
         | JNum n # _ \<Rightarrow> replaying (case n of Fin q \<Rightarrow> last_n (nat \<lfloor>max 1 q\<rfloor>) names | NegInf \<Rightarrow> last_n 1 names | _ \<Rightarrow> names)
         | _ \<Rightarrow>
             let missing = filter (\<lambda>i. i \<notin> set names) (map js_text ids)
             in if missing \<noteq> []
                then Inl (''not drawable: '' @ join_with '', '' missing @ ''. Call transfers() for the list ''
                  @ em_dash @ '' an id is missing here if it is not a transfer, lacks an endpoint, or has a status the canvas does not map to a position.'')
                else replaying (map js_text ids))"

definition debug_reset :: "debug_page \<Rightarrow> debug_page" where
  "debug_reset d = d\<lparr>dp_scenario := None\<rparr>"

end
