(* ===== verification/CanvasDebugRules.thy ===== *)
theory CanvasDebugRules
  imports CanvasDebug CanvasRules "HOL-Library.Multiset"
begin

text \<open>
  The edges of the canvas carry every transfer once, and a scenario of the debug interface that is
  accepted consists of mock instances only; its ships, however, are not checked for negative indices.
\<close>

section \<open>Keys of pairs\<close>

lemma bar_notin_show_int: "CHR ''|'' \<notin> set (show_int i)"
  using show_int_chars [of "CHR ''|''" i] by (auto simp: is_digit_def digit_of_def)

lemma before_bar: "takeWhile (\<lambda>c. c \<noteq> CHR ''|'') (show_int i @ CHR ''|'' # r) = show_int i"
proof -
  have "\<forall>c\<in>set (show_int i). c \<noteq> CHR ''|''" using bar_notin_show_int by blast
  then show ?thesis by (simp add: takeWhile_append)
qed

lemma bar_inj: "show_int i @ CHR ''|'' # show_int j = show_int i' @ CHR ''|'' # show_int j' \<longleftrightarrow> i = i' \<and> j = j'"
proof
  assume eq: "show_int i @ CHR ''|'' # show_int j = show_int i' @ CHR ''|'' # show_int j'"
  then have "takeWhile (\<lambda>c. c \<noteq> CHR ''|'') (show_int i @ CHR ''|'' # show_int j)
      = takeWhile (\<lambda>c. c \<noteq> CHR ''|'') (show_int i' @ CHR ''|'' # show_int j')" by (rule arg_cong)
  then have "show_int i = show_int i'" unfolding before_bar .
  with eq show "i = i' \<and> j = j'" by (auto dest: show_int_inj)
qed simp

lemma pair_key_inj:
  "pair_key s = pair_key t \<longleftrightarrow> {dw_sourceInstanceId s, dw_targetInstanceId s} = {dw_sourceInstanceId t, dw_targetInstanceId t}"
  by (auto simp: pair_key_def instancePairKey_def bar_inj doubleton_eq_iff)

section \<open>Every ship once\<close>

lemma unassigned_distinct:
  assumes "distinct (map dw_transferId ss)"
  shows "jm_values (unassigned_ships ss) = ss"
proof -
  have "foldl (\<lambda>m s. jm_set m (dw_transferId s) s) m ss = m @ map (\<lambda>s. (dw_transferId s, s)) ss"
    if "distinct (map fst m @ map dw_transferId ss)" for m
    using that
  proof (induction ss arbitrary: m)
    case (Cons s ss)
    then have "jm_set m (dw_transferId s) s = m @ [(dw_transferId s, s)]" by (auto simp: jm_set_absent jm_has_iff)
    with Cons show ?case by simp
  qed simp
  from this [of "[]"] assms show ?thesis by (simp add: unassigned_ships_def o_def)
qed

lemma ships_for_split:
  assumes "shipsFor a b m = (riding, m1)"
  shows "mset riding + mset (jm_values m1) = mset (jm_values m)"
proof -
  have "jm_values m1 = filter (\<lambda>s. pair_key s \<noteq> instancePairKey a b) (jm_values m)"
    using assms by (auto simp: shipsFor_def Let_def filter_map o_def case_prod_unfold)
  moreover have "riding = filter (\<lambda>s. pair_key s = instancePairKey a b) (jm_values m)"
    using assms by (simp add: shipsFor_def Let_def)
  ultimately show ?thesis by simp
qed

lemma link_edges_split:
  assumes "\<And>e r. de_transfers (draw e r) = r"
  shows "mset (concat (map de_transfers (fst (link_edges draw es m)))) + mset (jm_values (snd (link_edges draw es m)))
    = mset (jm_values m)"
proof (induction es arbitrary: m)
  case (Cons e es)
  obtain riding m1 where r: "shipsFor (ep_instanceId (ge_low e)) (ep_instanceId (ge_high e)) m = (riding, m1)"
    by (cases "shipsFor (ep_instanceId (ge_low e)) (ep_instanceId (ge_high e)) m")
  show ?case using Cons.IH [of m1] ships_for_split [OF r] by (simp add: r assms case_prod_beta ac_simps)
qed simp

lemma group_set_mset:
  "mset (concat (jm_values (jm_set m k (nullish (jm_get m k) [] @ [s])))) = mset (concat (jm_values m)) + {#s#}"
  by (induction m) (auto simp: nullish_def)

lemma ship_groups_facts:
  "mset (concat (jm_values (ship_groups ss))) = mset ss
   \<and> jm_wf (ship_groups ss) \<and> (\<forall>(k, r)\<in>set (ship_groups ss). r \<noteq> [] \<and> (\<forall>s\<in>set r. pair_key s = k))"
proof (induction ss rule: rev_induct)
  case (snoc s ss)
  define m where "m = ship_groups ss"
  have step: "ship_groups (ss @ [s]) = jm_set m (pair_key s) (nullish (jm_get m (pair_key s)) [] @ [s])"
    by (simp add: ship_groups_def m_def)
  have wf: "jm_wf m" and inv: "\<And>k r. (k, r) \<in> set m \<Longrightarrow> r \<noteq> [] \<and> (\<forall>s\<in>set r. pair_key s = k)"
    and sum: "mset (concat (jm_values m)) = mset ss"
    using snoc unfolding m_def by auto
  have "\<forall>t\<in>set (nullish (jm_get m (pair_key s)) []). pair_key t = pair_key s"
    using inv by (cases "jm_get m (pair_key s)") (auto simp: nullish_def dest: jm_get_Some_in)
  then have "\<forall>(k, r)\<in>set (ship_groups (ss @ [s])). r \<noteq> [] \<and> (\<forall>s\<in>set r. pair_key s = k)"
    unfolding step using inv by (auto dest!: in_jm_set)
  then show ?case unfolding step using wf sum by (simp add: group_set_mset)
qed (simp add: ship_groups_def jm_wf_def)

lemma mset_concat_filter: "mset (concat (filter P xss)) \<subseteq># mset (concat xss)"
  by (induction xss) (auto intro: subset_mset.add_mono subset_mset.add_increasing)

text \<open>
  No transfer is drawn twice, and every transfer whose two instances are drawn is on an edge, a link
  of its instances or an edge of its own.
\<close>

theorem every_ship_is_drawn_once:
  assumes "distinct (map dw_transferId ss)"
  shows "mset (concat (map de_transfers (canvas_edges nodes edges ss mode interactive selected))) \<subseteq># mset ss
    \<and> (\<forall>s\<in>set ss. instanceNodeId (dw_sourceInstanceId s) \<in> gn_id ` set nodes \<and> instanceNodeId (dw_targetInstanceId s) \<in> gn_id ` set nodes
        \<longrightarrow> s \<in> set (concat (map de_transfers (canvas_edges nodes edges ss mode interactive selected))))"
proof -
  define draw where "draw = link_edge nodes interactive selected"
  have draw: "de_transfers (draw e r) = r" for e r by (simp add: draw_def link_edge_def Let_def)
  obtain drawn rest where dr: "link_edges draw edges (unassigned_ships ss) = (drawn, rest)"
    by (cases "link_edges draw edges (unassigned_ships ss)")
  define groups where "groups = jm_values (ship_groups (jm_values rest))"
  have split: "mset (concat (map de_transfers drawn)) + mset (jm_values rest) = mset ss"
    using link_edges_split [of draw edges "unassigned_ships ss"] unassigned_distinct [OF assms] draw by (simp add: dr)
  have groups: "mset (concat groups) = mset (jm_values rest)" "\<And>r. r \<in> set groups \<Longrightarrow> r \<noteq> [] \<and> (\<forall>s\<in>set r. pair_key s = pair_key (hd r))"
    using ship_groups_facts [of "jm_values rest"] unfolding groups_def by (auto split: prod.splits)
  have all: "concat (map de_transfers (canvas_edges nodes edges ss mode interactive selected))
      = concat (map de_transfers drawn) @ concat (filter (group_drawn nodes) groups)"
    by (simp add: canvas_edges_def dr draw_def [symmetric] groups_def o_def transient_edge_def Let_def)
  have "s \<in> set (concat (filter (group_drawn nodes) groups))"
    if "s \<in> set (jm_values rest)" "instanceNodeId (dw_sourceInstanceId s) \<in> gn_id ` set nodes" "instanceNodeId (dw_targetInstanceId s) \<in> gn_id ` set nodes" for s
  proof -
    from that(1) groups(1) have "s \<in> set (concat groups)" by (metis mset_eq_setD)
    then obtain r where r: "r \<in> set groups" "s \<in> set r" by auto
    then have "{dw_sourceInstanceId (hd r), dw_targetInstanceId (hd r)} = {dw_sourceInstanceId s, dw_targetInstanceId s}"
      using groups(2) [OF r(1)] pair_key_inj by metis
    then have "group_drawn nodes r" using that(2,3) by (auto simp: group_drawn_def doubleton_eq_iff)
    with r show ?thesis by auto
  qed
  moreover have "set ss = set (concat (map de_transfers drawn)) \<union> set (jm_values rest)"
    using split by (metis mset_append mset_eq_setD set_append)
  moreover have "mset (concat (map de_transfers drawn)) + mset (concat (filter (group_drawn nodes) groups)) \<subseteq># mset ss"
    unfolding split [symmetric] using mset_concat_filter [of "group_drawn nodes" groups] groups(1)
    by (intro subset_mset.add_left_mono) simp
  ultimately show ?thesis unfolding all by auto
qed

section \<open>Scenarios\<close>

lemma in_range_links: "check_links n ls = None \<Longrightarrow> l \<in> set ls \<Longrightarrow> link_in_range n l"
  by (induction ls) (auto split: if_splits)

definition all_mock :: "edits \<Rightarrow> bool" where
  "all_mock E \<longleftrightarrow> (\<forall>(key, ts)\<in>set E. (\<exists>i n. key = edit_key i n \<and> i < 0) \<and> (\<forall>t\<in>set ts. g_targetInstanceId t < 0))"

lemma push_target_mock:
  assumes "all_mock E" and "0 \<le> i" and "0 \<le> j"
  shows "all_mock (push_target name i j E)"
proof -
  have "\<forall>t\<in>set (nullish (jm_get E k) []). g_targetInstanceId t < 0" for k
    using assms(1) by (cases "jm_get E k") (auto simp: all_mock_def nullish_def dest!: jm_get_Some_in)
  then show ?thesis
    using assms by (auto simp: all_mock_def push_target_def Let_def mockInstanceId_def dest!: in_jm_set)
qed

text \<open>What an accepted scenario links are mock instances only, whatever its ships are.\<close>

theorem accepted_scenario_is_mock:
  assumes "debug_load s d = Inr d'"
  shows "all_mock (scenarioToEdits (scenario_of s) name)"
proof -
  have "check_links (length (sd_instances s)) (sd_links s) = None"
    using assms by (auto simp: debug_load_def split: if_splits option.splits)
  then have pos: "\<forall>(i, j)\<in>set (sc_links (scenario_of s)). 0 \<le> i \<and> 0 \<le> j"
    by (force simp: scenario_of_def link_in_range_def whole_index_def dest!: in_range_links split: if_splits)
  have "all_mock (foldl (\<lambda>edits (i, j). if i = j then edits else push_target name j i (push_target name i j edits)) E ls)"
    if "all_mock E" "\<forall>(i, j)\<in>set ls. 0 \<le> i \<and> 0 \<le> j" for E ls
    using that by (induction ls arbitrary: E) (auto simp: push_target_mock)
  from this [of "[]"] pos show ?thesis by (simp add: scenarioToEdits_def all_mock_def)
qed

text \<open>A ship with a negative index passes the check and is given the id of a real instance.\<close>

theorem negative_ship_is_accepted:
  assumes "debug_load (s\<lparr>sd_ships := []\<rparr>) d = Inr d'" and "0 < i" and "sd_instances s \<noteq> []"
  shows "\<exists>d2. debug_load (s\<lparr>sd_ships := [(num_of_int (- i - 1), num_of_int 0, ''completed'')]\<rparr>) d = Inr d2
    \<and> (\<exists>sh\<in>set (scenarioToShips (scenario_of (s\<lparr>sd_ships := [(num_of_int (- i - 1), num_of_int 0, ''completed'')]\<rparr>))).
         ms_sourceInstanceId sh = i)"
proof -
  have links: "check_links (length (sd_instances s)) (sd_links s) = None"
    using assms(1,3) by (auto simp: debug_load_def split: option.splits)
  have "ship_in_range (length (sd_instances s)) (num_of_int (- i - 1), num_of_int 0, ''completed'')"
    using assms(2,3) by (simp add: ship_in_range_def whole_index_def is_integer_def int_of_num_def)
  then show ?thesis
    using assms(2,3) links
    by (simp add: debug_load_def SHIP_PHASE_NAMES_def scenarioToShips_def scenario_of_def int_of_num_def mockInstanceId_def)
qed

end
