(* ===== verification/Spec2Isabelle.thy ===== *)
theory Spec2Isabelle
  imports Verdicts Sending Messages GatewayRules OperationOutcomes InstanceRules Authority Waiting
    PersistQueue Ledger TimelineRules CanvasRules WebClientRules RetryRace WebViewRules
    ShipRules ImportForm CanvasSessionRules CanvasDebugRules
begin

text \<open>
  A verification library for the Clusterio plugin \<open>surface_export\<close>
  (\<open>docker/seed-data/external_plugins/surface_export\<close>; paths below are relative to it). The plugin
  moves space platforms between Factorio instances of a cluster.

  \<^bold>\<open>The program.\<close> It runs in four places. The \<^emph>\<open>controller\<close> (controller.ts and lib/) stores exported
  platforms, runs transfers, keeps their logs and the gateway configuration, and pushes updates to
  subscribers. Every \<^emph>\<open>instance\<close> (instance.ts, lib/lua-interface.ts, helpers.ts) talks to the game
  over RCON: it exports, imports, validates, and locks, unlocks or deletes a source platform on the
  controller's request. The \<^emph>\<open>browser\<close> (web/) shows the state and edits gateway links. The messages
  between them are the classes of messages.ts. A transfer has two phases: the source is locked and
  exported, the export is imported at the destination, the destination reports a verdict, and only
  then is the source deleted (SUCCESS) or unlocked (FAILURE).

  \<^bold>\<open>How the source is represented.\<close>
  \<^item> A class or interface is a record, an enumeration or tagged union a datatype, a nullable value an
    option. A \<open>Map\<close> is an association list in insertion order (JsMap). Active transfers, which the
    code shares and mutates, are objects of an explicit heap and handlers hold references to them
    (Plugin).
  \<^item> An \<open>async\<close> function is a resumption (Async): a state transformer that runs to its first
    \<open>await\<close> and returns the rest of the computation, a value, or a thrown error. A theorem about
    interleavings lets any state change allowed by the other handlers happen at every \<open>await\<close>; a
    theorem about one run fixes the state in between and still quantifies over every answer.
  \<^item> What a handler asks for (a message to an instance, a file operation, a timer) is an element of
    the request type of its state and is recorded in a trace, as are pushes to subscribers and
    notifications. The answer is arbitrary, errors and lost sessions included.
  \<^item> Timestamps, revisions and ids are unbounded integers, sums of durations exact rationals, the
    checksum a 32-bit word. A run-time value whose type the code inspects is a \<open>jsval\<close> (JsValue).
  \<^item> Text is UTF-8 bytes; where the code counts or compares 16-bit units (the RCON encoding, the
    order of the canvas) it is a list of units (Encoding, GatewayGraph).
  \<^item> Files are documents or errors, except the audit ledger, which is modelled as text on a disk
    whose every call may fail (Ledger). The clock is a field of the state.
  \<^item> Arguments stand for what the repository does not define: the collation of \<open>localeCompare\<close>,
    \<open>toLocaleString\<close>, random ids, the text of a \<open>SyntaxError\<close>, \<open>escapeString\<close> of Clusterio.

  \<^bold>\<open>Foundations.\<close>
  \<^item> Prelude: the theorem collections \<open>js_defs\<close>, \<open>map_laws\<close>, \<open>frame_laws\<close>, \<open>wf_intros\<close>; null
    operators, decimal text, the stable sort and the locale \<open>comparator\<close>.
  \<^item> JsMap (locale \<open>keyed_store\<close>), JsValue, Json, JsonParse: values, \<open>JSON.stringify\<close>, \<open>JSON.parse\<close>
    and their round trip.
  \<^item> Async: sequencing, \<open>try\<close>, loops over lists; running a handler with given answers; locale
    \<open>guarantee\<close>, by which a relation that is reflexive, transitive and kept by every segment of a
    handler holds of the handler at every interleaving.

  \<^bold>\<open>The controller.\<close>
  \<^item> Plugin, Helpers: the state shared by its parts (\<open>IControllerPlugin\<close>, messages.ts,
    shared/dto.ts), error texts and metrics (helpers.ts, shared/utils.ts).
  \<^item> Ids: the three composite keys and their parsers, by one locale \<open>id_codec\<close>; a canonical transfer
    id is parsed back to what it was made from.
  \<^item> Instances, TransferInfo, Subscriptions: lib/platform-tree.ts, the views of a transfer, and
    lib/subscription-manager.ts with lib/metrics.ts.
  \<^item> AuditRows, Ledger: lib/audit-ledger.ts. The fold shows of each transfer its last terminal row;
    appending with rotation refines a bounded list of generations; two theorems exhibit the faults
    after which rows that were written are lost.
  \<^item> PersistQueue: lib/persist-queue.ts as a step relation; the writes of a path take turns.
  \<^item> DetailRetention: lib/detail-retention.ts; the selection is exact and fair.
  \<^item> TransactionLogger, Storage, OperationRecord: lib/transaction-logger.ts, the stored exports,
    intents and committed-source markers of controller.ts, lib/operation-record.ts.
  \<^item> Orchestrator: lib/transfer-orchestrator.ts, every method. Operations: the other operations of
    controller.ts. Gateways: the gateway configuration.
  \<^item> Guarantees and Calm say of each handler what it keeps at every interleaving. Protocol composes
    all handlers into a step relation on the plugin and a pool of suspended handlers; Verdicts proves
    that only an accepted SUCCESS verdict leads to the deletion of a source.
  \<^item> Outcomes, Sending, Waiting, OperationOutcomes, GatewayRules: what each operation comes to for
    every answer, the record's status, the commands sent, what stays on disk.
  \<^item> Samples: the concrete states of the witnesses.

  \<^bold>\<open>The messages.\<close> Schema (JSON schemas and the locale \<open>message_class\<close>), Permissions,
  EventMessages, InstanceMessages, ControlMessages: messages.ts class by class, each interpreting
  the locale. Messages: the registry of index.ts, the relay of a document through \<open>fromJSON\<close> and
  \<open>toJSON\<close>, and the validity of every request the controller sends.

  \<^bold>\<open>The instance.\<close> Encoding (helpers.ts: ASCII form, checksum, long brackets, chunks), LuaInterface
  (lib/lua-interface.ts), InstancePlugin (instance.ts, every handler), InstanceRules (what it asks
  of the game and of the controller). Authority joins both sides: when a refused transfer request
  may unlock the source. RetryRace: two overlapping attempts on one export both import it.

  \<^bold>\<open>The browser.\<close>
  \<^item> Intervals, Timeline, TimelineRules: shared/transfer-timeline.ts; measured and residual time are
    the whole.
  \<^item> GatewayGraph, Canvas, CanvasRules: web/gateway/gateway-graph.ts and the logic of GatewayCanvas.tsx
    and debug-mode.ts; what the canvas stages, the controller accepts.
  \<^item> LiveStatus, WebUtils, WebClient, WebClientRules: shared/live-status.ts, shared/revision-gate.ts,
    web/utils.ts, and class \<open>WebPlugin\<close> of web/index.tsx; the shown tree never goes back.
  \<^item> WebViews, WebViewRules: the transaction log page (web/utils.ts); it shows what the controller recorded,
    and a lost fluid as lost.
  \<^item> Ships, ShipRules: shared/transfer-status.ts, web/gateway/transfer-motion.ts, layout-store.ts and the
    rest of debug-mode.ts; the ships drawn for transfers, the refusal of a connection, saved positions.
  \<^item> CanvasSession, CanvasSessionRules: the state and every handler of GatewayCanvas.tsx; every history of
    a session keeps the links in order, a session that has loaded is accepted by the controller, one
    that failed to load saves over links it never saw.
  \<^item> CanvasDebug, CanvasDebugRules: the edges with the transfers on them, each drawn once, and
    web/gateway/debug-api.ts; what an accepted scenario links are mock instances.
  \<^item> ImportForm: web/ImportModal.tsx and TransferModal.tsx; a file that is read late replaces the
    document of the file chosen after it.

  \<^bold>\<open>Loops and fuel.\<close> \<open>JSON.parse\<close> is read with twice the length of the text as fuel, enough since
  every second call consumes a character (JsonParse proves the round trip, hence that it is enough
  for every text the program writes). Polling takes as many units as the timeout has milliseconds,
  and Waiting proves that the deadline ends the wait before they run out. The chunk loop may not end
  in the code (chunk size 0) and is a partial function; its property says exactly when it ends. All
  other loops are structural or proved to terminate.

  \<^bold>\<open>Not modelled.\<close>
  \<^item> React components (the functions of web/ that return elements), styles, toasts, drag and animation
    state: they produce no state the properties speak of. Calling a registered callback is such a
    state update and is left out of WebClient. The end points of a floating edge
    (edge-geometry.ts) are distances on the screen.
  \<^item> The registration of the plugin (index.ts apart from its message list, control.ts): declarations
    read by Clusterio, and the printing of replies.
  \<^item> The Lua mod under module/: another language, run inside the game. Its replies are arbitrary
    answers here.
  \<^item> Log output, except the events a transfer's log keeps.
  \<^item> The lint, build and tool scripts, and the tests.
\<close>

end
